(* ===== verification/Prelude.thy ===== *)
theory Prelude
  imports Main
begin

text \<open>
  What every component of the development shares: Python strings as lists of Unicode code
  points, the exceptions the services raise, and the state-and-exception actions in which the
  asynchronous handlers are written. An action takes the state it runs in and returns its
  outcome (\<open>Inl\<close> the exception, \<open>Inr\<close> the value) together with the state it leaves behind, so
  a raise keeps the effects made before it, as in Python.
\<close>

named_theorems lit_eval \<open>evaluation of string literals to code points\<close>
named_theorems act_simps \<open>unfolding of actions on a given state\<close>

section \<open>Strings\<close>

text \<open>
  A Python \<open>str\<close> is a sequence of code points; the services count and cut text by code point
  and by UTF-16 unit, so a byte-sized \<open>char\<close> would not do. \<open>lit\<close> embeds an ASCII literal.
\<close>

type_synonym ustr = "nat list"

definition lit :: "string \<Rightarrow> ustr" where
  "lit s = map of_char s"

lemma lit_simps [lit_eval]:
  "lit [] = []"
  "lit (c # cs) = of_char c # lit cs"
  by (simp_all add: lit_def)

lemma lit_Nil [simp]: "lit [] = []"
  by (simp add: lit_def)

lemma lit_append: "lit (a @ b) = lit a @ lit b"
  by (simp add: lit_def)

lemma length_lit [simp]: "length (lit s) = length s"
  by (simp add: lit_def)

lemma lit_eq_iff [simp]: "lit a = lit b \<longleftrightarrow> a = b"
proof -
  have "inj (of_char :: char \<Rightarrow> nat)" by (rule injI) simp
  then show ?thesis by (simp add: lit_def inj_map_eq_map)
qed

section \<open>Exceptions\<close>

text \<open>
  The exceptions that cross a function boundary somewhere in the modelled code, each with the
  text \<open>str(exc)\<close> gives. \<open>CancelledError\<close> is the only one that is a \<open>BaseException\<close> but not an
  \<open>Exception\<close>, so a bare \<open>except Exception\<close> lets it through.
\<close>

datatype exn =
    ValidationError ustr
  | PermanentError ustr
  | TransientError ustr
  | DatabaseError ustr
  | PublishError ustr
  | ValueError ustr
  | RuntimeError ustr
  | OtherError ustr
  | CancelledError

fun exn_text :: "exn \<Rightarrow> ustr" where
  "exn_text (ValidationError m) = m"
| "exn_text (PermanentError m) = m"
| "exn_text (TransientError m) = m"
| "exn_text (DatabaseError m) = m"
| "exn_text (PublishError m) = m"
| "exn_text (ValueError m) = m"
| "exn_text (RuntimeError m) = m"
| "exn_text (OtherError m) = m"
| "exn_text CancelledError = []"

fun is_Exception :: "exn \<Rightarrow> bool" where
  "is_Exception CancelledError = False"
| "is_Exception _ = True"

section \<open>Actions\<close>

type_synonym ('s, 'a) act = "'s \<Rightarrow> (exn + 'a) \<times> 's"

definition ret :: "'a \<Rightarrow> ('s, 'a) act" where
  "ret x = (\<lambda>s. (Inr x, s))"

definition raise :: "exn \<Rightarrow> ('s, 'a) act" where
  "raise e = (\<lambda>s. (Inl e, s))"

definition bind_act :: "('s, 'a) act \<Rightarrow> ('a \<Rightarrow> ('s, 'b) act) \<Rightarrow> ('s, 'b) act" where
  "bind_act m f = (\<lambda>s. case m s of (Inl e, t) \<Rightarrow> (Inl e, t) | (Inr x, t) \<Rightarrow> f x t)"

definition modify_act :: "('s \<Rightarrow> 's) \<Rightarrow> ('s, unit) act" where
  "modify_act f = (\<lambda>s. (Inr (), f s))"

text \<open>A pure computation that may raise, run inside an action.\<close>

definition lift_act :: "exn + 'a \<Rightarrow> ('s, 'a) act" where
  "lift_act r = (\<lambda>s. (r, s))"

text \<open>The body of a \<open>for\<close> loop run over a list; an exception leaves the loop.\<close>

primrec for_each :: "('x \<Rightarrow> ('s, unit) act) \<Rightarrow> 'x list \<Rightarrow> ('s, unit) act" where
  "for_each f [] = ret ()"
| "for_each f (x # xs) = bind_act (f x) (\<lambda>_. for_each f xs)"

lemma ret_apply [simp, act_simps]: "ret x s = (Inr x, s)"
  by (simp add: ret_def)

lemma raise_apply [simp, act_simps]: "raise e s = (Inl e, s)"
  by (simp add: raise_def)

lemma modify_act_apply [simp, act_simps]: "modify_act f s = (Inr (), f s)"
  by (simp add: modify_act_def)

lemma lift_act_apply [simp, act_simps]: "lift_act r s = (r, s)"
  by (simp add: lift_act_def)

lemma bind_act_Inl: "m s = (Inl e, t) \<Longrightarrow> bind_act m f s = (Inl e, t)"
  by (simp add: bind_act_def)

lemma bind_act_Inr: "m s = (Inr x, t) \<Longrightarrow> bind_act m f s = f x t"
  by (simp add: bind_act_def)

lemmas bind_act_step [simp, act_simps] = bind_act_Inl bind_act_Inr

lemma bind_ret [simp]: "bind_act (ret x) f = f x"
  by (rule ext) simp

lemma bind_act_assoc: "bind_act (bind_act m f) g = bind_act m (\<lambda>x. bind_act (f x) g)"
  by (rule ext) (simp add: bind_act_def split: prod.split sum.split)

lemma bind_act_InrE:
  assumes "bind_act m f s = (Inr y, u)"
  obtains x t where "m s = (Inr x, t)" and "f x t = (Inr y, u)"
  using assms by (auto simp: bind_act_def split: prod.splits sum.splits)

lemma bind_act_InlE:
  assumes "bind_act m f s = (Inl e, u)"
  obtains (first) "m s = (Inl e, u)"
    | (second) x t where "m s = (Inr x, t)" and "f x t = (Inl e, u)"
  using assms by (auto simp: bind_act_def split: prod.splits sum.splits)

lemma for_each_append:
  "for_each f (xs @ ys) = bind_act (for_each f xs) (\<lambda>_. for_each f ys)"
  by (induction xs) (simp_all add: bind_act_assoc)

section \<open>Triples\<close>

text \<open>
  \<open>hoare P m Q R\<close>: from a state in \<open>P\<close>, the action either returns a value \<open>x\<close> in a state in
  \<open>Q x\<close> or raises an exception \<open>e\<close> in a state in \<open>R e\<close>. The loop rule carries an invariant
  indexed by the part of the list already done.
\<close>

definition hoare :: "('s \<Rightarrow> bool) \<Rightarrow> ('s, 'a) act \<Rightarrow> ('a \<Rightarrow> 's \<Rightarrow> bool) \<Rightarrow> (exn \<Rightarrow> 's \<Rightarrow> bool) \<Rightarrow> bool" where
  "hoare P m Q R \<longleftrightarrow> (\<forall>s. P s \<longrightarrow> (case m s of (Inl e, t) \<Rightarrow> R e t | (Inr x, t) \<Rightarrow> Q x t))"

lemma hoareI:
  assumes "\<And>s x t. P s \<Longrightarrow> m s = (Inr x, t) \<Longrightarrow> Q x t"
    and "\<And>s e t. P s \<Longrightarrow> m s = (Inl e, t) \<Longrightarrow> R e t"
  shows "hoare P m Q R"
  unfolding hoare_def using assms by (auto split: prod.split sum.split)

lemma hoareD_Inr: "hoare P m Q R \<Longrightarrow> P s \<Longrightarrow> m s = (Inr x, t) \<Longrightarrow> Q x t"
  by (auto simp: hoare_def)

lemma hoareD_Inl: "hoare P m Q R \<Longrightarrow> P s \<Longrightarrow> m s = (Inl e, t) \<Longrightarrow> R e t"
  by (auto simp: hoare_def)

lemma hoare_conseq:
  assumes "hoare P' m Q' R'" and "\<And>s. P s \<Longrightarrow> P' s"
    and "\<And>x s. Q' x s \<Longrightarrow> Q x s" and "\<And>e s. R' e s \<Longrightarrow> R e s"
  shows "hoare P m Q R"
  by (rule hoareI) (use assms in \<open>blast dest: hoareD_Inr hoareD_Inl\<close>)+

lemma hoare_ret: "(\<And>s. P s \<Longrightarrow> Q x s) \<Longrightarrow> hoare P (ret x) Q R"
  by (simp add: hoare_def)

lemma hoare_raise: "(\<And>s. P s \<Longrightarrow> R e s) \<Longrightarrow> hoare P (raise e) Q R"
  by (simp add: hoare_def)

lemma hoare_modify: "(\<And>s. P s \<Longrightarrow> Q () (f s)) \<Longrightarrow> hoare P (modify_act f) Q R"
  by (simp add: hoare_def)

lemma hoare_lift:
  "(\<And>s x. P s \<Longrightarrow> r = Inr x \<Longrightarrow> Q x s) \<Longrightarrow> (\<And>s e. P s \<Longrightarrow> r = Inl e \<Longrightarrow> R e s) \<Longrightarrow>
   hoare P (lift_act r) Q R"
  by (rule hoareI) auto

lemma hoare_bind:
  assumes "hoare P m M R" and "\<And>x. hoare (M x) (f x) Q R"
  shows "hoare P (bind_act m f) Q R"
proof (rule hoareI)
  fix s y u assume "P s" "bind_act m f s = (Inr y, u)"
  then show "Q y u" by (meson assms bind_act_InrE hoareD_Inr)
next
  fix s e u assume P: "P s" and b: "bind_act m f s = (Inl e, u)"
  from b show "R e u"
  proof (cases rule: bind_act_InlE)
    case first
    with assms(1) P show ?thesis by (rule hoareD_Inl)
  next
    case (second x t)
    from assms(1) P second(1) have "M x t" by (rule hoareD_Inr)
    with assms(2) show ?thesis using second(2) by (rule hoareD_Inl)
  qed
qed

text \<open>Auxiliary variables of the precondition.\<close>

lemma hoare_ex: "(\<And>d. A d \<Longrightarrow> hoare (P d) m Q R) \<Longrightarrow> hoare (\<lambda>s. \<exists>d. P d s \<and> A d) m Q R"
  by (rule hoareI) (blast dest: hoareD_Inr hoareD_Inl)+

lemma hoare_for_each_aux:
  assumes "\<And>ys x zs. xs0 = ys @ x # zs \<Longrightarrow> hoare (I ys) (f x) (\<lambda>_. I (ys @ [x])) R"
    and "xs0 = ys @ xs"
  shows "hoare (I ys) (for_each f xs) (\<lambda>_. I xs0) R"
  using assms(2)
proof (induction xs arbitrary: ys)
  case Nil
  then show ?case by (simp add: hoare_def)
next
  case (Cons x xs)
  have "hoare (I ys) (f x) (\<lambda>_. I (ys @ [x])) R" using assms(1) Cons.prems by blast
  moreover have "hoare (I (ys @ [x])) (for_each f xs) (\<lambda>_. I xs0) R" using Cons by simp
  ultimately show ?case by (auto intro: hoare_bind)
qed

lemma hoare_for_each:
  assumes "\<And>ys x zs. xs = ys @ x # zs \<Longrightarrow> hoare (I ys) (f x) (\<lambda>_. I (ys @ [x])) R"
  shows "hoare (I []) (for_each f xs) (\<lambda>_. I xs) R"
  using hoare_for_each_aux [of xs I f R "[]" xs] assms by simp

section \<open>Lists and options\<close>

lemma map_filter_cong_upd:
  "(\<And>x. x \<in> set xs \<Longrightarrow> f (g x) = f x) \<Longrightarrow> map f (map g xs) = map f xs"
  by simp

lemma distinct_map_same: "(\<And>x. f (g x) = f x) \<Longrightarrow> distinct (map f (map g xs)) = distinct (map f xs)"
  by (simp add: comp_def)

lemma takeWhile_append_stop: "\<forall>x \<in> set xs. P x \<Longrightarrow> \<not> P y \<Longrightarrow> takeWhile P (xs @ y # ys) = xs"
  by (induction xs) auto

lemma dropWhile_append_stop: "\<forall>x \<in> set xs. P x \<Longrightarrow> \<not> P y \<Longrightarrow> dropWhile P (xs @ y # ys) = y # ys"
  by (induction xs) auto

text \<open>All results of a list of partial results, or none.\<close>

fun sequence :: "'a option list \<Rightarrow> 'a list option" where
  "sequence [] = Some []"
| "sequence (None # _) = None"
| "sequence (Some x # xs) = map_option (Cons x) (sequence xs)"

lemma sequence_map_Some: "(\<And>x. x \<in> set xs \<Longrightarrow> f (g x) = Some x) \<Longrightarrow>
    sequence (map f (map g xs)) = Some xs"
  by (induction xs) auto

lemma sequence_length: "sequence xs = Some ys \<Longrightarrow> length ys = length xs"
  by (induction xs arbitrary: ys rule: sequence.induct) auto

text \<open>The same for a computation that may raise, run left to right.\<close>

fun map_raise :: "('x \<Rightarrow> exn + 'a) \<Rightarrow> 'x list \<Rightarrow> exn + 'a list" where
  "map_raise f [] = Inr []"
| "map_raise f (x # xs) =
     (case f x of Inl e \<Rightarrow> Inl e
      | Inr y \<Rightarrow> (case map_raise f xs of Inl e \<Rightarrow> Inl e | Inr ys \<Rightarrow> Inr (y # ys)))"

lemma map_raise_Inr: "(\<And>x. x \<in> set xs \<Longrightarrow> f x = Inr (g x)) \<Longrightarrow> map_raise f xs = Inr (map g xs)"
  by (induction xs) auto

lemma map_raise_total: "(\<And>x. x \<in> set xs \<Longrightarrow> \<exists>y. f x = Inr y) \<Longrightarrow> \<exists>ys. map_raise f xs = Inr ys"
  by (induction xs) (force split: sum.split)+

lemma map_raise_length: "map_raise f xs = Inr ys \<Longrightarrow> length ys = length xs"
  by (induction xs arbitrary: ys) (auto split: sum.splits)

lemma map_raise_nth:
  "map_raise f xs = Inr ys \<Longrightarrow> i < length xs \<Longrightarrow> f (xs ! i) = Inr (ys ! i)"
proof (induction xs arbitrary: ys i)
  case (Cons x xs)
  then show ?case by (cases i) (auto split: sum.splits)
qed simp

end
