(* ===== verification/PyText.thy ===== *)
theory PyText
  imports Prelude
begin

text \<open>
  The operations of Python's \<open>str\<close>, \<open>re\<close> and \<open>html\<close> modules that the services use, on lists of
  code points: white space and \<open>strip\<close>, decimal digits and \<open>int\<close>, \<open>str(int)\<close>, \<open>join\<close>, \<open>lower\<close>,
  \<open>html.escape\<close> and the UTF-16 length that Telegram counts. The character classes are those of
  Unicode 15.0, the version of the Python 3.12 runtime in the services' Dockerfiles.
\<close>

section \<open>White space\<close>

text \<open>\<open>str.isspace\<close>; the class \<open>\s\<close> of a \<open>str\<close> pattern holds the same code points.\<close>

definition space_cps :: "nat list" where
  "space_cps = [0x09, 0x0A, 0x0B, 0x0C, 0x0D, 0x1C, 0x1D, 0x1E, 0x1F, 0x20, 0x85, 0xA0,
     0x1680, 0x2000, 0x2001, 0x2002, 0x2003, 0x2004, 0x2005, 0x2006, 0x2007, 0x2008, 0x2009,
     0x200A, 0x2028, 0x2029, 0x202F, 0x205F, 0x3000]"

definition is_space :: "nat \<Rightarrow> bool" where
  "is_space c \<longleftrightarrow> c \<in> set space_cps"

definition lstrip :: "ustr \<Rightarrow> ustr" where
  "lstrip s = dropWhile is_space s"

definition rstrip :: "ustr \<Rightarrow> ustr" where
  "rstrip s = rev (dropWhile is_space (rev s))"

definition strip :: "ustr \<Rightarrow> ustr" where
  "strip s = rstrip (lstrip s)"

lemma lstrip_Nil [simp]: "lstrip [] = []"
  by (simp add: lstrip_def)

lemma rstrip_Nil [simp]: "rstrip [] = []"
  by (simp add: rstrip_def)

lemma strip_Nil [simp]: "strip [] = []"
  by (simp add: strip_def)

lemma rstrip_prefix: "\<exists>t. s = rstrip s @ t \<and> (\<forall>c \<in> set t. is_space c)"
proof -
  have "s = rev (takeWhile is_space (rev s) @ dropWhile is_space (rev s))" by simp
  then have "s = rstrip s @ rev (takeWhile is_space (rev s))"
    unfolding rstrip_def by (simp only: rev_append)
  moreover have "\<forall>c \<in> set (rev (takeWhile is_space (rev s))). is_space c"
    by (auto dest: set_takeWhileD)
  ultimately show ?thesis by blast
qed

lemma set_rstrip: "set (rstrip s) \<subseteq> set s"
  using rstrip_prefix [of s] by (metis Un_upper1 set_append)

lemma set_strip: "set (strip s) \<subseteq> set s"
proof -
  have "set (lstrip s) \<subseteq> set s" by (auto simp: lstrip_def dest: set_dropWhileD)
  then show ?thesis using set_rstrip [of "lstrip s"] by (auto simp: strip_def)
qed

lemma length_rstrip: "length (rstrip s) \<le> length s"
  using rstrip_prefix [of s] by (metis le_add1 length_append)

lemma rstrip_last: "rstrip s \<noteq> [] \<Longrightarrow> \<not> is_space (last (rstrip s))"
  unfolding rstrip_def by (simp add: last_rev hd_dropWhile)

lemma rstrip_id: "s = [] \<or> \<not> is_space (last s) \<Longrightarrow> rstrip s = s"
  unfolding rstrip_def by (cases s rule: rev_cases) auto

lemma lstrip_id: "s = [] \<or> \<not> is_space (hd s) \<Longrightarrow> lstrip s = s"
  unfolding lstrip_def by (cases s) auto

lemma strip_id: "s = [] \<or> (\<not> is_space (hd s) \<and> \<not> is_space (last s)) \<Longrightarrow> strip s = s"
  unfolding strip_def using lstrip_id rstrip_id by metis

lemma hd_append_rstrip: "rstrip s \<noteq> [] \<Longrightarrow> hd (rstrip s) = hd s"
  using rstrip_prefix [of s] by (metis hd_append2)

lemma strip_hd: "strip s \<noteq> [] \<Longrightarrow> \<not> is_space (hd (strip s))"
proof -
  assume ne: "strip s \<noteq> []"
  then have "lstrip s \<noteq> []" unfolding strip_def by (metis rstrip_Nil)
  then have "\<not> is_space (hd (lstrip s))" unfolding lstrip_def by (simp add: hd_dropWhile)
  with ne show ?thesis unfolding strip_def by (simp add: hd_append_rstrip)
qed

lemma strip_last: "strip s \<noteq> [] \<Longrightarrow> \<not> is_space (last (strip s))"
  unfolding strip_def by (rule rstrip_last)

lemma strip_idem [simp]: "strip (strip s) = strip s"
  by (rule strip_id) (use strip_hd strip_last in blast)

section \<open>Decimal digits\<close>

text \<open>
  Category \<open>Nd\<close>: what \<open>\d\<close> matches in a \<open>str\<close> pattern and what \<open>int\<close> reads. The digits come in
  runs of ten, in value order; the list holds the zero of each run.
\<close>

definition zero_cps :: "nat list" where
  "zero_cps = [48, 1632, 1776, 1984, 2406, 2534, 2662, 2790, 2918, 3046, 3174, 3302, 3430, 3558,
     3664, 3792, 3872, 4160, 4240, 6112, 6160, 6470, 6608, 6784, 6800, 6992, 7088, 7232, 7248,
     42528, 43216, 43264, 43472, 43504, 43600, 44016, 65296, 66720, 68912, 69734, 69872, 69942,
     70096, 70384, 70736, 70864, 71248, 71360, 71472, 71904, 72016, 72784, 73040, 73120, 73552,
     92768, 92864, 93008, 120782, 120792, 120802, 120812, 120822, 123200, 123632, 124144,
     125264, 130032]"

definition digit_value :: "nat \<Rightarrow> nat option" where
  "digit_value c = map_option (\<lambda>z. c - z) (List.find (\<lambda>z. z \<le> c \<and> c < z + 10) zero_cps)"

definition is_digit :: "nat \<Rightarrow> bool" where
  "is_digit c \<longleftrightarrow> digit_value c \<noteq> None"

lemma find_SomeD: "List.find P xs = Some x \<Longrightarrow> x \<in> set xs \<and> P x"
  by (induction xs) (auto split: if_splits)

lemma digit_value_lt: "digit_value c = Some d \<Longrightarrow> d < 10"
  by (auto simp: digit_value_def dest!: find_SomeD)

lemma digit_value_ascii: "d < 10 \<Longrightarrow> digit_value (48 + d) = Some d"
  by (simp add: digit_value_def zero_cps_def)

lemma is_digit_ascii: "d < 10 \<Longrightarrow> is_digit (48 + d)"
  by (simp add: is_digit_def digit_value_ascii)

text \<open>
  \<open>int(s)\<close> on a string of decimal digits. CPython refuses more than 4300 of them
  (\<open>sys.get_int_max_str_digits\<close>), leading zeros counted.
\<close>

definition max_str_digits :: nat where
  "max_str_digits = 4300"

definition digits_value :: "ustr \<Rightarrow> nat" where
  "digits_value ds = foldl (\<lambda>n c. 10 * n + (case digit_value c of Some d \<Rightarrow> d | None \<Rightarrow> 0)) 0 ds"

definition py_int :: "ustr \<Rightarrow> exn + int" where
  "py_int ds =
     (if ds = [] \<or> \<not> list_all is_digit ds
      then Inl (ValueError (lit ''invalid literal for int() with base 10''))
      else if length ds > max_str_digits
      then Inl (ValueError (lit ''Exceeds the limit (4300 digits) for integer string conversion''))
      else Inr (int (digits_value ds)))"

text \<open>\<open>str(n)\<close> of an integer.\<close>

fun show_nat :: "nat \<Rightarrow> ustr" where
  "show_nat n = (if n < 10 then [48 + n] else show_nat (n div 10) @ [48 + n mod 10])"

declare show_nat.simps [simp del]

lemma show_nat_small: "n < 10 \<Longrightarrow> show_nat n = [48 + n]"
  by (subst show_nat.simps) simp

lemma show_nat_big: "\<not> n < 10 \<Longrightarrow> show_nat n = show_nat (n div 10) @ [48 + n mod 10]"
  by (subst show_nat.simps) simp

definition show_int :: "int \<Rightarrow> ustr" where
  "show_int i = (if i < 0 then 45 # show_nat (nat (- i)) else show_nat (nat i))"

lemma show_nat_nonempty [simp]: "show_nat n \<noteq> []"
  by (subst show_nat.simps) simp

lemma show_nat_ascii_digits: "\<forall>c \<in> set (show_nat n). 48 \<le> c \<and> c < 58"
proof (induction n rule: show_nat.induct)
  case (1 n)
  show ?case
  proof (cases "n < 10")
    case True
    then show ?thesis by (simp add: show_nat_small)
  next
    case False
    then have "n mod 10 < 10" by simp
    with False 1 show ?thesis by (auto simp: show_nat_big)
  qed
qed

lemma show_nat_is_digit: "list_all is_digit (show_nat n)"
proof (rule list_all_iff [THEN iffD2], rule ballI)
  fix c assume "c \<in> set (show_nat n)"
  then have "48 \<le> c \<and> c < 58" using show_nat_ascii_digits by blast
  then have "c = 48 + (c - 48)" "c - 48 < 10" by auto
  then show "is_digit c" using is_digit_ascii by metis
qed

lemma digits_value_snoc:
  "digits_value (ds @ [c]) = 10 * digits_value ds + (case digit_value c of Some d \<Rightarrow> d | None \<Rightarrow> 0)"
  by (simp add: digits_value_def)

lemma digits_value_show_nat: "digits_value (show_nat n) = n"
proof (induction n rule: show_nat.induct)
  case (1 n)
  show ?case
  proof (cases "n < 10")
    case True
    then show ?thesis
      using digit_value_ascii [OF True] by (simp add: show_nat_small digits_value_def)
  next
    case False
    have "digit_value (48 + n mod 10) = Some (n mod 10)" by (rule digit_value_ascii) simp
    with False 1 show ?thesis by (simp add: show_nat_big digits_value_snoc)
  qed
qed

lemma py_int_show_nat: "length (show_nat n) \<le> max_str_digits \<Longrightarrow> py_int (show_nat n) = Inr (int n)"
  by (simp add: py_int_def show_nat_is_digit digits_value_show_nat)

lemma show_nat_inj: "show_nat a = show_nat b \<longleftrightarrow> a = b"
  by (metis digits_value_show_nat)

lemma length_show_nat_le: "n < 10 ^ k \<Longrightarrow> 0 < k \<Longrightarrow> length (show_nat n) \<le> k"
proof (induction k arbitrary: n)
  case (Suc k)
  show ?case
  proof (cases "n < 10")
    case True
    then show ?thesis by (simp add: show_nat_small)
  next
    case False
    with Suc.prems have lt: "n div 10 < 10 ^ k" by (simp add: div_less_iff_less_mult mult.commute)
    have "0 < k"
    proof (rule ccontr)
      assume "\<not> 0 < k"
      with Suc.prems False show False by simp
    qed
    then have "length (show_nat (n div 10)) \<le> k" using Suc.IH lt by blast
    with False show ?thesis by (simp add: show_nat_big)
  qed
qed simp

section \<open>Joining and lowering\<close>

fun py_join :: "ustr \<Rightarrow> ustr list \<Rightarrow> ustr" where
  "py_join sep [] = []"
| "py_join sep [x] = x"
| "py_join sep (x # y # zs) = x @ sep @ py_join sep (y # zs)"

text \<open>
  \<open>str.lower\<close> on the ASCII and the Cyrillic capitals; other code points are left alone. The two
  places that call it look the result up among keys spelled with the letters
  \<open>debuginfowarningerror\<close> and the Cyrillic letters of the two budget prefixes, and no code point
  outside these ranges has one of those letters as its lower case.
\<close>

definition lower_cp :: "nat \<Rightarrow> nat" where
  "lower_cp c =
     (if 0x41 \<le> c \<and> c \<le> 0x5A then c + 0x20
      else if 0x410 \<le> c \<and> c \<le> 0x42F then c + 0x20
      else if 0x400 \<le> c \<and> c \<le> 0x40F then c + 0x50
      else c)"

definition py_lower :: "ustr \<Rightarrow> ustr" where
  "py_lower s = map lower_cp s"

lemma lower_cp_idem [simp]: "lower_cp (lower_cp c) = lower_cp c"
  by (simp add: lower_cp_def)

lemma py_lower_idem [simp]: "py_lower (py_lower s) = py_lower s"
  by (simp add: py_lower_def)

section \<open>HTML escaping\<close>

text \<open>\<open>s.replace(c, r)\<close> for a single code point \<open>c\<close>.\<close>

definition replace_cp :: "nat \<Rightarrow> ustr \<Rightarrow> ustr \<Rightarrow> ustr" where
  "replace_cp c r s = concat (map (\<lambda>x. if x = c then r else [x]) s)"

definition amp_ent :: ustr where "amp_ent = lit ''&amp;''"
definition lt_ent :: ustr where "lt_ent = lit ''&lt;''"
definition gt_ent :: ustr where "gt_ent = lit ''&gt;''"

text \<open>\<open>html.escape(s, quote=False)\<close>: the ampersand first, so the others are not escaped twice.\<close>

definition html_escape :: "ustr \<Rightarrow> ustr" where
  "html_escape s = replace_cp 62 gt_ent (replace_cp 60 lt_ent (replace_cp 38 amp_ent s))"

definition esc_cp :: "nat \<Rightarrow> ustr" where
  "esc_cp c = (if c = 38 then amp_ent else if c = 60 then lt_ent else if c = 62 then gt_ent else [c])"

lemmas ent_defs = amp_ent_def lt_ent_def gt_ent_def

lemma replace_cp_append: "replace_cp c r (s @ t) = replace_cp c r s @ replace_cp c r t"
  by (simp add: replace_cp_def)

lemma replace_cp_id: "c \<notin> set s \<Longrightarrow> replace_cp c r s = s"
  unfolding replace_cp_def by (induction s) auto

lemma html_escape_Nil [simp]: "html_escape [] = []"
  by (simp add: html_escape_def replace_cp_def)

lemma html_escape_append: "html_escape (s @ t) = html_escape s @ html_escape t"
  by (simp add: html_escape_def replace_cp_append)

lemma html_escape_single: "html_escape [c] = esc_cp c"
  by (simp add: html_escape_def replace_cp_def esc_cp_def ent_defs lit_eval)

lemma html_escape_Cons: "html_escape (c # s) = esc_cp c @ html_escape s"
  using html_escape_append [of "[c]" s] by (simp add: html_escape_single)

lemma html_escape_concat: "html_escape s = concat (map esc_cp s)"
  by (induction s) (simp_all add: html_escape_Cons)

section \<open>UTF-16 length\<close>

definition cp_width :: "nat \<Rightarrow> nat" where
  "cp_width c = (if c > 0xFFFF then 2 else 1)"

lemma cp_width_pos: "1 \<le> cp_width c"
  by (simp add: cp_width_def)

lemma cp_width_bounds: "cp_width c = 1 \<or> cp_width c = 2"
  by (simp add: cp_width_def)

end
