(* ===== verification/UrlQuote.thy ===== *)
theory UrlQuote
  imports PyText
begin

text \<open>
  \<open>urllib.parse.quote(s, safe="")\<close> of the standard library, with which the settings of the three
  services put credentials into connection URLs: UTF-8, then percent-encoding of every byte that is
  not unreserved. \<open>unquote\<close> is the inverse the drivers apply; it is here to state what the encoding
  keeps. Bytes are natural numbers below 256.
\<close>

section \<open>UTF-8\<close>

definition is_scalar :: "nat \<Rightarrow> bool" where
  "is_scalar c \<longleftrightarrow> c < 0xD800 \<or> (0xDFFF < c \<and> c < 0x110000)"

definition utf8_cp :: "nat \<Rightarrow> nat list" where
  "utf8_cp c =
     (if c < 0x80 then [c]
      else if c < 0x800 then [0xC0 + c div 64, 0x80 + c mod 64]
      else if c < 0x10000 then [0xE0 + c div 4096, 0x80 + c div 64 mod 64, 0x80 + c mod 64]
      else [0xF0 + c div 262144, 0x80 + c div 4096 mod 64, 0x80 + c div 64 mod 64, 0x80 + c mod 64])"

text \<open>Encoding is strict: a lone surrogate raises \<open>UnicodeEncodeError\<close>, a \<open>ValueError\<close>.\<close>

definition utf8 :: "ustr \<Rightarrow> exn + nat list" where
  "utf8 s = (if list_all is_scalar s then Inr (concat (map utf8_cp s))
     else Inl (ValueError (lit ''surrogates not allowed'')))"

fun utf8_decode :: "nat list \<Rightarrow> ustr" where
  "utf8_decode [] = []"
| "utf8_decode (a # bs) =
     (if a < 0x80 then a # utf8_decode bs
      else if a < 0xE0 then (case bs of b # cs \<Rightarrow> ((a - 0xC0) * 64 + (b - 0x80)) # utf8_decode cs | _ \<Rightarrow> [])
      else if a < 0xF0 then (case bs of b # c # ds \<Rightarrow>
          ((a - 0xE0) * 4096 + (b - 0x80) * 64 + (c - 0x80)) # utf8_decode ds | _ \<Rightarrow> [])
      else (case bs of b # c # d # es \<Rightarrow>
          ((a - 0xF0) * 262144 + (b - 0x80) * 4096 + (c - 0x80) * 64 + (d - 0x80)) # utf8_decode es
        | _ \<Rightarrow> []))"

lemma utf8_cp_byte: "is_scalar c \<Longrightarrow> b \<in> set (utf8_cp c) \<Longrightarrow> b < 256"
  by (auto simp: utf8_cp_def is_scalar_def split: if_splits)

lemma split_base64:
  fixes c :: nat
  shows "c div 64 * 64 + c mod 64 = c"
    and "c div 4096 * 4096 + c div 64 mod 64 * 64 + c mod 64 = c"
    and "c div 262144 * 262144 + c div 4096 mod 64 * 4096 + c div 64 mod 64 * 64 + c mod 64 = c"
proof -
  show "c div 64 * 64 + c mod 64 = c" by simp
  have "c div 4096 = c div 64 div 64" "c div 262144 = c div 4096 div 64" by (simp_all add: div_mult2_eq [symmetric])
  then have "c div 64 = c div 4096 * 64 + c div 64 mod 64" "c div 4096 = c div 262144 * 64 + c div 4096 mod 64"
    by (metis div_mult_mod_eq)+
  moreover have "c = c div 64 * 64 + c mod 64" by simp
  ultimately show "c div 4096 * 4096 + c div 64 mod 64 * 64 + c mod 64 = c"
    "c div 262144 * 262144 + c div 4096 mod 64 * 4096 + c div 64 mod 64 * 64 + c mod 64 = c"
    by linarith+
qed

lemma utf8_decode_cp:
  assumes "is_scalar c"
  shows "utf8_decode (utf8_cp c @ bs) = c # utf8_decode bs"
proof -
  consider "c < 0x80" | "\<not> c < 0x80" "c < 0x800" | "\<not> c < 0x800" "c < 0x10000" | "\<not> c < 0x10000"
    by linarith
  then show ?thesis
  proof cases
    case 2
    then have "c div 64 < 32" by (simp add: less_mult_imp_div_less)
    with 2 split_base64(1) [of c] show ?thesis by (simp add: utf8_cp_def)
  next
    case 3
    then have "c div 4096 < 16" by (simp add: less_mult_imp_div_less)
    with 3 split_base64(2) [of c] show ?thesis by (simp add: utf8_cp_def)
  next
    case 4
    with split_base64(3) [of c] show ?thesis by (simp add: utf8_cp_def)
  qed (simp add: utf8_cp_def)
qed

lemma utf8_decode_concat: "list_all is_scalar s \<Longrightarrow> utf8_decode (concat (map utf8_cp s)) = s"
  by (induction s) (simp_all add: utf8_decode_cp del: utf8_decode.simps(2))

section \<open>Percent-encoding\<close>

definition unreserved :: "nat \<Rightarrow> bool" where
  "unreserved b \<longleftrightarrow> (65 \<le> b \<and> b \<le> 90) \<or> (97 \<le> b \<and> b \<le> 122) \<or> (48 \<le> b \<and> b \<le> 57) \<or> b \<in> {95, 46, 45, 126}"

definition hex_digit :: "nat \<Rightarrow> nat" where
  "hex_digit d = (if d < 10 then 48 + d else 55 + d)"

definition quote_byte :: "nat \<Rightarrow> ustr" where
  "quote_byte b = (if unreserved b then [b] else [37, hex_digit (b div 16), hex_digit (b mod 16)])"

definition quote :: "ustr \<Rightarrow> exn + ustr" where
  "quote s = (case utf8 s of Inl e \<Rightarrow> Inl e | Inr bs \<Rightarrow> Inr (concat (map quote_byte bs)))"

definition hex_value :: "nat \<Rightarrow> nat" where
  "hex_value c = (if c < 58 then c - 48 else c - 55)"

fun unquote_bytes :: "ustr \<Rightarrow> nat list" where
  "unquote_bytes (c # s) = (if c = 37
     then (case s of h # l # t \<Rightarrow> (16 * hex_value h + hex_value l) # unquote_bytes t | _ \<Rightarrow> c # unquote_bytes s)
     else c # unquote_bytes s)"
| "unquote_bytes [] = []"

definition unquote :: "ustr \<Rightarrow> ustr" where
  "unquote s = utf8_decode (unquote_bytes s)"

lemma hex_value_digit: "d < 16 \<Longrightarrow> hex_value (hex_digit d) = d"
  by (simp add: hex_value_def hex_digit_def)

lemma hex_digit_unreserved: "d < 16 \<Longrightarrow> unreserved (hex_digit d)"
  by (auto simp: hex_digit_def unreserved_def)

lemma unquote_bytes_quote_byte: "b < 256 \<Longrightarrow> unquote_bytes (quote_byte b @ s) = b # unquote_bytes s"
proof -
  assume "b < 256"
  then have "b div 16 < 16" by (simp add: less_mult_imp_div_less)
  moreover have "unreserved b \<Longrightarrow> b \<noteq> 37" by (auto simp: unreserved_def)
  ultimately show ?thesis
    by (cases "unreserved b") (simp_all add: quote_byte_def hex_value_digit)
qed

lemma unquote_bytes_quote:
  "(\<forall>b \<in> set bs. b < 256) \<Longrightarrow> unquote_bytes (concat (map quote_byte bs)) = bs"
  by (induction bs) (simp_all add: unquote_bytes_quote_byte del: unquote_bytes.simps(1))

lemma quote_byte_chars: "b < 256 \<Longrightarrow> c \<in> set (quote_byte b) \<Longrightarrow> unreserved c \<or> c = 37"
  by (auto simp: quote_byte_def hex_digit_unreserved less_mult_imp_div_less split: if_splits)

lemma quote_Inr:
  assumes "quote s = Inr q"
  obtains bs where "list_all is_scalar s" and "bs = concat (map utf8_cp s)" and "\<forall>b \<in> set bs. b < 256"
    and "q = concat (map quote_byte bs)"
  using assms utf8_cp_byte
  by (fastforce simp: quote_def utf8_def list_all_iff split: if_splits)

lemma unquote_quote: "quote s = Inr q \<Longrightarrow> unquote q = s"
  by (erule quote_Inr) (simp add: unquote_def unquote_bytes_quote utf8_decode_concat)

lemma quote_chars: "quote s = Inr q \<Longrightarrow> c \<in> set q \<Longrightarrow> unreserved c \<or> c = 37"
  using quote_byte_chars by (fastforce elim!: quote_Inr)

lemma quote_no_delimiter: "quote s = Inr q \<Longrightarrow> 58 \<notin> set q \<and> 47 \<notin> set q \<and> 64 \<notin> set q"
  by (auto dest: quote_chars simp: unreserved_def)

lemma quote_total: "list_all is_scalar s \<Longrightarrow> \<exists>q. quote s = Inr q"
  by (simp add: quote_def utf8_def)

end
