(* ===== verification/Json.thy ===== *)
theory Json
  imports PyText "HOL-Library.Word"
begin

text \<open>
  JSON documents and the field-by-field validation that a pydantic \<open>BaseModel\<close> declares. The
  class bodies under src/ say which fields a model has, their types, their defaults and their
  aliases; how pydantic reads one scalar is third-party code and is a parameter, the record
  \<open>pydantic\<close>, of which the code relies only on \<open>pydantic_ok\<close>: a value that already has the
  field's JSON type is taken as it is.
\<close>

section \<open>Documents\<close>

text \<open>
  A float is carried as its IEEE 754 bit pattern: no modelled code computes with one. A dict keeps
  the order of insertion, so it is an association list, read with \<open>map_of\<close>.
\<close>

type_synonym float64 = "64 word"

datatype json =
    JNull
  | JBool bool
  | JInt int
  | JFloat float64
  | JStr ustr
  | JList "json list"
  | JObj "(ustr \<times> json) list"

type_synonym fields = "(ustr \<times> json) list"

record pydantic =
  as_str :: "json \<Rightarrow> ustr option"
  as_int :: "json \<Rightarrow> int option"
  as_bool :: "json \<Rightarrow> bool option"
  as_float :: "json \<Rightarrow> float64 option"
  error_report :: "ustr \<Rightarrow> json \<Rightarrow> ustr"

definition pydantic_ok :: "pydantic \<Rightarrow> bool" where
  "pydantic_ok P \<longleftrightarrow>
     (\<forall>s. as_str P (JStr s) = Some s) \<and> (\<forall>i. as_int P (JInt i) = Some i) \<and>
     (\<forall>b. as_bool P (JBool b) = Some b) \<and> (\<forall>f. as_float P (JFloat f) = Some f)"

text \<open>Strict reading, the smallest behaviour that satisfies \<open>pydantic_ok\<close>.\<close>

definition strict :: pydantic where
  "strict = \<lparr>
     as_str = (\<lambda>j. case j of JStr s \<Rightarrow> Some s | _ \<Rightarrow> None),
     as_int = (\<lambda>j. case j of JInt i \<Rightarrow> Some i | _ \<Rightarrow> None),
     as_bool = (\<lambda>j. case j of JBool b \<Rightarrow> Some b | _ \<Rightarrow> None),
     as_float = (\<lambda>j. case j of JFloat f \<Rightarrow> Some f | _ \<Rightarrow> None),
     error_report = (\<lambda>cls _. lit ''validation error for '' @ cls)\<rparr>"

lemma pydantic_ok_strict: "pydantic_ok strict"
  by (simp add: pydantic_ok_def strict_def)

section \<open>Validators\<close>

definition as_object :: "json \<Rightarrow> fields option" where
  "as_object j = (case j of JObj fs \<Rightarrow> Some fs | _ \<Rightarrow> None)"

text \<open>A field without a default, a field with one, and a field read under an alias first.\<close>

definition required :: "(json \<Rightarrow> 'a option) \<Rightarrow> string \<Rightarrow> fields \<Rightarrow> 'a option" where
  "required v k fs = (case map_of fs (lit k) of None \<Rightarrow> None | Some j \<Rightarrow> v j)"

definition defaulted :: "(json \<Rightarrow> 'a option) \<Rightarrow> 'a \<Rightarrow> string \<Rightarrow> fields \<Rightarrow> 'a option" where
  "defaulted v d k fs = (case map_of fs (lit k) of None \<Rightarrow> Some d | Some j \<Rightarrow> v j)"

definition aliased :: "(json \<Rightarrow> 'a option) \<Rightarrow> 'a \<Rightarrow> string \<Rightarrow> string \<Rightarrow> fields \<Rightarrow> 'a option" where
  "aliased v d a k fs =
     (case map_of fs (lit a) of Some j \<Rightarrow> v j | None \<Rightarrow> defaulted v d k fs)"

definition nullable :: "(json \<Rightarrow> 'a option) \<Rightarrow> json \<Rightarrow> 'a option option" where
  "nullable v j = (if j = JNull then Some None else map_option Some (v j))"

definition list_of :: "(json \<Rightarrow> 'a option) \<Rightarrow> json \<Rightarrow> 'a list option" where
  "list_of v j = (case j of JList js \<Rightarrow> sequence (map v js) | _ \<Rightarrow> None)"

lemmas field_defs = required_def defaulted_def aliased_def

definition bind_o :: "'a option \<Rightarrow> ('a \<Rightarrow> 'b option) \<Rightarrow> 'b option" where
  "bind_o x f = (case x of None \<Rightarrow> None | Some y \<Rightarrow> f y)"

lemma bind_o_simps [simp]:
  "bind_o None f = None"
  "bind_o (Some x) f = f x"
  by (simp_all add: bind_o_def)

lemma bind_o_eq_Some: "bind_o x f = Some y \<longleftrightarrow> (\<exists>z. x = Some z \<and> f z = Some y)"
  by (cases x) auto

lemma as_object_simps [simp]:
  "as_object (JObj fs) = Some fs"
  "as_object JNull = None"
  by (simp_all add: as_object_def)

lemma as_object_Some: "as_object j = Some fs \<longleftrightarrow> j = JObj fs"
  by (auto simp: as_object_def split: json.splits)

lemma nullable_simps [simp]:
  "nullable v JNull = Some None"
  "j \<noteq> JNull \<Longrightarrow> nullable v j = map_option Some (v j)"
  by (simp_all add: nullable_def)

lemma list_of_map: "(\<And>x. x \<in> set xs \<Longrightarrow> v (g x) = Some x) \<Longrightarrow> list_of v (JList (map g xs)) = Some xs"
  by (simp add: list_of_def sequence_map_Some del: map_map)

text \<open>\<open>Model.model_validate(raw)\<close>: the validated model or a \<open>ValidationError\<close>.\<close>

definition model_validate :: "pydantic \<Rightarrow> string \<Rightarrow> (json \<Rightarrow> 'a option) \<Rightarrow> json \<Rightarrow> exn + 'a" where
  "model_validate P cls v j =
     (case v j of Some x \<Rightarrow> Inr x | None \<Rightarrow> Inl (ValidationError (error_report P (lit cls) j)))"

lemma model_validate_Inr [simp]: "model_validate P cls v j = Inr x \<longleftrightarrow> v j = Some x"
  by (simp add: model_validate_def split: option.split)

lemma model_validate_Inl: "model_validate P cls v j = Inl e \<Longrightarrow> \<exists>m. e = ValidationError m"
  by (auto simp: model_validate_def split: option.splits)

lemma model_validate_None: "v j = None \<Longrightarrow>
    model_validate P cls v j = Inl (ValidationError (error_report P (lit cls) j))"
  by (simp add: model_validate_def)

lemma pydantic_okD:
  assumes "pydantic_ok P"
  shows "as_str P (JStr s) = Some s" "as_int P (JInt i) = Some i"
    "as_bool P (JBool b) = Some b" "as_float P (JFloat f) = Some f"
  using assms by (simp_all add: pydantic_ok_def)

section \<open>Dumping\<close>

definition opt_json :: "('a \<Rightarrow> json) \<Rightarrow> 'a option \<Rightarrow> json" where
  "opt_json f x = (case x of None \<Rightarrow> JNull | Some y \<Rightarrow> f y)"

lemma opt_json_simps [simp]:
  "opt_json f None = JNull"
  "opt_json f (Some y) = f y"
  by (simp_all add: opt_json_def)

lemma nullable_opt_json: "(\<And>y. x = Some y \<Longrightarrow> f y \<noteq> JNull \<and> v (f y) = Some y) \<Longrightarrow>
    nullable v (opt_json f x) = Some x"
  by (cases x) simp_all

text \<open>\<open>exclude_none=True\<close> drops the fields whose value is \<open>None\<close>.\<close>

definition exclude_none :: "fields \<Rightarrow> fields" where
  "exclude_none fs = filter (\<lambda>(k, v). v \<noteq> JNull) fs"

lemma exclude_none_simps [simp]:
  "exclude_none [] = []"
  "exclude_none ((k, JNull) # fs) = exclude_none fs"
  "v \<noteq> JNull \<Longrightarrow> exclude_none ((k, v) # fs) = (k, v) # exclude_none fs"
  by (simp_all add: exclude_none_def)

lemma exclude_none_no_null: "(k, v) \<in> set (exclude_none fs) \<Longrightarrow> v \<noteq> JNull"
  by (simp add: exclude_none_def)

lemma map_of_exclude_none:
  "distinct (map fst fs) \<Longrightarrow> map_of (exclude_none fs) k =
     (case map_of fs k of Some v \<Rightarrow> (if v = JNull then None else Some v) | None \<Rightarrow> None)"
proof (induction fs)
  case (Cons kv fs)
  obtain k' v' where kv: "kv = (k', v')" by (cases kv)
  have "k' \<notin> fst ` set fs" using Cons.prems kv by simp
  then have "map_of fs k' = None" by (simp add: map_of_eq_None_iff)
  with Cons kv show ?case by (cases "v' = JNull") (auto split: option.splits)
qed simp

end
