(* ===== verification/Logging.thy ===== *)
theory Logging
  imports Json
begin

text \<open>
  The \<open>Logger\<close> port (application/ports.py) and its implementation \<open>JsonLogger\<close>
  (infrastructure/observability/logging.py). The handlers append a \<open>log_entry\<close> per call of the
  port; \<open>emit\<close> says which entries the JSON logger prints, on which stream and with which record.
  The three services carry the same file with another default service name. The clock reading
  and the JSON text that \<open>json.dumps\<close> makes of a record are left out of the value.
\<close>

datatype level = DEBUG | INFO | WARNING | ERROR

fun level_no :: "level \<Rightarrow> nat" where
  "level_no DEBUG = 10"
| "level_no INFO = 20"
| "level_no WARNING = 30"
| "level_no ERROR = 40"

fun level_name :: "level \<Rightarrow> ustr" where
  "level_name DEBUG = lit ''debug''"
| "level_name INFO = lit ''info''"
| "level_name WARNING = lit ''warning''"
| "level_name ERROR = lit ''error''"

declare level_name.simps [simp del]

lemma level_no_inj [simp]: "level_no a = level_no b \<longleftrightarrow> a = b"
  by (cases a; cases b) simp_all

text \<open>The severity order is the order of the numbers of \<open>_LEVELS\<close>.\<close>

instantiation level :: linorder
begin

definition less_eq_level :: "level \<Rightarrow> level \<Rightarrow> bool" where
  "less_eq_level a b \<longleftrightarrow> level_no a \<le> level_no b"

definition less_level :: "level \<Rightarrow> level \<Rightarrow> bool" where
  "less_level a b \<longleftrightarrow> level_no a < level_no b"

instance
  by intro_classes (auto simp: less_eq_level_def less_level_def antisym)

end

record log_entry =
  le_level :: level
  le_event :: ustr
  le_fields :: fields

definition entry :: "level \<Rightarrow> string \<Rightarrow> fields \<Rightarrow> log_entry" where
  "entry l ev fs = \<lparr>le_level = l, le_event = lit ev, le_fields = fs\<rparr>"

section \<open>JsonLogger\<close>

definition levels_table :: "(ustr \<times> nat) list" where
  "levels_table = [(lit ''debug'', 10), (lit ''info'', 20), (lit ''warning'', 30), (lit ''error'', 40)]"

record json_logger =
  jl_service :: ustr
  jl_threshold :: nat

definition JsonLogger :: "ustr \<Rightarrow> ustr \<Rightarrow> json_logger" where
  "JsonLogger service lvl = \<lparr>jl_service = service,
     jl_threshold = (case map_of levels_table (py_lower lvl) of Some n \<Rightarrow> n | None \<Rightarrow> 20)\<rparr>"

datatype stream = Stdout | Stderr

text \<open>A dict display \<open>{..., **fields}\<close>: a repeated key keeps its place and takes the later value.\<close>

fun dict_set :: "fields \<Rightarrow> ustr \<Rightarrow> json \<Rightarrow> fields" where
  "dict_set [] k v = [(k, v)]"
| "dict_set ((k', v') # fs) k v = (if k' = k then (k, v) # fs else (k', v') # dict_set fs k v)"

definition dict_merge :: "fields \<Rightarrow> fields \<Rightarrow> fields" where
  "dict_merge a b = foldl (\<lambda>d (k, v). dict_set d k v) a b"

definition emit :: "json_logger \<Rightarrow> ustr \<Rightarrow> level \<Rightarrow> ustr \<Rightarrow> fields \<Rightarrow> (stream \<times> fields) option" where
  "emit lg now l ev fs =
     (if level_no l < jl_threshold lg then None
      else Some (if level_no l \<ge> level_no WARNING then Stderr else Stdout,
        dict_merge [(lit ''level'', JStr (level_name l)), (lit ''time'', JStr now),
          (lit ''service'', JStr (jl_service lg)), (lit ''event'', JStr ev)] fs))"

definition log_debug :: "json_logger \<Rightarrow> ustr \<Rightarrow> ustr \<Rightarrow> fields \<Rightarrow> (stream \<times> fields) option" where
  "log_debug lg now ev fs = emit lg now DEBUG ev fs"

definition log_info :: "json_logger \<Rightarrow> ustr \<Rightarrow> ustr \<Rightarrow> fields \<Rightarrow> (stream \<times> fields) option" where
  "log_info lg now ev fs = emit lg now INFO ev fs"

definition log_warning :: "json_logger \<Rightarrow> ustr \<Rightarrow> ustr \<Rightarrow> fields \<Rightarrow> (stream \<times> fields) option" where
  "log_warning lg now ev fs = emit lg now WARNING ev fs"

definition log_error :: "json_logger \<Rightarrow> ustr \<Rightarrow> ustr \<Rightarrow> fields \<Rightarrow> (stream \<times> fields) option" where
  "log_error lg now ev fs = emit lg now ERROR ev fs"

section \<open>What is printed\<close>

lemma map_of_dict_set: "map_of (dict_set d k v) = (map_of d)(k \<mapsto> v)"
  by (induction d k v rule: dict_set.induct) (auto simp: fun_eq_iff)

lemma map_of_dict_merge:
  "distinct (map fst b) \<Longrightarrow> map_of (dict_merge a b) = map_of a ++ map_of b"
proof (induction b arbitrary: a)
  case (Cons kv b)
  obtain k v where kv: "kv = (k, v)" by (cases kv)
  have "k \<notin> dom (map_of b)" using Cons.prems kv by (simp add: dom_map_of_conv_image_fst)
  with Cons kv show ?case
    by (auto simp: dict_merge_def map_of_dict_set map_add_def fun_eq_iff domIff split: option.splits)
qed (simp add: dict_merge_def)

lemma levels_table_name [simp]: "map_of levels_table (level_name l) = Some (level_no l)"
  by (cases l) (simp_all add: levels_table_def level_name.simps)

lemma py_lower_level_name [simp]: "py_lower (level_name l) = level_name l"
  by (cases l) (simp_all add: py_lower_def lower_cp_def lit_eval level_name.simps)

lemma emit_iff_threshold: "emit (JsonLogger s (level_name l0)) now l ev fs \<noteq> None \<longleftrightarrow> l0 \<le> l"
  by (auto simp: emit_def JsonLogger_def less_eq_level_def not_less)

lemma emit_stream: "emit lg now l ev fs = Some (st, r) \<Longrightarrow> st = Stderr \<longleftrightarrow> WARNING \<le> l"
  by (auto simp: emit_def less_eq_level_def split: if_splits)

end
