(* ===== verification/Runtime.thy ===== *)
theory Runtime
  imports Logging
begin

text \<open>
  What every service has at run time besides its own state: the entries logged, the messages
  handed to RabbitMQ, and the objects of FastStream's declarative interface that the
  messaging/broker.py files build. RabbitMQ is a parameter: \<open>bus_fault\<close> says which publish fails
  and whether the message got through all the same.
\<close>

section \<open>Topology objects\<close>

record rabbit_queue =
  rq_name :: ustr
  rq_durable :: bool
  rq_arguments :: fields

datatype exchange_type = DIRECT | FANOUT | TOPIC

record rabbit_exchange =
  rx_name :: ustr
  rx_type :: exchange_type
  rx_durable :: bool

text \<open>
  \<open>broker.publisher(queue=..., persist=...)\<close> publishes on the default exchange with the queue's
  name as routing key; \<open>broker.publisher(exchange=..., routing_key=...)\<close> on that exchange.
\<close>

record publisher =
  pub_exchange :: "rabbit_exchange option"
  pub_routing_key :: ustr
  pub_persist :: bool

definition default_publisher :: "ustr \<Rightarrow> publisher" where
  "default_publisher queue = \<lparr>pub_exchange = None, pub_routing_key = queue, pub_persist = True\<rparr>"

definition durable_queue :: "ustr \<Rightarrow> rabbit_queue" where
  "durable_queue name = \<lparr>rq_name = name, rq_durable = True, rq_arguments = []\<rparr>"

section \<open>State and environment\<close>

record runtime =
  rt_log :: "log_entry list"
  rt_out :: "(publisher \<times> json) list"
  rt_pubs :: nat

record bus_env =
  bus_fault :: "nat \<Rightarrow> (exn \<times> bool) option"

definition log :: "level \<Rightarrow> string \<Rightarrow> fields \<Rightarrow> ('z runtime_scheme, unit) act" where
  "log l ev fs = modify_act (\<lambda>s. s\<lparr>rt_log := rt_log s @ [entry l ev fs]\<rparr>)"

definition publish :: "bus_env \<Rightarrow> publisher \<Rightarrow> json \<Rightarrow> ('z runtime_scheme, unit) act" where
  "publish B p payload s =
     (let s' = s\<lparr>rt_pubs := Suc (rt_pubs s)\<rparr>; sent = s'\<lparr>rt_out := rt_out s @ [(p, payload)]\<rparr> in
      case bus_fault B (rt_pubs s) of
        None \<Rightarrow> (Inr (), sent)
      | Some (e, through) \<Rightarrow> (Inl e, if through then sent else s'))"

definition reliable :: bus_env where
  "reliable = \<lparr>bus_fault = (\<lambda>_. None)\<rparr>"

lemma log_apply [simp, act_simps]: "log l ev fs s = (Inr (), s\<lparr>rt_log := rt_log s @ [entry l ev fs]\<rparr>)"
  by (simp add: log_def)

lemma publish_Inr: "publish B p j s = (Inr u, t) \<Longrightarrow> rt_out t = rt_out s @ [(p, j)] \<and> rt_log t = rt_log s"
  by (auto simp: publish_def Let_def split: option.splits)

lemma publish_Inl: "publish B p j s = (Inl e, t) \<Longrightarrow>
    (rt_out t = rt_out s \<or> rt_out t = rt_out s @ [(p, j)]) \<and> rt_log t = rt_log s \<and>
    (\<exists>b. bus_fault B (rt_pubs s) = Some (e, b))"
  by (auto simp: publish_def Let_def split: option.splits if_splits)

lemma publish_reliable [simp]:
  "publish reliable p j s = (Inr (), s\<lparr>rt_out := rt_out s @ [(p, j)], rt_pubs := Suc (rt_pubs s)\<rparr>)"
  by (simp add: publish_def reliable_def Let_def)

text \<open>What has been handed to the broker is never taken back.\<close>

lemma publish_extends: "\<exists>sent. rt_out (snd (publish B p j s)) = rt_out s @ sent"
  by (auto simp: publish_def Let_def split: option.split)

end
