(* ===== verification/PyJoin.thy ===== *)
theory PyJoin
  imports PyText "HOL-Library.Sublist"
begin

text \<open>
  What \<open>str.join\<close> keeps: every joined string stands in the result as it is. The prompt of llm and
  the metrics page of scheduler are built that way.
\<close>

lemma sublist_py_join: "x \<in> set xs \<Longrightarrow> sublist x (py_join sep xs)"
proof (induction sep xs rule: py_join.induct)
  case (3 sep a b cs)
  show ?case
  proof (cases "x = a")
    case True
    then show ?thesis by (auto intro: sublist_appendI sublist_append_rightI)
  next
    case False
    with 3 have "sublist x (py_join sep (b # cs))" by simp
    then show ?thesis by (simp add: sublist_append)
  qed
qed simp_all

lemma sublist_trans_join: "sublist x y \<Longrightarrow> y \<in> set xs \<Longrightarrow> sublist x (py_join sep xs)"
  using sublist_py_join sublist_order.order_trans by blast

end
