(* ===== verification/Scheduler.thy ===== *)
theory Scheduler
  imports Settings Runtime PyJoin
begin

text \<open>
  scheduler: the command (domain/command.py), the use case (application/build_parse_command.py), the
  identifiers (infrastructure/ids.py), the metrics (observability/metrics.py), the wire schema and
  its mapping, the queue and the schedule (infrastructure/messaging), and the wiring of main.py. The
  timer that fires the ticks is taskiq, which is not under src/: a tick is one call of the message
  factory followed by one publish. The random uuids and the clock are parameters.
\<close>

section \<open>Command\<close>

datatype sort_order = SORT_DEFAULT | SORT_DATE

fun sort_value :: "sort_order \<Rightarrow> ustr" where
  "sort_value SORT_DEFAULT = lit ''DEFAULT''"
| "sort_value SORT_DATE = lit ''DATE''"

record board_filter =
  bf_search_query :: ustr
  bf_page_size :: int
  bf_sort :: sort_order
  bf_all_verticals :: bool
  bf_use_saved_filter :: bool

definition BoardFilter :: "ustr \<Rightarrow> board_filter" where
  "BoardFilter q = \<lparr>bf_search_query = q, bf_page_size = 10, bf_sort = SORT_DEFAULT,
     bf_all_verticals = True, bf_use_saved_filter = True\<rparr>"

record parse_command =
  pc_request_id :: ustr
  pc_filter :: board_filter
  pc_max_pages :: "int option"

section \<open>Identifiers and metrics\<close>

text \<open>\<open>uuid4().hex\<close>: the 128 bits as 32 lower-case hexadecimal digits.\<close>

definition hex_lower :: "nat \<Rightarrow> nat" where
  "hex_lower d = (if d < 10 then 48 + d else 87 + d)"

definition uuid_hex :: "128 word \<Rightarrow> ustr" where
  "uuid_hex u = map (\<lambda>i. hex_lower (unat (drop_bit (4 * (31 - i)) u) mod 16)) [0..<32]"

record scheduler_state = runtime +
  sm_published :: int
  sm_last_ts :: float64
  n_built :: nat

record scheduler_world =
  sw_uuid4 :: "nat \<Rightarrow> 128 word"
  sw_time :: "nat \<Rightarrow> float64"
  sw_bus :: bus_env

definition command_published :: "scheduler_world \<Rightarrow> ('z scheduler_state_scheme, unit) act" where
  "command_published W = modify_act (\<lambda>s. s\<lparr>sm_published := sm_published s + 1,
     sm_last_ts := sw_time W (n_built s)\<rparr>)"

text \<open>\<open>render()\<close>; how Python prints a float is the parameter \<open>show_float\<close>.\<close>

definition help_total :: ustr where
  "help_total = [0x412, 0x441, 0x435, 0x433, 0x43e, 32, 0x43e, 0x43f, 0x443, 0x431, 0x43b, 0x438, 0x43a, 0x43e, 0x432,
     0x430, 0x43d, 0x43e, 32, 0x43a, 0x43e, 0x43c, 0x430, 0x43d, 0x434, 32, 0x43f, 0x430, 0x440, 0x441, 0x438, 0x43d,
     0x433, 0x430, 46]"

definition help_last :: ustr where
  "help_last = [85, 110, 105, 120, 45, 0x432, 0x440, 0x435, 0x43c, 0x44f, 32, 0x43f, 0x43e, 0x441, 0x43b, 0x435, 0x434,
     0x43d, 0x435, 0x439, 32, 0x43a, 0x43e, 0x43c, 0x430, 0x43d, 0x434, 0x44b, 46]"

definition render :: "(float64 \<Rightarrow> ustr) \<Rightarrow> 'z scheduler_state_scheme \<Rightarrow> ustr" where
  "render show_float s = py_join [10] [
     lit ''# HELP scheduler_commands_published_total '' @ help_total,
     lit ''# TYPE scheduler_commands_published_total counter'',
     lit ''scheduler_commands_published_total '' @ show_int (sm_published s),
     lit ''# HELP scheduler_last_command_timestamp_seconds '' @ help_last,
     lit ''# TYPE scheduler_last_command_timestamp_seconds gauge'',
     lit ''scheduler_last_command_timestamp_seconds '' @ show_float (sm_last_ts s)] @ [10]"

section \<open>Use case\<close>

definition build :: "scheduler_world \<Rightarrow> ustr \<Rightarrow> int \<Rightarrow> ('z scheduler_state_scheme, parse_command) act" where
  "build W search_query max_pages = bind_act (\<lambda>s. (Inr (n_built s), s)) (\<lambda>n.
     let command = \<lparr>pc_request_id = uuid_hex (sw_uuid4 W n), pc_filter = BoardFilter search_query,
       pc_max_pages = Some max_pages\<rparr> in
     bind_act (command_published W) (\<lambda>_.
     bind_act (log INFO ''parse_command_scheduled'' [(lit ''request_id'', JStr (pc_request_id command)),
       (lit ''max_pages'', opt_json JInt (pc_max_pages command))]) (\<lambda>_.
     bind_act (modify_act (\<lambda>s. s\<lparr>n_built := Suc (n_built s)\<rparr>)) (\<lambda>_. ret command))))"

section \<open>Wire\<close>

record board_filter_message =
  bfm_search_query :: ustr
  bfm_page_size :: int
  bfm_sort :: ustr
  bfm_all_verticals :: bool
  bfm_use_saved_filter :: bool

record parse_request_message =
  prm_request_id :: ustr
  prm_filter :: board_filter_message
  prm_max_pages :: "int option"

definition dump_board_filter :: "board_filter_message \<Rightarrow> json" where
  "dump_board_filter f = JObj (exclude_none [
     (lit ''search_query'', JStr (bfm_search_query f)), (lit ''page_size'', JInt (bfm_page_size f)),
     (lit ''sort'', JStr (bfm_sort f)), (lit ''all_verticals'', JBool (bfm_all_verticals f)),
     (lit ''use_saved_filter'', JBool (bfm_use_saved_filter f))])"

definition to_parse_request :: "parse_command \<Rightarrow> json" where
  "to_parse_request c =
     (let message = \<lparr>prm_request_id = pc_request_id c,
        prm_filter = \<lparr>bfm_search_query = bf_search_query (pc_filter c), bfm_page_size = bf_page_size (pc_filter c),
          bfm_sort = sort_value (bf_sort (pc_filter c)), bfm_all_verticals = bf_all_verticals (pc_filter c),
          bfm_use_saved_filter = bf_use_saved_filter (pc_filter c)\<rparr>,
        prm_max_pages = pc_max_pages c\<rparr>
      in JObj (exclude_none [(lit ''request_id'', JStr (prm_request_id message)),
        (lit ''filter'', dump_board_filter (prm_filter message)),
        (lit ''max_pages'', opt_json JInt (prm_max_pages message))]))"

text \<open>The schema read back, with the defaults its fields declare.\<close>

definition default_filter_message :: board_filter_message where
  "default_filter_message = \<lparr>bfm_search_query = [], bfm_page_size = 10, bfm_sort = lit ''DEFAULT'',
     bfm_all_verticals = True, bfm_use_saved_filter = True\<rparr>"

definition read_board_filter :: "pydantic \<Rightarrow> json \<Rightarrow> board_filter_message option" where
  "read_board_filter P j = bind_o (as_object j) (\<lambda>fs.
     bind_o (defaulted (as_str P) [] ''search_query'' fs) (\<lambda>q.
     bind_o (defaulted (as_int P) 10 ''page_size'' fs) (\<lambda>n.
     bind_o (defaulted (as_str P) (lit ''DEFAULT'') ''sort'' fs) (\<lambda>st.
     bind_o (defaulted (as_bool P) True ''all_verticals'' fs) (\<lambda>av.
     bind_o (defaulted (as_bool P) True ''use_saved_filter'' fs) (\<lambda>sf.
       Some \<lparr>bfm_search_query = q, bfm_page_size = n, bfm_sort = st, bfm_all_verticals = av,
         bfm_use_saved_filter = sf\<rparr>))))))"

definition read_parse_request :: "pydantic \<Rightarrow> json \<Rightarrow> parse_request_message option" where
  "read_parse_request P j = bind_o (as_object j) (\<lambda>fs.
     bind_o (required (as_str P) ''request_id'' fs) (\<lambda>r.
     bind_o (defaulted (read_board_filter P) default_filter_message ''filter'' fs) (\<lambda>f.
     bind_o (defaulted (nullable (as_int P)) None ''max_pages'' fs) (\<lambda>m.
       Some \<lparr>prm_request_id = r, prm_filter = f, prm_max_pages = m\<rparr>))))"

section \<open>Schedule and wiring\<close>

definition parse_requests_queue :: "ustr \<Rightarrow> rabbit_queue" where
  "parse_requests_queue name = durable_queue name"

record schedule =
  sch_interval :: int
  sch_id :: ustr
  sch_publisher :: publisher

text \<open>The broker wrapper publishes with the options given to \<open>task\<close>: the queue, and no \<open>persist\<close>.\<close>

definition build_scheduler :: "ustr \<Rightarrow> int \<Rightarrow> schedule" where
  "build_scheduler queue interval_seconds = \<lparr>sch_interval = interval_seconds, sch_id = lit ''parse-orders'',
     sch_publisher = \<lparr>pub_exchange = None, pub_routing_key = queue, pub_persist = False\<rparr>\<rparr>"

definition next_parse_request :: "scheduler_settings \<Rightarrow> scheduler_world \<Rightarrow> ('z scheduler_state_scheme, json) act" where
  "next_parse_request S W = bind_act (build W (sg_parse_search_query (ss_scheduler S)) (sg_parse_max_pages (ss_scheduler S)))
     (\<lambda>command. ret (to_parse_request command))"

definition scheduler_schedule :: "scheduler_settings \<Rightarrow> schedule" where
  "scheduler_schedule S = build_scheduler (sg_parse_queue (ss_scheduler S)) (sg_parse_interval_seconds (ss_scheduler S))"

definition tick :: "scheduler_settings \<Rightarrow> scheduler_world \<Rightarrow> ('z scheduler_state_scheme, unit) act" where
  "tick S W = bind_act (next_parse_request S W) (publish (sw_bus W) (sch_publisher (scheduler_schedule S)))"

text \<open>The timer goes on whatever a tick does.\<close>

primrec ticks :: "scheduler_settings \<Rightarrow> scheduler_world \<Rightarrow> nat \<Rightarrow> 'z scheduler_state_scheme \<Rightarrow> 'z scheduler_state_scheme" where
  "ticks S W 0 s = s"
| "ticks S W (Suc n) s = ticks S W n (snd (tick S W s))"

section \<open>Theorems\<close>

text \<open>The command reaches the wire unchanged: what the scheduler publishes is read back, by the schema
  it declares, as the command's identifier, filter and page limit, with the sort order under the
  name its enumeration gives; and no field of the document is null.\<close>

theorem parse_request_roundtrip:
  assumes "pydantic_ok P"
  shows "read_parse_request P (to_parse_request c) = Some \<lparr>prm_request_id = pc_request_id c,
      prm_filter = \<lparr>bfm_search_query = bf_search_query (pc_filter c), bfm_page_size = bf_page_size (pc_filter c),
        bfm_sort = sort_value (bf_sort (pc_filter c)), bfm_all_verticals = bf_all_verticals (pc_filter c),
        bfm_use_saved_filter = bf_use_saved_filter (pc_filter c)\<rparr>,
      prm_max_pages = pc_max_pages c\<rparr> \<and>
    (\<forall>fs. to_parse_request c = JObj fs \<longrightarrow> (\<forall>(k, v) \<in> set fs. v \<noteq> JNull))"
proof -
  have "dump_board_filter f \<noteq> JNull" for f by (simp add: dump_board_filter_def)
  then show ?thesis
    by (cases "pc_max_pages c") (simp_all add: to_parse_request_def read_parse_request_def read_board_filter_def
        dump_board_filter_def field_defs pydantic_okD [OF assms] Let_def)
qed

definition sample_command :: parse_command where
  "sample_command = \<lparr>pc_request_id = lit ''r'', pc_filter = BoardFilter [], pc_max_pages = Some 1\<rparr>"

theorem parse_request_roundtrip_witness:
  "\<exists>m. read_parse_request strict (to_parse_request sample_command) = Some m \<and> prm_max_pages m = Some 1"
  using parse_request_roundtrip [OF pydantic_ok_strict, of sample_command]
  by (auto simp: sample_command_def)

lemma hex_lower_inj: "a < 16 \<Longrightarrow> b < 16 \<Longrightarrow> hex_lower a = hex_lower b \<Longrightarrow> a = b"
  by (auto simp: hex_lower_def split: if_splits)

lemma uuid_hex_digit: "i < 32 \<Longrightarrow> uuid_hex u ! (31 - i) = hex_lower (unat (drop_bit (4 * i) u) mod 16)"
  using nth_upt [of 0 "31 - i" 32] by (simp add: uuid_hex_def del: upt_rec_numeral)

lemma base16_eq:
  fixes a b :: nat
  assumes "a < 16 ^ n" and "b < 16 ^ n" and "\<And>i. i < n \<Longrightarrow> a div 16 ^ i mod 16 = b div 16 ^ i mod 16"
  shows "a = b"
  using assms
proof (induction n arbitrary: a b)
  case (Suc n)
  have "a div 16 = b div 16"
  proof (rule Suc.IH)
    show "a div 16 < 16 ^ n" "b div 16 < 16 ^ n" using Suc.prems(1,2) by (simp_all add: less_mult_imp_div_less)
    show "a div 16 div 16 ^ i mod 16 = b div 16 div 16 ^ i mod 16" if "i < n" for i
      using Suc.prems(3) [of "Suc i"] that by (simp add: div_mult2_eq)
  qed
  moreover have "a mod 16 = b mod 16" using Suc.prems(3) [of 0] by simp
  ultimately show ?case by (metis div_mult_mod_eq)
qed simp

lemma uuid_hex_inj:
  assumes "uuid_hex u = uuid_hex v"
  shows "u = v"
proof -
  have "unat u = unat v"
  proof (rule base16_eq [of _ 32])
    show "unat u < 16 ^ 32" "unat v < 16 ^ 32" using unsigned_less [of u] unsigned_less [of v] by simp_all
    fix i :: nat assume "i < 32"
    then have "hex_lower (unat (drop_bit (4 * i) u) mod 16) = hex_lower (unat (drop_bit (4 * i) v) mod 16)"
      using assms uuid_hex_digit by metis
    then have "unat (drop_bit (4 * i) u) mod 16 = unat (drop_bit (4 * i) v) mod 16"
      by (rule hex_lower_inj [rotated 2]) simp_all
    moreover have "unat (drop_bit (4 * i) w) = unat w div 16 ^ i" for w :: "128 word"
      unfolding unat_drop_bit_eq by (simp add: drop_bit_eq_div power_mult)
    ultimately show "unat u div 16 ^ i mod 16 = unat v div 16 ^ i mod 16" by simp
  qed
  then show ?thesis by (rule word_unat_eq_iff [THEN iffD2])
qed

lemma tick_effect:
  "snd (tick S W s) = u \<Longrightarrow>
   sm_published u = sm_published s + 1 \<and> sm_last_ts u = sw_time W (n_built s) \<and> n_built u = Suc (n_built s) \<and>
   (\<exists>sent \<in> {[], [(sch_publisher (scheduler_schedule S), to_parse_request \<lparr>pc_request_id = uuid_hex (sw_uuid4 W (n_built s)),
       pc_filter = BoardFilter (sg_parse_search_query (ss_scheduler S)), pc_max_pages = Some (sg_parse_max_pages (ss_scheduler S))\<rparr>)]}.
     rt_out u = rt_out s @ sent \<and> (sw_bus W = reliable \<longrightarrow> sent \<noteq> []))"
  by (cases "bus_fault (sw_bus W) (rt_pubs s)")
    (auto simp: tick_def next_parse_request_def build_def command_published_def Let_def publish_def reliable_def
      bind_act_def ret_def modify_act_def)

text \<open>The command of the \<open>i\<close>-th tick.\<close>

definition command_at :: "scheduler_settings \<Rightarrow> scheduler_world \<Rightarrow> nat \<Rightarrow> parse_command" where
  "command_at S W i = \<lparr>pc_request_id = uuid_hex (sw_uuid4 W i),
     pc_filter = BoardFilter (sg_parse_search_query (ss_scheduler S)),
     pc_max_pages = Some (sg_parse_max_pages (ss_scheduler S))\<rparr>"

definition request_at :: "scheduler_settings \<Rightarrow> scheduler_world \<Rightarrow> nat \<Rightarrow> publisher \<times> json" where
  "request_at S W i = (sch_publisher (scheduler_schedule S), to_parse_request (command_at S W i))"

lemma ticks_state:
  "sm_published (ticks S W n s) = sm_published s + int n \<and> n_built (ticks S W n s) = n_built s + n"
proof (induction n arbitrary: s)
  case (Suc n)
  show ?case using tick_effect [of S W s, OF refl] Suc.IH [of "snd (tick S W s)"] by simp
qed simp

lemma ticks_reliable:
  assumes "sw_bus W = reliable"
  shows "rt_out (ticks S W n s) = rt_out s @ map (request_at S W) [n_built s..<n_built s + n]"
proof (induction n arbitrary: s)
  case (Suc n)
  let ?u = "snd (tick S W s)"
  have "rt_out ?u = rt_out s @ [request_at S W (n_built s)]" "n_built ?u = Suc (n_built s)"
    using tick_effect [of S W s, OF refl] assms by (auto simp: request_at_def command_at_def)
  moreover have "[n_built s..<n_built s + Suc n] = n_built s # [Suc (n_built s)..<Suc (n_built s) + n]"
    by (simp add: upt_conv_Cons del: upt_Suc)
  ultimately show ?case using Suc.IH [of ?u] by simp
qed simp

text \<open>Every tick is one command: after n ticks with a working broker, n requests have been published to
  the parse queue, in order, and the metrics page reports n more than before; if the uuids drawn are
  distinct, so are the identifiers of all the requests.\<close>

theorem ticks_publish:
  assumes "sw_bus W = reliable"
  shows "rt_out (ticks S W n s) = rt_out s @ map (request_at S W) [n_built s..<n_built s + n] \<and>
    sublist (lit ''scheduler_commands_published_total '' @ show_int (sm_published s + int n))
      (render show_float (ticks S W n s)) \<and>
    (inj (sw_uuid4 W) \<longrightarrow> distinct (map (\<lambda>i. pc_request_id (command_at S W i)) [n_built s..<n_built s + n]))"
proof -
  have "sublist (lit ''scheduler_commands_published_total '' @ show_int (sm_published (ticks S W n s)))
      (render show_float (ticks S W n s))"
    unfolding render_def by (rule sublist_order.order_trans [OF sublist_py_join sublist_append_rightI]) simp
  then have "sublist (lit ''scheduler_commands_published_total '' @ show_int (sm_published s + int n))
      (render show_float (ticks S W n s))"
    using ticks_state [of S W n s] by simp
  moreover have "distinct (map (\<lambda>i. pc_request_id (command_at S W i)) [n_built s..<n_built s + n])"
    if "inj (sw_uuid4 W)"
    using that by (auto simp: distinct_map command_at_def inj_on_def dest!: uuid_hex_inj injD)
  ultimately show ?thesis using ticks_reliable [OF assms] by blast
qed

definition sample_scheduler :: scheduler_world where
  "sample_scheduler = \<lparr>sw_uuid4 = of_nat, sw_time = of_nat, sw_bus = reliable\<rparr>"

definition scheduler_start :: scheduler_state where
  "scheduler_start = \<lparr>rt_log = [], rt_out = [], rt_pubs = 0, sm_published = 0, sm_last_ts = 0, n_built = 0\<rparr>"

theorem ticks_publish_witness:
  "length (rt_out (ticks default_scheduler_settings sample_scheduler 3 scheduler_start)) = 3"
proof -
  have "sw_bus sample_scheduler = reliable" by (simp add: sample_scheduler_def)
  from ticks_publish [OF this, of default_scheduler_settings 3 scheduler_start "\<lambda>_. []"]
  show ?thesis by (simp add: scheduler_start_def)
qed

text \<open>The counter called published counts the commands built: when the broker refuses every message,
  nothing at all is sent, and after n ticks the metrics page still reports n more publications.\<close>

theorem counter_counts_builds:
  assumes "\<And>i. bus_fault (sw_bus W) i = Some (PublishError m, False)"
  shows "rt_out (ticks S W n s) = rt_out s \<and> sm_published (ticks S W n s) = sm_published s + int n"
proof -
  have "rt_out (snd (tick S W u)) = rt_out u" for u :: "'a scheduler_state_scheme"
    using assms by (simp add: tick_def next_parse_request_def build_def command_published_def Let_def publish_def
        bind_act_def ret_def modify_act_def)
  then have "rt_out (ticks S W n s) = rt_out s" by (induction n arbitrary: s) simp_all
  then show ?thesis using ticks_state [of S W n s] by simp
qed

theorem counter_counts_builds_witness:
  "sm_published (ticks default_scheduler_settings
     (sample_scheduler\<lparr>sw_bus := \<lparr>bus_fault = \<lambda>_. Some (PublishError [], False)\<rparr>\<rparr>) 2 scheduler_start) = 2"
  using counter_counts_builds [of "sample_scheduler\<lparr>sw_bus := \<lparr>bus_fault = \<lambda>_. Some (PublishError [], False)\<rparr>\<rparr>" "[]"
      default_scheduler_settings 2 scheduler_start]
  by (simp add: scheduler_start_def)

end
