(* ===== verification/WireOrder.thy ===== *)
theory WireOrder
  imports Json
begin

text \<open>
  The order contract of the queues \<open>parse.results\<close> and \<open>assess.requests\<close>, as
  order-core-service/app/infrastructure/messaging/schemas.py declares it: one record per
  \<open>BaseModel\<close>, its \<open>model_validate\<close> (\<open>read_*\<close>) and its \<open>model_dump\<close> (\<open>dump_*\<close>). The llm
  service declares the same classes again; theory LlmWire reads the same records with validators
  of its own and proves the two contracts equal.
\<close>

record price =
  price_prefix :: ustr
  price_value :: ustr
  price_suffix :: ustr

record coordinates =
  coord_lat :: float64
  coord_lon :: float64

record geo_place =
  place_prefix :: ustr
  place_suffix :: ustr
  place_address :: "ustr option"

record geo =
  geo_remote :: "geo_place option"
  geo_order_location :: "geo_place option"
  geo_client_may_come :: "geo_place option"

record client =
  client_name :: ustr
  client_tags :: "ustr list"

record badge =
  badge_id :: ustr
  badge_image_key :: ustr
  badge_label :: ustr

record wire_order =
  wo_id :: ustr
  wo_title :: ustr
  wo_description :: ustr
  wo_price :: "price option"
  wo_geo :: geo
  wo_client :: client
  wo_badges :: "badge list"
  wo_schedule :: "ustr option"
  wo_last_update :: int
  wo_score :: float64
  wo_is_fresh :: bool
  wo_is_viewed :: bool
  wo_coordinates :: "coordinates option"

record parse_result_message =
  pr_request_id :: ustr
  pr_fetched_at :: int
  pr_total_count :: int
  pr_next_cursor :: "ustr option"
  pr_orders :: "wire_order list"

definition empty_geo :: geo where
  "empty_geo = \<lparr>geo_remote = None, geo_order_location = None, geo_client_may_come = None\<rparr>"

definition empty_client :: client where
  "empty_client = \<lparr>client_name = [], client_tags = []\<rparr>"

section \<open>Validation\<close>

definition read_price :: "pydantic \<Rightarrow> json \<Rightarrow> price option" where
  "read_price P j = bind_o (as_object j) (\<lambda>fs.
     bind_o (defaulted (as_str P) [] ''prefix'' fs) (\<lambda>p.
     bind_o (defaulted (as_str P) [] ''value'' fs) (\<lambda>v.
     bind_o (defaulted (as_str P) [] ''suffix'' fs) (\<lambda>s.
       Some \<lparr>price_prefix = p, price_value = v, price_suffix = s\<rparr>))))"

definition read_coordinates :: "pydantic \<Rightarrow> json \<Rightarrow> coordinates option" where
  "read_coordinates P j = bind_o (as_object j) (\<lambda>fs.
     bind_o (required (as_float P) ''lat'' fs) (\<lambda>lat.
     bind_o (required (as_float P) ''lon'' fs) (\<lambda>lon.
       Some \<lparr>coord_lat = lat, coord_lon = lon\<rparr>)))"

definition read_geo_place :: "pydantic \<Rightarrow> json \<Rightarrow> geo_place option" where
  "read_geo_place P j = bind_o (as_object j) (\<lambda>fs.
     bind_o (defaulted (as_str P) [] ''prefix'' fs) (\<lambda>p.
     bind_o (defaulted (as_str P) [] ''suffix'' fs) (\<lambda>s.
     bind_o (defaulted (nullable (as_str P)) None ''address'' fs) (\<lambda>a.
       Some \<lparr>place_prefix = p, place_suffix = s, place_address = a\<rparr>))))"

definition read_geo :: "pydantic \<Rightarrow> json \<Rightarrow> geo option" where
  "read_geo P j = bind_o (as_object j) (\<lambda>fs.
     bind_o (defaulted (nullable (read_geo_place P)) None ''remote'' fs) (\<lambda>r.
     bind_o (defaulted (nullable (read_geo_place P)) None ''order_location'' fs) (\<lambda>l.
     bind_o (defaulted (nullable (read_geo_place P)) None ''client_may_come'' fs) (\<lambda>c.
       Some \<lparr>geo_remote = r, geo_order_location = l, geo_client_may_come = c\<rparr>))))"

definition read_client :: "pydantic \<Rightarrow> json \<Rightarrow> client option" where
  "read_client P j = bind_o (as_object j) (\<lambda>fs.
     bind_o (defaulted (as_str P) [] ''name'' fs) (\<lambda>n.
     bind_o (defaulted (list_of (as_str P)) [] ''tags'' fs) (\<lambda>t.
       Some \<lparr>client_name = n, client_tags = t\<rparr>)))"

definition read_badge :: "pydantic \<Rightarrow> json \<Rightarrow> badge option" where
  "read_badge P j = bind_o (as_object j) (\<lambda>fs.
     bind_o (defaulted (as_str P) [] ''id'' fs) (\<lambda>i.
     bind_o (defaulted (as_str P) [] ''image_key'' fs) (\<lambda>k.
     bind_o (defaulted (as_str P) [] ''label'' fs) (\<lambda>l.
       Some \<lparr>badge_id = i, badge_image_key = k, badge_label = l\<rparr>))))"

definition read_order :: "pydantic \<Rightarrow> json \<Rightarrow> wire_order option" where
  "read_order P j = bind_o (as_object j) (\<lambda>fs.
     bind_o (required (as_str P) ''id'' fs) (\<lambda>i.
     bind_o (defaulted (as_str P) [] ''title'' fs) (\<lambda>t.
     bind_o (defaulted (as_str P) [] ''description'' fs) (\<lambda>d.
     bind_o (defaulted (nullable (read_price P)) None ''price'' fs) (\<lambda>p.
     bind_o (defaulted (read_geo P) empty_geo ''geo'' fs) (\<lambda>g.
     bind_o (defaulted (read_client P) empty_client ''client'' fs) (\<lambda>c.
     bind_o (defaulted (list_of (read_badge P)) [] ''badges'' fs) (\<lambda>b.
     bind_o (defaulted (nullable (as_str P)) None ''schedule'' fs) (\<lambda>sch.
     bind_o (defaulted (as_int P) 0 ''last_update'' fs) (\<lambda>u.
     bind_o (defaulted (as_float P) 0 ''score'' fs) (\<lambda>sc.
     bind_o (defaulted (as_bool P) False ''is_fresh'' fs) (\<lambda>fr.
     bind_o (defaulted (as_bool P) False ''is_viewed'' fs) (\<lambda>vi.
     bind_o (defaulted (nullable (read_coordinates P)) None ''coordinates'' fs) (\<lambda>co.
       Some \<lparr>wo_id = i, wo_title = t, wo_description = d, wo_price = p, wo_geo = g,
         wo_client = c, wo_badges = b, wo_schedule = sch, wo_last_update = u, wo_score = sc,
         wo_is_fresh = fr, wo_is_viewed = vi, wo_coordinates = co\<rparr>))))))))))))))"

definition read_parse_result :: "pydantic \<Rightarrow> json \<Rightarrow> parse_result_message option" where
  "read_parse_result P j = bind_o (as_object j) (\<lambda>fs.
     bind_o (required (as_str P) ''request_id'' fs) (\<lambda>r.
     bind_o (defaulted (as_int P) 0 ''fetched_at'' fs) (\<lambda>f.
     bind_o (defaulted (as_int P) 0 ''total_count'' fs) (\<lambda>t.
     bind_o (defaulted (nullable (as_str P)) None ''next_cursor'' fs) (\<lambda>n.
     bind_o (defaulted (list_of (read_order P)) [] ''orders'' fs) (\<lambda>os.
       Some \<lparr>pr_request_id = r, pr_fetched_at = f, pr_total_count = t, pr_next_cursor = n,
         pr_orders = os\<rparr>))))))"

section \<open>Dumping\<close>

definition dump_price :: "price \<Rightarrow> json" where
  "dump_price p = JObj [(lit ''prefix'', JStr (price_prefix p)), (lit ''value'', JStr (price_value p)),
     (lit ''suffix'', JStr (price_suffix p))]"

definition dump_coordinates :: "coordinates \<Rightarrow> json" where
  "dump_coordinates c = JObj [(lit ''lat'', JFloat (coord_lat c)), (lit ''lon'', JFloat (coord_lon c))]"

definition dump_geo_place :: "geo_place \<Rightarrow> json" where
  "dump_geo_place p = JObj [(lit ''prefix'', JStr (place_prefix p)),
     (lit ''suffix'', JStr (place_suffix p)), (lit ''address'', opt_json JStr (place_address p))]"

definition dump_geo :: "geo \<Rightarrow> json" where
  "dump_geo g = JObj [(lit ''remote'', opt_json dump_geo_place (geo_remote g)),
     (lit ''order_location'', opt_json dump_geo_place (geo_order_location g)),
     (lit ''client_may_come'', opt_json dump_geo_place (geo_client_may_come g))]"

definition dump_client :: "client \<Rightarrow> json" where
  "dump_client c = JObj [(lit ''name'', JStr (client_name c)),
     (lit ''tags'', JList (map JStr (client_tags c)))]"

definition dump_badge :: "badge \<Rightarrow> json" where
  "dump_badge b = JObj [(lit ''id'', JStr (badge_id b)), (lit ''image_key'', JStr (badge_image_key b)),
     (lit ''label'', JStr (badge_label b))]"

definition dump_order :: "wire_order \<Rightarrow> json" where
  "dump_order w = JObj [
     (lit ''id'', JStr (wo_id w)), (lit ''title'', JStr (wo_title w)),
     (lit ''description'', JStr (wo_description w)),
     (lit ''price'', opt_json dump_price (wo_price w)), (lit ''geo'', dump_geo (wo_geo w)),
     (lit ''client'', dump_client (wo_client w)),
     (lit ''badges'', JList (map dump_badge (wo_badges w))),
     (lit ''schedule'', opt_json JStr (wo_schedule w)),
     (lit ''last_update'', JInt (wo_last_update w)), (lit ''score'', JFloat (wo_score w)),
     (lit ''is_fresh'', JBool (wo_is_fresh w)), (lit ''is_viewed'', JBool (wo_is_viewed w)),
     (lit ''coordinates'', opt_json dump_coordinates (wo_coordinates w))]"

definition dump_parse_result :: "parse_result_message \<Rightarrow> json" where
  "dump_parse_result m = JObj [
     (lit ''request_id'', JStr (pr_request_id m)), (lit ''fetched_at'', JInt (pr_fetched_at m)),
     (lit ''total_count'', JInt (pr_total_count m)),
     (lit ''next_cursor'', opt_json JStr (pr_next_cursor m)),
     (lit ''orders'', JList (map dump_order (pr_orders m)))]"

section \<open>Validation undoes dumping\<close>

lemma read_dump_price: "pydantic_ok P \<Longrightarrow> read_price P (dump_price p) = Some p"
  by (simp add: read_price_def dump_price_def field_defs pydantic_okD)

lemma read_dump_coordinates: "pydantic_ok P \<Longrightarrow> read_coordinates P (dump_coordinates c) = Some c"
  by (simp add: read_coordinates_def dump_coordinates_def field_defs pydantic_okD)

lemma read_opt_str: "pydantic_ok P \<Longrightarrow> nullable (as_str P) (opt_json JStr x) = Some x"
  by (rule nullable_opt_json) (simp add: pydantic_okD)

lemma read_dump_geo_place: "pydantic_ok P \<Longrightarrow> read_geo_place P (dump_geo_place p) = Some p"
  by (simp add: read_geo_place_def dump_geo_place_def field_defs pydantic_okD read_opt_str)

lemma read_opt_geo_place:
  "pydantic_ok P \<Longrightarrow> nullable (read_geo_place P) (opt_json dump_geo_place x) = Some x"
  by (rule nullable_opt_json) (simp add: read_dump_geo_place, simp add: dump_geo_place_def)

lemma read_dump_geo: "pydantic_ok P \<Longrightarrow> read_geo P (dump_geo g) = Some g"
  by (simp add: read_geo_def dump_geo_def field_defs read_opt_geo_place)

lemma read_dump_client: "pydantic_ok P \<Longrightarrow> read_client P (dump_client c) = Some c"
  by (simp add: read_client_def dump_client_def field_defs pydantic_okD list_of_map)

lemma read_dump_badge: "pydantic_ok P \<Longrightarrow> read_badge P (dump_badge b) = Some b"
  by (simp add: read_badge_def dump_badge_def field_defs pydantic_okD)

lemma read_opt_price: "pydantic_ok P \<Longrightarrow> nullable (read_price P) (opt_json dump_price x) = Some x"
  by (rule nullable_opt_json) (simp add: read_dump_price, simp add: dump_price_def)

lemma read_opt_coordinates:
  "pydantic_ok P \<Longrightarrow> nullable (read_coordinates P) (opt_json dump_coordinates x) = Some x"
  by (rule nullable_opt_json) (simp add: read_dump_coordinates, simp add: dump_coordinates_def)

lemma read_badges: "pydantic_ok P \<Longrightarrow> list_of (read_badge P) (JList (map dump_badge bs)) = Some bs"
  by (rule list_of_map) (rule read_dump_badge)

lemmas read_dump = read_opt_str read_opt_price read_opt_coordinates read_badges
  read_dump_geo read_dump_client pydantic_okD

lemma read_dump_order: "pydantic_ok P \<Longrightarrow> read_order P (dump_order w) = Some w"
  by (simp add: read_order_def dump_order_def field_defs read_dump)

lemma read_orders: "pydantic_ok P \<Longrightarrow> list_of (read_order P) (JList (map dump_order ws)) = Some ws"
  by (rule list_of_map) (rule read_dump_order)

lemma read_dump_parse_result: "pydantic_ok P \<Longrightarrow> read_parse_result P (dump_parse_result m) = Some m"
  by (simp add: read_parse_result_def dump_parse_result_def field_defs read_dump read_orders)

lemma dump_order_not_null [simp]: "dump_order w \<noteq> JNull"
  by (simp add: dump_order_def)

end
