(* ===== verification/ParserDomain.thy ===== *)
theory ParserDomain
  imports Scheduler WireOrder
begin

text \<open>
  parser-worker, the service that reads the board (Rust): the requests and results of its queues
  (src/domain, src/infrastructure/amqp/codec.rs), the documents of the board's GraphQL endpoint
  (src/infrastructure/profi/dto.rs) and the mapping between them (profi/mapping.rs). The structs
  \<open>Price\<close>, \<open>Coordinates\<close>, \<open>Client\<close>, \<open>Badge\<close>, \<open>Geo\<close> and \<open>GeoPlace\<close> of domain/order.rs have the fields of
  the records of WireOrder, which are used for them; integers are kept at their width.
\<close>

section \<open>Reading with serde\<close>

text \<open>
  How serde and serde_json read one value is not under src/: a parameter, of which the code relies on
  \<open>serde_ok\<close>, the documented behaviour. \<open>sd_variant\<close> is the name of the unit variant a document
  stands for, and \<open>sd_seq\<close> the fields of a struct that is given as an array.
\<close>

record serde =
  sd_string :: "json \<Rightarrow> ustr option"
  sd_bool :: "json \<Rightarrow> bool option"
  sd_u32 :: "json \<Rightarrow> 32 word option"
  sd_i64 :: "json \<Rightarrow> 64 word option"
  sd_f64 :: "json \<Rightarrow> float64 option"
  sd_variant :: "json \<Rightarrow> ustr option"
  sd_seq :: "string list \<Rightarrow> json list \<Rightarrow> fields option"
  sd_error :: "json \<Rightarrow> ustr"

text \<open>Neither an infinity nor a NaN: the exponent bits are not all ones.\<close>

definition finite_f64 :: "float64 \<Rightarrow> bool" where
  "finite_f64 f \<longleftrightarrow> take_bit 11 (drop_bit 52 f) \<noteq> 0x7FF"

definition serde_ok :: "serde \<Rightarrow> bool" where
  "serde_ok D \<longleftrightarrow> (\<forall>s. sd_string D (JStr s) = Some s) \<and> (\<forall>b. sd_bool D (JBool b) = Some b) \<and>
     (\<forall>i. 0 \<le> i \<and> i < 2 ^ 32 \<longrightarrow> sd_u32 D (JInt i) = Some (word_of_int i)) \<and>
     (\<forall>i. i < 0 \<or> 2 ^ 32 \<le> i \<longrightarrow> sd_u32 D (JInt i) = None) \<and>
     (\<forall>i. - (2 ^ 63) \<le> i \<and> i < 2 ^ 63 \<longrightarrow> sd_i64 D (JInt i) = Some (word_of_int i)) \<and>
     (\<forall>f. finite_f64 f \<longrightarrow> sd_f64 D (JFloat f) = Some f) \<and> (\<forall>j f. sd_f64 D j = Some f \<longrightarrow> finite_f64 f) \<and>
     (\<forall>s. sd_variant D (JStr s) = Some s)"

text \<open>
  A derived \<open>Deserialize\<close> on a struct: unknown fields are ignored, a field given twice is an error. A
  field with \<open>#[serde(default)]\<close> is read with \<open>defaulted\<close>; an \<open>Option\<close> may be missing or null.
\<close>

definition struct_of :: "serde \<Rightarrow> string list \<Rightarrow> json \<Rightarrow> fields option" where
  "struct_of D names j = (case j of
     JObj fs \<Rightarrow> if distinct (filter (\<lambda>k. k \<in> set (map lit names)) (map fst fs)) then Some fs else None
   | JList js \<Rightarrow> sd_seq D names js
   | _ \<Rightarrow> None)"

definition optional :: "(json \<Rightarrow> 'a option) \<Rightarrow> string \<Rightarrow> fields \<Rightarrow> 'a option option" where
  "optional v k fs = defaulted (nullable v) None k fs"

section \<open>Requests\<close>

record rs_filter =
  rf_search_query :: ustr
  rf_page_size :: "32 word"
  rf_sort :: sort_order
  rf_all_verticals :: bool
  rf_use_saved_filter :: bool
  rf_raw_filter :: json

record rs_request =
  rq_request_id :: ustr
  rq_filter :: rs_filter
  rq_max_pages :: "32 word option"

definition default_rs_filter :: rs_filter where
  "default_rs_filter = \<lparr>rf_search_query = [], rf_page_size = 10, rf_sort = SORT_DEFAULT, rf_all_verticals = True,
     rf_use_saved_filter = True, rf_raw_filter = JNull\<rparr>"

fun as_api :: "sort_order \<Rightarrow> ustr" where
  "as_api SORT_DEFAULT = lit ''DEFAULT''"
| "as_api SORT_DATE = lit ''DATE''"

definition decode_sort :: "serde \<Rightarrow> json \<Rightarrow> sort_order option" where
  "decode_sort D j = bind_o (sd_variant D j) (\<lambda>v.
     if v = lit ''DEFAULT'' then Some SORT_DEFAULT else if v = lit ''DATE'' then Some SORT_DATE else None)"

definition decode_filter :: "serde \<Rightarrow> json \<Rightarrow> rs_filter option" where
  "decode_filter D j = bind_o (struct_of D [''search_query'', ''page_size'', ''sort'', ''all_verticals'',
       ''use_saved_filter'', ''raw_filter''] j) (\<lambda>fs.
     bind_o (defaulted (sd_string D) [] ''search_query'' fs) (\<lambda>q.
     bind_o (defaulted (sd_u32 D) 10 ''page_size'' fs) (\<lambda>n.
     bind_o (defaulted (decode_sort D) SORT_DEFAULT ''sort'' fs) (\<lambda>st.
     bind_o (defaulted (sd_bool D) True ''all_verticals'' fs) (\<lambda>av.
     bind_o (defaulted (sd_bool D) True ''use_saved_filter'' fs) (\<lambda>sf.
     bind_o (defaulted Some JNull ''raw_filter'' fs) (\<lambda>raw.
       Some \<lparr>rf_search_query = q, rf_page_size = n, rf_sort = st, rf_all_verticals = av, rf_use_saved_filter = sf,
         rf_raw_filter = raw\<rparr>)))))))"

definition decode_parse_request :: "serde \<Rightarrow> json \<Rightarrow> rs_request option" where
  "decode_parse_request D j = bind_o (struct_of D [''request_id'', ''filter'', ''max_pages''] j) (\<lambda>fs.
     bind_o (required (sd_string D) ''request_id'' fs) (\<lambda>r.
     bind_o (defaulted (decode_filter D) default_rs_filter ''filter'' fs) (\<lambda>f.
     bind_o (optional (sd_u32 D) ''max_pages'' fs) (\<lambda>m.
       Some \<lparr>rq_request_id = r, rq_filter = f, rq_max_pages = m\<rparr>))))"

datatype parser_error =
    InvalidRequest ustr
  | Auth ustr
  | Board ustr
  | Publish ustr
  | Queue ustr
  | Decode ustr

text \<open>The bytes of a delivery: a document, or the error of the text that is none.\<close>

type_synonym amqp_text = "ustr + json"

definition decode_request :: "serde \<Rightarrow> amqp_text \<Rightarrow> parser_error + rs_request" where
  "decode_request D bytes = (case bytes of
     Inl error \<Rightarrow> Inl (InvalidRequest error)
   | Inr j \<Rightarrow> (case decode_parse_request D j of Some r \<Rightarrow> Inr r | None \<Rightarrow> Inl (InvalidRequest (sd_error D j))))"

section \<open>Results\<close>

record rs_order =
  ro_id :: ustr
  ro_title :: ustr
  ro_description :: ustr
  ro_price :: "price option"
  ro_geo :: geo
  ro_client :: client
  ro_badges :: "badge list"
  ro_schedule :: "ustr option"
  ro_last_update :: "64 word"
  ro_score :: float64
  ro_is_fresh :: bool
  ro_is_viewed :: bool
  ro_coordinates :: "coordinates option"

record board_page =
  bp_orders :: "rs_order list"
  bp_next_cursor :: "ustr option"
  bp_total_count :: "32 word"
  bp_server_ts :: "64 word"

record rs_result =
  re_request_id :: ustr
  re_fetched_at :: "64 word"
  re_total_count :: "32 word"
  re_next_cursor :: "ustr option"
  re_orders :: "rs_order list"

text \<open>A derived \<open>Serialize\<close>: the fields in their order, \<open>None\<close> as null; a float that is not finite is null too.\<close>

definition json_f64 :: "float64 \<Rightarrow> json" where
  "json_f64 f = (if finite_f64 f then JFloat f else JNull)"

definition encode_price :: "price \<Rightarrow> json" where
  "encode_price p = JObj [(lit ''prefix'', JStr (price_prefix p)), (lit ''value'', JStr (price_value p)),
     (lit ''suffix'', JStr (price_suffix p))]"

definition encode_coordinates :: "coordinates \<Rightarrow> json" where
  "encode_coordinates c = JObj [(lit ''lat'', json_f64 (coord_lat c)), (lit ''lon'', json_f64 (coord_lon c))]"

definition encode_geo_place :: "geo_place \<Rightarrow> json" where
  "encode_geo_place p = JObj [(lit ''prefix'', JStr (place_prefix p)), (lit ''suffix'', JStr (place_suffix p)),
     (lit ''address'', opt_json JStr (place_address p))]"

definition encode_geo :: "geo \<Rightarrow> json" where
  "encode_geo g = JObj [(lit ''remote'', opt_json encode_geo_place (geo_remote g)),
     (lit ''order_location'', opt_json encode_geo_place (geo_order_location g)),
     (lit ''client_may_come'', opt_json encode_geo_place (geo_client_may_come g))]"

definition encode_client :: "client \<Rightarrow> json" where
  "encode_client c = JObj [(lit ''name'', JStr (client_name c)), (lit ''tags'', JList (map JStr (client_tags c)))]"

definition encode_badge :: "badge \<Rightarrow> json" where
  "encode_badge b = JObj [(lit ''id'', JStr (badge_id b)), (lit ''image_key'', JStr (badge_image_key b)),
     (lit ''label'', JStr (badge_label b))]"

definition encode_order :: "rs_order \<Rightarrow> json" where
  "encode_order r = JObj [
     (lit ''id'', JStr (ro_id r)), (lit ''title'', JStr (ro_title r)), (lit ''description'', JStr (ro_description r)),
     (lit ''price'', opt_json encode_price (ro_price r)), (lit ''geo'', encode_geo (ro_geo r)),
     (lit ''client'', encode_client (ro_client r)), (lit ''badges'', JList (map encode_badge (ro_badges r))),
     (lit ''schedule'', opt_json JStr (ro_schedule r)), (lit ''last_update'', JInt (sint (ro_last_update r))),
     (lit ''score'', json_f64 (ro_score r)), (lit ''is_fresh'', JBool (ro_is_fresh r)),
     (lit ''is_viewed'', JBool (ro_is_viewed r)), (lit ''coordinates'', opt_json encode_coordinates (ro_coordinates r))]"

definition encode_result :: "rs_result \<Rightarrow> json" where
  "encode_result r = JObj [
     (lit ''request_id'', JStr (re_request_id r)), (lit ''fetched_at'', JInt (sint (re_fetched_at r))),
     (lit ''total_count'', JInt (uint (re_total_count r))), (lit ''next_cursor'', opt_json JStr (re_next_cursor r)),
     (lit ''orders'', JList (map encode_order (re_orders r)))]"

section \<open>The board's documents\<close>

record badge_dto =
  bd_id :: "ustr option"
  bd_image_key :: "ustr option"
  bd_label :: "ustr option"

record geo_place_dto =
  gp_prefix :: "ustr option"
  gp_suffix :: "ustr option"
  gp_address :: "ustr option"

record geo_dto =
  gd_remote :: "geo_place_dto option"
  gd_order_location :: "geo_place_dto option"
  gd_client_may_come :: "geo_place_dto option"

record price_dto =
  pd_prefix :: "ustr option"
  pd_suffix :: "ustr option"
  pd_value :: "ustr option"

record item_dto =
  it_type :: "ustr option"
  it_id :: "ustr option"
  it_title :: "ustr option"
  it_description :: "ustr option"
  it_score :: "float64 option"
  it_last_update_date :: "64 word option"
  it_is_fresh :: "bool option"
  it_is_viewed :: "bool option"
  it_schedule :: "ustr option"
  it_price :: "price_dto option"
  it_geo :: "geo_dto option"
  it_client_info :: "ustr option option"
  it_client_tags :: "ustr option list"
  it_badges :: "badge_dto list"
  it_coordinates :: "coordinates option"

record board_items =
  bi_next_cursor :: "ustr option"
  bi_server_ts :: "64 word"
  bi_total_count :: "32 word"
  bi_items :: "item_dto list"

record graphql_response =
  gr_data :: "board_items option"
  gr_errors :: "ustr list"

definition read_badge_dto :: "serde \<Rightarrow> json \<Rightarrow> badge_dto option" where
  "read_badge_dto D j = bind_o (struct_of D [''id'', ''imageKey'', ''label''] j) (\<lambda>fs.
     bind_o (optional (sd_string D) ''id'' fs) (\<lambda>i.
     bind_o (optional (sd_string D) ''imageKey'' fs) (\<lambda>k.
     bind_o (optional (sd_string D) ''label'' fs) (\<lambda>l.
       Some \<lparr>bd_id = i, bd_image_key = k, bd_label = l\<rparr>))))"

definition read_geo_place_dto :: "serde \<Rightarrow> json \<Rightarrow> geo_place_dto option" where
  "read_geo_place_dto D j = bind_o (struct_of D [''prefix'', ''suffix'', ''address''] j) (\<lambda>fs.
     bind_o (optional (sd_string D) ''prefix'' fs) (\<lambda>p.
     bind_o (optional (sd_string D) ''suffix'' fs) (\<lambda>s.
     bind_o (optional (sd_string D) ''address'' fs) (\<lambda>a.
       Some \<lparr>gp_prefix = p, gp_suffix = s, gp_address = a\<rparr>))))"

definition read_geo_dto :: "serde \<Rightarrow> json \<Rightarrow> geo_dto option" where
  "read_geo_dto D j = bind_o (struct_of D [''remote'', ''orderLocation'', ''clientMayCome''] j) (\<lambda>fs.
     bind_o (optional (read_geo_place_dto D) ''remote'' fs) (\<lambda>r.
     bind_o (optional (read_geo_place_dto D) ''orderLocation'' fs) (\<lambda>l.
     bind_o (optional (read_geo_place_dto D) ''clientMayCome'' fs) (\<lambda>c.
       Some \<lparr>gd_remote = r, gd_order_location = l, gd_client_may_come = c\<rparr>))))"

definition read_price_dto :: "serde \<Rightarrow> json \<Rightarrow> price_dto option" where
  "read_price_dto D j = bind_o (struct_of D [''prefix'', ''suffix'', ''value''] j) (\<lambda>fs.
     bind_o (optional (sd_string D) ''prefix'' fs) (\<lambda>p.
     bind_o (optional (sd_string D) ''suffix'' fs) (\<lambda>s.
     bind_o (optional (sd_string D) ''value'' fs) (\<lambda>v.
       Some \<lparr>pd_prefix = p, pd_suffix = s, pd_value = v\<rparr>))))"

definition read_coordinates_dto :: "serde \<Rightarrow> json \<Rightarrow> coordinates option" where
  "read_coordinates_dto D j = bind_o (struct_of D [''lat'', ''lon''] j) (\<lambda>fs.
     bind_o (required (sd_f64 D) ''lat'' fs) (\<lambda>lat.
     bind_o (required (sd_f64 D) ''lon'' fs) (\<lambda>lon.
       Some \<lparr>coord_lat = lat, coord_lon = lon\<rparr>)))"

text \<open>\<open>ClientInfoDto\<close>, \<open>ClientTagDto\<close> and \<open>GraphqlError\<close> have one field each.\<close>

definition read_single :: "serde \<Rightarrow> string \<Rightarrow> json \<Rightarrow> ustr option option" where
  "read_single D k j = bind_o (struct_of D [k] j) (optional (sd_string D) k)"

definition read_error :: "serde \<Rightarrow> json \<Rightarrow> ustr option" where
  "read_error D j = bind_o (struct_of D [''message''] j) (required (sd_string D) ''message'')"

definition read_item :: "serde \<Rightarrow> json \<Rightarrow> item_dto option" where
  "read_item D j = bind_o (struct_of D [''type'', ''id'', ''title'', ''description'', ''score'', ''lastUpdateDate'',
       ''isFresh'', ''isViewed'', ''schedule'', ''price'', ''geo'', ''clientInfo'', ''clientTags'', ''badges'',
       ''coordinates''] j) (\<lambda>fs.
     bind_o (optional (sd_string D) ''type'' fs) (\<lambda>ty.
     bind_o (optional (sd_string D) ''id'' fs) (\<lambda>i.
     bind_o (optional (sd_string D) ''title'' fs) (\<lambda>t.
     bind_o (optional (sd_string D) ''description'' fs) (\<lambda>d.
     bind_o (optional (sd_f64 D) ''score'' fs) (\<lambda>sc.
     bind_o (optional (sd_i64 D) ''lastUpdateDate'' fs) (\<lambda>lu.
     bind_o (optional (sd_bool D) ''isFresh'' fs) (\<lambda>fr.
     bind_o (optional (sd_bool D) ''isViewed'' fs) (\<lambda>vi.
     bind_o (optional (sd_string D) ''schedule'' fs) (\<lambda>sch.
     bind_o (optional (read_price_dto D) ''price'' fs) (\<lambda>p.
     bind_o (optional (read_geo_dto D) ''geo'' fs) (\<lambda>g.
     bind_o (optional (read_single D ''name'') ''clientInfo'' fs) (\<lambda>ci.
     bind_o (defaulted (list_of (read_single D ''value'')) [] ''clientTags'' fs) (\<lambda>ct.
     bind_o (defaulted (list_of (read_badge_dto D)) [] ''badges'' fs) (\<lambda>b.
     bind_o (optional (read_coordinates_dto D) ''coordinates'' fs) (\<lambda>co.
       Some \<lparr>it_type = ty, it_id = i, it_title = t, it_description = d, it_score = sc, it_last_update_date = lu,
         it_is_fresh = fr, it_is_viewed = vi, it_schedule = sch, it_price = p, it_geo = g, it_client_info = ci,
         it_client_tags = ct, it_badges = b, it_coordinates = co\<rparr>))))))))))))))))"

definition read_board_items :: "serde \<Rightarrow> json \<Rightarrow> board_items option" where
  "read_board_items D j = bind_o (struct_of D [''nextCursor'', ''serverTs'', ''totalCount'', ''items''] j) (\<lambda>fs.
     bind_o (optional (sd_string D) ''nextCursor'' fs) (\<lambda>n.
     bind_o (defaulted (sd_i64 D) 0 ''serverTs'' fs) (\<lambda>ts.
     bind_o (defaulted (sd_u32 D) 0 ''totalCount'' fs) (\<lambda>t.
     bind_o (defaulted (list_of (read_item D)) [] ''items'' fs) (\<lambda>is.
       Some \<lparr>bi_next_cursor = n, bi_server_ts = ts, bi_total_count = t, bi_items = is\<rparr>)))))"

definition read_response_data :: "serde \<Rightarrow> json \<Rightarrow> board_items option" where
  "read_response_data D j = bind_o (struct_of D [''boSearchBoardItems''] j)
     (required (read_board_items D) ''boSearchBoardItems'')"

definition read_response :: "serde \<Rightarrow> json \<Rightarrow> graphql_response option" where
  "read_response D j = bind_o (struct_of D [''data'', ''errors''] j) (\<lambda>fs.
     bind_o (optional (read_response_data D) ''data'' fs) (\<lambda>d.
     bind_o (defaulted (list_of (read_error D)) [] ''errors'' fs) (\<lambda>es.
       Some \<lparr>gr_data = d, gr_errors = es\<rparr>)))"

section \<open>Mapping\<close>

definition or_default :: "'a \<Rightarrow> 'a option \<Rightarrow> 'a" where
  "or_default d v = (case v of Some x \<Rightarrow> x | None \<Rightarrow> d)"

definition non_empty :: "ustr option \<Rightarrow> ustr option" where
  "non_empty v = (case v of Some s \<Rightarrow> if s = [] then None else Some s | None \<Rightarrow> None)"

definition to_price :: "price_dto \<Rightarrow> price option" where
  "to_price p = map_option (\<lambda>v. \<lparr>price_prefix = or_default [] (pd_prefix p), price_value = v,
     price_suffix = or_default [] (pd_suffix p)\<rparr>) (pd_value p)"

definition to_geo_place :: "geo_place_dto \<Rightarrow> geo_place option" where
  "to_geo_place p = map_option (\<lambda>x. \<lparr>place_prefix = x, place_suffix = or_default [] (gp_suffix p),
     place_address = gp_address p\<rparr>) (non_empty (gp_prefix p))"

definition to_geo :: "geo_dto \<Rightarrow> geo" where
  "to_geo g = \<lparr>geo_remote = Option.bind (gd_remote g) to_geo_place,
     geo_order_location = Option.bind (gd_order_location g) to_geo_place,
     geo_client_may_come = Option.bind (gd_client_may_come g) to_geo_place\<rparr>"

definition to_badge :: "badge_dto \<Rightarrow> badge option" where
  "to_badge b = map_option (\<lambda>i. \<lparr>badge_id = i, badge_image_key = or_default [] (bd_image_key b),
     badge_label = or_default [] (bd_label b)\<rparr>) (bd_id b)"

definition SNIPPET :: ustr where "SNIPPET = lit ''SNIPPET''"

definition to_order :: "item_dto \<Rightarrow> rs_order option" where
  "to_order it = (if it_type it \<noteq> Some SNIPPET then None
     else map_option (\<lambda>i. \<lparr>ro_id = i, ro_title = or_default [] (it_title it),
       ro_description = or_default [] (it_description it), ro_price = Option.bind (it_price it) to_price,
       ro_geo = or_default empty_geo (map_option to_geo (it_geo it)),
       ro_client = \<lparr>client_name = or_default [] (Option.bind (it_client_info it) (\<lambda>n. n)),
         client_tags = List.map_filter (\<lambda>t. t) (it_client_tags it)\<rparr>,
       ro_badges = List.map_filter to_badge (it_badges it), ro_schedule = non_empty (it_schedule it),
       ro_last_update = or_default 0 (it_last_update_date it), ro_score = or_default 0 (it_score it),
       ro_is_fresh = or_default False (it_is_fresh it), ro_is_viewed = or_default False (it_is_viewed it),
       ro_coordinates = it_coordinates it\<rparr>) (it_id it))"

definition to_board_page :: "board_items \<Rightarrow> board_page" where
  "to_board_page b = \<lparr>bp_orders = List.map_filter to_order (bi_items b), bp_next_cursor = bi_next_cursor b,
     bp_total_count = bi_total_count b, bp_server_ts = bi_server_ts b\<rparr>"

end
