(* ===== verification/CoreDomain.thy ===== *)
theory CoreDomain
  imports WireOrder
begin

text \<open>
  order-core-service: the domain (app/domain), the input DTOs (app/application/dto.py), the wire
  schema of the verdict (the second half of messaging/schemas.py) and the mapping between wire and
  domain (messaging/mapping.py).
\<close>

section \<open>Enumerations\<close>

datatype source = PROFI

fun source_value :: "source \<Rightarrow> ustr" where
  "source_value PROFI = lit ''profi''"

definition source_of :: "ustr \<Rightarrow> exn + source" where
  "source_of s = (if s = lit ''profi'' then Inr PROFI
     else Inl (ValueError (s @ lit '' is not a valid Source'')))"

datatype order_status = ASSESS_REQUESTED | NOTIFY_REQUESTED | NO_NOTIFY | FAILED

fun status_value :: "order_status \<Rightarrow> ustr" where
  "status_value ASSESS_REQUESTED = lit ''assess_requested''"
| "status_value NOTIFY_REQUESTED = lit ''notify_requested''"
| "status_value NO_NOTIFY = lit ''no_notify''"
| "status_value FAILED = lit ''failed''"

definition status_of :: "ustr \<Rightarrow> exn + order_status" where
  "status_of s =
     (if s = lit ''assess_requested'' then Inr ASSESS_REQUESTED
      else if s = lit ''notify_requested'' then Inr NOTIFY_REQUESTED
      else if s = lit ''no_notify'' then Inr NO_NOTIFY
      else if s = lit ''failed'' then Inr FAILED
      else Inl (ValueError (s @ lit '' is not a valid OrderStatus'')))"

definition can_apply_assessment :: "order_status \<Rightarrow> bool" where
  "can_apply_assessment st \<longleftrightarrow> st = ASSESS_REQUESTED"

datatype parse_mode = HTML | MarkdownV2 | Markdown

fun parse_mode_value :: "parse_mode \<Rightarrow> ustr" where
  "parse_mode_value HTML = lit ''HTML''"
| "parse_mode_value MarkdownV2 = lit ''MarkdownV2''"
| "parse_mode_value Markdown = lit ''Markdown''"

definition read_parse_mode :: "json \<Rightarrow> parse_mode option" where
  "read_parse_mode j =
     (if j = JStr (lit ''HTML'') then Some HTML
      else if j = JStr (lit ''MarkdownV2'') then Some MarkdownV2
      else if j = JStr (lit ''Markdown'') then Some Markdown
      else None)"

declare source_value.simps [simp del] status_value.simps [simp del] parse_mode_value.simps [simp del]

lemmas enum_values = source_value.simps status_value.simps parse_mode_value.simps

lemma status_of_value [simp]: "status_of (status_value st) = Inr st"
  by (cases st) (simp_all add: status_of_def enum_values)

lemma status_value_inj [simp]: "status_value a = status_value b \<longleftrightarrow> a = b"
  by (cases a; cases b) (simp_all add: enum_values)

lemma source_of_value [simp]: "source_of (source_value s) = Inr s"
  by (cases s) (simp add: source_of_def enum_values)

lemma read_parse_mode_value [simp]: "read_parse_mode (JStr (parse_mode_value m)) = Some m"
  by (cases m) (simp_all add: read_parse_mode_def enum_values)

section \<open>Domain objects and DTOs\<close>

record notification_command =
  nc_text :: ustr
  nc_parse_mode :: "parse_mode option"
  nc_disable_notification :: "bool option"
  nc_disable_web_page_preview :: "bool option"
  nc_message_thread_id :: "int option"

record assessment_outcome =
  ao_order_id :: ustr
  ao_suitability_score :: int
  ao_notification :: notification_command

record dom_order =
  do_source :: source
  do_external_id :: ustr
  do_status :: order_status
  do_suitability_score :: "int option"

record incoming_order =
  io_source :: source
  io_external_id :: ustr
  io_payload :: json
  io_request_id :: "ustr option"
  io_fetched_at :: int

record pending_event =
  pe_id :: nat
  pe_destination :: ustr
  pe_payload :: json

text \<open>
  \<open>AssessmentOutcome(...)\<close>: the score carries \<open>Field(ge=0, le=100)\<close>, so construction raises a
  \<open>ValidationError\<close> outside that range.
\<close>

definition AssessmentOutcome ::
    "pydantic \<Rightarrow> ustr \<Rightarrow> int \<Rightarrow> notification_command \<Rightarrow> exn + assessment_outcome" where
  "AssessmentOutcome P oid score n =
     (if 0 \<le> score \<and> score \<le> 100
      then Inr \<lparr>ao_order_id = oid, ao_suitability_score = score, ao_notification = n\<rparr>
      else Inl (ValidationError (error_report P (lit ''AssessmentOutcome'') (JInt score))))"

section \<open>Decision\<close>

datatype decision_reason = Above_threshold | Below_threshold

record decision =
  dec_notify :: bool
  dec_reason :: decision_reason

definition decide_notification :: "assessment_outcome \<Rightarrow> int \<Rightarrow> decision" where
  "decide_notification outcome threshold =
     (if ao_suitability_score outcome \<ge> threshold
      then \<lparr>dec_notify = True, dec_reason = Above_threshold\<rparr>
      else \<lparr>dec_notify = False, dec_reason = Below_threshold\<rparr>)"

fun reason_value :: "decision_reason \<Rightarrow> ustr" where
  "reason_value Above_threshold = lit ''above_threshold''"
| "reason_value Below_threshold = lit ''below_threshold''"

lemma decide_notification_notify [simp]:
  "dec_notify (decide_notification o' th) \<longleftrightarrow> th \<le> ao_suitability_score o'"
  by (simp add: decide_notification_def)

section \<open>The verdict on the wire\<close>

record notification_message =
  nm_text :: ustr
  nm_parse_mode :: "parse_mode option"
  nm_disable_notification :: "bool option"
  nm_disable_web_page_preview :: "bool option"
  nm_message_thread_id :: "int option"

record assessment_result_message =
  ar_order_id :: ustr
  ar_suitability_score :: int
  ar_notification :: notification_message

text \<open>\<open>populate_by_name\<close>: the camelCase alias is read first, then the field's own name.\<close>

definition read_notification :: "pydantic \<Rightarrow> json \<Rightarrow> notification_message option" where
  "read_notification P j = bind_o (as_object j) (\<lambda>fs.
     bind_o (required (as_str P) ''text'' fs) (\<lambda>t.
     bind_o (aliased (nullable read_parse_mode) None ''parseMode'' ''parse_mode'' fs) (\<lambda>m.
     bind_o (aliased (nullable (as_bool P)) None ''disableNotification'' ''disable_notification'' fs) (\<lambda>dn.
     bind_o (aliased (nullable (as_bool P)) None
       ''disableWebPagePreview'' ''disable_web_page_preview'' fs) (\<lambda>dw.
     bind_o (aliased (nullable (as_int P)) None ''messageThreadId'' ''message_thread_id'' fs) (\<lambda>ti.
       Some \<lparr>nm_text = t, nm_parse_mode = m, nm_disable_notification = dn,
         nm_disable_web_page_preview = dw, nm_message_thread_id = ti\<rparr>))))))"

definition read_assessment_result :: "pydantic \<Rightarrow> json \<Rightarrow> assessment_result_message option" where
  "read_assessment_result P j = bind_o (as_object j) (\<lambda>fs.
     bind_o (required (as_str P) ''order_id'' fs) (\<lambda>i.
     bind_o (required (as_int P) ''suitability_score'' fs) (\<lambda>s.
     bind_o (required (read_notification P) ''notification'' fs) (\<lambda>n.
       Some \<lparr>ar_order_id = i, ar_suitability_score = s, ar_notification = n\<rparr>))))"

text \<open>\<open>model_dump(by_alias=True, exclude_none=True)\<close>.\<close>

definition dump_notification :: "notification_message \<Rightarrow> json" where
  "dump_notification m = JObj (exclude_none [
     (lit ''text'', JStr (nm_text m)),
     (lit ''parseMode'', opt_json (\<lambda>p. JStr (parse_mode_value p)) (nm_parse_mode m)),
     (lit ''disableNotification'', opt_json JBool (nm_disable_notification m)),
     (lit ''disableWebPagePreview'', opt_json JBool (nm_disable_web_page_preview m)),
     (lit ''messageThreadId'', opt_json JInt (nm_message_thread_id m))])"

section \<open>Mapping\<close>

definition to_incoming_orders :: "parse_result_message \<Rightarrow> incoming_order list" where
  "to_incoming_orders m = map (\<lambda>w. \<lparr>io_source = PROFI, io_external_id = wo_id w,
     io_payload = dump_order w, io_request_id = Some (pr_request_id m),
     io_fetched_at = pr_fetched_at m\<rparr>) (pr_orders m)"

definition to_assessment_outcome ::
    "pydantic \<Rightarrow> assessment_result_message \<Rightarrow> exn + assessment_outcome" where
  "to_assessment_outcome P m = (let n = ar_notification m in
     AssessmentOutcome P (ar_order_id m) (ar_suitability_score m)
       \<lparr>nc_text = nm_text n, nc_parse_mode = nm_parse_mode n,
        nc_disable_notification = nm_disable_notification n,
        nc_disable_web_page_preview = nm_disable_web_page_preview n,
        nc_message_thread_id = nm_message_thread_id n\<rparr>)"

text \<open>\<open>order.request_id or ""\<close>: both \<open>None\<close> and the empty string give the empty string.\<close>

definition assess_request_payload :: "incoming_order \<Rightarrow> json" where
  "assess_request_payload ord = JObj [
     (lit ''request_id'', JStr (case io_request_id ord of Some r \<Rightarrow> r | None \<Rightarrow> [])),
     (lit ''fetched_at'', JInt (io_fetched_at ord)),
     (lit ''total_count'', JInt 1),
     (lit ''next_cursor'', JNull),
     (lit ''orders'', JList [io_payload ord])]"

definition notification_payload :: "notification_command \<Rightarrow> json" where
  "notification_payload n = dump_notification
     \<lparr>nm_text = nc_text n, nm_parse_mode = nc_parse_mode n,
      nm_disable_notification = nc_disable_notification n,
      nm_disable_web_page_preview = nc_disable_web_page_preview n,
      nm_message_thread_id = nc_message_thread_id n\<rparr>"

section \<open>Round trips\<close>

lemma exclude_none_opt: "exclude_none ((k, opt_json f x) # fs) =
    (if opt_json f x = JNull then exclude_none fs else (k, opt_json f x) # exclude_none fs)"
  by (simp add: exclude_none_def)

lemma opt_json_scalar_null [simp]:
  "opt_json JStr s = JNull \<longleftrightarrow> s = None"
  "opt_json JBool b = JNull \<longleftrightarrow> b = None"
  "opt_json JInt i = JNull \<longleftrightarrow> i = None"
  "opt_json (\<lambda>p. JStr (g p)) m = JNull \<longleftrightarrow> m = None"
  by (simp_all add: opt_json_def split: option.split)

lemma read_dump_notification:
  assumes "pydantic_ok P"
  shows "read_notification P (dump_notification m) = Some m"
proof -
  have "read_notification P (dump_notification
      \<lparr>nm_text = t, nm_parse_mode = pm, nm_disable_notification = dn,
       nm_disable_web_page_preview = dw, nm_message_thread_id = ti\<rparr>) =
      Some \<lparr>nm_text = t, nm_parse_mode = pm, nm_disable_notification = dn,
       nm_disable_web_page_preview = dw, nm_message_thread_id = ti\<rparr>" for t pm dn dw ti
    by (cases pm; cases dn; cases dw; cases ti)
      (simp_all add: read_notification_def dump_notification_def field_defs pydantic_okD [OF assms])
  then show ?thesis by (cases m) simp
qed

text \<open>No field of an outgoing notification is null, whatever the command leaves unset.\<close>

lemma notification_payload_no_null:
  "notification_payload n = JObj fs \<Longrightarrow> (k, v) \<in> set fs \<Longrightarrow> v \<noteq> JNull"
  unfolding notification_payload_def dump_notification_def by (auto dest: exclude_none_no_null)

text \<open>The command survives the trip through the wire message and back.\<close>

definition command_of_message :: "notification_message \<Rightarrow> notification_command" where
  "command_of_message n = \<lparr>nc_text = nm_text n, nc_parse_mode = nm_parse_mode n,
     nc_disable_notification = nm_disable_notification n,
     nc_disable_web_page_preview = nm_disable_web_page_preview n,
     nc_message_thread_id = nm_message_thread_id n\<rparr>"

lemma read_notification_payload:
  "pydantic_ok P \<Longrightarrow> map_option command_of_message (read_notification P (notification_payload n)) = Some n"
  by (simp add: notification_payload_def read_dump_notification command_of_message_def)

lemma read_assess_request_payload:
  assumes "pydantic_ok P" and "w \<in> set (pr_orders m)"
    and "ord \<in> set (to_incoming_orders m)" and "io_payload ord = dump_order w"
  shows "read_parse_result P (assess_request_payload ord) =
    Some \<lparr>pr_request_id = pr_request_id m, pr_fetched_at = pr_fetched_at m, pr_total_count = 1,
      pr_next_cursor = None, pr_orders = [w]\<rparr>"
proof -
  have "io_request_id ord = Some (pr_request_id m)" "io_fetched_at ord = pr_fetched_at m"
    using assms(3) by (auto simp: to_incoming_orders_def)
  moreover have "list_of (read_order P) (JList [dump_order w]) = Some [w]"
    using list_of_map [of "[w]" "read_order P" dump_order] read_dump_order [OF assms(1)] by simp
  ultimately show ?thesis
    using assms(4) by (simp add: assess_request_payload_def read_parse_result_def field_defs
        pydantic_okD [OF assms(1)])
qed

lemma to_assessment_outcome_range:
  "to_assessment_outcome P m = Inr out \<Longrightarrow> 0 \<le> ao_suitability_score out \<and> ao_suitability_score out \<le> 100"
  by (auto simp: to_assessment_outcome_def AssessmentOutcome_def Let_def split: if_splits)

lemma to_assessment_outcome_Inr:
  "0 \<le> ar_suitability_score m \<Longrightarrow> ar_suitability_score m \<le> 100 \<Longrightarrow>
   to_assessment_outcome P m = Inr \<lparr>ao_order_id = ar_order_id m,
     ao_suitability_score = ar_suitability_score m,
     ao_notification = command_of_message (ar_notification m)\<rparr>"
  by (simp add: to_assessment_outcome_def AssessmentOutcome_def Let_def command_of_message_def)

lemma to_assessment_outcome_Inl:
  "\<not> (0 \<le> ar_suitability_score m \<and> ar_suitability_score m \<le> 100) \<Longrightarrow>
   \<exists>r. to_assessment_outcome P m = Inl (ValidationError r)"
  by (auto simp: to_assessment_outcome_def AssessmentOutcome_def Let_def)

end
