(* ===== verification/CoreDb.thy ===== *)
theory CoreDb
  imports CoreDomain Runtime "HOL-Library.Multiset"
begin

text \<open>
  order-core-service: the two tables (infrastructure/db/models.py, alembic 0001), the statements of
  the repositories (repositories.py) and of the outbox dispatch (outbox_dispatch.py), and the
  transaction a unit of work or a dispatch runs them in (unit_of_work.py).

  The tables are lists of rows. PostgreSQL itself is not under src/: what it decides on its own is
  a parameter, the record \<open>pg_env\<close>. It draws the uuids, tells the time of a transaction, may fail
  any statement, commit or close (a failed commit may or may not have been applied), refuses texts and
  documents it cannot store, returns equal sort keys in an order of its own and knows the rows
  other transactions hold locked.
\<close>

section \<open>Tables\<close>

record order_row =
  or_id :: nat
  or_source :: ustr
  or_external_id :: ustr
  or_status :: ustr
  or_payload :: json
  or_suitability_score :: "int option"
  or_request_id :: "ustr option"
  or_source_fetched_at :: "int option"
  or_created_at :: int
  or_updated_at :: int

record outbox_row =
  ob_id :: nat
  ob_aggregate_id :: "nat option"
  ob_destination :: ustr
  ob_payload :: json
  ob_dedup_key :: ustr
  ob_status :: ustr
  ob_attempts :: int
  ob_last_error :: "ustr option"
  ob_created_at :: int
  ob_published_at :: "int option"

record database =
  orders_t :: "order_row list"
  outbox_t :: "outbox_row list"

datatype outbox_destination = ASSESS_REQUEST | NOTIFY

fun destination_value :: "outbox_destination \<Rightarrow> ustr" where
  "destination_value ASSESS_REQUEST = lit ''assess_request''"
| "destination_value NOTIFY = lit ''notify''"

declare destination_value.simps [simp del]

lemma destination_value_inj [simp]: "destination_value a = destination_value b \<longleftrightarrow> a = b"
  by (cases a; cases b) (simp_all add: destination_value.simps)

definition pending :: ustr where "pending = lit ''pending''"
definition published :: ustr where "published = lit ''published''"

lemma pending_not_published [simp]: "pending \<noteq> published" "published \<noteq> pending"
  by (simp_all add: pending_def published_def)

record pg_env =
  uuid4 :: "nat \<Rightarrow> nat"
  pg_now :: "nat \<Rightarrow> int"
  pg_fault :: "nat \<Rightarrow> ustr option"
  commit_fault :: "nat \<Rightarrow> (ustr \<times> bool) option"
  close_fault :: "nat \<Rightarrow> ustr option"
  text_ok :: "ustr \<Rightarrow> bool"
  json_ok :: "json \<Rightarrow> bool"
  tie :: "nat \<Rightarrow> nat \<Rightarrow> nat"
  locked :: "nat \<Rightarrow> nat \<Rightarrow> bool"

text \<open>Column types: \<open>String(n)\<close>, \<open>Integer\<close> and \<open>BigInteger\<close>.\<close>

definition varchar_ok :: "pg_env \<Rightarrow> nat \<Rightarrow> ustr \<Rightarrow> bool" where
  "varchar_ok E n s \<longleftrightarrow> length s \<le> n \<and> text_ok E s"

definition int32_ok :: "int \<Rightarrow> bool" where
  "int32_ok i \<longleftrightarrow> - (2 ^ 31) \<le> i \<and> i < 2 ^ 31"

definition int64_ok :: "int \<Rightarrow> bool" where
  "int64_ok i \<longleftrightarrow> - (2 ^ 63) \<le> i \<and> i < 2 ^ 63"

section \<open>Sessions and transactions\<close>

text \<open>
  \<open>committed\<close> is what the server holds; \<open>session\<close> is the object's \<open>_session\<close>: \<open>None\<close> outside the
  \<open>async with\<close> block, else the working copy of the open transaction. The counters index the
  parameters of \<open>pg_env\<close>.
\<close>

record pg = runtime +
  committed :: database
  session :: "database option"
  n_uuid :: nat
  n_tx :: nat
  n_stmt :: nat
  n_commit :: nat

definition no_session :: exn where
  "no_session = RuntimeError (lit ''used outside its context'')"

definition require_session :: "('z pg_scheme, database) act" where
  "require_session s = (case session s of None \<Rightarrow> (Inl no_session, s) | Some db \<Rightarrow> (Inr db, s))"

text \<open>One round trip: a statement reads and writes the working copy, or fails.\<close>

definition execute :: "pg_env \<Rightarrow> (int \<Rightarrow> database \<Rightarrow> exn + ('a \<times> database)) \<Rightarrow> ('z pg_scheme, 'a) act" where
  "execute E q = bind_act require_session (\<lambda>db s.
     let s' = s\<lparr>n_stmt := Suc (n_stmt s)\<rparr> in
     case pg_fault E (n_stmt s) of
       Some m \<Rightarrow> (Inl (DatabaseError m), s')
     | None \<Rightarrow> (case q (pg_now E (n_tx s)) db of
         Inl e \<Rightarrow> (Inl e, s')
       | Inr (x, db') \<Rightarrow> (Inr x, s'\<lparr>session := Some db'\<rparr>)))"

definition draw_uuid :: "pg_env \<Rightarrow> ('z pg_scheme, nat) act" where
  "draw_uuid E s = (Inr (uuid4 E (n_uuid s)), s\<lparr>n_uuid := Suc (n_uuid s)\<rparr>)"

definition aenter :: "'z pg_scheme \<Rightarrow> 'z pg_scheme" where
  "aenter s = s\<lparr>session := Some (committed s), n_tx := Suc (n_tx s)\<rparr>"

definition commit :: "pg_env \<Rightarrow> ('z pg_scheme, unit) act" where
  "commit E = bind_act require_session (\<lambda>db s.
     let s' = s\<lparr>n_commit := Suc (n_commit s)\<rparr> in
     case commit_fault E (n_commit s) of
       None \<Rightarrow> (Inr (), s'\<lparr>committed := db\<rparr>)
     | Some (m, applied) \<Rightarrow>
         (Inl (DatabaseError m), if applied then s'\<lparr>committed := db\<rparr> else s'))"

definition rollback :: "pg_env \<Rightarrow> ('z pg_scheme, unit) act" where
  "rollback E = bind_act require_session (\<lambda>_ s.
     let s' = s\<lparr>n_stmt := Suc (n_stmt s)\<rparr> in
     case pg_fault E (n_stmt s) of
       Some m \<Rightarrow> (Inl (DatabaseError m), s')
     | None \<Rightarrow> (Inr (), s'\<lparr>session := Some (committed s)\<rparr>))"

text \<open>
  \<open>session.close()\<close> ends what is left of the transaction and can fail too, also after a body that
  returned. \<open>_session\<close> then keeps its value, but the object is made for one block and is dropped with
  it; \<open>session = None\<close> stands for that.
\<close>

definition close_session :: "pg_env \<Rightarrow> ('z pg_scheme, unit) act" where
  "close_session E s = (case close_fault E (n_tx s) of
     Some m \<Rightarrow> (Inl (DatabaseError m), s\<lparr>session := None\<rparr>)
   | None \<Rightarrow> (Inr (), s\<lparr>session := None\<rparr>))"

text \<open>
  \<open>__aexit__\<close>: with an exception, roll back, then close in \<open>finally\<close>; an exception of the rollback
  replaces the first one, and one of the close any other. It returns \<open>None\<close>, so the exception goes on.
  A close that fails leaves the field \<open>_session\<close> set, but each block has a unit of work of its own,
  which nothing uses after it, so that the session is gone with it either way.
\<close>

definition aexit :: "pg_env \<Rightarrow> (exn + 'a) \<times> 'z pg_scheme \<Rightarrow> (exn + 'a) \<times> 'z pg_scheme" where
  "aexit E o' =
     (let (r, s) = (case o' of
        (Inr x, s) \<Rightarrow> (Inr x, s)
      | (Inl e, s) \<Rightarrow> (case rollback E s of (Inl e', s') \<Rightarrow> (Inl e', s') | (Inr _, s') \<Rightarrow> (Inl e, s')))
      in case close_session E s of (Inl e', t) \<Rightarrow> (Inl e', t) | (Inr _, t) \<Rightarrow> (r, t))"

text \<open>\<open>async with factory() as uow: body\<close>.\<close>

definition with_session :: "pg_env \<Rightarrow> ('z pg_scheme, 'a) act \<Rightarrow> ('z pg_scheme, 'a) act" where
  "with_session E body s = aexit E (body (aenter s))"

section \<open>Repositories\<close>

definition order_key :: "order_row \<Rightarrow> ustr \<times> ustr" where
  "order_key r = (or_source r, or_external_id r)"

definition insert_order_stmt ::
    "pg_env \<Rightarrow> nat \<Rightarrow> incoming_order \<Rightarrow> int \<Rightarrow> database \<Rightarrow> exn + (bool \<times> database)" where
  "insert_order_stmt E uid ord now db =
     (let src = source_value (io_source ord); ext = io_external_id ord in
      if \<not> (varchar_ok E 32 src \<and> varchar_ok E 128 ext
          \<and> (case io_request_id ord of None \<Rightarrow> True | Some r \<Rightarrow> varchar_ok E 128 r)
          \<and> int64_ok (io_fetched_at ord) \<and> json_ok E (io_payload ord))
      then Inl (DatabaseError (lit ''DataError''))
      else if (src, ext) \<in> set (map order_key (orders_t db)) then Inr (False, db)
      else if uid \<in> set (map or_id (orders_t db)) then Inl (DatabaseError (lit ''IntegrityError''))
      else Inr (True, db\<lparr>orders_t := orders_t db @ [\<lparr>or_id = uid, or_source = src,
        or_external_id = ext, or_status = status_value ASSESS_REQUESTED,
        or_payload = io_payload ord, or_suitability_score = None,
        or_request_id = io_request_id ord, or_source_fetched_at = Some (io_fetched_at ord),
        or_created_at = now, or_updated_at = now\<rparr>]\<rparr>))"

definition insert_new :: "pg_env \<Rightarrow> incoming_order \<Rightarrow> ('z pg_scheme, bool) act" where
  "insert_new E ord = bind_act (draw_uuid E) (\<lambda>uid. execute E (insert_order_stmt E uid ord))"

definition select_order_stmt :: "source \<Rightarrow> ustr \<Rightarrow> int \<Rightarrow> database \<Rightarrow> exn + (order_row option \<times> database)" where
  "select_order_stmt src ext now db =
     Inr (List.find (\<lambda>r. order_key r = (source_value src, ext)) (orders_t db), db)"

definition get_order :: "pg_env \<Rightarrow> source \<Rightarrow> ustr \<Rightarrow> ('z pg_scheme, dom_order option) act" where
  "get_order E src ext = bind_act (execute E (select_order_stmt src ext)) (\<lambda>row.
     case row of
       None \<Rightarrow> ret None
     | Some r \<Rightarrow> bind_act (lift_act (source_of (or_source r))) (\<lambda>sr.
         bind_act (lift_act (status_of (or_status r))) (\<lambda>st.
           ret (Some \<lparr>do_source = sr, do_external_id = or_external_id r, do_status = st,
             do_suitability_score = or_suitability_score r\<rparr>))))"

definition update_status_stmt :: "source \<Rightarrow> ustr \<Rightarrow> order_status \<Rightarrow> int option \<Rightarrow> int \<Rightarrow> database \<Rightarrow>
    exn + (bool \<times> database)" where
  "update_status_stmt src ext st score now db =
     (if (case score of None \<Rightarrow> False | Some i \<Rightarrow> \<not> int32_ok i)
      then Inl (DatabaseError (lit ''DataError''))
      else Inr ((source_value src, ext) \<in> set (map order_key (orders_t db)),
        db\<lparr>orders_t := map (\<lambda>r. if order_key r = (source_value src, ext)
          then r\<lparr>or_status := status_value st, or_suitability_score := score, or_updated_at := now\<rparr>
          else r) (orders_t db)\<rparr>))"

definition set_status ::
    "pg_env \<Rightarrow> source \<Rightarrow> ustr \<Rightarrow> order_status \<Rightarrow> int option \<Rightarrow> ('z pg_scheme, bool) act" where
  "set_status E src ext st score = execute E (update_status_stmt src ext st score)"

definition insert_outbox_stmt :: "pg_env \<Rightarrow> nat \<Rightarrow> outbox_destination \<Rightarrow> ustr \<Rightarrow> json \<Rightarrow>
    int \<Rightarrow> database \<Rightarrow> exn + (unit \<times> database)" where
  "insert_outbox_stmt E uid dest key payload now db =
     (if \<not> (varchar_ok E 32 (destination_value dest) \<and> varchar_ok E 200 key \<and> json_ok E payload)
      then Inl (DatabaseError (lit ''DataError''))
      else if key \<in> set (map ob_dedup_key (outbox_t db)) then Inr ((), db)
      else if uid \<in> set (map ob_id (outbox_t db)) then Inl (DatabaseError (lit ''IntegrityError''))
      else Inr ((), db\<lparr>outbox_t := outbox_t db @ [\<lparr>ob_id = uid, ob_aggregate_id = None,
        ob_destination = destination_value dest, ob_payload = payload, ob_dedup_key = key,
        ob_status = pending, ob_attempts = 0, ob_last_error = None, ob_created_at = now,
        ob_published_at = None\<rparr>]\<rparr>))"

definition outbox_add :: "pg_env \<Rightarrow> outbox_destination \<Rightarrow> ustr \<Rightarrow> json \<Rightarrow> ('z pg_scheme, unit) act" where
  "outbox_add E dest key payload =
     bind_act (draw_uuid E) (\<lambda>uid. execute E (insert_outbox_stmt E uid dest key payload))"

definition assess_key :: "source \<Rightarrow> ustr \<Rightarrow> ustr" where
  "assess_key src ext = lit ''assess:'' @ source_value src @ lit '':'' @ ext"

definition notify_key :: "source \<Rightarrow> ustr \<Rightarrow> ustr" where
  "notify_key src ext = lit ''notify:'' @ source_value src @ lit '':'' @ ext"

definition add_assessment_request :: "pg_env \<Rightarrow> incoming_order \<Rightarrow> ('z pg_scheme, unit) act" where
  "add_assessment_request E ord = outbox_add E ASSESS_REQUEST
     (assess_key (io_source ord) (io_external_id ord)) (assess_request_payload ord)"

definition add_notification ::
    "pg_env \<Rightarrow> source \<Rightarrow> ustr \<Rightarrow> notification_command \<Rightarrow> ('z pg_scheme, unit) act" where
  "add_notification E src ext n =
     outbox_add E NOTIFY (notify_key src ext) (notification_payload n)"

section \<open>Outbox dispatch\<close>

text \<open>
  \<open>SELECT ... WHERE status = 'pending' ORDER BY created_at LIMIT n FOR UPDATE SKIP LOCKED\<close>: rows
  with one \<open>created_at\<close>, as all rows of one transaction have, come in the server's order, which
  \<open>tie\<close> gives for each statement.
\<close>

definition claim_stmt :: "(nat \<Rightarrow> nat) \<Rightarrow> (nat \<Rightarrow> bool) \<Rightarrow> nat \<Rightarrow> int \<Rightarrow> database \<Rightarrow>
    exn + (outbox_row list \<times> database)" where
  "claim_stmt rank lk limit now db =
     Inr (take limit (sort_key ob_created_at (sort_key (\<lambda>r. rank (ob_id r))
       (filter (\<lambda>r. ob_status r = pending \<and> \<not> lk (ob_id r)) (outbox_t db)))), db)"

definition claim_pending :: "pg_env \<Rightarrow> nat \<Rightarrow> ('z pg_scheme, pending_event list) act" where
  "claim_pending E limit s =
     bind_act (execute E (claim_stmt (tie E (n_stmt s)) (locked E (n_stmt s)) limit)) (\<lambda>rows.
       ret (map (\<lambda>r. \<lparr>pe_id = ob_id r, pe_destination = ob_destination r,
         pe_payload = ob_payload r\<rparr>) rows)) s"

definition mark_stmt :: "nat list \<Rightarrow> int \<Rightarrow> database \<Rightarrow> exn + (unit \<times> database)" where
  "mark_stmt ids now db = Inr ((), db\<lparr>outbox_t := map (\<lambda>r. if ob_id r \<in> set ids
     then r\<lparr>ob_status := published, ob_published_at := Some now\<rparr> else r) (outbox_t db)\<rparr>)"

definition mark_published :: "pg_env \<Rightarrow> nat list \<Rightarrow> ('z pg_scheme, unit) act" where
  "mark_published E ids = (if ids = [] then ret () else execute E (mark_stmt ids))"

end
