(* ===== verification/CoreDbFacts.thy ===== *)
theory CoreDbFacts
  imports CoreDb
begin

text \<open>
  What the statements of CoreDb do, seen through an abstraction: the orders as a finite map from
  identity to status and score, the outbox as a finite map from \<open>dedup_key\<close> to event. The
  invariant \<open>rows_ok\<close> is what the unique constraints and the code together keep of the two tables.
\<close>

section \<open>Abstraction\<close>

type_synonym order_map = "ustr \<times> ustr \<rightharpoonup> ustr \<times> int option"
type_synonym event_map = "ustr \<rightharpoonup> ustr \<times> json"
type_synonym abs_core = "order_map \<times> event_map"

definition order_binding :: "order_row \<Rightarrow> (ustr \<times> ustr) \<times> (ustr \<times> int option)" where
  "order_binding r = (order_key r, (or_status r, or_suitability_score r))"

definition event_binding :: "outbox_row \<Rightarrow> ustr \<times> (ustr \<times> json)" where
  "event_binding r = (ob_dedup_key r, (ob_destination r, ob_payload r))"

definition abs_orders :: "database \<Rightarrow> order_map" where
  "abs_orders db = map_of (map order_binding (orders_t db))"

definition abs_events :: "database \<Rightarrow> event_map" where
  "abs_events db = map_of (map event_binding (outbox_t db))"

definition abs_db :: "database \<Rightarrow> abs_core" where
  "abs_db db = (abs_orders db, abs_events db)"

definition rows_ok :: "database \<Rightarrow> bool" where
  "rows_ok db \<longleftrightarrow> distinct (map order_key (orders_t db)) \<and> distinct (map or_id (orders_t db)) \<and>
     distinct (map ob_dedup_key (outbox_t db)) \<and> distinct (map ob_id (outbox_t db)) \<and>
     (\<forall>r \<in> set (orders_t db). or_source r = source_value PROFI \<and> (\<exists>st. or_status r = status_value st)) \<and>
     (\<forall>r \<in> set (outbox_t db). (\<exists>d. ob_destination r = destination_value d) \<and>
        ob_status r \<in> {pending, published})"

definition empty_db :: database where
  "empty_db = \<lparr>orders_t = [], outbox_t = []\<rparr>"

text \<open>\<open>INSERT ... ON CONFLICT DO NOTHING\<close> on the event map.\<close>

definition put_new :: "ustr \<Rightarrow> ustr \<times> json \<Rightarrow> event_map \<Rightarrow> event_map" where
  "put_new k v m = (case m k of None \<Rightarrow> m(k \<mapsto> v) | Some _ \<Rightarrow> m)"

lemma rows_ok_empty [simp]: "rows_ok empty_db"
  by (simp add: rows_ok_def empty_db_def)

lemma abs_empty [simp]: "abs_orders empty_db = Map.empty" "abs_events empty_db = Map.empty"
  by (simp_all add: abs_orders_def abs_events_def empty_db_def)

lemma fst_order_binding [simp]: "fst (order_binding r) = order_key r"
  by (simp add: order_binding_def)

lemma fst_event_binding [simp]: "fst (event_binding r) = ob_dedup_key r"
  by (simp add: event_binding_def)

lemma abs_orders_None: "abs_orders db k = None \<longleftrightarrow> k \<notin> set (map order_key (orders_t db))"
  by (force simp: abs_orders_def map_of_eq_None_iff image_image)

lemma abs_events_None: "abs_events db k = None \<longleftrightarrow> k \<notin> set (map ob_dedup_key (outbox_t db))"
  by (force simp: abs_events_def map_of_eq_None_iff image_image)

lemma map_of_snoc: "map_of (xs @ [(k, v)]) = (if map_of xs k = None then (map_of xs)(k \<mapsto> v) else map_of xs)"
  by (auto simp: map_add_def fun_eq_iff split: option.splits)

lemma abs_orders_append:
  "abs_orders db (order_key r) = None \<Longrightarrow> abs_orders (db\<lparr>orders_t := orders_t db @ [r]\<rparr>) =
     (abs_orders db)(order_key r \<mapsto> (or_status r, or_suitability_score r))"
  unfolding abs_orders_def by (simp add: order_binding_def map_of_snoc del: map_of_append)

lemma abs_events_append:
  "abs_events db (ob_dedup_key r) = None \<Longrightarrow> abs_events (db\<lparr>outbox_t := outbox_t db @ [r]\<rparr>) =
     (abs_events db)(ob_dedup_key r \<mapsto> (ob_destination r, ob_payload r))"
  unfolding abs_events_def by (simp add: event_binding_def map_of_snoc del: map_of_append)

lemma abs_other_table [simp]:
  "abs_events (db\<lparr>orders_t := os\<rparr>) = abs_events db"
  "abs_orders (db\<lparr>outbox_t := bs\<rparr>) = abs_orders db"
  by (simp_all add: abs_events_def abs_orders_def)

lemma map_of_update_at:
  "map_of (map (\<lambda>p. if fst p = k then (k, v) else p) xs) =
     (if k \<in> fst ` set xs then (map_of xs)(k \<mapsto> v) else map_of xs)"
proof
  show "map_of (map (\<lambda>p. if fst p = k then (k, v) else p) xs) x =
      (if k \<in> fst ` set xs then (map_of xs)(k \<mapsto> v) else map_of xs) x" for x
    by (induction xs) auto
qed

section \<open>One statement at a time\<close>

lemma insert_order_stmt_Inr:
  assumes "insert_order_stmt E uid ord now db = Inr (b, db')" and "rows_ok db"
  defines "k \<equiv> (source_value (io_source ord), io_external_id ord)"
  shows "rows_ok db'" and "abs_events db' = abs_events db"
    and "b \<longleftrightarrow> abs_orders db k = None"
    and "abs_orders db' = (if b then (abs_orders db)(k \<mapsto> (status_value ASSESS_REQUESTED, None))
                           else abs_orders db)"
proof -
  have src: "io_source ord = PROFI" by (cases "io_source ord")
  consider (dup) "abs_orders db k \<noteq> None" "b = False" "db' = db"
    | (new) r where "abs_orders db k = None" "b = True" "db' = db\<lparr>orders_t := orders_t db @ [r]\<rparr>"
        "order_key r = k" "or_id r \<notin> set (map or_id (orders_t db))"
        "or_status r = status_value ASSESS_REQUESTED" "or_suitability_score r = None"
        "or_source r = source_value PROFI"
    using assms(1) src unfolding insert_order_stmt_def Let_def k_def abs_orders_None
    by (auto simp: order_key_def split: if_splits)
  then have "rows_ok db' \<and> abs_events db' = abs_events db \<and> (b \<longleftrightarrow> abs_orders db k = None) \<and>
      abs_orders db' = (if b then (abs_orders db)(k \<mapsto> (status_value ASSESS_REQUESTED, None))
                        else abs_orders db)"
  proof cases
    case dup
    with assms(2) show ?thesis by simp
  next
    case new
    then have "k \<notin> set (map order_key (orders_t db))" by (simp add: abs_orders_None)
    with new assms(2) show ?thesis
      using abs_orders_append [of db r] by (auto simp: rows_ok_def)
  qed
  then show "rows_ok db'" "abs_events db' = abs_events db" "b \<longleftrightarrow> abs_orders db k = None"
    "abs_orders db' = (if b then (abs_orders db)(k \<mapsto> (status_value ASSESS_REQUESTED, None))
                       else abs_orders db)" by auto
qed

lemma insert_outbox_stmt_Inr:
  assumes "insert_outbox_stmt E uid dest key payload now db = Inr (u, db')" and "rows_ok db"
  shows "rows_ok db'" and "abs_orders db' = abs_orders db"
    and "abs_events db' = put_new key (destination_value dest, payload) (abs_events db)"
proof -
  consider (dup) "abs_events db key \<noteq> None" "db' = db"
    | (new) r where "abs_events db key = None" "db' = db\<lparr>outbox_t := outbox_t db @ [r]\<rparr>"
        "ob_dedup_key r = key" "ob_id r \<notin> set (map ob_id (outbox_t db))"
        "ob_destination r = destination_value dest" "ob_payload r = payload" "ob_status r = pending"
    using assms(1) unfolding insert_outbox_stmt_def abs_events_None by (auto split: if_splits)
  then have "rows_ok db' \<and> abs_orders db' = abs_orders db \<and>
      abs_events db' = put_new key (destination_value dest, payload) (abs_events db)"
  proof cases
    case dup
    with assms(2) show ?thesis by (auto simp: put_new_def)
  next
    case new
    then have "key \<notin> set (map ob_dedup_key (outbox_t db))" by (simp add: abs_events_None)
    with new assms(2) show ?thesis
      using abs_events_append [of db r] by (auto simp: rows_ok_def put_new_def)
  qed
  then show "rows_ok db'" "abs_orders db' = abs_orders db"
    "abs_events db' = put_new key (destination_value dest, payload) (abs_events db)" by auto
qed

lemma select_order_stmt_Inr:
  assumes "select_order_stmt src ext now db = Inr (row, db')" and "rows_ok db"
  shows "db' = db"
    and "row = None \<longleftrightarrow> abs_orders db (source_value src, ext) = None"
    and "row = Some r \<Longrightarrow> order_key r = (source_value src, ext) \<and>
      abs_orders db (source_value src, ext) = Some (or_status r, or_suitability_score r)"
proof -
  let ?k = "(source_value src, ext)"
  have row: "row = List.find (\<lambda>r. order_key r = ?k) (orders_t db)" and db: "db' = db"
    using assms(1) by (auto simp: select_order_stmt_def)
  show "db' = db" by (rule db)
  show "row = None \<longleftrightarrow> abs_orders db ?k = None"
    unfolding row abs_orders_None by (auto simp: find_None_iff image_iff)
  assume "row = Some r"
  with row have "List.find (\<lambda>r. order_key r = ?k) (orders_t db) = Some r" by simp
  then have r: "r \<in> set (orders_t db)" "order_key r = ?k"
    by (blast dest: find_SomeD)+
  have eq: "(order_key r, or_status r, or_suitability_score r) = order_binding r"
    by (simp add: order_binding_def)
  have "map_of (map order_binding (orders_t db)) (order_key r) = Some (or_status r, or_suitability_score r)"
  proof (rule map_of_is_SomeI)
    show "distinct (map fst (map order_binding (orders_t db)))"
      using assms(2) by (simp add: rows_ok_def comp_def)
    show "(order_key r, or_status r, or_suitability_score r) \<in> set (map order_binding (orders_t db))"
      unfolding eq using r(1) by simp
  qed
  with r show "order_key r = ?k \<and> abs_orders db ?k = Some (or_status r, or_suitability_score r)"
    by (simp add: abs_orders_def)
qed

lemma update_status_stmt_Inr:
  assumes "update_status_stmt src ext st score now db = Inr (b, db')" and "rows_ok db"
  defines "k \<equiv> (source_value src, ext)"
  shows "rows_ok db'" and "abs_events db' = abs_events db"
    and "b \<longleftrightarrow> abs_orders db k \<noteq> None"
    and "abs_orders db' = (if b then (abs_orders db)(k \<mapsto> (status_value st, score)) else abs_orders db)"
proof -
  let ?upd = "\<lambda>r. if order_key r = k
    then r\<lparr>or_status := status_value st, or_suitability_score := score, or_updated_at := now\<rparr> else r"
  have b: "b \<longleftrightarrow> k \<in> set (map order_key (orders_t db))"
    and db': "db' = db\<lparr>orders_t := map ?upd (orders_t db)\<rparr>"
    using assms(1) by (auto simp: update_status_stmt_def k_def split: if_splits)
  have same: "order_key (?upd r) = order_key r" "or_id (?upd r) = or_id r"
    "or_source (?upd r) = or_source r" for r
    by (simp_all add: order_key_def)
  show "rows_ok db'" using assms(2) by (auto simp: rows_ok_def db' comp_def same)
  show "abs_events db' = abs_events db" by (simp add: db')
  show "b \<longleftrightarrow> abs_orders db k \<noteq> None" by (simp add: b abs_orders_None)
  have bind: "order_binding (?upd r) = (\<lambda>p. if fst p = k then (k, (status_value st, score)) else p)
      (order_binding r)" for r
    by (simp add: order_binding_def order_key_def)
  have "abs_orders db' = map_of (map (\<lambda>p. if fst p = k then (k, (status_value st, score)) else p)
      (map order_binding (orders_t db)))"
    by (simp add: abs_orders_def db' comp_def bind)
  then show "abs_orders db' = (if b then (abs_orders db)(k \<mapsto> (status_value st, score)) else abs_orders db)"
    unfolding map_of_update_at by (simp add: b abs_orders_def image_image)
qed

section \<open>Statements and transactions as triples\<close>

text \<open>
  Inside a transaction over the committed state \<open>c\<close>, with a working copy that satisfies \<open>A\<close>, and
  nothing handed to the broker beyond \<open>ou\<close>.
\<close>

definition in_tx :: "(publisher \<times> json) list \<Rightarrow> database \<Rightarrow> (database \<Rightarrow> bool) \<Rightarrow> 'z pg_scheme \<Rightarrow> bool" where
  "in_tx ou c A s \<longleftrightarrow> rt_out s = ou \<and> committed s = c \<and> (\<exists>db. session s = Some db \<and> A db)"

abbreviation failing :: "(publisher \<times> json) list \<Rightarrow> database \<Rightarrow> (exn \<Rightarrow> bool) \<Rightarrow> exn \<Rightarrow> 'z pg_scheme \<Rightarrow> bool" where
  "failing ou c X e s \<equiv> X e \<and> in_tx ou c (\<lambda>_. True) s"

lemma hoare_execute:
  assumes "\<And>now db x db'. A db \<Longrightarrow> q now db = Inr (x, db') \<Longrightarrow> B x db'"
    and "\<And>now db e. A db \<Longrightarrow> q now db = Inl e \<Longrightarrow> X e"
    and "\<And>m. X (DatabaseError m)"
  shows "hoare (in_tx ou c A) (execute E q) (\<lambda>x. in_tx ou c (B x)) (failing ou c X)"
  unfolding hoare_def in_tx_def using assms
  by (auto simp: execute_def require_session_def bind_act_def Let_def
      split: option.split sum.split prod.split)

lemma hoare_draw_uuid: "hoare (in_tx ou c A) (draw_uuid E) (\<lambda>_. in_tx ou c A) R"
  by (simp add: hoare_def draw_uuid_def in_tx_def)

lemma hoare_insert_new:
  assumes "\<And>m. X (DatabaseError m)"
    and "\<And>b db db'. A db \<Longrightarrow> rows_ok db' \<Longrightarrow> abs_events db' = abs_events db \<Longrightarrow>
      b = (abs_orders db (source_value (io_source ord), io_external_id ord) = None) \<Longrightarrow>
      abs_orders db' = (if b then (abs_orders db)((source_value (io_source ord), io_external_id ord)
        \<mapsto> (status_value ASSESS_REQUESTED, None)) else abs_orders db) \<Longrightarrow> B b db'"
    and "\<And>db. A db \<Longrightarrow> rows_ok db"
  shows "hoare (in_tx ou c A) (insert_new E ord) (\<lambda>b. in_tx ou c (B b)) (failing ou c X)"
  unfolding insert_new_def
proof (rule hoare_bind [OF hoare_draw_uuid hoare_execute])
  fix uid now db x db' assume "A db" "insert_order_stmt E uid ord now db = Inr (x, db')"
  then show "B x db'" using insert_order_stmt_Inr [of E uid ord now db x db'] assms by blast
next
  fix uid now db e assume "insert_order_stmt E uid ord now db = Inl e"
  then show "X e" using assms(1) by (auto simp: insert_order_stmt_def Let_def split: if_splits)
qed (rule assms(1))

lemma hoare_outbox_add:
  assumes "\<And>m. X (DatabaseError m)" and "\<And>db. A db \<Longrightarrow> rows_ok db"
    and "\<And>db db'. A db \<Longrightarrow> rows_ok db' \<Longrightarrow> abs_orders db' = abs_orders db \<Longrightarrow>
      abs_events db' = put_new key (destination_value dest, payload) (abs_events db) \<Longrightarrow> B db'"
  shows "hoare (in_tx ou c A) (outbox_add E dest key payload) (\<lambda>_. in_tx ou c B) (failing ou c X)"
  unfolding outbox_add_def
proof (rule hoare_bind [OF hoare_draw_uuid hoare_execute])
  fix uid now db and x :: unit and db'
  assume "A db" "insert_outbox_stmt E uid dest key payload now db = Inr (x, db')"
  then show "B db'" using insert_outbox_stmt_Inr assms by metis
next
  fix uid now db e assume "insert_outbox_stmt E uid dest key payload now db = Inl e"
  then show "X e" using assms(1) by (auto simp: insert_outbox_stmt_def split: if_splits)
qed (rule assms(1))

lemma hoare_set_status:
  assumes "\<And>m. X (DatabaseError m)" and "\<And>db. A db \<Longrightarrow> rows_ok db"
    and "\<And>b db db'. A db \<Longrightarrow> rows_ok db' \<Longrightarrow> abs_events db' = abs_events db \<Longrightarrow>
      b = (abs_orders db (source_value src, ext) \<noteq> None) \<Longrightarrow>
      abs_orders db' = (if b then (abs_orders db)((source_value src, ext) \<mapsto> (status_value st, score))
        else abs_orders db) \<Longrightarrow> B b db'"
  shows "hoare (in_tx ou c A) (set_status E src ext st score) (\<lambda>b. in_tx ou c (B b)) (failing ou c X)"
  unfolding set_status_def
proof (rule hoare_execute)
  fix now db x db' assume "A db" "update_status_stmt src ext st score now db = Inr (x, db')"
  then show "B x db'" using update_status_stmt_Inr [of src ext st score now db x db'] assms by blast
next
  fix now db e assume "update_status_stmt src ext st score now db = Inl e"
  then show "X e" using assms(1) by (auto simp: update_status_stmt_def split: if_splits)
qed (rule assms(1))

lemma hoare_get_order:
  assumes "\<And>m. X (DatabaseError m)" and "\<And>db. A db \<Longrightarrow> rows_ok db"
    and "\<And>db. A db \<Longrightarrow> abs_orders db (source_value src, ext) = None \<Longrightarrow> B None db"
    and "\<And>db st score. A db \<Longrightarrow> abs_orders db (source_value src, ext) = Some (status_value st, score) \<Longrightarrow>
      B (Some \<lparr>do_source = src, do_external_id = ext, do_status = st, do_suitability_score = score\<rparr>) db"
  shows "hoare (in_tx ou c A) (get_order E src ext) (\<lambda>x. in_tx ou c (B x)) (failing ou c X)"
proof -
  let ?M = "\<lambda>row db. A db \<and> (case row of None \<Rightarrow> abs_orders db (source_value src, ext) = None
    | Some r \<Rightarrow> (\<exists>st. or_status r = status_value st \<and> order_key r = (source_value src, ext) \<and>
        abs_orders db (source_value src, ext) = Some (status_value st, or_suitability_score r)))"
  have "hoare (in_tx ou c A) (execute E (select_order_stmt src ext)) (\<lambda>x. in_tx ou c (?M x)) (failing ou c X)"
  proof (rule hoare_execute)
    fix now db row db'
    assume A: "A db" and sel: "select_order_stmt src ext now db = Inr (row, db')"
    have ok: "rows_ok db" using assms(2) A by blast
    note s = select_order_stmt_Inr [OF sel ok]
    show "?M row db'"
    proof (cases row)
      case None
      with A s(1,2) show ?thesis by simp
    next
      case (Some r)
      then have "List.find (\<lambda>r. order_key r = (source_value src, ext)) (orders_t db) = Some r"
        using sel by (auto simp: select_order_stmt_def)
      then have "r \<in> set (orders_t db)" by (rule find_SomeD [THEN conjunct1])
      then obtain st where "or_status r = status_value st" using ok by (auto simp: rows_ok_def)
      with A s(1) s(3) [OF Some] Some show ?thesis by auto
    qed
  qed (use assms(1) in \<open>auto simp: select_order_stmt_def\<close>)
  then show ?thesis unfolding get_order_def
  proof (rule hoare_bind)
    fix row
    show "hoare (in_tx ou c (?M row)) (case row of None \<Rightarrow> ret None
      | Some r \<Rightarrow> bind_act (lift_act (source_of (or_source r))) (\<lambda>sr.
         bind_act (lift_act (status_of (or_status r))) (\<lambda>st.
           ret (Some \<lparr>do_source = sr, do_external_id = or_external_id r, do_status = st,
             do_suitability_score = or_suitability_score r\<rparr>)))) (\<lambda>x. in_tx ou c (B x)) (failing ou c X)"
      using assms(3,4)
      by (cases row) (fastforce simp: hoare_def in_tx_def bind_act_def order_key_def)+
  qed
qed

end
