(* ===== verification/CoreUseCases.thy ===== *)
theory CoreUseCases
  imports CoreDbFacts
begin

text \<open>
  order-core-service: the ports a use case is given (application/ports.py) and the two use cases
  that answer messages, \<open>IngestOrders\<close> (ingest_orders.py) and \<open>ProcessAssessment\<close>
  (process_assessment.py). The handlers are written over the port \<open>uow\<close>; the locales state what
  an implementation of the ports promises, and the handlers are verified once against that.
\<close>

section \<open>Ports\<close>

text \<open>
  The port objects as one record: the methods of \<open>OrderRepository\<close> and \<open>OutboxRepository\<close>,
  \<open>commit\<close>, and \<open>uow_scope body\<close> for \<open>async with self._uow_factory() as uow: body\<close>.
\<close>

record 's uow =
  uow_insert_new :: "incoming_order \<Rightarrow> ('s, bool) act"
  uow_get :: "source \<Rightarrow> ustr \<Rightarrow> ('s, dom_order option) act"
  uow_set_status :: "source \<Rightarrow> ustr \<Rightarrow> order_status \<Rightarrow> int option \<Rightarrow> ('s, bool) act"
  uow_add_assessment_request :: "incoming_order \<Rightarrow> ('s, unit) act"
  uow_add_notification :: "source \<Rightarrow> ustr \<Rightarrow> notification_command \<Rightarrow> ('s, unit) act"
  uow_commit :: "('s, unit) act"
  uow_scope :: "('s, unit) act \<Rightarrow> ('s, unit) act"

section \<open>Handlers\<close>

definition ingest_one :: "('z runtime_scheme) uow \<Rightarrow> incoming_order \<Rightarrow> ('z runtime_scheme, unit) act" where
  "ingest_one U ord = bind_act (uow_insert_new U ord) (\<lambda>new.
     if new then bind_act (uow_add_assessment_request U ord) (\<lambda>_.
       log INFO ''order_ingested''
         [(lit ''source'', JStr (source_value (io_source ord))),
          (lit ''external_id'', JStr (io_external_id ord))])
     else log DEBUG ''order_duplicate''
         [(lit ''source'', JStr (source_value (io_source ord))),
          (lit ''external_id'', JStr (io_external_id ord))])"

definition IngestOrders_handle ::
    "('z runtime_scheme) uow \<Rightarrow> incoming_order list \<Rightarrow> ('z runtime_scheme, unit) act" where
  "IngestOrders_handle U batch =
     uow_scope U (bind_act (for_each (ingest_one U) batch) (\<lambda>_. uow_commit U))"

definition unknown_order :: "ustr \<Rightarrow> exn" where
  "unknown_order oid = PermanentError (lit ''unknown order '' @ oid)"

definition apply_verdict ::
    "('z runtime_scheme) uow \<Rightarrow> int \<Rightarrow> assessment_outcome \<Rightarrow> ('z runtime_scheme, unit) act" where
  "apply_verdict U threshold out =
     (let dcs = decide_notification out threshold; oid = ao_order_id out;
          score = ao_suitability_score out in
      if dec_notify dcs
      then bind_act (uow_set_status U PROFI oid NOTIFY_REQUESTED (Some score)) (\<lambda>_.
           bind_act (uow_add_notification U PROFI oid (ao_notification out)) (\<lambda>_.
           log INFO ''notification_requested''
             [(lit ''external_id'', JStr oid), (lit ''score'', JInt score)]))
      else bind_act (uow_set_status U PROFI oid NO_NOTIFY (Some score)) (\<lambda>_.
           log INFO ''order_no_notify''
             [(lit ''external_id'', JStr oid), (lit ''reason'', JStr (reason_value (dec_reason dcs)))]))"

definition ProcessAssessment_handle ::
    "('z runtime_scheme) uow \<Rightarrow> int \<Rightarrow> assessment_outcome \<Rightarrow> ('z runtime_scheme, unit) act" where
  "ProcessAssessment_handle U threshold out =
     uow_scope U (bind_act (uow_get U PROFI (ao_order_id out)) (\<lambda>ord.
       case ord of
         None \<Rightarrow> raise (unknown_order (ao_order_id out))
       | Some o' \<Rightarrow>
           if \<not> can_apply_assessment (do_status o')
           then bind_act (log INFO ''assessment_ignored''
               [(lit ''external_id'', JStr (ao_order_id out)),
                (lit ''status'', JStr (status_value (do_status o')))]) (\<lambda>_. uow_commit U)
           else bind_act (apply_verdict U threshold out) (\<lambda>_. uow_commit U)))"

section \<open>Abstract specification\<close>

text \<open>
  What the two handlers promise, on the finite maps: a new identity gets the first status and
  one assessment event; a verdict moves an order that waits for one, and only such an order.
\<close>

definition in_key :: "incoming_order \<Rightarrow> ustr \<times> ustr" where
  "in_key ord = (source_value (io_source ord), io_external_id ord)"

definition spec_ingest :: "incoming_order \<Rightarrow> abs_core \<Rightarrow> abs_core" where
  "spec_ingest ord a = (let (om, ev) = a in
     if om (in_key ord) = None
     then (om(in_key ord \<mapsto> (status_value ASSESS_REQUESTED, None)),
           put_new (assess_key (io_source ord) (io_external_id ord))
             (destination_value ASSESS_REQUEST, assess_request_payload ord) ev)
     else (om, ev))"

definition profi_key :: "ustr \<Rightarrow> ustr \<times> ustr" where
  "profi_key oid = (source_value PROFI, oid)"

definition spec_process :: "int \<Rightarrow> assessment_outcome \<Rightarrow> abs_core \<Rightarrow> abs_core option" where
  "spec_process th out a = (let (om, ev) = a; k = profi_key (ao_order_id out) in
     case om k of
       None \<Rightarrow> None
     | Some (st, _) \<Rightarrow>
         if st \<noteq> status_value ASSESS_REQUESTED then Some (om, ev)
         else if th \<le> ao_suitability_score out
         then Some (om(k \<mapsto> (status_value NOTIFY_REQUESTED, Some (ao_suitability_score out))),
               put_new (notify_key PROFI (ao_order_id out))
                 (destination_value NOTIFY, notification_payload (ao_notification out)) ev)
         else Some (om(k \<mapsto> (status_value NO_NOTIFY, Some (ao_suitability_score out))), ev))"

section \<open>Interfaces\<close>

text \<open>
  \<open>tx c d s\<close>: a transaction is open in \<open>s\<close>, over the stored contents \<open>c\<close> and with the working
  contents \<open>d\<close>. \<open>broken c s\<close>: a statement failed; \<open>c\<close> is still what is stored. \<open>view\<close> reads the
  abstract maps off the contents.
\<close>

locale transaction =
  fixes view :: "'d \<Rightarrow> abs_core"
    and tx :: "'d \<Rightarrow> 'd \<Rightarrow> ('z runtime_scheme) \<Rightarrow> bool"
    and broken :: "'d \<Rightarrow> ('z runtime_scheme) \<Rightarrow> bool"
    and U :: "('z runtime_scheme) uow"
  assumes tx_log: "tx c d s \<Longrightarrow> tx c d (s\<lparr>rt_log := l\<rparr>)"
    and tx_broken: "tx c d s \<Longrightarrow> broken c s"

locale order_repository = transaction +
  assumes insert_new_law: "hoare (tx c d) (uow_insert_new U ord)
      (\<lambda>b s. \<exists>d'. tx c d' s \<and> b = (fst (view d) (in_key ord) = None) \<and>
        view d' = (if b then ((fst (view d))(in_key ord \<mapsto> (status_value ASSESS_REQUESTED, None)),
          snd (view d)) else view d))
      (\<lambda>e s. (\<exists>m. e = DatabaseError m) \<and> broken c s)"
    and get_law: "hoare (tx c d) (uow_get U PROFI oid)
      (\<lambda>r s. tx c d s \<and> (case r of
          None \<Rightarrow> fst (view d) (profi_key oid) = None
        | Some o' \<Rightarrow> fst (view d) (profi_key oid) =
            Some (status_value (do_status o'), do_suitability_score o')))
      (\<lambda>e s. (\<exists>m. e = DatabaseError m) \<and> broken c s)"
    and set_status_law: "hoare (tx c d) (uow_set_status U PROFI oid st score)
      (\<lambda>b s. \<exists>d'. tx c d' s \<and> b = (fst (view d) (profi_key oid) \<noteq> None) \<and>
        view d' = (if b then ((fst (view d))(profi_key oid \<mapsto> (status_value st, score)), snd (view d))
          else view d))
      (\<lambda>e s. (\<exists>m. e = DatabaseError m) \<and> broken c s)"

locale outbox_repository = transaction +
  assumes add_assessment_request_law: "hoare (tx c d) (uow_add_assessment_request U ord)
      (\<lambda>_ s. \<exists>d'. tx c d' s \<and> view d' = (fst (view d),
        put_new (assess_key (io_source ord) (io_external_id ord))
          (destination_value ASSESS_REQUEST, assess_request_payload ord) (snd (view d))))
      (\<lambda>e s. (\<exists>m. e = DatabaseError m) \<and> broken c s)"
    and add_notification_law: "hoare (tx c d) (uow_add_notification U PROFI oid n)
      (\<lambda>_ s. \<exists>d'. tx c d' s \<and> view d' = (fst (view d),
        put_new (notify_key PROFI oid) (destination_value NOTIFY, notification_payload n)
          (snd (view d))))
      (\<lambda>e s. (\<exists>m. e = DatabaseError m) \<and> broken c s)"

text \<open>
  The unit of work: a commit stores the working contents, or fails and leaves either contents
  stored; leaving the block keeps what is stored and may replace an exception, or the value, by a
  database error.
\<close>

locale unit_of_work = order_repository + outbox_repository +
  fixes idle :: "'d \<Rightarrow> ('z runtime_scheme) \<Rightarrow> bool"
  assumes commit_law: "hoare (tx c d) (uow_commit U) (\<lambda>_. tx d d)
      (\<lambda>e s. (\<exists>m. e = DatabaseError m) \<and> (broken c s \<or> broken d s))"
    and scope_law: "hoare (tx c c) body (\<lambda>_ s. \<exists>d. tx d d s \<and> Q d) (\<lambda>e s. \<exists>d. broken d s \<and> R e d) \<Longrightarrow>
      hoare (idle c) (uow_scope U body) (\<lambda>_ s. \<exists>d. idle d s \<and> Q d)
        (\<lambda>e s. \<exists>d. idle d s \<and> (R e d \<or> (\<exists>m. e = DatabaseError m \<and> ((\<exists>e'. R e' d) \<or> Q d))))"
begin

lemma hoare_log: "hoare (tx c d) (log l ev fs) (\<lambda>_. tx c d) R"
  unfolding log_def by (rule hoare_modify) (rule tx_log)

lemma log_keeps:
  "hoare (\<lambda>s. \<exists>d'. tx c d' s \<and> A d') (log l ev fs) (\<lambda>_ s. \<exists>d'. tx c d' s \<and> A d') R"
  unfolding log_def by (rule hoare_modify) (blast intro: tx_log)

abbreviation db_error :: "'d \<Rightarrow> exn \<Rightarrow> ('z runtime_scheme) \<Rightarrow> bool" where
  "db_error c e s \<equiv> (\<exists>m. e = DatabaseError m) \<and> broken c s"

lemma ingest_one_law:
  "hoare (tx c d) (ingest_one U ord) (\<lambda>_ s. \<exists>d'. tx c d' s \<and> view d' = spec_ingest ord (view d)) (db_error c)"
  unfolding ingest_one_def
proof (rule hoare_bind [OF insert_new_law], rule hoare_ex, erule conjE)
  fix b d'
  assume b: "b = (fst (view d) (in_key ord) = None)" and v: "view d' =
      (if b then ((fst (view d))(in_key ord \<mapsto> (status_value ASSESS_REQUESTED, None)), snd (view d))
       else view d)"
  show "hoare (tx c d') (if b then bind_act (uow_add_assessment_request U ord) (\<lambda>_.
         log INFO ''order_ingested''
         [(lit ''source'', JStr (source_value (io_source ord))),
          (lit ''external_id'', JStr (io_external_id ord))])
     else log DEBUG ''order_duplicate''
         [(lit ''source'', JStr (source_value (io_source ord))),
          (lit ''external_id'', JStr (io_external_id ord))])
     (\<lambda>_ s. \<exists>d'. tx c d' s \<and> view d' = spec_ingest ord (view d)) (db_error c)"
  proof (cases b)
    case True
    have "(fst (view d'), put_new (assess_key (io_source ord) (io_external_id ord))
        (destination_value ASSESS_REQUEST, assess_request_payload ord) (snd (view d'))) =
        spec_ingest ord (view d)"
      using True b v by (simp add: spec_ingest_def split_beta)
    then have "hoare (tx c d') (uow_add_assessment_request U ord)
        (\<lambda>_ s. \<exists>d'. tx c d' s \<and> view d' = spec_ingest ord (view d)) (db_error c)"
      using add_assessment_request_law [of c d' ord] by simp
    then show ?thesis unfolding if_P [OF True] by (rule hoare_bind) (rule log_keeps)
  next
    case False
    then have "view d' = spec_ingest ord (view d)" using b v by (auto simp: spec_ingest_def split_beta)
    then show ?thesis unfolding if_not_P [OF False]
      by (intro hoare_conseq [OF hoare_log]) auto
  qed
qed

lemma ingest_loop_law:
  "hoare (tx c c) (for_each (ingest_one U) batch)
     (\<lambda>_ s. \<exists>d'. tx c d' s \<and> view d' = fold spec_ingest batch (view c)) (db_error c)"
proof -
  let ?I = "\<lambda>ys s. \<exists>d'. tx c d' s \<and> view d' = fold spec_ingest ys (view c)"
  have "hoare (?I []) (for_each (ingest_one U) batch) (\<lambda>_. ?I batch) (db_error c)"
  proof (rule hoare_for_each, rule hoare_ex)
    fix ys ord d'
    assume "view d' = fold spec_ingest ys (view c)"
    then show "hoare (tx c d') (ingest_one U ord) (\<lambda>_. ?I (ys @ [ord])) (db_error c)"
      using ingest_one_law [of c d' ord] by simp
  qed
  then show ?thesis by (rule hoare_conseq) auto
qed

text \<open>Ingestion is all or nothing, and what it stores is the specification's fold.\<close>

lemma ingest_law:
  "hoare (idle c) (IngestOrders_handle U batch)
     (\<lambda>_ s. \<exists>d. idle d s \<and> view d = fold spec_ingest batch (view c))
     (\<lambda>e s. \<exists>d. idle d s \<and> (\<exists>m. e = DatabaseError m) \<and>
        (d = c \<or> view d = fold spec_ingest batch (view c)))"
proof -
  have "hoare (tx c c) (bind_act (for_each (ingest_one U) batch) (\<lambda>_. uow_commit U))
     (\<lambda>_ s. \<exists>d. tx d d s \<and> view d = fold spec_ingest batch (view c))
     (\<lambda>e s. \<exists>d. broken d s \<and> (\<exists>m. e = DatabaseError m) \<and>
        (d = c \<or> view d = fold spec_ingest batch (view c)))"
  proof (rule hoare_bind)
    show "hoare (tx c c) (for_each (ingest_one U) batch)
     (\<lambda>_ s. \<exists>d'. tx c d' s \<and> view d' = fold spec_ingest batch (view c))
     (\<lambda>e s. \<exists>d. broken d s \<and> (\<exists>m. e = DatabaseError m) \<and>
        (d = c \<or> view d = fold spec_ingest batch (view c)))"
      by (rule hoare_conseq [OF ingest_loop_law]) auto
    show "hoare (\<lambda>s. \<exists>d'. tx c d' s \<and> view d' = fold spec_ingest batch (view c)) (uow_commit U)
     (\<lambda>_ s. \<exists>d. tx d d s \<and> view d = fold spec_ingest batch (view c))
     (\<lambda>e s. \<exists>d. broken d s \<and> (\<exists>m. e = DatabaseError m) \<and>
        (d = c \<or> view d = fold spec_ingest batch (view c)))" for u
      by (rule hoare_ex, rule hoare_conseq [OF commit_law]) auto
  qed
  then have "hoare (idle c) (IngestOrders_handle U batch)
     (\<lambda>_ s. \<exists>d. idle d s \<and> view d = fold spec_ingest batch (view c))
     (\<lambda>e s. \<exists>d. idle d s \<and> (((\<exists>m. e = DatabaseError m) \<and>
        (d = c \<or> view d = fold spec_ingest batch (view c))) \<or>
        (\<exists>m. e = DatabaseError m \<and> ((\<exists>e'. (\<exists>m. e' = DatabaseError m) \<and>
          (d = c \<or> view d = fold spec_ingest batch (view c))) \<or> view d = fold spec_ingest batch (view c)))))"
    unfolding IngestOrders_handle_def by (rule scope_law)
  then show ?thesis by (rule hoare_conseq) auto
qed

text \<open>A verdict on an order that waits for one.\<close>

lemma apply_verdict_law:
  assumes "fst (view c) (profi_key (ao_order_id out)) = Some (status_value ASSESS_REQUESTED, sc)"
  shows "hoare (tx c c) (apply_verdict U th out)
    (\<lambda>_ s. \<exists>d. tx c d s \<and> spec_process th out (view c) = Some (view d)) (db_error c)"
proof (cases "th \<le> ao_suitability_score out")
  case True
  let ?Q = "\<lambda>_ s. \<exists>d. tx c d s \<and> spec_process th out (view c) = Some (view d)"
  let ?set = "uow_set_status U PROFI (ao_order_id out) NOTIFY_REQUESTED (Some (ao_suitability_score out))"
  have "hoare (tx c d) (uow_add_notification U PROFI (ao_order_id out) (ao_notification out)) ?Q (db_error c)"
    if "view d = ((fst (view c))(profi_key (ao_order_id out) \<mapsto>
      (status_value NOTIFY_REQUESTED, Some (ao_suitability_score out))), snd (view c))" for d
    by (rule hoare_conseq [OF add_notification_law])
      (use True that assms in \<open>auto simp: spec_process_def split_beta\<close>)
  then have "hoare (\<lambda>s. \<exists>d. tx c d s \<and> b = (fst (view c) (profi_key (ao_order_id out)) \<noteq> None) \<and>
        view d = (if b then ((fst (view c))(profi_key (ao_order_id out) \<mapsto>
          (status_value NOTIFY_REQUESTED, Some (ao_suitability_score out))), snd (view c)) else view c))
      (bind_act (uow_add_notification U PROFI (ao_order_id out) (ao_notification out))
        (\<lambda>_. log l ev fs)) ?Q (db_error c)" for b l ev fs
    using assms by (intro hoare_ex hoare_bind [OF _ log_keeps]) auto
  then show ?thesis
    using True unfolding apply_verdict_def Let_def by (auto intro: hoare_bind [OF set_status_law])
next
  case False
  have "hoare (tx c c) (uow_set_status U PROFI (ao_order_id out) NO_NOTIFY (Some (ao_suitability_score out)))
      (\<lambda>_ s. \<exists>d. tx c d s \<and> spec_process th out (view c) = Some (view d)) (db_error c)"
    by (rule hoare_conseq [OF set_status_law])
      (use False assms in \<open>auto simp: spec_process_def split_beta\<close>)
  then show ?thesis
    using False unfolding apply_verdict_def Let_def by (auto intro: hoare_bind [OF _ log_keeps])
qed

abbreviation process_raises :: "'d \<Rightarrow> int \<Rightarrow> assessment_outcome \<Rightarrow> exn \<Rightarrow> 'd \<Rightarrow> bool" where
  "process_raises c th out e d \<equiv>
     (e = unknown_order (ao_order_id out) \<and> d = c \<and> spec_process th out (view c) = None) \<or>
     ((\<exists>m. e = DatabaseError m) \<and> (d = c \<or> spec_process th out (view c) = Some (view d)))"

lemma commit_verdict:
  "hoare (\<lambda>s. \<exists>d. tx c d s \<and> spec_process th out (view c) = Some (view d)) (uow_commit U)
     (\<lambda>_ s. \<exists>d. tx d d s \<and> spec_process th out (view c) = Some (view d))
     (\<lambda>e s. \<exists>d. broken d s \<and> process_raises c th out e d)"
  by (rule hoare_ex, rule hoare_conseq [OF commit_law]) auto

lemma process_law:
  "hoare (idle c) (ProcessAssessment_handle U th out)
     (\<lambda>_ s. \<exists>d. idle d s \<and> spec_process th out (view c) = Some (view d))
     (\<lambda>e s. \<exists>d. idle d s \<and> process_raises c th out e d)"
proof -
  let ?Q = "\<lambda>_ s. \<exists>d. tx d d s \<and> spec_process th out (view c) = Some (view d)"
  let ?E = "\<lambda>e s. \<exists>d. broken d s \<and> process_raises c th out e d"
  let ?k = "profi_key (ao_order_id out)"
  have get: "hoare (tx c c) (uow_get U PROFI (ao_order_id out))
      (\<lambda>r s. tx c c s \<and> (case r of None \<Rightarrow> fst (view c) ?k = None
        | Some o' \<Rightarrow> fst (view c) ?k = Some (status_value (do_status o'), do_suitability_score o'))) ?E"
    by (rule hoare_conseq [OF get_law]) auto
  have "hoare (\<lambda>s. tx c c s \<and> (case r of None \<Rightarrow> fst (view c) ?k = None
        | Some o' \<Rightarrow> fst (view c) ?k = Some (status_value (do_status o'), do_suitability_score o')))
      (case r of None \<Rightarrow> raise (unknown_order (ao_order_id out))
       | Some o' \<Rightarrow> if \<not> can_apply_assessment (do_status o')
           then bind_act (log l ev (fs o')) (\<lambda>_. uow_commit U)
           else bind_act (apply_verdict U th out) (\<lambda>_. uow_commit U)) ?Q ?E" for r l ev fs
  proof (cases r)
    case None
    then show ?thesis using tx_broken by (auto simp: hoare_def spec_process_def split_beta)
  next
    case (Some o')
    show ?thesis
    proof (cases "fst (view c) ?k = Some (status_value (do_status o'), do_suitability_score o')")
      case False
      with Some show ?thesis by (simp add: hoare_def)
    next
      case k: True
      show ?thesis
      proof (cases "can_apply_assessment (do_status o')")
        case True
        with k have "hoare (tx c c) (apply_verdict U th out)
            (\<lambda>_ s. \<exists>d. tx c d s \<and> spec_process th out (view c) = Some (view d)) ?E"
          by (intro hoare_conseq [OF apply_verdict_law]) (auto simp: can_apply_assessment_def)
        with True Some k show ?thesis by (auto intro: hoare_bind [OF _ commit_verdict])
      next
        case False
        with k have "spec_process th out (view c) = Some (view c)"
          by (auto simp: spec_process_def split_beta can_apply_assessment_def)
        then have "hoare (tx c c) (log l ev fs) (\<lambda>_ s. \<exists>d. tx c d s \<and>
            spec_process th out (view c) = Some (view d)) ?E" for l ev fs
          by (intro hoare_conseq [OF hoare_log]) auto
        with False Some k show ?thesis by (auto intro: hoare_bind [OF _ commit_verdict])
      qed
    qed
  qed
  then have "hoare (tx c c) (bind_act (uow_get U PROFI (ao_order_id out)) (\<lambda>ord.
       case ord of None \<Rightarrow> raise (unknown_order (ao_order_id out))
       | Some o' \<Rightarrow> if \<not> can_apply_assessment (do_status o')
           then bind_act (log INFO ''assessment_ignored''
               [(lit ''external_id'', JStr (ao_order_id out)),
                (lit ''status'', JStr (status_value (do_status o')))]) (\<lambda>_. uow_commit U)
           else bind_act (apply_verdict U th out) (\<lambda>_. uow_commit U))) ?Q ?E"
    by (rule hoare_bind [OF get])
  from scope_law [OF this] show ?thesis
    unfolding ProcessAssessment_handle_def by (rule hoare_conseq) (auto simp: unknown_order_def)
qed

end

end
