(* ===== verification/CoreSql.thy ===== *)
theory CoreSql
  imports CoreUseCases
begin

text \<open>
  order-core-service: the SQLAlchemy unit of work as the provider of the ports. The
  interpretation \<open>sql\<close> discharges the laws of the interface for the statements of CoreDb, with any
  faults of the database; the properties of the two handlers rest on its facts.
\<close>

definition sql_uow :: "pg_env \<Rightarrow> ('z pg_scheme) uow" where
  "sql_uow E = \<lparr>uow_insert_new = insert_new E, uow_get = get_order E, uow_set_status = set_status E,
     uow_add_assessment_request = add_assessment_request E, uow_add_notification = add_notification E,
     uow_commit = commit E, uow_scope = with_session E\<rparr>"

lemma sql_uow_simps [simp]:
  "uow_insert_new (sql_uow E) = insert_new E" "uow_get (sql_uow E) = get_order E"
  "uow_set_status (sql_uow E) = set_status E"
  "uow_add_assessment_request (sql_uow E) = add_assessment_request E"
  "uow_add_notification (sql_uow E) = add_notification E"
  "uow_commit (sql_uow E) = commit E" "uow_scope (sql_uow E) = with_session E"
  by (simp_all add: sql_uow_def)

definition sql_tx :: "(publisher \<times> json) list \<Rightarrow> database \<Rightarrow> database \<Rightarrow> 'z pg_scheme \<Rightarrow> bool" where
  "sql_tx ou c d s \<longleftrightarrow> rows_ok c \<and> in_tx ou c (\<lambda>db. db = d \<and> rows_ok db) s"

definition sql_broken :: "(publisher \<times> json) list \<Rightarrow> database \<Rightarrow> 'z pg_scheme \<Rightarrow> bool" where
  "sql_broken ou c s \<longleftrightarrow> rows_ok c \<and> in_tx ou c (\<lambda>_. True) s"

definition sql_idle :: "(publisher \<times> json) list \<Rightarrow> database \<Rightarrow> 'z pg_scheme \<Rightarrow> bool" where
  "sql_idle ou c s \<longleftrightarrow> rt_out s = ou \<and> rows_ok c \<and> committed s = c \<and> session s = None"

lemma sql_conv:
  assumes "hoare (in_tx ou c (\<lambda>db. db = d \<and> rows_ok db)) m
    (\<lambda>x. in_tx ou c (\<lambda>db'. rows_ok db' \<and> B x db')) (failing ou c (\<lambda>e. \<exists>m. e = DatabaseError m))"
  shows "hoare (sql_tx ou c d) m (\<lambda>x s. \<exists>d'. sql_tx ou c d' s \<and> B x d')
    (\<lambda>e s. (\<exists>m. e = DatabaseError m) \<and> sql_broken ou c s)"
proof (rule hoareI)
  fix s x t assume s: "sql_tx ou c d s" and m: "m s = (Inr x, t)"
  then have "in_tx ou c (\<lambda>db'. rows_ok db' \<and> B x db') t"
    using hoareD_Inr [OF assms _ m] by (simp add: sql_tx_def)
  with s show "\<exists>d'. sql_tx ou c d' t \<and> B x d'" by (auto simp: sql_tx_def in_tx_def)
next
  fix s e t assume s: "sql_tx ou c d s" and m: "m s = (Inl e, t)"
  then have "failing ou c (\<lambda>e. \<exists>m. e = DatabaseError m) e t"
    using hoareD_Inl [OF assms _ m] by (simp add: sql_tx_def)
  with s show "(\<exists>m. e = DatabaseError m) \<and> sql_broken ou c t" by (simp add: sql_tx_def sql_broken_def)
qed

lemma sql_insert_new:
  "hoare (sql_tx ou c d) (insert_new E ord)
     (\<lambda>b s. \<exists>d'. sql_tx ou c d' s \<and> b = (fst (abs_db d) (in_key ord) = None) \<and>
        abs_db d' = (if b then ((fst (abs_db d))(in_key ord \<mapsto> (status_value ASSESS_REQUESTED, None)),
          snd (abs_db d)) else abs_db d))
     (\<lambda>e s. (\<exists>m. e = DatabaseError m) \<and> sql_broken ou c s)"
  by (rule sql_conv, rule hoare_insert_new) (auto simp: abs_db_def in_key_def)

lemma sql_get_order:
  "hoare (sql_tx ou c d) (get_order E PROFI oid)
     (\<lambda>r s. sql_tx ou c d s \<and> (case r of None \<Rightarrow> fst (abs_db d) (profi_key oid) = None
        | Some o' \<Rightarrow> fst (abs_db d) (profi_key oid) =
            Some (status_value (do_status o'), do_suitability_score o')))
     (\<lambda>e s. (\<exists>m. e = DatabaseError m) \<and> sql_broken ou c s)"
proof -
  have "hoare (sql_tx ou c d) (get_order E PROFI oid)
     (\<lambda>r s. \<exists>d'. sql_tx ou c d' s \<and> d' = d \<and> (case r of None \<Rightarrow> fst (abs_db d) (profi_key oid) = None
        | Some o' \<Rightarrow> fst (abs_db d) (profi_key oid) =
            Some (status_value (do_status o'), do_suitability_score o')))
     (\<lambda>e s. (\<exists>m. e = DatabaseError m) \<and> sql_broken ou c s)"
    by (rule sql_conv, rule hoare_get_order) (auto simp: abs_db_def profi_key_def)
  then show ?thesis by (rule hoare_conseq) auto
qed

lemma sql_set_status:
  "hoare (sql_tx ou c d) (set_status E PROFI oid st score)
     (\<lambda>b s. \<exists>d'. sql_tx ou c d' s \<and> b = (fst (abs_db d) (profi_key oid) \<noteq> None) \<and>
        abs_db d' = (if b then ((fst (abs_db d))(profi_key oid \<mapsto> (status_value st, score)), snd (abs_db d))
          else abs_db d))
     (\<lambda>e s. (\<exists>m. e = DatabaseError m) \<and> sql_broken ou c s)"
  by (rule sql_conv, rule hoare_set_status) (auto simp: abs_db_def profi_key_def)

lemma sql_outbox_add:
  "hoare (sql_tx ou c d) (outbox_add E dest key payload)
     (\<lambda>_ s. \<exists>d'. sql_tx ou c d' s \<and> abs_db d' =
        (fst (abs_db d), put_new key (destination_value dest, payload) (snd (abs_db d))))
     (\<lambda>e s. (\<exists>m. e = DatabaseError m) \<and> sql_broken ou c s)"
  by (rule sql_conv, rule hoare_outbox_add) (auto simp: abs_db_def)

lemma sql_commit:
  "hoare (sql_tx ou c d) (commit E) (\<lambda>_. sql_tx ou d d)
     (\<lambda>e s. (\<exists>m. e = DatabaseError m) \<and> (sql_broken ou c s \<or> sql_broken ou d s))"
  unfolding commit_def sql_tx_def sql_broken_def in_tx_def hoare_def
  by (auto simp: bind_act_def require_session_def Let_def split: option.splits)

lemma rollback_Inl: "session s = Some db \<Longrightarrow> rollback E s = (Inl e, t) \<Longrightarrow>
    (\<exists>m. e = DatabaseError m) \<and> committed t = committed s \<and> rt_out t = rt_out s"
  by (auto simp: rollback_def bind_act_def require_session_def Let_def split: option.splits)

lemma rollback_Inr: "session s = Some db \<Longrightarrow> rollback E s = (Inr u, t) \<Longrightarrow>
    committed t = committed s \<and> rt_out t = rt_out s"
  by (auto simp: rollback_def bind_act_def require_session_def Let_def split: option.splits)

lemma close_session_effect: "close_session E s = (r, t) \<Longrightarrow>
    committed t = committed s \<and> rt_out t = rt_out s \<and> session t = None \<and> (r = Inr () \<or> (\<exists>m. r = Inl (DatabaseError m)))"
  by (auto simp: close_session_def split: option.splits)

lemma aexit_Inr:
  "aexit E (Inr x, s) = (r, t) \<Longrightarrow>
    committed t = committed s \<and> rt_out t = rt_out s \<and> session t = None \<and> (r = Inr x \<or> (\<exists>m. r = Inl (DatabaseError m)))"
  by (auto simp: aexit_def close_session_def split: option.splits)

lemma aexit_Inl:
  assumes "session s = Some db" and "aexit E (Inl e, s) = (r, t)"
  shows "committed t = committed s \<and> rt_out t = rt_out s \<and> session t = None \<and>
    (r = Inl e \<or> (\<exists>m. r = Inl (DatabaseError m)))"
proof (cases "rollback E s")
  case (Pair r' u)
  with assms show ?thesis
    by (cases r') (auto simp: aexit_def close_session_def split: option.splits dest: rollback_Inl rollback_Inr)
qed

text \<open>
  The scope opens a session on what is committed, runs the body and closes the session. The
  exception that leaves it is the body's own or, when the rollback or the close fails, a database
  error, which may also take the place of a value.
\<close>

lemma sql_scope_ex:
  assumes "hoare (sql_tx ou c c) body (\<lambda>x s. \<exists>ou' d. sql_tx ou' d d s \<and> Q x ou' d)
      (\<lambda>e s. \<exists>ou' d. sql_broken ou' d s \<and> R e ou' d)"
  shows "hoare (sql_idle ou c) (with_session E body) (\<lambda>x s. \<exists>ou' d. sql_idle ou' d s \<and> Q x ou' d)
      (\<lambda>e s. \<exists>ou' d. sql_idle ou' d s \<and> (R e ou' d \<or>
        (\<exists>m. e = DatabaseError m \<and> ((\<exists>e'. R e' ou' d) \<or> (\<exists>x. Q x ou' d)))))"
proof (rule hoareI)
  fix s x t
  assume idle: "sql_idle ou c s" and run: "with_session E body s = (Inr x, t)"
  then have tx: "sql_tx ou c c (aenter s)" by (auto simp: sql_idle_def sql_tx_def in_tx_def aenter_def)
  obtain r u where u: "body (aenter s) = (r, u)" by (cases "body (aenter s)")
  show "\<exists>ou' d. sql_idle ou' d t \<and> Q x ou' d"
  proof (cases r)
    case (Inl e)
    obtain ou' d where d: "sql_broken ou' d u" using hoareD_Inl [OF assms tx u [unfolded Inl]] by blast
    then obtain db where "session u = Some db" by (auto simp: sql_broken_def in_tx_def)
    moreover have "aexit E (r, u) = (Inr x, t)" using run u by (simp add: with_session_def)
    ultimately show ?thesis using aexit_Inl [of u _ E e "Inr x" t] by (simp add: Inl)
  next
    case (Inr y)
    have "aexit E (r, u) = (Inr x, t)" using run u by (simp add: with_session_def)
    from aexit_Inr [OF this [unfolded Inr]] have t: "committed t = committed u" "rt_out t = rt_out u" "session t = None" "x = y" by auto
    obtain ou' d where "sql_tx ou' d d u" "Q y ou' d" using hoareD_Inr [OF assms tx u [unfolded Inr]] by blast
    with t show ?thesis by (auto simp: sql_idle_def sql_tx_def in_tx_def)
  qed
next
  fix s e t
  assume idle: "sql_idle ou c s" and run: "with_session E body s = (Inl e, t)"
  then have tx: "sql_tx ou c c (aenter s)" by (auto simp: sql_idle_def sql_tx_def in_tx_def aenter_def)
  obtain r u where u: "body (aenter s) = (r, u)" by (cases "body (aenter s)")
  show "\<exists>ou' d. sql_idle ou' d t \<and> (R e ou' d \<or> (\<exists>m. e = DatabaseError m \<and> ((\<exists>e'. R e' ou' d) \<or> (\<exists>x. Q x ou' d))))"
  proof (cases r)
    case (Inl e0)
    have ex: "aexit E (r, u) = (Inl e, t)" using run u by (simp add: with_session_def)
    obtain ou' d where d: "sql_broken ou' d u" "R e0 ou' d" using hoareD_Inl [OF assms tx u [unfolded Inl]] by blast
    then obtain db where "session u = Some db" by (auto simp: sql_broken_def in_tx_def)
    from aexit_Inl [OF this ex [unfolded Inl]] have x: "committed t = committed u" "rt_out t = rt_out u" "session t = None"
        "e = e0 \<or> (\<exists>m. e = DatabaseError m)" by auto
    have "sql_idle ou' d t" using d(1) x(1-3) by (simp add: sql_idle_def sql_broken_def in_tx_def)
    with d(2) x(4) show ?thesis by blast
  next
    case (Inr y)
    have "aexit E (r, u) = (Inl e, t)" using run u by (simp add: with_session_def)
    from aexit_Inr [OF this [unfolded Inr]] have t: "committed t = committed u" "rt_out t = rt_out u" "session t = None"
        "\<exists>m. e = DatabaseError m" by auto
    obtain ou' d where "sql_tx ou' d d u" "Q y ou' d" using hoareD_Inr [OF assms tx u [unfolded Inr]] by blast
    with t show ?thesis by (auto simp: sql_idle_def sql_tx_def in_tx_def)
  qed
qed

lemma sql_scope:
  assumes "hoare (sql_tx ou c c) body (\<lambda>_ s. \<exists>d. sql_tx ou' d d s \<and> Q d)
      (\<lambda>e s. \<exists>d. sql_broken ou' d s \<and> R e d)"
  shows "hoare (sql_idle ou c) (with_session E body) (\<lambda>_ s. \<exists>d. sql_idle ou' d s \<and> Q d)
      (\<lambda>e s. \<exists>d. sql_idle ou' d s \<and> (R e d \<or> (\<exists>m. e = DatabaseError m \<and> ((\<exists>e'. R e' d) \<or> Q d))))"
proof -
  have "hoare (sql_tx ou c c) body (\<lambda>_ s. \<exists>o2 d. sql_tx o2 d d s \<and> o2 = ou' \<and> Q d)
      (\<lambda>e s. \<exists>o2 d. sql_broken o2 d s \<and> o2 = ou' \<and> R e d)"
    using assms by simp
  from sql_scope_ex [OF this] show ?thesis by (rule hoare_conseq) auto
qed

interpretation sql: unit_of_work abs_db "sql_tx ou" "sql_broken ou" "sql_uow E" "sql_idle ou" for ou E
proof (unfold_locales, unfold sql_uow_simps add_assessment_request_def add_notification_def)
  show "sql_tx ou c d s \<Longrightarrow> sql_tx ou c d (s\<lparr>rt_log := l\<rparr>)" for c d s l
    by (simp add: sql_tx_def in_tx_def)
  show "sql_tx ou c d s \<Longrightarrow> sql_broken ou c s" for c d s
    by (auto simp: sql_tx_def sql_broken_def in_tx_def)
qed (rule sql_insert_new sql_get_order sql_set_status sql_outbox_add sql_commit | erule sql_scope)+

end
