(* ===== verification/CoreProps.thy ===== *)
theory CoreProps
  imports CoreSql
begin

text \<open>
  order-core-service: the properties of \<open>IngestOrders\<close> and \<open>ProcessAssessment\<close> over the SQL unit of
  work, for any behaviour of the database: refinement of the abstract specification, atomicity,
  idempotence under redelivery, the life cycle of an order, and the invariant that ties the
  orders to the outbox.
\<close>

section \<open>Idle states and runs\<close>

text \<open>Between two messages no session is open and the tables satisfy their constraints.\<close>

definition core_idle :: "'z pg_scheme \<Rightarrow> bool" where
  "core_idle s \<longleftrightarrow> rows_ok (committed s) \<and> session s = None"

lemma core_idle_sql: "core_idle s \<longleftrightarrow> sql_idle (rt_out s) (committed s) s"
  by (auto simp: core_idle_def sql_idle_def)

lemma ingest_returns:
  assumes "core_idle s" and "IngestOrders_handle (sql_uow E) batch s = (Inr u, t)"
  shows "core_idle t \<and> rt_out t = rt_out s \<and>
    abs_db (committed t) = fold spec_ingest batch (abs_db (committed s))"
  using hoareD_Inr [OF sql.ingest_law _ assms(2)] assms(1)
  unfolding core_idle_sql by (fastforce simp: sql_idle_def)

lemma ingest_raises:
  assumes "core_idle s" and "IngestOrders_handle (sql_uow E) batch s = (Inl e, t)"
  shows "core_idle t \<and> rt_out t = rt_out s \<and> (\<exists>m. e = DatabaseError m) \<and>
    (committed t = committed s \<or> abs_db (committed t) = fold spec_ingest batch (abs_db (committed s)))"
  using hoareD_Inl [OF sql.ingest_law _ assms(2)] assms(1)
  unfolding core_idle_sql by (fastforce simp: sql_idle_def)

lemma process_returns:
  assumes "core_idle s" and "ProcessAssessment_handle (sql_uow E) th out s = (Inr u, t)"
  shows "core_idle t \<and> rt_out t = rt_out s \<and>
    spec_process th out (abs_db (committed s)) = Some (abs_db (committed t))"
  using hoareD_Inr [OF sql.process_law _ assms(2)] assms(1)
  unfolding core_idle_sql by (fastforce simp: sql_idle_def)

lemma process_raises:
  assumes "core_idle s" and "ProcessAssessment_handle (sql_uow E) th out s = (Inl e, t)"
  shows "core_idle t \<and> rt_out t = rt_out s \<and>
    ((e = unknown_order (ao_order_id out) \<and> committed t = committed s \<and>
        spec_process th out (abs_db (committed s)) = None) \<or>
     ((\<exists>m. e = DatabaseError m) \<and> (committed t = committed s \<or>
        spec_process th out (abs_db (committed s)) = Some (abs_db (committed t)))))"
  using hoareD_Inl [OF sql.process_law _ assms(2)] assms(1)
  unfolding core_idle_sql by (fastforce simp: sql_idle_def)

section \<open>Facts of the specification\<close>

lemma spec_ingest_known: "fst a (in_key ord) \<noteq> None \<Longrightarrow> spec_ingest ord a = a"
  by (cases a) (auto simp: spec_ingest_def)

lemma spec_ingest_keeps: "fst a k \<noteq> None \<Longrightarrow> fst (spec_ingest ord a) k = fst a k"
  by (cases a) (auto simp: spec_ingest_def)

lemma spec_ingest_in: "fst (spec_ingest ord a) (in_key ord) \<noteq> None"
  by (cases a) (auto simp: spec_ingest_def)

lemma fold_spec_ingest_keeps: "fst a k \<noteq> None \<Longrightarrow> fst (fold spec_ingest batch a) k = fst a k"
proof (induction batch arbitrary: a)
  case (Cons ord batch)
  then have "fst (spec_ingest ord a) k \<noteq> None" by (simp add: spec_ingest_keeps)
  with Cons show ?case by (simp add: spec_ingest_keeps)
qed simp

lemma fold_spec_ingest_covers:
  "ord \<in> set batch \<Longrightarrow> fst (fold spec_ingest batch a) (in_key ord) \<noteq> None"
proof (induction batch arbitrary: a)
  case (Cons o' batch)
  show ?case
  proof (cases "ord = o'")
    case True
    then show ?thesis
      using fold_spec_ingest_keeps [of "spec_ingest o' a" "in_key o'" batch] spec_ingest_in [of o' a] by simp
  next
    case False
    with Cons.prems have "ord \<in> set batch" by simp
    then show ?thesis using Cons.IH [of "spec_ingest o' a"] by simp
  qed
qed simp

lemma fold_spec_ingest_known:
  "(\<And>ord. ord \<in> set batch \<Longrightarrow> fst a (in_key ord) \<noteq> None) \<Longrightarrow> fold spec_ingest batch a = a"
  by (induction batch) (simp_all add: spec_ingest_known)

lemma fold_spec_ingest_idem:
  "fold spec_ingest batch (fold spec_ingest batch a) = fold spec_ingest batch a"
  by (rule fold_spec_ingest_known) (rule fold_spec_ingest_covers)

lemma spec_process_cases:
  assumes "spec_process th out a = Some b"
  obtains (ignored) st sc where "fst a (profi_key (ao_order_id out)) = Some (st, sc)"
      "st \<noteq> status_value ASSESS_REQUESTED" "b = a"
    | (notify) sc where "fst a (profi_key (ao_order_id out)) = Some (status_value ASSESS_REQUESTED, sc)"
      "th \<le> ao_suitability_score out"
      "b = ((fst a)(profi_key (ao_order_id out) \<mapsto>
          (status_value NOTIFY_REQUESTED, Some (ao_suitability_score out))),
        put_new (notify_key PROFI (ao_order_id out))
          (destination_value NOTIFY, notification_payload (ao_notification out)) (snd a))"
    | (skip) sc where "fst a (profi_key (ao_order_id out)) = Some (status_value ASSESS_REQUESTED, sc)"
      "\<not> th \<le> ao_suitability_score out"
      "b = ((fst a)(profi_key (ao_order_id out) \<mapsto>
          (status_value NO_NOTIFY, Some (ao_suitability_score out))), snd a)"
proof (cases "fst a (profi_key (ao_order_id out))")
  case None
  with assms show ?thesis by (simp add: spec_process_def split_beta)
next
  case (Some v)
  obtain st sc where v: "v = (st, sc)" by (cases v)
  show ?thesis
  proof (cases "st = status_value ASSESS_REQUESTED")
    case False
    with assms Some v have "b = a" by (simp add: spec_process_def split_beta)
    with False Some v show ?thesis by (intro ignored) auto
  next
    case True
    with assms Some v notify [of sc] skip [of sc] show ?thesis
      by (cases "th \<le> ao_suitability_score out") (simp_all add: spec_process_def split_beta)
  qed
qed

lemma spec_process_handled:
  assumes "spec_process th out a = Some b"
  shows "\<exists>st sc. fst b (profi_key (ao_order_id out)) = Some (st, sc) \<and> st \<noteq> status_value ASSESS_REQUESTED"
  using assms by (cases rule: spec_process_cases) auto

lemma spec_process_None:
  "spec_process th out a = None \<Longrightarrow> fst a (profi_key (ao_order_id out)) = None"
  by (cases a) (auto simp: spec_process_def Let_def split: option.splits if_splits)

lemma spec_process_ignored:
  assumes "fst a (profi_key (ao_order_id out)) = Some (st, sc)" and "st \<noteq> status_value ASSESS_REQUESTED"
  shows "spec_process th out a = Some a"
  using assms by (cases a) (simp add: spec_process_def)

lemma spec_process_other:
  "spec_process th out a = Some b \<Longrightarrow> k \<noteq> profi_key (ao_order_id out) \<Longrightarrow> fst b k = fst a k"
  by (erule spec_process_cases) auto

section \<open>The life cycle of an order\<close>

text \<open>The transitions that domain/status.py lists; nothing else happens to a status.\<close>

inductive lifecycle :: "order_status option \<Rightarrow> order_status option \<Rightarrow> bool" where
  stay: "lifecycle st st"
| ingest: "lifecycle None (Some ASSESS_REQUESTED)"
| notify: "lifecycle (Some ASSESS_REQUESTED) (Some NOTIFY_REQUESTED)"
| skip: "lifecycle (Some ASSESS_REQUESTED) (Some NO_NOTIFY)"

inductive_simps lifecycle_from [simp]:
  "lifecycle None st" "lifecycle (Some ASSESS_REQUESTED) st" "lifecycle (Some NOTIFY_REQUESTED) st"
  "lifecycle (Some NO_NOTIFY) st" "lifecycle (Some FAILED) st"

definition status_at :: "order_map \<Rightarrow> ustr \<times> ustr \<Rightarrow> order_status option" where
  "status_at om k = (case om k of None \<Rightarrow> None
     | Some (st, _) \<Rightarrow> (case status_of st of Inr s \<Rightarrow> Some s | Inl _ \<Rightarrow> None))"

lemma status_at_None [simp]: "om k = None \<Longrightarrow> status_at om k = None"
  by (simp add: status_at_def)

lemma status_at_Some [simp]: "om k = Some (status_value st, sc) \<Longrightarrow> status_at om k = Some st"
  by (simp add: status_at_def)

lemma status_at_cong: "om k = om' k \<Longrightarrow> status_at om k = status_at om' k"
  by (simp add: status_at_def)

lemma fold_spec_ingest_new:
  assumes "fst a k = None" and "fst (fold spec_ingest batch a) k = Some v"
  shows "v = (status_value ASSESS_REQUESTED, None)"
  using assms
proof (induction batch arbitrary: a)
  case (Cons ord batch)
  show ?case
  proof (cases "fst (spec_ingest ord a) k")
    case None
    with Cons show ?thesis by simp
  next
    case (Some w)
    then have "w = (status_value ASSESS_REQUESTED, None)"
      using Cons.prems(1) by (cases a) (auto simp: spec_ingest_def split: if_splits)
    with Some Cons.prems(2) show ?thesis
      using fold_spec_ingest_keeps [of "spec_ingest ord a" k batch] by simp
  qed
qed simp

lemma lifecycle_ingest:
  "lifecycle (status_at (fst a) k) (status_at (fst (fold spec_ingest batch a)) k)"
proof (cases "fst a k = None")
  case True
  then show ?thesis
    by (cases "fst (fold spec_ingest batch a) k") (auto dest: fold_spec_ingest_new)
next
  case False
  then have "fst (fold spec_ingest batch a) k = fst a k" by (rule fold_spec_ingest_keeps)
  then have "status_at (fst (fold spec_ingest batch a)) k = status_at (fst a) k" by (rule status_at_cong)
  then show ?thesis by (simp add: lifecycle.stay)
qed

lemma lifecycle_process:
  assumes "spec_process th out a = Some b"
  shows "lifecycle (status_at (fst a) k) (status_at (fst b) k)"
proof (cases "k = profi_key (ao_order_id out)")
  case True
  from assms show ?thesis
  proof (cases rule: spec_process_cases)
    case ignored
    then show ?thesis by (simp add: lifecycle.stay)
  next
    case (notify sc)
    with True show ?thesis by (simp add: lifecycle.notify)
  next
    case (skip sc)
    with True show ?thesis by (simp add: lifecycle.skip)
  qed
next
  case False
  then have "fst b k = fst a k" by (rule spec_process_other [OF assms])
  then have "status_at (fst b) k = status_at (fst a) k" by (rule status_at_cong)
  then show ?thesis by (simp add: lifecycle.stay)
qed

section \<open>Orders and events\<close>

text \<open>
  The outbox holds an assessment event for every order, a notification event exactly for the
  orders in status \<open>NOTIFY_REQUESTED\<close>, and no other event; every order is in a status of the life
  cycle, and has a score exactly when a verdict was applied.
\<close>

definition link_ok :: "abs_core \<Rightarrow> bool" where
  "link_ok a \<longleftrightarrow> (let (om, ev) = a in
     (\<forall>src oid. om (src, oid) \<noteq> None \<longrightarrow> src = source_value PROFI) \<and>
     (\<forall>oid st sc. om (profi_key oid) = Some (st, sc) \<longrightarrow>
        (st = status_value ASSESS_REQUESTED \<and> sc = None) \<or>
        (st = status_value NOTIFY_REQUESTED \<and> sc \<noteq> None) \<or>
        (st = status_value NO_NOTIFY \<and> sc \<noteq> None)) \<and>
     (\<forall>oid. (\<exists>p. ev (assess_key PROFI oid) = Some (destination_value ASSESS_REQUEST, p)) \<longleftrightarrow>
        om (profi_key oid) \<noteq> None) \<and>
     (\<forall>oid. (\<exists>p. ev (notify_key PROFI oid) = Some (destination_value NOTIFY, p)) \<longleftrightarrow>
        (\<exists>sc. om (profi_key oid) = Some (status_value NOTIFY_REQUESTED, sc))) \<and>
     (\<forall>key d p. ev key = Some (d, p) \<longrightarrow>
        (\<exists>oid. (key = assess_key PROFI oid \<and> d = destination_value ASSESS_REQUEST) \<or>
               (key = notify_key PROFI oid \<and> d = destination_value NOTIFY))))"

lemma assess_key_inj [simp]: "assess_key PROFI a = assess_key PROFI b \<longleftrightarrow> a = b"
  by (simp add: assess_key_def)

lemma notify_key_inj [simp]: "notify_key PROFI a = notify_key PROFI b \<longleftrightarrow> a = b"
  by (simp add: notify_key_def)

lemma assess_notify_key [simp]: "assess_key PROFI a \<noteq> notify_key PROFI b"
  "notify_key PROFI b \<noteq> assess_key PROFI a"
  by (simp_all add: assess_key_def notify_key_def lit_eval)

lemma profi_key_inj [simp]: "profi_key a = profi_key b \<longleftrightarrow> a = b"
  by (simp add: profi_key_def)

lemma in_key_profi: "in_key ord = profi_key (io_external_id ord)"
  by (cases "io_source ord") (simp add: in_key_def profi_key_def)

lemma source_PROFI [simp]: "io_source ord = PROFI"
  by (cases "io_source ord")

lemma link_ok_empty: "link_ok (Map.empty, Map.empty)"
  by (simp add: link_ok_def)

lemma link_okI:
  assumes "\<And>src oid. om (src, oid) \<noteq> None \<Longrightarrow> src = source_value PROFI"
    and "\<And>oid st sc. om (profi_key oid) = Some (st, sc) \<Longrightarrow>
        (st = status_value ASSESS_REQUESTED \<and> sc = None) \<or>
        (st = status_value NOTIFY_REQUESTED \<and> sc \<noteq> None) \<or>
        (st = status_value NO_NOTIFY \<and> sc \<noteq> None)"
    and "\<And>oid. (\<exists>p. ev (assess_key PROFI oid) = Some (destination_value ASSESS_REQUEST, p)) \<longleftrightarrow>
        om (profi_key oid) \<noteq> None"
    and "\<And>oid. (\<exists>p. ev (notify_key PROFI oid) = Some (destination_value NOTIFY, p)) \<longleftrightarrow>
        (\<exists>sc. om (profi_key oid) = Some (status_value NOTIFY_REQUESTED, sc))"
    and "\<And>key d p. ev key = Some (d, p) \<Longrightarrow>
        (\<exists>oid. (key = assess_key PROFI oid \<and> d = destination_value ASSESS_REQUEST) \<or>
               (key = notify_key PROFI oid \<and> d = destination_value NOTIFY))"
  shows "link_ok (om, ev)"
  unfolding link_ok_def prod.case Let_def using assms by blast

lemma link_okD:
  assumes "link_ok (om, ev)"
  shows "om (src, oid) \<noteq> None \<Longrightarrow> src = source_value PROFI"
    and "om (profi_key oid) = Some (st, sc) \<Longrightarrow>
        (st = status_value ASSESS_REQUESTED \<and> sc = None) \<or>
        (st = status_value NOTIFY_REQUESTED \<and> sc \<noteq> None) \<or>
        (st = status_value NO_NOTIFY \<and> sc \<noteq> None)"
    and "(\<exists>p. ev (assess_key PROFI oid) = Some (destination_value ASSESS_REQUEST, p)) \<longleftrightarrow>
        om (profi_key oid) \<noteq> None"
    and "(\<exists>p. ev (notify_key PROFI oid) = Some (destination_value NOTIFY, p)) \<longleftrightarrow>
        (\<exists>sc. om (profi_key oid) = Some (status_value NOTIFY_REQUESTED, sc))"
    and "ev key = Some (d, p) \<Longrightarrow>
        (\<exists>oid. (key = assess_key PROFI oid \<and> d = destination_value ASSESS_REQUEST) \<or>
               (key = notify_key PROFI oid \<and> d = destination_value NOTIFY))"
  using assms unfolding link_ok_def prod.case Let_def by blast+

lemma link_ok_no_assess:
  assumes "link_ok (om, ev)" and "om (profi_key oid) = None"
  shows "ev (assess_key PROFI oid) = None"
proof (rule ccontr)
  assume "ev (assess_key PROFI oid) \<noteq> None"
  then obtain d p where e: "ev (assess_key PROFI oid) = Some (d, p)" by auto
  with link_okD(5) [OF assms(1) e] have "d = destination_value ASSESS_REQUEST" by auto
  with e link_okD(3) [OF assms(1), of oid] assms(2) show False by auto
qed

lemma link_ok_no_notify:
  assumes "link_ok (om, ev)" and "om (profi_key oid) = Some (status_value ASSESS_REQUESTED, sc)"
  shows "ev (notify_key PROFI oid) = None"
proof (rule ccontr)
  assume "ev (notify_key PROFI oid) \<noteq> None"
  then obtain d p where e: "ev (notify_key PROFI oid) = Some (d, p)" by auto
  with link_okD(5) [OF assms(1) e] have "d = destination_value NOTIFY" by auto
  with e link_okD(4) [OF assms(1), of oid] assms(2) show False by auto
qed

lemma link_ok_ingest:
  assumes "link_ok a"
  shows "link_ok (spec_ingest ord a)"
proof (cases a)
  case (Pair om ev)
  let ?oid = "io_external_id ord"
  show ?thesis
  proof (cases "om (profi_key ?oid)")
    case (Some v)
    with Pair have "spec_ingest ord a = a" by (intro spec_ingest_known) (simp add: in_key_profi)
    with assms show ?thesis by simp
  next
    case None
    note L = link_okD [OF assms [unfolded Pair]]
    have "ev (assess_key PROFI ?oid) = None" by (rule link_ok_no_assess [OF assms [unfolded Pair] None])
    then have new: "spec_ingest ord a =
        (om(profi_key ?oid \<mapsto> (status_value ASSESS_REQUESTED, None)),
         ev(assess_key PROFI ?oid \<mapsto> (destination_value ASSESS_REQUEST, assess_request_payload ord)))"
      using Pair None by (simp add: spec_ingest_def in_key_profi put_new_def)
    show ?thesis unfolding new
    proof (rule link_okI)
      fix src oid
      assume "(om(profi_key ?oid \<mapsto> (status_value ASSESS_REQUESTED, None))) (src, oid) \<noteq> None"
      then show "src = source_value PROFI"
        using L(1) [of src oid] by (auto simp: profi_key_def split: if_splits)
    qed (use L(2-5) None in \<open>auto split: if_splits\<close>)
  qed
qed

lemma link_ok_process:
  assumes "link_ok a" and "spec_process th out a = Some b"
  shows "link_ok b"
proof (cases a)
  case (Pair om ev)
  let ?oid = "ao_order_id out" and ?sc = "ao_suitability_score out"
  note L = link_okD [OF assms(1) [unfolded Pair]]
  have src: "src = source_value PROFI" if "(om(profi_key ?oid \<mapsto> v)) (src, oid) \<noteq> None" for v src oid
    using that L(1) [of src oid] by (auto simp: profi_key_def split: if_splits)
  from assms(2) show ?thesis
  proof (cases rule: spec_process_cases)
    case ignored
    with assms(1) show ?thesis by simp
  next
    case (notify sc)
    have k: "om (profi_key ?oid) = Some (status_value ASSESS_REQUESTED, sc)" using notify(1) Pair by simp
    have none: "ev (notify_key PROFI ?oid) = None"
      by (rule link_ok_no_notify [OF assms(1) [unfolded Pair] k])
    show ?thesis unfolding notify(3) Pair fst_conv snd_conv put_new_def none option.case
      by (rule link_okI) (use L(2-5) k none src in \<open>auto split: if_splits\<close>)
  next
    case (skip sc)
    have k: "om (profi_key ?oid) = Some (status_value ASSESS_REQUESTED, sc)" using skip(1) Pair by simp
    have none: "ev (notify_key PROFI ?oid) = None"
      by (rule link_ok_no_notify [OF assms(1) [unfolded Pair] k])
    show ?thesis unfolding skip(3) Pair fst_conv snd_conv
      by (rule link_okI) (use L(2-5) k none src in \<open>auto split: if_splits\<close>)
  qed
qed

lemma link_ok_fold_ingest: "link_ok a \<Longrightarrow> link_ok (fold spec_ingest batch a)"
  by (induction batch arbitrary: a) (simp_all add: link_ok_ingest)

end
