(* ===== verification/CoreRelay.thy ===== *)
theory CoreRelay
  imports CoreProps
begin

text \<open>
  order-core-service: the outbox relay. The ports \<open>OutboxDispatch\<close> and \<open>EventPublisher\<close>
  (application/ports.py), the use case \<open>RelayOutbox\<close> (relay_outbox.py), the publisher by destination
  (messaging/event_publisher.py), the SQL dispatch (db/outbox_dispatch.py) and the background poller
  \<open>OutboxRelay\<close> (outbox/relay.py).
\<close>

section \<open>Ports and use case\<close>

record 's dispatch =
  dp_claim_pending :: "nat \<Rightarrow> ('s, pending_event list) act"
  dp_mark_published :: "nat list \<Rightarrow> ('s, unit) act"
  dp_commit :: "('s, unit) act"
  dp_scope :: "('s, nat) act \<Rightarrow> ('s, nat) act"

type_synonym 's event_publisher = "ustr \<Rightarrow> json \<Rightarrow> ('s, unit) act"

definition run_once ::
    "('z runtime_scheme) dispatch \<Rightarrow> ('z runtime_scheme) event_publisher \<Rightarrow> nat \<Rightarrow>
     ('z runtime_scheme, nat) act" where
  "run_once D pub batch_size = dp_scope D (bind_act (dp_claim_pending D batch_size) (\<lambda>events.
     if events = [] then ret 0
     else bind_act (for_each (\<lambda>e. pub (pe_destination e) (pe_payload e)) events) (\<lambda>_.
          bind_act (dp_mark_published D (map pe_id events)) (\<lambda>_.
          bind_act (dp_commit D) (\<lambda>_.
          bind_act (log INFO ''outbox_relayed'' [(lit ''count'', JInt (int (length events)))]) (\<lambda>_.
          ret (length events)))))))"

section \<open>Interfaces\<close>

text \<open>
  A publisher sends an event of a known destination to the transport \<open>route\<close> gives, or fails, in
  which case the message may have got through all the same.
\<close>

locale publisher_port =
  fixes pub :: "('z runtime_scheme) event_publisher"
    and route :: "ustr \<Rightarrow> publisher option"
    and tx :: "(publisher \<times> json) list \<Rightarrow> 'd \<Rightarrow> 'd \<Rightarrow> ('z runtime_scheme) \<Rightarrow> bool"
  assumes publish_law: "hoare (tx ou c d) (pub dest payload)
      (\<lambda>_ s. \<exists>p. route dest = Some p \<and> tx (ou @ [(p, payload)]) c d s)
      (\<lambda>e s. tx ou c d s \<or> (\<exists>p. route dest = Some p \<and> tx (ou @ [(p, payload)]) c d s))"

text \<open>
  A dispatch claims pending events, each once and no more than asked for; marking takes the marked
  events, and nothing else, out of the pending ones.
\<close>

locale outbox_dispatch = publisher_port +
  fixes D :: "('z runtime_scheme) dispatch"
    and waiting :: "'d \<Rightarrow> pending_event list"
    and view :: "'d \<Rightarrow> abs_core"
    and broken :: "(publisher \<times> json) list \<Rightarrow> 'd \<Rightarrow> ('z runtime_scheme) \<Rightarrow> bool"
    and idle :: "(publisher \<times> json) list \<Rightarrow> 'd \<Rightarrow> ('z runtime_scheme) \<Rightarrow> bool"
  assumes tx_log: "tx ou c d s \<Longrightarrow> tx ou c d (s\<lparr>rt_log := l\<rparr>)"
    and tx_broken: "tx ou c d s \<Longrightarrow> broken ou c s"
    and claim_law: "hoare (tx ou c d) (dp_claim_pending D n)
      (\<lambda>evs s. tx ou c d s \<and> distinct (map pe_id evs) \<and> set evs \<subseteq> set (waiting d) \<and> length evs \<le> n)
      (\<lambda>e s. broken ou c s)"
    and mark_law: "hoare (tx ou c d) (dp_mark_published D ids)
      (\<lambda>_ s. \<exists>d'. tx ou c d' s \<and> view d' = view d \<and>
        waiting d' = filter (\<lambda>e. pe_id e \<notin> set ids) (waiting d))
      (\<lambda>e s. broken ou c s)"
    and dispatch_commit_law: "hoare (tx ou c d) (dp_commit D) (\<lambda>_. tx ou d d)
      (\<lambda>e s. broken ou c s \<or> broken ou d s)"
    and dispatch_scope_law: "hoare (tx ou c c) body (\<lambda>k s. \<exists>ou d. tx ou d d s \<and> Q k ou d)
        (\<lambda>e s. \<exists>ou d. broken ou d s \<and> R ou d) \<Longrightarrow>
      hoare (idle ou c) (dp_scope D body) (\<lambda>k s. \<exists>ou d. idle ou d s \<and> Q k ou d)
        (\<lambda>e s. \<exists>ou d. idle ou d s \<and> (R ou d \<or> (\<exists>k. Q k ou d)))"
begin

definition sent_as :: "pending_event list \<Rightarrow> (publisher \<times> json) list \<Rightarrow> bool" where
  "sent_as evs ms \<longleftrightarrow> list_all2 (\<lambda>e (p, j). route (pe_destination e) = Some p \<and> pe_payload e = j) evs ms"

lemma sent_as_snoc: "sent_as evs ms \<Longrightarrow> route (pe_destination e) = Some p \<Longrightarrow>
    sent_as (evs @ [e]) (ms @ [(p, pe_payload e)])"
  unfolding sent_as_def by (rule list_all2_appendI) simp_all

lemma publish_all_law:
  "hoare (tx ou c c) (for_each (\<lambda>e. pub (pe_destination e) (pe_payload e)) evs)
     (\<lambda>_ s. \<exists>ms. tx (ou @ ms) c c s \<and> sent_as evs ms)
     (\<lambda>e s. \<exists>ms k. broken (ou @ ms) c s \<and> sent_as (take k evs) ms)"
proof -
  let ?I = "\<lambda>done s. \<exists>ms. tx (ou @ ms) c c s \<and> sent_as done ms"
  let ?R = "\<lambda>e s. \<exists>ms k. broken (ou @ ms) c s \<and> sent_as (take k evs) ms"
  have "hoare (?I []) (for_each (\<lambda>e. pub (pe_destination e) (pe_payload e)) evs) (\<lambda>_. ?I evs) ?R"
  proof (rule hoare_for_each, rule hoare_ex)
    fix ys x zs ms
    assume evs: "evs = ys @ x # zs" and ms: "sent_as ys ms"
    have take: "take (length ys) evs = ys" "take (Suc (length ys)) evs = ys @ [x]" using evs by simp_all
    show "hoare (tx (ou @ ms) c c) (pub (pe_destination x) (pe_payload x)) (\<lambda>_. ?I (ys @ [x])) ?R"
    proof (rule hoare_conseq [OF publish_law])
      fix u :: unit and s
      assume "\<exists>p. route (pe_destination x) = Some p \<and> tx ((ou @ ms) @ [(p, pe_payload x)]) c c s"
      then show "?I (ys @ [x]) s" using sent_as_snoc [OF ms] by fastforce
    next
      fix e :: exn and s
      assume "tx (ou @ ms) c c s \<or>
        (\<exists>p. route (pe_destination x) = Some p \<and> tx ((ou @ ms) @ [(p, pe_payload x)]) c c s)"
      then show "?R e s"
      proof
        assume "tx (ou @ ms) c c s"
        with ms take(1) show ?thesis using tx_broken by metis
      next
        assume "\<exists>p. route (pe_destination x) = Some p \<and> tx ((ou @ ms) @ [(p, pe_payload x)]) c c s"
        then obtain p where "route (pe_destination x) = Some p" "broken (ou @ ms @ [(p, pe_payload x)]) c s"
          using tx_broken by (metis append_assoc)
        with sent_as_snoc [OF ms] take(2) show ?thesis by metis
      qed
    qed
  qed
  then show ?thesis by (rule hoare_conseq) (auto simp: sent_as_def)
qed

text \<open>What a poll leaves behind: which events it claimed, what it sent, what is stored.\<close>

definition relayed :: "nat \<Rightarrow> (publisher \<times> json) list \<Rightarrow> 'd \<Rightarrow> nat \<Rightarrow> (publisher \<times> json) list \<Rightarrow> 'd \<Rightarrow> bool" where
  "relayed n ou c k ou' d \<longleftrightarrow> (\<exists>evs ms. k = length evs \<and> distinct (map pe_id evs) \<and>
     set evs \<subseteq> set (waiting c) \<and> length evs \<le> n \<and> ou' = ou @ ms \<and> sent_as evs ms \<and> view d = view c \<and>
     waiting d = filter (\<lambda>e. pe_id e \<notin> set (map pe_id evs)) (waiting c))"

definition relay_failed :: "nat \<Rightarrow> (publisher \<times> json) list \<Rightarrow> 'd \<Rightarrow> (publisher \<times> json) list \<Rightarrow> 'd \<Rightarrow> bool" where
  "relay_failed n ou c ou' d \<longleftrightarrow> (\<exists>evs k ms. set evs \<subseteq> set (waiting c) \<and> length evs \<le> n \<and>
     ou' = ou @ ms \<and> sent_as (take k evs) ms \<and> (d = c \<or> relayed n ou c (length evs) ou' d))"

lemma relayed_nothing: "relayed n ou c 0 ou c"
  unfolding relayed_def by (rule exI [of _ "[]"], rule exI [of _ "[]"]) (simp add: sent_as_def)

lemma relayed_failed: "relayed n ou c k ou' d \<Longrightarrow> relay_failed n ou c ou' d"
  unfolding relay_failed_def relayed_def
  by (elim exE conjE, rule_tac x = evs in exI, rule_tac x = "length evs" in exI, rule_tac x = ms in exI) auto

lemma relay_failed_start: "relay_failed n ou c ou c"
  unfolding relay_failed_def
  by (rule exI [of _ "[]"], rule exI [of _ 0], rule exI [of _ "[]"]) (simp add: sent_as_def)

lemma hoare_dispatch_log: "hoare (tx ou c d) (log l ev fs) (\<lambda>_. tx ou c d) R"
  unfolding log_def by (rule hoare_modify) (rule tx_log)

lemma finish_law:
  assumes evs: "distinct (map pe_id evs)" "set evs \<subseteq> set (waiting c)" "length evs \<le> n"
    and ms: "sent_as evs ms"
  shows "hoare (tx (ou @ ms) c c)
    (bind_act (dp_mark_published D (map pe_id evs)) (\<lambda>_. bind_act (dp_commit D) (\<lambda>_.
       bind_act (log l ev fs) (\<lambda>_. ret (length evs)))))
    (\<lambda>k s. \<exists>ou' d. tx ou' d d s \<and> relayed n ou c k ou' d)
    (\<lambda>e s. \<exists>ou' d. broken ou' d s \<and> relay_failed n ou c ou' d)"
proof -
  let ?E = "\<lambda>e s. \<exists>ou' d. broken ou' d s \<and> relay_failed n ou c ou' d"
  let ?A = "\<lambda>d. view d = view c \<and> waiting d = filter (\<lambda>e. pe_id e \<notin> set (map pe_id evs)) (waiting c)"
  have rel: "relayed n ou c (length evs) (ou @ ms) d" if "?A d" for d
    unfolding relayed_def using that assms by blast
  have fail: "relay_failed n ou c (ou @ ms) d" if "d = c \<or> ?A d" for d
    unfolding relay_failed_def
    by (rule exI [of _ evs], rule exI [of _ "length evs"], rule exI [of _ ms])
      (use that assms rel in auto)
  have "hoare (tx (ou @ ms) c c) (dp_mark_published D (map pe_id evs))
      (\<lambda>_ s. \<exists>d. tx (ou @ ms) c d s \<and> ?A d) ?E"
    by (rule hoare_conseq [OF mark_law]) (use fail in auto)
  moreover have "hoare (\<lambda>s. \<exists>d. tx (ou @ ms) c d s \<and> ?A d) (dp_commit D)
      (\<lambda>_ s. \<exists>d. tx (ou @ ms) d d s \<and> ?A d) ?E"
    by (rule hoare_ex, rule hoare_conseq [OF dispatch_commit_law]) (use fail in blast)+
  moreover have "hoare (\<lambda>s. \<exists>d. tx (ou @ ms) d d s \<and> ?A d) (bind_act (log l ev fs) (\<lambda>_. ret (length evs)))
      (\<lambda>k s. \<exists>ou' d. tx ou' d d s \<and> relayed n ou c k ou' d) ?E"
    by (rule hoare_ex, rule hoare_bind [OF hoare_dispatch_log], rule hoare_ret) (use rel in blast)
  ultimately show ?thesis by (blast intro: hoare_bind)
qed

lemma run_once_law:
  "hoare (idle ou c) (run_once D pub n)
     (\<lambda>k s. \<exists>ou' d. idle ou' d s \<and> relayed n ou c k ou' d)
     (\<lambda>e s. \<exists>ou' d. idle ou' d s \<and> relay_failed n ou c ou' d)"
  unfolding run_once_def
proof (rule hoare_conseq [OF dispatch_scope_law], rule hoare_bind)
  let ?E = "\<lambda>e s. \<exists>ou' d. broken ou' d s \<and> relay_failed n ou c ou' d"
  let ?C = "\<lambda>evs. distinct (map pe_id evs) \<and> set evs \<subseteq> set (waiting c) \<and> length evs \<le> n"
  show "hoare (tx ou c c) (dp_claim_pending D n) (\<lambda>evs s. tx ou c c s \<and> ?C evs) ?E"
    by (rule hoare_conseq [OF claim_law]) (use relay_failed_start in blast)+
  fix evs
  show "hoare (\<lambda>s. tx ou c c s \<and> ?C evs) (if evs = [] then ret 0
     else bind_act (for_each (\<lambda>e. pub (pe_destination e) (pe_payload e)) evs) (\<lambda>_.
          bind_act (dp_mark_published D (map pe_id evs)) (\<lambda>_.
          bind_act (dp_commit D) (\<lambda>_.
          bind_act (log INFO ''outbox_relayed'' [(lit ''count'', JInt (int (length evs)))]) (\<lambda>_.
          ret (length evs))))))
    (\<lambda>k s. \<exists>ou' d. tx ou' d d s \<and> relayed n ou c k ou' d) ?E"
  proof (cases "?C evs \<and> evs \<noteq> []")
    case False
    show ?thesis
    proof (cases "evs = []")
      case True
      then show ?thesis by (simp add: hoare_def) (use relayed_nothing in blast)
    next
      case nonempty: False
      with False show ?thesis by (auto simp: hoare_def)
    qed
  next
    case True
    have "hoare (tx ou c c) (for_each (\<lambda>e. pub (pe_destination e) (pe_payload e)) evs)
        (\<lambda>_ s. \<exists>ms. tx (ou @ ms) c c s \<and> sent_as evs ms) ?E"
      by (rule hoare_conseq [OF publish_all_law]) (use True in \<open>unfold relay_failed_def, blast+\<close>)
    moreover have "hoare (\<lambda>s. \<exists>ms. tx (ou @ ms) c c s \<and> sent_as evs ms)
        (bind_act (dp_mark_published D (map pe_id evs)) (\<lambda>_. bind_act (dp_commit D) (\<lambda>_.
          bind_act (log INFO ''outbox_relayed'' [(lit ''count'', JInt (int (length evs)))]) (\<lambda>_.
          ret (length evs)))))
        (\<lambda>k s. \<exists>ou' d. tx ou' d d s \<and> relayed n ou c k ou' d) ?E"
      by (rule hoare_ex, rule finish_law) (use True in blast)+
    ultimately have "hoare (tx ou c c)
        (bind_act (for_each (\<lambda>e. pub (pe_destination e) (pe_payload e)) evs) (\<lambda>_.
          bind_act (dp_mark_published D (map pe_id evs)) (\<lambda>_. bind_act (dp_commit D) (\<lambda>_.
          bind_act (log INFO ''outbox_relayed'' [(lit ''count'', JInt (int (length evs)))]) (\<lambda>_.
          ret (length evs))))))
        (\<lambda>k s. \<exists>ou' d. tx ou' d d s \<and> relayed n ou c k ou' d) ?E"
      by (rule hoare_bind)
    then show ?thesis using True by (simp add: hoare_def)
  qed
qed (use relayed_failed in blast)+

end

end
