(* ===== verification/CoreTheorems.thy ===== *)
theory CoreTheorems
  imports CoreProps
begin

text \<open>
  order-core-service: the theorems on the two use cases, each with a run of the model as its
  witness. \<open>handle_call\<close> is one message handled, whatever the database does meanwhile.
\<close>

datatype core_call =
    Ingest "incoming_order list"
  | Process int assessment_outcome

fun handle_call :: "pg_env \<Rightarrow> core_call \<Rightarrow> ('z pg_scheme, unit) act" where
  "handle_call E (Ingest batch) = IngestOrders_handle (sql_uow E) batch"
| "handle_call E (Process th out) = ProcessAssessment_handle (sql_uow E) th out"

section \<open>An example environment and state\<close>

definition calm_env :: pg_env where
  "calm_env = \<lparr>uuid4 = (\<lambda>n. n), pg_now = int, pg_fault = (\<lambda>_. None), commit_fault = (\<lambda>_. None), close_fault = (\<lambda>_. None),
     text_ok = (\<lambda>_. True), json_ok = (\<lambda>_. True), tie = (\<lambda>_ i. i), locked = (\<lambda>_ _. False)\<rparr>"

definition core_start :: pg where
  "core_start = \<lparr>rt_log = [], rt_out = [], rt_pubs = 0, committed = empty_db, session = None,
     n_uuid = 0, n_tx = 0, n_stmt = 0, n_commit = 0\<rparr>"

definition sample_order :: incoming_order where
  "sample_order = \<lparr>io_source = PROFI, io_external_id = lit ''1'', io_payload = JObj [],
     io_request_id = None, io_fetched_at = 7\<rparr>"

definition sample_outcome :: assessment_outcome where
  "sample_outcome = \<lparr>ao_order_id = lit ''1'', ao_suitability_score = 90,
     ao_notification = \<lparr>nc_text = lit ''t'', nc_parse_mode = Some HTML, nc_disable_notification = None,
       nc_disable_web_page_preview = Some True, nc_message_thread_id = None\<rparr>\<rparr>"

lemma core_idle_start [simp]: "core_idle core_start"
  by (simp add: core_idle_def core_start_def)

lemma link_ok_start [simp]: "link_ok (abs_db (committed core_start))"
  by (simp add: core_start_def abs_db_def link_ok_empty)

lemmas handler_defs = IngestOrders_handle_def ingest_one_def ProcessAssessment_handle_def
  apply_verdict_def insert_new_def get_order_def set_status_def add_assessment_request_def
  add_notification_def outbox_add_def execute_def require_session_def draw_uuid_def commit_def
  with_session_def aenter_def aexit_def close_session_def rollback_def bind_act_def for_each.simps ret_def raise_def

lemmas stmt_defs = insert_order_stmt_def insert_outbox_stmt_def select_order_stmt_def
  update_status_stmt_def varchar_ok_def int32_ok_def int64_ok_def Let_def order_key_def

lemmas sample_defs = calm_env_def core_start_def sample_order_def sample_outcome_def empty_db_def

text \<open>The state after one order was ingested, and after its verdict was applied.\<close>

definition after_ingest :: pg where
  "after_ingest = snd (IngestOrders_handle (sql_uow calm_env) [sample_order] core_start)"

lemma run_ingest: "IngestOrders_handle (sql_uow calm_env) [sample_order] core_start = (Inr (), after_ingest)"
  unfolding after_ingest_def
  by (simp add: handler_defs stmt_defs sample_defs assess_key_def lit_def destination_value.simps
      status_value.simps source_value.simps)

lemma abs_after_ingest: "abs_db (committed after_ingest) = fold spec_ingest [sample_order] (abs_db (committed core_start))"
  and core_idle_after_ingest: "core_idle after_ingest"
  using ingest_returns [OF core_idle_start run_ingest] by blast+

definition after_verdict :: pg where
  "after_verdict = snd (ProcessAssessment_handle (sql_uow calm_env) 60 sample_outcome after_ingest)"

lemma run_verdict:
  "ProcessAssessment_handle (sql_uow calm_env) 60 sample_outcome after_ingest = (Inr (), after_verdict)"
  unfolding after_verdict_def after_ingest_def
  by (simp add: handler_defs stmt_defs sample_defs assess_key_def notify_key_def lit_def
      destination_value.simps status_value.simps source_value.simps status_of_def source_of_def
      can_apply_assessment_def decide_notification_def)

lemma abs_after_verdict:
    "spec_process 60 sample_outcome (abs_db (committed after_ingest)) = Some (abs_db (committed after_verdict))"
  and core_idle_after_verdict: "core_idle after_verdict"
  using process_returns [OF core_idle_after_ingest run_verdict] by blast+

section \<open>Refinement\<close>

text \<open>
  The abstract view of the tables has no payload, request id or fetch time of an order; what an order's
  row says of them is stated of the rows: each new one is the row of an order of the batch.
\<close>

definition row_of :: "incoming_order \<Rightarrow> order_row \<Rightarrow> bool" where
  "row_of ord r \<longleftrightarrow> order_key r = in_key ord \<and> or_payload r = io_payload ord \<and> or_request_id r = io_request_id ord \<and>
     or_source_fetched_at r = Some (io_fetched_at ord)"

definition rows_from :: "database \<Rightarrow> incoming_order list \<Rightarrow> database \<Rightarrow> bool" where
  "rows_from c batch db \<longleftrightarrow> (\<forall>r \<in> set (orders_t db). r \<in> set (orders_t c) \<or> (\<exists>ord \<in> set batch. row_of ord r))"

definition rows_tx :: "database \<Rightarrow> incoming_order list \<Rightarrow> 'z pg_scheme \<Rightarrow> bool" where
  "rows_tx c batch s \<longleftrightarrow> (\<exists>db. session s = Some db \<and> rows_from c batch db)"

lemma rows_execute:
  assumes "\<And>now db x db'. rows_from c batch db \<Longrightarrow> q now db = Inr (x, db') \<Longrightarrow> rows_from c batch db'"
  shows "hoare (rows_tx c batch) (execute E q) (\<lambda>_. rows_tx c batch) (\<lambda>_ _. True)"
  unfolding hoare_def rows_tx_def using assms
  by (auto simp: execute_def require_session_def bind_act_def Let_def split: option.split sum.split prod.split)

lemma rows_draw: "hoare (rows_tx c batch) (draw_uuid E) (\<lambda>_. rows_tx c batch) (\<lambda>_ _. True)"
  by (simp add: hoare_def draw_uuid_def rows_tx_def)

lemma rows_log: "hoare (rows_tx c batch) (log l ev fs) (\<lambda>_. rows_tx c batch) (\<lambda>_ _. True)"
  unfolding log_def by (rule hoare_modify) (simp add: rows_tx_def)

lemma rows_insert:
  assumes "ord \<in> set batch"
  shows "hoare (rows_tx c batch) (insert_new E ord) (\<lambda>_. rows_tx c batch) (\<lambda>_ _. True)"
  unfolding insert_new_def
  by (rule hoare_bind [OF rows_draw rows_execute])
    (use assms in \<open>auto simp: insert_order_stmt_def Let_def rows_from_def row_of_def order_key_def in_key_def split: if_splits\<close>)

lemma rows_event: "hoare (rows_tx c batch) (add_assessment_request E ord) (\<lambda>_. rows_tx c batch) (\<lambda>_ _. True)"
  unfolding add_assessment_request_def outbox_add_def
  by (rule hoare_bind [OF rows_draw rows_execute]) (auto simp: insert_outbox_stmt_def rows_from_def split: if_splits)

lemma ingested_rows:
  assumes "IngestOrders_handle (sql_uow E) batch s = (Inr u, t)"
  shows "rows_from (committed s) batch (committed t)"
proof -
  let ?c = "committed s"
  have "hoare (rows_tx ?c batch) (for_each (ingest_one (sql_uow E)) batch) (\<lambda>_. rows_tx ?c batch) (\<lambda>_ _. True)"
  proof (rule hoare_for_each)
    fix ys ord zs assume "batch = ys @ ord # zs"
    then have "ord \<in> set batch" by simp
    then show "hoare (rows_tx ?c batch) (ingest_one (sql_uow E) ord) (\<lambda>_. rows_tx ?c batch) (\<lambda>_ _. True)"
      unfolding ingest_one_def sql_uow_simps
      by (intro hoare_bind [OF rows_insert]) (auto intro: hoare_bind [OF rows_event rows_log] rows_log)
  qed
  moreover have "hoare (rows_tx ?c batch) (commit E) (\<lambda>_ v. rows_from ?c batch (committed v)) (\<lambda>_ _. True)"
    by (auto simp: hoare_def rows_tx_def commit_def bind_act_def require_session_def Let_def split: option.split)
  ultimately have body: "hoare (rows_tx ?c batch) (bind_act (for_each (ingest_one (sql_uow E)) batch) (\<lambda>_. commit E))
      (\<lambda>_ v. rows_from ?c batch (committed v)) (\<lambda>_ _. True)"
    by (rule hoare_bind)
  have start: "rows_tx ?c batch (aenter s)" by (simp add: rows_tx_def aenter_def rows_from_def)
  obtain r v where v: "bind_act (for_each (ingest_one (sql_uow E)) batch) (\<lambda>_. commit E) (aenter s) = (r, v)"
    by (cases "bind_act (for_each (ingest_one (sql_uow E)) batch) (\<lambda>_. commit E) (aenter s)")
  then have x: "aexit E (r, v) = (Inr u, t)"
    using assms by (simp add: IngestOrders_handle_def with_session_def)
  show ?thesis
  proof (cases r)
    case (Inl e)
    with x show ?thesis by (auto simp: aexit_def split: sum.splits prod.splits)
  next
    case (Inr w)
    with hoareD_Inr [OF body start] v aexit_Inr [of E w v "Inr u" t] x show ?thesis by simp
  qed
qed

text \<open>C5. When the ingestion of a batch returns, the stored orders and events are exactly the fold of
  the abstract step over the batch: each identity not seen before gets the status
  assess_requested and one assessment event, every other order is left alone. Each new row carries
  the payload, the request id and the fetch time of its order in the batch. The tables keep
  their constraints, the session is closed and nothing is published by the handler itself.\<close>

theorem ingest_refines_spec:
  assumes "core_idle s" and "IngestOrders_handle (sql_uow E) batch s = (Inr u, t)"
  shows "abs_db (committed t) = fold spec_ingest batch (abs_db (committed s)) \<and>
    (\<forall>r \<in> set (orders_t (committed t)). r \<in> set (orders_t (committed s)) \<or> (\<exists>ord \<in> set batch. row_of ord r)) \<and>
    rows_ok (committed t) \<and> session t = None \<and> rt_out t = rt_out s"
  using ingest_returns [OF assms(1,2)] ingested_rows [OF assms(2)] by (simp add: core_idle_def rows_from_def)

theorem ingest_refines_spec_witness:
  "abs_db (committed after_ingest) = fold spec_ingest [sample_order] (abs_db (committed core_start)) \<and>
    list_all (row_of sample_order) (orders_t (committed after_ingest)) \<and>
    rows_ok (committed after_ingest) \<and> session after_ingest = None \<and> rt_out after_ingest = rt_out core_start"
  using ingest_refines_spec [OF core_idle_start run_ingest] by (simp add: core_start_def empty_db_def list_all_iff)

text \<open>C34. Ingestion is atomic under any fault of the database: when the handler raises, it raises a
  database error, the session is closed, and the stored tables are those from before the message
  or, when the commit was applied but its acknowledgement was lost or the session failed to close, those of the whole batch.\<close>

theorem ingest_all_or_nothing:
  assumes "core_idle s" and "IngestOrders_handle (sql_uow E) batch s = (Inl e, t)"
  shows "(\<exists>m. e = DatabaseError m) \<and> session t = None \<and> rt_out t = rt_out s \<and>
    (committed t = committed s \<or> abs_db (committed t) = fold spec_ingest batch (abs_db (committed s)))"
  using ingest_raises [OF assms] by (simp add: core_idle_def)

definition failing_env :: pg_env where
  "failing_env = calm_env\<lparr>pg_fault := (\<lambda>n. if n = 1 then Some (lit ''down'') else None)\<rparr>"

lemma run_failing:
  "IngestOrders_handle (sql_uow failing_env) [sample_order] core_start =
     (Inl (DatabaseError (lit ''down'')),
      snd (IngestOrders_handle (sql_uow failing_env) [sample_order] core_start))"
  by (simp add: failing_env_def handler_defs stmt_defs sample_defs assess_key_def
      destination_value.simps status_value.simps source_value.simps lit_def)

theorem ingest_all_or_nothing_witness:
  "committed (snd (IngestOrders_handle (sql_uow failing_env) [sample_order] core_start)) =
     committed core_start \<or>
   abs_db (committed (snd (IngestOrders_handle (sql_uow failing_env) [sample_order] core_start))) =
     fold spec_ingest [sample_order] (abs_db (committed core_start))"
  using ingest_all_or_nothing [OF core_idle_start run_failing] by blast

text \<open>Redelivery is safe: however the first delivery of a batch ended (returned, failed and
  rolled back, or failed after its commit was applied), once a later delivery of the same batch
  returns, the stored contents are those of a single ingestion.\<close>

theorem ingest_redelivery:
  assumes "core_idle s" and "IngestOrders_handle (sql_uow E) batch s = (r, t)"
    and "IngestOrders_handle (sql_uow E') batch t = (Inr u, v)"
  shows "abs_db (committed v) = fold spec_ingest batch (abs_db (committed s))"
proof -
  have t: "core_idle t \<and> (committed t = committed s \<or>
      abs_db (committed t) = fold spec_ingest batch (abs_db (committed s)))"
    using assms(2) ingest_returns [OF assms(1)] ingest_raises [OF assms(1)] by (cases r) blast+
  then have "abs_db (committed v) = fold spec_ingest batch (abs_db (committed t))"
    using ingest_returns [OF _ assms(3)] by blast
  with t show ?thesis using fold_spec_ingest_idem by metis
qed

definition after_second :: pg where
  "after_second = snd (IngestOrders_handle (sql_uow calm_env) [sample_order] after_ingest)"

lemma run_second: "IngestOrders_handle (sql_uow calm_env) [sample_order] after_ingest = (Inr (), after_second)"
  unfolding after_second_def after_ingest_def
  by (simp add: handler_defs stmt_defs sample_defs assess_key_def lit_def destination_value.simps
      status_value.simps source_value.simps)

theorem ingest_redelivery_witness:
  "abs_db (committed after_second) = fold spec_ingest [sample_order] (abs_db (committed core_start))"
  by (rule ingest_redelivery [OF core_idle_start run_ingest run_second])

text \<open>C7. A verdict that is handled does exactly what the specification says: the order is known;
  if it no longer waits for a verdict nothing changes; otherwise it moves to notify_requested with
  the score and the notification event is stored, or, below the threshold, to no_notify.\<close>

theorem process_refines_spec:
  assumes "core_idle s" and "ProcessAssessment_handle (sql_uow E) th out s = (Inr u, t)"
  shows "spec_process th out (abs_db (committed s)) = Some (abs_db (committed t)) \<and>
    rows_ok (committed t) \<and> session t = None \<and> rt_out t = rt_out s"
  using process_returns [OF assms] by (simp add: core_idle_def)

theorem process_refines_spec_witness:
  "spec_process 60 sample_outcome (abs_db (committed after_ingest)) = Some (abs_db (committed after_verdict)) \<and>
    rows_ok (committed after_verdict) \<and> session after_verdict = None \<and>
    rt_out after_verdict = rt_out after_ingest"
  by (rule process_refines_spec [OF core_idle_after_ingest run_verdict])

text \<open>The only exceptions of the verdict handler are a database error, after which the stored
  tables are the old ones or those of the applied verdict, and the permanent error for an order
  that is not stored, which changes nothing.\<close>

theorem process_errors:
  assumes "core_idle s" and "ProcessAssessment_handle (sql_uow E) th out s = (Inl e, t)"
  shows "session t = None \<and> rt_out t = rt_out s \<and>
    ((e = unknown_order (ao_order_id out) \<and> committed t = committed s \<and>
        abs_orders (committed s) (profi_key (ao_order_id out)) = None) \<or>
     ((\<exists>m. e = DatabaseError m) \<and> (committed t = committed s \<or>
        spec_process th out (abs_db (committed s)) = Some (abs_db (committed t)))))"
  using process_raises [OF assms] spec_process_None [of th out "abs_db (committed s)"]
  by (auto simp: core_idle_def abs_db_def)

lemma run_unknown:
  "ProcessAssessment_handle (sql_uow calm_env) 60 sample_outcome core_start =
     (Inl (unknown_order (lit ''1'')),
      snd (ProcessAssessment_handle (sql_uow calm_env) 60 sample_outcome core_start))"
  by (simp add: handler_defs stmt_defs sample_defs)

theorem process_errors_witness:
  "unknown_order (lit ''1'') = unknown_order (ao_order_id sample_outcome) \<and>
   committed (snd (ProcessAssessment_handle (sql_uow calm_env) 60 sample_outcome core_start)) =
     committed core_start"
  using process_errors [OF core_idle_start run_unknown] by (auto simp: unknown_order_def sample_defs)

text \<open>C13. A verdict is applied at most once: after any verdict for an order was handled, every later
  verdict for that order, whatever its score, its text and the threshold, leaves the stored
  orders and events as they are, even when its handler raises.\<close>

theorem verdict_applied_once:
  assumes "core_idle s" and "ProcessAssessment_handle (sql_uow E) th out s = (Inr u, t)"
    and "ao_order_id out' = ao_order_id out"
    and "ProcessAssessment_handle (sql_uow E') th' out' t = (r, v)"
  shows "abs_db (committed v) = abs_db (committed t)"
proof -
  note first = process_returns [OF assms(1,2)]
  then have "\<exists>st sc. fst (abs_db (committed t)) (profi_key (ao_order_id out')) = Some (st, sc) \<and>
      st \<noteq> status_value ASSESS_REQUESTED"
    using spec_process_handled [of th out "abs_db (committed s)" "abs_db (committed t)"] assms(3) by auto
  then have same: "spec_process th' out' (abs_db (committed t)) = Some (abs_db (committed t))"
    using spec_process_ignored by blast
  show ?thesis
  proof (cases r)
    case (Inl e)
    with assms(4) first same show ?thesis
      using process_raises [of t E' th' out' e v] by auto
  next
    case (Inr w)
    with assms(4) first same show ?thesis
      using process_returns [of t E' th' out' w v] by auto
  qed
qed

definition later_outcome :: assessment_outcome where
  "later_outcome = sample_outcome\<lparr>ao_suitability_score := 3\<rparr>"

theorem verdict_applied_once_witness:
  "abs_db (committed (snd (ProcessAssessment_handle (sql_uow calm_env) 99 later_outcome after_verdict))) =
     abs_db (committed after_verdict)"
proof (rule verdict_applied_once [OF core_idle_after_ingest run_verdict])
  show "ao_order_id later_outcome = ao_order_id sample_outcome" by (simp add: later_outcome_def)
qed (rule prod.collapse [symmetric])

section \<open>Invariants\<close>

lemma handle_call_cases:
  assumes "core_idle s" and "handle_call E call s = (r, t)"
  shows "core_idle t \<and> rt_out t = rt_out s \<and>
    (abs_db (committed t) = abs_db (committed s) \<or>
     (\<exists>batch. abs_db (committed t) = fold spec_ingest batch (abs_db (committed s))) \<or>
     (\<exists>th out. spec_process th out (abs_db (committed s)) = Some (abs_db (committed t))))"
proof (cases call)
  case (Ingest batch)
  with assms show ?thesis
    using ingest_returns [OF assms(1), of E batch] ingest_raises [OF assms(1), of E batch]
    by (cases r) fastforce+
next
  case (Process th out)
  with assms show ?thesis
    using process_returns [OF assms(1), of E th out] process_raises [OF assms(1), of E th out]
    by (cases r) fastforce+
qed

text \<open>C4. Whatever message is handled and however it ends, the invariant between orders and outbox
  is kept: each stored order has its assessment event, an order has a notification event exactly
  when its status is notify_requested, it has a score exactly when a verdict was applied, and the
  outbox holds no other event.\<close>

theorem core_invariant:
  assumes "core_idle s" and "link_ok (abs_db (committed s))" and "handle_call E call s = (r, t)"
  shows "core_idle t \<and> link_ok (abs_db (committed t))"
  using handle_call_cases [OF assms(1,3)] assms(2) link_ok_fold_ingest link_ok_process by metis

theorem core_invariant_witness:
  "core_idle after_ingest \<and> link_ok (abs_db (committed after_ingest))"
  by (rule core_invariant [of core_start calm_env "Ingest [sample_order]" "Inr ()"])
    (simp_all add: run_ingest)

text \<open>The status of every order follows the life cycle of domain/status.py: handling a message
  leaves it, creates it as assess_requested, or moves it from assess_requested to
  notify_requested or no_notify; no other transition happens and the status failed is never set.\<close>

theorem core_lifecycle:
  assumes "core_idle s" and "handle_call E call s = (r, t)"
  shows "lifecycle (status_at (abs_orders (committed s)) k) (status_at (abs_orders (committed t)) k)"
proof -
  have "lifecycle (status_at (fst (abs_db (committed s))) k) (status_at (fst (abs_db (committed t))) k)"
    using handle_call_cases [OF assms] lifecycle_ingest lifecycle_process lifecycle.stay by metis
  then show ?thesis by (simp add: abs_db_def)
qed

theorem core_lifecycle_witness:
  "lifecycle (status_at (abs_orders (committed core_start)) (profi_key (lit ''1'')))
     (status_at (abs_orders (committed after_ingest)) (profi_key (lit ''1'')))"
  by (rule core_lifecycle [of core_start calm_env "Ingest [sample_order]" "Inr ()"])
    (simp_all add: run_ingest)

section \<open>A batch the columns cannot hold\<close>

lemma insert_new_long:
  assumes "128 < length (io_external_id ord)"
  shows "hoare (sql_tx ou c d) (insert_new E ord) (\<lambda>_ _. False)
    (\<lambda>e s. (\<exists>m. e = DatabaseError m) \<and> sql_broken ou c s)"
proof -
  have "hoare (sql_tx ou c d) (insert_new E ord) (\<lambda>x s. \<exists>d'. sql_tx ou c d' s \<and> False)
    (\<lambda>e s. (\<exists>m. e = DatabaseError m) \<and> sql_broken ou c s)"
    unfolding insert_new_def
    by (rule sql_conv, rule hoare_bind [OF hoare_draw_uuid hoare_execute])
      (use assms in \<open>auto simp: insert_order_stmt_def varchar_ok_def Let_def\<close>)
  then show ?thesis by (rule hoare_conseq) auto
qed

lemma ingest_loop_long:
  assumes "ord \<in> set batch" and "128 < length (io_external_id ord)"
  shows "hoare (sql_tx ou c c) (for_each (ingest_one (sql_uow E)) batch) (\<lambda>_ _. False)
    (\<lambda>e s. (\<exists>m. e = DatabaseError m) \<and> sql_broken ou c s)"
proof -
  obtain ys zs where b: "batch = ys @ ord # zs" using assms(1) by (meson split_list)
  have one: "hoare (sql_tx ou c d) (ingest_one (sql_uow E) ord) (\<lambda>_ _. False)
      (\<lambda>e s. (\<exists>m. e = DatabaseError m) \<and> sql_broken ou c s)" for d
    unfolding ingest_one_def sql_uow_simps
    by (rule hoare_bind [OF insert_new_long [OF assms(2)]]) (simp add: hoare_def)
  have "hoare (\<lambda>s. \<exists>d. sql_tx ou c d s \<and> abs_db d = fold spec_ingest ys (abs_db c))
      (for_each (ingest_one (sql_uow E)) (ord # zs)) (\<lambda>_ _. False)
      (\<lambda>e s. (\<exists>m. e = DatabaseError m) \<and> sql_broken ou c s)"
    unfolding for_each.simps by (rule hoare_ex, rule hoare_bind [OF one]) (simp add: hoare_def)
  then show ?thesis unfolding b for_each_append by (rule hoare_bind [OF sql.ingest_loop_law])
qed

text \<open>An order whose identifier is longer than the column orders.external_id (128 characters)
  makes the ingestion of its whole batch fail with a database error at every delivery, whatever
  else is in the batch: nothing of the batch is ever stored. A database error is not a permanent
  error, so the message is put back in the queue instead of going to the dead letter queue.\<close>

theorem long_id_blocks_batch:
  assumes "core_idle s" and "ord \<in> set batch" and "128 < length (io_external_id ord)"
  shows "\<exists>m t. IngestOrders_handle (sql_uow E) batch s = (Inl (DatabaseError m), t) \<and>
    committed t = committed s \<and> core_idle t"
proof -
  let ?c = "committed s" and ?ou = "rt_out s"
  have "hoare (sql_tx ?ou ?c ?c)
      (bind_act (for_each (ingest_one (sql_uow E)) batch) (\<lambda>_. commit E))
      (\<lambda>_ t. \<exists>d. sql_tx ?ou d d t \<and> False)
      (\<lambda>e t. \<exists>d. sql_broken ?ou d t \<and> (\<exists>m. e = DatabaseError m) \<and> d = ?c)"
    by (rule hoare_bind [OF hoare_conseq [OF ingest_loop_long [OF assms(2,3)]]]) (auto simp: hoare_def)
  from sql_scope [OF this] have h: "hoare (sql_idle ?ou ?c) (IngestOrders_handle (sql_uow E) batch)
      (\<lambda>_ t. False) (\<lambda>e t. sql_idle ?ou ?c t \<and> (\<exists>m. e = DatabaseError m))"
    unfolding IngestOrders_handle_def sql_uow_simps by (rule hoare_conseq) auto
  have i: "sql_idle ?ou ?c s" using assms(1) by (simp add: core_idle_sql)
  show ?thesis
  proof (cases "IngestOrders_handle (sql_uow E) batch s")
    case (Pair r t)
    with hoareD_Inl [OF h i] hoareD_Inr [OF h i] show ?thesis
      by (cases r) (auto simp: sql_idle_def core_idle_def)
  qed
qed

definition long_order :: incoming_order where
  "long_order = sample_order\<lparr>io_external_id := replicate 129 49\<rparr>"

theorem long_id_blocks_batch_witness:
  "\<exists>m t. IngestOrders_handle (sql_uow calm_env) [sample_order, long_order] core_start =
     (Inl (DatabaseError m), t) \<and> committed t = committed core_start \<and> core_idle t"
  by (rule long_id_blocks_batch [OF core_idle_start, of long_order]) (simp_all add: long_order_def)

end
