(* ===== verification/CoreDispatch.thy ===== *)
theory CoreDispatch
  imports CoreRelay CoreTheorems
begin

text \<open>
  order-core-service: the providers of the relay's ports, which are the SQL dispatch
  (db/outbox_dispatch.py) and the publisher by destination (messaging/event_publisher.py), the
  background poller \<open>OutboxRelay\<close> (outbox/relay.py), and the theorems on what the relay sends.
\<close>

section \<open>Providers\<close>

definition sql_dispatch :: "pg_env \<Rightarrow> ('z pg_scheme) dispatch" where
  "sql_dispatch E = \<lparr>dp_claim_pending = claim_pending E, dp_mark_published = mark_published E,
     dp_commit = commit E, dp_scope = with_session E\<rparr>"

lemma sql_dispatch_simps [simp]:
  "dp_claim_pending (sql_dispatch E) = claim_pending E"
  "dp_mark_published (sql_dispatch E) = mark_published E"
  "dp_commit (sql_dispatch E) = commit E" "dp_scope (sql_dispatch E) = with_session E"
  by (simp_all add: sql_dispatch_def)

definition by_destination :: "publisher \<Rightarrow> publisher \<Rightarrow> ustr \<rightharpoonup> publisher" where
  "by_destination assess notify =
     [destination_value ASSESS_REQUEST \<mapsto> assess, destination_value NOTIFY \<mapsto> notify]"

text \<open>The code points spell the message of event_publisher.py, line 19.\<close>

definition unknown_destination :: "ustr \<Rightarrow> exn" where
  "unknown_destination dest = ValueError ([0x43d, 0x435, 0x438, 0x437, 0x432, 0x435, 0x441, 0x442, 0x43d,
     0x43e, 0x435, 0x20, 0x43d, 0x430, 0x437, 0x43d, 0x430, 0x447, 0x435, 0x43d, 0x438, 0x435, 0x20]
     @ lit ''outbox: '' @ dest)"

definition event_publish ::
    "bus_env \<Rightarrow> publisher \<Rightarrow> publisher \<Rightarrow> ('z runtime_scheme) event_publisher" where
  "event_publish B assess notify dest payload = (case by_destination assess notify dest of
     None \<Rightarrow> raise (unknown_destination dest)
   | Some p \<Rightarrow> publish B p payload)"

definition to_event :: "outbox_row \<Rightarrow> pending_event" where
  "to_event r = \<lparr>pe_id = ob_id r, pe_destination = ob_destination r, pe_payload = ob_payload r\<rparr>"

lemma to_event_sel [simp]: "pe_id (to_event r) = ob_id r" "pe_destination (to_event r) = ob_destination r"
  "pe_payload (to_event r) = ob_payload r"
  by (simp_all add: to_event_def)

definition pending_rows :: "database \<Rightarrow> outbox_row list" where
  "pending_rows db = filter (\<lambda>r. ob_status r = pending) (outbox_t db)"

definition waiting_events :: "database \<Rightarrow> pending_event list" where
  "waiting_events db = map to_event (pending_rows db)"

section \<open>Their laws\<close>

lemma claimed_rows:
  assumes "rows_ok db" and "claim_stmt rank lk n now db = Inr (rows, db')"
  shows "db' = db" and "distinct (map ob_id rows)" and "set rows \<subseteq> set (pending_rows db)"
    and "length rows \<le> n"
proof -
  let ?f = "filter (\<lambda>r. ob_status r = pending \<and> \<not> lk (ob_id r)) (outbox_t db)"
  let ?s = "sort_key ob_created_at (sort_key (\<lambda>r. rank (ob_id r)) ?f)"
  have rows: "rows = take n ?s" and "db' = db" using assms(2) by (auto simp: claim_stmt_def)
  then show "db' = db" by simp
  have "distinct (map ob_id (outbox_t db))" using assms(1) by (simp add: rows_ok_def)
  then have "distinct (map ob_id ?f)" by (rule distinct_map_filter)
  then have "distinct (map ob_id ?s)" by (simp add: distinct_map)
  then show "distinct (map ob_id rows)" unfolding rows take_map [symmetric] by (rule distinct_take)
  have "set rows \<subseteq> set ?s" unfolding rows by (rule set_take_subset)
  also have "\<dots> = set ?f" by simp
  finally show "set rows \<subseteq> set (pending_rows db)" by (auto simp: pending_rows_def)
  show "length rows \<le> n" by (simp add: rows)
qed

lemma hoare_state: "(\<And>s0. hoare P (m s0) Q R) \<Longrightarrow> hoare P (\<lambda>s. m s s) Q R"
  by (simp add: hoare_def)

lemma sql_claim:
  "hoare (sql_tx ou c d) (claim_pending E n)
     (\<lambda>evs s. sql_tx ou c d s \<and> distinct (map pe_id evs) \<and> set evs \<subseteq> set (waiting_events d) \<and> length evs \<le> n)
     (\<lambda>e s. (\<exists>m. e = DatabaseError m) \<and> sql_broken ou c s)"
proof -
  let ?good = "\<lambda>rows. distinct (map ob_id rows) \<and> set rows \<subseteq> set (pending_rows d) \<and> length rows \<le> n"
  let ?R = "\<lambda>e s. (\<exists>m. e = DatabaseError m) \<and> sql_broken ou c s"
  have ex: "hoare (sql_tx ou c d) (execute E (claim_stmt rank lk n))
      (\<lambda>rows s. \<exists>d'. sql_tx ou c d' s \<and> (d' = d \<and> ?good rows)) ?R" for rank lk
  proof (rule sql_conv, rule hoare_execute)
    fix now db rows db' assume db: "db = d \<and> rows_ok db" and q: "claim_stmt rank lk n now db = Inr (rows, db')"
    note facts = claimed_rows [OF conjunct2 [OF db] q]
    show "rows_ok db' \<and> db' = d \<and> ?good rows" using facts db by auto
  qed (auto simp: claim_stmt_def)
  have "hoare (sql_tx ou c d) (bind_act (execute E (claim_stmt rank lk n)) (\<lambda>rows.
       ret (map (\<lambda>r. \<lparr>pe_id = ob_id r, pe_destination = ob_destination r, pe_payload = ob_payload r\<rparr>) rows)))
      (\<lambda>evs s. sql_tx ou c d s \<and> distinct (map pe_id evs) \<and> set evs \<subseteq> set (waiting_events d) \<and> length evs \<le> n)
      ?R" for rank lk
    by (rule hoare_bind [OF ex], rule hoare_ret)
      (auto simp: waiting_events_def to_event_def comp_def)
  then show ?thesis unfolding claim_pending_def by (rule hoare_state)
qed

lemma mark_stmt_Inr:
  assumes "rows_ok db" and "mark_stmt ids now db = Inr (u, db')"
  shows "rows_ok db'" and "abs_db db' = abs_db db"
    and "pending_rows db' = filter (\<lambda>r. ob_id r \<notin> set ids) (pending_rows db)"
proof -
  let ?upd = "\<lambda>r. if ob_id r \<in> set ids
    then r\<lparr>ob_status := published, ob_published_at := Some now\<rparr> else r"
  have db': "db' = db\<lparr>outbox_t := map ?upd (outbox_t db)\<rparr>" using assms(2) by (simp add: mark_stmt_def)
  have same: "ob_dedup_key (?upd r) = ob_dedup_key r" "ob_id (?upd r) = ob_id r"
    "ob_destination (?upd r) = ob_destination r" "event_binding (?upd r) = event_binding r" for r
    by (simp_all add: event_binding_def)
  show "rows_ok db'" using assms(1) by (auto simp: rows_ok_def db' comp_def same)
  show "abs_db db' = abs_db db" by (simp add: abs_db_def abs_events_def db' comp_def same)
  have "filter (\<lambda>r. ob_status r = pending) (map ?upd rs) =
      filter (\<lambda>r. ob_id r \<notin> set ids) (filter (\<lambda>r. ob_status r = pending) rs)" for rs
    by (induction rs) auto
  then show "pending_rows db' = filter (\<lambda>r. ob_id r \<notin> set ids) (pending_rows db)"
    by (simp add: pending_rows_def db')
qed

lemma waiting_filter: "pending_rows db' = filter (\<lambda>r. ob_id r \<notin> A) (pending_rows db) \<Longrightarrow>
    waiting_events db' = filter (\<lambda>e. pe_id e \<notin> A) (waiting_events db)"
  by (simp add: waiting_events_def filter_map comp_def)

lemma sql_mark:
  "hoare (sql_tx ou c d) (mark_published E ids)
     (\<lambda>_ s. \<exists>d'. sql_tx ou c d' s \<and> abs_db d' = abs_db d \<and>
        waiting_events d' = filter (\<lambda>e. pe_id e \<notin> set ids) (waiting_events d))
     (\<lambda>e s. (\<exists>m. e = DatabaseError m) \<and> sql_broken ou c s)"
proof (cases "ids = []")
  case True
  then show ?thesis by (auto simp: mark_published_def hoare_def)
next
  case False
  have "hoare (sql_tx ou c d) (execute E (mark_stmt ids))
     (\<lambda>_ s. \<exists>d'. sql_tx ou c d' s \<and> (abs_db d' = abs_db d \<and>
        waiting_events d' = filter (\<lambda>e. pe_id e \<notin> set ids) (waiting_events d)))
     (\<lambda>e s. (\<exists>m. e = DatabaseError m) \<and> sql_broken ou c s)"
  proof (rule sql_conv, rule hoare_execute)
    fix now db and x :: unit and db'
    assume "db = d \<and> rows_ok db" "mark_stmt ids now db = Inr (x, db')"
    with mark_stmt_Inr [of db ids now x db'] show "rows_ok db' \<and> abs_db db' = abs_db d \<and>
        waiting_events db' = filter (\<lambda>e. pe_id e \<notin> set ids) (waiting_events d)"
      by (auto intro: waiting_filter)
  qed (auto simp: mark_stmt_def)
  with False show ?thesis by (simp add: mark_published_def)
qed

lemma sql_publish:
  "hoare (sql_tx ou c d) (publish B p payload) (\<lambda>_. sql_tx (ou @ [(p, payload)]) c d)
     (\<lambda>e s. sql_tx ou c d s \<or> sql_tx (ou @ [(p, payload)]) c d s)"
  unfolding hoare_def publish_def sql_tx_def in_tx_def Let_def
  by (auto split: option.split)

lemma sql_event_publish:
  "hoare (sql_tx ou c d) (event_publish B a n dest payload)
     (\<lambda>_ s. \<exists>p. by_destination a n dest = Some p \<and> sql_tx (ou @ [(p, payload)]) c d s)
     (\<lambda>e s. sql_tx ou c d s \<or> (\<exists>p. by_destination a n dest = Some p \<and> sql_tx (ou @ [(p, payload)]) c d s))"
proof (cases "by_destination a n dest")
  case None
  then show ?thesis by (simp add: event_publish_def hoare_def)
next
  case (Some p)
  then show ?thesis unfolding event_publish_def
    by (simp, intro hoare_conseq [OF sql_publish]) auto
qed

interpretation relay: outbox_dispatch "event_publish B a n" "by_destination a n" sql_tx "sql_dispatch E"
    waiting_events abs_db sql_broken sql_idle
  for B a n E
proof (unfold_locales, unfold sql_dispatch_simps)
  show "hoare (sql_tx ou c d) (event_publish B a n dest payload)
      (\<lambda>_ s. \<exists>p. by_destination a n dest = Some p \<and> sql_tx (ou @ [(p, payload)]) c d s)
      (\<lambda>e s. sql_tx ou c d s \<or> (\<exists>p. by_destination a n dest = Some p \<and> sql_tx (ou @ [(p, payload)]) c d s))"
    for ou c d dest payload by (rule sql_event_publish)
  show "sql_tx ou c d s \<Longrightarrow> sql_tx ou c d (s\<lparr>rt_log := l\<rparr>)" for ou c d s l
    by (simp add: sql_tx_def in_tx_def)
  show "sql_tx ou c d s \<Longrightarrow> sql_broken ou c s" for ou c d s
    by (auto simp: sql_tx_def sql_broken_def in_tx_def)
  show "hoare (sql_tx ou c d) (claim_pending E k)
      (\<lambda>evs s. sql_tx ou c d s \<and> distinct (map pe_id evs) \<and> set evs \<subseteq> set (waiting_events d) \<and> length evs \<le> k)
      (\<lambda>e s. sql_broken ou c s)" for ou c d k
    by (rule hoare_conseq [OF sql_claim]) auto
  show "hoare (sql_tx ou c d) (mark_published E ids)
      (\<lambda>_ s. \<exists>d'. sql_tx ou c d' s \<and> abs_db d' = abs_db d \<and>
        waiting_events d' = filter (\<lambda>e. pe_id e \<notin> set ids) (waiting_events d))
      (\<lambda>e s. sql_broken ou c s)" for ou c d ids
    by (rule hoare_conseq [OF sql_mark]) auto
  show "hoare (sql_tx ou c d) (commit E) (\<lambda>_. sql_tx ou d d)
      (\<lambda>e s. sql_broken ou c s \<or> sql_broken ou d s)" for ou c d
    by (rule hoare_conseq [OF sql_commit]) auto
  show "hoare (sql_idle ou c) (with_session E body) (\<lambda>k s. \<exists>ou d. sql_idle ou d s \<and> Q k ou d)
      (\<lambda>e s. \<exists>ou d. sql_idle ou d s \<and> (R ou d \<or> (\<exists>k. Q k ou d)))"
    if "hoare (sql_tx ou c c) body (\<lambda>k s. \<exists>ou d. sql_tx ou d d s \<and> Q k ou d)
      (\<lambda>e s. \<exists>ou d. sql_broken ou d s \<and> R ou d)" for ou c body Q R
    by (rule hoare_conseq [OF sql_scope_ex [OF that]]) auto
qed

section \<open>The poller\<close>

text \<open>
  One turn of \<open>_run_forever\<close>: its value is the pause in milliseconds the loop then sleeps (the code
  divides by 1000 for \<open>asyncio.sleep\<close>). \<open>CancelledError\<close> leaves the loop; any other exception is
  logged with \<open>repr(exc)\<close>, a parameter, and counts as an empty poll.
\<close>

definition relay_tick :: "(exn \<Rightarrow> ustr) \<Rightarrow> ('z runtime_scheme, nat) act \<Rightarrow> int \<Rightarrow> ('z runtime_scheme, int) act" where
  "relay_tick repr once interval_ms s = (case once s of
     (Inr sent, t) \<Rightarrow> (Inr (if 0 < sent then 0 else interval_ms), t)
   | (Inl e, t) \<Rightarrow> if is_Exception e
       then bind_act (log ERROR ''outbox_relay_error'' [(lit ''error'', JStr (repr e))]) (\<lambda>_. ret interval_ms) t
       else (Inl e, t))"

text \<open>The first \<open>n\<close> turns of the loop and the pauses it made.\<close>

primrec run_forever :: "(exn \<Rightarrow> ustr) \<Rightarrow> ('z runtime_scheme, nat) act \<Rightarrow> int \<Rightarrow> nat \<Rightarrow>
    ('z runtime_scheme, int list) act" where
  "run_forever repr once interval_ms 0 = ret []"
| "run_forever repr once interval_ms (Suc n) = bind_act (relay_tick repr once interval_ms) (\<lambda>pause.
     bind_act (run_forever repr once interval_ms n) (\<lambda>pauses. ret (pause # pauses)))"

section \<open>What one poll does\<close>

definition message_for :: "publisher \<Rightarrow> publisher \<Rightarrow> pending_event \<Rightarrow> publisher \<times> json" where
  "message_for a n e = (the (by_destination a n (pe_destination e)), pe_payload e)"

lemma sent_as_messages: "relay.sent_as a n evs ms \<Longrightarrow> ms = map (message_for a n) evs"
  unfolding relay.sent_as_def
  by (induction evs ms rule: list_all2_induct) (auto simp: message_for_def)

lemma relay_returns:
  assumes "core_idle s" and "run_once (sql_dispatch E) (event_publish B a n) batch s = (Inr k, t)"
  shows "core_idle t \<and> relay.relayed a n batch (rt_out s) (committed s) k (rt_out t) (committed t)"
  using hoareD_Inr [OF relay.run_once_law _ assms(2)] assms(1)
  unfolding core_idle_sql by (fastforce simp: sql_idle_def)

lemma relay_raises:
  assumes "core_idle s" and "run_once (sql_dispatch E) (event_publish B a n) batch s = (Inl e, t)"
  shows "core_idle t \<and> relay.relay_failed a n batch (rt_out s) (committed s) (rt_out t) (committed t)"
  using hoareD_Inl [OF relay.run_once_law _ assms(2)] assms(1)
  unfolding core_idle_sql by (fastforce simp: sql_idle_def)

lemma relay_poll_facts:
  assumes "core_idle s" and "run_once (sql_dispatch E) (event_publish B a n) batch s = (Inr k, t)"
  shows "core_idle t \<and> abs_db (committed t) = abs_db (committed s) \<and>
    (\<exists>evs. k = length evs \<and> k \<le> batch \<and> distinct (map pe_id evs) \<and>
      set evs \<subseteq> set (waiting_events (committed s)) \<and>
      rt_out t = rt_out s @ map (message_for a n) evs \<and>
      waiting_events (committed t) =
        filter (\<lambda>e. pe_id e \<notin> set (map pe_id evs)) (waiting_events (committed s)))"
  using relay_returns [OF assms] sent_as_messages unfolding relay.relayed_def by blast

text \<open>A poll of the outbox that returns has taken some of the pending events, each once and at most
  the batch size of them, has handed exactly their payloads to the publishers of their
  destinations, in the order it took them, and has marked exactly these events published; the
  contents of orders and outbox are otherwise unchanged and the session is closed.\<close>

theorem relay_poll:
  assumes "core_idle s" and "run_once (sql_dispatch E) (event_publish B a n) batch s = (Inr k, t)"
  shows "core_idle t \<and> abs_db (committed t) = abs_db (committed s) \<and>
    (\<exists>evs. k = length evs \<and> k \<le> batch \<and> distinct (map pe_id evs) \<and>
      set evs \<subseteq> set (waiting_events (committed s)) \<and>
      rt_out t = rt_out s @ map (message_for a n) evs \<and>
      waiting_events (committed t) =
        filter (\<lambda>e. pe_id e \<notin> set (map pe_id evs)) (waiting_events (committed s)))"
  by (rule relay_poll_facts [OF assms])

text \<open>A poll that fails, at whatever statement, publish or commit, leaves the tables as they were or,
  when only the acknowledgement of the commit was lost or the session failed to close, with the whole batch marked; what it has
  sent by then are the payloads of a prefix of the events it took. So nothing is marked published
  unless the whole batch was sent: delivery is at least once.\<close>

theorem relay_poll_failure:
  assumes "core_idle s" and "run_once (sql_dispatch E) (event_publish B a n) batch s = (Inl e, t)"
  shows "core_idle t \<and> abs_db (committed t) = abs_db (committed s) \<and>
    (\<exists>evs j. set evs \<subseteq> set (waiting_events (committed s)) \<and> length evs \<le> batch \<and>
      rt_out t = rt_out s @ map (message_for a n) (take j evs) \<and>
      (committed t = committed s \<or>
       (rt_out t = rt_out s @ map (message_for a n) evs \<and> waiting_events (committed t) =
        filter (\<lambda>e. pe_id e \<notin> set (map pe_id evs)) (waiting_events (committed s)))))"
proof -
  obtain evs j ms where e: "set evs \<subseteq> set (waiting_events (committed s))" "length evs \<le> batch"
      "rt_out t = rt_out s @ ms" "relay.sent_as a n (take j evs) ms"
      "committed t = committed s \<or>
        relay.relayed a n batch (rt_out s) (committed s) (length evs) (rt_out t) (committed t)"
    and idle: "core_idle t"
    using relay_raises [OF assms] unfolding relay.relay_failed_def by blast
  note out = e(3) [unfolded sent_as_messages [OF e(4)]]
  from e(5) show ?thesis
  proof
    assume "committed t = committed s"
    with idle e(1,2) out show ?thesis by auto
  next
    assume "relay.relayed a n batch (rt_out s) (committed s) (length evs) (rt_out t) (committed t)"
    then obtain es ms' where r: "set es \<subseteq> set (waiting_events (committed s))" "length es \<le> batch"
        "rt_out t = rt_out s @ ms'" "relay.sent_as a n es ms'" "abs_db (committed t) = abs_db (committed s)"
        "waiting_events (committed t) =
          filter (\<lambda>e. pe_id e \<notin> set (map pe_id es)) (waiting_events (committed s))"
      unfolding relay.relayed_def by blast
    have "rt_out t = rt_out s @ map (message_for a n) (take (length es) es)"
      using r(3) sent_as_messages [OF r(4)] by simp
    with idle r show ?thesis by (metis take_all_iff order_refl)
  qed
qed

text \<open>C14. No event is lost: an event that was pending before a poll and is no longer pending after it was
  handed to the publisher of its destination, whether the poll returned or failed.\<close>

theorem relay_no_loss:
  assumes "core_idle s" and "run_once (sql_dispatch E) (event_publish B a n) batch s = (r, t)"
    and "e \<in> set (waiting_events (committed s))" and "e \<notin> set (waiting_events (committed t))"
  shows "\<exists>sent. rt_out t = rt_out s @ sent \<and> message_for a n e \<in> set sent"
proof -
  have dist: "e' = e" if "e' \<in> set (waiting_events (committed s))" "pe_id e' = pe_id e" for e'
  proof -
    have "distinct (map ob_id (outbox_t (committed s)))"
      using assms(1) by (simp add: core_idle_def rows_ok_def)
    then have "distinct (map pe_id (waiting_events (committed s)))"
      by (simp add: waiting_events_def pending_rows_def comp_def distinct_map_filter)
    with that assms(3) show ?thesis by (auto simp: distinct_map inj_on_def)
  qed
  have sent: ?thesis
    if "set evs \<subseteq> set (waiting_events (committed s))" "rt_out t = rt_out s @ map (message_for a n) evs"
      "waiting_events (committed t) =
        filter (\<lambda>e. pe_id e \<notin> set (map pe_id evs)) (waiting_events (committed s))" for evs
  proof -
    have "pe_id e \<in> set (map pe_id evs)" using assms(3,4) unfolding that(3) by simp
    then obtain e' where "e' \<in> set evs" "pe_id e' = pe_id e" by (metis image_iff image_set)
    with that(1) dist have "e \<in> set evs" by blast
    with that(2) show ?thesis by auto
  qed
  show ?thesis
  proof (cases r)
    case (Inr k)
    then show ?thesis using relay_returns [of s E B a n batch k t] assms(1,2) sent sent_as_messages
      unfolding relay.relayed_def by blast
  next
    case (Inl x)
    then have "run_once (sql_dispatch E) (event_publish B a n) batch s = (Inl x, t)" using assms(2) by simp
    from relay_raises [OF assms(1) this] obtain k where "committed t = committed s \<or>
        relay.relayed a n batch (rt_out s) (committed s) k (rt_out t) (committed t)"
      unfolding relay.relay_failed_def by (elim conjE exE) (rule that)
    moreover have "committed t \<noteq> committed s" using assms(3,4) by auto
    ultimately show ?thesis using sent sent_as_messages unfolding relay.relayed_def by blast
  qed
qed

section \<open>Draining\<close>

definition calm_pg :: "pg_env \<Rightarrow> bool" where
  "calm_pg E \<longleftrightarrow> (\<forall>i. pg_fault E i = None \<and> commit_fault E i = None \<and> close_fault E i = None \<and> (\<forall>j. \<not> locked E i j))"

lemma publish_all_reliable:
  "(\<forall>e \<in> set evs. by_destination a n (pe_destination e) \<noteq> None) \<Longrightarrow>
   for_each (\<lambda>e. event_publish reliable a n (pe_destination e) (pe_payload e)) evs s =
     (Inr (), s\<lparr>rt_out := rt_out s @ map (message_for a n) evs, rt_pubs := rt_pubs s + length evs\<rparr>)"
proof (induction evs arbitrary: s)
  case (Cons e evs)
  then obtain p where "by_destination a n (pe_destination e) = Some p" by auto
  with Cons show ?case by (simp add: event_publish_def message_for_def)
qed simp

lemma known_destination:
  assumes "rows_ok db" and "e \<in> set (waiting_events db)"
  shows "by_destination a n (pe_destination e) \<noteq> None"
proof -
  obtain d where "pe_destination e = destination_value d"
    using assms by (auto simp: rows_ok_def waiting_events_def pending_rows_def)
  then show ?thesis by (cases d) (simp_all add: by_destination_def)
qed

lemma run_once_calm:
  assumes "calm_pg E" and "core_idle s"
  shows "\<exists>t. run_once (sql_dispatch E) (event_publish reliable a n) batch s =
    (Inr (min batch (length (waiting_events (committed s)))), t)"
proof -
  let ?c = "committed s"
  define rows where "rows = take batch (sort_key ob_created_at
    (sort_key (\<lambda>r. tie E (n_stmt s) (ob_id r)) (pending_rows ?c)))"
  define evs where "evs = map to_event rows"
  define s1 where "s1 = (aenter s)\<lparr>n_stmt := Suc (n_stmt s)\<rparr>"
  have len: "length evs = min batch (length (waiting_events ?c))"
    by (simp add: evs_def rows_def waiting_events_def)
  have "set rows \<subseteq> set (pending_rows ?c)"
    unfolding rows_def by (rule subset_trans [OF set_take_subset]) simp
  then have "set evs \<subseteq> set (waiting_events ?c)" by (auto simp: evs_def waiting_events_def)
  then have known: "\<forall>e \<in> set evs. by_destination a n (pe_destination e) \<noteq> None"
    using known_destination [of ?c] assms(2) by (meson core_idle_def subsetD)
  have claim: "claim_pending E batch (aenter s) = (Inr evs, s1)"
    using assms(1)
    by (simp add: claim_pending_def claim_stmt_def execute_def require_session_def aenter_def bind_act_def
        calm_pg_def evs_def rows_def s1_def to_event_def pending_rows_def)
  note calm = calm_pg_def execute_def mark_published_def mark_stmt_def require_session_def bind_act_def
    commit_def s1_def aenter_def
  have "\<exists>t. run_once (sql_dispatch E) (event_publish reliable a n) batch s = (Inr (length evs), t)"
  proof (cases "evs = []")
    case True
    then show ?thesis by (use assms(1) True in \<open>simp add: run_once_def with_session_def claim aexit_def close_session_def calm_pg_def\<close>)
  next
    case False
    with assms(1) show ?thesis
      by (simp add: run_once_def with_session_def claim publish_all_reliable [OF known])
        (simp add: calm aexit_def close_session_def)
  qed
  with len show ?thesis by simp
qed

lemma waiting_split:
  assumes "distinct (map pe_id ws)" and "distinct (map pe_id evs)" and "set evs \<subseteq> set ws"
  shows "mset ws = mset evs + mset (filter (\<lambda>e. pe_id e \<notin> set (map pe_id evs)) ws)"
proof -
  have "filter (\<lambda>e. pe_id e \<in> set (map pe_id evs)) ws = filter (\<lambda>e. e \<in> set evs) ws"
    using assms(1,3) by (intro filter_cong) (auto simp: distinct_map inj_on_def)
  moreover have "set (filter (\<lambda>e. e \<in> set evs) ws) = set evs" using assms(3) by auto
  ultimately have "mset (filter (\<lambda>e. pe_id e \<in> set (map pe_id evs)) ws) = mset evs"
    using assms(1,2) by (metis distinct_filter distinct_map set_eq_iff_mset_eq_distinct)
  then show ?thesis
    using multiset_partition [of "mset ws" "\<lambda>e. pe_id e \<in> set (map pe_id evs)"] by (simp add: mset_filter)
qed

lemma relay_poll_calm:
  assumes "calm_pg E" and "core_idle s"
  obtains t evs where "run_once (sql_dispatch E) (event_publish reliable a n) batch s = (Inr (length evs), t)"
    and "core_idle t" and "abs_db (committed t) = abs_db (committed s)"
    and "length evs = min batch (length (waiting_events (committed s)))"
    and "rt_out t = rt_out s @ map (message_for a n) evs"
    and "mset (waiting_events (committed s)) = mset evs + mset (waiting_events (committed t))"
proof -
  obtain t where t: "run_once (sql_dispatch E) (event_publish reliable a n) batch s =
      (Inr (min batch (length (waiting_events (committed s)))), t)"
    using run_once_calm [OF assms] by blast
  obtain evs where evs: "core_idle t" "abs_db (committed t) = abs_db (committed s)"
      "min batch (length (waiting_events (committed s))) = length evs"
      "distinct (map pe_id evs)" "set evs \<subseteq> set (waiting_events (committed s))"
      "rt_out t = rt_out s @ map (message_for a n) evs"
      "waiting_events (committed t) =
        filter (\<lambda>e. pe_id e \<notin> set (map pe_id evs)) (waiting_events (committed s))"
    using relay_poll_facts [OF assms(2) t] by blast
  have "distinct (map pe_id (waiting_events (committed s)))"
    using assms(2) by (simp add: core_idle_def rows_ok_def waiting_events_def pending_rows_def comp_def
        distinct_map_filter)
  from waiting_split [OF this evs(4,5)] evs(7)
  have "mset (waiting_events (committed s)) = mset evs + mset (waiting_events (committed t))" by simp
  with t evs show ?thesis using that by metis
qed

lemma loop_drains:
  assumes "calm_pg E" and "core_idle s" and "length (waiting_events (committed s)) \<le> m * batch"
  shows "\<exists>pauses t sent. run_forever repr (run_once (sql_dispatch E) (event_publish reliable a n) batch)
      interval m s = (Inr pauses, t) \<and> core_idle t \<and> waiting_events (committed t) = [] \<and>
    rt_out t = rt_out s @ sent \<and> abs_db (committed t) = abs_db (committed s) \<and>
    mset sent = image_mset (message_for a n) (mset (waiting_events (committed s)))"
  using assms(2,3)
proof (induction m arbitrary: s)
  case 0
  then show ?case by simp
next
  case (Suc m)
  obtain t evs where t: "run_once (sql_dispatch E) (event_publish reliable a n) batch s = (Inr (length evs), t)"
      "core_idle t" "abs_db (committed t) = abs_db (committed s)"
      "length evs = min batch (length (waiting_events (committed s)))"
      "rt_out t = rt_out s @ map (message_for a n) evs"
      "mset (waiting_events (committed s)) = mset evs + mset (waiting_events (committed t))"
    using relay_poll_calm [OF assms(1) Suc.prems(1)] by blast
  have "length (waiting_events (committed s)) = length evs + length (waiting_events (committed t))"
    using t(6) by (metis size_mset size_union)
  with t(4) Suc.prems(2) have "length (waiting_events (committed t)) \<le> m * batch" by simp
  then obtain pauses v sent where v: "run_forever repr (run_once (sql_dispatch E)
        (event_publish reliable a n) batch) interval m t = (Inr pauses, v)"
      "core_idle v" "waiting_events (committed v) = []" "rt_out v = rt_out t @ sent"
      "abs_db (committed v) = abs_db (committed t)"
      "mset sent = image_mset (message_for a n) (mset (waiting_events (committed t)))"
    using Suc.IH [OF t(2)] by blast
  obtain p where p: "relay_tick repr (run_once (sql_dispatch E) (event_publish reliable a n) batch) interval s = (Inr p, t)"
    by (simp add: relay_tick_def t(1))
  show ?case using p v t(3,5,6)
    by (intro exI [of _ "p # pauses"] exI [of _ v] exI [of _ "map (message_for a n) evs @ sent"]) auto
qed

text \<open>C15. The outbox drains: with a database and a broker that work and rows no other transaction holds, the
  polling loop needs at most as many turns as there are batches of pending events to leave none
  pending, and over these turns it sends every pending event exactly once and nothing else.\<close>

theorem relay_drains:
  assumes "calm_pg E" and "core_idle s" and "length (waiting_events (committed s)) \<le> m * batch"
  shows "\<exists>pauses t sent. run_forever repr (run_once (sql_dispatch E) (event_publish reliable a n) batch)
      interval m s = (Inr pauses, t) \<and> core_idle t \<and> waiting_events (committed t) = [] \<and>
    rt_out t = rt_out s @ sent \<and> abs_db (committed t) = abs_db (committed s) \<and>
    mset sent = image_mset (message_for a n) (mset (waiting_events (committed s)))"
  by (rule loop_drains [OF assms])

text \<open>No error stops the poller: whatever a poll raises, unless it is the cancellation itself, the turn
  ends normally after one entry in the log and the loop pauses for the full interval; after a poll
  that sent something it goes on at once.\<close>

theorem relay_survives:
  assumes "once s = (r, t)" and "r \<noteq> Inl CancelledError"
  shows "\<exists>u. relay_tick repr once interval s = (Inr (if \<exists>k > 0. r = Inr k then 0 else interval), u) \<and>
    rt_out u = rt_out t \<and>
    rt_log u = rt_log t @ (case r of Inl e \<Rightarrow>
      [entry ERROR ''outbox_relay_error'' [(lit ''error'', JStr (repr e))]] | Inr _ \<Rightarrow> [])"
proof (cases r)
  case (Inl e)
  with assms(2) have "is_Exception e" by (cases e) simp_all
  with assms(1) Inl show ?thesis by (simp add: relay_tick_def)
next
  case (Inr k)
  with assms(1) show ?thesis by (auto simp: relay_tick_def)
qed

section \<open>Witnesses\<close>

definition to_llm :: publisher where
  "to_llm = default_publisher (lit ''assess.requests'')"

definition to_bot :: publisher where
  "to_bot = default_publisher (lit ''bot'')"

definition failing_bus :: bus_env where
  "failing_bus = \<lparr>bus_fault = (\<lambda>_. Some (PublishError (lit ''lost''), True))\<rparr>"

lemma calm_env_calm: "calm_pg calm_env"
  by (simp add: calm_pg_def calm_env_def)

abbreviation poll :: "bus_env \<Rightarrow> (exn + nat) \<times> pg" where
  "poll B \<equiv> run_once (sql_dispatch calm_env) (event_publish B to_llm to_bot) 10 after_ingest"

lemmas relay_defs = run_once_def sql_dispatch_def claim_pending_def claim_stmt_def mark_published_def
  mark_stmt_def event_publish_def by_destination_def publish_def failing_bus_def pending_def published_def

lemma waiting_after_ingest: "waiting_events (committed after_ingest) =
    [\<lparr>pe_id = 1, pe_destination = destination_value ASSESS_REQUEST,
      pe_payload = assess_request_payload sample_order\<rparr>]"
  unfolding after_ingest_def
  by (simp add: handler_defs stmt_defs assess_key_def lit_def destination_value.simps status_value.simps
      source_value.simps waiting_events_def pending_rows_def to_event_def pending_def calm_env_def
      core_start_def sample_order_def empty_db_def)

lemma poll_sent: "\<exists>t. poll reliable = (Inr 1, t)"
  using run_once_calm [OF calm_env_calm core_idle_after_ingest, of to_llm to_bot 10]
  by (simp add: waiting_after_ingest)

theorem relay_poll_witness:
  "\<exists>t. poll reliable = (Inr 1, t) \<and> abs_db (committed t) = abs_db (committed after_ingest)"
  using poll_sent relay_poll [OF core_idle_after_ingest, of calm_env reliable to_llm to_bot 10 1] by blast

lemma poll_lost: "\<exists>t. poll failing_bus = (Inl (PublishError (lit ''lost'')), t)"
  unfolding after_ingest_def
  by (simp add: relay_defs handler_defs stmt_defs sample_defs assess_key_def lit_def
      destination_value.simps status_value.simps source_value.simps)

theorem relay_poll_failure_witness:
  "\<exists>t. poll failing_bus = (Inl (PublishError (lit ''lost'')), t) \<and>
     abs_db (committed t) = abs_db (committed after_ingest)"
  using poll_lost relay_poll_failure [OF core_idle_after_ingest, of calm_env failing_bus to_llm to_bot 10]
  by blast

theorem relay_drains_witness:
  "\<exists>pauses t sent. run_forever exn_text (run_once (sql_dispatch calm_env) (event_publish reliable to_llm to_bot) 10)
      1000 1 after_ingest = (Inr pauses, t) \<and> core_idle t \<and> waiting_events (committed t) = [] \<and>
    rt_out t = rt_out after_ingest @ sent \<and> abs_db (committed t) = abs_db (committed after_ingest) \<and>
    mset sent = image_mset (message_for to_llm to_bot) (mset (waiting_events (committed after_ingest)))"
  by (rule relay_drains [OF calm_env_calm core_idle_after_ingest]) (simp add: waiting_after_ingest)

theorem relay_no_loss_witness:
  "\<exists>sent. rt_out (snd (poll reliable)) = rt_out after_ingest @ sent \<and>
     (to_llm, assess_request_payload sample_order) \<in> set sent"
proof -
  obtain t where t: "poll reliable = (Inr 1, t)" using poll_sent by blast
  obtain t' evs where t': "poll reliable = (Inr (length evs), t')"
      "length evs = min 10 (length (waiting_events (committed after_ingest)))"
      "mset (waiting_events (committed after_ingest)) = mset evs + mset (waiting_events (committed t'))"
    using relay_poll_calm [OF calm_env_calm core_idle_after_ingest, of to_llm to_bot 10] by metis
  have "size (mset (waiting_events (committed t'))) = 0"
    using arg_cong [OF t'(3), of size] t'(2) by (simp add: waiting_after_ingest)
  with t t' have "waiting_events (committed t) = []" by simp
  then show ?thesis
    using relay_no_loss [OF core_idle_after_ingest t, of "hd (waiting_events (committed after_ingest))"]
    by (simp add: t waiting_after_ingest message_for_def by_destination_def)
qed

theorem relay_survives_witness:
  "\<exists>u. relay_tick exn_text (\<lambda>s. poll failing_bus) 1000 core_start = (Inr 1000, u)"
proof -
  obtain t where "poll failing_bus = (Inl (PublishError (lit ''lost'')), t)" using poll_lost by blast
  from relay_survives [of "\<lambda>s. poll failing_bus", OF this, of exn_text 1000] show ?thesis by auto
qed

end
