(* ===== verification/CoreMessaging.thy ===== *)
theory CoreMessaging
  imports CoreDispatch Settings
begin

text \<open>
  order-core-service: the topology (messaging/broker.py), the classification of failures on
  reception (messaging/reliability.py), the two subscribers (messaging/subscribers.py) and the
  wiring of main.py that connects them to the use cases and to the relay. A subscriber's action
  that returns acknowledges the message; one that raises puts it back in its queue
  (\<open>AckPolicy.NACK_ON_ERROR\<close>).
\<close>

section \<open>Topology\<close>

definition notifications_exchange :: "ustr \<Rightarrow> rabbit_exchange" where
  "notifications_exchange name = \<lparr>rx_name = name, rx_type = DIRECT, rx_durable = True\<rparr>"

definition build_parse_queue :: "ustr \<Rightarrow> ustr \<Rightarrow> rabbit_queue" where
  "build_parse_queue name dlq = \<lparr>rq_name = name, rq_durable = True, rq_arguments = [
     (lit ''x-dead-letter-exchange'', JStr []),
     (lit ''x-dead-letter-routing-key'', JStr dlq)]\<rparr>"

definition build_assess_result_queue :: "ustr \<Rightarrow> rabbit_queue" where
  "build_assess_result_queue name = durable_queue name"

definition build_dead_letter_queue :: "ustr \<Rightarrow> rabbit_queue" where
  "build_dead_letter_queue name = durable_queue name"

definition build_assess_request_publisher :: "ustr \<Rightarrow> publisher" where
  "build_assess_request_publisher queue = default_publisher queue"

text \<open>No \<open>persist\<close> here: FastStream's default is a transient message.\<close>

definition build_notify_publisher :: "ustr \<Rightarrow> ustr \<Rightarrow> publisher" where
  "build_notify_publisher exchange routing_key =
     \<lparr>pub_exchange = Some (notifications_exchange exchange), pub_routing_key = routing_key,
      pub_persist = False\<rparr>"

definition build_dlq_publisher :: "ustr \<Rightarrow> publisher" where
  "build_dlq_publisher queue = default_publisher queue"

section \<open>Dead letters and the guard\<close>

definition dead_letter :: "json \<Rightarrow> string \<Rightarrow> ustr \<Rightarrow> json" where
  "dead_letter payload category reason = JObj [(lit ''category'', JStr (lit category)),
     (lit ''reason'', JStr reason), (lit ''payload'', payload)]"

definition dlq_publish :: "bus_env \<Rightarrow> publisher \<Rightarrow> json \<Rightarrow> string \<Rightarrow> ustr \<Rightarrow> ('z runtime_scheme, unit) act" where
  "dlq_publish B dlq payload category reason = publish B dlq (dead_letter payload category reason)"

definition guard :: "bus_env \<Rightarrow> json \<Rightarrow> (json \<Rightarrow> exn + 'm) \<Rightarrow> ('m \<Rightarrow> ('z runtime_scheme, unit) act) \<Rightarrow>
    publisher \<Rightarrow> ustr \<Rightarrow> ('z runtime_scheme, unit) act" where
  "guard B raw parse handle dlq queue s = (case parse raw of
     Inl (ValidationError m) \<Rightarrow> bind_act (dlq_publish B dlq raw ''invalid-payload'' m) (\<lambda>_.
       log WARNING ''message_dead_lettered''
         [(lit ''queue'', JStr queue), (lit ''category'', JStr (lit ''invalid-payload''))]) s
   | Inl e \<Rightarrow> raise e s
   | Inr message \<Rightarrow> (case handle message s of
       (Inl (PermanentError m), t) \<Rightarrow> bind_act (dlq_publish B dlq raw ''permanent'' m) (\<lambda>_.
         log WARNING ''message_dead_lettered'' [(lit ''queue'', JStr queue),
           (lit ''category'', JStr (lit ''permanent'')), (lit ''error'', JStr m)]) t
     | (r, t) \<Rightarrow> (r, t)))"

section \<open>Subscribers\<close>

text \<open>
  FastStream validates the body against the annotation \<open>dict[str, Any]\<close> of the parameter before the
  subscriber runs, so that the guard never sees a body that is no object: the exception leaves the
  subscriber.
\<close>

definition raw_dict :: "json \<Rightarrow> json option" where
  "raw_dict j = map_option JObj (as_object j)"

definition on_parse_results :: "pydantic \<Rightarrow> bus_env \<Rightarrow> rabbit_queue \<Rightarrow>
    (incoming_order list \<Rightarrow> ('z runtime_scheme, unit) act) \<Rightarrow> publisher \<Rightarrow> json \<Rightarrow>
    ('z runtime_scheme, unit) act" where
  "on_parse_results P B queue handle dlq raw =
     bind_act (lift_act (model_validate P ''raw'' raw_dict raw)) (\<lambda>raw.
       guard B raw (model_validate P ''ParseResultMessage'' (read_parse_result P))
         (\<lambda>message. handle (to_incoming_orders message)) dlq (rq_name queue))"

definition on_assess_results :: "pydantic \<Rightarrow> bus_env \<Rightarrow> rabbit_queue \<Rightarrow>
    (assessment_outcome \<Rightarrow> ('z runtime_scheme, unit) act) \<Rightarrow> publisher \<Rightarrow> json \<Rightarrow>
    ('z runtime_scheme, unit) act" where
  "on_assess_results P B queue handle dlq raw =
     bind_act (lift_act (model_validate P ''raw'' raw_dict raw)) (\<lambda>raw.
       guard B raw (model_validate P ''AssessmentResultMessage'' (read_assessment_result P))
         (\<lambda>message. bind_act (lift_act (to_assessment_outcome P message)) handle) dlq (rq_name queue))"

section \<open>Wiring\<close>

text \<open>What \<open>build_app\<close> registers, as functions of the settings and of the outside world.\<close>

record core_world =
  cw_pydantic :: pydantic
  cw_bus :: bus_env
  cw_pg :: pg_env

definition core_dlq :: "core_settings \<Rightarrow> publisher" where
  "core_dlq S = build_dlq_publisher (cms_dlq (cs_messaging S))"

definition core_on_parse :: "core_settings \<Rightarrow> core_world \<Rightarrow> json \<Rightarrow> ('z pg_scheme, unit) act" where
  "core_on_parse S W = on_parse_results (cw_pydantic W) (cw_bus W)
     (build_parse_queue (cms_parse_queue (cs_messaging S)) (cms_dlq (cs_messaging S)))
     (IngestOrders_handle (sql_uow (cw_pg W))) (core_dlq S)"

definition core_on_assess :: "core_settings \<Rightarrow> core_world \<Rightarrow> json \<Rightarrow> ('z pg_scheme, unit) act" where
  "core_on_assess S W = on_assess_results (cw_pydantic W) (cw_bus W)
     (build_assess_result_queue (cms_assess_result_queue (cs_messaging S)))
     (ProcessAssessment_handle (sql_uow (cw_pg W)) (cs_notify_threshold S)) (core_dlq S)"

definition core_assess_publisher :: "core_settings \<Rightarrow> publisher" where
  "core_assess_publisher S = build_assess_request_publisher (cms_assess_request_queue (cs_messaging S))"

definition core_notify_publisher :: "core_settings \<Rightarrow> publisher" where
  "core_notify_publisher S = build_notify_publisher (cms_notify_exchange (cs_messaging S))
     (cms_notify_routing_key (cs_messaging S))"

definition core_relay :: "core_settings \<Rightarrow> core_world \<Rightarrow> ('z pg_scheme, nat) act" where
  "core_relay S W = run_once (sql_dispatch (cw_pg W))
     (event_publish (cw_bus W) (core_assess_publisher S) (core_notify_publisher S))
     (nat (obs_batch_size (cs_outbox S)))"

definition core_queues :: "core_settings \<Rightarrow> rabbit_queue list" where
  "core_queues S = [build_parse_queue (cms_parse_queue (cs_messaging S)) (cms_dlq (cs_messaging S)),
     build_assess_result_queue (cms_assess_result_queue (cs_messaging S)),
     build_dead_letter_queue (cms_dlq (cs_messaging S))]"

text \<open>
  \<open>/ready\<close>: the broker is pinged first and the database only asked when that succeeded; an
  exception of the database probe counts as not ready, one of the ping goes through.
\<close>

definition database_ready :: "exn + unit \<Rightarrow> exn + bool" where
  "database_ready probe = (case probe of Inr _ \<Rightarrow> Inr True
     | Inl e \<Rightarrow> if is_Exception e then Inr False else Inl e)"

definition readiness :: "exn + bool \<Rightarrow> exn + unit \<Rightarrow> exn + (ustr \<times> nat)" where
  "readiness ping probe = (case ping of Inl e \<Rightarrow> Inl e
     | Inr up \<Rightarrow> (case (if up then database_ready probe else Inr False) of
         Inl e \<Rightarrow> Inl e
       | Inr ready \<Rightarrow> Inr (if ready then (lit ''ready'', 200) else (lit ''not ready'', 503))))"

section \<open>Facts of the guard\<close>

lemma dlq_publish_effect:
  assumes "dlq_publish B dlq raw cat m s = (r, t)"
  shows "rt_log t = rt_log s" and "r = Inr () \<Longrightarrow> rt_out t = rt_out s @ [(dlq, dead_letter raw cat m)]"
    and "rt_out t = rt_out s \<or> rt_out t = rt_out s @ [(dlq, dead_letter raw cat m)]"
  using assms by (auto simp: dlq_publish_def publish_def Let_def split: option.splits if_splits)

text \<open>A step that touches at most the log and the messages sent.\<close>

definition same_store :: "'z pg_scheme \<Rightarrow> 'z pg_scheme \<Rightarrow> bool" where
  "same_store s t \<longleftrightarrow> committed t = committed s \<and> session t = session s"

lemma same_store_refl [simp]: "same_store s s"
  by (simp add: same_store_def)

lemma same_store_core_idle: "same_store s t \<Longrightarrow> core_idle s \<Longrightarrow> core_idle t"
  by (simp add: same_store_def core_idle_def)

definition dead_lettered :: "publisher \<Rightarrow> json \<Rightarrow> string \<Rightarrow> 'z pg_scheme \<Rightarrow> 'z pg_scheme \<Rightarrow> bool" where
  "dead_lettered dlq raw cat s t \<longleftrightarrow> (\<exists>m. rt_out t = rt_out s @ [(dlq, dead_letter raw cat m)])"

lemma dead_letter_step:
  assumes "bind_act (dlq_publish B dlq raw cat m) (\<lambda>_. log l ev fs) s = (r, t)"
  shows "same_store s t" and "r = Inr u \<Longrightarrow> dead_lettered dlq raw cat s t"
    and "rt_out t = rt_out s \<or> dead_lettered dlq raw cat s t"
  using assms unfolding same_store_def dead_lettered_def dlq_publish_def publish_def Let_def
  by (auto simp: bind_act_def split: option.splits if_splits) blast

lemma model_validate_error: "\<forall>e. model_validate P cls v j = Inl e \<longrightarrow> (\<exists>m. e = ValidationError m)"
  using model_validate_Inl by blast

lemma guard_cases:
  assumes "guard B raw parse handle dlq queue s = (r, t)"
    and "\<forall>e. parse raw = Inl e \<longrightarrow> (\<exists>m. e = ValidationError m)"
  obtains (invalid) m where "parse raw = Inl (ValidationError m)" and "same_store s t"
      and "r = Inr () \<Longrightarrow> dead_lettered dlq raw ''invalid-payload'' s t"
      and "rt_out t = rt_out s \<or> dead_lettered dlq raw ''invalid-payload'' s t"
    | (permanent) x m u where "parse raw = Inr x" and "handle x s = (Inl (PermanentError m), u)"
      and "same_store u t" and "r = Inr () \<Longrightarrow> dead_lettered dlq raw ''permanent'' u t"
      and "rt_out t = rt_out u \<or> dead_lettered dlq raw ''permanent'' u t"
    | (other) x where "parse raw = Inr x" and "handle x s = (r, t)" and "\<nexists>m. r = Inl (PermanentError m)"
proof (cases "parse raw")
  case (Inl e)
  then obtain m where m: "parse raw = Inl (ValidationError m)" using assms(2) by blast
  with assms(1) have "bind_act (dlq_publish B dlq raw ''invalid-payload'' m) (\<lambda>_.
       log WARNING ''message_dead_lettered''
         [(lit ''queue'', JStr queue), (lit ''category'', JStr (lit ''invalid-payload''))]) s = (r, t)"
    by (simp add: guard_def)
  from dead_letter_step [OF this] m show ?thesis using invalid by blast
next
  case (Inr x)
  obtain r' u where h: "handle x s = (r', u)" by (cases "handle x s")
  show ?thesis
  proof (cases "\<exists>m. r' = Inl (PermanentError m)")
    case True
    then obtain m where m: "r' = Inl (PermanentError m)" by blast
    with assms(1) Inr h have "bind_act (dlq_publish B dlq raw ''permanent'' m) (\<lambda>_.
         log WARNING ''message_dead_lettered'' [(lit ''queue'', JStr queue),
           (lit ''category'', JStr (lit ''permanent'')), (lit ''error'', JStr m)]) u = (r, t)"
      by (simp add: guard_def)
    from dead_letter_step [OF this] Inr h m show ?thesis using permanent by blast
  next
    case False
    with assms(1) Inr h have "r = r'" "t = u"
      by (auto simp: guard_def split: sum.splits exn.splits)
    with False Inr h show ?thesis using other by blast
  qed
qed

section \<open>What happens to a message\<close>

lemma raw_dict_JObj [simp]: "raw_dict (JObj fs) = Some (JObj fs)"
  by (simp add: raw_dict_def)

lemma raw_dict_Some [simp]: "raw_dict j = Some x \<longleftrightarrow> x = j \<and> (\<exists>fs. j = JObj fs)"
  by (cases j) (auto simp: raw_dict_def as_object_def)

lemma read_is_dict [simp]: "read_parse_result P j = Some m \<Longrightarrow> raw_dict j = Some j"
  "read_assessment_result P j = Some v \<Longrightarrow> raw_dict j = Some j"
  by (cases j; simp add: read_parse_result_def read_assessment_result_def as_object_def)+

lemma validated_dict: "bind_act (lift_act (model_validate P cls raw_dict raw)) f s =
    (case raw_dict raw of Some x \<Rightarrow> f raw s | None \<Rightarrow> (Inl (ValidationError (error_report P (lit cls) raw)), s))"
  by (cases "raw_dict raw") (auto simp: model_validate_def bind_act_def)

lemma subscriber_cases:
  assumes "bind_act (lift_act (model_validate P cls raw_dict raw)) (\<lambda>raw. guard B raw parse handle dlq queue) s = (r, t)"
    and "\<forall>e. parse raw = Inl e \<longrightarrow> (\<exists>m. e = ValidationError m)"
  obtains (no_dict) m where "raw_dict raw = None" and "r = Inl (ValidationError m)" and "t = s"
    | (invalid) m where "raw_dict raw = Some raw" and "parse raw = Inl (ValidationError m)" and "same_store s t"
      and "r = Inr () \<Longrightarrow> dead_lettered dlq raw ''invalid-payload'' s t"
      and "rt_out t = rt_out s \<or> dead_lettered dlq raw ''invalid-payload'' s t"
    | (permanent) x m u where "parse raw = Inr x" and "handle x s = (Inl (PermanentError m), u)"
      and "same_store u t" and "r = Inr () \<Longrightarrow> dead_lettered dlq raw ''permanent'' u t"
      and "rt_out t = rt_out u \<or> dead_lettered dlq raw ''permanent'' u t"
    | (other) x where "parse raw = Inr x" and "handle x s = (r, t)" and "\<nexists>m. r = Inl (PermanentError m)"
proof (cases "raw_dict raw")
  case None
  with assms(1) no_dict show ?thesis unfolding validated_dict by auto
next
  case (Some x)
  then have body: "guard B raw parse handle dlq queue s = (r, t)" and dict: "raw_dict raw = Some raw"
    using assms(1) unfolding validated_dict by auto
  from body assms(2) show ?thesis
  proof (cases rule: guard_cases)
    case (invalid m)
    from that(2) [OF dict this] show ?thesis .
  next
    case (permanent x m u)
    from that(3) [OF this] show ?thesis .
  next
    case (other x)
    from that(4) [OF this] show ?thesis .
  qed
qed

text \<open>A body that is JSON but no object is neither read nor dead-lettered: it goes back to its queue at every delivery.\<close>

lemma no_object_requeued:
  assumes "\<nexists>fs. raw = JObj fs"
  shows "\<exists>m. core_on_parse S W raw s = (Inl (ValidationError m), s)"
    and "\<exists>m. core_on_assess S W raw s = (Inl (ValidationError m), s)"
proof -
  have "raw_dict raw = None" using assms by (cases raw) (simp_all add: raw_dict_def as_object_def)
  then show "\<exists>m. core_on_parse S W raw s = (Inl (ValidationError m), s)"
    and "\<exists>m. core_on_assess S W raw s = (Inl (ValidationError m), s)"
    by (simp_all add: core_on_parse_def core_on_assess_def on_parse_results_def on_assess_results_def validated_dict)
qed

text \<open>C35. A message of parse.results is acknowledged only when it was dealt with: either it has the
  declared shape and all its orders are ingested as specified, or it does not, the tables are
  untouched and the raw message was published to the dead letter queue.\<close>

theorem parse_acknowledged:
  assumes "core_idle s" and "core_on_parse S W raw s = (Inr (), t)"
  shows "core_idle t \<and>
    ((\<exists>m. read_parse_result (cw_pydantic W) raw = Some m \<and> rt_out t = rt_out s \<and>
        abs_db (committed t) = fold spec_ingest (to_incoming_orders m) (abs_db (committed s))) \<or>
     (read_parse_result (cw_pydantic W) raw = None \<and> committed t = committed s \<and>
        dead_lettered (core_dlq S) raw ''invalid-payload'' s t))"
proof -
  note run = assms(2) [unfolded core_on_parse_def on_parse_results_def]
  from run model_validate_error show ?thesis
  proof (cases rule: subscriber_cases)
    case (no_dict m)
    then have "read_parse_result (cw_pydantic W) raw = None" using read_is_dict(1) [of "cw_pydantic W" raw] by fastforce
    with assms(1) no_dict show ?thesis by simp
  next
    case (invalid m)
    with assms(1) show ?thesis
      by (auto simp: model_validate_def same_store_def core_idle_def split: option.splits)
  next
    case (permanent x m u)
    then show ?thesis using ingest_raises [OF assms(1)] by blast
  next
    case (other x)
    then show ?thesis using ingest_returns [OF assms(1)] by auto
  qed
qed

text \<open>A message of parse.results is put back in its queue only for a failure of the database or of the
  publication to the dead letter queue, or because its body is no object; the tables are then as they were, or hold the whole batch
  when the commit had been applied after all.\<close>

theorem parse_requeued:
  assumes "core_idle s" and "core_on_parse S W raw s = (Inl e, t)"
  shows "core_idle t \<and> (committed t = committed s \<or>
      (\<exists>m. read_parse_result (cw_pydantic W) raw = Some m \<and>
        abs_db (committed t) = fold spec_ingest (to_incoming_orders m) (abs_db (committed s)))) \<and>
    (read_parse_result (cw_pydantic W) raw \<noteq> None \<longrightarrow> (\<exists>m. e = DatabaseError m))"
proof -
  note run = assms(2) [unfolded core_on_parse_def on_parse_results_def]
  from run model_validate_error show ?thesis
  proof (cases rule: subscriber_cases)
    case (no_dict m)
    then have "read_parse_result (cw_pydantic W) raw = None" using read_is_dict(1) [of "cw_pydantic W" raw] by fastforce
    with assms(1) no_dict show ?thesis by simp
  next
    case (invalid m)
    with assms(1) show ?thesis
      by (auto simp: model_validate_def same_store_def core_idle_def split: option.splits)
  next
    case (permanent x m u)
    then show ?thesis using ingest_raises [OF assms(1)] by blast
  next
    case (other x)
    then show ?thesis using ingest_raises [OF assms(1)] by auto
  qed
qed

text \<open>A verdict is acknowledged only when it was dealt with: it has the declared shape and was
  applied as specified; or it has not, or names an order that is not stored, and then the tables
  are untouched and the raw message was published to the dead letter queue under its category.\<close>

theorem verdict_acknowledged:
  assumes "core_idle s" and "core_on_assess S W raw s = (Inr (), t)"
  shows "core_idle t \<and>
    ((\<exists>m out. read_assessment_result (cw_pydantic W) raw = Some m \<and>
        to_assessment_outcome (cw_pydantic W) m = Inr out \<and> rt_out t = rt_out s \<and>
        spec_process (cs_notify_threshold S) out (abs_db (committed s)) = Some (abs_db (committed t))) \<or>
     (\<exists>m. read_assessment_result (cw_pydantic W) raw = Some m \<and> committed t = committed s \<and>
        abs_orders (committed s) (profi_key (ar_order_id m)) = None \<and>
        dead_lettered (core_dlq S) raw ''permanent'' s t) \<or>
     (read_assessment_result (cw_pydantic W) raw = None \<and> committed t = committed s \<and>
        dead_lettered (core_dlq S) raw ''invalid-payload'' s t))"
proof -
  note run = assms(2) [unfolded core_on_assess_def on_assess_results_def]
  from run model_validate_error show ?thesis
  proof (cases rule: subscriber_cases)
    case (no_dict m)
    then show ?thesis by simp
  next
    case (invalid m)
    with assms(1) show ?thesis
      by (auto simp: model_validate_def same_store_def core_idle_def split: option.splits)
  next
    case (permanent x m u)
    note h = permanent(2)
    obtain out where out: "to_assessment_outcome (cw_pydantic W) x = Inr out"
      "ProcessAssessment_handle (sql_uow (cw_pg W)) (cs_notify_threshold S) out s = (Inl (PermanentError m), u)"
    proof (cases "to_assessment_outcome (cw_pydantic W) x")
      case (Inl e)
      with h show ?thesis
        using to_assessment_outcome_Inl [of x "cw_pydantic W"] to_assessment_outcome_Inr [of x "cw_pydantic W"]
        by (cases "0 \<le> ar_suitability_score x \<and> ar_suitability_score x \<le> 100") auto
    next
      case (Inr out)
      with h that show ?thesis by simp
    qed
    then have "ao_order_id out = ar_order_id x"
      by (auto simp: to_assessment_outcome_def AssessmentOutcome_def Let_def split: if_splits)
    moreover have "core_idle u" "rt_out u = rt_out s" "committed u = committed s"
      "abs_orders (committed s) (profi_key (ao_order_id out)) = None"
      using process_raises [OF assms(1) out(2)] spec_process_None [of "cs_notify_threshold S" out "abs_db (committed s)"]
      by (auto simp: abs_db_def)
    ultimately show ?thesis using permanent
      by (auto simp: same_store_def core_idle_def dead_lettered_def)
  next
    case (other x)
    then obtain out where "to_assessment_outcome (cw_pydantic W) x = Inr out"
      "ProcessAssessment_handle (sql_uow (cw_pg W)) (cs_notify_threshold S) out s = (Inr (), t)"
      by (cases "to_assessment_outcome (cw_pydantic W) x") auto
    then show ?thesis using other(1) process_returns [OF assms(1)] by auto
  qed
qed

text \<open>A verdict whose score is outside 0..100 has the declared wire shape, so the guard does not take
  it for an invalid payload: the validation error comes from building the domain object inside the
  handler, is no permanent error, and leaves the subscriber. The message goes back to its queue at
  every delivery, with nothing stored and nothing sent to the dead letter queue.\<close>

theorem score_out_of_range_requeued:
  assumes "read_assessment_result (cw_pydantic W) raw = Some m"
    and "ar_suitability_score m < 0 \<or> 100 < ar_suitability_score m"
  shows "\<exists>r. core_on_assess S W raw s = (Inl (ValidationError r), s)"
proof -
  obtain r where "to_assessment_outcome (cw_pydantic W) m = Inl (ValidationError r)"
    using to_assessment_outcome_Inl [of m "cw_pydantic W"] assms(2) by auto
  then show ?thesis
    using assms(1) by (simp add: core_on_assess_def on_assess_results_def validated_dict guard_def model_validate_def)
qed

section \<open>Witnesses\<close>

definition sample_world :: core_world where
  "sample_world = \<lparr>cw_pydantic = strict, cw_bus = reliable, cw_pg = calm_env\<rparr>"

definition not_a_message :: json where
  "not_a_message = JObj []"

lemma not_a_message_shape [simp]:
  "read_parse_result P not_a_message = None" "read_assessment_result P not_a_message = None"
  by (simp_all add: not_a_message_def read_parse_result_def read_assessment_result_def field_defs)

definition verdict_json :: "int \<Rightarrow> json" where
  "verdict_json score = JObj [(lit ''order_id'', JStr (lit ''1'')), (lit ''suitability_score'', JInt score),
     (lit ''notification'', JObj [(lit ''text'', JStr (lit ''t''))])]"

lemma read_verdict_json:
  "\<exists>n. read_assessment_result strict (verdict_json k) =
     Some \<lparr>ar_order_id = lit ''1'', ar_suitability_score = k, ar_notification = n\<rparr>"
  by (simp add: verdict_json_def read_assessment_result_def read_notification_def field_defs strict_def)

lemma not_a_message_dict [simp]: "raw_dict not_a_message = Some not_a_message"
  by (simp add: not_a_message_def)

lemma parse_invalid_run:
  "\<exists>t. core_on_parse default_core_settings sample_world not_a_message core_start = (Inr (), t)"
  by (simp add: core_on_parse_def on_parse_results_def validated_dict guard_def model_validate_def sample_world_def
      dlq_publish_def)

theorem parse_acknowledged_witness:
  "\<exists>t. core_on_parse default_core_settings sample_world not_a_message core_start = (Inr (), t) \<and> core_idle t"
  using parse_invalid_run parse_acknowledged [OF core_idle_start] by blast

definition broken_world :: core_world where
  "broken_world = sample_world\<lparr>cw_bus := failing_bus\<rparr>"

theorem parse_requeued_witness:
  "\<exists>e t. core_on_parse default_core_settings broken_world not_a_message core_start = (Inl e, t) \<and> core_idle t"
proof -
  have "\<exists>e t. core_on_parse default_core_settings broken_world not_a_message core_start = (Inl e, t)"
    by (simp add: core_on_parse_def on_parse_results_def validated_dict guard_def model_validate_def broken_world_def
        sample_world_def dlq_publish_def publish_def failing_bus_def Let_def)
  then show ?thesis using parse_requeued [OF core_idle_start] by blast
qed

theorem verdict_acknowledged_witness:
  "\<exists>t. core_on_assess default_core_settings sample_world (verdict_json 90) core_start = (Inr (), t) \<and> core_idle t"
proof -
  obtain n where "read_assessment_result strict (verdict_json 90) =
     Some \<lparr>ar_order_id = lit ''1'', ar_suitability_score = 90, ar_notification = n\<rparr>"
    using read_verdict_json by blast
  then have "\<exists>t. core_on_assess default_core_settings sample_world (verdict_json 90) core_start = (Inr (), t)"
    by (simp add: core_on_assess_def on_assess_results_def validated_dict guard_def model_validate_def sample_world_def
        to_assessment_outcome_def AssessmentOutcome_def dlq_publish_def handler_defs stmt_defs calm_env_def
        core_start_def empty_db_def unknown_order_def)
  then show ?thesis using verdict_acknowledged [OF core_idle_start] by blast
qed

theorem score_out_of_range_requeued_witness:
  "\<exists>r. core_on_assess default_core_settings sample_world (verdict_json 101) core_start =
     (Inl (ValidationError r), core_start)"
proof -
  obtain n where n: "read_assessment_result (cw_pydantic sample_world) (verdict_json 101) =
     Some \<lparr>ar_order_id = lit ''1'', ar_suitability_score = 101, ar_notification = n\<rparr>"
    using read_verdict_json [of 101] by (auto simp: sample_world_def)
  show ?thesis by (rule score_out_of_range_requeued [OF n]) simp
qed

end
