(* ===== verification/LlmDomain.thy ===== *)
theory LlmDomain
  imports Json
begin

text \<open>
  llm: the domain (app/domain). Listing and budget (listing.py), the verdict of the model
  (assessment.py), the decision (decision.py), the profile (profile.py), the Telegram text
  (notification.py) and the result (result.py). Cyrillic text and emoji are written as code points.
\<close>

section \<open>Listing and budget\<close>

datatype bound = Up_to | From

record budget =
  bg_raw :: ustr
  bg_amount :: "int option"
  bg_currency :: "ustr option"
  bg_bound :: "bound option"

definition bound_by_prefix :: "ustr \<Rightarrow> bound option" where
  "bound_by_prefix p = (if p = [0x434, 0x43e] then Some Up_to
     else if p = [0x43e, 0x442] then Some From else None)"

definition ruble :: nat where "ruble = 0x20bd"

text \<open>\<open>_AMOUNT_RE.search(value)\<close> and its \<open>group()\<close>: the first digit and the digits and white space after it.\<close>

definition amount_match :: "ustr \<Rightarrow> ustr option" where
  "amount_match value = (case dropWhile (\<lambda>c. \<not> is_digit c) value of
     [] \<Rightarrow> None
   | c # cs \<Rightarrow> Some (c # takeWhile (\<lambda>x. is_digit x \<or> is_space x) cs))"

text \<open>\<open>re.sub(r"\D", "", s)\<close>.\<close>

definition only_digits :: "ustr \<Rightarrow> ustr" where
  "only_digits s = filter is_digit s"

definition from_price :: "ustr \<Rightarrow> ustr \<Rightarrow> ustr \<Rightarrow> exn + budget option" where
  "from_price prefix value suffix =
     (let raw = strip (py_join (lit '' '') (filter (\<lambda>part. part \<noteq> []) [prefix, value, suffix])) in
      if raw = [] then Inr None
      else case (case amount_match value of None \<Rightarrow> Inr None
            | Some g \<Rightarrow> (case py_int (only_digits g) of Inl e \<Rightarrow> Inl e | Inr n \<Rightarrow> Inr (Some n))) of
          Inl e \<Rightarrow> Inl e
        | Inr amount \<Rightarrow> Inr (Some \<lparr>bg_raw = raw, bg_amount = amount,
            bg_currency = (if ruble \<in> set (value @ suffix) then Some [ruble] else None),
            bg_bound = bound_by_prefix (py_lower (strip prefix))\<rparr>))"

record listing =
  ls_id :: ustr
  ls_title :: ustr
  ls_description :: ustr
  ls_budget :: "budget option"
  ls_is_remote :: bool
  ls_location :: "ustr option"
  ls_client_tags :: "ustr list"

definition listing_url :: "listing \<Rightarrow> ustr" where
  "listing_url l = lit ''https://profi.ru/backoffice/n.php?o='' @ ls_id l"

section \<open>Verdict, profile, decision\<close>

record assessment =
  as_summary :: ustr
  as_suitability_score :: int
  as_unsupported_hits :: "ustr list"
  as_is_rejected_type :: bool
  as_matched_strong :: "ustr list"
  as_matched_working :: "ustr list"
  as_rationale :: ustr

text \<open>\<open>Assessment(...)\<close> checks \<open>Field(ge=0, le=100)\<close>.\<close>

definition Assessment :: "assessment \<Rightarrow> exn + assessment" where
  "Assessment a = (if 0 \<le> as_suitability_score a \<and> as_suitability_score a \<le> 100 then Inr a
     else Inl (ValidationError (lit ''Assessment'')))"

record contractor_profile =
  cp_strong_skills :: "ustr list"
  cp_working_skills :: "ustr list"
  cp_unsupported_skills :: "ustr list"
  cp_project_types :: "ustr list"
  cp_infrastructure_experience :: "ustr list"
  cp_integrations_experience :: "ustr list"
  cp_preferred_projects :: "ustr list"
  cp_rejected_projects :: "ustr list"
  cp_minimum_budget :: "int option"
  cp_maximum_duration_months :: "int option"

datatype reason = Reason_above_threshold | Reason_below_threshold | Reason_unsupported_or_rejected

fun reason_text :: "reason \<Rightarrow> ustr" where
  "reason_text Reason_above_threshold = lit ''above_threshold''"
| "reason_text Reason_below_threshold = lit ''below_threshold''"
| "reason_text Reason_unsupported_or_rejected = lit ''unsupported_or_rejected''"

record llm_decision =
  ld_notify :: bool
  ld_reason :: reason

definition decide :: "assessment \<Rightarrow> int \<Rightarrow> llm_decision" where
  "decide a threshold =
     (if as_unsupported_hits a \<noteq> [] \<or> as_is_rejected_type a
      then \<lparr>ld_notify = False, ld_reason = Reason_unsupported_or_rejected\<rparr>
      else if as_suitability_score a \<ge> threshold
      then \<lparr>ld_notify = True, ld_reason = Reason_above_threshold\<rparr>
      else \<lparr>ld_notify = False, ld_reason = Reason_below_threshold\<rparr>)"

lemma decide_notify: "ld_notify (decide a th) \<longleftrightarrow>
    as_unsupported_hits a = [] \<and> \<not> as_is_rejected_type a \<and> th \<le> as_suitability_score a"
  by (auto simp: decide_def)

section \<open>Telegram text\<close>

definition MAX_TEXT_LENGTH :: int where "MAX_TEXT_LENGTH = 4096"
definition ELLIPSIS :: ustr where "ELLIPSIS = [0x2026]"
definition SEPARATOR :: ustr where "SEPARATOR = [10, 10]"

datatype llm_parse_mode = L_HTML | L_MarkdownV2 | L_Markdown

record llm_notification =
  ln_text :: ustr
  ln_parse_mode :: llm_parse_mode
  ln_disable_web_page_preview :: bool

text \<open>\<open>_tg_len\<close> is a sum over the text; \<open>kept_prefix\<close> is the loop of \<open>_truncate\<close>.\<close>

definition tg_len :: "ustr \<Rightarrow> int" where
  "tg_len t = (\<Sum>c \<leftarrow> t. int (cp_width c))"

fun kept_prefix :: "int \<Rightarrow> int \<Rightarrow> ustr \<Rightarrow> ustr" where
  "kept_prefix budget used [] = []"
| "kept_prefix budget used (c # cs) =
     (if used + int (cp_width c) > budget then []
      else c # kept_prefix budget (used + int (cp_width c)) cs)"

definition tg_truncate :: "ustr \<Rightarrow> int \<Rightarrow> ustr" where
  "tg_truncate t limit =
     (if limit \<le> 0 then []
      else if tg_len t \<le> limit then t
      else rstrip (kept_prefix (limit - tg_len ELLIPSIS) 0 t) @ ELLIPSIS)"

definition tg_escape :: "ustr \<Rightarrow> ustr" where
  "tg_escape t = html_escape t"

definition untitled :: ustr where
  "untitled = [0x411, 0x435, 0x437, 0x20, 0x43d, 0x430, 0x437, 0x432, 0x430, 0x43d, 0x438, 0x44f]"

definition score_label :: ustr where
  "score_label = [0x421, 0x43e, 0x43e, 0x442, 0x432, 0x435, 0x442, 0x441, 0x442, 0x432, 0x438, 0x435, 0x3a, 0x20]"

definition notification_header :: "listing \<Rightarrow> ustr" where
  "notification_header l =
     (let title = tg_escape (if strip (ls_title l) \<noteq> [] then strip (ls_title l) else untitled)
      in [0x1f9e9, 0x20] @ lit ''<b><a href=\"'' @ listing_url l @ lit ''\">'' @ title @ lit ''</a></b>'')"

definition notification_meta :: "listing \<Rightarrow> assessment \<Rightarrow> ustr" where
  "notification_meta l a = py_join [10]
     ((case ls_budget l of None \<Rightarrow> [] | Some b \<Rightarrow> [[0x1f4b0, 0x20] @ tg_escape (bg_raw b)]) @
      [[0x1f3af, 0x20] @ score_label @ show_int (as_suitability_score a) @ lit ''/100''])"

definition notification_summary :: "listing \<Rightarrow> assessment \<Rightarrow> ustr" where
  "notification_summary l a =
     (let overhead = tg_len (notification_header l) + tg_len (notification_meta l a) + tg_len SEPARATOR * 2
      in tg_truncate (tg_escape (strip (as_summary a))) (MAX_TEXT_LENGTH - overhead))"

definition build_notification :: "listing \<Rightarrow> assessment \<Rightarrow> llm_notification" where
  "build_notification l a =
     (let header = notification_header l; meta = notification_meta l a; summary = notification_summary l a;
          parts = (if summary \<noteq> [] then [header, summary, meta] else [header, meta])
      in \<lparr>ln_text = tg_truncate (py_join SEPARATOR parts) MAX_TEXT_LENGTH, ln_parse_mode = L_HTML,
          ln_disable_web_page_preview = True\<rparr>)"

section \<open>Result\<close>

record assessment_result =
  res_order_id :: ustr
  res_suitability_score :: int
  res_notification :: llm_notification

definition build_result :: "listing \<Rightarrow> assessment \<Rightarrow> assessment_result" where
  "build_result l a = \<lparr>res_order_id = ls_id l, res_suitability_score = as_suitability_score a,
     res_notification = build_notification l a\<rparr>"

section \<open>Lengths and truncation\<close>

lemma tg_len_simps [simp]:
  "tg_len [] = 0" "tg_len (c # s) = int (cp_width c) + tg_len s" "tg_len (s @ t) = tg_len s + tg_len t"
  by (simp_all add: tg_len_def)

lemma tg_len_nonneg [simp]: "0 \<le> tg_len s"
  by (induction s) auto

lemma tg_len_pos: "s \<noteq> [] \<Longrightarrow> 0 < tg_len s"
proof (cases s)
  case (Cons c cs)
  have "0 < int (cp_width c)" using cp_width_pos [of c] by simp
  with Cons show ?thesis by (simp add: add_pos_nonneg)
qed simp

lemma tg_len_0 [simp]: "tg_len s = 0 \<longleftrightarrow> s = []"
  using tg_len_pos by fastforce

lemma length_le_tg_len: "int (length s) \<le> tg_len s"
  by (induction s) (auto simp: cp_width_def)

lemma tg_len_ellipsis [simp]: "tg_len ELLIPSIS = 1"
  by (simp add: ELLIPSIS_def cp_width_def)

lemma tg_len_separator [simp]: "tg_len SEPARATOR = 2"
  by (simp add: SEPARATOR_def cp_width_def)

lemma tg_len_rstrip: "tg_len (rstrip s) \<le> tg_len s"
proof -
  obtain t where "s = rstrip s @ t" using rstrip_prefix by blast
  then have "tg_len s = tg_len (rstrip s) + tg_len t" by (metis tg_len_simps(3))
  then show ?thesis by simp
qed

lemma kept_prefix_split: "\<exists>rest. t = kept_prefix b u t @ rest"
  by (induction b u t rule: kept_prefix.induct) auto

lemma kept_prefix_fits: "u \<le> b \<Longrightarrow> u + tg_len (kept_prefix b u t) \<le> b"
  by (induction b u t rule: kept_prefix.induct) auto

lemma kept_prefix_maximal:
  "t = kept_prefix b u t @ c # rest \<Longrightarrow> b < u + tg_len (kept_prefix b u t) + int (cp_width c)"
  by (induction b u t rule: kept_prefix.induct) (auto split: if_splits)

lemma kept_prefix_append:
  "u + tg_len p \<le> b \<Longrightarrow> kept_prefix b u (p @ q) = p @ kept_prefix b (u + tg_len p) q"
proof (induction p arbitrary: u)
  case (Cons c p)
  have "0 \<le> tg_len p" by simp
  with Cons.prems have "u + int (cp_width c) \<le> b" unfolding tg_len_simps by linarith
  with Cons show ?case by (simp add: algebra_simps)
qed simp

lemma tg_truncate_len: "tg_len (tg_truncate t n) \<le> max 0 n"
proof -
  consider "n \<le> 0" | "0 < n" "tg_len t \<le> n" | "0 < n" "n < tg_len t" by linarith
  then show ?thesis
  proof cases
    case 3
    have "tg_len (kept_prefix (n - 1) 0 t) \<le> n - 1"
      using kept_prefix_fits [of 0 "n - 1" t] 3 by simp
    with 3 tg_len_rstrip [of "kept_prefix (n - 1) 0 t"] show ?thesis by (simp add: tg_truncate_def)
  qed (simp_all add: tg_truncate_def)
qed

lemma tg_truncate_id: "tg_len t \<le> n \<Longrightarrow> tg_truncate t n = t"
  using tg_len_pos [of t] by (cases "n \<le> 0") (auto simp: tg_truncate_def)

end
