(* ===== verification/LlmText.thy ===== *)
theory LlmText
  imports LlmDomain
begin

text \<open>
  llm: the theorems on the Telegram text of domain/notification.py (length limit, truncation,
  layout, escaping) and on the budget of domain/listing.py.
\<close>

section \<open>Length and truncation\<close>

text \<open>C28. No notification is longer than Telegram accepts: whatever the title, the budget, the verdict and
  the identifier of the order are, the text has at most 4096 UTF-16 code units.\<close>

theorem notification_fits:
  "tg_len (ln_text (build_notification l a)) \<le> 4096"
  using tg_truncate_len [of _ MAX_TEXT_LENGTH]
  by (simp add: build_notification_def Let_def MAX_TEXT_LENGTH_def)

lemma truncate_split:
  assumes "0 < n" and "n < tg_len t"
  obtains p c rest where "t = p @ c # rest" and "tg_len p \<le> n - 1" and "n - 1 < tg_len p + int (cp_width c)"
    and "tg_truncate t n = rstrip p @ ELLIPSIS"
proof -
  define p where "p = kept_prefix (n - 1) 0 t"
  obtain q where q: "t = p @ q" using kept_prefix_split p_def by blast
  have fits: "tg_len p \<le> n - 1" using kept_prefix_fits [of 0 "n - 1" t] assms by (simp add: p_def)
  have "q \<noteq> []" using q fits assms by auto
  then obtain c rest where c: "q = c # rest" by (cases q) auto
  show ?thesis
  proof (rule that)
    show "t = p @ c # rest" using q c by simp
    then show "n - 1 < tg_len p + int (cp_width c)"
      using kept_prefix_maximal [of t "n - 1" 0 c rest] by (simp add: p_def)
    show "tg_truncate t n = rstrip p @ ELLIPSIS" using assms by (simp add: tg_truncate_def p_def)
  qed (rule fits)
qed

text \<open>A text over the limit is cut to the longest prefix that leaves room for the ellipsis (one more
  character would not fit, and no surrogate pair is split), white space at the cut is dropped and
  the ellipsis is appended.\<close>

theorem truncate_longest_prefix:
  assumes "0 < n" and "n < tg_len t"
  shows "\<exists>p c rest. t = p @ c # rest \<and> tg_len p + 1 \<le> n \<and> n < tg_len p + int (cp_width c) + 1 \<and>
    tg_truncate t n = rstrip p @ ELLIPSIS"
proof -
  obtain p c rest where "t = p @ c # rest" "tg_len p \<le> n - 1" "n - 1 < tg_len p + int (cp_width c)"
    "tg_truncate t n = rstrip p @ ELLIPSIS"
    by (rule truncate_split [OF assms])
  then show ?thesis by (intro exI [of _ p] exI [of _ c] exI [of _ rest]) simp
qed

theorem truncate_longest_prefix_witness:
  "\<exists>p c rest. [65, 0x1f9e9, 66] = p @ c # rest \<and> tg_len p + 1 \<le> 3 \<and>
     3 < tg_len p + int (cp_width c) + 1 \<and> tg_truncate [65, 0x1f9e9, 66] 3 = rstrip p @ ELLIPSIS"
  by (rule truncate_longest_prefix) (simp_all add: cp_width_def)

section \<open>Layout\<close>

definition notification_overhead :: "listing \<Rightarrow> assessment \<Rightarrow> int" where
  "notification_overhead l a = tg_len (notification_header l) + tg_len (notification_meta l a) + 4"

lemma summary_alt: "notification_summary l a =
    tg_truncate (tg_escape (strip (as_summary a))) (4096 - notification_overhead l a)"
  by (simp add: notification_summary_def notification_overhead_def MAX_TEXT_LENGTH_def Let_def)

lemma layout_fits:
  assumes "notification_overhead l a \<le> 4096"
  shows "ln_text (build_notification l a) = notification_header l @ SEPARATOR @
    (if notification_summary l a = [] then [] else notification_summary l a @ SEPARATOR) @ notification_meta l a"
proof -
  have "tg_len (notification_summary l a) \<le> 4096 - notification_overhead l a"
    unfolding summary_alt using tg_truncate_len assms by (metis max.absorb2 diff_ge_0_iff_ge)
  then show ?thesis
    unfolding build_notification_def Let_def MAX_TEXT_LENGTH_def
    by (auto simp: tg_truncate_id notification_overhead_def)
qed

text \<open>When header, budget and score leave room, they are all there, whole and in order: only the
  summary is ever shortened, to exactly the room that is left.\<close>

theorem notification_layout:
  assumes "notification_overhead l a \<le> 4096"
  shows "ln_text (build_notification l a) = notification_header l @ SEPARATOR @
      (if notification_summary l a = [] then [] else notification_summary l a @ SEPARATOR) @
      notification_meta l a \<and>
    (notification_overhead l a + tg_len (tg_escape (strip (as_summary a))) \<le> 4096 \<longrightarrow>
      notification_summary l a = tg_escape (strip (as_summary a)))"
  using layout_fits [OF assms] by (simp add: summary_alt tg_truncate_id)

definition sample_listing :: listing where
  "sample_listing = \<lparr>ls_id = lit ''7'', ls_title = lit ''A<b>'', ls_description = [], ls_budget = None,
     ls_is_remote = True, ls_location = None, ls_client_tags = []\<rparr>"

definition sample_assessment :: assessment where
  "sample_assessment = \<lparr>as_summary = lit ''x & y'', as_suitability_score = 90, as_unsupported_hits = [],
     as_is_rejected_type = False, as_matched_strong = [], as_matched_working = [], as_rationale = []\<rparr>"

lemmas text_eval = notification_header_def notification_meta_def listing_url_def Let_def cp_width_def
  tg_escape_def html_escape_concat esc_cp_def ent_defs score_label_def show_int_def show_nat_small
  show_nat_big lit_def

lemma strip_sample: "strip [65, 60, 98, 62] = [65, 60, 98, 62]" "strip [120, 32, 38, 32, 121] = [120, 32, 38, 32, 121]"
  by (rule strip_id, simp add: is_space_def space_cps_def)+

lemma overhead_sample: "notification_overhead sample_listing sample_assessment \<le> 4096"
  by (simp add: notification_overhead_def text_eval sample_assessment_def sample_listing_def
      strip_sample)

theorem notification_layout_witness:
  "notification_overhead sample_listing sample_assessment \<le> 4096 \<and>
   notification_summary sample_listing sample_assessment = tg_escape (strip (as_summary sample_assessment))"
proof -
  have "notification_overhead sample_listing sample_assessment +
      tg_len (tg_escape (strip (as_summary sample_assessment))) \<le> 4096"
    by (simp add: notification_overhead_def text_eval sample_assessment_def sample_listing_def
        strip_sample)
  with notification_layout [OF overhead_sample] overhead_sample show ?thesis by blast
qed

section \<open>Escaping\<close>

definition is_angle :: "nat \<Rightarrow> bool" where
  "is_angle c \<longleftrightarrow> c = 60 \<or> c = 62"

lemma esc_cp_no_angle: "x \<in> set (esc_cp c) \<Longrightarrow> \<not> is_angle x"
  by (auto simp: esc_cp_def ent_defs lit_def is_angle_def split: if_splits)

lemma escape_no_angle: "x \<in> set (tg_escape s) \<Longrightarrow> \<not> is_angle x"
  using esc_cp_no_angle by (auto simp: tg_escape_def html_escape_concat)

lemma set_ellipsis: "set ELLIPSIS = {0x2026}"
  by (simp add: ELLIPSIS_def)

lemma truncate_subset: "set (tg_truncate t n) \<subseteq> set t \<union> {0x2026}"
proof -
  have "set (kept_prefix (n - 1) 0 t) \<subseteq> set t"
    using kept_prefix_split [of t "n - 1" 0] by (metis Un_upper1 set_append)
  then show ?thesis
    using set_rstrip [of "kept_prefix (n - 1) 0 t"] set_ellipsis by (auto simp: tg_truncate_def)
qed

lemma no_angle_filter: "(\<And>x. x \<in> set s \<Longrightarrow> \<not> is_angle x) \<Longrightarrow> filter is_angle s = []"
  by (simp add: filter_empty_conv)

lemma show_int_no_angle: "filter is_angle (show_int i) = []"
proof (rule no_angle_filter)
  fix x assume "x \<in> set (show_int i)"
  then have "x = 45 \<or> (48 \<le> x \<and> x < 58)"
    using show_nat_ascii_digits by (auto simp: show_int_def split: if_splits)
  then show "\<not> is_angle x" by (auto simp: is_angle_def)
qed

lemma meta_no_angle: "filter is_angle (notification_meta l a) = []"
proof -
  have "filter is_angle (tg_escape s) = []" for s using no_angle_filter escape_no_angle by blast
  moreover have "filter is_angle score_label = []" "filter is_angle (lit ''/100'') = []"
    by (simp_all add: score_label_def is_angle_def lit_def)
  ultimately show ?thesis
    by (cases "ls_budget l") (simp_all add: notification_meta_def show_int_no_angle is_angle_def)
qed

lemma summary_no_angle: "filter is_angle (notification_summary l a) = []"
proof (rule no_angle_filter)
  fix x assume "x \<in> set (notification_summary l a)"
  then have "x \<in> set (tg_escape (strip (as_summary a))) \<or> x = 0x2026"
    unfolding summary_alt using truncate_subset by blast
  then show "\<not> is_angle x" using escape_no_angle by (auto simp: is_angle_def)
qed

lemma header_angles:
  "filter is_angle (notification_header l) = lit ''<><'' @ filter is_angle (ls_id l) @ lit ''><><>''"
proof -
  have "filter is_angle (tg_escape s) = []" for s using no_angle_filter escape_no_angle by blast
  then show ?thesis
    by (simp add: notification_header_def listing_url_def Let_def) (simp add: is_angle_def lit_def)
qed

text \<open>The parts joined, before the last cut.\<close>

definition full_text :: "listing \<Rightarrow> assessment \<Rightarrow> ustr" where
  "full_text l a = py_join SEPARATOR (if notification_summary l a \<noteq> []
     then [notification_header l, notification_summary l a, notification_meta l a]
     else [notification_header l, notification_meta l a])"

lemma ln_text_full: "ln_text (build_notification l a) = tg_truncate (full_text l a) 4096"
  by (simp add: build_notification_def full_text_def Let_def MAX_TEXT_LENGTH_def)

lemma full_header: "\<exists>tail. full_text l a = notification_header l @ tail"
  by (cases "notification_summary l a = []") (simp_all add: full_text_def)

lemma full_angles: "filter is_angle (full_text l a) = lit ''<><'' @ filter is_angle (ls_id l) @ lit ''><><>''"
  using header_angles [of l] summary_no_angle [of l a] meta_no_angle [of l a]
  by (simp add: full_text_def SEPARATOR_def is_angle_def)

lemma truncate_filter:
  assumes "\<not> f 0x2026" and "0 < n"
  shows "\<exists>rest. filter f t = filter f (tg_truncate t n) @ rest"
proof (cases "tg_len t \<le> n")
  case True
  then show ?thesis by (simp add: tg_truncate_id)
next
  case False
  then have gt: "n < tg_len t" by simp
  obtain p c rest where p: "t = p @ c # rest" "tg_truncate t n = rstrip p @ ELLIPSIS"
    by (rule truncate_split [OF assms(2) gt])
  obtain w where w: "p = rstrip p @ w" using rstrip_prefix by blast
  have "filter f p = filter f (rstrip p) @ filter f w" using w by (metis filter_append)
  then have "filter f t = filter f (rstrip p) @ filter f w @ filter f (c # rest)" by (simp add: p(1))
  moreover have "filter f (tg_truncate t n) = filter f (rstrip p)" using assms(1) by (simp add: p(2) ELLIPSIS_def)
  ultimately show ?thesis by simp
qed

lemma text_angles:
  "\<exists>rest. lit ''<><'' @ filter is_angle (ls_id l) @ lit ''><><>'' = filter is_angle (ln_text (build_notification l a)) @ rest"
  "notification_overhead l a \<le> 4096 \<Longrightarrow>
    filter is_angle (ln_text (build_notification l a)) = lit ''<><'' @ filter is_angle (ls_id l) @ lit ''><><>''"
proof -
  show "\<exists>rest. lit ''<><'' @ filter is_angle (ls_id l) @ lit ''><><>'' = filter is_angle (ln_text (build_notification l a)) @ rest"
    using truncate_filter [of is_angle 4096 "full_text l a"] by (simp add: ln_text_full full_angles is_angle_def)
  show "filter is_angle (ln_text (build_notification l a)) = lit ''<><'' @ filter is_angle (ls_id l) @ lit ''><><>''"
    if "notification_overhead l a \<le> 4096"
    unfolding layout_fits [OF that]
    using header_angles [of l] summary_no_angle [of l a] meta_no_angle [of l a] by (simp add: SEPARATOR_def is_angle_def)
qed

text \<open>The identifier of the order is the one part that is not escaped: its brackets get through.\<close>

lemma identifier_adds_markup:
  assumes "notification_overhead l a \<le> 4096" and "c \<in> set (ls_id l)" and "is_angle c"
  shows "8 < length (filter is_angle (ln_text (build_notification l a)))"
proof -
  have "filter is_angle (ls_id l) \<noteq> []" using assms(2,3) by (auto simp: filter_empty_conv)
  then show ?thesis unfolding text_angles(2) [OF assms(1)] by (simp add: lit_def)
qed

text \<open>C40. Title, summary and budget never add markup: the angle brackets of the message are the eight of the link and
  its bold frame, with those of the order's identifier between them, which goes into the link without
  being escaped; when the frame does not fit, the last cut leaves a first part of these, and never
  another bracket.\<close>

theorem only_own_markup:
  "\<exists>rest. lit ''<><'' @ filter is_angle (ls_id l) @ lit ''><><>'' = filter is_angle (ln_text (build_notification l a)) @ rest \<and>
    (notification_overhead l a \<le> 4096 \<longrightarrow> rest = [])"
proof (cases "notification_overhead l a \<le> 4096")
  case True
  then show ?thesis using text_angles(2) [OF True] by simp
next
  case False
  then show ?thesis using text_angles(1) by simp
qed

theorem only_own_markup_witness:
  "filter is_angle (ln_text (build_notification sample_listing sample_assessment)) = lit ''<><><><>''"
proof -
  have "filter is_angle (ls_id sample_listing) = []" by (simp add: sample_listing_def is_angle_def lit_def)
  then show ?thesis
    using only_own_markup [of sample_listing sample_assessment] overhead_sample by (auto simp: lit_def)
qed

text \<open>What a reader of the message sees: the three entities taken back to their characters.\<close>

fun unescape :: "ustr \<Rightarrow> ustr" where
  "unescape [] = []"
| "unescape (c # s) =
     (if c = 38 \<and> take 4 s = lit ''amp;'' then 38 # unescape (drop 4 s)
      else if c = 38 \<and> take 3 s = lit ''lt;'' then 60 # unescape (drop 3 s)
      else if c = 38 \<and> take 3 s = lit ''gt;'' then 62 # unescape (drop 3 s)
      else c # unescape s)"

lemma unescape_esc_cp: "unescape (esc_cp c @ s) = c # unescape s"
  by (simp add: esc_cp_def ent_defs lit_def)

text \<open>Escaping loses nothing: a reader of the escaped text sees exactly the text that was escaped, also
  when that text contains entities of its own.\<close>

theorem escape_roundtrip:
  "unescape (tg_escape s) = s"
proof -
  have "unescape (concat (map esc_cp s)) = s"
    by (induction s) (simp_all add: unescape_esc_cp)
  then show ?thesis by (simp add: tg_escape_def html_escape_concat)
qed

section \<open>Where the frame does not fit\<close>

text \<open>A title so long that the header alone exceeds the limit costs the message its closing tags: the
  final cut falls inside the header, so the text opens the bold and the link elements and does not
  close them, which Telegram refuses to parse.\<close>

theorem long_title_loses_closing_tags:
  assumes "4096 < tg_len (notification_header l)" and "\<forall>c \<in> set (ls_id l). \<not> is_angle c"
  shows "\<exists>p. ln_text (build_notification l a) = rstrip p @ ELLIPSIS \<and>
    (\<exists>rest. rest \<noteq> [] \<and> notification_header l = p @ rest) \<and>
    filter is_angle (ln_text (build_notification l a)) \<noteq> lit ''<><><><>''"
proof -
  define full where "full = full_text l a"
  have out: "ln_text (build_notification l a) = tg_truncate full 4096" by (simp add: ln_text_full full_def)
  obtain tail where tail: "full = notification_header l @ tail" using full_header full_def by blast
  have "0 \<le> tg_len tail" by simp
  with tail assms(1) have gt: "4096 < tg_len full" unfolding tail tg_len_simps by linarith
  have zero: "(0::int) < 4096" by simp
  obtain p c rest where p: "full = p @ c # rest" "tg_len p \<le> 4096 - 1" "4096 - 1 < tg_len p + int (cp_width c)"
      "tg_truncate full 4096 = rstrip p @ ELLIPSIS"
    by (rule truncate_split [OF zero gt])
  obtain mid where mid: "notification_header l = p @ mid"
  proof -
    from p(1) tail obtain us where "p @ us = notification_header l \<or> p = notification_header l @ us"
      by (metis append_eq_append_conv2)
    moreover have "tg_len p < tg_len (notification_header l)" using p(2) assms(1) by simp
    moreover have "tg_len (notification_header l) \<le> tg_len (notification_header l @ us)" by simp
    ultimately show ?thesis using that by (metis not_le)
  qed
  have ne: "mid \<noteq> []" using mid p(2) assms(1) by auto
  moreover have "last (notification_header l) = 62"
    by (simp add: notification_header_def Let_def lit_def)
  ultimately have "last mid = 62" using mid by simp
  then have "is_angle (last mid)" by (simp add: is_angle_def)
  moreover have "last mid \<in> set mid" using ne by (rule last_in_set)
  ultimately have "0 < length (filter is_angle mid)" by (auto simp: filter_empty_conv)
  moreover have "filter is_angle (ls_id l) = []" using assms(2) no_angle_filter by blast
  then have "length (filter is_angle (p @ mid)) = 8"
    using header_angles [of l] by (simp add: mid [symmetric] lit_def)
  ultimately have "length (filter is_angle p) < 8" unfolding filter_append length_append by linarith
  moreover have "length (filter is_angle (rstrip p)) \<le> length (filter is_angle p)"
  proof -
    obtain w where "p = rstrip p @ w" using rstrip_prefix by blast
    then show ?thesis by (metis filter_append le_add1 length_append)
  qed
  ultimately have "length (filter is_angle (rstrip p @ ELLIPSIS)) < 8"
    by (simp add: ELLIPSIS_def is_angle_def)
  then have "filter is_angle (rstrip p @ ELLIPSIS) \<noteq> lit ''<><><><>''"
    by (auto dest!: arg_cong [of _ _ length])
  with out p(4) mid ne show ?thesis by auto
qed

lemma escape_plain: "tg_escape (replicate n 97 @ s) = replicate n 97 @ tg_escape s"
  by (induction n) (simp_all add: tg_escape_def html_escape_concat esc_cp_def)

lemma tg_len_plain [simp]: "tg_len (replicate n 97) = int n"
  by (induction n) (simp_all add: cp_width_def)

lemma strip_plain: "strip (replicate n 97 @ replicate m 97) = replicate n 97 @ replicate m 97"
  unfolding replicate_add [symmetric]
  by (rule strip_id, cases "n + m = 0") (simp_all add: is_space_def space_cps_def last_replicate hd_replicate del: replicate_add)

definition long_listing :: listing where
  "long_listing = sample_listing\<lparr>ls_title := replicate 4096 97\<rparr>"

theorem long_title_loses_closing_tags_witness:
  "filter is_angle (ln_text (build_notification long_listing sample_assessment)) \<noteq> lit ''<><><><>''"
proof -
  have "strip (replicate 4096 97) = replicate 4096 97" using strip_plain [of 4096 0] by simp
  moreover have "tg_escape (replicate 4096 97) = replicate 4096 97"
    using escape_plain [of 4096 "[]"] by (simp add: tg_escape_def)
  ultimately have "4096 < tg_len (notification_header long_listing)"
    by (simp add: notification_header_def long_listing_def Let_def cp_width_def)
      (simp add: lit_def cp_width_def add_pos_nonneg)
  moreover have "\<forall>c \<in> set (ls_id long_listing). \<not> is_angle c"
    by (simp add: long_listing_def sample_listing_def is_angle_def lit_def)
  ultimately show ?thesis using long_title_loses_closing_tags by blast
qed

text \<open>The summary is cut after it was escaped, so the cut can fall inside an entity: a summary with an
  ampersand at the right place is sent with a broken \<open>&am\<close> before the ellipsis.\<close>

theorem truncation_splits_entity:
  assumes "notification_overhead l a + 4 < 4096"
    and "as_summary a = replicate (nat (4092 - notification_overhead l a)) 97 @ 38 # replicate 5 97"
  shows "\<exists>u v. ln_text (build_notification l a) = u @ lit ''&am'' @ ELLIPSIS @ v"
proof -
  define k where "k = nat (4092 - notification_overhead l a)"
  have k: "int k = 4092 - notification_overhead l a" "0 < k" using assms(1) by (simp_all add: k_def)
  have "strip (as_summary a) = as_summary a"
    unfolding assms(2) k_def [symmetric]
    by (rule strip_id) (use k(2) in \<open>simp add: is_space_def space_cps_def hd_append\<close>)
  moreover have "tg_escape (as_summary a) = replicate k 97 @ amp_ent @ tg_escape (replicate 5 97)"
    unfolding assms(2) k_def [symmetric] escape_plain
    by (simp add: tg_escape_def html_escape_Cons esc_cp_def)
  moreover have "tg_escape (replicate 5 97) = replicate 5 97"
    using escape_plain [of 5 "[]"] by (simp add: tg_escape_def)
  ultimately have esc: "tg_escape (strip (as_summary a)) =
      (replicate k 97 @ lit ''&am'') @ lit ''p;'' @ replicate 5 97"
    by (simp add: ent_defs lit_def)
  have len: "tg_len (replicate k 97 @ lit ''&am'') = int k + 3" by (simp add: lit_def cp_width_def)
  have "kept_prefix (int k + 3) 0 ((replicate k 97 @ lit ''&am'') @ lit ''p;'' @ replicate 5 97) =
      replicate k 97 @ lit ''&am'' @ kept_prefix (int k + 3) (int k + 3) (lit ''p;'' @ replicate 5 97)"
    using kept_prefix_append [of 0 "replicate k 97 @ lit ''&am''" "int k + 3" "lit ''p;'' @ replicate 5 97"] len
    by simp
  then have kept: "kept_prefix (int k + 3) 0 ((replicate k 97 @ lit ''&am'') @ lit ''p;'' @ replicate 5 97) =
      replicate k 97 @ lit ''&am''"
    by (simp add: lit_def cp_width_def)
  have "rstrip (replicate k 97 @ lit ''&am'') = replicate k 97 @ lit ''&am''"
    by (rule rstrip_id) (simp add: lit_def is_space_def space_cps_def)
  moreover have "tg_len ((replicate k 97 @ lit ''&am'') @ lit ''p;'' @ replicate 5 97) = int k + 10"
    unfolding tg_len_simps(3) [of "replicate k 97 @ lit ''&am''"] len by (simp add: lit_def cp_width_def)
  ultimately have "tg_truncate ((replicate k 97 @ lit ''&am'') @ lit ''p;'' @ replicate 5 97) (int k + 4) =
      (replicate k 97 @ lit ''&am'') @ ELLIPSIS"
    using kept by (simp add: tg_truncate_def add.commute del: append_assoc)
  moreover have room: "4096 - notification_overhead l a = int k + 4" using k by simp
  ultimately have sum: "notification_summary l a = replicate k 97 @ lit ''&am'' @ ELLIPSIS"
    unfolding summary_alt esc room by simp
  have "notification_overhead l a \<le> 4096" using assms(1) by simp
  from layout_fits [OF this] have "ln_text (build_notification l a) =
      (notification_header l @ SEPARATOR @ replicate k 97) @ lit ''&am'' @ ELLIPSIS @ SEPARATOR @ notification_meta l a"
    by (simp add: sum) (simp add: ELLIPSIS_def)
  then show ?thesis by blast
qed

definition entity_assessment :: assessment where
  "entity_assessment = sample_assessment\<lparr>as_summary :=
     replicate (nat (4092 - notification_overhead sample_listing sample_assessment)) 97 @ 38 # replicate 5 97\<rparr>"

theorem truncation_splits_entity_witness:
  "\<exists>u v. ln_text (build_notification sample_listing entity_assessment) = u @ lit ''&am'' @ ELLIPSIS @ v"
proof (rule truncation_splits_entity)
  have same: "notification_overhead sample_listing entity_assessment =
      notification_overhead sample_listing sample_assessment"
    by (simp add: notification_overhead_def notification_meta_def entity_assessment_def)
  show "notification_overhead sample_listing entity_assessment + 4 < 4096"
    unfolding same
    by (simp add: notification_overhead_def text_eval sample_assessment_def sample_listing_def strip_sample)
  show "as_summary entity_assessment =
      replicate (nat (4092 - notification_overhead sample_listing entity_assessment)) 97 @ 38 # replicate 5 97"
    unfolding same by (simp add: entity_assessment_def)
qed

section \<open>Budget\<close>

lemma amount_match_split:
  assumes "list_all (\<lambda>c. \<not> is_digit c) a" and "g \<noteq> []" and "is_digit (hd g)"
    and "list_all (\<lambda>c. is_digit c \<or> is_space c) g" and "b = [] \<or> \<not> (is_digit (hd b) \<or> is_space (hd b))"
  shows "amount_match (a @ g @ b) = Some g"
proof -
  obtain c cs where g: "g = c # cs" using assms(2) by (cases g) auto
  have "dropWhile (\<lambda>c. \<not> is_digit c) (a @ g @ b) = g @ b"
    using assms(1,3) g by (simp add: list_all_iff dropWhile_append2)
  moreover have "takeWhile (\<lambda>x. is_digit x \<or> is_space x) (cs @ b) = cs"
    using assms(4,5) g by (cases b) (auto simp: list_all_iff takeWhile_append2)
  ultimately show ?thesis by (simp add: amount_match_def g)
qed

text \<open>The amount of a budget is the first number of the price text: whatever stands before its first
  digit and after it, and whatever white space (thin and non-breaking included) separates its
  digits, the amount read is the number its digits spell.\<close>

theorem budget_amount:
  assumes "list_all (\<lambda>c. \<not> is_digit c) a" and "g \<noteq> []" and "is_digit (hd g)"
    and "list_all (\<lambda>c. is_digit c \<or> is_space c) g" and "b = [] \<or> \<not> (is_digit (hd b) \<or> is_space (hd b))"
    and "filter is_digit g = show_nat n" and "length (show_nat n) \<le> max_str_digits"
    and "from_price prefix (a @ g @ b) suffix = Inr (Some bg)"
  shows "bg_amount bg = Some (int n)"
proof -
  have "amount_match (a @ g @ b) = Some g" by (rule amount_match_split [OF assms(1-5)])
  with assms(6-8) show ?thesis
    by (auto simp: from_price_def Let_def only_digits_def py_int_show_nat split: if_splits)
qed

lemma digit_sample: "is_digit 48" "is_digit 49" "is_digit 50" "\<not> is_digit 160" "\<not> is_digit 32" "\<not> is_digit 0x20bd"
  by (simp_all add: is_digit_def digit_value_def zero_cps_def)

lemma space_sample: "is_space 160" "is_space 32" "\<not> is_space 0x20bd" "\<not> is_space 0x43e"
  by (simp_all add: is_space_def space_cps_def)

theorem budget_amount_witness:
  "\<exists>bg. from_price [0x43e, 0x442] ([] @ [49, 50, 160, 48, 48, 48, 32] @ [0x20bd]) [] = Inr (Some bg) \<and>
     bg_amount bg = Some (int 12000)"
proof -
  let ?g = "[49, 50, 160, 48, 48, 48, 32] :: ustr"
  have twelve: "show_nat 12000 = [49, 50, 48, 48, 48]" by (simp add: show_nat_small show_nat_big)
  have "amount_match ([] @ ?g @ [0x20bd]) = Some ?g"
    by (rule amount_match_split) (simp_all add: digit_sample space_sample)
  moreover have "py_int (only_digits ?g) = Inr (int 12000)"
    using py_int_show_nat [of 12000] by (simp add: twelve only_digits_def digit_sample max_str_digits_def)
  moreover have "strip [0x43e, 0x442, 32, 49, 50, 160, 48, 48, 48, 32, 0x20bd] =
      [0x43e, 0x442, 32, 49, 50, 160, 48, 48, 48, 32, 0x20bd]"
    by (rule strip_id) (simp add: space_sample)
  ultimately have "\<exists>bg. from_price [0x43e, 0x442] ([] @ ?g @ [0x20bd]) [] = Inr (Some bg)"
    by (simp add: from_price_def Let_def lit_def)
  then obtain bg where bg: "from_price [0x43e, 0x442] ([] @ ?g @ [0x20bd]) [] = Inr (Some bg)" by blast
  have "bg_amount bg = Some (int 12000)"
    by (rule budget_amount [OF _ _ _ _ _ _ _ bg])
      (simp_all add: digit_sample space_sample twelve max_str_digits_def)
  with bg show ?thesis by blast
qed

text \<open>Reading a price fails only on a number of more than 4300 digits; every other price, also one
  without any number, gives a budget or nothing to show.\<close>

theorem budget_total:
  "(\<exists>r. from_price prefix value suffix = Inr r) \<or>
   (\<exists>g. amount_match value = Some g \<and> max_str_digits < length (only_digits g))"
proof (cases "amount_match value")
  case None
  then show ?thesis by (simp add: from_price_def Let_def)
next
  case (Some g)
  have "is_digit (hd g)" "g \<noteq> []"
  proof -
    from Some obtain c cs where c: "dropWhile (\<lambda>c. \<not> is_digit c) value = c # cs"
      "g = c # takeWhile (\<lambda>x. is_digit x \<or> is_space x) cs"
      by (auto simp: amount_match_def split: list.splits)
    then have "is_digit c" by (metis hd_dropWhile list.discI list.sel(1))
    with c show "is_digit (hd g)" "g \<noteq> []" by simp_all
  qed
  then have "only_digits g \<noteq> []" by (cases g) (simp_all add: only_digits_def)
  moreover have "list_all is_digit (only_digits g)" by (simp add: only_digits_def list_all_iff)
  ultimately show ?thesis using Some by (auto simp: from_price_def Let_def py_int_def)
qed

end
