(* ===== verification/LlmWire.thy ===== *)
theory LlmWire
  imports CoreDomain LlmText
begin

text \<open>
  llm: the wire schemas (infrastructure/messaging/schemas.py) and the mapping to the domain
  (mapping.py). The order classes are declared here a second time, independently of
  order-core-service; \<open>contract_agrees\<close> proves that both read and write the same documents, and
  \<open>verdict_contract\<close> that core reads the verdicts llm writes.
\<close>

section \<open>Orders, as llm validates and dumps them\<close>

definition llm_read_price :: "pydantic \<Rightarrow> json \<Rightarrow> price option" where
  "llm_read_price P j = bind_o (as_object j) (\<lambda>fs.
     bind_o (defaulted (as_str P) [] ''prefix'' fs) (\<lambda>p.
     bind_o (defaulted (as_str P) [] ''value'' fs) (\<lambda>v.
     bind_o (defaulted (as_str P) [] ''suffix'' fs) (\<lambda>s.
       Some \<lparr>price_prefix = p, price_value = v, price_suffix = s\<rparr>))))"

definition llm_read_coordinates :: "pydantic \<Rightarrow> json \<Rightarrow> coordinates option" where
  "llm_read_coordinates P j = bind_o (as_object j) (\<lambda>fs.
     bind_o (required (as_float P) ''lat'' fs) (\<lambda>lat.
     bind_o (required (as_float P) ''lon'' fs) (\<lambda>lon.
       Some \<lparr>coord_lat = lat, coord_lon = lon\<rparr>)))"

definition llm_read_geo_place :: "pydantic \<Rightarrow> json \<Rightarrow> geo_place option" where
  "llm_read_geo_place P j = bind_o (as_object j) (\<lambda>fs.
     bind_o (defaulted (as_str P) [] ''prefix'' fs) (\<lambda>p.
     bind_o (defaulted (as_str P) [] ''suffix'' fs) (\<lambda>s.
     bind_o (defaulted (nullable (as_str P)) None ''address'' fs) (\<lambda>a.
       Some \<lparr>place_prefix = p, place_suffix = s, place_address = a\<rparr>))))"

definition llm_read_geo :: "pydantic \<Rightarrow> json \<Rightarrow> geo option" where
  "llm_read_geo P j = bind_o (as_object j) (\<lambda>fs.
     bind_o (defaulted (nullable (llm_read_geo_place P)) None ''remote'' fs) (\<lambda>r.
     bind_o (defaulted (nullable (llm_read_geo_place P)) None ''order_location'' fs) (\<lambda>l.
     bind_o (defaulted (nullable (llm_read_geo_place P)) None ''client_may_come'' fs) (\<lambda>c.
       Some \<lparr>geo_remote = r, geo_order_location = l, geo_client_may_come = c\<rparr>))))"

definition llm_read_client :: "pydantic \<Rightarrow> json \<Rightarrow> client option" where
  "llm_read_client P j = bind_o (as_object j) (\<lambda>fs.
     bind_o (defaulted (as_str P) [] ''name'' fs) (\<lambda>n.
     bind_o (defaulted (list_of (as_str P)) [] ''tags'' fs) (\<lambda>t.
       Some \<lparr>client_name = n, client_tags = t\<rparr>)))"

definition llm_read_badge :: "pydantic \<Rightarrow> json \<Rightarrow> badge option" where
  "llm_read_badge P j = bind_o (as_object j) (\<lambda>fs.
     bind_o (defaulted (as_str P) [] ''id'' fs) (\<lambda>i.
     bind_o (defaulted (as_str P) [] ''image_key'' fs) (\<lambda>k.
     bind_o (defaulted (as_str P) [] ''label'' fs) (\<lambda>l.
       Some \<lparr>badge_id = i, badge_image_key = k, badge_label = l\<rparr>))))"

definition llm_read_order :: "pydantic \<Rightarrow> json \<Rightarrow> wire_order option" where
  "llm_read_order P j = bind_o (as_object j) (\<lambda>fs.
     bind_o (required (as_str P) ''id'' fs) (\<lambda>i.
     bind_o (defaulted (as_str P) [] ''title'' fs) (\<lambda>t.
     bind_o (defaulted (as_str P) [] ''description'' fs) (\<lambda>d.
     bind_o (defaulted (nullable (llm_read_price P)) None ''price'' fs) (\<lambda>p.
     bind_o (defaulted (llm_read_geo P) empty_geo ''geo'' fs) (\<lambda>g.
     bind_o (defaulted (llm_read_client P) empty_client ''client'' fs) (\<lambda>c.
     bind_o (defaulted (list_of (llm_read_badge P)) [] ''badges'' fs) (\<lambda>b.
     bind_o (defaulted (nullable (as_str P)) None ''schedule'' fs) (\<lambda>sch.
     bind_o (defaulted (as_int P) 0 ''last_update'' fs) (\<lambda>u.
     bind_o (defaulted (as_float P) 0 ''score'' fs) (\<lambda>sc.
     bind_o (defaulted (as_bool P) False ''is_fresh'' fs) (\<lambda>fr.
     bind_o (defaulted (as_bool P) False ''is_viewed'' fs) (\<lambda>vi.
     bind_o (defaulted (nullable (llm_read_coordinates P)) None ''coordinates'' fs) (\<lambda>co.
       Some \<lparr>wo_id = i, wo_title = t, wo_description = d, wo_price = p, wo_geo = g,
         wo_client = c, wo_badges = b, wo_schedule = sch, wo_last_update = u, wo_score = sc,
         wo_is_fresh = fr, wo_is_viewed = vi, wo_coordinates = co\<rparr>))))))))))))))"

definition llm_read_parse_result :: "pydantic \<Rightarrow> json \<Rightarrow> parse_result_message option" where
  "llm_read_parse_result P j = bind_o (as_object j) (\<lambda>fs.
     bind_o (required (as_str P) ''request_id'' fs) (\<lambda>r.
     bind_o (defaulted (as_int P) 0 ''fetched_at'' fs) (\<lambda>f.
     bind_o (defaulted (as_int P) 0 ''total_count'' fs) (\<lambda>t.
     bind_o (defaulted (nullable (as_str P)) None ''next_cursor'' fs) (\<lambda>n.
     bind_o (defaulted (list_of (llm_read_order P)) [] ''orders'' fs) (\<lambda>os.
       Some \<lparr>pr_request_id = r, pr_fetched_at = f, pr_total_count = t, pr_next_cursor = n,
         pr_orders = os\<rparr>))))))"

section \<open>Dumping\<close>

definition llm_dump_price :: "price \<Rightarrow> json" where
  "llm_dump_price p = JObj [(lit ''prefix'', JStr (price_prefix p)), (lit ''value'', JStr (price_value p)),
     (lit ''suffix'', JStr (price_suffix p))]"

definition llm_dump_coordinates :: "coordinates \<Rightarrow> json" where
  "llm_dump_coordinates c = JObj [(lit ''lat'', JFloat (coord_lat c)), (lit ''lon'', JFloat (coord_lon c))]"

definition llm_dump_geo_place :: "geo_place \<Rightarrow> json" where
  "llm_dump_geo_place p = JObj [(lit ''prefix'', JStr (place_prefix p)),
     (lit ''suffix'', JStr (place_suffix p)), (lit ''address'', opt_json JStr (place_address p))]"

definition llm_dump_geo :: "geo \<Rightarrow> json" where
  "llm_dump_geo g = JObj [(lit ''remote'', opt_json llm_dump_geo_place (geo_remote g)),
     (lit ''order_location'', opt_json llm_dump_geo_place (geo_order_location g)),
     (lit ''client_may_come'', opt_json llm_dump_geo_place (geo_client_may_come g))]"

definition llm_dump_client :: "client \<Rightarrow> json" where
  "llm_dump_client c = JObj [(lit ''name'', JStr (client_name c)),
     (lit ''tags'', JList (map JStr (client_tags c)))]"

definition llm_dump_badge :: "badge \<Rightarrow> json" where
  "llm_dump_badge b = JObj [(lit ''id'', JStr (badge_id b)), (lit ''image_key'', JStr (badge_image_key b)),
     (lit ''label'', JStr (badge_label b))]"

definition llm_dump_order :: "wire_order \<Rightarrow> json" where
  "llm_dump_order w = JObj [
     (lit ''id'', JStr (wo_id w)), (lit ''title'', JStr (wo_title w)),
     (lit ''description'', JStr (wo_description w)),
     (lit ''price'', opt_json llm_dump_price (wo_price w)), (lit ''geo'', llm_dump_geo (wo_geo w)),
     (lit ''client'', llm_dump_client (wo_client w)),
     (lit ''badges'', JList (map llm_dump_badge (wo_badges w))),
     (lit ''schedule'', opt_json JStr (wo_schedule w)),
     (lit ''last_update'', JInt (wo_last_update w)), (lit ''score'', JFloat (wo_score w)),
     (lit ''is_fresh'', JBool (wo_is_fresh w)), (lit ''is_viewed'', JBool (wo_is_viewed w)),
     (lit ''coordinates'', opt_json llm_dump_coordinates (wo_coordinates w))]"

definition llm_dump_parse_result :: "parse_result_message \<Rightarrow> json" where
  "llm_dump_parse_result m = JObj [
     (lit ''request_id'', JStr (pr_request_id m)), (lit ''fetched_at'', JInt (pr_fetched_at m)),
     (lit ''total_count'', JInt (pr_total_count m)),
     (lit ''next_cursor'', opt_json JStr (pr_next_cursor m)),
     (lit ''orders'', JList (map llm_dump_order (pr_orders m)))]"

section \<open>The verdict\<close>

record llm_notification_message =
  lnm_text :: ustr
  lnm_parse_mode :: "llm_parse_mode option"
  lnm_disable_notification :: "bool option"
  lnm_disable_web_page_preview :: "bool option"
  lnm_message_thread_id :: "int option"

record llm_result_message =
  lrm_order_id :: ustr
  lrm_suitability_score :: int
  lrm_notification :: llm_notification_message

fun llm_parse_mode_value :: "llm_parse_mode \<Rightarrow> ustr" where
  "llm_parse_mode_value L_HTML = lit ''HTML''"
| "llm_parse_mode_value L_MarkdownV2 = lit ''MarkdownV2''"
| "llm_parse_mode_value L_Markdown = lit ''Markdown''"

definition from_command :: "llm_notification \<Rightarrow> llm_notification_message" where
  "from_command c = \<lparr>lnm_text = ln_text c, lnm_parse_mode = Some (ln_parse_mode c),
     lnm_disable_notification = None,
     lnm_disable_web_page_preview = Some (ln_disable_web_page_preview c), lnm_message_thread_id = None\<rparr>"

definition from_result :: "assessment_result \<Rightarrow> llm_result_message" where
  "from_result r = \<lparr>lrm_order_id = res_order_id r, lrm_suitability_score = res_suitability_score r,
     lrm_notification = from_command (res_notification r)\<rparr>"

text \<open>\<open>model_dump(by_alias=True, exclude_none=True)\<close>.\<close>

definition dump_llm_notification :: "llm_notification_message \<Rightarrow> json" where
  "dump_llm_notification m = JObj (exclude_none [
     (lit ''text'', JStr (lnm_text m)),
     (lit ''parseMode'', opt_json (\<lambda>p. JStr (llm_parse_mode_value p)) (lnm_parse_mode m)),
     (lit ''disableNotification'', opt_json JBool (lnm_disable_notification m)),
     (lit ''disableWebPagePreview'', opt_json JBool (lnm_disable_web_page_preview m)),
     (lit ''messageThreadId'', opt_json JInt (lnm_message_thread_id m))])"

definition dump_llm_result :: "llm_result_message \<Rightarrow> json" where
  "dump_llm_result m = JObj (exclude_none [
     (lit ''order_id'', JStr (lrm_order_id m)),
     (lit ''suitability_score'', JInt (lrm_suitability_score m)),
     (lit ''notification'', dump_llm_notification (lrm_notification m))])"

section \<open>Mapping to the domain\<close>

fun first_place :: "geo_place option list \<Rightarrow> ustr option" where
  "first_place [] = None"
| "first_place (p # ps) = (case p of None \<Rightarrow> first_place ps
     | Some place \<Rightarrow> if strip (place_prefix place) \<noteq> [] then Some (strip (place_prefix place)) else first_place ps)"

definition geo_location :: "geo \<Rightarrow> ustr option" where
  "geo_location g = first_place [geo_order_location g, geo_remote g, geo_client_may_come g]"

definition order_to_listing :: "wire_order \<Rightarrow> exn + listing" where
  "order_to_listing w =
     (case (case wo_price w of None \<Rightarrow> Inr None
        | Some p \<Rightarrow> from_price (price_prefix p) (price_value p) (price_suffix p)) of
       Inl e \<Rightarrow> Inl e
     | Inr budget \<Rightarrow> Inr \<lparr>ls_id = wo_id w, ls_title = wo_title w, ls_description = wo_description w,
         ls_budget = budget, ls_is_remote = (geo_remote (wo_geo w) \<noteq> None),
         ls_location = geo_location (wo_geo w), ls_client_tags = client_tags (wo_client w)\<rparr>)"

lemma order_to_listing_id: "order_to_listing w = Inr l \<Longrightarrow> ls_id l = wo_id w"
  by (auto simp: order_to_listing_def split: sum.splits)

section \<open>The two contracts agree\<close>

lemma llm_read_price_eq: "llm_read_price = read_price"
  by (intro ext) (simp add: llm_read_price_def read_price_def)

lemma llm_read_coordinates_eq: "llm_read_coordinates = read_coordinates"
  by (intro ext) (simp add: llm_read_coordinates_def read_coordinates_def llm_read_price_eq)

lemma llm_read_geo_place_eq: "llm_read_geo_place = read_geo_place"
  by (intro ext) (simp add: llm_read_geo_place_def read_geo_place_def llm_read_price_eq llm_read_coordinates_eq)

lemma llm_read_geo_eq: "llm_read_geo = read_geo"
  by (intro ext) (simp add: llm_read_geo_def read_geo_def llm_read_price_eq llm_read_coordinates_eq llm_read_geo_place_eq)

lemma llm_read_client_eq: "llm_read_client = read_client"
  by (intro ext) (simp add: llm_read_client_def read_client_def llm_read_price_eq llm_read_coordinates_eq llm_read_geo_place_eq llm_read_geo_eq)

lemma llm_read_badge_eq: "llm_read_badge = read_badge"
  by (intro ext) (simp add: llm_read_badge_def read_badge_def llm_read_price_eq llm_read_coordinates_eq llm_read_geo_place_eq llm_read_geo_eq llm_read_client_eq)

lemma llm_read_order_eq: "llm_read_order = read_order"
  by (intro ext) (simp add: llm_read_order_def read_order_def llm_read_price_eq llm_read_coordinates_eq llm_read_geo_place_eq llm_read_geo_eq llm_read_client_eq llm_read_badge_eq)

lemma llm_read_parse_result_eq: "llm_read_parse_result = read_parse_result"
  by (intro ext) (simp add: llm_read_parse_result_def read_parse_result_def llm_read_price_eq llm_read_coordinates_eq llm_read_geo_place_eq llm_read_geo_eq llm_read_client_eq llm_read_badge_eq llm_read_order_eq)

lemma llm_dump_price_eq: "llm_dump_price = dump_price"
  by (intro ext) (simp add: llm_dump_price_def dump_price_def llm_read_price_eq llm_read_coordinates_eq llm_read_geo_place_eq llm_read_geo_eq llm_read_client_eq llm_read_badge_eq llm_read_order_eq llm_read_parse_result_eq)

lemma llm_dump_coordinates_eq: "llm_dump_coordinates = dump_coordinates"
  by (intro ext) (simp add: llm_dump_coordinates_def dump_coordinates_def llm_read_price_eq llm_read_coordinates_eq llm_read_geo_place_eq llm_read_geo_eq llm_read_client_eq llm_read_badge_eq llm_read_order_eq llm_read_parse_result_eq llm_dump_price_eq)

lemma llm_dump_geo_place_eq: "llm_dump_geo_place = dump_geo_place"
  by (intro ext) (simp add: llm_dump_geo_place_def dump_geo_place_def llm_read_price_eq llm_read_coordinates_eq llm_read_geo_place_eq llm_read_geo_eq llm_read_client_eq llm_read_badge_eq llm_read_order_eq llm_read_parse_result_eq llm_dump_price_eq llm_dump_coordinates_eq)

lemma llm_dump_geo_eq: "llm_dump_geo = dump_geo"
  by (intro ext) (simp add: llm_dump_geo_def dump_geo_def llm_read_price_eq llm_read_coordinates_eq llm_read_geo_place_eq llm_read_geo_eq llm_read_client_eq llm_read_badge_eq llm_read_order_eq llm_read_parse_result_eq llm_dump_price_eq llm_dump_coordinates_eq llm_dump_geo_place_eq)

lemma llm_dump_client_eq: "llm_dump_client = dump_client"
  by (intro ext) (simp add: llm_dump_client_def dump_client_def llm_read_price_eq llm_read_coordinates_eq llm_read_geo_place_eq llm_read_geo_eq llm_read_client_eq llm_read_badge_eq llm_read_order_eq llm_read_parse_result_eq llm_dump_price_eq llm_dump_coordinates_eq llm_dump_geo_place_eq llm_dump_geo_eq)

lemma llm_dump_badge_eq: "llm_dump_badge = dump_badge"
  by (intro ext) (simp add: llm_dump_badge_def dump_badge_def llm_read_price_eq llm_read_coordinates_eq llm_read_geo_place_eq llm_read_geo_eq llm_read_client_eq llm_read_badge_eq llm_read_order_eq llm_read_parse_result_eq llm_dump_price_eq llm_dump_coordinates_eq llm_dump_geo_place_eq llm_dump_geo_eq llm_dump_client_eq)

lemma llm_dump_order_eq: "llm_dump_order = dump_order"
  by (intro ext) (simp add: llm_dump_order_def dump_order_def llm_read_price_eq llm_read_coordinates_eq llm_read_geo_place_eq llm_read_geo_eq llm_read_client_eq llm_read_badge_eq llm_read_order_eq llm_read_parse_result_eq llm_dump_price_eq llm_dump_coordinates_eq llm_dump_geo_place_eq llm_dump_geo_eq llm_dump_client_eq llm_dump_badge_eq)

lemma llm_dump_parse_result_eq: "llm_dump_parse_result = dump_parse_result"
  by (intro ext) (simp add: llm_dump_parse_result_def dump_parse_result_def llm_read_price_eq llm_read_coordinates_eq llm_read_geo_place_eq llm_read_geo_eq llm_read_client_eq llm_read_badge_eq llm_read_order_eq llm_read_parse_result_eq llm_dump_price_eq llm_dump_coordinates_eq llm_dump_geo_place_eq llm_dump_geo_eq llm_dump_client_eq llm_dump_badge_eq llm_dump_order_eq)

text \<open>C32. The two services declare the queue assess.requests separately and agree on it: llm reads every
  document as core does, writes every message as core does, and therefore reads back what core
  sends for one order as a batch of exactly that order.\<close>

theorem contract_agrees:
  "llm_read_parse_result P = read_parse_result P \<and> llm_dump_parse_result = dump_parse_result \<and>
   (pydantic_ok P \<longrightarrow> w \<in> set (pr_orders m) \<longrightarrow>
     (\<exists>ord \<in> set (to_incoming_orders m). io_external_id ord = wo_id w \<and>
        llm_read_parse_result P (assess_request_payload ord) = Some \<lparr>pr_request_id = pr_request_id m,
          pr_fetched_at = pr_fetched_at m, pr_total_count = 1, pr_next_cursor = None, pr_orders = [w]\<rparr>))"
proof -
  define ord where "ord = \<lparr>io_source = PROFI, io_external_id = wo_id w, io_payload = dump_order w,
     io_request_id = Some (pr_request_id m), io_fetched_at = pr_fetched_at m\<rparr>"
  have "ord \<in> set (to_incoming_orders m)" if "w \<in> set (pr_orders m)"
    using that by (auto simp: to_incoming_orders_def ord_def)
  moreover have "io_payload ord = dump_order w" "io_external_id ord = wo_id w" by (simp_all add: ord_def)
  ultimately show ?thesis
    using read_assess_request_payload [of P w m ord] by (auto simp: llm_read_parse_result_eq llm_dump_parse_result_eq)
qed

definition sample_wire :: wire_order where
  "sample_wire = \<lparr>wo_id = lit ''1'', wo_title = [], wo_description = [], wo_price = None, wo_geo = empty_geo,
     wo_client = empty_client, wo_badges = [], wo_schedule = None, wo_last_update = 0, wo_score = 0,
     wo_is_fresh = False, wo_is_viewed = False, wo_coordinates = None\<rparr>"

definition sample_batch :: parse_result_message where
  "sample_batch = \<lparr>pr_request_id = lit ''r'', pr_fetched_at = 7, pr_total_count = 1, pr_next_cursor = None,
     pr_orders = [sample_wire]\<rparr>"

theorem contract_agrees_witness:
  "\<exists>ord \<in> set (to_incoming_orders sample_batch). io_external_id ord = lit ''1'' \<and>
     llm_read_parse_result strict (assess_request_payload ord) = Some sample_batch"
proof -
  have batch: "\<lparr>pr_request_id = pr_request_id sample_batch, pr_fetched_at = pr_fetched_at sample_batch,
      pr_total_count = 1, pr_next_cursor = None, pr_orders = [sample_wire]\<rparr> = sample_batch"
    and "sample_wire \<in> set (pr_orders sample_batch)"
    by (simp_all add: sample_batch_def)
  moreover have "wo_id sample_wire = lit ''1''" by (simp add: sample_wire_def)
  ultimately show ?thesis
    using contract_agrees [of strict sample_wire sample_batch, unfolded batch] pydantic_ok_strict by metis
qed

definition core_command :: "llm_notification \<Rightarrow> notification_command" where
  "core_command n = \<lparr>nc_text = ln_text n,
     nc_parse_mode = Some (case ln_parse_mode n of L_HTML \<Rightarrow> HTML | L_MarkdownV2 \<Rightarrow> MarkdownV2 | L_Markdown \<Rightarrow> Markdown),
     nc_disable_notification = None, nc_disable_web_page_preview = Some (ln_disable_web_page_preview n),
     nc_message_thread_id = None\<rparr>"

lemma read_llm_notification:
  assumes "pydantic_ok P"
  shows "map_option command_of_message (read_notification P (dump_llm_notification (from_command n))) =
    Some (core_command n)"
  by (cases "ln_parse_mode n") (simp_all add: read_notification_def dump_llm_notification_def from_command_def
      core_command_def command_of_message_def field_defs pydantic_okD [OF assms] read_parse_mode_def)

lemma read_llm_result:
  assumes "pydantic_ok P" and "0 \<le> res_suitability_score r" and "res_suitability_score r \<le> 100"
  shows "\<exists>m. read_assessment_result P (dump_llm_result (from_result r)) = Some m \<and>
    to_assessment_outcome P m = Inr \<lparr>ao_order_id = res_order_id r,
      ao_suitability_score = res_suitability_score r, ao_notification = core_command (res_notification r)\<rparr>"
proof -
  obtain n where n: "read_notification P (dump_llm_notification (from_command (res_notification r))) = Some n"
      "command_of_message n = core_command (res_notification r)"
    using read_llm_notification [OF assms(1), of "res_notification r"] by auto
  have "dump_llm_notification x \<noteq> JNull" for x by (simp add: dump_llm_notification_def)
  with n(1) have "read_assessment_result P (dump_llm_result (from_result r)) = Some \<lparr>ar_order_id = res_order_id r,
      ar_suitability_score = res_suitability_score r, ar_notification = n\<rparr>"
    by (simp add: read_assessment_result_def dump_llm_result_def from_result_def field_defs pydantic_okD [OF assms(1)])
  then show ?thesis using to_assessment_outcome_Inr [of "\<lparr>ar_order_id = res_order_id r,
      ar_suitability_score = res_suitability_score r, ar_notification = n\<rparr>" P] assms(2,3) n(2) by simp
qed

text \<open>C33. Core understands the verdicts of llm: the message llm publishes for a result with a score in
  0..100 is read by core as that order, that score and that text, with the parse mode and the
  preview flag kept, and building core's domain object from it succeeds.\<close>

theorem verdict_contract:
  assumes "pydantic_ok P" and "0 \<le> res_suitability_score r" and "res_suitability_score r \<le> 100"
  shows "\<exists>m. read_assessment_result P (dump_llm_result (from_result r)) = Some m \<and>
    to_assessment_outcome P m = Inr \<lparr>ao_order_id = res_order_id r,
      ao_suitability_score = res_suitability_score r, ao_notification = core_command (res_notification r)\<rparr>"
  by (rule read_llm_result [OF assms])

theorem verdict_contract_witness:
  "\<exists>m. read_assessment_result strict (dump_llm_result (from_result (build_result sample_listing sample_assessment))) =
     Some m \<and> ar_order_id m = lit ''7'' \<and> ar_suitability_score m = 90"
proof -
  let ?r = "build_result sample_listing sample_assessment"
  have "0 \<le> res_suitability_score ?r" "res_suitability_score ?r \<le> 100"
    by (simp_all add: build_result_def sample_assessment_def)
  from verdict_contract [OF pydantic_ok_strict this] show ?thesis
    by (auto simp: build_result_def sample_assessment_def sample_listing_def to_assessment_outcome_def
        AssessmentOutcome_def Let_def split: if_splits)
qed

end
