(* ===== verification/LlmPrompts.thy ===== *)
theory LlmPrompts
  imports LlmDomain PyJoin
begin

text \<open>
  llm: the prompt (infrastructure/llm/prompts.py). The Russian texts are written as code points,
  cut into the pieces the code puts together; \<open>str.format\<close> replaces the only field of the
  template, so the template is the text before it and the text after it.
\<close>

section \<open>Texts\<close>

definition label_strong :: ustr where
  "label_strong =
     [0x421, 0x438, 0x43b, 0x44c, 0x43d, 0x44b, 0x435, 32, 0x43d, 0x430, 0x432, 0x44b, 0x43a, 0x438]"

definition label_working :: ustr where
  "label_working =
     [0x420, 0x430, 0x431, 0x43e, 0x447, 0x438, 0x435, 32, 0x43d, 0x430, 0x432, 0x44b, 0x43a, 0x438]"

definition label_unsupported :: ustr where
  "label_unsupported =
     [0x41d, 0x435, 32, 0x43f, 0x43e, 0x434, 0x434, 0x435, 0x440, 0x436, 0x438, 0x432, 0x430, 0x435,
     0x43c]"

definition label_project_types :: ustr where
  "label_project_types =
     [0x422, 0x438, 0x43f, 0x44b, 32, 0x43f, 0x440, 0x43e, 0x435, 0x43a, 0x442, 0x43e, 0x432]"

definition label_infrastructure :: ustr where
  "label_infrastructure =
     [0x41e, 0x43f, 0x44b, 0x442, 32, 0x438, 0x43d, 0x444, 0x440, 0x430, 0x441, 0x442, 0x440, 0x443,
     0x43a, 0x442, 0x443, 0x440, 0x44b]"

definition label_integrations :: ustr where
  "label_integrations =
     [0x41e, 0x43f, 0x44b, 0x442, 32, 0x438, 0x43d, 0x442, 0x435, 0x433, 0x440, 0x430, 0x446, 0x438,
     0x439]"

definition label_preferred :: ustr where
  "label_preferred =
     [0x41f, 0x440, 0x435, 0x434, 0x43f, 0x43e, 0x447, 0x442, 0x438, 0x442, 0x435, 0x43b, 0x44c, 0x43d,
     0x43e]"

definition label_rejected :: ustr where
  "label_rejected =
     [0x41e, 0x442, 0x43a, 0x43b, 0x43e, 0x43d, 0x44f, 0x435, 0x43c]"

definition label_title :: ustr where
  "label_title =
     [0x417, 0x430, 0x433, 0x43e, 0x43b, 0x43e, 0x432, 0x43e, 0x43a, 58, 32]"

definition label_description :: ustr where
  "label_description =
     [0x41e, 0x43f, 0x438, 0x441, 0x430, 0x43d, 0x438, 0x435, 58, 32]"

definition label_budget :: ustr where
  "label_budget =
     [0x411, 0x44e, 0x434, 0x436, 0x435, 0x442, 58, 32]"

definition label_format_remote :: ustr where
  "label_format_remote =
     [0x424, 0x43e, 0x440, 0x43c, 0x430, 0x442, 58, 32, 0x443, 0x434, 0x430, 0x43b, 0x451, 0x43d, 0x43d,
     0x43e]"

definition label_location :: ustr where
  "label_location =
     [0x41b, 0x43e, 0x43a, 0x430, 0x446, 0x438, 0x44f, 58, 32]"

definition label_client_tags :: ustr where
  "label_client_tags =
     [0x41c, 0x435, 0x442, 0x43a, 0x438, 32, 0x43a, 0x43b, 0x438, 0x435, 0x43d, 0x442, 0x430, 58, 32]"

definition system_before_profile :: ustr where
  "system_before_profile =
     [0x422, 0x44b, 32, 0x43f, 0x43e, 0x43c, 0x43e, 0x449, 0x43d, 0x438, 0x43a, 32, 0x444, 0x440, 0x438,
     0x43b, 0x430, 0x43d, 0x441, 0x435, 0x440, 0x430, 45, 0x440, 0x430, 0x437, 0x440, 0x430, 0x431,
     0x43e, 0x442, 0x447, 0x438, 0x43a, 0x430, 46, 32, 0x41f, 0x43e, 32, 0x437, 0x430, 0x43a, 0x430,
     0x437, 0x443, 32, 0x441, 32, 0x434, 0x43e, 0x441, 0x43a, 0x438] @
     lit '' Profi.ru '' @
     [0x43e, 0x446, 0x435, 0x43d, 0x438, 44, 10, 0x43d, 0x430, 0x441, 0x43a, 0x43e, 0x43b, 0x44c, 0x43a,
     0x43e, 32, 0x43e, 0x43d, 32, 0x43f, 0x43e, 0x434, 0x445, 0x43e, 0x434, 0x438, 0x442, 32, 0x438,
     0x441, 0x43f, 0x43e, 0x43b, 0x43d, 0x438, 0x442, 0x435, 0x43b, 0x44e, 44, 32, 0x438, 32, 0x437,
     0x430, 0x43f, 0x43e, 0x43b, 0x43d, 0x438, 32, 0x441, 0x442, 0x440, 0x443, 0x43a, 0x442, 0x443,
     0x440, 0x443, 32, 0x441, 0x442, 0x440, 0x43e, 0x433, 0x43e, 32, 0x43f, 0x43e, 32, 0x441, 0x445,
     0x435, 0x43c, 0x435, 46, 10, 10, 0x41f, 0x440, 0x43e, 0x444, 0x438, 0x43b, 0x44c, 32, 0x438, 0x441,
     0x43f, 0x43e, 0x43b, 0x43d, 0x438, 0x442, 0x435, 0x43b, 0x44f, 58, 10]"

definition system_after_profile :: ustr where
  "system_after_profile =
     [10, 10, 0x41f, 0x440, 0x430, 0x432, 0x438, 0x43b, 0x430, 58, 10] @
     lit ''- detected_skills '' @
     [0x2014, 32, 0x43a, 0x430, 0x43a, 0x438, 0x435, 32, 0x442, 0x435, 0x445, 0x43d, 0x43e, 0x43b, 0x43e,
     0x433, 0x438, 0x438, 47, 0x43d, 0x430, 0x432, 0x44b, 0x43a, 0x438, 32, 0x440, 0x435, 0x430, 0x43b,
     0x44c, 0x43d, 0x43e, 32, 0x442, 0x440, 0x435, 0x431, 0x443, 0x435, 0x442, 32, 0x437, 0x430, 0x43a,
     0x430, 0x437, 46, 10] @
     lit ''- unsupported_hits '' @
     [0x2014, 32, 0x442, 0x435, 32, 0x438, 0x437, 32, 0x43d, 0x438, 0x445, 44, 32, 0x447, 0x442, 0x43e,
     32, 0x43f, 0x43e, 0x43f, 0x430, 0x434, 0x430, 0x44e, 0x442, 32, 0x432, 32, 0xab, 0x41d, 0x435, 32,
     0x43f, 0x43e, 0x434, 0x434, 0x435, 0x440, 0x436, 0x438, 0x432, 0x430, 0x435, 0x43c, 0xbb, 46, 10] @
     lit ''- is_rejected_type = true, '' @
     [0x435, 0x441, 0x43b, 0x438, 32, 0x437, 0x430, 0x43a, 0x430, 0x437, 32, 0x43e, 0x442, 0x43d, 0x43e,
     0x441, 0x438, 0x442, 0x441, 0x44f, 32, 0x43a, 32, 0xab, 0x41e, 0x442, 0x43a, 0x43b, 0x43e, 0x43d,
     0x44f, 0x435, 0x43c, 0xbb, 32, 40, 0x443, 0x447, 0x435, 0x431, 0x43d, 0x44b, 0x435, 32, 0x440,
     0x430, 0x431, 0x43e, 0x442, 0x44b, 44, 10, 32, 32, 0x447, 0x438, 0x441, 0x442, 0x44b, 0x439, 32,
     0x444, 0x440, 0x43e, 0x43d, 0x442, 0x435, 0x43d, 0x434, 44, 32, 0x434, 0x438, 0x437, 0x430, 0x439,
     0x43d, 44, 32, 0x43d, 0x430, 0x43a, 0x440, 0x443, 0x442, 0x43a, 0x430, 41, 46, 10] @
     lit ''- suitability_score (0-100): '' @
     [0x432, 0x44b, 0x448, 0x435, 32, 0x2014, 32, 0x435, 0x441, 0x43b, 0x438, 32, 0x437, 0x430, 0x43a,
     0x430, 0x437, 32, 0x43b, 0x43e, 0x436, 0x438, 0x442, 0x441, 0x44f, 32, 0x43d, 0x430, 32, 0x441,
     0x438, 0x43b, 0x44c, 0x43d, 0x44b, 0x435, 32, 0x43d, 0x430, 0x432, 0x44b, 0x43a, 0x438, 32, 0x438,
     10, 32, 32, 0x43f, 0x440, 0x435, 0x434, 0x43f, 0x43e, 0x447, 0x442, 0x438, 0x442, 0x435, 0x43b,
     0x44c, 0x43d, 0x44b, 0x435, 32, 0x43f, 0x440, 0x43e, 0x435, 0x43a, 0x442, 0x44b, 59, 32, 0x43d,
     0x438, 0x436, 0x435, 32, 0x2014, 32, 0x435, 0x441, 0x43b, 0x438, 32, 0x441, 0x43e, 0x432, 0x43f,
     0x430, 0x434, 0x435, 0x43d, 0x438, 0x435, 32, 0x441, 0x43b, 0x430, 0x431, 0x43e, 0x435, 46, 10] @
     lit ''- summary '' @
     [0x2014, 32, 49, 45, 50, 32, 0x43f, 0x440, 0x435, 0x434, 0x43b, 0x43e, 0x436, 0x435, 0x43d, 0x438,
     0x44f, 32, 0x43f, 0x43e, 45, 0x440, 0x443, 0x441, 0x441, 0x43a, 0x438, 44, 32, 0x441, 0x443, 0x442,
     0x44c, 32, 0x437, 0x430, 0x43a, 0x430, 0x437, 0x430, 46, 32, 0x41d, 0x435, 32, 0x432, 0x44b, 0x434,
     0x443, 0x43c, 0x44b, 0x432, 0x430, 0x439, 32, 0x444, 0x430, 0x43a, 0x442, 0x43e, 0x432, 46]"

definition em_dash :: ustr where
  "em_dash = [0x2014]"

section \<open>Blocks\<close>

definition profile_line :: "ustr \<Rightarrow> ustr list \<Rightarrow> ustr" where
  "profile_line label items = lit ''- '' @ label @ lit '': '' @
     (if items \<noteq> [] then py_join (lit '', '') items else em_dash)"

definition profile_block :: "contractor_profile \<Rightarrow> ustr" where
  "profile_block p = py_join [10] [
     profile_line label_strong (cp_strong_skills p),
     profile_line label_working (cp_working_skills p),
     profile_line label_unsupported (cp_unsupported_skills p),
     profile_line label_project_types (cp_project_types p),
     profile_line label_infrastructure (cp_infrastructure_experience p),
     profile_line label_integrations (cp_integrations_experience p),
     profile_line label_preferred (cp_preferred_projects p),
     profile_line label_rejected (cp_rejected_projects p)]"

definition listing_block :: "listing \<Rightarrow> ustr" where
  "listing_block l = py_join [10] (
     [label_title @ ls_title l, label_description @ ls_description l] @
     (case ls_budget l of None \<Rightarrow> [] | Some b \<Rightarrow> [label_budget @ bg_raw b]) @
     (if ls_is_remote l then [label_format_remote] else []) @
     (case ls_location l of None \<Rightarrow> [] | Some place \<Rightarrow>
        if place \<noteq> [] then [label_location @ place] else []) @
     (if ls_client_tags l \<noteq> [] then [label_client_tags @ py_join (lit '', '') (ls_client_tags l)] else []))"

definition build_messages :: "listing \<Rightarrow> contractor_profile \<Rightarrow> (ustr \<times> ustr) list" where
  "build_messages l p =
     [(lit ''system'', system_before_profile @ profile_block p @ system_after_profile),
      (lit ''human'', listing_block l)]"

section \<open>Nothing is left out\<close>

lemma sublist_profile_line: "x \<in> set items \<Longrightarrow> sublist x (profile_line label items)"
  by (auto simp: profile_line_def sublist_append sublist_py_join)

definition profile_terms :: "contractor_profile \<Rightarrow> ustr list" where
  "profile_terms p = cp_strong_skills p @ cp_working_skills p @ cp_unsupported_skills p @ cp_project_types p @
     cp_infrastructure_experience p @ cp_integrations_experience p @ cp_preferred_projects p @ cp_rejected_projects p"

definition profile_pairs :: "contractor_profile \<Rightarrow> (ustr \<times> ustr list) list" where
  "profile_pairs p = [(label_strong, cp_strong_skills p), (label_working, cp_working_skills p),
     (label_unsupported, cp_unsupported_skills p), (label_project_types, cp_project_types p),
     (label_infrastructure, cp_infrastructure_experience p),
     (label_integrations, cp_integrations_experience p), (label_preferred, cp_preferred_projects p),
     (label_rejected, cp_rejected_projects p)]"

lemma profile_block_term:
  assumes "x \<in> set (profile_terms p)"
  shows "sublist x (profile_block p)"
proof -
  have "profile_terms p = concat (map snd (profile_pairs p))"
    by (simp add: profile_terms_def profile_pairs_def)
  with assms obtain label items where "(label, items) \<in> set (profile_pairs p)" "x \<in> set items" by auto
  then have "sublist x (py_join [10] (map (\<lambda>(label, items). profile_line label items) (profile_pairs p)))"
    by (intro sublist_trans_join [OF sublist_profile_line]) force+
  then show ?thesis by (simp add: profile_pairs_def profile_block_def)
qed

text \<open>The model is told everything: every skill, project type and preference of the profile stands in
  the system message as it is, and title, description, shown budget and every tag of the listing
  stand in the user message, with no formatting of their own braces.\<close>

theorem prompt_complete:
  "\<exists>system human. build_messages l p = [(lit ''system'', system), (lit ''human'', human)] \<and>
     (\<forall>x \<in> set (profile_terms p). sublist x system) \<and>
     sublist (ls_title l) human \<and> sublist (ls_description l) human \<and>
     (\<forall>b. ls_budget l = Some b \<longrightarrow> sublist (bg_raw b) human) \<and> (\<forall>x \<in> set (ls_client_tags l). sublist x human)"
proof -
  let ?human = "listing_block l"
  have system: "\<forall>x \<in> set (profile_terms p). sublist x (system_before_profile @ profile_block p @ system_after_profile)"
    using profile_block_term by (auto simp: sublist_append)
  have part: "sublist x ?human" if "sublist x y" "y \<in> set ([label_title @ ls_title l, label_description @ ls_description l] @
     (case ls_budget l of None \<Rightarrow> [] | Some b \<Rightarrow> [label_budget @ bg_raw b]) @
     (if ls_is_remote l then [label_format_remote] else []) @
     (case ls_location l of None \<Rightarrow> [] | Some place \<Rightarrow>
        if place \<noteq> [] then [label_location @ place] else []) @
     (if ls_client_tags l \<noteq> [] then [label_client_tags @ py_join (lit '', '') (ls_client_tags l)] else []))" for x y
    unfolding listing_block_def using that by (rule sublist_trans_join)
  have tail: "sublist x (u @ x)" for x u :: ustr by (simp add: sublist_append_leftI)
  have tag: "sublist x ?human" if "x \<in> set (ls_client_tags l)" for x
  proof (rule part)
    show "sublist x (label_client_tags @ py_join (lit '', '') (ls_client_tags l))"
      using sublist_py_join [OF that] by (simp add: sublist_append)
  qed (use that in auto)
  have "sublist (ls_title l) ?human" by (rule part [OF tail [of _ label_title]]) simp
  moreover have "sublist (ls_description l) ?human"
    by (rule part [OF tail [of _ label_description]]) simp
  moreover have "sublist (bg_raw b) ?human" if "ls_budget l = Some b" for b
    by (rule part [OF tail [of _ label_budget]]) (simp add: that)
  ultimately show ?thesis using system tag by (auto simp: build_messages_def)
qed

definition tiny_profile :: contractor_profile where
  "tiny_profile = \<lparr>cp_strong_skills = [lit ''Python''], cp_working_skills = [], cp_unsupported_skills = [],
     cp_project_types = [], cp_infrastructure_experience = [], cp_integrations_experience = [],
     cp_preferred_projects = [], cp_rejected_projects = [], cp_minimum_budget = None,
     cp_maximum_duration_months = None\<rparr>"

definition bare_listing :: listing where
  "bare_listing = \<lparr>ls_id = [], ls_title = lit ''Bot'', ls_description = [], ls_budget = None,
     ls_is_remote = False, ls_location = None, ls_client_tags = []\<rparr>"

theorem prompt_complete_witness:
  "\<exists>system human. build_messages bare_listing tiny_profile = [(lit ''system'', system), (lit ''human'', human)] \<and>
     sublist (lit ''Python'') system \<and> sublist (lit ''Bot'') human"
  using prompt_complete [of bare_listing tiny_profile]
  by (auto simp: profile_terms_def tiny_profile_def bare_listing_def)

end
