(* ===== verification/LlmService.thy ===== *)
theory LlmService
  imports LlmWire LlmPrompts Runtime Settings
begin

text \<open>
  llm: the assessor (infrastructure/llm/openai_assessor.py), the use case \<open>AssessOrders\<close>
  (application/assess_orders.py), the publisher of verdicts, the subscriber with its retry message
  and the topology (infrastructure/messaging), and the wiring of main.py. The model itself is not
  under src/: \<open>ainvoke\<close> is a parameter, the outcome of the n-th call on its messages.
\<close>

section \<open>The assessor\<close>

text \<open>
  The exceptions of the openai package that the adapter names. \<open>APITimeoutError\<close> is a subclass of
  \<open>APIConnectionError\<close>; the named status errors are subclasses of \<open>APIStatusError\<close>, of which other
  instances carry their status code. Anything else is passed on as it is.
\<close>

datatype api_exn =
    RateLimitError ustr
  | APIConnectionError ustr
  | APITimeoutError ustr
  | InternalServerError ustr
  | BadRequestError ustr
  | AuthenticationError ustr
  | PermissionDeniedError ustr
  | NotFoundError ustr
  | ConflictError ustr
  | UnprocessableEntityError ustr
  | APIStatusError int ustr
  | LengthFinishReasonError ustr
  | StructuredValidationError ustr
  | OtherApiError exn

text \<open>The code points spell the Russian part of the message of openai_assessor.py, line 59.\<close>

definition length_limit_text :: "ustr \<Rightarrow> ustr" where
  "length_limit_text m = [0x43e, 0x442, 0x432, 0x435, 0x442, 32, 0x43e, 0x431, 0x440, 0x435, 0x437, 0x430, 0x43d, 32,
     0x43b, 0x438, 0x43c, 0x438, 0x442, 0x43e, 0x43c, 32, 0x442, 0x43e, 0x43a, 0x435, 0x43d, 0x43e, 0x432, 32,
     0x2014, 32, 0x443, 0x432, 0x435, 0x43b, 0x438, 0x447, 0x44c, 32] @ lit ''LLM__MAX_TOKENS ('' @ m @ lit '')''"

fun classify :: "api_exn \<Rightarrow> exn" where
  "classify (RateLimitError m) = TransientError m"
| "classify (APIConnectionError m) = TransientError m"
| "classify (APITimeoutError m) = TransientError m"
| "classify (InternalServerError m) = TransientError m"
| "classify (BadRequestError m) = PermanentError m"
| "classify (AuthenticationError m) = PermanentError m"
| "classify (PermissionDeniedError m) = PermanentError m"
| "classify (NotFoundError m) = PermanentError m"
| "classify (ConflictError m) = PermanentError m"
| "classify (UnprocessableEntityError m) = PermanentError m"
| "classify (APIStatusError status m) = (if status \<ge> 500 then TransientError m else PermanentError m)"
| "classify (LengthFinishReasonError m) = PermanentError (length_limit_text m)"
| "classify (StructuredValidationError m) = PermanentError (lit ''invalid structured output: '' @ m)"
| "classify (OtherApiError e) = e"

record llm_schema =
  sch_summary :: ustr
  sch_detected_skills :: "ustr list"
  sch_matched_strong :: "ustr list"
  sch_matched_working :: "ustr list"
  sch_unsupported_hits :: "ustr list"
  sch_is_rejected_type :: bool
  sch_suitability_score :: int
  sch_rationale :: ustr

definition to_assessment :: "llm_schema \<Rightarrow> exn + assessment" where
  "to_assessment r = Assessment \<lparr>as_summary = sch_summary r, as_suitability_score = sch_suitability_score r,
     as_unsupported_hits = sch_unsupported_hits r, as_is_rejected_type = sch_is_rejected_type r,
     as_matched_strong = sch_matched_strong r, as_matched_working = sch_matched_working r,
     as_rationale = sch_rationale r\<rparr>"

record llm_state = runtime +
  n_ainvoke :: nat

text \<open>What the model answers to the n-th call with the given messages, or how that call fails.\<close>

type_synonym model_answers = "nat \<Rightarrow> (ustr \<times> ustr) list \<Rightarrow> api_exn + llm_schema"

record llm_world =
  lw_ainvoke :: model_answers
  lw_bus :: bus_env
  lw_pydantic :: pydantic
  lw_repr :: "exn \<Rightarrow> ustr"

text \<open>The verdict of the n-th call, as the adapter returns or raises it.\<close>

definition verdict :: "llm_world \<Rightarrow> contractor_profile \<Rightarrow> nat \<Rightarrow> listing \<Rightarrow> exn + assessment" where
  "verdict W profile n l = (case lw_ainvoke W n (build_messages l profile) of
     Inl x \<Rightarrow> Inl (classify x) | Inr r \<Rightarrow> to_assessment r)"

definition assess :: "llm_world \<Rightarrow> contractor_profile \<Rightarrow> listing \<Rightarrow> ('z llm_state_scheme, assessment) act" where
  "assess W profile l s = (verdict W profile (n_ainvoke s) l, s\<lparr>n_ainvoke := Suc (n_ainvoke s)\<rparr>)"

section \<open>The use case\<close>

record llm_config =
  lc_profile :: contractor_profile
  lc_threshold :: int
  lc_result :: publisher
  lc_retry :: publisher

definition result_publish :: "bus_env \<Rightarrow> publisher \<Rightarrow> assessment_result \<Rightarrow> ('z runtime_scheme, unit) act" where
  "result_publish B p r = publish B p (dump_llm_result (from_result r))"

definition assess_one :: "llm_world \<Rightarrow> llm_config \<Rightarrow> listing \<Rightarrow> ('z llm_state_scheme, bool) act" where
  "assess_one W C l s =
     (case bind_act (assess W (lc_profile C) l) (\<lambda>a.
        let decision = decide a (lc_threshold C) in
        if ld_notify decision
        then bind_act (result_publish (lw_bus W) (lc_result C) (build_result l a)) (\<lambda>_.
          log INFO ''result_published'' [(lit ''order_id'', JStr (ls_id l)),
            (lit ''score'', JInt (as_suitability_score a))])
        else log INFO ''order_skipped'' [(lit ''order_id'', JStr (ls_id l)),
          (lit ''reason'', JStr (reason_text (ld_reason decision)))]) s of
       (Inr _, t) \<Rightarrow> (Inr True, t)
     | (Inl (TransientError m), t) \<Rightarrow> bind_act (log WARNING ''assessment_retry_scheduled''
         [(lit ''order_id'', JStr (ls_id l)), (lit ''error'', JStr m)]) (\<lambda>_. ret False) t
     | (Inl (PermanentError m), t) \<Rightarrow> bind_act (log WARNING ''order_failed''
         [(lit ''order_id'', JStr (ls_id l)), (lit ''error'', JStr m)]) (\<lambda>_. ret True) t
     | (Inl e, t) \<Rightarrow> if is_Exception e
         then bind_act (log ERROR ''order_unexpected_error''
           [(lit ''order_id'', JStr (ls_id l)), (lit ''error'', JStr (lw_repr W e))]) (\<lambda>_. ret True) t
         else (Inl e, t))"

primrec assess_loop :: "llm_world \<Rightarrow> llm_config \<Rightarrow> listing list \<Rightarrow> ustr list \<Rightarrow>
    ('z llm_state_scheme, ustr list) act" where
  "assess_loop W C [] retryable = ret retryable"
| "assess_loop W C (l # ls) retryable = bind_act (assess_one W C l) (\<lambda>done.
     assess_loop W C ls (if done then retryable else retryable @ [ls_id l]))"

definition AssessOrders_handle :: "llm_world \<Rightarrow> llm_config \<Rightarrow> listing list \<Rightarrow>
    ('z llm_state_scheme, ustr list) act" where
  "AssessOrders_handle W C listings = assess_loop W C listings []"

section \<open>The subscriber\<close>

text \<open>
  FastStream validates the body against the annotated type before the handler runs. An exception
  out of the action rejects the message (\<open>AckPolicy.REJECT_ON_ERROR\<close>), which sends it to the dead
  letter queue of the input queue.
\<close>

definition on_assess_requests :: "llm_world \<Rightarrow> llm_config \<Rightarrow> json \<Rightarrow> ('z llm_state_scheme, unit) act" where
  "on_assess_requests W C raw =
     bind_act (lift_act (model_validate (lw_pydantic W) ''ParseResultMessage'' (llm_read_parse_result (lw_pydantic W)) raw))
     (\<lambda>message. bind_act (lift_act (map_raise order_to_listing (pr_orders message)))
     (\<lambda>listings. bind_act (AssessOrders_handle W C listings)
     (\<lambda>retryable.
        if set retryable \<noteq> {}
        then publish (lw_bus W) (lc_retry C) (llm_dump_parse_result
          (message\<lparr>pr_orders := filter (\<lambda>order. wo_id order \<in> set retryable) (pr_orders message)\<rparr>))
        else ret ())))"

section \<open>Topology\<close>

definition llm_input_queue :: "ustr \<Rightarrow> rabbit_queue" where
  "llm_input_queue name = \<lparr>rq_name = name, rq_durable = True, rq_arguments = [
     (lit ''x-dead-letter-exchange'', JStr []),
     (lit ''x-dead-letter-routing-key'', JStr (name @ lit ''.dlq''))]\<rparr>"

definition llm_dead_letter_queue :: "ustr \<Rightarrow> rabbit_queue" where
  "llm_dead_letter_queue input = durable_queue (input @ lit ''.dlq'')"

definition llm_retry_queue :: "ustr \<Rightarrow> int \<Rightarrow> rabbit_queue" where
  "llm_retry_queue input ttl_ms = \<lparr>rq_name = input @ lit ''.retry'', rq_durable = True, rq_arguments = [
     (lit ''x-message-ttl'', JInt ttl_ms),
     (lit ''x-dead-letter-exchange'', JStr []),
     (lit ''x-dead-letter-routing-key'', JStr input)]\<rparr>"

definition llm_result_queue :: "ustr \<Rightarrow> rabbit_queue" where
  "llm_result_queue name = durable_queue name"

definition build_result_publisher :: "ustr \<Rightarrow> publisher" where
  "build_result_publisher queue = default_publisher queue"

definition build_retry_publisher :: "ustr \<Rightarrow> publisher" where
  "build_retry_publisher input = default_publisher (input @ lit ''.retry'')"

definition llm_wiring :: "llm_settings \<Rightarrow> contractor_profile \<Rightarrow> llm_config" where
  "llm_wiring S profile = \<lparr>lc_profile = profile, lc_threshold = ls_suitability_threshold S,
     lc_result = build_result_publisher (lms_result_queue (ls_messaging S)),
     lc_retry = build_retry_publisher (lms_input_queue (ls_messaging S))\<rparr>"

definition llm_queues :: "llm_settings \<Rightarrow> rabbit_queue list" where
  "llm_queues S = [llm_input_queue (lms_input_queue (ls_messaging S)),
     llm_dead_letter_queue (lms_input_queue (ls_messaging S)),
     llm_retry_queue (lms_input_queue (ls_messaging S)) (lms_retry_ttl_ms (ls_messaging S)),
     llm_result_queue (lms_result_queue (ls_messaging S))]"

end
