(* ===== verification/LlmTheorems.thy ===== *)
theory LlmTheorems
  imports LlmService
begin

text \<open>
  llm: the theorems on the use case, the subscriber and the topology, each with a run of the model
  as its witness.
\<close>

definition is_transient :: "exn + 'a \<Rightarrow> bool" where
  "is_transient r \<longleftrightarrow> (\<exists>m. r = Inl (TransientError m))"

text \<open>The verdict message of one call, if one is due.\<close>

definition verdict_messages :: "llm_config \<Rightarrow> listing \<Rightarrow> exn + assessment \<Rightarrow> (publisher \<times> json) list" where
  "verdict_messages C l r = (case r of Inl _ \<Rightarrow> []
     | Inr a \<Rightarrow> if ld_notify (decide a (lc_threshold C))
         then [(lc_result C, dump_llm_result (from_result (build_result l a)))] else [])"

text \<open>The listings of a batch whose call fails transiently, when the first call is the \<open>n\<close>-th.\<close>

definition transient_ids :: "llm_world \<Rightarrow> llm_config \<Rightarrow> nat \<Rightarrow> listing list \<Rightarrow> ustr list" where
  "transient_ids W C n ls = map (\<lambda>(i, l). ls_id l)
     (filter (\<lambda>(i, l). is_transient (verdict W (lc_profile C) i l)) (enumerate n ls))"

definition batch_verdicts :: "llm_world \<Rightarrow> llm_config \<Rightarrow> nat \<Rightarrow> listing list \<Rightarrow> (publisher \<times> json) list" where
  "batch_verdicts W C n ls =
     concat (map (\<lambda>(i, l). verdict_messages C l (verdict W (lc_profile C) i l)) (enumerate n ls))"

definition never_cancelled :: "llm_world \<Rightarrow> llm_config \<Rightarrow> nat \<Rightarrow> listing list \<Rightarrow> bool" where
  "never_cancelled W C n ls \<longleftrightarrow>
     (\<forall>(i, l) \<in> set (enumerate n ls). verdict W (lc_profile C) i l \<noteq> Inl CancelledError)"

section \<open>A broker that works\<close>

lemma assess_one_reliable:
  assumes "lw_bus W = reliable" and "verdict W (lc_profile C) (n_ainvoke s) l \<noteq> Inl CancelledError"
  shows "\<exists>t. assess_one W C l s = (Inr (\<not> is_transient (verdict W (lc_profile C) (n_ainvoke s) l)), t) \<and>
    n_ainvoke t = Suc (n_ainvoke s) \<and>
    rt_out t = rt_out s @ verdict_messages C l (verdict W (lc_profile C) (n_ainvoke s) l)"
proof (cases "verdict W (lc_profile C) (n_ainvoke s) l")
  case (Inl e)
  with assms(2) show ?thesis
    by (cases e) (simp_all add: assess_one_def assess_def is_transient_def verdict_messages_def)
next
  case (Inr a)
  with assms(1) show ?thesis
    by (simp add: assess_one_def assess_def is_transient_def verdict_messages_def result_publish_def Let_def)
qed

lemma assess_loop_reliable:
  assumes "lw_bus W = reliable" and "never_cancelled W C (n_ainvoke s) ls"
  shows "\<exists>t. assess_loop W C ls acc s = (Inr (acc @ transient_ids W C (n_ainvoke s) ls), t) \<and>
    n_ainvoke t = n_ainvoke s + length ls \<and> rt_out t = rt_out s @ batch_verdicts W C (n_ainvoke s) ls"
  using assms(2)
proof (induction ls arbitrary: acc s)
  case (Cons l ls)
  let ?v = "verdict W (lc_profile C) (n_ainvoke s) l"
  have "?v \<noteq> Inl CancelledError" using Cons.prems by (simp add: never_cancelled_def)
  then obtain u where u: "assess_one W C l s = (Inr (\<not> is_transient ?v), u)"
      "n_ainvoke u = Suc (n_ainvoke s)" "rt_out u = rt_out s @ verdict_messages C l ?v"
    using assess_one_reliable [OF assms(1), of C s l] by auto
  have "never_cancelled W C (n_ainvoke u) ls" using Cons.prems by (simp add: never_cancelled_def u(2))
  from Cons.IH [OF this, of "if \<not> is_transient ?v then acc else acc @ [ls_id l]"]
  obtain t where t: "assess_loop W C ls (if \<not> is_transient ?v then acc else acc @ [ls_id l]) u =
      (Inr ((if \<not> is_transient ?v then acc else acc @ [ls_id l]) @ transient_ids W C (n_ainvoke u) ls), t)"
      "n_ainvoke t = n_ainvoke u + length ls" "rt_out t = rt_out u @ batch_verdicts W C (n_ainvoke u) ls"
    by blast
  with u show ?case by (intro exI [of _ t]) (simp add: transient_ids_def batch_verdicts_def)
qed (simp add: transient_ids_def batch_verdicts_def)

lemma handle_reliable:
  assumes "lw_bus W = reliable" and "never_cancelled W C (n_ainvoke s) ls"
  shows "\<exists>t. AssessOrders_handle W C ls s = (Inr (transient_ids W C (n_ainvoke s) ls), t) \<and>
    n_ainvoke t = n_ainvoke s + length ls \<and> rt_out t = rt_out s @ batch_verdicts W C (n_ainvoke s) ls"
  using assess_loop_reliable [OF assms, of "[]"] by (simp add: AssessOrders_handle_def)

text \<open>With a broker that accepts every message, handling a batch calls the model once per listing, in
  order; it publishes one verdict for each listing whose verdict passes the decision and none for
  the others, and returns exactly the identifiers of the listings whose call failed transiently.
  Neither a permanent failure nor an unexpected one keeps the rest of the batch from being done.\<close>

theorem handle_batch:
  assumes "lw_bus W = reliable" and "never_cancelled W C (n_ainvoke s) ls"
  shows "\<exists>t. AssessOrders_handle W C ls s = (Inr (transient_ids W C (n_ainvoke s) ls), t) \<and>
    n_ainvoke t = n_ainvoke s + length ls \<and> rt_out t = rt_out s @ batch_verdicts W C (n_ainvoke s) ls"
  by (rule handle_reliable [OF assms])

section \<open>The subscriber\<close>

lemma listing_ids:
  "map_raise order_to_listing ws = Inr ls \<Longrightarrow> map ls_id ls = map wo_id ws"
  by (induction ws arbitrary: ls) (auto split: sum.splits dest: order_to_listing_id)

text \<open>C31. No order is lost to a transient failure: with a broker that works, a well-formed batch is
  acknowledged; the orders whose assessment failed transiently, all of them, are sent to the retry
  queue in one message, which llm itself reads back as the same batch cut down to these orders;
  and when there is none no such message is sent.\<close>

theorem retry_keeps_orders:
  assumes "pydantic_ok (lw_pydantic W)" and "lw_bus W = reliable"
    and "llm_read_parse_result (lw_pydantic W) raw = Some m"
    and "map_raise order_to_listing (pr_orders m) = Inr ls"
    and "never_cancelled W C (n_ainvoke s) ls"
  shows "\<exists>failed retry t. on_assess_requests W C raw s = (Inr (), t) \<and>
    failed = filter (\<lambda>order. wo_id order \<in> set (transient_ids W C (n_ainvoke s) ls)) (pr_orders m) \<and>
    rt_out t = rt_out s @ batch_verdicts W C (n_ainvoke s) ls @ (if failed = [] then [] else [(lc_retry C, retry)]) \<and>
    llm_read_parse_result (lw_pydantic W) retry = Some (m\<lparr>pr_orders := failed\<rparr>) \<and>
    (\<forall>i < length ls. is_transient (verdict W (lc_profile C) (n_ainvoke s + i) (ls ! i)) \<longrightarrow>
      pr_orders m ! i \<in> set failed)"
proof -
  define ids where "ids = transient_ids W C (n_ainvoke s) ls"
  define failed where "failed = filter (\<lambda>order. wo_id order \<in> set ids) (pr_orders m)"
  define retry where "retry = llm_dump_parse_result (m\<lparr>pr_orders := failed\<rparr>)"
  obtain u where u: "AssessOrders_handle W C ls s = (Inr ids, u)"
      "rt_out u = rt_out s @ batch_verdicts W C (n_ainvoke s) ls"
    using handle_reliable [OF assms(2,5)] unfolding ids_def by blast
  have "set ids \<subseteq> set (map ls_id ls)"
    unfolding ids_def transient_ids_def by (auto simp: in_set_enumerate_eq)
  then have known: "set ids \<subseteq> wo_id ` set (pr_orders m)" unfolding listing_ids [OF assms(4)] by simp
  have "failed = [] \<longleftrightarrow> (\<forall>w \<in> set (pr_orders m). wo_id w \<notin> set ids)"
    by (simp add: failed_def filter_empty_conv)
  moreover have "ids = []" if none: "\<forall>w \<in> set (pr_orders m). wo_id w \<notin> set ids"
  proof (rule ccontr)
    assume "ids \<noteq> []"
    then have "hd ids \<in> set ids" by simp
    with known obtain w where "w \<in> set (pr_orders m)" "hd ids = wo_id w" by blast
    with none \<open>hd ids \<in> set ids\<close> show False by simp
  qed
  ultimately have "failed = [] \<longleftrightarrow> set ids = {}" by fastforce
  then have "\<exists>t. on_assess_requests W C raw s = (Inr (), t) \<and>
      rt_out t = rt_out u @ (if failed = [] then [] else [(lc_retry C, retry)])"
    using assms(2-4) u(1)
    by (cases "failed = []") (auto simp: on_assess_requests_def model_validate_def retry_def failed_def [symmetric])
  moreover have "llm_read_parse_result (lw_pydantic W) retry = Some (m\<lparr>pr_orders := failed\<rparr>)"
    unfolding retry_def llm_read_parse_result_eq llm_dump_parse_result_eq
    by (rule read_dump_parse_result [OF assms(1)])
  moreover have "pr_orders m ! i \<in> set failed"
    if i: "i < length ls" "is_transient (verdict W (lc_profile C) (n_ainvoke s + i) (ls ! i))" for i
  proof -
    have len: "length ls = length (pr_orders m)" using listing_ids [OF assms(4)] by (metis length_map)
    have "(n_ainvoke s + i, ls ! i) \<in> set (enumerate (n_ainvoke s) ls)"
      using i(1) by (auto simp: in_set_enumerate_eq)
    with i(2) have "ls_id (ls ! i) \<in> set ids" unfolding ids_def transient_ids_def by force
    moreover have "ls_id (ls ! i) = wo_id (pr_orders m ! i)"
      using listing_ids [OF assms(4)] i(1) len by (metis nth_map)
    ultimately show ?thesis using i(1) len by (simp add: failed_def)
  qed
  ultimately show ?thesis using u(2) unfolding ids_def [symmetric] failed_def [symmetric] by force
qed

section \<open>A broker that may fail\<close>

text \<open>The assessment is what the model answered, in one of the given calls, to the messages about the listing.\<close>

definition answered :: "model_answers \<Rightarrow> contractor_profile \<Rightarrow> nat set \<Rightarrow> listing \<Rightarrow> assessment \<Rightarrow> bool" where
  "answered A profile calls l a \<longleftrightarrow>
     (\<exists>k \<in> calls. \<exists>answer. A k (build_messages l profile) = Inr answer \<and> to_assessment answer = Inr a)"

lemma answered_mono: "answered A profile ks l a \<Longrightarrow> ks \<subseteq> ks' \<Longrightarrow> answered A profile ks' l a"
  unfolding answered_def by blast

lemma verdict_answered: "verdict W profile k l = Inr a \<Longrightarrow> k \<in> ks \<Longrightarrow> answered (lw_ainvoke W) profile ks l a"
  unfolding answered_def verdict_def by (auto split: sum.splits)

text \<open>Only verdicts worth a notification go to the result queue.\<close>

definition good_message :: "model_answers \<Rightarrow> llm_config \<Rightarrow> ustr set \<Rightarrow> nat set \<Rightarrow> publisher \<times> json \<Rightarrow> bool" where
  "good_message A C ids ks pj \<longleftrightarrow> (\<exists>l a. pj = (lc_result C, dump_llm_result (from_result (build_result l a))) \<and>
     ls_id l \<in> ids \<and> answered A (lc_profile C) ks l a \<and> ld_notify (decide a (lc_threshold C)) \<and>
     0 \<le> as_suitability_score a \<and> as_suitability_score a \<le> 100)"

lemma good_message_mono: "good_message A C ids ks pj \<Longrightarrow> ids \<subseteq> ids' \<Longrightarrow> ks \<subseteq> ks' \<Longrightarrow> good_message A C ids' ks' pj"
  unfolding good_message_def using answered_mono by blast

lemma verdict_range: "verdict W p n l = Inr a \<Longrightarrow> 0 \<le> as_suitability_score a \<and> as_suitability_score a \<le> 100"
  by (auto simp: verdict_def to_assessment_def Assessment_def split: sum.splits if_splits)

definition extends_with :: "(publisher \<times> json \<Rightarrow> bool) \<Rightarrow> 'z runtime_scheme \<Rightarrow> 'z runtime_scheme \<Rightarrow> bool" where
  "extends_with good s t \<longleftrightarrow> (\<exists>new. rt_out t = rt_out s @ new \<and> list_all good new)"

lemma extends_refl [simp]: "rt_out t = rt_out s \<Longrightarrow> extends_with good s t"
  by (simp add: extends_with_def)

lemma extends_trans: "extends_with good s t \<Longrightarrow> extends_with good t u \<Longrightarrow> extends_with good s u"
  by (auto simp: extends_with_def)

lemma extends_mono: "extends_with good s t \<Longrightarrow> (\<And>pj. good pj \<Longrightarrow> good' pj) \<Longrightarrow> extends_with good' s t"
  by (auto simp: extends_with_def list_all_iff)

lemma extends_cong: "extends_with good s t \<Longrightarrow> rt_out u = rt_out t \<Longrightarrow> extends_with good s u"
  by (simp add: extends_with_def)

lemma publish_extends_with: "good (p, j) \<Longrightarrow> publish B p j s = (r, t) \<Longrightarrow> extends_with good s t"
  by (cases r) (auto simp: extends_with_def dest!: publish_Inl publish_Inr)

lemma publish_calls: "publish B p j s = (r, t) \<Longrightarrow> n_ainvoke t = n_ainvoke s"
  by (auto simp: publish_def Let_def split: option.splits if_splits)

lemma log_calls: "log l ev fs s = (r, t) \<Longrightarrow> n_ainvoke t = n_ainvoke s"
  by (auto simp: log_def modify_act_def)

lemma assess_one_calls:
  assumes "assess_one W C l s = (r, t)"
  shows "n_ainvoke t = Suc (n_ainvoke s)"
  using assms
  by (auto simp: assess_one_def assess_def bind_act_def result_publish_def Let_def ret_def raise_def
      split: sum.splits prod.splits exn.splits if_splits dest!: publish_calls log_calls)

lemma assess_loop_calls: "assess_loop W C ls acc s = (r, t) \<Longrightarrow> n_ainvoke s \<le> n_ainvoke t"
proof (induction ls arbitrary: acc s)
  case (Cons l ls)
  obtain r' u where one: "assess_one W C l s = (r', u)" by (cases "assess_one W C l s")
  with Cons show ?case using assess_one_calls [OF one] by (cases r') (fastforce simp: bind_act_def)+
qed simp

lemma assess_one_good:
  assumes "assess_one W C l s = (r, t)"
  shows "extends_with (good_message (lw_ainvoke W) C {ls_id l} {n_ainvoke s..<n_ainvoke t}) s t"
proof -
  let ?s = "s\<lparr>n_ainvoke := Suc (n_ainvoke s)\<rparr>" and ?good = "good_message (lw_ainvoke W) C {ls_id l} {n_ainvoke s..<n_ainvoke t}"
  have calls: "n_ainvoke s \<in> {n_ainvoke s..<n_ainvoke t}" using assess_one_calls [OF assms] by simp
  show ?thesis
  proof (cases "verdict W (lc_profile C) (n_ainvoke s) l")
    case (Inl e)
    with assms show ?thesis
      by (cases e) (auto simp: assess_one_def assess_def)
  next
    case (Inr a)
    show ?thesis
    proof (cases "ld_notify (decide a (lc_threshold C))")
      case False
      with Inr assms show ?thesis by (auto simp: assess_one_def assess_def Let_def)
    next
      case True
      obtain r' u where p: "result_publish (lw_bus W) (lc_result C) (build_result l a) ?s = (r', u)"
        by (cases "result_publish (lw_bus W) (lc_result C) (build_result l a) ?s")
      have "?good (lc_result C, dump_llm_result (from_result (build_result l a)))"
        unfolding good_message_def using True verdict_range [OF Inr] verdict_answered [OF Inr calls] by blast
      from publish_extends_with [of ?good, OF this p [unfolded result_publish_def]]
      have "extends_with ?good s u" by (simp add: extends_with_def)
      moreover have "rt_out t = rt_out u"
      proof (cases r')
        case (Inl e)
        with Inr True p assms show ?thesis
          by (cases e) (auto simp: assess_one_def assess_def Let_def)
      next
        case (Inr x)
        with \<open>verdict W (lc_profile C) (n_ainvoke s) l = Inr a\<close> True p assms show ?thesis
          by (auto simp: assess_one_def assess_def Let_def)
      qed
      ultimately show ?thesis by (rule extends_cong)
    qed
  qed
qed

lemma assess_loop_good:
  "assess_loop W C ls acc s = (r, t) \<Longrightarrow> set (map ls_id ls) \<subseteq> ids \<Longrightarrow>
    extends_with (good_message (lw_ainvoke W) C ids {n_ainvoke s..<n_ainvoke t}) s t"
proof (induction ls arbitrary: acc s)
  case (Cons l ls)
  obtain r' u where one: "assess_one W C l s = (r', u)" by (cases "assess_one W C l s")
  have step: "extends_with (good_message (lw_ainvoke W) C ids {n_ainvoke s..<n_ainvoke t}) s u" if "n_ainvoke u \<le> n_ainvoke t"
    by (rule extends_mono [OF assess_one_good [OF one]], erule good_message_mono) (use Cons.prems(2) that in simp_all)
  show ?case
  proof (cases r')
    case (Inl e)
    with Cons.prems one step show ?thesis by simp
  next
    case (Inr ok)
    with Cons.prems one have "assess_loop W C ls (if ok then acc else acc @ [ls_id l]) u = (r, t)" by simp
    then have le: "n_ainvoke u \<le> n_ainvoke t" and ut: "extends_with (good_message (lw_ainvoke W) C ids {n_ainvoke u..<n_ainvoke t}) u t"
      using assess_loop_calls Cons.IH Cons.prems(2) by auto
    have "{n_ainvoke u..<n_ainvoke t} \<subseteq> {n_ainvoke s..<n_ainvoke t}" using assess_one_calls [OF one] by auto
    then have "extends_with (good_message (lw_ainvoke W) C ids {n_ainvoke s..<n_ainvoke t}) u t"
      using good_message_mono [OF _ subset_refl] by (blast intro: extends_mono [OF ut])
    with step [OF le] show ?thesis by (rule extends_trans)
  qed
qed simp

definition retry_message :: "llm_config \<Rightarrow> parse_result_message \<Rightarrow> publisher \<times> json \<Rightarrow> bool" where
  "retry_message C m pj \<longleftrightarrow> (\<exists>failed. set failed \<subseteq> set (pr_orders m) \<and>
     pj = (lc_retry C, llm_dump_parse_result (m\<lparr>pr_orders := failed\<rparr>)))"

lemma on_assess_sends:
  assumes "on_assess_requests W C raw s = (r, t)"
  obtains (unread) "llm_read_parse_result (lw_pydantic W) raw = None" and "t = s"
    | (batch) m where "llm_read_parse_result (lw_pydantic W) raw = Some m"
      and "extends_with (\<lambda>pj. retry_message C m pj \<or>
        good_message (lw_ainvoke W) C (wo_id ` set (pr_orders m)) {n_ainvoke s..<n_ainvoke t} pj) s t"
proof (cases "llm_read_parse_result (lw_pydantic W) raw")
  case None
  with assms show ?thesis using unread by (auto simp: on_assess_requests_def model_validate_def)
next
  case (Some m)
  let ?ok = "\<lambda>pj. retry_message C m pj \<or> good_message (lw_ainvoke W) C (wo_id ` set (pr_orders m)) {n_ainvoke s..<n_ainvoke t} pj"
  have "extends_with ?ok s t"
  proof (cases "map_raise order_to_listing (pr_orders m)")
    case (Inl e)
    with Some assms show ?thesis by (auto simp: on_assess_requests_def model_validate_def)
  next
    case (Inr ls)
    obtain r' u where h: "AssessOrders_handle W C ls s = (r', u)" by (cases "AssessOrders_handle W C ls s")
    have "set (map ls_id ls) \<subseteq> wo_id ` set (pr_orders m)" unfolding listing_ids [OF Inr] by simp
    from assess_loop_good [OF h [unfolded AssessOrders_handle_def] this]
    have su: "extends_with ?ok s u" if "n_ainvoke t = n_ainvoke u" by (rule extends_mono) (simp add: that)
    show ?thesis
    proof (cases r')
      case (Inl e)
      with Some Inr h assms su show ?thesis by (auto simp: on_assess_requests_def model_validate_def)
    next
      case ids: (Inr ids)
      let ?failed = "filter (\<lambda>order. wo_id order \<in> set ids) (pr_orders m)"
      let ?retry = "llm_dump_parse_result (m\<lparr>pr_orders := ?failed\<rparr>)"
      have run: "(if set ids \<noteq> {} then publish (lw_bus W) (lc_retry C) ?retry else ret ()) u = (r, t)"
        using Some Inr h ids assms by (simp add: on_assess_requests_def model_validate_def)
      have "retry_message C m (lc_retry C, ?retry)"
        unfolding retry_message_def by (rule exI [of _ ?failed]) simp
      then have "extends_with ?ok u t"
        using run publish_extends_with [of ?ok "lc_retry C" ?retry "lw_bus W" u r t] by (auto split: if_splits)
      moreover have "n_ainvoke t = n_ainvoke u" using run publish_calls by (auto split: if_splits)
      ultimately show ?thesis using su extends_trans by blast
    qed
  qed
  with Some show ?thesis by (rule batch)
qed

lemma on_assess_calls:
  assumes "on_assess_requests W C raw s = (r, t)"
  shows "n_ainvoke s \<le> n_ainvoke t"
proof (cases "llm_read_parse_result (lw_pydantic W) raw")
  case None
  with assms show ?thesis by (auto simp: on_assess_requests_def model_validate_def)
next
  case (Some m)
  show ?thesis
  proof (cases "map_raise order_to_listing (pr_orders m)")
    case (Inl e)
    with Some assms show ?thesis by (auto simp: on_assess_requests_def model_validate_def)
  next
    case (Inr ls)
    obtain r' u where h: "AssessOrders_handle W C ls s = (r', u)" by (cases "AssessOrders_handle W C ls s")
    have "n_ainvoke s \<le> n_ainvoke u" using assess_loop_calls h by (simp add: AssessOrders_handle_def)
    moreover have "n_ainvoke t = n_ainvoke u"
      using Some Inr h assms publish_calls
      by (cases r') (auto simp: on_assess_requests_def model_validate_def split: if_splits)
    ultimately show ?thesis by simp
  qed
qed

text \<open>Whatever the model answers and however publishing fails, llm sends nothing but retry batches and
  verdicts worth a notification: the score is within 0..100 and at or above the threshold, no
  unsupported skill was hit, the order is of no rejected type, and the text fits a Telegram message.\<close>

theorem only_good_verdicts:
  assumes "on_assess_requests W C raw s = (r, t)"
  shows "\<exists>new. rt_out t = rt_out s @ new \<and> (\<forall>(p, j) \<in> set new. p = lc_retry C \<or>
    (\<exists>l a. p = lc_result C \<and> j = dump_llm_result (from_result (build_result l a)) \<and>
       lc_threshold C \<le> as_suitability_score a \<and> 0 \<le> as_suitability_score a \<and> as_suitability_score a \<le> 100 \<and>
       as_unsupported_hits a = [] \<and> \<not> as_is_rejected_type a \<and>
       tg_len (ln_text (res_notification (build_result l a))) \<le> 4096))"
proof -
  let ?ok = "\<lambda>pj. fst pj = lc_retry C \<or> (\<exists>ids ks. good_message (lw_ainvoke W) C ids ks pj)"
  from assms have "extends_with ?ok s t"
  proof (cases rule: on_assess_sends)
    case (batch m)
    show ?thesis by (rule extends_mono [OF batch(2)]) (auto simp: retry_message_def)
  qed simp
  then obtain new where new: "rt_out t = rt_out s @ new" "\<And>pj. pj \<in> set new \<Longrightarrow> ?ok pj"
    by (auto simp: extends_with_def list_all_iff)
  have fits: "tg_len (ln_text (res_notification (build_result l a))) \<le> 4096" for l a
    using tg_truncate_len [of _ MAX_TEXT_LENGTH]
    by (simp add: build_result_def build_notification_def Let_def MAX_TEXT_LENGTH_def)
  have "p = lc_retry C \<or> (\<exists>l a. p = lc_result C \<and> j = dump_llm_result (from_result (build_result l a)) \<and>
       lc_threshold C \<le> as_suitability_score a \<and> 0 \<le> as_suitability_score a \<and> as_suitability_score a \<le> 100 \<and>
       as_unsupported_hits a = [] \<and> \<not> as_is_rejected_type a \<and>
       tg_len (ln_text (res_notification (build_result l a))) \<le> 4096)" if "(p, j) \<in> set new" for p j
    using new(2) [OF that] fits unfolding good_message_def decide_notify by fastforce
  with new(1) show ?thesis by blast
qed

text \<open>A verdict whose publication fails is lost: the exception is caught with every other one, the
  listing counts as done, its identifier is not returned for a retry and nothing was sent, so the
  order stays in core without a verdict although the input message is acknowledged.\<close>

theorem failed_publication_loses_verdict:
  assumes "verdict W (lc_profile C) (n_ainvoke s) l = Inr a" and "ld_notify (decide a (lc_threshold C))"
    and "bus_fault (lw_bus W) (rt_pubs s) = Some (PublishError m, False)"
  shows "\<exists>t. AssessOrders_handle W C [l] s = (Inr [], t) \<and> rt_out t = rt_out s \<and>
    rt_log t = rt_log s @ [entry ERROR ''order_unexpected_error''
      [(lit ''order_id'', JStr (ls_id l)), (lit ''error'', JStr (lw_repr W (PublishError m)))]]"
  using assms
  by (simp add: AssessOrders_handle_def assess_one_def assess_def Let_def result_publish_def publish_def)

text \<open>A price with a number of more than 4300 digits rejects the whole batch it stands in: mapping the
  orders raises before any of them is assessed, nothing is retried, and the subscriber fails, which
  sends the message with all its orders to the dead letter queue.\<close>

theorem long_price_rejects_batch:
  assumes "llm_read_parse_result (lw_pydantic W) raw = Some m" and "w \<in> set (pr_orders m)"
    and "wo_price w = Some p" and "amount_match (price_value p) = Some g"
    and "max_str_digits < length (only_digits g)"
    and "strip (py_join (lit '' '') (filter (\<lambda>x. x \<noteq> []) [price_prefix p, price_value p, price_suffix p])) \<noteq> []"
  shows "\<exists>e. on_assess_requests W C raw s = (Inl (ValueError e), s)"
proof -
  have "list_all is_digit (only_digits g)" by (simp add: only_digits_def list_all_iff)
  moreover have "only_digits g \<noteq> []" using assms(5) by auto
  ultimately have "\<exists>e. py_int (only_digits g) = Inl (ValueError e)" using assms(5) by (simp add: py_int_def)
  with assms(4,6) have "\<exists>e. from_price (price_prefix p) (price_value p) (price_suffix p) = Inl (ValueError e)"
    by (auto simp: from_price_def Let_def)
  with assms(3) have bad: "\<exists>e. order_to_listing w = Inl (ValueError e)" by (auto simp: order_to_listing_def)
  have only: "order_to_listing v = Inl x \<Longrightarrow> \<exists>e. x = ValueError e" for v x
    by (auto simp: order_to_listing_def from_price_def py_int_def Let_def split: option.splits sum.splits if_splits)
  have "\<exists>e. map_raise order_to_listing ws = Inl (ValueError e)" if "w \<in> set ws" for ws
    using that
  proof (induction ws)
    case (Cons v ws)
    then show ?case using bad only [of v] by (cases "order_to_listing v") (auto split: sum.splits)
  qed simp
  then obtain e where "map_raise order_to_listing (pr_orders m) = Inl (ValueError e)" using assms(2) by blast
  with assms(1) show ?thesis by (simp add: on_assess_requests_def model_validate_def)
qed

section \<open>Topology\<close>

text \<open>The retry loop is closed: whatever the settings, the queue to which failed orders are published is
  the declared retry queue, which holds them for the configured time and then returns them to the
  input queue; the input queue rejects into the declared dead letter queue, and verdicts are
  published to the declared result queue. The four queues are durable and both publishers persist.\<close>

theorem retry_loop_closed:
  "\<exists>input dead retry result. llm_queues S = [input, dead, retry, result] \<and>
     rq_name input = lms_input_queue (ls_messaging S) \<and>
     rq_arguments input = [(lit ''x-dead-letter-exchange'', JStr []), (lit ''x-dead-letter-routing-key'', JStr (rq_name dead))] \<and>
     rq_arguments retry = [(lit ''x-message-ttl'', JInt (lms_retry_ttl_ms (ls_messaging S))),
       (lit ''x-dead-letter-exchange'', JStr []), (lit ''x-dead-letter-routing-key'', JStr (rq_name input))] \<and>
     lc_retry (llm_wiring S profile) = default_publisher (rq_name retry) \<and>
     lc_result (llm_wiring S profile) = default_publisher (rq_name result) \<and>
     rq_durable input \<and> rq_durable dead \<and> rq_durable retry \<and> rq_durable result"
  by (simp add: llm_queues_def llm_input_queue_def llm_dead_letter_queue_def llm_retry_queue_def
      llm_result_queue_def llm_wiring_def build_result_publisher_def build_retry_publisher_def durable_queue_def)

section \<open>Witnesses\<close>

definition sample_schema :: llm_schema where
  "sample_schema = \<lparr>sch_summary = lit ''s'', sch_detected_skills = [], sch_matched_strong = [],
     sch_matched_working = [], sch_unsupported_hits = [], sch_is_rejected_type = False,
     sch_suitability_score = 90, sch_rationale = []\<rparr>"

text \<open>The first call is rate limited, the others answer.\<close>

definition sample_llm :: llm_world where
  "sample_llm = \<lparr>lw_ainvoke = (\<lambda>n _. if n = 0 then Inl (RateLimitError (lit ''429'')) else Inr sample_schema),
     lw_bus = reliable, lw_pydantic = strict, lw_repr = exn_text\<rparr>"

definition sample_config :: llm_config where
  "sample_config = \<lparr>lc_profile = tiny_profile, lc_threshold = 60,
     lc_result = build_result_publisher (lit ''assess.results''),
     lc_retry = build_retry_publisher (lit ''assess.requests'')\<rparr>"

definition llm_start :: llm_state where
  "llm_start = \<lparr>rt_log = [], rt_out = [], rt_pubs = 0, n_ainvoke = 0\<rparr>"

lemmas sample_llm_defs = sample_llm_def sample_config_def llm_start_def verdict_def sample_schema_def
  to_assessment_def Assessment_def

lemma verdict_sample: "verdict sample_llm p 0 l = Inl (TransientError (lit ''429''))"
  "0 < n \<Longrightarrow> \<exists>a. verdict sample_llm p n l = Inr a \<and> ld_notify (decide a 60)"
  by (simp_all add: sample_llm_defs decide_notify)

lemma never_cancelled_sample: "never_cancelled sample_llm C n ls"
proof -
  have "verdict sample_llm (lc_profile C) i l \<noteq> Inl CancelledError" for i l
    by (simp add: sample_llm_defs)
  then show ?thesis by (simp add: never_cancelled_def split_beta)
qed

lemma transient_sample: "transient_ids sample_llm C 0 [l, l'] = [ls_id l]"
proof -
  have "\<not> is_transient (verdict sample_llm (lc_profile C) (Suc 0) l')"
    using verdict_sample(2) [of "Suc 0" "lc_profile C" l'] by (auto simp: is_transient_def)
  then show ?thesis
    by (simp add: transient_ids_def verdict_sample(1)) (simp add: is_transient_def verdict_sample(1))
qed

theorem handle_batch_witness:
  "\<exists>t. AssessOrders_handle sample_llm sample_config [sample_listing, bare_listing] llm_start = (Inr [lit ''7''], t) \<and>
     n_ainvoke t = 2"
proof -
  have "lw_bus sample_llm = reliable" "n_ainvoke llm_start = 0" by (simp_all add: sample_llm_def llm_start_def)
  with handle_batch [of sample_llm sample_config llm_start "[sample_listing, bare_listing]"] never_cancelled_sample
  show ?thesis by (auto simp: transient_sample sample_listing_def)
qed

lemma sample_mapping: "\<exists>l. map_raise order_to_listing [sample_wire] = Inr [l] \<and> ls_id l = lit ''1''"
  by (simp add: sample_wire_def order_to_listing_def)

theorem retry_keeps_orders_witness:
  "\<exists>retry t. on_assess_requests sample_llm sample_config (llm_dump_parse_result sample_batch) llm_start = (Inr (), t) \<and>
     (lc_retry sample_config, retry) \<in> set (rt_out t) \<and> llm_read_parse_result strict retry = Some sample_batch"
proof -
  obtain l where l: "map_raise order_to_listing [sample_wire] = Inr [l]" "ls_id l = lit ''1''"
    using sample_mapping by blast
  have W: "pydantic_ok (lw_pydantic sample_llm)" "lw_bus sample_llm = reliable" "lw_pydantic sample_llm = strict"
    "n_ainvoke llm_start = 0"
    by (simp_all add: sample_llm_def pydantic_ok_strict llm_start_def)
  have read: "llm_read_parse_result (lw_pydantic sample_llm) (llm_dump_parse_result sample_batch) = Some sample_batch"
    unfolding llm_read_parse_result_eq llm_dump_parse_result_eq by (rule read_dump_parse_result [OF W(1)])
  have "map_raise order_to_listing (pr_orders sample_batch) = Inr [l]" using l by (simp add: sample_batch_def)
  from retry_keeps_orders [OF W(1,2) read this never_cancelled_sample, of sample_config llm_start, unfolded W(3,4)]
  obtain failed retry t where t: "on_assess_requests sample_llm sample_config (llm_dump_parse_result sample_batch) llm_start = (Inr (), t)"
      "failed = filter (\<lambda>order. wo_id order \<in> set (transient_ids sample_llm sample_config 0 [l])) (pr_orders sample_batch)"
      "rt_out t = rt_out llm_start @ batch_verdicts sample_llm sample_config 0 [l] @ (if failed = [] then [] else [(lc_retry sample_config, retry)])"
      "llm_read_parse_result strict retry = Some (sample_batch\<lparr>pr_orders := failed\<rparr>)"
    by (elim exE conjE) (rule that)
  have "transient_ids sample_llm sample_config 0 [l] = [lit ''1'']"
    by (simp add: transient_ids_def is_transient_def verdict_sample(1) l(2))
  then have one: "failed = [sample_wire]" using t(2) by (simp add: sample_batch_def sample_wire_def)
  then have "(lc_retry sample_config, retry) \<in> set (rt_out t)" by (simp add: t(3))
  moreover have "sample_batch\<lparr>pr_orders := failed\<rparr> = sample_batch" by (simp add: one sample_batch_def)
  ultimately show ?thesis using t(1,4) by metis
qed

theorem only_good_verdicts_witness:
  "\<exists>new. rt_out (snd (on_assess_requests sample_llm sample_config JNull llm_start)) = rt_out llm_start @ new"
  using only_good_verdicts [OF surjective_pairing [of "on_assess_requests sample_llm sample_config JNull llm_start"]]
  by blast

definition lossy_llm :: llm_world where
  "lossy_llm = sample_llm\<lparr>lw_ainvoke := (\<lambda>_ _. Inr sample_schema),
     lw_bus := \<lparr>bus_fault = (\<lambda>_. Some (PublishError (lit ''down''), False))\<rparr>\<rparr>"

theorem failed_publication_loses_verdict_witness:
  "\<exists>t. AssessOrders_handle lossy_llm sample_config [sample_listing] llm_start = (Inr [], t) \<and> rt_out t = []"
proof -
  obtain a where "verdict lossy_llm (lc_profile sample_config) (n_ainvoke llm_start) sample_listing = Inr a"
      "ld_notify (decide a (lc_threshold sample_config))"
    by (simp add: lossy_llm_def sample_llm_defs decide_notify)
  from failed_publication_loses_verdict [OF this, of "lit ''down''"] show ?thesis
    by (auto simp: lossy_llm_def sample_llm_def llm_start_def)
qed

definition huge_price :: price where
  "huge_price = \<lparr>price_prefix = [], price_value = replicate 4301 49, price_suffix = []\<rparr>"

theorem long_price_rejects_batch_witness:
  "\<exists>e. on_assess_requests sample_llm sample_config
     (llm_dump_parse_result (sample_batch\<lparr>pr_orders := [sample_wire, sample_wire\<lparr>wo_price := Some huge_price\<rparr>]\<rparr>)) llm_start =
     (Inl (ValueError e), llm_start)"
proof (rule long_price_rejects_batch)
  have W: "pydantic_ok (lw_pydantic sample_llm)" by (simp add: sample_llm_def pydantic_ok_strict)
  show "llm_read_parse_result (lw_pydantic sample_llm)
      (llm_dump_parse_result (sample_batch\<lparr>pr_orders := [sample_wire, sample_wire\<lparr>wo_price := Some huge_price\<rparr>]\<rparr>)) =
      Some (sample_batch\<lparr>pr_orders := [sample_wire, sample_wire\<lparr>wo_price := Some huge_price\<rparr>]\<rparr>)"
    unfolding llm_read_parse_result_eq llm_dump_parse_result_eq by (rule read_dump_parse_result [OF W])
  show "wo_price (sample_wire\<lparr>wo_price := Some huge_price\<rparr>) = Some huge_price" by simp
  have digits: "list_all is_digit (replicate 4301 49)" by (simp add: list_all_iff digit_sample)
  have first: "hd (replicate 4301 (49::nat)) = 49" "replicate 4301 (49::nat) \<noteq> []" by (simp_all add: hd_replicate)
  from amount_match_split [of "[]" "replicate 4301 49" "[]"] digits first
  show "amount_match (price_value huge_price) = Some (replicate 4301 49)"
    by (simp add: huge_price_def list_all_iff digit_sample)
  have "only_digits (replicate 4301 49) = replicate 4301 49" by (simp add: only_digits_def digit_sample filter_replicate)
  then show "max_str_digits < length (only_digits (replicate 4301 49))" by (simp add: max_str_digits_def)
  have "strip (replicate 4301 49) = replicate 4301 49"
    by (rule strip_id) (simp add: is_space_def space_cps_def hd_replicate last_replicate)
  then show "strip (py_join (lit '' '') (filter (\<lambda>x. x \<noteq> [])
      [price_prefix huge_price, price_value huge_price, price_suffix huge_price])) \<noteq> []"
    using first(2) by (simp add: huge_price_def)
qed simp

end
