(* ===== verification/Pipeline.thy ===== *)
theory Pipeline
  imports CoreMessaging LlmTheorems Scheduler
begin

text \<open>
  The services together: how the queues of order-core-service, llm and scheduler fit, and what holds
  of every run of core and llm connected by a broker that may deliver any message ever published to
  a queue any number of times and in any order. A step is one message handled, or one turn of
  the relay's loop, to its end; within it the database, the broker and the model may fail as they like. Any
  document may arrive on parse.results; theory Board adds the parser that writes them.
\<close>

section \<open>Topology\<close>

text \<open>The default exchange routes a message to the queue its routing key names.\<close>

definition routes_to :: "ustr \<Rightarrow> publisher \<Rightarrow> bool" where
  "routes_to q p \<longleftrightarrow> pub_exchange p = None \<and> pub_routing_key p = q"

definition input_queue :: "llm_settings \<Rightarrow> ustr" where
  "input_queue L = lms_input_queue (ls_messaging L)"

definition retry_queue :: "llm_settings \<Rightarrow> ustr" where
  "retry_queue L = input_queue L @ lit ''.retry''"

definition result_queue :: "llm_settings \<Rightarrow> ustr" where
  "result_queue L = lms_result_queue (ls_messaging L)"

definition wired :: "core_settings \<Rightarrow> llm_settings \<Rightarrow> bool" where
  "wired S L \<longleftrightarrow> cms_assess_request_queue (cs_messaging S) = input_queue L \<and>
     cms_assess_result_queue (cs_messaging S) = result_queue L \<and>
     distinct [input_queue L, retry_queue L, result_queue L, cms_dlq (cs_messaging S)]"

text \<open>The default settings of the services fit together: core publishes assessment requests to the queue
  llm reads, llm publishes verdicts to the queue core reads, no two roles share a queue, and whenever
  two services declare a queue of the same name they declare it with the same properties, which the
  broker demands.\<close>

theorem default_topology:
  "wired default_core_settings default_llm_settings \<and>
   (let queues = core_queues default_core_settings @ llm_queues default_llm_settings @
      [parse_requests_queue (sg_parse_queue default_scheduler_group)]
    in list_all (\<lambda>q. list_all (\<lambda>q'. rq_name q = rq_name q' \<longrightarrow> q = q') queues) queues)"
  by (simp add: wired_def input_queue_def retry_queue_def result_queue_def default_core_settings_def
      default_core_messaging_def default_llm_settings_def default_llm_messaging_def core_queues_def llm_queues_def
      build_parse_queue_def build_assess_result_queue_def build_dead_letter_queue_def durable_queue_def
      llm_input_queue_def llm_dead_letter_queue_def llm_retry_queue_def llm_result_queue_def
      parse_requests_queue_def default_scheduler_group_def lit_def)

theorem default_topology_witness:
  "cms_assess_request_queue (cs_messaging default_core_settings) = input_queue default_llm_settings"
  using default_topology by (simp add: wired_def)

section \<open>Steps\<close>

definition in_queue :: "ustr \<Rightarrow> (publisher \<times> json) list \<Rightarrow> json \<Rightarrow> bool" where
  "in_queue q out j \<longleftrightarrow> (\<exists>p. (p, j) \<in> set out \<and> routes_to q p)"

text \<open>
  \<open>AS\<close> holds what the model may answer: a step of llm works with one of its members. In a run with
  \<open>AS = {A}\<close> the model's answers are those of \<open>A\<close>, call by call; everything else that the outside
  world decides may differ from step to step.
\<close>

inductive pipe_step :: "core_settings \<Rightarrow> llm_settings \<Rightarrow> contractor_profile \<Rightarrow> model_answers set \<Rightarrow>
    pg \<times> llm_state \<Rightarrow> pg \<times> llm_state \<Rightarrow> bool"
  for S L profile AS where
  parse: "core_on_parse S W raw c = (r, c') \<Longrightarrow> pydantic_ok (cw_pydantic W) \<Longrightarrow>
    pipe_step S L profile AS (c, l) (c', l)"
| relay: "relay_tick repr (core_relay S W) interval c = (r', c') \<Longrightarrow> pipe_step S L profile AS (c, l) (c', l)"
| assess: "in_queue (input_queue L) (rt_out c) j \<or> in_queue (input_queue L) (rt_out l) j \<or>
      in_queue (retry_queue L) (rt_out l) j \<Longrightarrow>
    on_assess_requests V (llm_wiring L profile) j l = (r, l') \<Longrightarrow> pydantic_ok (lw_pydantic V) \<Longrightarrow>
    lw_ainvoke V \<in> AS \<Longrightarrow> pipe_step S L profile AS (c, l) (c, l')"
| verdict: "in_queue (result_queue L) (rt_out l) j \<Longrightarrow> core_on_assess S W j c = (r, c') \<Longrightarrow>
    pydantic_ok (cw_pydantic W) \<Longrightarrow> pipe_step S L profile AS (c, l) (c', l)"

text \<open>A run starts from empty tables and queues, with llm in the state \<open>l0\<close>.\<close>

inductive pipe_run :: "core_settings \<Rightarrow> llm_settings \<Rightarrow> contractor_profile \<Rightarrow> model_answers set \<Rightarrow> llm_state \<Rightarrow>
    pg \<times> llm_state \<Rightarrow> bool"
  for S L profile AS l0 where
  start: "committed c = empty_db \<Longrightarrow> session c = None \<Longrightarrow> rt_out c = [] \<Longrightarrow> rt_out l0 = [] \<Longrightarrow>
    pipe_run S L profile AS l0 (c, l0)"
| step: "pipe_run S L profile AS l0 p \<Longrightarrow> pipe_step S L profile AS p q \<Longrightarrow> pipe_run S L profile AS l0 q"

definition reachable :: "core_settings \<Rightarrow> llm_settings \<Rightarrow> contractor_profile \<Rightarrow> pg \<times> llm_state \<Rightarrow> bool" where
  "reachable S L profile p \<longleftrightarrow> (\<exists>l0. pipe_run S L profile UNIV l0 p)"

lemma pipe_run_mono:
  assumes "pipe_run S L profile AS l0 p" and "AS \<subseteq> AS'"
  shows "pipe_run S L profile AS' l0 p"
  using assms(1)
proof (induction rule: pipe_run.induct)
  case (step p q)
  from step(2) assms(2) have "pipe_step S L profile AS' p q"
    by (cases rule: pipe_step.cases) (blast intro: pipe_step.intros)+
  with step(3) show ?case by (rule pipe_run.step)
qed (rule pipe_run.start)

section \<open>What a step does to core\<close>

lemma on_parse_effect:
  assumes "core_idle s" and "core_on_parse S W raw s = (r, t)"
  shows "core_idle t \<and> (\<exists>new. rt_out t = rt_out s @ new \<and> (\<forall>pj \<in> set new. fst pj = core_dlq S)) \<and>
    (abs_db (committed t) = abs_db (committed s) \<or>
     (\<exists>m. abs_db (committed t) = fold spec_ingest (to_incoming_orders m) (abs_db (committed s))))"
proof -
  note run = assms(2) [unfolded core_on_parse_def on_parse_results_def]
  from run model_validate_error show ?thesis
  proof (cases rule: subscriber_cases)
    case (no_dict m)
    with assms(1) show ?thesis by simp
  next
    case (invalid m)
    with assms(1) show ?thesis by (auto simp: same_store_def core_idle_def dead_lettered_def)
  next
    case (permanent x m u)
    then show ?thesis using ingest_raises [OF assms(1)] by blast
  next
    case (other x)
    then show ?thesis
    proof (cases r)
      case (Inl e)
      with other ingest_raises [OF assms(1)] show ?thesis by fastforce
    next
      case (Inr u)
      with other ingest_returns [OF assms(1)] show ?thesis by fastforce
    qed
  qed
qed

lemma on_assess_effect:
  assumes "core_idle s" and "core_on_assess S W raw s = (r, t)"
    and "read_assessment_result (cw_pydantic W) raw = Some m"
    and "to_assessment_outcome (cw_pydantic W) m = Inr out"
    and "fst (abs_db (committed s)) (profi_key (ao_order_id out)) \<noteq> None"
  shows "core_idle t \<and> rt_out t = rt_out s \<and>
    ((r = Inr () \<and> spec_process (cs_notify_threshold S) out (abs_db (committed s)) = Some (abs_db (committed t))) \<or>
     ((\<exists>e. r = Inl (DatabaseError e)) \<and> (committed t = committed s \<or>
       spec_process (cs_notify_threshold S) out (abs_db (committed s)) = Some (abs_db (committed t)))))"
proof -
  let ?run = "ProcessAssessment_handle (sql_uow (cw_pg W)) (cs_notify_threshold S) out s"
  have known: "spec_process (cs_notify_threshold S) out (abs_db (committed s)) \<noteq> None"
    using spec_process_None [of "cs_notify_threshold S" out "abs_db (committed s)"] assms(5) by blast
  have db: "\<exists>e. x = DatabaseError e" if "?run = (Inl x, u)" for x u
    using process_raises [OF assms(1) that] known by auto
  obtain r' u where h: "?run = (r', u)" by (cases ?run)
  have "r = r'" "t = u"
  proof -
    have "\<nexists>m. r' = Inl (PermanentError m)" using db h by blast
    then show "r = r'" "t = u"
      using assms(2-4) h
      by (auto simp: core_on_assess_def on_assess_results_def validated_dict guard_def model_validate_def dest!: read_is_dict(2)
          split: sum.splits exn.splits)
  qed
  with h have run: "?run = (r, t)" by simp
  show ?thesis
  proof (cases r)
    case (Inl e)
    with process_raises [OF assms(1)] run known db show ?thesis by blast
  next
    case (Inr u)
    with process_returns [OF assms(1)] run show ?thesis by simp
  qed
qed

lemma relay_effect:
  assumes "core_idle s" and "core_relay S W s = (r, t)"
  shows "core_idle t \<and> abs_db (committed t) = abs_db (committed s) \<and>
    (\<exists>evs. set evs \<subseteq> set (waiting_events (committed s)) \<and>
      rt_out t = rt_out s @ map (message_for (core_assess_publisher S) (core_notify_publisher S)) evs)"
proof (cases r)
  case (Inr k)
  with relay_returns [OF assms(1)] assms(2) sent_as_messages show ?thesis
    unfolding core_relay_def relay.relayed_def by blast
next
  case (Inl e)
  with relay_raises [OF assms(1)] assms(2) have t: "core_idle t"
      "relay.relay_failed (core_assess_publisher S) (core_notify_publisher S) (nat (obs_batch_size (cs_outbox S)))
        (rt_out s) (committed s) (rt_out t) (committed t)"
    unfolding core_relay_def by blast+
  obtain evs k ms where evs: "set evs \<subseteq> set (waiting_events (committed s))" "rt_out t = rt_out s @ ms"
      "relay.sent_as (core_assess_publisher S) (core_notify_publisher S) (take k evs) ms"
      "committed t = committed s \<or> relay.relayed (core_assess_publisher S) (core_notify_publisher S)
        (nat (obs_batch_size (cs_outbox S))) (rt_out s) (committed s) (length evs) (rt_out t) (committed t)"
    using t(2) unfolding relay.relay_failed_def by blast
  have "abs_db (committed t) = abs_db (committed s)" using evs(4) unfolding relay.relayed_def by auto
  moreover have "set (take k evs) \<subseteq> set (waiting_events (committed s))" using evs(1) set_take_subset by fastforce
  ultimately show ?thesis using t(1) evs(2) sent_as_messages [OF evs(3)] by blast
qed

lemma turn_effect:
  assumes "core_idle s" and "relay_tick repr (core_relay S W) interval s = (r, t)"
  shows "core_idle t \<and> abs_db (committed t) = abs_db (committed s) \<and>
    (\<exists>evs. set evs \<subseteq> set (waiting_events (committed s)) \<and>
      rt_out t = rt_out s @ map (message_for (core_assess_publisher S) (core_notify_publisher S)) evs)"
proof -
  obtain r' u where u: "core_relay S W s = (r', u)" by (cases "core_relay S W s")
  have "committed t = committed u \<and> session t = session u \<and> rt_out t = rt_out u"
    using assms(2) u by (cases r') (auto simp: relay_tick_def split: if_splits)
  with relay_effect [OF assms(1) u] show ?thesis by (simp add: core_idle_def)
qed

lemma waiting_event_stored:
  assumes "rows_ok db" and "e \<in> set (waiting_events db)"
  shows "\<exists>k. abs_events db k = Some (pe_destination e, pe_payload e)"
proof -
  obtain r where r: "r \<in> set (outbox_t db)" "e = to_event r"
    using assms(2) by (auto simp: waiting_events_def pending_rows_def)
  have "map_of (map event_binding (outbox_t db)) (ob_dedup_key r) = Some (ob_destination r, ob_payload r)"
  proof (rule map_of_is_SomeI)
    show "distinct (map fst (map event_binding (outbox_t db)))" using assms(1) by (simp add: rows_ok_def comp_def)
    have "(ob_dedup_key r, ob_destination r, ob_payload r) = event_binding r" by (simp add: event_binding_def)
    then show "(ob_dedup_key r, ob_destination r, ob_payload r) \<in> set (map event_binding (outbox_t db))"
      using r(1) by simp
  qed
  with r(2) show ?thesis unfolding abs_events_def by auto
qed

section \<open>The invariant\<close>

definition known_batch :: "order_map \<Rightarrow> json \<Rightarrow> bool" where
  "known_batch om j \<longleftrightarrow> (\<exists>m. j = dump_parse_result m \<and> (\<forall>w \<in> set (pr_orders m). om (profi_key (wo_id w)) \<noteq> None))"

text \<open>
  A verdict is about a stored order, and of an assessment that \<open>ok\<close> for the order; so is a
  notification. \<open>ok n\<close> is about the first \<open>n\<close> calls of the model.
\<close>

definition known_verdict :: "(listing \<Rightarrow> assessment \<Rightarrow> bool) \<Rightarrow> llm_settings \<Rightarrow> order_map \<Rightarrow> json \<Rightarrow> bool" where
  "known_verdict ok L om j \<longleftrightarrow> (\<exists>l a. j = dump_llm_result (from_result (build_result l a)) \<and>
     om (profi_key (ls_id l)) \<noteq> None \<and> ok l a \<and> ld_notify (decide a (ls_suitability_threshold L)) \<and>
     0 \<le> as_suitability_score a \<and> as_suitability_score a \<le> 100)"

definition good_note :: "(listing \<Rightarrow> assessment \<Rightarrow> bool) \<Rightarrow> core_settings \<Rightarrow> llm_settings \<Rightarrow> order_map \<Rightarrow> json \<Rightarrow> bool" where
  "good_note ok S L om j \<longleftrightarrow> (\<exists>l a. j = notification_payload (core_command (build_notification l a)) \<and>
     om (profi_key (ls_id l)) \<noteq> None \<and> ok l a \<and> ld_notify (decide a (ls_suitability_threshold L)) \<and>
     cs_notify_threshold S \<le> as_suitability_score a)"

definition events_good :: "(listing \<Rightarrow> assessment \<Rightarrow> bool) \<Rightarrow> core_settings \<Rightarrow> llm_settings \<Rightarrow> abs_core \<Rightarrow> bool" where
  "events_good ok S L a \<longleftrightarrow> (\<forall>k d j. snd a k = Some (d, j) \<longrightarrow>
     (d = destination_value ASSESS_REQUEST \<longrightarrow> known_batch (fst a) j) \<and>
     (d = destination_value NOTIFY \<longrightarrow> good_note ok S L (fst a) j))"

definition core_sent_good :: "(listing \<Rightarrow> assessment \<Rightarrow> bool) \<Rightarrow> core_settings \<Rightarrow> llm_settings \<Rightarrow> order_map \<Rightarrow>
    publisher \<times> json \<Rightarrow> bool" where
  "core_sent_good ok S L om pj \<longleftrightarrow> (routes_to (input_queue L) (fst pj) \<longrightarrow> known_batch om (snd pj)) \<and>
     (pub_exchange (fst pj) \<noteq> None \<longrightarrow> good_note ok S L om (snd pj))"

definition llm_sent_good :: "(listing \<Rightarrow> assessment \<Rightarrow> bool) \<Rightarrow> llm_settings \<Rightarrow> order_map \<Rightarrow> publisher \<times> json \<Rightarrow> bool" where
  "llm_sent_good ok L om pj \<longleftrightarrow>
     (routes_to (input_queue L) (fst pj) \<or> routes_to (retry_queue L) (fst pj) \<longrightarrow> known_batch om (snd pj)) \<and>
     (routes_to (result_queue L) (fst pj) \<longrightarrow> known_verdict ok L om (snd pj))"

definition no_skip :: "core_settings \<Rightarrow> llm_settings \<Rightarrow> order_map \<Rightarrow> bool" where
  "no_skip S L om \<longleftrightarrow> (cs_notify_threshold S \<le> ls_suitability_threshold L \<longrightarrow>
     (\<forall>k sc. om k \<noteq> Some (status_value NO_NOTIFY, sc)))"

definition pipe_inv :: "core_settings \<Rightarrow> llm_settings \<Rightarrow> (nat \<Rightarrow> listing \<Rightarrow> assessment \<Rightarrow> bool) \<Rightarrow> pg \<times> llm_state \<Rightarrow> bool" where
  "pipe_inv S L ok p \<longleftrightarrow> (let (c, l) = p; a = abs_db (committed c); ok' = ok (n_ainvoke l) in
     core_idle c \<and> link_ok a \<and> events_good ok' S L a \<and> no_skip S L (fst a) \<and>
     (\<forall>pj \<in> set (rt_out c). core_sent_good ok' S L (fst a) pj) \<and>
     (\<forall>pj \<in> set (rt_out l). llm_sent_good ok' L (fst a) pj))"

text \<open>Orders are never deleted and answers stay given, so what is known stays known.\<close>

definition grows :: "order_map \<Rightarrow> order_map \<Rightarrow> bool" where
  "grows om om' \<longleftrightarrow> (\<forall>k. om k \<noteq> None \<longrightarrow> om' k \<noteq> None)"

lemma grows_refl [simp]: "grows om om"
  by (simp add: grows_def)

lemma known_batch_mono: "grows om om' \<Longrightarrow> known_batch om j \<Longrightarrow> known_batch om' j"
  unfolding known_batch_def grows_def by blast

lemma known_verdict_mono: "grows om om' \<Longrightarrow> (\<And>l a. ok l a \<Longrightarrow> ok' l a) \<Longrightarrow> known_verdict ok L om j \<Longrightarrow> known_verdict ok' L om' j"
  unfolding known_verdict_def grows_def by blast

lemma good_note_mono: "grows om om' \<Longrightarrow> (\<And>l a. ok l a \<Longrightarrow> ok' l a) \<Longrightarrow> good_note ok S L om j \<Longrightarrow> good_note ok' S L om' j"
  unfolding good_note_def grows_def by blast

lemma events_good_mono:
  assumes "\<And>l a. ok l a \<Longrightarrow> ok' l a" and "events_good ok S L a"
  shows "events_good ok' S L a"
  using assms(2) good_note_mono [where ok = ok and ok' = ok', OF grows_refl assms(1)] unfolding events_good_def by blast

lemma core_sent_good_mono:
  assumes "grows om om'" and "\<And>l a. ok l a \<Longrightarrow> ok' l a" and "core_sent_good ok S L om pj"
  shows "core_sent_good ok' S L om' pj"
  using assms(3) known_batch_mono [OF assms(1)] good_note_mono [where ok = ok and ok' = ok', OF assms(1,2)]
  unfolding core_sent_good_def by blast

lemma llm_sent_good_mono:
  assumes "grows om om'" and "\<And>l a. ok l a \<Longrightarrow> ok' l a" and "llm_sent_good ok L om pj"
  shows "llm_sent_good ok' L om' pj"
  using assms(3) known_batch_mono [OF assms(1)] known_verdict_mono [where ok = ok and ok' = ok', OF assms(1,2)]
  unfolding llm_sent_good_def by blast

lemma grows_ingest: "grows (fst a) (fst (fold spec_ingest batch a))"
  unfolding grows_def using fold_spec_ingest_keeps by metis

lemma grows_process: "spec_process th out a = Some b \<Longrightarrow> grows (fst a) (fst b)"
  by (erule spec_process_cases) (auto simp: grows_def)

section \<open>Its preservation, component by component\<close>

lemma assess_payload_dump:
  assumes "io_payload ord = dump_order w"
  shows "assess_request_payload ord = dump_parse_result \<lparr>pr_request_id =
      (case io_request_id ord of Some r \<Rightarrow> r | None \<Rightarrow> []), pr_fetched_at = io_fetched_at ord, pr_total_count = 1,
      pr_next_cursor = None, pr_orders = [w]\<rparr>"
  by (simp add: assess_request_payload_def dump_parse_result_def assms)

lemma put_new_cases: "put_new k v m k' = Some x \<Longrightarrow> m k' = Some x \<or> (k' = k \<and> x = v)"
  by (auto simp: put_new_def split: option.splits if_splits)

lemma events_good_spec_ingest:
  assumes "events_good ok S L a" and "io_payload ord = dump_order w" and "io_external_id ord = wo_id w"
  shows "events_good ok S L (spec_ingest ord a)"
proof (cases "fst a (in_key ord) = None")
  case False
  with assms(1) show ?thesis by (simp add: spec_ingest_known)
next
  case True
  obtain om ev where a: "a = (om, ev)" by (cases a)
  let ?om = "om(in_key ord \<mapsto> (status_value ASSESS_REQUESTED, None))"
  have new: "spec_ingest ord a = (?om, put_new (assess_key (io_source ord) (io_external_id ord))
      (destination_value ASSESS_REQUEST, assess_request_payload ord) ev)"
    using True a by (simp add: spec_ingest_def)
  have "grows om ?om" by (simp add: grows_def)
  moreover have "known_batch ?om (assess_request_payload ord)"
  proof -
    have key: "in_key ord = profi_key (wo_id w)" by (simp add: in_key_profi assms(3))
    show ?thesis
      unfolding known_batch_def assess_payload_dump [OF assms(2)]
      by (rule exI, rule conjI, rule refl) (simp add: key)
  qed
  ultimately show ?thesis
    using assms(1) [unfolded a events_good_def fst_conv snd_conv] unfolding new events_good_def fst_conv snd_conv
    by (auto dest!: put_new_cases intro: known_batch_mono good_note_mono)
qed

lemma events_good_ingest:
  assumes "events_good ok S L a"
  shows "events_good ok S L (fold spec_ingest (to_incoming_orders m) a)"
proof -
  have "events_good ok S L (fold spec_ingest batch b)"
    if "events_good ok S L b" "\<forall>ord \<in> set batch. \<exists>w. io_payload ord = dump_order w \<and> io_external_id ord = wo_id w" for batch b
    using that
  proof (induction batch arbitrary: b)
    case (Cons ord batch)
    then obtain w where "io_payload ord = dump_order w" "io_external_id ord = wo_id w" by auto
    with Cons.prems(1) have "events_good ok S L (spec_ingest ord b)" by (rule events_good_spec_ingest)
    with Cons show ?case by simp
  qed simp
  moreover have "\<forall>ord \<in> set (to_incoming_orders m). \<exists>w. io_payload ord = dump_order w \<and> io_external_id ord = wo_id w"
    by (auto simp: to_incoming_orders_def)
  ultimately show ?thesis using assms by blast
qed

lemma events_good_process:
  assumes "events_good ok S L a" and "spec_process th out a = Some b"
    and "th \<le> ao_suitability_score out \<Longrightarrow> good_note ok S L (fst a) (notification_payload (ao_notification out))"
  shows "events_good ok S L b"
proof -
  have keep: "known_batch (fst b) j" if "known_batch (fst a) j" for j
    using known_batch_mono [OF grows_process [OF assms(2)] that] .
  have kept: "good_note ok S L (fst b) j" if "good_note ok S L (fst a) j" for j
    using good_note_mono [OF grows_process [OF assms(2)] _ that] by simp
  have old: "snd b k = Some (d, j) \<Longrightarrow> snd a k = Some (d, j) \<or>
      (d = destination_value NOTIFY \<and> th \<le> ao_suitability_score out \<and> j = notification_payload (ao_notification out))"
    for k d j
    using assms(2) by (cases rule: spec_process_cases) (auto dest: put_new_cases)
  show ?thesis unfolding events_good_def
  proof (intro allI impI conjI)
    fix k d j assume "snd b k = Some (d, j)" "d = destination_value ASSESS_REQUEST"
    then show "known_batch (fst b) j" using old [of k d j] assms(1) keep unfolding events_good_def by fastforce
  next
    fix k d j assume "snd b k = Some (d, j)" "d = destination_value NOTIFY"
    then show "good_note ok S L (fst b) j" using old [of k d j] assms(1,3) kept unfolding events_good_def by fastforce
  qed
qed

lemma no_skip_ingest: "no_skip S L (fst a) \<Longrightarrow> no_skip S L (fst (fold spec_ingest batch a))"
proof -
  assume n: "no_skip S L (fst a)"
  have "fst (fold spec_ingest batch a) k = Some (status_value NO_NOTIFY, sc) \<Longrightarrow>
      fst a k = Some (status_value NO_NOTIFY, sc)" for k sc
    using fold_spec_ingest_keeps [of a k batch] fold_spec_ingest_new [of a k batch] by (cases "fst a k") fastforce+
  with n show ?thesis unfolding no_skip_def by blast
qed

lemma no_skip_process:
  assumes "no_skip S L (fst a)" and "spec_process (cs_notify_threshold S) out a = Some b"
    and "ls_suitability_threshold L \<le> ao_suitability_score out"
  shows "no_skip S L (fst b)"
  using assms(2) by (cases rule: spec_process_cases) (use assms in \<open>auto simp: no_skip_def\<close>)

section \<open>The invariant holds in every reachable state\<close>

lemma core_routes:
  assumes "wired S L"
  shows "routes_to (input_queue L) (core_assess_publisher S)" and "\<not> routes_to (input_queue L) (core_dlq S)"
    and "pub_exchange (core_dlq S) = None" and "pub_exchange (core_assess_publisher S) = None"
    and "\<not> routes_to q (core_notify_publisher S)"
  using assms by (auto simp: wired_def routes_to_def core_assess_publisher_def build_assess_request_publisher_def
      default_publisher_def core_dlq_def build_dlq_publisher_def core_notify_publisher_def build_notify_publisher_def)

lemma llm_routes:
  assumes "wired S L"
  shows "routes_to q (lc_retry (llm_wiring L p)) \<longleftrightarrow> q = retry_queue L"
    and "routes_to q (lc_result (llm_wiring L p)) \<longleftrightarrow> q = result_queue L"
    and "retry_queue L \<noteq> result_queue L" and "input_queue L \<noteq> result_queue L" and "input_queue L \<noteq> retry_queue L"
  using assms by (auto simp: wired_def routes_to_def llm_wiring_def build_retry_publisher_def default_publisher_def
      build_result_publisher_def input_queue_def retry_queue_def result_queue_def)

lemma pipe_inv_start:
  "committed c = empty_db \<Longrightarrow> session c = None \<Longrightarrow> rt_out c = [] \<Longrightarrow> rt_out l = [] \<Longrightarrow> pipe_inv S L ok (c, l)"
  by (simp add: pipe_inv_def core_idle_def abs_db_def link_ok_empty events_good_def no_skip_def)

lemma pipe_inv_core:
  assumes "pipe_inv S L ok (c, l)" and "core_idle c'" and "link_ok (abs_db (committed c'))"
    and "events_good (ok (n_ainvoke l)) S L (abs_db (committed c'))" and "no_skip S L (fst (abs_db (committed c')))"
    and "grows (fst (abs_db (committed c))) (fst (abs_db (committed c')))"
    and "rt_out c' = rt_out c @ new" and "\<forall>pj \<in> set new. core_sent_good (ok (n_ainvoke l)) S L (fst (abs_db (committed c'))) pj"
  shows "pipe_inv S L ok (c', l)"
  using assms unfolding pipe_inv_def Let_def prod.case
  by (auto intro: core_sent_good_mono llm_sent_good_mono)

lemma pipe_inv_same:
  assumes "pipe_inv S L ok (c, l)" and "core_idle c'" and "abs_db (committed c') = abs_db (committed c)"
    and "rt_out c' = rt_out c @ new" and "\<forall>pj \<in> set new. core_sent_good (ok (n_ainvoke l)) S L (fst (abs_db (committed c))) pj"
  shows "pipe_inv S L ok (c', l)"
  by (rule pipe_inv_core [OF assms(1,2) _ _ _ _ assms(4)])
    (use assms in \<open>auto simp: pipe_inv_def Let_def\<close>)

lemma dead_letters_good:
  assumes "wired S L" and "\<forall>pj \<in> set new. fst pj = core_dlq S"
  shows "\<forall>pj \<in> set new. core_sent_good ok S L om pj"
  using assms(2) core_routes(2,3) [OF assms(1)] by (auto simp: core_sent_good_def)

lemma pipe_invD:
  assumes "pipe_inv S L ok (c, l)"
  shows "core_idle c" and "link_ok (abs_db (committed c))"
    and "events_good (ok (n_ainvoke l)) S L (abs_db (committed c))"
    and "no_skip S L (fst (abs_db (committed c)))"
    and "pj \<in> set (rt_out c) \<Longrightarrow> core_sent_good (ok (n_ainvoke l)) S L (fst (abs_db (committed c))) pj"
    and "pj \<in> set (rt_out l) \<Longrightarrow> llm_sent_good (ok (n_ainvoke l)) L (fst (abs_db (committed c))) pj"
  using assms by (simp_all add: pipe_inv_def Let_def)

lemma pipe_inv_parse:
  assumes "wired S L" and "pipe_inv S L ok (c, l)" and "core_on_parse S W raw c = (r, c')"
  shows "pipe_inv S L ok (c', l)"
proof -
  have inv: "core_idle c" "link_ok (abs_db (committed c))" "events_good (ok (n_ainvoke l)) S L (abs_db (committed c))"
      "no_skip S L (fst (abs_db (committed c)))"
    by (rule pipe_invD [OF assms(2)])+
  obtain new where eff: "core_idle c'" "rt_out c' = rt_out c @ new" "\<forall>pj \<in> set new. fst pj = core_dlq S"
      "abs_db (committed c') = abs_db (committed c) \<or>
       (\<exists>m. abs_db (committed c') = fold spec_ingest (to_incoming_orders m) (abs_db (committed c)))"
    using on_parse_effect [OF inv(1) assms(3)] by blast
  note sent = dead_letters_good [OF assms(1) eff(3)]
  from eff(4) show ?thesis
  proof (elim disjE exE)
    assume "abs_db (committed c') = abs_db (committed c)"
    then show ?thesis by (rule pipe_inv_same [OF assms(2) eff(1) _ eff(2) sent])
  next
    fix m assume m: "abs_db (committed c') = fold spec_ingest (to_incoming_orders m) (abs_db (committed c))"
    show ?thesis
      by (rule pipe_inv_core [OF assms(2) eff(1) _ _ _ _ eff(2) sent])
        (simp_all add: m inv link_ok_fold_ingest events_good_ingest no_skip_ingest grows_ingest)
  qed
qed

lemma pipe_inv_relay:
  assumes "wired S L" and "pipe_inv S L ok (c, l)" and "relay_tick repr (core_relay S W) interval c = (r, c')"
  shows "pipe_inv S L ok (c', l)"
proof -
  let ?om = "fst (abs_db (committed c))" and ?ok = "ok (n_ainvoke l)"
  have inv: "core_idle c" "events_good ?ok S L (abs_db (committed c))" "link_ok (abs_db (committed c))"
    by (rule pipe_invD [OF assms(2)])+
  obtain evs where eff: "core_idle c'" "abs_db (committed c') = abs_db (committed c)"
      "set evs \<subseteq> set (waiting_events (committed c))"
      "rt_out c' = rt_out c @ map (message_for (core_assess_publisher S) (core_notify_publisher S)) evs"
    using turn_effect [OF inv(1) assms(3)] by blast
  have "core_sent_good ?ok S L ?om (message_for (core_assess_publisher S) (core_notify_publisher S) e)"
    if "e \<in> set evs" for e
  proof -
    have "e \<in> set (waiting_events (committed c))" "rows_ok (committed c)"
      using eff(3) that inv(1) by (auto simp: core_idle_def)
    then obtain k where k: "snd (abs_db (committed c)) k = Some (pe_destination e, pe_payload e)"
      using waiting_event_stored [of "committed c" e] by (auto simp: abs_db_def)
    then consider "pe_destination e = destination_value ASSESS_REQUEST" | "pe_destination e = destination_value NOTIFY"
      using link_okD(5) [of ?om "snd (abs_db (committed c))"] inv(3) by auto
    then show ?thesis
    proof cases
      case 1
      then have "known_batch ?om (pe_payload e)" using inv(2) k unfolding events_good_def by blast
      with 1 core_routes [OF assms(1)] show ?thesis
        by (simp add: core_sent_good_def message_for_def by_destination_def)
    next
      case 2
      then have "good_note ?ok S L ?om (pe_payload e)" using inv(2) k unfolding events_good_def by blast
      with 2 core_routes [OF assms(1)] show ?thesis
        by (simp add: core_sent_good_def message_for_def by_destination_def)
    qed
  qed
  then show ?thesis by (intro pipe_inv_same [OF assms(2) eff(1,2,4)]) auto
qed

lemma pipe_inv_assess:
  assumes "wired S L" and "pipe_inv S L ok (c, l)" and "pydantic_ok (lw_pydantic V)"
    and keep: "\<And>li a. ok (n_ainvoke l) li a \<Longrightarrow> ok (n_ainvoke l') li a"
    and now: "\<And>li a. answered (lw_ainvoke V) profile {n_ainvoke l..<n_ainvoke l'} li a \<Longrightarrow> ok (n_ainvoke l') li a"
    and queued: "in_queue (input_queue L) (rt_out c) j \<or> in_queue (input_queue L) (rt_out l) j \<or> in_queue (retry_queue L) (rt_out l) j"
    and run: "on_assess_requests V (llm_wiring L profile) j l = (r, l')"
  shows "pipe_inv S L ok (c, l')"
proof -
  let ?om = "fst (abs_db (committed c))" and ?C = "llm_wiring L profile" and ?ks = "{n_ainvoke l..<n_ainvoke l'}"
  let ?ok = "ok (n_ainvoke l')" and ?A = "lw_ainvoke V"
  let ?new = "\<lambda>m pj. retry_message ?C m pj \<or> good_message ?A ?C (wo_id ` set (pr_orders m)) ?ks pj"
  have "known_batch ?om j"
    using queued pipe_invD(5,6) [OF assms(2)] unfolding in_queue_def core_sent_good_def llm_sent_good_def by fastforce
  then obtain m where m: "j = dump_parse_result m" "\<forall>w \<in> set (pr_orders m). ?om (profi_key (wo_id w)) \<noteq> None"
    unfolding known_batch_def by blast
  have read: "llm_read_parse_result (lw_pydantic V) j = Some m"
    unfolding m(1) llm_read_parse_result_eq by (rule read_dump_parse_result [OF assms(3)])
  have good: "llm_sent_good ?ok L ?om pj" if "?new m pj" for pj
    using that
  proof
    assume "retry_message ?C m pj"
    then obtain failed where f: "set failed \<subseteq> set (pr_orders m)"
        "pj = (lc_retry ?C, dump_parse_result (m\<lparr>pr_orders := failed\<rparr>))"
      unfolding retry_message_def llm_dump_parse_result_eq by blast
    have "known_batch ?om (snd pj)"
      unfolding known_batch_def f(2) snd_conv
      by (rule exI, rule conjI, rule refl) (use f(1) m(2) in auto)
    with f(2) llm_routes [OF assms(1)] show ?thesis by (simp add: llm_sent_good_def)
  next
    assume "good_message ?A ?C (wo_id ` set (pr_orders m)) ?ks pj"
    then obtain li a where g: "pj = (lc_result ?C, dump_llm_result (from_result (build_result li a)))"
        "ls_id li \<in> wo_id ` set (pr_orders m)" "answered ?A (lc_profile ?C) ?ks li a" "ld_notify (decide a (lc_threshold ?C))"
        "0 \<le> as_suitability_score a" "as_suitability_score a \<le> 100"
      unfolding good_message_def by blast
    have "known_verdict ?ok L ?om (snd pj)"
      unfolding known_verdict_def g(1) snd_conv using g(2-6) m(2) now
      by (intro exI [of _ li] exI [of _ a]) (auto simp: llm_wiring_def)
    with g(1) llm_routes [OF assms(1)] show ?thesis by (simp add: llm_sent_good_def)
  qed
  from run have "extends_with (?new m) l l'" by (cases rule: on_assess_sends) (use read in auto)
  then obtain new where new: "rt_out l' = rt_out l @ new" "\<forall>pj \<in> set new. ?new m pj"
    unfolding extends_with_def list_all_iff by blast
  have "\<forall>pj \<in> set (rt_out l'). llm_sent_good ?ok L ?om pj"
  proof
    fix pj assume "pj \<in> set (rt_out l')"
    then consider "pj \<in> set (rt_out l)" | "pj \<in> set new" using new(1) by auto
    then show "llm_sent_good ?ok L ?om pj"
    proof cases
      case 1
      show ?thesis by (rule llm_sent_good_mono [OF grows_refl _ pipe_invD(6) [OF assms(2) 1]]) (rule keep)
    next
      case 2
      with new(2) good show ?thesis by blast
    qed
  qed
  moreover have "\<forall>pj \<in> set (rt_out c). core_sent_good ?ok S L ?om pj"
  proof
    fix pj assume p: "pj \<in> set (rt_out c)"
    show "core_sent_good ?ok S L ?om pj" by (rule core_sent_good_mono [OF grows_refl _ pipe_invD(5) [OF assms(2) p]]) (rule keep)
  qed
  moreover have "events_good ?ok S L (abs_db (committed c))"
    by (rule events_good_mono [OF _ pipe_invD(3) [OF assms(2)]]) (rule keep)
  ultimately show ?thesis using pipe_invD(1,2,4) [OF assms(2)] by (simp add: pipe_inv_def Let_def)
qed

text \<open>What core makes of a verdict that is on its queue.\<close>

lemma read_verdict:
  assumes "pydantic_ok P" and "0 \<le> as_suitability_score a" and "as_suitability_score a \<le> 100"
  shows "\<exists>m. read_assessment_result P (dump_llm_result (from_result (build_result li a))) = Some m \<and>
    to_assessment_outcome P m = Inr \<lparr>ao_order_id = ls_id li, ao_suitability_score = as_suitability_score a,
      ao_notification = core_command (build_notification li a)\<rparr>"
  using read_llm_result [OF assms(1), of "build_result li a"] assms(2,3) by (simp add: build_result_def)

lemma queued_verdict:
  assumes "pipe_inv S L ok (c, l)" and "in_queue (result_queue L) (rt_out l) j" and "pydantic_ok P"
  obtains m li a where "j = dump_llm_result (from_result (build_result li a))" and "read_assessment_result P j = Some m"
    and "to_assessment_outcome P m = Inr \<lparr>ao_order_id = ls_id li, ao_suitability_score = as_suitability_score a,
      ao_notification = core_command (build_notification li a)\<rparr>"
    and "fst (abs_db (committed c)) (profi_key (ls_id li)) \<noteq> None"
    and "ok (n_ainvoke l) li a" and "ld_notify (decide a (ls_suitability_threshold L))"
proof -
  let ?om = "fst (abs_db (committed c))" and ?ok = "ok (n_ainvoke l)"
  have "known_verdict ?ok L ?om j"
    using assms(2) pipe_invD(6) [OF assms(1)] unfolding in_queue_def llm_sent_good_def by fastforce
  then obtain li a where v: "j = dump_llm_result (from_result (build_result li a))" "?om (profi_key (ls_id li)) \<noteq> None"
      "?ok li a" "ld_notify (decide a (ls_suitability_threshold L))" "0 \<le> as_suitability_score a" "as_suitability_score a \<le> 100"
    unfolding known_verdict_def by blast
  from read_verdict [OF assms(3) v(5,6)] show ?thesis using that v(1-4) by blast
qed

lemma pipe_inv_verdict:
  assumes "wired S L" and "pipe_inv S L ok (c, l)" and "pydantic_ok (cw_pydantic W)"
    and "in_queue (result_queue L) (rt_out l) j" and "core_on_assess S W j c = (r, c')"
  shows "pipe_inv S L ok (c', l)"
proof -
  let ?a = "abs_db (committed c)"
  have inv: "core_idle c" "link_ok ?a" "events_good (ok (n_ainvoke l)) S L ?a" "no_skip S L (fst ?a)"
    by (rule pipe_invD [OF assms(2)])+
  obtain m li a where j: "j = dump_llm_result (from_result (build_result li a))" and m: "read_assessment_result (cw_pydantic W) j = Some m"
      "to_assessment_outcome (cw_pydantic W) m = Inr \<lparr>ao_order_id = ls_id li,
        ao_suitability_score = as_suitability_score a, ao_notification = core_command (build_notification li a)\<rparr>"
      "fst ?a (profi_key (ls_id li)) \<noteq> None" "ld_notify (decide a (ls_suitability_threshold L))"
      "ok (n_ainvoke l) li a"
    by (rule queued_verdict [OF assms(2,4,3)]) (rule that)
  let ?out = "\<lparr>ao_order_id = ls_id li, ao_suitability_score = as_suitability_score a,
      ao_notification = core_command (build_notification li a)\<rparr>"
  have eff: "core_idle c'" "rt_out c' = rt_out c @ []"
      "abs_db (committed c') = ?a \<or>
       spec_process (cs_notify_threshold S) ?out ?a = Some (abs_db (committed c'))"
    using on_assess_effect [OF inv(1) assms(5) m(1,2)] m(3) by auto
  from eff(3) show ?thesis
  proof
    assume "abs_db (committed c') = ?a"
    then show ?thesis by (rule pipe_inv_same [OF assms(2) eff(1) _ eff(2)]) simp
  next
    assume b: "spec_process (cs_notify_threshold S) ?out ?a = Some (abs_db (committed c'))"
    have "events_good (ok (n_ainvoke l)) S L (abs_db (committed c'))"
      by (rule events_good_process [OF inv(3) b]) (use m(3-5) in \<open>auto simp: good_note_def\<close>)
    moreover have "no_skip S L (fst (abs_db (committed c')))"
      by (rule no_skip_process [OF inv(4) b]) (use m(4) in \<open>simp add: decide_notify\<close>)
    ultimately show ?thesis
      by (intro pipe_inv_core [OF assms(2) eff(1) link_ok_process [OF inv(2) b] _ _ grows_process [OF b] eff(2)]) simp_all
  qed
qed

lemma pipe_inv_run:
  assumes "wired S L" and "pipe_run S L profile AS l0 p"
    and keep: "\<And>n n' li a. n \<le> n' \<Longrightarrow> ok n li a \<Longrightarrow> ok n' li a"
    and now: "\<And>A ks n li a. A \<in> AS \<Longrightarrow> ks \<subseteq> {n_ainvoke l0..<n} \<Longrightarrow> answered A profile ks li a \<Longrightarrow> ok n li a"
  shows "n_ainvoke l0 \<le> n_ainvoke (snd p) \<and> pipe_inv S L ok p"
  using assms(2)
proof (induction rule: pipe_run.induct)
  case (start c)
  then show ?case by (simp add: pipe_inv_start)
next
  case (step p q)
  from step(2) show ?case
  proof (cases rule: pipe_step.cases)
    case (parse W raw c r c' l)
    with step(3) show ?thesis using pipe_inv_parse [OF assms(1)] by auto
  next
    case (relay repr W interval c r' c' l)
    with step(3) show ?thesis using pipe_inv_relay [OF assms(1)] by auto
  next
    case (assess c j l V r l')
    have inv: "n_ainvoke l0 \<le> n_ainvoke l" "pipe_inv S L ok (c, l)" using step(3) assess(1) by simp_all
    have le: "n_ainvoke l \<le> n_ainvoke l'" by (rule on_assess_calls [OF assess(4)])
    have "pipe_inv S L ok (c, l')"
    proof (rule pipe_inv_assess [OF assms(1) inv(2) assess(5) _ _ assess(3,4)])
      show "ok (n_ainvoke l) li a \<Longrightarrow> ok (n_ainvoke l') li a" for li a by (rule keep [OF le])
      show "answered (lw_ainvoke V) profile {n_ainvoke l..<n_ainvoke l'} li a \<Longrightarrow> ok (n_ainvoke l') li a" for li a
        by (rule now [OF assess(6)]) (use inv(1) in auto)
    qed
    with assess(2) inv(1) le show ?thesis by simp
  next
    case (verdict l j W c r c')
    with step(3) show ?thesis using pipe_inv_verdict [OF assms(1)] by auto
  qed
qed

text \<open>With the answers of one model, and whatever the answers are.\<close>

lemma pipe_inv_answers:
  assumes "wired S L" and "pipe_run S L profile {A} l0 (c, l)"
  shows "pipe_inv S L (\<lambda>n. answered A profile {n_ainvoke l0..<n}) (c, l)"
  by (rule conjunct2 [OF pipe_inv_run [OF assms]]) (auto intro: answered_mono)

lemma pipe_inv_reachable:
  assumes "wired S L" and "reachable S L profile p"
  shows "pipe_inv S L (\<lambda>_ _ _. True) p"
proof -
  obtain l0 where "pipe_run S L profile UNIV l0 p" using assms(2) unfolding reachable_def by blast
  from pipe_inv_run [OF assms(1) this, of "\<lambda>_ _ _. True"] show ?thesis by simp
qed

section \<open>Theorems\<close>

text \<open>C18. Core never meets a verdict it cannot use: in every reachable state, any verdict on its queue is the one llm
  built for some listing, under its identifier and with the model's score, and that identifier names a
  stored order. When the verdict is handled, nothing is dead-lettered: it is applied as the
  specification says of that very order, score and text and acknowledged, or put back for a failure of
  the database, with the tables as they were or with the verdict applied.\<close>

theorem verdicts_always_known:
  assumes "wired S L" and "pipe_run S L profile {A} l0 (c, l)" and "in_queue (result_queue L) (rt_out l) j"
    and "pydantic_ok (cw_pydantic W)" and "core_on_assess S W j c = (r, c')"
  shows "rt_out c' = rt_out c \<and>
    (\<exists>li a. j = dump_llm_result (from_result (build_result li a)) \<and> answered A profile {n_ainvoke l0..<n_ainvoke l} li a \<and>
      abs_orders (committed c) (profi_key (ls_id li)) \<noteq> None \<and>
      (let applied = spec_process (cs_notify_threshold S) \<lparr>ao_order_id = ls_id li,
         ao_suitability_score = as_suitability_score a, ao_notification = core_command (build_notification li a)\<rparr>
         (abs_db (committed c)) = Some (abs_db (committed c')) in
       (r = Inr () \<and> applied) \<or> ((\<exists>e. r = Inl (DatabaseError e)) \<and> (committed c' = committed c \<or> applied))))"
proof -
  note inv = pipe_inv_answers [OF assms(1,2)]
  obtain m li a where j: "j = dump_llm_result (from_result (build_result li a))"
    and m: "read_assessment_result (cw_pydantic W) j = Some m"
      "to_assessment_outcome (cw_pydantic W) m = Inr \<lparr>ao_order_id = ls_id li,
        ao_suitability_score = as_suitability_score a, ao_notification = core_command (build_notification li a)\<rparr>"
      "fst (abs_db (committed c)) (profi_key (ls_id li)) \<noteq> None" and ok: "answered A profile {n_ainvoke l0..<n_ainvoke l} li a"
    by (rule queued_verdict [OF inv assms(3,4)]) (rule that)
  from m(3) have "fst (abs_db (committed c)) (profi_key (ao_order_id \<lparr>ao_order_id = ls_id li,
      ao_suitability_score = as_suitability_score a, ao_notification = core_command (build_notification li a)\<rparr>)) \<noteq> None"
    by simp
  note effect = on_assess_effect [OF pipe_invD(1) [OF inv] assms(5) m(1,2) this]
  show ?thesis
    by (intro conjI exI [of _ li] exI [of _ a]) (use effect j ok m(3) in \<open>auto simp: Let_def abs_db_def\<close>)
qed

text \<open>C19. Only orders worth it reach Telegram: every message core ever hands to the notifications exchange is
  the text llm built for a stored order from an answer that the model gave in this run to the prompt
  about that very order; by that answer no unsupported skill is asked for, the order is of no
  rejected type and its score reaches the thresholds of both services. The text is marked as HTML
  and fits the length limit.\<close>

theorem notifications_worth_sending:
  assumes "wired S L" and "pipe_run S L profile {A} l0 (c, l)" and "(core_notify_publisher S, j) \<in> set (rt_out c)"
  shows "\<exists>li a n answer. n_ainvoke l0 \<le> n \<and> n < n_ainvoke l \<and> A n (build_messages li profile) = Inr answer \<and> to_assessment answer = Inr a \<and>
    j = notification_payload (core_command (build_notification li a)) \<and>
    abs_orders (committed c) (profi_key (ls_id li)) \<noteq> None \<and>
    sch_unsupported_hits answer = [] \<and> \<not> sch_is_rejected_type answer \<and>
    ls_suitability_threshold L \<le> sch_suitability_score answer \<and> cs_notify_threshold S \<le> sch_suitability_score answer \<and>
    nc_parse_mode (core_command (build_notification li a)) = Some HTML \<and>
    tg_len (nc_text (core_command (build_notification li a))) \<le> 4096"
proof -
  from pipe_invD(5) [OF pipe_inv_answers [OF assms(1,2)] assms(3)]
  have "core_sent_good (answered A profile {n_ainvoke l0..<n_ainvoke l}) S L (fst (abs_db (committed c))) (core_notify_publisher S, j)" .
  moreover have "pub_exchange (core_notify_publisher S) \<noteq> None"
    by (simp add: core_notify_publisher_def build_notify_publisher_def)
  ultimately obtain li a where g: "j = notification_payload (core_command (build_notification li a))"
      "fst (abs_db (committed c)) (profi_key (ls_id li)) \<noteq> None" "answered A profile {n_ainvoke l0..<n_ainvoke l} li a"
      "ld_notify (decide a (ls_suitability_threshold L))" "cs_notify_threshold S \<le> as_suitability_score a"
    by (auto simp: core_sent_good_def good_note_def)
  obtain n answer where n: "n_ainvoke l0 \<le> n" "n < n_ainvoke l" "A n (build_messages li profile) = Inr answer" "to_assessment answer = Inr a"
    using g(3) unfolding answered_def by auto
  have same: "sch_unsupported_hits answer = as_unsupported_hits a" "sch_is_rejected_type answer = as_is_rejected_type a"
      "sch_suitability_score answer = as_suitability_score a"
    using n(4) by (auto simp: to_assessment_def Assessment_def split: if_splits)
  have "tg_len (ln_text (build_notification li a)) \<le> 4096" "ln_parse_mode (build_notification li a) = L_HTML"
    using tg_truncate_len [of _ MAX_TEXT_LENGTH]
    by (simp_all add: build_notification_def Let_def MAX_TEXT_LENGTH_def)
  with g n show ?thesis unfolding same
    by (intro exI [of _ li] exI [of _ a] exI [of _ n] exI [of _ answer]) (simp add: decide_notify core_command_def abs_db_def same)
qed

text \<open>C27. As long as core's threshold is not above the threshold of llm, as with the default settings, no run of
  the services ever gives an order the status no_notify, whatever the model answers from call to
  call: llm keeps unsuitable orders to itself, so an order it skips stays in assess_requested in core
  for good.\<close>

theorem no_notify_unreachable:
  assumes "wired S L" and "reachable S L profile (c, l)" and "cs_notify_threshold S \<le> ls_suitability_threshold L"
  shows "status_at (abs_orders (committed c)) k \<noteq> Some NO_NOTIFY"
proof
  assume nn: "status_at (abs_orders (committed c)) k = Some NO_NOTIFY"
  then obtain st sc where v: "abs_orders (committed c) k = Some (st, sc)" "status_of st = Inr NO_NOTIFY"
    by (auto simp: status_at_def split: option.splits sum.splits)
  then have "st = status_value NO_NOTIFY"
    by (auto simp: status_of_def status_value.simps split: if_splits)
  moreover have "pipe_inv S L (\<lambda>_ _ _. True) (c, l)" by (rule pipe_inv_reachable [OF assms(1,2)])
  ultimately have "no_skip S L (abs_orders (committed c))" "abs_orders (committed c) k = Some (status_value NO_NOTIFY, sc)"
    using v(1) by (simp_all add: pipe_inv_def Let_def abs_db_def)
  with assms(3) show False unfolding no_skip_def by blast
qed

section \<open>Witnesses\<close>

lemma wired_default: "wired default_core_settings default_llm_settings"
  by (simp add: wired_def input_queue_def retry_queue_def result_queue_def default_core_settings_def
      default_core_messaging_def default_llm_settings_def default_llm_messaging_def lit_def)

lemma run_start: "pipe_run default_core_settings default_llm_settings tiny_profile AS llm_start (core_start, llm_start)"
  by (rule pipe_run.start) (simp_all add: core_start_def llm_start_def)

lemma reachable_start: "reachable default_core_settings default_llm_settings tiny_profile (core_start, llm_start)"
  using run_start unfolding reachable_def by blast

end
