(* ===== verification/ParserTheorems.thy ===== *)
theory ParserTheorems
  imports ParserService Pipeline
begin

text \<open>
  parser-worker verified: the contract with the scheduler before it and with core behind it, the pages
  it collects, what becomes of a delivery, and the mapping of the board's items.
\<close>

section \<open>The request\<close>

lemma serde_okD:
  assumes "serde_ok D"
  shows "sd_string D (JStr s) = Some s" and "sd_bool D (JBool b) = Some b" and "sd_variant D (JStr s) = Some s"
    and "0 \<le> i \<Longrightarrow> i < 2 ^ 32 \<Longrightarrow> sd_u32 D (JInt i) = Some (word_of_int i)"
    and "i < 0 \<or> 2 ^ 32 \<le> i \<Longrightarrow> sd_u32 D (JInt i) = None"
    and "- (2 ^ 63) \<le> i \<Longrightarrow> i < 2 ^ 63 \<Longrightarrow> sd_i64 D (JInt i) = Some (word_of_int i)"
    and "sd_f64 D j = Some f \<Longrightarrow> finite_f64 f" and "finite_f64 f \<Longrightarrow> sd_f64 D (JFloat f) = Some f"
  using assms unfolding serde_ok_def by blast+

definition fits_u32 :: "int option \<Rightarrow> bool" where
  "fits_u32 n \<longleftrightarrow> (case n of None \<Rightarrow> True | Some i \<Rightarrow> 0 \<le> i \<and> i < 2 ^ 32)"

definition filter_of :: "board_filter \<Rightarrow> rs_filter" where
  "filter_of f = \<lparr>rf_search_query = bf_search_query f, rf_page_size = word_of_int (bf_page_size f), rf_sort = bf_sort f,
     rf_all_verticals = bf_all_verticals f, rf_use_saved_filter = bf_use_saved_filter f, rf_raw_filter = JNull\<rparr>"

definition request_of :: "parse_command \<Rightarrow> rs_request" where
  "request_of c = \<lparr>rq_request_id = pc_request_id c, rq_filter = filter_of (pc_filter c),
     rq_max_pages = map_option word_of_int (pc_max_pages c)\<rparr>"

lemma decode_sort_value: "serde_ok D \<Longrightarrow> decode_sort D (JStr (sort_value st)) = Some st"
  by (cases st) (simp_all add: decode_sort_def serde_okD)

lemma decode_dumped_filter:
  assumes "serde_ok D" and "fits_u32 (Some (bf_page_size f))"
  shows "decode_filter D (dump_board_filter \<lparr>bfm_search_query = bf_search_query f, bfm_page_size = bf_page_size f,
    bfm_sort = sort_value (bf_sort f), bfm_all_verticals = bf_all_verticals f,
    bfm_use_saved_filter = bf_use_saved_filter f\<rparr>) = Some (filter_of f)"
  using assms(2)
  by (simp add: decode_filter_def dump_board_filter_def struct_of_def field_defs serde_okD [OF assms(1)] decode_sort_value [OF assms(1)]
      fits_u32_def filter_of_def)

lemma scheduled_request:
  assumes "serde_ok D" and "fits_u32 (Some (bf_page_size (pc_filter c)))"
  shows "decode_parse_request D (to_parse_request c) = (if fits_u32 (pc_max_pages c) then Some (request_of c) else None)"
proof -
  have nn: "dump_board_filter m \<noteq> JNull" for m by (simp add: dump_board_filter_def)
  show ?thesis
    using decode_dumped_filter [OF assms] nn
    by (cases "pc_max_pages c")
      (auto simp: to_parse_request_def decode_parse_request_def struct_of_def field_defs optional_def
        serde_okD [OF assms(1)] request_of_def fits_u32_def Let_def not_le)
qed

section \<open>The result\<close>

definition wire_order_of :: "rs_order \<Rightarrow> wire_order" where
  "wire_order_of r = \<lparr>wo_id = ro_id r, wo_title = ro_title r, wo_description = ro_description r, wo_price = ro_price r,
     wo_geo = ro_geo r, wo_client = ro_client r, wo_badges = ro_badges r, wo_schedule = ro_schedule r,
     wo_last_update = sint (ro_last_update r), wo_score = ro_score r, wo_is_fresh = ro_is_fresh r,
     wo_is_viewed = ro_is_viewed r, wo_coordinates = ro_coordinates r\<rparr>"

definition wire_of :: "rs_result \<Rightarrow> parse_result_message" where
  "wire_of r = \<lparr>pr_request_id = re_request_id r, pr_fetched_at = sint (re_fetched_at r),
     pr_total_count = uint (re_total_count r), pr_next_cursor = re_next_cursor r,
     pr_orders = map wire_order_of (re_orders r)\<rparr>"

definition finite_coordinates :: "coordinates \<Rightarrow> bool" where
  "finite_coordinates c \<longleftrightarrow> finite_f64 (coord_lat c) \<and> finite_f64 (coord_lon c)"

definition finite_order :: "rs_order \<Rightarrow> bool" where
  "finite_order r \<longleftrightarrow> finite_f64 (ro_score r) \<and> (case ro_coordinates r of None \<Rightarrow> True | Some c \<Rightarrow> finite_coordinates c)"

lemma encode_parts:
  "encode_price = dump_price" "encode_geo_place = dump_geo_place" "encode_geo = dump_geo" "encode_client = dump_client"
  "encode_badge = dump_badge"
proof -
  show place: "encode_geo_place = dump_geo_place"
    by (rule ext) (simp add: encode_geo_place_def dump_geo_place_def)
  show "encode_geo = dump_geo" by (rule ext) (simp add: encode_geo_def dump_geo_def place)
qed (rule ext, simp add: encode_price_def dump_price_def encode_client_def dump_client_def encode_badge_def dump_badge_def)+

lemma encode_finite_order: "finite_order r \<Longrightarrow> encode_order r = dump_order (wire_order_of r)"
  by (cases "ro_coordinates r")
    (simp_all add: encode_order_def dump_order_def wire_order_of_def finite_order_def json_f64_def encode_parts
      finite_coordinates_def encode_coordinates_def dump_coordinates_def)

lemma encode_finite: "list_all finite_order (re_orders r) \<Longrightarrow> encode_result r = dump_parse_result (wire_of r)"
  by (simp add: encode_result_def dump_parse_result_def wire_of_def list_all_iff encode_finite_order)

text \<open>Every float that serde reads is finite, so every order of a page can be written.\<close>

lemma zero_finite: "finite_f64 0"
  by (simp add: finite_f64_def)

definition finite_item :: "item_dto \<Rightarrow> bool" where
  "finite_item i \<longleftrightarrow> (case it_score i of None \<Rightarrow> True | Some f \<Rightarrow> finite_f64 f) \<and>
     (case it_coordinates i of None \<Rightarrow> True | Some c \<Rightarrow> finite_coordinates c)"

lemma optional_Some: "optional v k fs = Some (Some x) \<Longrightarrow> \<exists>j. v j = Some x"
  by (auto simp: optional_def defaulted_def nullable_def split: option.splits if_splits)

lemma read_coordinates_finite: "serde_ok D \<Longrightarrow> read_coordinates_dto D j = Some c \<Longrightarrow> finite_coordinates c"
  by (auto simp: read_coordinates_dto_def bind_o_eq_Some required_def finite_coordinates_def serde_okD(7) split: option.splits)

lemma read_item_finite:
  assumes "serde_ok D" and "read_item D j = Some i"
  shows "finite_item i"
proof -
  obtain fs sc co where fs: "optional (sd_f64 D) ''score'' fs = Some sc" "optional (read_coordinates_dto D) ''coordinates'' fs = Some co"
      "it_score i = sc" "it_coordinates i = co"
    using assms(2) unfolding read_item_def bind_o_eq_Some by (elim exE conjE) (rule that, assumption, assumption, auto)
  have "finite_f64 f" if "sc = Some f" for f
    using optional_Some [of "sd_f64 D"] fs(1) that serde_okD(7) [OF assms(1)] by blast
  moreover have "finite_coordinates c" if "co = Some c" for c
    using optional_Some [of "read_coordinates_dto D"] fs(2) that read_coordinates_finite [OF assms(1)] by blast
  ultimately show ?thesis using fs(3,4) by (auto simp: finite_item_def split: option.split)
qed

lemma to_order_finite:
  assumes "finite_item i" and "to_order i = Some r"
  shows "finite_order r"
proof -
  have "ro_score r = or_default 0 (it_score i)" "ro_coordinates r = it_coordinates i"
    using assms(2) by (auto simp: to_order_def split: if_splits)
  with assms(1) show ?thesis
    by (cases "it_score i") (simp_all add: finite_item_def finite_order_def or_default_def zero_finite)
qed

lemma map_filter_set: "x \<in> set (List.map_filter f xs) \<Longrightarrow> \<exists>y \<in> set xs. f y = Some x"
  by (auto simp: List.map_filter_def)

lemma sequence_Some: "sequence os = Some ys \<Longrightarrow> os = map Some ys"
  by (induction os arbitrary: ys rule: sequence.induct) auto

lemma list_of_all:
  assumes "list_of v j = Some xs" and "x \<in> set xs"
  shows "\<exists>e. v e = Some x"
proof -
  obtain js where "sequence (map v js) = Some xs" using assms(1) by (cases j) (auto simp: list_of_def)
  from sequence_Some [OF this] have "Some x \<in> set (map v js)" using assms(2) by auto
  then obtain e where "v e = Some x" by force
  then show ?thesis by blast
qed

lemma read_board_finite:
  assumes "serde_ok D" and "read_board_items D j = Some b"
  shows "list_all finite_order (bp_orders (to_board_page b))"
proof -
  obtain fs where fs: "defaulted (list_of (read_item D)) [] ''items'' fs = Some (bi_items b)"
    using assms(2) unfolding read_board_items_def bind_o_eq_Some by (elim exE conjE) (rule that, auto)
  have "finite_item i" if "i \<in> set (bi_items b)" for i
  proof -
    have "\<exists>e. read_item D e = Some i"
    proof (cases "map_of fs (lit ''items'')")
      case None
      with fs that show ?thesis by (simp add: defaulted_def)
    next
      case (Some e)
      with fs have "list_of (read_item D) e = Some (bi_items b)" by (simp add: defaulted_def)
      then show ?thesis using list_of_all that by metis
    qed
    then show ?thesis using read_item_finite [OF assms(1)] by blast
  qed
  then have "finite_order r" if "r \<in> set (List.map_filter to_order (bi_items b))" for r
    using map_filter_set [OF that] to_order_finite by blast
  then show ?thesis by (simp add: to_board_page_def list_all_iff)
qed

lemma page_finite:
  assumes "serde_ok (pw_serde W)" and "page_of W answer = Inr page"
  shows "list_all finite_order (bp_orders page)"
proof -
  obtain j parsed board where "read_response (pw_serde W) j = Some parsed" "gr_data parsed = Some board"
      and page: "page = to_board_page board"
    using assms(2) by (auto simp: page_of_def split: http_outcome.splits sum.splits option.splits if_splits)
  then obtain fs where "optional (read_response_data (pw_serde W)) ''data'' fs = Some (Some board)"
    unfolding read_response_def bind_o_eq_Some by auto
  from optional_Some [OF this] obtain e where "read_response_data (pw_serde W) e = Some board" by blast
  then obtain e' where "read_board_items (pw_serde W) e' = Some board"
    by (auto simp: read_response_data_def bind_o_eq_Some required_def split: option.splits)
  then show ?thesis unfolding page by (rule read_board_finite [OF assms(1)])
qed

section \<open>The pages\<close>

text \<open>
  The specification of the loop: \<open>ps\<close> are pages that the board answered, from the k-th request on,
  each asked for with the cursor of the one before.
\<close>

fun page_chain :: "parser_world \<Rightarrow> parser_config \<Rightarrow> rs_filter \<Rightarrow> auth_cookies \<Rightarrow> nat \<Rightarrow> ustr option \<Rightarrow> board_page list \<Rightarrow> bool" where
  "page_chain W cfg f cookies k cursor [] \<longleftrightarrow> True"
| "page_chain W cfg f cookies k cursor (p # ps) \<longleftrightarrow>
     page_of W (pw_http W k (board_request W cfg f cookies cursor)) = Inr p \<and>
     (ps = [] \<or> bp_next_cursor p \<noteq> None \<and> page_chain W cfg f cookies (Suc k) (bp_next_cursor p) ps)"

fun chain_requests :: "parser_world \<Rightarrow> parser_config \<Rightarrow> rs_filter \<Rightarrow> auth_cookies \<Rightarrow> ustr option \<Rightarrow> board_page list \<Rightarrow> http_request list" where
  "chain_requests W cfg f cookies cursor [] = []"
| "chain_requests W cfg f cookies cursor (p # ps) =
     board_request W cfg f cookies cursor # chain_requests W cfg f cookies (bp_next_cursor p) ps"

definition collect :: "bool \<Rightarrow> collected \<Rightarrow> board_page list \<Rightarrow> collected" where
  "collect first c ps = \<lparr>co_orders = co_orders c @ concat (map bp_orders ps), co_cursor = bp_next_cursor (last ps),
     co_total = (if first then bp_total_count (hd ps) else co_total c),
     co_fetched_at = (if first then bp_server_ts (hd ps) else co_fetched_at c)\<rparr>"

lemma collect_Cons:
  "collect first c [p] = add_page first p c"
  "ps \<noteq> [] \<Longrightarrow> collect first c (p # ps) = collect False (add_page first p c) ps"
  by (auto simp: collect_def add_page_def)

lemma add_page_cursor [simp]: "co_cursor (add_page first p c) = bp_next_cursor p"
  by (simp add: add_page_def)

text \<open>The loop ends with a chain, cut off by the limit or by the lack of a cursor, and asks for nothing else.\<close>

lemma fetch_pages_chain:
  "fetch_pages W cfg f cookies n first c s = (Inr c', t) \<Longrightarrow> 0 < n \<Longrightarrow>
   \<exists>ps. ps \<noteq> [] \<and> length ps \<le> n \<and> page_chain W cfg f cookies (length (ps_requests s)) (co_cursor c) ps \<and>
     (length ps = n \<or> bp_next_cursor (last ps) = None) \<and> c' = collect first c ps \<and>
     t = s\<lparr>ps_requests := ps_requests s @ chain_requests W cfg f cookies (co_cursor c) ps\<rparr>"
proof (induction n arbitrary: first c s)
  case (Suc n)
  let ?req = "board_request W cfg f cookies (co_cursor c)"
  let ?s = "s\<lparr>ps_requests := ps_requests s @ [?req]\<rparr>"
  obtain p where p: "page_of W (pw_http W (length (ps_requests s)) ?req) = Inr p"
    using Suc.prems(1) by (auto simp: board_fetch_def Let_def split: sum.splits)
  have run: "(if co_cursor (add_page first p c) = None then (Inr (add_page first p c), ?s)
      else fetch_pages W cfg f cookies n False (add_page first p c) ?s) = (Inr c', t)"
    using Suc.prems(1) p by (simp add: board_fetch_def Let_def)
  show ?case
  proof (cases "bp_next_cursor p = None \<or> n = 0")
    case True
    with run have "c' = add_page first p c" "t = ?s" by (auto split: if_splits)
    with p True show ?thesis by (intro exI [of _ "[p]"]) (auto simp: collect_Cons)
  next
    case False
    with run have "fetch_pages W cfg f cookies n False (add_page first p c) ?s = (Inr c', t)" by auto
    from Suc.IH [OF this] False obtain ps where ps: "ps \<noteq> []" "length ps \<le> n"
        "page_chain W cfg f cookies (Suc (length (ps_requests s))) (bp_next_cursor p) ps"
        "length ps = n \<or> bp_next_cursor (last ps) = None" "c' = collect False (add_page first p c) ps"
        "t = ?s\<lparr>ps_requests := ps_requests ?s @ chain_requests W cfg f cookies (bp_next_cursor p) ps\<rparr>"
      by auto
    with p False show ?thesis by (intro exI [of _ "p # ps"]) (auto simp: collect_Cons)
  qed
qed simp

lemma fetch_pages_leaves:
  "fetch_pages W cfg f cookies n first c s = (r, t) \<Longrightarrow>
    ps_out t = ps_out s \<and> n_published t = n_published s \<and> n_cookies t = n_cookies s"
proof (induction n arbitrary: first c s)
  case (Suc n)
  obtain r1 u where u: "board_fetch W cfg f cookies (co_cursor c) s = (r1, u)"
    by (cases "board_fetch W cfg f cookies (co_cursor c) s")
  then have "ps_out u = ps_out s" "n_published u = n_published s" "n_cookies u = n_cookies s"
    by (auto simp: board_fetch_def Let_def)
  with Suc u show ?case by (cases r1) (auto simp: Let_def split: if_splits)
qed simp

lemma page_limit_pos: "0 < unat (page_limit r)"
proof -
  have "1 \<le> page_limit r" by (simp add: page_limit_def)
  then show ?thesis by (simp add: word_le_nat_alt)
qed

lemma chain_finite:
  assumes "serde_ok (pw_serde W)" and "page_chain W cfg f cookies k cursor ps"
  shows "list_all finite_order (concat (map bp_orders ps))"
  using assms(2)
proof (induction ps arbitrary: k cursor)
  case (Cons p ps)
  have "list_all finite_order (bp_orders p)" using page_finite [OF assms(1)] Cons.prems by auto
  moreover have "list_all finite_order (concat (map bp_orders ps))"
    using Cons.prems Cons.IH by (cases "ps = []") auto
  ultimately show ?case by simp
qed simp

section \<open>The use case\<close>

definition cookies_of :: "parser_world \<Rightarrow> parser_state \<Rightarrow> auth_cookies" where
  "cookies_of W s = projr (pw_cookies W (n_cookies s))"

lemma execute_Inr:
  assumes "parser_execute W cfg r s = (Inr result, t)"
  obtains ps where "ps \<noteq> []" and "length ps \<le> unat (page_limit r)"
    and "page_chain W cfg (rq_filter r) (cookies_of W s) (length (ps_requests s)) None ps"
    and "length ps = unat (page_limit r) \<or> bp_next_cursor (last ps) = None"
    and "result = \<lparr>re_request_id = rq_request_id r, re_fetched_at = bp_server_ts (hd ps),
      re_total_count = bp_total_count (hd ps), re_next_cursor = bp_next_cursor (last ps),
      re_orders = concat (map bp_orders ps)\<rparr>"
    and "ps_requests t = ps_requests s @ chain_requests W cfg (rq_filter r) (cookies_of W s) None ps"
    and "ps_out t = ps_out s @ [(pf_result_exchange cfg, pf_result_routing_key cfg, encode_result result)]"
    and "\<exists>c. pw_publish W (n_published s) = Sent c"
proof -
  let ?u = "s\<lparr>n_cookies := Suc (n_cookies s)\<rparr>"
  obtain ck where ck: "pw_cookies W (n_cookies s) = Inr ck"
    using assms by (cases "pw_cookies W (n_cookies s)") (auto simp: parser_execute_def get_cookies_def)
  obtain r1 v where v: "fetch_pages W cfg (rq_filter r) ck (unat (page_limit r)) True nothing_collected ?u = (r1, v)"
    by (cases "fetch_pages W cfg (rq_filter r) ck (unat (page_limit r)) True nothing_collected ?u")
  then obtain c where c: "r1 = Inr c"
    using assms ck by (cases r1) (auto simp: parser_execute_def get_cookies_def)
  have pub: "publish_result W cfg (result_of r c) v = (Inr (), t)" and result: "result = result_of r c"
    using assms ck v c by (auto simp: parser_execute_def get_cookies_def Let_def split: sum.splits prod.splits)
  from fetch_pages_chain [OF v [unfolded c] page_limit_pos] obtain ps where ps: "ps \<noteq> []"
      "length ps \<le> unat (page_limit r)" "page_chain W cfg (rq_filter r) ck (length (ps_requests s)) None ps"
      "length ps = unat (page_limit r) \<or> bp_next_cursor (last ps) = None" "c = collect True nothing_collected ps"
      "v = ?u\<lparr>ps_requests := ps_requests s @ chain_requests W cfg (rq_filter r) ck None ps\<rparr>"
    by (auto simp: nothing_collected_def)
  have out: "ps_out t = ps_out v @ [(pf_result_exchange cfg, pf_result_routing_key cfg, encode_result result)]"
      "ps_requests t = ps_requests v" "\<exists>c. pw_publish W (n_published v) = Sent c"
    using pub by (auto simp: publish_result_def Let_def result split: publish_outcome.splits)
  have "cookies_of W s = ck" by (simp add: cookies_of_def ck)
  then show ?thesis
    using that [of ps] ps out by (simp add: result result_of_def collect_def nothing_collected_def)
qed

text \<open>Whatever fails, the error says which part it was, and only a publication may leave a message behind.\<close>

lemma execute_Inl:
  assumes "parser_execute W cfg r s = (Inl e, t)"
  shows "(ps_out t = ps_out s \<or> (\<exists>m result. e = Publish m \<and> pw_publish W (n_published s) = Sent_then m \<and> re_request_id result = rq_request_id r \<and>
      ps_out t = ps_out s @ [(pf_result_exchange cfg, pf_result_routing_key cfg, encode_result result)]))"
    and "pw_cookies W (n_cookies s) = Inl m \<Longrightarrow> e = Auth m \<and> ps_requests t = ps_requests s \<and> ps_out t = ps_out s"
proof -
  let ?u = "s\<lparr>n_cookies := Suc (n_cookies s)\<rparr>"
  show "(ps_out t = ps_out s \<or> (\<exists>m result. e = Publish m \<and> pw_publish W (n_published s) = Sent_then m \<and> re_request_id result = rq_request_id r \<and>
      ps_out t = ps_out s @ [(pf_result_exchange cfg, pf_result_routing_key cfg, encode_result result)]))"
  proof (cases "pw_cookies W (n_cookies s)")
    case (Inl m)
    with assms show ?thesis by (auto simp: parser_execute_def get_cookies_def)
  next
    case (Inr ck)
    obtain r1 v where v: "fetch_pages W cfg (rq_filter r) ck (unat (page_limit r)) True nothing_collected ?u = (r1, v)"
      by (cases "fetch_pages W cfg (rq_filter r) ck (unat (page_limit r)) True nothing_collected ?u")
    note leaves = fetch_pages_leaves [OF v]
    show ?thesis
    proof (cases r1)
      case (Inl e')
      with assms v Inr leaves show ?thesis by (auto simp: parser_execute_def get_cookies_def)
    next
      case (Inr c)
      have "publish_result W cfg (result_of r c) v = (Inl e, t)"
        using assms v \<open>pw_cookies W (n_cookies s) = Inr ck\<close> Inr
        by (auto simp: parser_execute_def get_cookies_def Let_def split: sum.splits prod.splits)
      with leaves show ?thesis
        by (cases "pw_publish W (n_published s)") (auto simp: publish_result_def Let_def intro!: exI [of _ "result_of r c"]
            simp: result_of_def)
    qed
  qed
  show "pw_cookies W (n_cookies s) = Inl m \<Longrightarrow> e = Auth m \<and> ps_requests t = ps_requests s \<and> ps_out t = ps_out s"
    using assms by (auto simp: parser_execute_def get_cookies_def)
qed

end
