(* ===== verification/ParserLife.thy ===== *)
theory ParserLife
  imports ParserTheorems
begin

text \<open>
  parser-worker: the properties of the service, with their witnesses.
\<close>

section \<open>Samples\<close>

definition strict_serde :: serde where
  "strict_serde = \<lparr>
     sd_string = (\<lambda>j. case j of JStr s \<Rightarrow> Some s | _ \<Rightarrow> None), sd_bool = (\<lambda>j. case j of JBool b \<Rightarrow> Some b | _ \<Rightarrow> None),
     sd_u32 = (\<lambda>j. case j of JInt i \<Rightarrow> if 0 \<le> i \<and> i < 2 ^ 32 then Some (word_of_int i) else None | _ \<Rightarrow> None),
     sd_i64 = (\<lambda>j. case j of JInt i \<Rightarrow> if - (2 ^ 63) \<le> i \<and> i < 2 ^ 63 then Some (word_of_int i) else None | _ \<Rightarrow> None),
     sd_f64 = (\<lambda>j. case j of JFloat f \<Rightarrow> if finite_f64 f then Some f else None | _ \<Rightarrow> None),
     sd_variant = (\<lambda>j. case j of JStr s \<Rightarrow> Some s | _ \<Rightarrow> None), sd_seq = (\<lambda>_ _. None),
     sd_error = (\<lambda>_. lit ''invalid'')\<rparr>"

lemma serde_ok_strict: "serde_ok strict_serde"
  by (auto simp: serde_ok_def strict_serde_def split: json.splits if_splits)

definition board_answer :: "ustr option \<Rightarrow> json list \<Rightarrow> json" where
  "board_answer cursor items = JObj [(lit ''data'', JObj [(lit ''boSearchBoardItems'', JObj [
     (lit ''nextCursor'', opt_json JStr cursor), (lit ''serverTs'', JInt 5), (lit ''totalCount'', JInt 2),
     (lit ''items'', JList items)])])]"

definition board_snippet :: "string \<Rightarrow> json" where
  "board_snippet i = JObj [(lit ''type'', JStr SNIPPET), (lit ''id'', JStr (lit i))]"

definition default_parser_config :: parser_config where
  "default_parser_config = from_env (\<lambda>_. None)"

text \<open>The board has two pages: an order and a divider with a cursor, then an order without one.\<close>

definition sample_parser :: parser_world where
  "sample_parser = \<lparr>pw_serde = strict_serde, pw_cookies = (\<lambda>_. Inr \<lparr>ck_header = lit ''c'', ck_status = lit ''ok''\<rparr>),
     pw_http = (\<lambda>n _. Answered 200 (Inr (if n = 0
       then board_answer (Some (lit ''next'')) [board_snippet ''1'', JObj [(lit ''type'', JStr (lit ''DIVIDER''))]]
       else board_answer None [board_snippet ''2'']))),
     pw_status = show_nat, pw_publish = (\<lambda>_. Sent Not_requested), pw_query = []\<rparr>"

definition parser_start :: parser_state where
  "parser_start = \<lparr>n_cookies = 0, ps_requests = [], n_published = 0, ps_out = []\<rparr>"

definition two_pages :: rs_request where
  "two_pages = \<lparr>rq_request_id = lit ''r'', rq_filter = default_rs_filter, rq_max_pages = Some 2\<rparr>"

definition plain_order :: "string \<Rightarrow> rs_order" where
  "plain_order i = \<lparr>ro_id = lit i, ro_title = [], ro_description = [], ro_price = None, ro_geo = empty_geo,
     ro_client = empty_client, ro_badges = [], ro_schedule = None, ro_last_update = 0, ro_score = 0, ro_is_fresh = False,
     ro_is_viewed = False, ro_coordinates = None\<rparr>"

lemmas reading_defs = strict_serde_def struct_of_def optional_def field_defs read_response_def read_response_data_def
  read_board_items_def list_of_def read_item_def

lemma read_snippet:
  "read_item strict_serde (board_snippet i) = Some \<lparr>it_type = Some SNIPPET, it_id = Some (lit i), it_title = None,
     it_description = None, it_score = None, it_last_update_date = None, it_is_fresh = None, it_is_viewed = None,
     it_schedule = None, it_price = None, it_geo = None, it_client_info = None, it_client_tags = [], it_badges = [],
     it_coordinates = None\<rparr>"
  by (simp add: board_snippet_def reading_defs)

lemma read_divider:
  "read_item strict_serde (JObj [(lit ''type'', JStr (lit ''DIVIDER''))]) = Some \<lparr>it_type = Some (lit ''DIVIDER''),
     it_id = None, it_title = None, it_description = None, it_score = None, it_last_update_date = None, it_is_fresh = None,
     it_is_viewed = None, it_schedule = None, it_price = None, it_geo = None, it_client_info = None, it_client_tags = [],
     it_badges = [], it_coordinates = None\<rparr>"
  by (simp add: reading_defs)

lemma read_answer:
  assumes "sequence (map (read_item strict_serde) items) = Some is"
  shows "read_response strict_serde (board_answer cursor items) =
    Some \<lparr>gr_data = Some \<lparr>bi_next_cursor = cursor, bi_server_ts = 5, bi_total_count = 2, bi_items = is\<rparr>, gr_errors = []\<rparr>"
proof -
  have "read_board_items strict_serde (JObj [(lit ''nextCursor'', opt_json JStr cursor), (lit ''serverTs'', JInt 5),
      (lit ''totalCount'', JInt 2), (lit ''items'', JList items)]) =
      Some \<lparr>bi_next_cursor = cursor, bi_server_ts = 5, bi_total_count = 2, bi_items = is\<rparr>"
    using assms by (cases cursor) (simp_all add: read_board_items_def struct_of_def optional_def field_defs list_of_def
        serde_okD [OF serde_ok_strict])
  then show ?thesis
    by (simp add: board_answer_def read_response_def read_response_data_def struct_of_def optional_def field_defs)
qed

lemma plain_item: "to_order \<lparr>it_type = Some SNIPPET, it_id = Some (lit i), it_title = None,
     it_description = None, it_score = None, it_last_update_date = None, it_is_fresh = None, it_is_viewed = None,
     it_schedule = None, it_price = None, it_geo = None, it_client_info = None, it_client_tags = [], it_badges = [],
     it_coordinates = None\<rparr> = Some (plain_order i)"
  by (simp add: to_order_def plain_order_def or_default_def non_empty_def empty_client_def List.map_filter_def)

lemma sample_pages:
  "page_of sample_parser (pw_http sample_parser n req) = Inr (if n = 0
     then \<lparr>bp_orders = [plain_order ''1''], bp_next_cursor = Some (lit ''next''), bp_total_count = 2, bp_server_ts = 5\<rparr>
     else \<lparr>bp_orders = [plain_order ''2''], bp_next_cursor = None, bp_total_count = 2, bp_server_ts = 5\<rparr>)"
proof -
  have "SNIPPET \<noteq> lit ''DIVIDER''" by (simp add: SNIPPET_def)
  then show ?thesis
    by (auto simp: page_of_def sample_parser_def read_answer read_snippet read_divider to_board_page_def
        List.map_filter_simps plain_item) (simp add: to_order_def)
qed

lemma sample_execute:
  "\<exists>t. parser_execute sample_parser default_parser_config two_pages parser_start = (Inr \<lparr>re_request_id = lit ''r'',
     re_fetched_at = 5, re_total_count = 2, re_next_cursor = None, re_orders = [plain_order ''1'', plain_order ''2'']\<rparr>, t)"
proof -
  have "unat (page_limit two_pages) = Suc (Suc 0)"
  proof -
    have "page_limit two_pages = 2" by (simp add: page_limit_def two_pages_def or_default_def)
    then show ?thesis by simp
  qed
  moreover have "pw_cookies sample_parser n = Inr \<lparr>ck_header = lit ''c'', ck_status = lit ''ok''\<rparr>" "pw_publish sample_parser n = Sent Not_requested" for n
    by (simp_all add: sample_parser_def)
  ultimately show ?thesis
    by (simp add: parser_execute_def get_cookies_def board_fetch_def sample_pages Let_def add_page_def publish_result_def
        nothing_collected_def result_of_def two_pages_def parser_start_def)
qed

section \<open>Contracts\<close>

text \<open>C37. What the scheduler publishes is what the parser reads: the identifier, the filter and the page limit, kept at
  32 bits, with no raw filter. A page limit that does not fit into 32 bits, which the scheduler's
  settings do not exclude, makes every request unreadable.\<close>

theorem parse_request_contract:
  assumes "serde_ok D" and "fits_u32 (Some (bf_page_size (pc_filter c)))"
  shows "decode_request D (Inr (to_parse_request c)) = (if fits_u32 (pc_max_pages c) then Inr (request_of c)
    else Inl (InvalidRequest (sd_error D (to_parse_request c))))"
  using scheduled_request [OF assms] by (simp add: decode_request_def)

theorem parse_request_contract_witness:
  "decode_request strict_serde (Inr (to_parse_request sample_command)) = Inr \<lparr>rq_request_id = lit ''r'',
      rq_filter = default_rs_filter, rq_max_pages = Some 1\<rparr> \<and>
   decode_request strict_serde (Inr (to_parse_request (sample_command\<lparr>pc_max_pages := Some (2 ^ 32)\<rparr>))) =
     Inl (InvalidRequest (lit ''invalid''))"
proof -
  have fits: "fits_u32 (Some (bf_page_size (pc_filter sample_command)))" "fits_u32 (pc_max_pages sample_command)"
      "\<not> fits_u32 (Some (2 ^ 32))"
    by (simp_all add: fits_u32_def sample_command_def BoardFilter_def)
  have parts: "request_of sample_command = \<lparr>rq_request_id = lit ''r'', rq_filter = default_rs_filter, rq_max_pages = Some 1\<rparr>"
      "sd_error strict_serde j = lit ''invalid''" for j
    by (simp_all add: request_of_def sample_command_def filter_of_def BoardFilter_def default_rs_filter_def strict_serde_def)
  show ?thesis
    using parse_request_contract [OF serde_ok_strict fits(1)] fits(2)
      parse_request_contract [OF serde_ok_strict, of "sample_command\<lparr>pc_max_pages := Some (2 ^ 32)\<rparr>"] fits(1,3)
    by (simp add: parts)
qed

lemma result_contract:
  assumes "serde_ok (pw_serde W)" and "pydantic_ok P" and "parser_execute W cfg r s = (Inr result, t)"
  shows "ps_out t = ps_out s @ [(pf_result_exchange cfg, pf_result_routing_key cfg, dump_parse_result (wire_of result))]"
    and "read_parse_result P (dump_parse_result (wire_of result)) = Some (wire_of result)"
proof -
  obtain ps where ps: "page_chain W cfg (rq_filter r) (cookies_of W s) (length (ps_requests s)) None ps"
      "re_orders result = concat (map bp_orders ps)"
      "ps_out t = ps_out s @ [(pf_result_exchange cfg, pf_result_routing_key cfg, encode_result result)]"
    using execute_Inr [OF assms(3)] by (metis rs_result.select_convs(5))
  have "list_all finite_order (re_orders result)" unfolding ps(2) by (rule chain_finite [OF assms(1) ps(1)])
  with ps(3) show "ps_out t = ps_out s @ [(pf_result_exchange cfg, pf_result_routing_key cfg, dump_parse_result (wire_of result))]"
    by (simp add: encode_finite)
  show "read_parse_result P (dump_parse_result (wire_of result)) = Some (wire_of result)"
    by (rule read_dump_parse_result [OF assms(2)])
qed

text \<open>C8. What the parser publishes is what core reads: a request that succeeds leaves exactly one message, on the exchange
  and with the key of the configuration, and the schema of core reads it back as the result, every order
  with every field, the integers with their values. In particular no float of it became null.\<close>

theorem parse_result_contract:
  assumes "serde_ok (pw_serde W)" and "pydantic_ok P" and "parser_execute W cfg r s = (Inr result, t)"
  shows "\<exists>j. ps_out t = ps_out s @ [(pf_result_exchange cfg, pf_result_routing_key cfg, j)] \<and>
    read_parse_result P j = Some (wire_of result)"
  using result_contract [OF assms] by blast

theorem parse_result_contract_witness:
  "\<exists>j m. read_parse_result strict j = Some m \<and> map wo_id (pr_orders m) = [lit ''1'', lit ''2''] \<and> pr_total_count m = 2"
proof -
  obtain t where run: "parser_execute sample_parser default_parser_config two_pages parser_start = (Inr \<lparr>re_request_id = lit ''r'',
     re_fetched_at = 5, re_total_count = 2, re_next_cursor = None, re_orders = [plain_order ''1'', plain_order ''2'']\<rparr>, t)"
    using sample_execute by blast
  have "serde_ok (pw_serde sample_parser)" by (simp add: sample_parser_def serde_ok_strict)
  from parse_result_contract [OF this pydantic_ok_strict run] show ?thesis
    by (force simp: wire_of_def wire_order_of_def plain_order_def)
qed

section \<open>Pages\<close>

text \<open>C10. The result of a request is the pages of the board from the first on, each asked for with the cursor of the one
  before it: their orders in order, the total and the time of the first, the cursor of the last. There is
  at least one and there are at most as many as the request allows, fewer only when a page had no
  cursor; and the board was asked for these pages, once each, and for nothing else.\<close>

theorem pages_collected:
  assumes "parser_execute W cfg r s = (Inr result, t)"
  shows "\<exists>ps cookies. pw_cookies W (n_cookies s) = Inr cookies \<and> ps \<noteq> [] \<and> length ps \<le> unat (page_limit r) \<and>
    page_chain W cfg (rq_filter r) cookies (length (ps_requests s)) None ps \<and>
    (length ps = unat (page_limit r) \<or> bp_next_cursor (last ps) = None) \<and>
    result = \<lparr>re_request_id = rq_request_id r, re_fetched_at = bp_server_ts (hd ps),
      re_total_count = bp_total_count (hd ps), re_next_cursor = bp_next_cursor (last ps),
      re_orders = concat (map bp_orders ps)\<rparr> \<and>
    ps_requests t = ps_requests s @ chain_requests W cfg (rq_filter r) cookies None ps"
proof -
  have "\<exists>ck. pw_cookies W (n_cookies s) = Inr ck"
    using assms by (cases "pw_cookies W (n_cookies s)") (auto simp: parser_execute_def get_cookies_def)
  then have ck: "pw_cookies W (n_cookies s) = Inr (cookies_of W s)" by (auto simp: cookies_of_def)
  show ?thesis by (rule execute_Inr [OF assms]) (use ck in blast)
qed

theorem pages_collected_witness:
  "\<exists>ps cookies. length ps \<le> 2 \<and> concat (map bp_orders ps) = [plain_order ''1'', plain_order ''2''] \<and>
     page_chain sample_parser default_parser_config default_rs_filter cookies 0 None ps"
proof -
  obtain t where run: "parser_execute sample_parser default_parser_config two_pages parser_start = (Inr \<lparr>re_request_id = lit ''r'',
     re_fetched_at = 5, re_total_count = 2, re_next_cursor = None, re_orders = [plain_order ''1'', plain_order ''2'']\<rparr>, t)"
    using sample_execute by blast
  have parts: "unat (page_limit two_pages) = 2" "rq_filter two_pages = default_rs_filter" "ps_requests parser_start = []"
    by (simp_all add: page_limit_def two_pages_def or_default_def parser_start_def)
  from pages_collected [OF run] obtain ps cookies where "length ps \<le> 2"
      "page_chain sample_parser default_parser_config default_rs_filter cookies 0 None ps"
      "[plain_order ''1'', plain_order ''2''] = concat (map bp_orders ps)"
    unfolding parts by auto
  then show ?thesis by metis
qed

section \<open>The mapping\<close>

definition tidy_place :: "geo_place option \<Rightarrow> bool" where
  "tidy_place p \<longleftrightarrow> (case p of None \<Rightarrow> True | Some x \<Rightarrow> place_prefix x \<noteq> [])"

definition tidy_order :: "rs_order \<Rightarrow> bool" where
  "tidy_order r \<longleftrightarrow> ro_schedule r \<noteq> Some [] \<and> tidy_place (geo_remote (ro_geo r)) \<and>
     tidy_place (geo_order_location (ro_geo r)) \<and> tidy_place (geo_client_may_come (ro_geo r))"

definition is_order :: "item_dto \<Rightarrow> bool" where
  "is_order i \<longleftrightarrow> it_type i = Some SNIPPET \<and> it_id i \<noteq> None"

lemma to_geo_place_tidy: "tidy_place (Option.bind p to_geo_place)"
  by (cases p) (auto simp: tidy_place_def to_geo_place_def non_empty_def split: option.splits)

lemma to_order_tidy:
  assumes "to_order i = Some r"
  shows "tidy_order r"
proof -
  have "ro_schedule r = non_empty (it_schedule i)" "ro_geo r = or_default empty_geo (map_option to_geo (it_geo i))"
    using assms by (auto simp: to_order_def split: if_splits)
  moreover have "tidy_place None" by (simp add: tidy_place_def)
  moreover have "non_empty v \<noteq> Some []" for v by (auto simp: non_empty_def split: option.split)
  ultimately show ?thesis
    by (cases "it_geo i") (simp_all add: tidy_order_def or_default_def to_geo_def to_geo_place_tidy empty_geo_def)
qed

text \<open>A page has an order for every item of type SNIPPET with an identifier and for no other, in the order of the
  board and under its identifier; no order has a blank schedule or a place without a description.\<close>

theorem page_keeps_snippets:
  "map ro_id (bp_orders (to_board_page b)) = map (\<lambda>i. the (it_id i)) (filter is_order (bi_items b)) \<and>
   list_all tidy_order (bp_orders (to_board_page b))"
proof -
  have "is_order i \<longleftrightarrow> to_order i \<noteq> None" for i by (auto simp: to_order_def is_order_def)
  moreover have "to_order i = Some r \<Longrightarrow> ro_id r = the (it_id i)" for i r by (auto simp: to_order_def split: if_splits)
  ultimately have "map ro_id (List.map_filter to_order is) = map (\<lambda>i. the (it_id i)) (filter is_order is)" for "is"
    by (induction "is") (auto simp: List.map_filter_simps split: option.split)
  moreover have "tidy_order r" if "r \<in> set (List.map_filter to_order (bi_items b))" for r
    using map_filter_set [OF that] to_order_tidy by blast
  ultimately show ?thesis by (simp add: to_board_page_def list_all_iff)
qed

section \<open>Deliveries\<close>

lemma delivery_outcomes:
  assumes "parser_deliver W cfg bytes s = (reply, t)"
  obtains (acked) r result where "reply = Basic_ack" and "decode_request (pw_serde W) bytes = Inr r"
      and "parser_execute W cfg r s = (Inr result, t)"
    | (failed) r e where "reply = Basic_nack False" and "decode_request (pw_serde W) bytes = Inr r"
      and "parser_execute W cfg r s = (Inl e, t)"
    | (unreadable) e where "reply = Basic_nack False" and "decode_request (pw_serde W) bytes = Inl e" and "t = s"
  using assms by (auto simp: parser_deliver_def split: sum.splits prod.splits)

text \<open>The reply does not depend on which confirmation a publication ends in: a negative one, or none, is as good as a positive.\<close>

lemma publish_world: "pw_publish (W\<lparr>pw_publish := f\<rparr>) = f" "pw_cookies (W\<lparr>pw_publish := f\<rparr>) = pw_cookies W"
  "pw_serde (W\<lparr>pw_publish := f\<rparr>) = pw_serde W" "pw_status (W\<lparr>pw_publish := f\<rparr>) = pw_status W"
  by simp_all

lemma fetch_pages_publish: "fetch_pages (W\<lparr>pw_publish := f\<rparr>) cfg flt ck n first c s = fetch_pages W cfg flt ck n first c s"
proof (induction n arbitrary: first c s)
  case (Suc n)
  have "page_of (W\<lparr>pw_publish := f\<rparr>) answer = page_of W answer" for answer
    unfolding page_of_def publish_world ..
  then have page: "board_fetch (W\<lparr>pw_publish := f\<rparr>) cfg flt ck cursor s = board_fetch W cfg flt ck cursor s" for cursor s
    by (simp add: board_fetch_def board_request_def build_body_def)
  show ?case unfolding fetch_pages.simps page Suc.IH ..
qed simp

lemma confirmation_ignored:
  "parser_deliver (W\<lparr>pw_publish := \<lambda>_. Sent Confirm_nack\<rparr>) cfg bytes s =
   parser_deliver (W\<lparr>pw_publish := \<lambda>_. Sent Confirm_ack\<rparr>) cfg bytes s"
  "parser_deliver (W\<lparr>pw_publish := \<lambda>_. Sent Not_requested\<rparr>) cfg bytes s =
   parser_deliver (W\<lparr>pw_publish := \<lambda>_. Sent Confirm_ack\<rparr>) cfg bytes s"
  unfolding parser_deliver_def parser_execute_def get_cookies_def fetch_pages_publish publish_result_def publish_world
    publish_outcome.case Let_def by (rule refl)+

text \<open>C38. A delivery is acknowledged exactly when its result, under the identifier of the request, was handed to the
  channel and the publication raised no error, whatever the confirmation says; any other delivery is
  rejected without being requeued, and has handed nothing to the channel unless the publication failed
  after that.\<close>

theorem parser_acks_published:
  assumes "parser_deliver W cfg bytes s = (reply, t)"
  shows "(reply = Basic_ack \<and> (\<exists>c. pw_publish W (n_published s) = Sent c) \<and>
      (\<exists>r result. decode_request (pw_serde W) bytes = Inr r \<and> re_request_id result = rq_request_id r \<and>
        ps_out t = ps_out s @ [(pf_result_exchange cfg, pf_result_routing_key cfg, encode_result result)])) \<or>
    (reply = Basic_nack False \<and> (ps_out t = ps_out s \<or> (\<exists>m r result. pw_publish W (n_published s) = Sent_then m \<and>
        decode_request (pw_serde W) bytes = Inr r \<and> re_request_id result = rq_request_id r \<and>
        ps_out t = ps_out s @ [(pf_result_exchange cfg, pf_result_routing_key cfg, encode_result result)])))"
  using assms
proof (cases rule: delivery_outcomes)
  case (acked r result)
  then show ?thesis using execute_Inr [OF acked(3)] by (metis rs_result.select_convs(1))
next
  case (failed r e)
  then show ?thesis using execute_Inl(1) [OF failed(3)] by (elim disjE exE conjE) auto
next
  case (unreadable e)
  then show ?thesis by simp
qed

theorem parser_acks_published_witness:
  "\<exists>reply t. parser_deliver sample_parser default_parser_config (Inl (lit ''bad'')) parser_start = (reply, t) \<and>
     reply = Basic_nack False \<and> ps_out t = []"
proof -
  obtain reply t where run: "parser_deliver sample_parser default_parser_config (Inl (lit ''bad'')) parser_start = (reply, t)"
    by (cases "parser_deliver sample_parser default_parser_config (Inl (lit ''bad'')) parser_start")
  have "decode_request (pw_serde sample_parser) (Inl (lit ''bad'')) = Inl (InvalidRequest (lit ''bad''))"
      "pw_publish sample_parser 0 = Sent Not_requested" "ps_out parser_start = []" "n_published parser_start = 0"
    by (simp_all add: decode_request_def sample_parser_def parser_start_def)
  with parser_acks_published [OF run] run show ?thesis by auto
qed

text \<open>While the authorization service has no session, requests are used up: every one that is delivered is rejected and
  not requeued, and since the queue has no dead letter exchange it is gone; the board is not asked and
  no result is published. The service itself goes on.\<close>

theorem requests_lost_without_session:
  assumes "\<And>n. \<exists>m. pw_cookies W n = Inl m" and "\<And>n. settle n = None"
  shows "\<exists>t. run_consumer W cfg settle (map Inr bs) replies s = (Inr (), replies @ replicate (length bs) (Basic_nack False), t) \<and>
    ps_out t = ps_out s \<and> ps_requests t = ps_requests s \<and> rq_arguments (parser_queue cfg) = []"
proof -
  have one: "\<exists>t. parser_deliver W cfg b s = (Basic_nack False, t) \<and> ps_out t = ps_out s \<and> ps_requests t = ps_requests s" for b s
  proof -
    obtain reply t where d: "parser_deliver W cfg b s = (reply, t)" by (cases "parser_deliver W cfg b s")
    obtain m where m: "pw_cookies W (n_cookies s) = Inl m" using assms(1) by blast
    from d show ?thesis
    proof (cases rule: delivery_outcomes)
      case (acked r result)
      then show ?thesis using m by (simp add: parser_execute_def get_cookies_def)
    next
      case (failed r e)
      then show ?thesis using execute_Inl(2) [OF failed(3) m] d by simp
    qed (use d in simp)
  qed
  have "rq_arguments (parser_queue cfg) = []" by (simp add: parser_queue_def durable_queue_def)
  then show ?thesis
  proof (induction bs arbitrary: replies s)
    case (Cons b bs)
    obtain u where u: "parser_deliver W cfg b s = (Basic_nack False, u)" "ps_out u = ps_out s" "ps_requests u = ps_requests s"
      using one by blast
    obtain t where "run_consumer W cfg settle (map Inr bs) (replies @ [Basic_nack False]) u =
        (Inr (), (replies @ [Basic_nack False]) @ replicate (length bs) (Basic_nack False), t)"
        "ps_out t = ps_out u" "ps_requests t = ps_requests u"
      using Cons by blast
    with u Cons.prems have "run_consumer W cfg settle (map Inr (b # bs)) replies s =
        (Inr (), replies @ replicate (length (b # bs)) (Basic_nack False), t)" by (simp add: assms(2) del: fun_eq_iff)
    with u Cons.prems \<open>ps_out t = ps_out u\<close> \<open>ps_requests t = ps_requests u\<close> show ?case by (metis (no_types))
  qed simp
qed

theorem requests_lost_without_session_witness:
  "\<exists>t. run_consumer (sample_parser\<lparr>pw_cookies := \<lambda>_. Inl []\<rparr>) default_parser_config (\<lambda>_. None)
     (map Inr [Inr (to_parse_request sample_command), Inl []]) [] parser_start =
     (Inr (), [Basic_nack False, Basic_nack False], t)"
proof -
  have "replicate (length [Inr (to_parse_request sample_command), Inl []]) (Basic_nack False) = [Basic_nack False, Basic_nack False]"
    by simp
  moreover have "\<exists>m. pw_cookies (sample_parser\<lparr>pw_cookies := \<lambda>_. Inl []\<rparr>) n = Inl m" for n by simp
  ultimately show ?thesis
    using requests_lost_without_session [of "sample_parser\<lparr>pw_cookies := \<lambda>_. Inl []\<rparr>" "\<lambda>_. None" default_parser_config
        "[Inr (to_parse_request sample_command), Inl []]" "[]" parser_start]
    unfolding append_Nil by (metis (no_types))
qed

end
