(* ===== verification/CoreLive.thy ===== *)
theory CoreLive
  imports CoreMessaging
begin

text \<open>
  order-core-service: progress. The laws of the unit of work say what a handler may do; here, with a
  database that fails no statement and no commit and with identifiers that are not taken, every
  handler is shown to come to its end without a database error, so that what is ingested or decided
  is there to be relayed.
\<close>

section \<open>A healthy database\<close>

definition fresh_ids :: "pg_env \<Rightarrow> nat \<Rightarrow> database \<Rightarrow> bool" where
  "fresh_ids E n db \<longleftrightarrow> (\<forall>i \<ge> n. uuid4 E i \<notin> set (map or_id (orders_t db)) \<and>
     uuid4 E i \<notin> set (map ob_id (outbox_t db)))"

text \<open>All events but those with a key of \<open>K\<close> are pending.\<close>

definition new_pending :: "ustr set \<Rightarrow> database \<Rightarrow> bool" where
  "new_pending K db \<longleftrightarrow> (\<forall>r \<in> set (outbox_t db). ob_dedup_key r \<in> K \<or> ob_status r = pending)"

definition fine :: "pg_env \<Rightarrow> ustr set \<Rightarrow> nat \<Rightarrow> database \<Rightarrow> bool" where
  "fine E K n db \<longleftrightarrow> fresh_ids E n db \<and> new_pending K db"

definition healthy :: "pg_env \<Rightarrow> bool" where
  "healthy E \<longleftrightarrow> calm_pg E \<and> inj (uuid4 E)"

definition ready :: "pg_env \<Rightarrow> ustr set \<Rightarrow> 'z pg_scheme \<Rightarrow> bool" where
  "ready E K s \<longleftrightarrow> (\<exists>db. session s = Some db \<and> fine E K (n_uuid s) db) \<and> fine E K (n_uuid s) (committed s)"

definition safe :: "pg_env \<Rightarrow> ustr set \<Rightarrow> ('z pg_scheme, 'a) act \<Rightarrow> bool" where
  "safe E K m \<longleftrightarrow> (\<forall>s r t. ready E K s \<longrightarrow> m s = (r, t) \<longrightarrow>
     ready E K t \<and> (\<forall>msg. r \<noteq> Inl (DatabaseError msg)))"

lemma fine_Suc: "fine E K n db \<Longrightarrow> fine E K (Suc n) db"
  by (auto simp: fine_def fresh_ids_def)

lemma fresh_self: "fine E K n db \<Longrightarrow> uuid4 E n \<notin> or_id ` set (orders_t db) \<and> uuid4 E n \<notin> ob_id ` set (outbox_t db)"
  by (auto simp: fine_def fresh_ids_def)

lemma fine_add_order: "inj (uuid4 E) \<Longrightarrow> fine E K n db \<Longrightarrow> or_id r = uuid4 E n \<Longrightarrow>
    fine E K (Suc n) (db\<lparr>orders_t := orders_t db @ [r]\<rparr>)"
  by (auto simp: fine_def fresh_ids_def new_pending_def inj_eq)

lemma fine_add_event: "inj (uuid4 E) \<Longrightarrow> fine E K n db \<Longrightarrow> ob_id r = uuid4 E n \<Longrightarrow> ob_status r = pending \<Longrightarrow>
    fine E K (Suc n) (db\<lparr>outbox_t := outbox_t db @ [r]\<rparr>)"
  by (auto simp: fine_def fresh_ids_def new_pending_def inj_eq)

lemma safeD: "safe E K m \<Longrightarrow> ready E K s \<Longrightarrow> m s = (r, t) \<Longrightarrow> ready E K t \<and> (\<forall>msg. r \<noteq> Inl (DatabaseError msg))"
  by (simp add: safe_def)

lemma safe_bind [intro]:
  assumes "safe E K m" and "\<And>x. safe E K (f x)"
  shows "safe E K (bind_act m f)"
  unfolding safe_def
proof (intro allI impI)
  fix s r t assume s: "ready E K s" and b: "bind_act m f s = (r, t)"
  obtain r' u where m: "m s = (r', u)" by (cases "m s")
  note first = safeD [OF assms(1) s m]
  show "ready E K t \<and> (\<forall>msg. r \<noteq> Inl (DatabaseError msg))"
  proof (cases r')
    case (Inl e)
    with b m first show ?thesis by (auto simp: bind_act_def)
  next
    case (Inr x)
    with b m have "f x u = (r, t)" by (simp add: bind_act_def)
    then show ?thesis using safeD [OF assms(2)] first by blast
  qed
qed

lemma safe_ret [intro]: "safe E K (ret x)"
  by (simp add: safe_def)

lemma safe_log [intro]: "safe E K (log l ev fs)"
  by (auto simp: safe_def ready_def)

lemma safe_publish [intro]: "safe E K (publish reliable p j)"
  by (auto simp: safe_def ready_def)

lemma safe_raise: "(\<And>msg. e \<noteq> DatabaseError msg) \<Longrightarrow> safe E K (raise e)"
  by (auto simp: safe_def raise_def)

lemma safe_lift: "(\<And>msg. r \<noteq> Inl (DatabaseError msg)) \<Longrightarrow> safe E K (lift_act r)"
  by (auto simp: safe_def lift_act_def split: sum.splits)

lemma safe_for_each [intro]: "(\<And>x. x \<in> set xs \<Longrightarrow> safe E K (f x)) \<Longrightarrow> safe E K (for_each f xs)"
  by (induction xs) auto

lemma safe_execute:
  assumes "healthy E" and "\<And>now n db. fine E K n db \<Longrightarrow> \<exists>x db'. q now db = Inr (x, db') \<and> fine E K n db'"
  shows "safe E K (execute E q)"
  unfolding safe_def
proof (intro allI impI)
  fix s r t assume s: "ready E K s" and run: "execute E q s = (r, t)"
  obtain db where db: "session s = Some db" "fine E K (n_uuid s) db" "fine E K (n_uuid s) (committed s)"
    using s by (auto simp: ready_def)
  obtain x db' where q: "q (pg_now E (n_tx s)) db = Inr (x, db')" "fine E K (n_uuid s) db'"
    using assms(2) [OF db(2)] by blast
  from assms(1) have "pg_fault E i = None" for i by (simp add: healthy_def calm_pg_def)
  then have "r = Inr x" "t = s\<lparr>n_stmt := Suc (n_stmt s), session := Some db'\<rparr>"
    using run db q by (auto simp: execute_def bind_act_def require_session_def Let_def)
  with q db show "ready E K t \<and> (\<forall>msg. r \<noteq> Inl (DatabaseError msg))" by (simp add: ready_def)
qed

lemma safe_draw:
  assumes "healthy E" and "\<And>now n db. fine E K n db \<Longrightarrow> \<exists>x db'. q (uuid4 E n) now db = Inr (x, db') \<and> fine E K (Suc n) db'"
  shows "safe E K (bind_act (draw_uuid E) (\<lambda>uid. execute E (q uid)))"
  unfolding safe_def
proof (intro allI impI)
  fix s r t assume s: "ready E K s" and run: "bind_act (draw_uuid E) (\<lambda>uid. execute E (q uid)) s = (r, t)"
  obtain db where db: "session s = Some db" "fine E K (n_uuid s) db" "fine E K (n_uuid s) (committed s)"
    using s by (auto simp: ready_def)
  obtain x db' where q: "q (uuid4 E (n_uuid s)) (pg_now E (n_tx s)) db = Inr (x, db')" "fine E K (Suc (n_uuid s)) db'"
    using assms(2) [OF db(2)] by blast
  from assms(1) have "pg_fault E i = None" for i by (simp add: healthy_def calm_pg_def)
  then have "r = Inr x" "t = s\<lparr>n_uuid := Suc (n_uuid s), n_stmt := Suc (n_stmt s), session := Some db'\<rparr>"
    using run db q by (auto simp: execute_def draw_uuid_def bind_act_def require_session_def Let_def)
  with q fine_Suc [OF db(3)] show "ready E K t \<and> (\<forall>msg. r \<noteq> Inl (DatabaseError msg))" by (simp add: ready_def)
qed

lemma safe_commit: "healthy E \<Longrightarrow> safe E K (commit E)"
  unfolding safe_def
  by (auto simp: healthy_def calm_pg_def ready_def commit_def bind_act_def require_session_def Let_def)

lemma with_session_safe:
  assumes "healthy E" and "safe E K body" and "fine E K (n_uuid s) (committed s)"
    and "with_session E body s = (r, t)"
  shows "fine E K (n_uuid t) (committed t) \<and> (\<forall>msg. r \<noteq> Inl (DatabaseError msg))"
proof -
  have "ready E K (aenter s)" using assms(3) by (simp add: ready_def aenter_def)
  moreover obtain r' u where u: "body (aenter s) = (r', u)" by (cases "body (aenter s)")
  ultimately have ok: "ready E K u" "\<forall>msg. r' \<noteq> Inl (DatabaseError msg)" using safeD [OF assms(2)] by blast+
  from assms(1) have "pg_fault E i = None" "close_fault E i = None" for i by (simp_all add: healthy_def calm_pg_def)
  with ok u assms(4) show ?thesis
    by (cases r') (auto simp: with_session_def aexit_def close_session_def rollback_def bind_act_def require_session_def ready_def Let_def)
qed

section \<open>The statements\<close>

text \<open>What the columns of the tables take of an order and of its assessment event.\<close>

definition storable :: "pg_env \<Rightarrow> incoming_order \<Rightarrow> bool" where
  "storable E ord \<longleftrightarrow> varchar_ok E 32 (source_value (io_source ord)) \<and> varchar_ok E 128 (io_external_id ord) \<and>
     (case io_request_id ord of None \<Rightarrow> True | Some r \<Rightarrow> varchar_ok E 128 r) \<and>
     int64_ok (io_fetched_at ord) \<and> json_ok E (io_payload ord) \<and>
     varchar_ok E 32 (destination_value ASSESS_REQUEST) \<and>
     text_ok E (assess_key (io_source ord) (io_external_id ord)) \<and> json_ok E (assess_request_payload ord)"

lemma source_value_len: "length (source_value src) = 5"
  by (cases src) (simp add: source_value.simps lit_def)

lemma safe_insert_new: "healthy E \<Longrightarrow> storable E ord \<Longrightarrow> safe E K (insert_new E ord)"
  unfolding insert_new_def
  by (rule safe_draw) (auto simp: insert_order_stmt_def storable_def Let_def healthy_def
      dest: fresh_self intro: fine_Suc fine_add_order)

lemma safe_outbox_add:
  assumes "healthy E" and "varchar_ok E 32 (destination_value dest)" and "varchar_ok E 200 key" and "json_ok E payload"
  shows "safe E K (outbox_add E dest key payload)"
  unfolding outbox_add_def
  by (rule safe_draw) (use assms in \<open>auto simp: insert_outbox_stmt_def Let_def healthy_def
      dest: fresh_self intro: fine_Suc fine_add_event\<close>)

lemma safe_add_assessment_request:
  assumes "healthy E" and "storable E ord"
  shows "safe E K (add_assessment_request E ord)"
  unfolding add_assessment_request_def
proof (rule safe_outbox_add [OF assms(1)])
  show "varchar_ok E 200 (assess_key (io_source ord) (io_external_id ord))"
    using assms(2) by (simp add: storable_def varchar_ok_def assess_key_def source_value_len lit_def)
qed (use assms(2) in \<open>simp_all add: storable_def\<close>)

lemma safe_set_status:
  assumes "healthy E" and "case score of None \<Rightarrow> True | Some i \<Rightarrow> int32_ok i"
  shows "safe E K (set_status E src ext st score)"
  unfolding set_status_def
proof (rule safe_execute [OF assms(1)])
  fix now n db assume "fine E K n db"
  moreover have "set (map or_id (map (\<lambda>r. if order_key r = k then r\<lparr>or_status := a, or_suitability_score := b,
      or_updated_at := c\<rparr> else r) rows)) = set (map or_id rows)" for rows k a b c
    by (simp add: image_image if_distrib cong: if_cong)
  ultimately show "\<exists>x db'. update_status_stmt src ext st score now db = Inr (x, db') \<and> fine E K n db'"
    using assms(2) unfolding update_status_stmt_def fine_def fresh_ids_def new_pending_def
    by (auto split: option.splits)
qed

lemma source_of_db: "source_of s \<noteq> Inl (DatabaseError msg)" and status_of_db: "status_of s \<noteq> Inl (DatabaseError msg)"
  by (auto simp: source_of_def status_of_def)

lemma safe_get_order: "healthy E \<Longrightarrow> safe E K (get_order E src ext)"
  unfolding get_order_def
proof (rule safe_bind)
  show "healthy E \<Longrightarrow> safe E K (execute E (select_order_stmt src ext))"
    by (rule safe_execute) (auto simp: select_order_stmt_def)
qed (auto intro!: safe_bind safe_lift simp: source_of_db status_of_db split: option.split)

lemma mark_keeps_ids:
  "map ob_id (map (\<lambda>r. if ob_id r \<in> A then r\<lparr>ob_status := a, ob_published_at := b\<rparr> else r) rows) = map ob_id rows"
  by simp

lemma safe_mark_published:
  assumes "healthy E"
  shows "safe E UNIV (mark_published E ids)"
proof (cases "ids = []")
  case False
  then show ?thesis unfolding mark_published_def if_not_P [OF False]
    by (intro safe_execute [OF assms]) (simp add: mark_stmt_def fine_def fresh_ids_def new_pending_def mark_keeps_ids
        del: map_map set_map)
qed (simp add: mark_published_def safe_ret)

lemma safe_claim_pending:
  assumes "healthy E"
  shows "safe E UNIV (claim_pending E batch)"
proof -
  have "safe E UNIV (bind_act (execute E (claim_stmt rank lk batch)) (\<lambda>rows. ret (f rows)))" for rank lk f
    by (rule safe_bind [OF safe_execute [OF assms]]) (auto simp: claim_stmt_def)
  then show ?thesis unfolding claim_pending_def safe_def by blast
qed

lemma safe_event_publish: "safe E UNIV (event_publish reliable a n d j)"
  unfolding event_publish_def by (auto intro!: safe_raise simp: unknown_destination_def split: option.split)

section \<open>The handlers\<close>

lemma ingest_progress:
  assumes "healthy E" and "core_idle s" and "fine E K (n_uuid s) (committed s)" and "\<forall>ord \<in> set batch. storable E ord"
  obtains t where "IngestOrders_handle (sql_uow E) batch s = (Inr (), t)" and "fine E K (n_uuid t) (committed t)"
proof -
  obtain r t where run: "IngestOrders_handle (sql_uow E) batch s = (r, t)"
    by (cases "IngestOrders_handle (sql_uow E) batch s")
  have "safe E K (ingest_one (sql_uow E) ord)" if "ord \<in> set batch" for ord
    using assms(1,4) that unfolding ingest_one_def sql_uow_simps
    by (auto intro!: safe_bind safe_insert_new safe_add_assessment_request)
  then have "safe E K (bind_act (for_each (ingest_one (sql_uow E)) batch) (\<lambda>_. commit E))"
    using safe_commit [OF assms(1)] by blast
  note s = with_session_safe [OF assms(1) this assms(3) run [unfolded IngestOrders_handle_def sql_uow_simps]]
  have "r = Inr ()"
  proof (cases r)
    case (Inl e)
    with run have "IngestOrders_handle (sql_uow E) batch s = (Inl e, t)" by simp
    from ingest_raises [OF assms(2) this] Inl s show ?thesis by blast
  qed simp
  with run s show ?thesis using that by blast
qed

definition deliverable :: "pg_env \<Rightarrow> assessment_outcome \<Rightarrow> bool" where
  "deliverable E out \<longleftrightarrow> int32_ok (ao_suitability_score out) \<and> varchar_ok E 32 (destination_value NOTIFY) \<and>
     varchar_ok E 128 (ao_order_id out) \<and> text_ok E (notify_key PROFI (ao_order_id out)) \<and>
     json_ok E (notification_payload (ao_notification out))"

lemma process_progress:
  assumes "healthy E" and "core_idle s" and "fine E K (n_uuid s) (committed s)" and "deliverable E out"
    and "fst (abs_db (committed s)) (profi_key (ao_order_id out)) \<noteq> None"
  obtains t where "ProcessAssessment_handle (sql_uow E) th out s = (Inr (), t)" and "fine E K (n_uuid t) (committed t)"
proof -
  obtain r t where run: "ProcessAssessment_handle (sql_uow E) th out s = (r, t)"
    by (cases "ProcessAssessment_handle (sql_uow E) th out s")
  have add: "safe E K (add_notification E PROFI (ao_order_id out) (ao_notification out))"
    unfolding add_notification_def
  proof (rule safe_outbox_add [OF assms(1)])
    show "varchar_ok E 200 (notify_key PROFI (ao_order_id out))"
      using assms(4) by (simp add: deliverable_def varchar_ok_def notify_key_def source_value_len lit_def)
  qed (use assms(4) in \<open>simp_all add: deliverable_def\<close>)
  have set: "safe E K (set_status E PROFI (ao_order_id out) st (Some (ao_suitability_score out)))" for st
    using assms(4) by (intro safe_set_status [OF assms(1)]) (simp add: deliverable_def)
  have apply_safe: "safe E K (apply_verdict (sql_uow E) th out)"
    unfolding apply_verdict_def Let_def sql_uow_simps by (auto intro!: safe_bind set add)
  have known: "spec_process th out (abs_db (committed s)) \<noteq> None"
    using spec_process_None [of th out "abs_db (committed s)"] assms(5) by blast
  note body = safe_bind [OF safe_get_order [OF assms(1)]]
  note s = with_session_safe [OF assms(1) body assms(3) run [unfolded ProcessAssessment_handle_def sql_uow_simps]]
  have ok: "fine E K (n_uuid t) (committed t) \<and> (\<forall>msg. r \<noteq> Inl (DatabaseError msg))"
    by (rule s) (auto intro!: safe_bind safe_raise apply_safe safe_commit assms(1) simp: unknown_order_def split: option.split)
  have "r = Inr ()"
  proof (cases r)
    case (Inl e)
    with run have "ProcessAssessment_handle (sql_uow E) th out s = (Inl e, t)" by simp
    from process_raises [OF assms(2) this] Inl ok known show ?thesis by blast
  qed simp
  with run ok show ?thesis using that by blast
qed

lemma run_once_fine:
  assumes "healthy E" and "fine E UNIV (n_uuid s) (committed s)"
    and "run_once (sql_dispatch E) (event_publish reliable a n) batch s = (r, t)"
  shows "fine E UNIV (n_uuid t) (committed t)"
proof -
  note w = with_session_safe [OF assms(1) _ assms(2) assms(3) [unfolded run_once_def sql_dispatch_simps]]
  show ?thesis
    by (rule conjunct1 [OF w]) (auto intro!: safe_bind safe_claim_pending safe_mark_published safe_event_publish safe_commit assms(1))
qed

lemma run_forever_fine:
  "healthy E \<Longrightarrow> fine E UNIV (n_uuid s) (committed s) \<Longrightarrow>
   run_forever repr (run_once (sql_dispatch E) (event_publish reliable a n) batch) interval m s = (Inr ps, t) \<Longrightarrow>
   fine E UNIV (n_uuid t) (committed t)"
proof (induction m arbitrary: s ps)
  case (Suc m)
  let ?once = "run_once (sql_dispatch E) (event_publish reliable a n) batch"
  obtain r u where u: "?once s = (r, u)" by (cases "?once s")
  have fu: "fine E UNIV (n_uuid u) (committed u)" by (rule run_once_fine [OF Suc.prems(1,2) u])
  obtain r' v where v: "relay_tick repr ?once interval s = (r', v)" by (cases "relay_tick repr ?once interval s")
  have "n_uuid v = n_uuid u \<and> committed v = committed u"
    using v u by (cases r) (auto simp: relay_tick_def split: if_splits)
  with fu have fv: "fine E UNIV (n_uuid v) (committed v)" by simp
  obtain qs where "run_forever repr ?once interval m v = (Inr qs, t)"
    using Suc.prems(3) v by (cases r') (auto simp: bind_act_def split: sum.splits prod.splits)
  then show ?case by (rule Suc.IH [OF Suc.prems(1) fv])
qed simp

lemma loop_delivers:
  assumes "healthy E" and "core_idle s" and "fine E UNIV (n_uuid s) (committed s)" and "0 < batch"
    and "e \<in> set (waiting_events (committed s))"
  obtains m ps t where "run_forever repr (run_once (sql_dispatch E) (event_publish reliable a n) batch) interval m s = (Inr ps, t)"
    and "core_idle t" and "fine E UNIV (n_uuid t) (committed t)"
    and "abs_db (committed t) = abs_db (committed s)" and "waiting_events (committed t) = []"
    and "message_for a n e \<in> set (rt_out t)"
proof -
  let ?m = "length (waiting_events (committed s))"
  have "?m \<le> ?m * batch" using assms(4) by simp
  moreover have "calm_pg E" using assms(1) by (simp add: healthy_def)
  ultimately obtain ps t sent where t: "run_forever repr (run_once (sql_dispatch E) (event_publish reliable a n) batch)
      interval ?m s = (Inr ps, t)" "core_idle t" "waiting_events (committed t) = []" "rt_out t = rt_out s @ sent"
      "abs_db (committed t) = abs_db (committed s)"
      "mset sent = image_mset (message_for a n) (mset (waiting_events (committed s)))"
    using loop_drains [OF _ assms(2)] by metis
  have "set sent = message_for a n ` set (waiting_events (committed s))"
    using arg_cong [OF t(6), of set_mset] by simp
  with assms(5) t(4) have "message_for a n e \<in> set (rt_out t)" by simp
  with t show ?thesis using that run_forever_fine [OF assms(1,3) t(1)] by blast
qed

text \<open>An event that is new since the keys \<open>K\<close> were all there were waits to be relayed.\<close>

lemma new_event_waits:
  assumes "fine E K n db" and "snd (abs_db db) key = Some (d, p)" and "key \<notin> K"
  shows "\<exists>e \<in> set (waiting_events db). pe_destination e = d \<and> pe_payload e = p"
proof -
  from assms(2) have "(key, d, p) \<in> set (map event_binding (outbox_t db))"
    by (auto simp: abs_db_def abs_events_def dest: map_of_SomeD)
  then obtain r where "r \<in> set (outbox_t db)" "ob_dedup_key r = key" "ob_destination r = d" "ob_payload r = p"
    by (auto simp: event_binding_def)
  with assms(1,3) show ?thesis
    by (intro bexI [of _ "to_event r"]) (auto simp: fine_def new_pending_def waiting_events_def pending_rows_def)
qed

lemma fine_keys: "fine E K n db \<Longrightarrow> fine E {k. snd (abs_db db) k \<noteq> None} n db"
  by (auto simp: fine_def new_pending_def abs_db_def abs_events_None)

lemma fine_UNIV: "fine E K n db \<Longrightarrow> fine E UNIV n db"
  by (simp add: fine_def new_pending_def)

end
