(* ===== verification/Delivery.thy ===== *)
theory Delivery
  imports Pipeline CoreLive
begin

text \<open>
  The services together, the positive side: one order followed from parse.results to the
  notifications exchange, with every intermediate message produced by one service and read by the
  next; and, from that run, the witnesses of the invariants of Pipeline.
\<close>

section \<open>The way of one order\<close>

definition incoming :: "parse_result_message \<Rightarrow> wire_order \<Rightarrow> incoming_order" where
  "incoming m w = \<lparr>io_source = PROFI, io_external_id = wo_id w, io_payload = dump_order w,
     io_request_id = Some (pr_request_id m), io_fetched_at = pr_fetched_at m\<rparr>"

definition outcome_of :: "listing \<Rightarrow> assessment \<Rightarrow> assessment_outcome" where
  "outcome_of li a = \<lparr>ao_order_id = ls_id li, ao_suitability_score = as_suitability_score a,
     ao_notification = core_command (build_notification li a)\<rparr>"

definition core_ok :: "core_world \<Rightarrow> pg \<Rightarrow> bool" where
  "core_ok W c \<longleftrightarrow> core_idle c \<and> link_ok (abs_db (committed c)) \<and>
     fine (cw_pg W) UNIV (n_uuid c) (committed c)"

definition core_world_ok :: "core_world \<Rightarrow> bool" where
  "core_world_ok W \<longleftrightarrow> pydantic_ok (cw_pydantic W) \<and> cw_bus W = reliable \<and> healthy (cw_pg W)"

lemma stage_parse:
  assumes "core_world_ok W" and "core_ok W c" and "pr_orders m = [w]"
    and "fst (abs_db (committed c)) (profi_key (wo_id w)) = None" and "storable (cw_pg W) (incoming m w)"
  obtains c1 e where "core_on_parse S W (dump_parse_result m) c = (Inr (), c1)" and "core_ok W c1"
    and "fst (abs_db (committed c1)) (profi_key (wo_id w)) = Some (status_value ASSESS_REQUESTED, None)"
    and "e \<in> set (waiting_events (committed c1))" and "pe_destination e = destination_value ASSESS_REQUEST"
    and "pe_payload e = assess_request_payload (incoming m w)"
proof -
  let ?E = "cw_pg W" and ?K = "{k. snd (abs_db (committed c)) k \<noteq> None}" and ?ord = "incoming m w"
  have ok: "core_idle c" "link_ok (abs_db (committed c))" "fine ?E ?K (n_uuid c) (committed c)" "healthy ?E"
    using assms(1,2) fine_keys by (auto simp: core_ok_def core_world_ok_def)
  have batch: "to_incoming_orders m = [?ord]" by (simp add: to_incoming_orders_def assms(3) incoming_def)
  have "\<forall>ord \<in> set [?ord]. storable ?E ord" using assms(5) by simp
  then obtain c1 where c1: "IngestOrders_handle (sql_uow ?E) [?ord] c = (Inr (), c1)"
      "fine ?E ?K (n_uuid c1) (committed c1)"
    using ingest_progress [OF ok(4,1,3)] by blast
  have run: "core_on_parse S W (dump_parse_result m) c = (Inr (), c1)"
    using c1(1) read_dump_parse_result [of "cw_pydantic W" m] assms(1)
    by (simp add: core_on_parse_def on_parse_results_def validated_dict guard_def model_validate_def batch core_world_ok_def)
  have abs: "core_idle c1" "abs_db (committed c1) = spec_ingest ?ord (abs_db (committed c))"
    using ingest_returns [OF ok(1) c1(1)] by simp_all
  obtain om ev where a: "abs_db (committed c) = (om, ev)" by (cases "abs_db (committed c)")
  have key: "in_key ?ord = profi_key (wo_id w)" "io_external_id ?ord = wo_id w"
    by (simp_all add: in_key_profi incoming_def)
  have none: "ev (assess_key PROFI (wo_id w)) = None" "om (profi_key (wo_id w)) = None"
    using link_ok_no_assess [of om ev "wo_id w"] ok(2) assms(4) by (simp_all add: a)
  have new: "abs_db (committed c1) = (om(profi_key (wo_id w) \<mapsto> (status_value ASSESS_REQUESTED, None)),
      ev(assess_key PROFI (wo_id w) \<mapsto> (destination_value ASSESS_REQUEST, assess_request_payload ?ord)))"
    by (simp add: abs(2) a spec_ingest_def key none put_new_def)
  have "\<exists>e \<in> set (waiting_events (committed c1)). pe_destination e = destination_value ASSESS_REQUEST \<and>
      pe_payload e = assess_request_payload ?ord"
    by (rule new_event_waits [OF c1(2), of "assess_key PROFI (wo_id w)"]) (simp_all add: new a none)
  moreover have "core_ok W c1"
    using abs(1) fine_UNIV [OF c1(2)] link_ok_fold_ingest [OF ok(2), of "[?ord]"] by (simp add: core_ok_def abs(2))
  ultimately show ?thesis using that run new by auto
qed

lemma stage_relay:
  assumes "core_world_ok W" and "core_ok W c" and "0 < obs_batch_size (cs_outbox S)"
    and "e \<in> set (waiting_events (committed c))"
  obtains n ps c1 where "run_forever repr (core_relay S W) interval n c = (Inr ps, c1)" and "core_ok W c1"
    and "abs_db (committed c1) = abs_db (committed c)"
    and "message_for (core_assess_publisher S) (core_notify_publisher S) e \<in> set (rt_out c1)"
proof -
  have W: "healthy (cw_pg W)" "cw_bus W = reliable" "core_idle c" "fine (cw_pg W) UNIV (n_uuid c) (committed c)"
    using assms(1,2) by (simp_all add: core_world_ok_def core_ok_def)
  have "0 < nat (obs_batch_size (cs_outbox S))" using assms(3) by simp
  from loop_delivers [OF W(1,3,4) this assms(4), of repr "core_assess_publisher S" "core_notify_publisher S" interval]
  obtain n ps c1 where "run_forever repr (core_relay S W) interval n c = (Inr ps, c1)" "core_idle c1"
      "fine (cw_pg W) UNIV (n_uuid c1) (committed c1)" "abs_db (committed c1) = abs_db (committed c)"
      "message_for (core_assess_publisher S) (core_notify_publisher S) e \<in> set (rt_out c1)"
    unfolding core_relay_def W(2) by blast
  with assms(2) show ?thesis using that by (simp add: core_ok_def)
qed

lemma stage_assess:
  assumes "pydantic_ok (lw_pydantic V)" and "lw_bus V = reliable" and "order_to_listing w = Inr li"
    and "verdict V profile (n_ainvoke l) li = Inr a" and "ld_notify (decide a (ls_suitability_threshold L))"
  obtains l1 where "on_assess_requests V (llm_wiring L profile) (assess_request_payload (incoming m w)) l = (Inr (), l1)"
    and "rt_out l1 = rt_out l @ [(lc_result (llm_wiring L profile), dump_llm_result (from_result (build_result li a)))]"
proof -
  let ?C = "llm_wiring L profile"
  have C: "lc_profile ?C = profile" "lc_threshold ?C = ls_suitability_threshold L" by (simp_all add: llm_wiring_def)
  obtain m' where m': "llm_read_parse_result (lw_pydantic V) (assess_request_payload (incoming m w)) = Some m'"
      "pr_orders m' = [w]"
    using assess_payload_dump [of "incoming m w" w] read_dump_parse_result [OF assms(1)]
    by (auto simp: incoming_def llm_read_parse_result_eq)
  have "never_cancelled V ?C (n_ainvoke l) [li]" using assms(4) by (simp add: never_cancelled_def C)
  moreover have "transient_ids V ?C (n_ainvoke l) [li] = []"
    using assms(4) by (simp add: transient_ids_def is_transient_def C)
  moreover have "batch_verdicts V ?C (n_ainvoke l) [li] =
      [(lc_result ?C, dump_llm_result (from_result (build_result li a)))]"
    using assms(4,5) by (simp add: batch_verdicts_def verdict_messages_def C)
  ultimately obtain l1 where "AssessOrders_handle V ?C [li] l = (Inr [], l1)"
      "rt_out l1 = rt_out l @ [(lc_result ?C, dump_llm_result (from_result (build_result li a)))]"
    using handle_reliable [OF assms(2), of ?C l "[li]"] by auto
  then show ?thesis using that m' assms(3) by (simp add: on_assess_requests_def model_validate_def)
qed

lemma stage_verdict:
  assumes "core_world_ok W" and "core_ok W c" and "0 \<le> as_suitability_score a" and "as_suitability_score a \<le> 100"
    and "fst (abs_db (committed c)) (profi_key (ls_id li)) = Some (status_value ASSESS_REQUESTED, sc)"
    and "cs_notify_threshold S \<le> as_suitability_score a" and "deliverable (cw_pg W) (outcome_of li a)"
  obtains c1 e where "core_on_assess S W (dump_llm_result (from_result (build_result li a))) c = (Inr (), c1)"
    and "core_ok W c1"
    and "fst (abs_db (committed c1)) (profi_key (ls_id li)) =
      Some (status_value NOTIFY_REQUESTED, Some (as_suitability_score a))"
    and "e \<in> set (waiting_events (committed c1))" and "pe_destination e = destination_value NOTIFY"
    and "pe_payload e = notification_payload (core_command (build_notification li a))"
proof -
  let ?E = "cw_pg W" and ?K = "{k. snd (abs_db (committed c)) k \<noteq> None}" and ?out = "outcome_of li a"
  have ok: "core_idle c" "link_ok (abs_db (committed c))" "fine ?E ?K (n_uuid c) (committed c)" "healthy ?E"
      "pydantic_ok (cw_pydantic W)"
    using assms(1,2) fine_keys by (auto simp: core_ok_def core_world_ok_def)
  have out: "ao_order_id ?out = ls_id li" "ao_suitability_score ?out = as_suitability_score a"
      "ao_notification ?out = core_command (build_notification li a)"
    by (simp_all add: outcome_of_def)
  obtain c1 where c1: "ProcessAssessment_handle (sql_uow ?E) (cs_notify_threshold S) ?out c = (Inr (), c1)"
      "fine ?E ?K (n_uuid c1) (committed c1)"
    using process_progress [OF ok(4,1,3) assms(7), of "cs_notify_threshold S"] assms(5) out(1) by auto
  obtain m where m: "read_assessment_result (cw_pydantic W) (dump_llm_result (from_result (build_result li a))) = Some m"
      "to_assessment_outcome (cw_pydantic W) m = Inr ?out"
    using read_verdict [OF ok(5) assms(3,4)] unfolding outcome_of_def by blast
  have run: "core_on_assess S W (dump_llm_result (from_result (build_result li a))) c = (Inr (), c1)"
    using c1(1) m by (simp add: core_on_assess_def on_assess_results_def validated_dict guard_def model_validate_def)
  obtain om ev where a: "abs_db (committed c) = (om, ev)" by (cases "abs_db (committed c)")
  have none: "ev (notify_key PROFI (ls_id li)) = None" "om (profi_key (ls_id li)) = Some (status_value ASSESS_REQUESTED, sc)"
    using link_ok_no_notify [of om ev "ls_id li" sc] ok(2) assms(5) by (simp_all add: a)
  have abs: "core_idle c1" "spec_process (cs_notify_threshold S) ?out (om, ev) = Some (abs_db (committed c1))"
    using process_returns [OF ok(1) c1(1)] by (simp_all add: a)
  have new: "abs_db (committed c1) = (om(profi_key (ls_id li) \<mapsto>
        (status_value NOTIFY_REQUESTED, Some (as_suitability_score a))),
      ev(notify_key PROFI (ls_id li) \<mapsto> (destination_value NOTIFY,
        notification_payload (core_command (build_notification li a)))))"
    using abs(2) none assms(6) by (simp add: spec_process_def out put_new_def)
  have "\<exists>e \<in> set (waiting_events (committed c1)). pe_destination e = destination_value NOTIFY \<and>
      pe_payload e = notification_payload (core_command (build_notification li a))"
    by (rule new_event_waits [OF c1(2), of "notify_key PROFI (ls_id li)"]) (simp_all add: new a none)
  moreover have "core_ok W c1"
    using abs(1) fine_UNIV [OF c1(2)] link_ok_process [OF ok(2), of "cs_notify_threshold S" ?out] abs(2)
    by (simp add: core_ok_def a)
  ultimately show ?thesis using that run new by auto
qed

section \<open>From end to end\<close>

lemma run_loop:
  "pipe_run S L profile AS l0 (c, l) \<Longrightarrow> run_forever repr (core_relay S W) interval n c = (r, c') \<Longrightarrow>
   pipe_run S L profile AS l0 (c', l)"
proof (induction n arbitrary: c r c')
  case (Suc n)
  obtain r1 u where u: "relay_tick repr (core_relay S W) interval c = (r1, u)"
    by (cases "relay_tick repr (core_relay S W) interval c")
  have ru: "pipe_run S L profile AS l0 (u, l)" by (rule pipe_run.step [OF Suc.prems(1) pipe_step.relay [OF u]])
  show ?case
  proof (cases r1)
    case (Inl e)
    with Suc.prems(2) u ru show ?thesis by (simp add: bind_act_def)
  next
    case (Inr p)
    obtain r2 v where v: "run_forever repr (core_relay S W) interval n u = (r2, v)"
      by (cases "run_forever repr (core_relay S W) interval n u")
    have "c' = v" using Suc.prems(2) u v Inr by (cases r2) (simp_all add: bind_act_def)
    with Suc.IH [OF ru v] show ?thesis by simp
  qed
qed simp

text \<open>An order that core does not know yet and that llm will find suitable.\<close>

definition suitable :: "core_settings \<Rightarrow> llm_settings \<Rightarrow> contractor_profile \<Rightarrow> core_world \<Rightarrow> llm_world \<Rightarrow>
    parse_result_message \<Rightarrow> wire_order \<Rightarrow> listing \<Rightarrow> assessment \<Rightarrow> pg \<times> llm_state \<Rightarrow> bool" where
  "suitable S L profile W V m w li a p \<longleftrightarrow> (let (c, l) = p in
     pr_orders m = [w] \<and> abs_orders (committed c) (profi_key (wo_id w)) = None \<and>
     storable (cw_pg W) (incoming m w) \<and> fresh_ids (cw_pg W) (n_uuid c) (committed c) \<and>
     order_to_listing w = Inr li \<and> verdict V profile (n_ainvoke l) li = Inr a \<and>
     ld_notify (decide a (ls_suitability_threshold L)) \<and> cs_notify_threshold S \<le> as_suitability_score a \<and>
     deliverable (cw_pg W) (outcome_of li a))"

definition works :: "core_settings \<Rightarrow> core_world \<Rightarrow> llm_world \<Rightarrow> bool" where
  "works S W V \<longleftrightarrow> core_world_ok W \<and> pydantic_ok (lw_pydantic V) \<and> lw_bus V = reliable \<and>
     0 < obs_batch_size (cs_outbox S)"

abbreviation delivered :: "core_settings \<Rightarrow> llm_settings \<Rightarrow> contractor_profile \<Rightarrow> (exn \<Rightarrow> ustr) \<Rightarrow> core_world \<Rightarrow>
    llm_world \<Rightarrow> parse_result_message \<Rightarrow> listing \<Rightarrow> assessment \<Rightarrow> pg \<times> llm_state \<Rightarrow>
    json \<Rightarrow> pg \<times> llm_state \<Rightarrow> json \<Rightarrow> pg \<times> llm_state \<Rightarrow> bool" where
  "delivered S L profile repr W V m li a p request mid reply final \<equiv>
     \<exists>c1 n1 ps1 c3 n2 ps2.
       core_on_parse S W (dump_parse_result m) (fst p) = (Inr (), c1) \<and>
       run_forever repr (core_relay S W) (obs_poll_interval_ms (cs_outbox S)) n1 c1 = (Inr ps1, fst mid) \<and>
       in_queue (input_queue L) (rt_out (fst mid)) request \<and>
       on_assess_requests V (llm_wiring L profile) request (snd p) = (Inr (), snd mid) \<and>
       in_queue (result_queue L) (rt_out (snd mid)) reply \<and>
       core_on_assess S W reply (fst mid) = (Inr (), c3) \<and>
       run_forever repr (core_relay S W) (obs_poll_interval_ms (cs_outbox S)) n2 c3 = (Inr ps2, fst final) \<and>
       snd final = snd mid"

lemma delivery:
  assumes "wired S L" and "reachable S L profile (c, l)" and "works S W V"
    and "suitable S L profile W V m w li a (c, l)"
  obtains request mid reply final where "delivered S L profile repr W V m li a (c, l) request mid reply final"
    and "\<And>AS l0. pipe_run S L profile AS l0 (c, l) \<Longrightarrow> lw_ainvoke V \<in> AS \<Longrightarrow>
      pipe_run S L profile AS l0 mid \<and> pipe_run S L profile AS l0 final"
    and "in_queue (result_queue L) (rt_out (snd mid)) reply"
    and "(core_notify_publisher S, notification_payload (core_command (build_notification li a))) \<in> set (rt_out (fst final))"
    and "abs_orders (committed (fst final)) (profi_key (wo_id w)) =
      Some (status_value NOTIFY_REQUESTED, Some (as_suitability_score a))"
proof -
  let ?om = "\<lambda>c. fst (abs_db (committed c))" and ?iv = "obs_poll_interval_ms (cs_outbox S)"
  let ?req = "assess_request_payload (incoming m w)" and ?rep = "dump_llm_result (from_result (build_result li a))"
  have W: "core_world_ok W" "pydantic_ok (cw_pydantic W)" and V: "pydantic_ok (lw_pydantic V)" "lw_bus V = reliable"
    and size: "0 < obs_batch_size (cs_outbox S)"
    using assms(3) by (simp_all add: works_def core_world_ok_def)
  have order: "pr_orders m = [w]" "?om c (profi_key (wo_id w)) = None" "storable (cw_pg W) (incoming m w)"
      "fresh_ids (cw_pg W) (n_uuid c) (committed c)" "order_to_listing w = Inr li"
      "verdict V profile (n_ainvoke l) li = Inr a" "ld_notify (decide a (ls_suitability_threshold L))"
      "cs_notify_threshold S \<le> as_suitability_score a" "deliverable (cw_pg W) (outcome_of li a)"
    using assms(4) by (simp_all add: suitable_def abs_db_def)
  have c: "core_ok W c"
    using pipe_inv_reachable [OF assms(1,2)] order(4)
    by (simp add: pipe_inv_def Let_def core_ok_def fine_def new_pending_def)
  obtain c1 e1 where c1: "core_on_parse S W (dump_parse_result m) c = (Inr (), c1)" "core_ok W c1"
      "?om c1 (profi_key (wo_id w)) = Some (status_value ASSESS_REQUESTED, None)"
      "e1 \<in> set (waiting_events (committed c1))" "pe_destination e1 = destination_value ASSESS_REQUEST"
      "pe_payload e1 = ?req"
    using stage_parse [OF W(1) c order(1-3)] by blast
  obtain n1 ps1 c2 where c2: "run_forever repr (core_relay S W) ?iv n1 c1 = (Inr ps1, c2)" "core_ok W c2"
      "abs_db (committed c2) = abs_db (committed c1)"
      "message_for (core_assess_publisher S) (core_notify_publisher S) e1 \<in> set (rt_out c2)"
    by (rule stage_relay [OF W(1) c1(2) size c1(4)]) (rule that)
  have q1: "in_queue (input_queue L) (rt_out c2) ?req"
    using c2(4) c1(5,6) core_routes(1) [OF assms(1)] unfolding in_queue_def
    by (auto simp: message_for_def by_destination_def)
  obtain l1 where l1: "on_assess_requests V (llm_wiring L profile) ?req l = (Inr (), l1)"
      "rt_out l1 = rt_out l @ [(lc_result (llm_wiring L profile), ?rep)]"
    by (rule stage_assess [OF V order(5,6,7)]) (rule that)
  have q2: "in_queue (result_queue L) (rt_out l1) ?rep"
    using l1(2) llm_routes(2) [OF assms(1)] unfolding in_queue_def by auto
  have id: "ls_id li = wo_id w" by (rule order_to_listing_id [OF order(5)])
  have "?om c2 (profi_key (ls_id li)) = Some (status_value ASSESS_REQUESTED, None)" by (simp add: c2(3) c1(3) id)
  moreover have "0 \<le> as_suitability_score a" "as_suitability_score a \<le> 100" using verdict_range [OF order(6)] by simp_all
  ultimately obtain c3 e2 where c3: "core_on_assess S W ?rep c2 = (Inr (), c3)" "core_ok W c3"
      "?om c3 (profi_key (ls_id li)) = Some (status_value NOTIFY_REQUESTED, Some (as_suitability_score a))"
      "e2 \<in> set (waiting_events (committed c3))" "pe_destination e2 = destination_value NOTIFY"
      "pe_payload e2 = notification_payload (core_command (build_notification li a))"
    using stage_verdict [OF W(1) c2(2) _ _ _ order(8,9)] by blast
  obtain n2 ps2 c4 where c4: "run_forever repr (core_relay S W) ?iv n2 c3 = (Inr ps2, c4)" "core_ok W c4"
      "abs_db (committed c4) = abs_db (committed c3)"
      "message_for (core_assess_publisher S) (core_notify_publisher S) e2 \<in> set (rt_out c4)"
    by (rule stage_relay [OF W(1) c3(2) size c3(4)]) (rule that)
  have sent: "(core_notify_publisher S, notification_payload (core_command (build_notification li a))) \<in> set (rt_out c4)"
    using c4(4) c3(5,6) by (simp add: message_for_def by_destination_def)
  have runs: "pipe_run S L profile AS l0 (c2, l1) \<and> pipe_run S L profile AS l0 (c4, l1)"
    if "pipe_run S L profile AS l0 (c, l)" "lw_ainvoke V \<in> AS" for AS l0
  proof -
    have r1: "pipe_run S L profile AS l0 (c1, l)" by (rule pipe_run.step [OF that(1) pipe_step.parse [OF c1(1) W(2)]])
    have r2: "pipe_run S L profile AS l0 (c2, l1)"
      by (rule pipe_run.step [OF run_loop [OF r1 c2(1)] pipe_step.assess [OF _ l1(1) V(1) that(2)]]) (simp add: q1)
    have r3: "pipe_run S L profile AS l0 (c3, l1)" by (rule pipe_run.step [OF r2 pipe_step.verdict [OF q2 c3(1) W(2)]])
    show ?thesis using r2 run_loop [OF r3 c4(1)] by simp
  qed
  have "delivered S L profile repr W V m li a (c, l) ?req (c2, l1) ?rep (c4, l1)"
    unfolding fst_conv snd_conv by (intro exI conjI) (rule c1(1) c2(1) q1 l1(1) q2 c3(1) c4(1) refl)+
  then show ?thesis
    by (rule that [where request = ?req and mid = "(c2, l1)" and reply = ?rep and final = "(c4, l1)"])
      (use runs q2 sent c3(3) c4(3) id in \<open>simp_all add: abs_db_def\<close>)
qed

text \<open>A suitable order reaches Telegram: from any reachable state of the two services, when the parser
  delivers an order core does not know, the database and the broker work, and the model's verdict on it
  is at or above both thresholds, then core stores it and, after some turns of the relay, hands the
  request to the queue of llm; llm reads it and publishes a verdict to the queue of core; core
  applies it and, after some turns of the relay, publishes exactly the text that llm built for the
  order to the notifications exchange. Every message is acknowledged and the order ends in
  notify_requested with the score of the verdict.\<close>

theorem suitable_order_delivered:
  assumes "wired S L" and "reachable S L profile (c, l)" and "works S W V"
    and "suitable S L profile W V m w li a (c, l)"
  shows "\<exists>request reply c1 n1 ps1 c2 l1 c3 n2 ps2 c4.
    core_on_parse S W (dump_parse_result m) c = (Inr (), c1) \<and>
    run_forever repr (core_relay S W) (obs_poll_interval_ms (cs_outbox S)) n1 c1 = (Inr ps1, c2) \<and>
    in_queue (input_queue L) (rt_out c2) request \<and>
    on_assess_requests V (llm_wiring L profile) request l = (Inr (), l1) \<and>
    in_queue (result_queue L) (rt_out l1) reply \<and>
    core_on_assess S W reply c2 = (Inr (), c3) \<and>
    run_forever repr (core_relay S W) (obs_poll_interval_ms (cs_outbox S)) n2 c3 = (Inr ps2, c4) \<and>
    (core_notify_publisher S, notification_payload (core_command (build_notification li a))) \<in> set (rt_out c4) \<and>
    abs_orders (committed c4) (profi_key (wo_id w)) =
      Some (status_value NOTIFY_REQUESTED, Some (as_suitability_score a))"
  by (rule delivery [OF assms, of repr]) (simp only: fst_conv snd_conv split_paired_all, blast)

section \<open>Witnesses\<close>

definition willing_llm :: llm_world where
  "willing_llm = sample_llm\<lparr>lw_ainvoke := (\<lambda>_ _. Inr sample_schema)\<rparr>"

lemma works_sample: "works default_core_settings sample_world willing_llm"
proof -
  have "inj (\<lambda>n::nat. n)" by (simp add: inj_on_def)
  then show ?thesis
    by (simp add: works_def core_world_ok_def sample_world_def willing_llm_def sample_llm_def pydantic_ok_strict
        healthy_def calm_env_calm default_core_settings_def default_outbox_def) (simp add: calm_env_def)
qed

lemma suitable_sample:
  "\<exists>li a. suitable default_core_settings default_llm_settings tiny_profile sample_world willing_llm sample_batch
     sample_wire li a (core_start, llm_start) \<and> as_suitability_score a = 90"
proof -
  obtain li where li: "order_to_listing sample_wire = Inr li" "ls_id li = lit ''1''"
    using sample_mapping by (auto split: sum.splits)
  obtain a where a: "verdict willing_llm tiny_profile 0 li = Inr a" "as_suitability_score a = 90" "as_unsupported_hits a = []"
      "\<not> as_is_rejected_type a"
    by (simp add: willing_llm_def sample_llm_defs)
  have "suitable default_core_settings default_llm_settings tiny_profile sample_world willing_llm sample_batch
     sample_wire li a (core_start, llm_start)"
    using li a
    by (simp add: suitable_def abs_orders_None sample_batch_def core_start_def llm_start_def storable_def deliverable_def
        sample_world_def calm_env_def varchar_ok_def int32_ok_def int64_ok_def incoming_def outcome_of_def
        fresh_ids_def empty_db_def decide_notify default_core_settings_def default_llm_settings_def
        destination_value.simps source_value_len sample_wire_def lit_def)
  with a(2) show ?thesis by blast
qed

theorem suitable_order_delivered_witness:
  "\<exists>c1 (c :: pg) text. core_on_parse default_core_settings sample_world (dump_parse_result sample_batch) core_start = (Inr (), c1) \<and>
     (core_notify_publisher default_core_settings, text) \<in> set (rt_out c) \<and>
     abs_orders (committed c) (profi_key (lit ''1'')) = Some (status_value NOTIFY_REQUESTED, Some 90)"
proof -
  obtain li a where s: "suitable default_core_settings default_llm_settings tiny_profile sample_world willing_llm sample_batch
     sample_wire li a (core_start, llm_start)" "as_suitability_score a = 90"
    using suitable_sample by blast
  have id: "wo_id sample_wire = lit ''1''" by (simp add: sample_wire_def)
  show ?thesis
    using suitable_order_delivered [OF wired_default reachable_start works_sample s(1), of exn_text, unfolded s(2) id]
    by blast
qed

lemma sample_run:
  obtains mid reply final li a
  where "pipe_run default_core_settings default_llm_settings tiny_profile {lw_ainvoke willing_llm} llm_start mid"
    and "pipe_run default_core_settings default_llm_settings tiny_profile {lw_ainvoke willing_llm} llm_start final"
    and "in_queue (result_queue default_llm_settings) (rt_out (snd mid)) reply"
    and "(core_notify_publisher default_core_settings,
      notification_payload (core_command (build_notification li a))) \<in> set (rt_out (fst final))"
    and "abs_orders (committed (fst final)) (profi_key (wo_id sample_wire)) =
      Some (status_value NOTIFY_REQUESTED, Some (as_suitability_score a))"
proof -
  obtain li a where s: "suitable default_core_settings default_llm_settings tiny_profile sample_world willing_llm sample_batch
     sample_wire li a (core_start, llm_start)"
    using suitable_sample by blast
  show ?thesis
    by (rule delivery [OF wired_default reachable_start works_sample s, of exn_text])
      (use that run_start [of "{lw_ainvoke willing_llm}"] in blast)
qed

theorem no_notify_unreachable_witness:
  "\<exists>(c :: pg). abs_orders (committed c) (profi_key (lit ''1'')) \<noteq> None \<and>
     (\<forall>k. status_at (abs_orders (committed c)) k \<noteq> Some NO_NOTIFY)"
proof -
  obtain p sc where run: "pipe_run default_core_settings default_llm_settings tiny_profile {lw_ainvoke willing_llm} llm_start p"
      "abs_orders (committed (fst p)) (profi_key (wo_id sample_wire)) = Some (status_value NOTIFY_REQUESTED, sc)"
    by (rule sample_run) (rule that)
  obtain c l where p: "p = (c, l)" by (cases p)
  have r: "reachable default_core_settings default_llm_settings tiny_profile (c, l)"
    using pipe_run_mono [OF run(1) subset_UNIV] unfolding reachable_def p by blast
  have "status_at (abs_orders (committed c)) k \<noteq> Some NO_NOTIFY" for k
    by (rule no_notify_unreachable [OF wired_default r]) (simp add: default_core_settings_def default_llm_settings_def)
  with run(2) show ?thesis unfolding p by (intro exI [of _ c]) (simp add: sample_wire_def)
qed

theorem verdicts_always_known_witness:
  "\<exists>(c :: pg) c' r li a. core_on_assess default_core_settings sample_world
       (dump_llm_result (from_result (build_result li a))) c = (r, c') \<and> rt_out c' = rt_out c \<and>
     abs_orders (committed c) (profi_key (ls_id li)) \<noteq> None"
proof -
  obtain c l j where run: "pipe_run default_core_settings default_llm_settings tiny_profile {lw_ainvoke willing_llm} llm_start (c, l)"
      "in_queue (result_queue default_llm_settings) (rt_out l) j"
    using sample_run by (metis prod.collapse)
  obtain r c' where h: "core_on_assess default_core_settings sample_world j c = (r, c')"
    by (cases "core_on_assess default_core_settings sample_world j c")
  have P: "pydantic_ok (cw_pydantic sample_world)" by (simp add: sample_world_def pydantic_ok_strict)
  from verdicts_always_known [OF wired_default run P h] h show ?thesis by blast
qed

theorem notifications_worth_sending_witness:
  "\<exists>(c :: pg) j n messages answer. (core_notify_publisher default_core_settings, j) \<in> set (rt_out c) \<and>
     lw_ainvoke willing_llm n messages = Inr answer \<and> 60 \<le> sch_suitability_score answer"
proof -
  obtain c l j where run: "pipe_run default_core_settings default_llm_settings tiny_profile {lw_ainvoke willing_llm} llm_start (c, l)"
      "(core_notify_publisher default_core_settings, j) \<in> set (rt_out c)"
    using sample_run by (metis prod.collapse)
  have "ls_suitability_threshold default_llm_settings = 60" by (simp add: default_llm_settings_def)
  from notifications_worth_sending [OF wired_default run, unfolded this] run(2) show ?thesis by blast
qed

end
