(* ===== verification/NotifyDomain.thy ===== *)
theory NotifyDomain
  imports Logging
begin

text \<open>
  notifications, the service that sends the texts to Telegram (TypeScript): the notification
  (src/domain/notification.ts), the decision on a message and the use case (src/application), the
  logger and the metrics (src/infrastructure/observability). Operations take the state they run in
  and return it; what a \<open>throw\<close> raises is the \<open>Inl\<close> of a result.
\<close>

section \<open>Strings of JavaScript\<close>

text \<open>
  \<open>length\<close> counts UTF-16 units, of which a code point above 0xFFFF takes two. \<open>trim()\<close> takes
  the code points of \<open>WhiteSpace\<close> and \<open>LineTerminator\<close> off both ends.
\<close>

definition js_length :: "ustr \<Rightarrow> nat" where
  "js_length t = (\<Sum>c \<leftarrow> t. if c < 0x10000 then 1 else 2)"

definition js_space :: "nat \<Rightarrow> bool" where
  "js_space c \<longleftrightarrow> c \<in> set [0x9, 0xA, 0xB, 0xC, 0xD, 0x20, 0xA0, 0x1680, 0x2000, 0x2001, 0x2002, 0x2003, 0x2004, 0x2005,
     0x2006, 0x2007, 0x2008, 0x2009, 0x200A, 0x2028, 0x2029, 0x202F, 0x205F, 0x3000, 0xFEFF]"

definition js_trim :: "ustr \<Rightarrow> ustr" where
  "js_trim t = rev (dropWhile js_space (rev (dropWhile js_space t)))"

lemma js_trim_empty: "js_trim t = [] \<longleftrightarrow> list_all js_space t"
proof -
  have "js_trim t = [] \<longleftrightarrow> (\<forall>c \<in> set (dropWhile js_space t). js_space c)"
    by (simp add: js_trim_def dropWhile_eq_Nil_conv)
  also have "\<dots> \<longleftrightarrow> list_all js_space t"
  proof
    assume drop: "\<forall>c \<in> set (dropWhile js_space t). js_space c"
    have "dropWhile js_space t = []"
      using drop hd_dropWhile [of js_space t] by (metis hd_in_set)
    then show "list_all js_space t" by (simp add: dropWhile_eq_Nil_conv list_all_iff)
  next
    assume "list_all js_space t"
    then show "\<forall>c \<in> set (dropWhile js_space t). js_space c" by (auto simp: list_all_iff dest: set_dropWhileD)
  qed
  finally show ?thesis .
qed

section \<open>The notification\<close>

datatype tg_mode = Tg_HTML | Tg_MarkdownV2 | Tg_Markdown

definition PARSE_MODES :: "(ustr \<times> tg_mode) list" where
  "PARSE_MODES = [(lit ''HTML'', Tg_HTML), (lit ''MarkdownV2'', Tg_MarkdownV2), (lit ''Markdown'', Tg_Markdown)]"

fun tg_mode_value :: "tg_mode \<Rightarrow> ustr" where
  "tg_mode_value Tg_HTML = lit ''HTML''"
| "tg_mode_value Tg_MarkdownV2 = lit ''MarkdownV2''"
| "tg_mode_value Tg_Markdown = lit ''Markdown''"

declare tg_mode_value.simps [simp del]

lemma parse_mode_table [simp]: "map_of PARSE_MODES (tg_mode_value m) = Some m"
  by (cases m) (simp_all add: PARSE_MODES_def tg_mode_value.simps)

text \<open>
  \<open>NotificationCommand\<close> and \<open>Notification\<close> have the same fields; a \<open>Notification\<close> is one that
  \<open>createNotification\<close> returned.
\<close>

record tg_note =
  tn_text :: ustr
  tn_parse_mode :: "tg_mode option"
  tn_disable_notification :: "bool option"
  tn_disable_preview :: "bool option"
  tn_thread :: "int option"

definition max_text_length :: nat where "max_text_length = 4096"

text \<open>
  The errors of domain/notification.ts, application/errors.ts and config.ts, any other \<open>Error\<close> with its
  message, and a thrown value that is none, with what \<open>String(err)\<close> makes of it.
\<close>

datatype js_error =
    NotificationValidationError ustr
  | TransientDeliveryError ustr "json option"
  | PermanentDeliveryError ustr
  | ConfigError ustr
  | JsError ustr
  | NotAnError ustr

fun error_message :: "js_error \<Rightarrow> ustr" where
  "error_message (NotificationValidationError m) = m"
| "error_message (TransientDeliveryError m ms) = m"
| "error_message (PermanentDeliveryError m) = m"
| "error_message (ConfigError m) = m"
| "error_message (JsError m) = m"
| "error_message (NotAnError m) = m"

definition createNotification :: "tg_note \<Rightarrow> js_error + tg_note" where
  "createNotification command =
     (if js_length (js_trim (tn_text command)) = 0
      then Inl (NotificationValidationError (lit ''text must be a non-empty string''))
      else if js_length (tn_text command) > max_text_length
      then Inl (NotificationValidationError (lit ''text length '' @ show_nat (js_length (tn_text command)) @
        lit '' exceeds the maximum of '' @ show_nat max_text_length))
      else if (case tn_thread command of None \<Rightarrow> False | Some i \<Rightarrow> i \<le> 0)
      then Inl (NotificationValidationError (lit ''messageThreadId must be a positive integer''))
      else Inr command)"

text \<open>The invariant of the domain that a \<open>Notification\<close> stands for.\<close>

definition sendable :: "tg_note \<Rightarrow> bool" where
  "sendable n \<longleftrightarrow> \<not> list_all js_space (tn_text n) \<and> js_length (tn_text n) \<le> 4096 \<and>
     (case tn_thread n of None \<Rightarrow> True | Some i \<Rightarrow> 0 < i)"

lemma js_length_0 [simp]: "js_length t = 0 \<longleftrightarrow> t = []"
  by (cases t) (auto simp: js_length_def)

lemma createNotification_Inr: "createNotification c = Inr n \<longleftrightarrow> n = c \<and> sendable c"
  by (auto simp: createNotification_def sendable_def js_trim_empty max_text_length_def split: option.split)

lemma createNotification_Inl:
  "createNotification c = Inl e \<Longrightarrow> \<not> sendable c \<and> (\<exists>m. e = NotificationValidationError m)"
  by (auto simp: createNotification_def sendable_def js_trim_empty max_text_length_def split: option.splits if_splits)

section \<open>Decisions\<close>

datatype dead_category = Invalid_payload | Validation | Permanent | Exhausted | Unexpected

fun category_value :: "dead_category \<Rightarrow> ustr" where
  "category_value Invalid_payload = lit ''invalid-payload''"
| "category_value Validation = lit ''validation''"
| "category_value Permanent = lit ''permanent''"
| "category_value Exhausted = lit ''exhausted''"
| "category_value Unexpected = lit ''unexpected''"

declare category_value.simps [simp del]

datatype delivery_decision = Ack_decision | Retry_decision | Dead_letter_decision dead_category ustr

section \<open>Logger\<close>

datatype tg_level = Debug_l | Info_l | Warn_l | Error_l

fun level_weight :: "tg_level \<Rightarrow> nat" where
  "level_weight Debug_l = 10"
| "level_weight Info_l = 20"
| "level_weight Warn_l = 30"
| "level_weight Error_l = 40"

fun tg_level_value :: "tg_level \<Rightarrow> ustr" where
  "tg_level_value Debug_l = lit ''debug''"
| "tg_level_value Info_l = lit ''info''"
| "tg_level_value Warn_l = lit ''warn''"
| "tg_level_value Error_l = lit ''error''"

type_synonym tg_entry = "tg_level \<times> ustr \<times> fields"

text \<open>The object display \<open>{ level, time, service, message, ...fields }\<close> lets a field replace one before it.\<close>

definition create_logger :: "tg_level \<Rightarrow> ustr \<Rightarrow> (unit \<Rightarrow> ustr) \<Rightarrow> tg_entry \<Rightarrow> (stream \<times> fields) option" where
  "create_logger threshold service now e =
     (let (level, message, fs) = e in
      if level_weight level < level_weight threshold then None
      else Some (if level = Error_l \<or> level = Warn_l then Stderr else Stdout,
        dict_merge [(lit ''level'', JStr (tg_level_value level)), (lit ''time'', JStr (now ())),
          (lit ''service'', JStr service), (lit ''message'', JStr message)] fs))"

section \<open>Metrics\<close>

text \<open>A JavaScript \<open>Map\<close> keeps the order in which its keys were first set.\<close>

record tg_metrics =
  mt_received :: nat
  mt_delivered :: nat
  mt_retried :: nat
  mt_dead_lettered :: "(ustr \<times> nat) list"

fun map_bump :: "ustr \<Rightarrow> (ustr \<times> nat) list \<Rightarrow> (ustr \<times> nat) list" where
  "map_bump k [] = [(k, 1)]"
| "map_bump k ((k', n) # m) = (if k' = k then (k', n + 1) # m else (k', n) # map_bump k m)"

definition recordReceived :: "tg_metrics \<Rightarrow> tg_metrics" where
  "recordReceived m = m\<lparr>mt_received := mt_received m + 1\<rparr>"

definition recordDelivered :: "tg_metrics \<Rightarrow> tg_metrics" where
  "recordDelivered m = m\<lparr>mt_delivered := mt_delivered m + 1\<rparr>"

definition recordRetried :: "tg_metrics \<Rightarrow> tg_metrics" where
  "recordRetried m = m\<lparr>mt_retried := mt_retried m + 1\<rparr>"

definition recordDeadLettered :: "ustr \<Rightarrow> tg_metrics \<Rightarrow> tg_metrics" where
  "recordDeadLettered category m = m\<lparr>mt_dead_lettered := map_bump category (mt_dead_lettered m)\<rparr>"

definition dead_total :: "tg_metrics \<Rightarrow> nat" where
  "dead_total m = (\<Sum>(k, n) \<leftarrow> mt_dead_lettered m. n)"

lemma dead_total_bump [simp]: "dead_total (recordDeadLettered k m) = Suc (dead_total m)"
proof -
  have "(\<Sum>(k, n) \<leftarrow> map_bump k xs. n) = Suc (\<Sum>(k, n) \<leftarrow> xs. n)" for xs
    by (induction k xs rule: map_bump.induct) auto
  then show ?thesis by (simp add: dead_total_def recordDeadLettered_def)
qed

lemma record_simps [simp]:
  "mt_received (recordReceived m) = Suc (mt_received m)" "mt_delivered (recordReceived m) = mt_delivered m"
  "mt_retried (recordReceived m) = mt_retried m" "dead_total (recordReceived m) = dead_total m"
  "mt_received (recordDelivered m) = mt_received m" "mt_delivered (recordDelivered m) = Suc (mt_delivered m)"
  "mt_retried (recordDelivered m) = mt_retried m" "dead_total (recordDelivered m) = dead_total m"
  "mt_received (recordRetried m) = mt_received m" "mt_delivered (recordRetried m) = mt_delivered m"
  "mt_retried (recordRetried m) = Suc (mt_retried m)" "dead_total (recordRetried m) = dead_total m"
  "mt_received (recordDeadLettered k m) = mt_received m" "mt_delivered (recordDeadLettered k m) = mt_delivered m"
  "mt_retried (recordDeadLettered k m) = mt_retried m"
  by (simp_all add: recordReceived_def recordDelivered_def recordRetried_def recordDeadLettered_def dead_total_def)

lemma map_of_bump: "map_of (map_bump k m) = (map_of m)(k \<mapsto> (case map_of m k of None \<Rightarrow> 1 | Some n \<Rightarrow> n + 1))"
  by (induction k m rule: map_bump.induct) (auto simp: fun_eq_iff split: option.splits)

lemma distinct_bump: "distinct (map fst m) \<Longrightarrow> distinct (map fst (map_bump k m))"
proof -
  have "fst ` set (map_bump k m) = insert k (fst ` set m)" for m
    by (induction k m rule: map_bump.induct) auto
  then show "distinct (map fst m) \<Longrightarrow> ?thesis"
    by (induction k m rule: map_bump.induct) auto
qed

text \<open>
  \<open>render()\<close> and its helpers \<open>pushCounter\<close>, \<open>formatLabels\<close>, \<open>escapeLabelValue\<close>. The only label
  is \<open>category\<close>.
\<close>

definition escape_label :: "ustr \<Rightarrow> ustr" where
  "escape_label v = replace_cp 10 [92, 110] (replace_cp 34 [92, 34] (replace_cp 92 [92, 92] v))"

definition format_labels :: "(ustr \<times> ustr) list \<Rightarrow> ustr" where
  "format_labels ls = (if ls = [] then []
     else lit ''{'' @ py_join (lit '','') (map (\<lambda>(k, v). k @ lit ''='' @ [34] @ escape_label v @ [34]) ls) @ lit ''}'')"

definition push_counter :: "string \<Rightarrow> string \<Rightarrow> ((ustr \<times> ustr) list \<times> nat) list \<Rightarrow> ustr list" where
  "push_counter name help samples = [lit ''# HELP '' @ lit name @ lit '' '' @ lit help, lit ''# TYPE '' @ lit name @ lit '' counter''] @
     map (\<lambda>(ls, v). lit name @ format_labels ls @ lit '' '' @ show_nat v) samples"

definition render_metrics :: "tg_metrics \<Rightarrow> ustr" where
  "render_metrics m = py_join [10] (
     push_counter ''notifications_received_total'' ''Messages received from the broker.'' [([], mt_received m)] @
     push_counter ''notifications_delivered_total'' ''Messages successfully delivered to Telegram.'' [([], mt_delivered m)] @
     push_counter ''notifications_retried_total'' ''Messages routed to the retry queue.'' [([], mt_retried m)] @
     push_counter ''notifications_dead_lettered_total'' ''Messages routed to the dead-letter queue, by reason.''
       (map (\<lambda>(category, v). ([(lit ''category'', category)], v)) (mt_dead_lettered m))) @ [10]"

end
