(* ===== verification/NotifyService.thy ===== *)
theory NotifyService
  imports NotifyDomain Runtime
begin

text \<open>
  notifications: the use case (src/application/send-notification.ts) over the port
  \<open>NotificationSender\<close>, the Telegram adapter (src/infrastructure/telegram/telegram-sender.ts), and
  the way of a message through src/infrastructure/messaging: message-schema.ts, retry.ts,
  consumer.ts. What \<open>fetch\<close> brings back, what the confirmed publication to the dead letter exchange
  does, and zod, are parameters.
\<close>

section \<open>State and world\<close>

text \<open>
  The client hands a body over decoded when its content type is JSON, as a string when it is text,
  and as bytes otherwise. A string is \<open>Document (JStr s)\<close>.
\<close>

datatype amqp_body = Document json | Bytes "8 word list"

record tg_state =
  tg_log :: "tg_entry list"
  tg_counts :: tg_metrics
  tg_posts :: "(ustr \<times> json) list"
  tg_dead :: "(ustr \<times> ustr \<times> fields \<times> amqp_body) list"
  n_dead :: nat

datatype fetch_result = Fetch_failed ustr | Fetched int "json option"

text \<open>
  The schema primitives the code names: \<open>z.string()\<close>, \<open>z.boolean()\<close>, \<open>z.number().int().positive()\<close>;
  \<open>zod_issues\<close> is the text of the issues of a rejected value. zod accepts a value of the plain type
  as it is (an integer up to the largest safe one) and no integer that is not positive.
\<close>

record zod =
  zod_string :: "json \<Rightarrow> ustr option"
  zod_boolean :: "json \<Rightarrow> bool option"
  zod_posint :: "json \<Rightarrow> int option"
  zod_issues :: "json \<Rightarrow> ustr"

definition zod_ok :: "zod \<Rightarrow> bool" where
  "zod_ok Z \<longleftrightarrow> (\<forall>j s. zod_string Z j = Some s \<longleftrightarrow> j = JStr s) \<and> (\<forall>j b. zod_boolean Z j = Some b \<longleftrightarrow> j = JBool b) \<and>
     (\<forall>i. 0 < i \<and> i < 2 ^ 53 \<longrightarrow> zod_posint Z (JInt i) = Some i) \<and> (\<forall>j i. zod_posint Z j = Some i \<longrightarrow> 0 < i)"

text \<open>
  \<open>tw_fetch n url body\<close> is what the n-th request brings back, the body of the answer as
  \<open>response.json()\<close> reads it (\<open>None\<close> when it rejects). \<open>tw_confirm n\<close> is the error of the n-th
  publication, if it has one, and whether the message got through all the same. \<open>tw_decode\<close> is
  \<open>Buffer.toString('utf8')\<close>, \<open>tw_parse\<close> is \<open>JSON.parse\<close>; \<open>tw_string\<close>, \<open>tw_number\<close> and
  \<open>tw_times\<close> are \<open>String(v)\<close>, the floor of \<open>Number(v)\<close> where that is finite, and \<open>v * 1000\<close>, on the
  values for which they are not written out here.
\<close>

record tg_world =
  tw_fetch :: "nat \<Rightarrow> ustr \<Rightarrow> json \<Rightarrow> fetch_result"
  tw_confirm :: "nat \<Rightarrow> (js_error \<times> bool) option"
  tw_zod :: zod
  tw_decode :: "8 word list \<Rightarrow> ustr"
  tw_parse :: "ustr \<Rightarrow> json option"
  tw_string :: "json \<Rightarrow> ustr"
  tw_number :: "json \<Rightarrow> int option"
  tw_times :: "json \<Rightarrow> json"

definition tg_say :: "tg_level \<Rightarrow> string \<Rightarrow> fields \<Rightarrow> tg_state \<Rightarrow> tg_state" where
  "tg_say l message fs s = s\<lparr>tg_log := tg_log s @ [(l, lit message, fs)]\<rparr>"

definition tg_count :: "(tg_metrics \<Rightarrow> tg_metrics) \<Rightarrow> tg_state \<Rightarrow> tg_state" where
  "tg_count f s = s\<lparr>tg_counts := f (tg_counts s)\<rparr>"

section \<open>The Telegram adapter\<close>

record telegram_options =
  to_bot_token :: ustr
  to_chat_id :: ustr
  to_base_url :: "ustr option"
  to_timeout_ms :: "int option"
  to_thread :: "int option"

record telegram_sender =
  ts_endpoint :: ustr
  ts_chat_id :: ustr
  ts_timeout_ms :: int
  ts_thread :: "int option"

text \<open>\<open>.replace(/\/+$/, '')\<close>\<close>

definition strip_slashes :: "ustr \<Rightarrow> ustr" where
  "strip_slashes u = rev (dropWhile (\<lambda>c. c = 47) (rev u))"

definition TelegramNotificationSender :: "telegram_options \<Rightarrow> telegram_sender" where
  "TelegramNotificationSender opts =
     (let base = strip_slashes (case to_base_url opts of Some u \<Rightarrow> u | None \<Rightarrow> lit ''https://api.telegram.org'') in
      \<lparr>ts_endpoint = base @ lit ''/bot'' @ to_bot_token opts @ lit ''/sendMessage'', ts_chat_id = to_chat_id opts,
       ts_timeout_ms = (case to_timeout_ms opts of Some ms \<Rightarrow> ms | None \<Rightarrow> 10000), ts_thread = to_thread opts\<rparr>)"

definition opt_field :: "string \<Rightarrow> ('a \<Rightarrow> json) \<Rightarrow> 'a option \<Rightarrow> fields" where
  "opt_field k f v = (case v of None \<Rightarrow> [] | Some x \<Rightarrow> [(lit k, f x)])"

definition buildPayload :: "telegram_sender \<Rightarrow> tg_note \<Rightarrow> json" where
  "buildPayload T n = JObj ([(lit ''chat_id'', JStr (ts_chat_id T)), (lit ''text'', JStr (tn_text n))] @
     opt_field ''message_thread_id'' JInt (case tn_thread n of Some i \<Rightarrow> Some i | None \<Rightarrow> ts_thread T) @
     opt_field ''parse_mode'' (\<lambda>m. JStr (tg_mode_value m)) (tn_parse_mode n) @
     opt_field ''disable_notification'' JBool (tn_disable_notification n) @
     opt_field ''link_preview_options'' (\<lambda>b. JObj [(lit ''is_disabled'', JBool b)]) (tn_disable_preview n))"

text \<open>
  \<open>v?.k\<close>, where \<open>None\<close> is \<open>undefined\<close>: neither \<open>null\<close> nor \<open>undefined\<close> nor a value that is no
  object has any of the members the code asks for.
\<close>

definition member :: "string \<Rightarrow> json option \<Rightarrow> json option" where
  "member k v = (case v of Some (JObj fs) \<Rightarrow> map_of fs (lit k) | _ \<Rightarrow> None)"

definition js_text :: "tg_world \<Rightarrow> json \<Rightarrow> ustr" where
  "js_text W v = (case v of JStr s \<Rightarrow> s | JInt i \<Rightarrow> show_int i | _ \<Rightarrow> tw_string W v)"

definition js_thousand :: "tg_world \<Rightarrow> json \<Rightarrow> json" where
  "js_thousand W v = (case v of JInt i \<Rightarrow> JInt (i * 1000) | _ \<Rightarrow> tw_times W v)"

definition classifyFailure :: "tg_world \<Rightarrow> int \<Rightarrow> json option \<Rightarrow> js_error" where
  "classifyFailure W status body =
     (let description = (case member ''description'' body of
            None \<Rightarrow> lit ''HTTP '' @ show_int status | Some JNull \<Rightarrow> lit ''HTTP '' @ show_int status | Some d \<Rightarrow> js_text W d);
          retryAfterSec = member ''retry_after'' (member ''parameters'' body) in
      if status = 429 then TransientDeliveryError (lit ''telegram rate limited: '' @ description)
        (map_option (js_thousand W) retryAfterSec)
      else if status \<ge> 500 then TransientDeliveryError
        (lit ''telegram server error '' @ show_int status @ lit '': '' @ description) None
      else if status \<ge> 400 then PermanentDeliveryError
        (lit ''telegram rejected message '' @ show_int status @ lit '': '' @ description)
      else TransientDeliveryError (lit ''unexpected telegram response '' @ show_int status @ lit '': '' @ description) None)"

definition tg_send :: "tg_world \<Rightarrow> telegram_sender \<Rightarrow> tg_note \<Rightarrow> tg_state \<Rightarrow> (js_error + unit) \<times> tg_state" where
  "tg_send W T n s =
     (let body = buildPayload T n; t = s\<lparr>tg_posts := tg_posts s @ [(ts_endpoint T, body)]\<rparr> in
      case tw_fetch W (length (tg_posts s)) (ts_endpoint T) body of
        Fetch_failed m \<Rightarrow> (Inl (TransientDeliveryError (lit ''telegram request failed: '' @ m) None), t)
      | Fetched status answer \<Rightarrow>
          if 200 \<le> status \<and> status \<le> 299 \<and> member ''ok'' answer \<noteq> Some (JBool False) then (Inr (), t)
          else (Inl (classifyFailure W status answer), t))"

section \<open>The use case\<close>

type_synonym tg_sender = "tg_note \<Rightarrow> tg_state \<Rightarrow> (js_error + unit) \<times> tg_state"

definition onSendError :: "int \<Rightarrow> js_error \<Rightarrow> int \<Rightarrow> tg_state \<Rightarrow> delivery_decision \<times> tg_state" where
  "onSendError maxAttempts err attempt s =
     (let attemptsMade = attempt + 1; exhausted = attemptsMade \<ge> maxAttempts in
      case err of
        PermanentDeliveryError m \<Rightarrow>
          (Dead_letter_decision Permanent m,
           tg_say Error_l ''notification permanently rejected by transport'' [(lit ''reason'', JStr m)] s)
      | TransientDeliveryError m retryAfterMs \<Rightarrow>
          if exhausted
          then (Dead_letter_decision Exhausted
                 (lit ''retries exhausted after '' @ show_int attemptsMade @ lit '' attempt(s): '' @ m),
                tg_say Error_l ''notification failed: retries exhausted''
                  [(lit ''attempts'', JInt attemptsMade), (lit ''reason'', JStr m)] s)
          else (Retry_decision, tg_say Warn_l ''notification transiently failed; will retry''
                  [(lit ''attempt'', JInt attemptsMade), (lit ''reason'', JStr m)] s)
      | _ \<Rightarrow>
          if exhausted
          then (Dead_letter_decision Unexpected (lit ''unexpected error, retries exhausted: '' @ error_message err),
                tg_say Error_l ''notification failed with unexpected error: retries exhausted''
                  [(lit ''attempts'', JInt attemptsMade), (lit ''reason'', JStr (error_message err))] s)
          else (Retry_decision, tg_say Error_l ''notification failed with unexpected error; will retry''
                  [(lit ''attempt'', JInt attemptsMade), (lit ''reason'', JStr (error_message err))] s))"

text \<open>
  \<open>execute\<close> rethrows what \<open>createNotification\<close> throws unless it is a validation error.
\<close>

definition tg_execute :: "tg_sender \<Rightarrow> int \<Rightarrow> tg_note \<Rightarrow> int \<Rightarrow> tg_state \<Rightarrow> (js_error + delivery_decision) \<times> tg_state" where
  "tg_execute send maxAttempts command attempt s =
     (case createNotification command of
        Inl (NotificationValidationError m) \<Rightarrow> (Inr (Dead_letter_decision Validation m),
          tg_say Warn_l ''notification rejected: failed domain validation'' [(lit ''reason'', JStr m)] s)
      | Inl e \<Rightarrow> (Inl e, s)
      | Inr notification \<Rightarrow>
          (case send notification s of
             (Inr _, t) \<Rightarrow> (Inr Ack_decision, tg_say Debug_l ''notification delivered'' [] t)
           | (Inl e, t) \<Rightarrow> map_prod Inr id (onSendError maxAttempts e attempt t)))"

end
