(* ===== verification/NotifyMessaging.thy ===== *)
theory NotifyMessaging
  imports NotifyService
begin

text \<open>
  notifications, src/infrastructure/messaging: what a message body is read as (message-schema.ts),
  the number of earlier attempts (retry.ts), the handler and the dead letter publisher
  (consumer.ts), and the exchanges and queues (topology.ts).
\<close>

section \<open>The body\<close>

definition parseJsonObject :: "tg_world \<Rightarrow> ustr \<Rightarrow> json option" where
  "parseJsonObject W text = (case tw_parse W text of
     Some (JObj fs) \<Rightarrow> Some (JObj fs) | Some (JList js) \<Rightarrow> Some (JList js) | _ \<Rightarrow> None)"

definition coerceToObject :: "tg_world \<Rightarrow> amqp_body \<Rightarrow> json option" where
  "coerceToObject W raw = (case raw of
     Bytes bs \<Rightarrow> parseJsonObject W (tw_decode W bs)
   | Document (JStr s) \<Rightarrow> parseJsonObject W s
   | Document (JObj fs) \<Rightarrow> Some (JObj fs)
   | Document (JList js) \<Rightarrow> Some (JList js)
   | _ \<Rightarrow> None)"

text \<open>\<open>.optional()\<close>: the key may be absent, but \<open>null\<close> is not accepted.\<close>

definition optional_field :: "(json \<Rightarrow> 'a option) \<Rightarrow> string \<Rightarrow> fields \<Rightarrow> 'a option option" where
  "optional_field v k fs = (case map_of fs (lit k) of None \<Rightarrow> Some None | Some j \<Rightarrow> map_option Some (v j))"

definition read_tg_mode :: "json \<Rightarrow> tg_mode option" where
  "read_tg_mode j = (case j of JStr s \<Rightarrow> map_of PARSE_MODES s | _ \<Rightarrow> None)"

definition notificationMessageSchema :: "zod \<Rightarrow> json \<Rightarrow> tg_note option" where
  "notificationMessageSchema Z j = (case j of
     JObj fs \<Rightarrow> bind_o (required (zod_string Z) ''text'' fs) (\<lambda>t.
       bind_o (optional_field read_tg_mode ''parseMode'' fs) (\<lambda>m.
       bind_o (optional_field (zod_boolean Z) ''disableNotification'' fs) (\<lambda>dn.
       bind_o (optional_field (zod_boolean Z) ''disableWebPagePreview'' fs) (\<lambda>dw.
       bind_o (optional_field (zod_posint Z) ''messageThreadId'' fs) (\<lambda>ti.
       Some \<lparr>tn_text = t, tn_parse_mode = m, tn_disable_notification = dn, tn_disable_preview = dw, tn_thread = ti\<rparr>)))))
   | _ \<Rightarrow> None)"

definition parseNotificationMessage :: "tg_world \<Rightarrow> amqp_body \<Rightarrow> ustr + tg_note" where
  "parseNotificationMessage W raw = (case coerceToObject W raw of
     None \<Rightarrow> Inl (lit ''message body is not a JSON object'')
   | Some candidate \<Rightarrow> (case notificationMessageSchema (tw_zod W) candidate of
       None \<Rightarrow> Inl (zod_issues (tw_zod W) candidate)
     | Some command \<Rightarrow> Inr command))"

section \<open>Earlier attempts\<close>

text \<open>
  The floor of a double: sign, exponent and fraction of its 64 bits; \<open>None\<close> for NaN and the
  infinities.
\<close>

definition float_floor :: "float64 \<Rightarrow> int option" where
  "float_floor f =
     (let ex = unat (take_bit 11 (drop_bit 52 f)); frac = uint (take_bit 52 f);
          m = (if ex = 0 then frac else frac + 2 ^ 52); e = (if ex = 0 then - 1074 else int ex - 1075);
          v = (if bit f 63 then - m else m) in
      if ex = 2047 then None
      else Some (if 0 \<le> e then v * 2 ^ nat e else v div 2 ^ nat (- e)))"

text \<open>
  \<open>Number(v)\<close> if finite, rounded down. \<open>Number(undefined)\<close> is NaN, \<open>Number(null)\<close> is 0.
\<close>

definition number_floor :: "tg_world \<Rightarrow> json option \<Rightarrow> int option" where
  "number_floor W v = (case v of
     None \<Rightarrow> None
   | Some JNull \<Rightarrow> Some 0
   | Some (JBool b) \<Rightarrow> Some (if b then 1 else 0)
   | Some (JInt i) \<Rightarrow> Some i
   | Some (JFloat f) \<Rightarrow> float_floor f
   | Some j \<Rightarrow> tw_number W j)"

text \<open>
  The first entry of the main queue with the reason \<open>rejected\<close> decides. A count between 0 and 1 is
  positive, and its floor is 0, the value for a count that is not positive.
\<close>

fun count_rejected :: "tg_world \<Rightarrow> ustr \<Rightarrow> json list \<Rightarrow> int" where
  "count_rejected W q [] = 0"
| "count_rejected W q (e # es) =
     (if member ''queue'' (Some e) = Some (JStr q) \<and> member ''reason'' (Some e) = Some (JStr (lit ''rejected''))
      then (case number_floor W (member ''count'' (Some e)) of Some n \<Rightarrow> if n > 0 then n else 0 | None \<Rightarrow> 0)
      else count_rejected W q es)"

definition getAttemptCount :: "tg_world \<Rightarrow> fields option \<Rightarrow> ustr \<Rightarrow> int" where
  "getAttemptCount W headers mainQueue = (case headers of
     None \<Rightarrow> 0
   | Some hs \<Rightarrow> (case map_of hs (lit ''x-death'') of Some (JList es) \<Rightarrow> count_rejected W mainQueue es | _ \<Rightarrow> 0))"

lemma count_rejected_nonneg: "0 \<le> count_rejected W q es"
  by (induction es) (auto split: option.split)

lemma getAttemptCount_nonneg: "0 \<le> getAttemptCount W hs q"
  by (auto simp: getAttemptCount_def count_rejected_nonneg split: option.split json.split)

section \<open>Topology\<close>

record topology_config =
  tc_exchange :: ustr
  tc_queue :: ustr
  tc_routing_key :: ustr
  tc_retry_exchange :: ustr
  tc_retry_queue :: ustr
  tc_dlx :: ustr
  tc_dlq :: ustr
  tc_retry_delay_ms :: int

datatype amqp_op =
    Exchange_declare rabbit_exchange
  | Queue_declare rabbit_queue
  | Queue_bind ustr ustr ustr

definition direct_exchange :: "ustr \<Rightarrow> amqp_op" where
  "direct_exchange x = Exchange_declare \<lparr>rx_name = x, rx_type = DIRECT, rx_durable = True\<rparr>"

definition main_queue :: "topology_config \<Rightarrow> rabbit_queue" where
  "main_queue c = \<lparr>rq_name = tc_queue c, rq_durable = True, rq_arguments = [
     (lit ''x-dead-letter-exchange'', JStr (tc_retry_exchange c)),
     (lit ''x-dead-letter-routing-key'', JStr (tc_routing_key c))]\<rparr>"

definition tg_retry_queue :: "topology_config \<Rightarrow> rabbit_queue" where
  "tg_retry_queue c = \<lparr>rq_name = tc_retry_queue c, rq_durable = True, rq_arguments = [
     (lit ''x-message-ttl'', JInt (tc_retry_delay_ms c)),
     (lit ''x-dead-letter-exchange'', JStr (tc_exchange c)),
     (lit ''x-dead-letter-routing-key'', JStr (tc_routing_key c))]\<rparr>"

definition declareTopology :: "topology_config \<Rightarrow> amqp_op list" where
  "declareTopology c = [
     direct_exchange (tc_exchange c), direct_exchange (tc_retry_exchange c), direct_exchange (tc_dlx c),
     Queue_declare (main_queue c), Queue_bind (tc_queue c) (tc_exchange c) (tc_routing_key c),
     Queue_declare (tg_retry_queue c), Queue_bind (tc_retry_queue c) (tc_retry_exchange c) (tc_routing_key c),
     Queue_declare (durable_queue (tc_dlq c)), Queue_bind (tc_dlq c) (tc_dlx c) (tc_routing_key c)]"

section \<open>The handler\<close>

datatype consumer_status = ACK | REQUEUE | DROP

record amqp_message =
  am_headers :: "fields option"
  am_body :: amqp_body

definition dead_letter_publish :: "tg_world \<Rightarrow> topology_config \<Rightarrow> ustr \<Rightarrow> amqp_body \<Rightarrow> fields \<Rightarrow> ustr \<Rightarrow> ustr \<Rightarrow>
    tg_state \<Rightarrow> (js_error + unit) \<times> tg_state" where
  "dead_letter_publish W c routingKey body headers reason category s =
     (let message = (tc_dlx c, routingKey, dict_merge headers [(lit ''x-dead-letter-reason'', JStr reason),
            (lit ''x-dead-letter-category'', JStr category)], body);
          s' = s\<lparr>n_dead := Suc (n_dead s)\<rparr>; sent = s'\<lparr>tg_dead := tg_dead s @ [message]\<rparr> in
      case tw_confirm W (n_dead s) of
        None \<Rightarrow> (Inr (), sent)
      | Some (e, through) \<Rightarrow> (Inl e, if through then sent else s'))"

definition applyDecision :: "tg_world \<Rightarrow> topology_config \<Rightarrow> amqp_message \<Rightarrow> delivery_decision \<Rightarrow> tg_state \<Rightarrow>
    (js_error + consumer_status) \<times> tg_state" where
  "applyDecision W c msg d s = (case d of
     Ack_decision \<Rightarrow> (Inr ACK, tg_count recordDelivered s)
   | Retry_decision \<Rightarrow> (Inr DROP, tg_count recordRetried s)
   | Dead_letter_decision category reason \<Rightarrow>
       (case dead_letter_publish W c (tc_routing_key c) (am_body msg)
           (case am_headers msg of Some hs \<Rightarrow> hs | None \<Rightarrow> []) reason (category_value category) s of
          (Inl e, t) \<Rightarrow> (Inl e, t)
        | (Inr _, t) \<Rightarrow> (Inr ACK, tg_say Warn_l ''message routed to the dead-letter queue''
            [(lit ''category'', JStr (category_value category)), (lit ''reason'', JStr reason)]
            (tg_count (recordDeadLettered (category_value category)) t))))"

text \<open>What the \<open>try\<close> block decides, or throws.\<close>

definition tg_decide :: "tg_world \<Rightarrow> tg_sender \<Rightarrow> int \<Rightarrow> amqp_message \<Rightarrow> int \<Rightarrow> tg_state \<Rightarrow>
    (js_error + delivery_decision) \<times> tg_state" where
  "tg_decide W send maxAttempts msg attempt s = (case parseNotificationMessage W (am_body msg) of
     Inl reason \<Rightarrow> (Inr (Dead_letter_decision Invalid_payload reason), s)
   | Inr command \<Rightarrow> tg_execute send maxAttempts command attempt s)"

definition tg_handle :: "tg_world \<Rightarrow> tg_sender \<Rightarrow> topology_config \<Rightarrow> int \<Rightarrow> amqp_message \<Rightarrow> tg_state \<Rightarrow>
    (js_error + consumer_status) \<times> tg_state" where
  "tg_handle W send c maxAttempts msg s =
     (let attempt = getAttemptCount W (am_headers msg) (tc_queue c) in
      case tg_decide W send maxAttempts msg attempt (tg_count recordReceived s) of
        (Inr d, t) \<Rightarrow> applyDecision W c msg d t
      | (Inl e, t) \<Rightarrow> applyDecision W c msg
          (if attempt + 1 \<ge> maxAttempts
           then Dead_letter_decision Unexpected (lit ''unhandled error: '' @ error_message e) else Retry_decision)
          (tg_say Error_l ''unhandled error while processing message'' [(lit ''reason'', JStr (error_message e))] t))"

end
