(* ===== verification/NotifyTheorems.thy ===== *)
theory NotifyTheorems
  imports NotifyMessaging
begin

text \<open>
  notifications: what a \<open>NotificationSender\<close> promises, as a locale; the handler verified once against
  that, on every branch; and the Telegram adapter, which keeps the promise.
\<close>

section \<open>Facts about the state\<close>

lemma tg_say_simps [simp]: "tg_posts (tg_say l m fs s) = tg_posts s" "tg_dead (tg_say l m fs s) = tg_dead s"
  "n_dead (tg_say l m fs s) = n_dead s" "tg_counts (tg_say l m fs s) = tg_counts s"
  by (simp_all add: tg_say_def)

lemma tg_count_simps [simp]: "tg_posts (tg_count f s) = tg_posts s" "tg_dead (tg_count f s) = tg_dead s"
  "n_dead (tg_count f s) = n_dead s" "tg_counts (tg_count f s) = f (tg_counts s)" "tg_log (tg_count f s) = tg_log s"
  by (simp_all add: tg_count_def)

text \<open>The message handed to the dead letter exchange.\<close>

definition dead_message :: "topology_config \<Rightarrow> amqp_message \<Rightarrow> dead_category \<Rightarrow> ustr \<Rightarrow> ustr \<times> ustr \<times> fields \<times> amqp_body" where
  "dead_message c msg category reason = (tc_dlx c, tc_routing_key c,
     dict_merge (case am_headers msg of Some hs \<Rightarrow> hs | None \<Rightarrow> [])
       [(lit ''x-dead-letter-reason'', JStr reason), (lit ''x-dead-letter-category'', JStr (category_value category))],
     am_body msg)"

lemma apply_dead_letter:
  assumes "applyDecision W c msg (Dead_letter_decision category reason) s = (r, t)"
  obtains (confirmed) "tw_confirm W (n_dead s) = None" and "r = Inr ACK" and "tg_posts t = tg_posts s"
      and "tg_dead t = tg_dead s @ [dead_message c msg category reason]" and "n_dead t = Suc (n_dead s)"
      and "tg_counts t = recordDeadLettered (category_value category) (tg_counts s)"
    | (failed) e through where "tw_confirm W (n_dead s) = Some (e, through)" and "r = Inl e" and "tg_posts t = tg_posts s"
      and "tg_dead t = tg_dead s @ (if through then [dead_message c msg category reason] else [])"
      and "n_dead t = Suc (n_dead s)" and "tg_counts t = tg_counts s"
  using assms
  by (cases "tw_confirm W (n_dead s)")
    (auto simp: applyDecision_def dead_letter_publish_def dead_message_def Let_def split: if_splits)

lemma apply_others:
  "applyDecision W c msg Ack_decision s = (Inr ACK, tg_count recordDelivered s)"
  "applyDecision W c msg Retry_decision s = (Inr DROP, tg_count recordRetried s)"
  by (simp_all add: applyDecision_def)

section \<open>The port\<close>

text \<open>
  \<open>send\<close> throws one of the two delivery errors and nothing else, as ports.ts demands; it touches no
  dead letters. \<open>accepted n ps qs\<close>: between the requests \<open>ps\<close> and \<open>qs\<close> the channel accepted \<open>n\<close>.
\<close>

locale notification_sender =
  fixes send :: tg_sender
    and accepted :: "tg_note \<Rightarrow> (ustr \<times> json) list \<Rightarrow> (ustr \<times> json) list \<Rightarrow> bool"
  assumes send_accepted: "send n s = (Inr u, t) \<Longrightarrow> accepted n (tg_posts s) (tg_posts t)"
    and send_throws: "send n s = (Inl e, t) \<Longrightarrow>
      (\<exists>m. e = PermanentDeliveryError m) \<or> (\<exists>m ms. e = TransientDeliveryError m ms)"
    and send_posts: "send n s = (r, t) \<Longrightarrow> \<exists>ps. tg_posts t = tg_posts s @ ps"
    and send_leaves: "send n s = (r, t) \<Longrightarrow> tg_dead t = tg_dead s \<and> n_dead t = n_dead s \<and> tg_counts t = tg_counts s"
begin

text \<open>Why a message with so many earlier attempts goes to the dead letters.\<close>

definition final :: "tg_world \<Rightarrow> int \<Rightarrow> amqp_message \<Rightarrow> int \<Rightarrow> dead_category \<Rightarrow> bool" where
  "final W mx msg attempt category \<longleftrightarrow> (case parseNotificationMessage W (am_body msg) of
     Inl reason \<Rightarrow> category = Invalid_payload
   | Inr n \<Rightarrow> if \<not> sendable n then category = Validation
       else category = Permanent \<or> (category = Exhausted \<and> attempt + 1 \<ge> mx))"

text \<open>The \<open>try\<close> block always decides: the last \<open>catch\<close> is never reached.\<close>

lemma decide_cases:
  assumes "tg_decide W send mx msg attempt s = (r, t)"
  obtains (delivered) n where "r = Inr Ack_decision" and "parseNotificationMessage W (am_body msg) = Inr n"
      and "sendable n" and "accepted n (tg_posts s) (tg_posts t)" and "\<exists>ps. tg_posts t = tg_posts s @ ps"
      and "tg_dead t = tg_dead s" and "n_dead t = n_dead s" and "tg_counts t = tg_counts s"
    | (again) n where "r = Inr Retry_decision" and "parseNotificationMessage W (am_body msg) = Inr n"
      and "sendable n" and "attempt + 1 < mx" and "\<exists>ps. tg_posts t = tg_posts s @ ps"
      and "tg_dead t = tg_dead s" and "n_dead t = n_dead s" and "tg_counts t = tg_counts s"
    | (dead) category reason where "r = Inr (Dead_letter_decision category reason)"
      and "final W mx msg attempt category" and "\<exists>ps. tg_posts t = tg_posts s @ ps"
      and "tg_dead t = tg_dead s" and "n_dead t = n_dead s" and "tg_counts t = tg_counts s"
proof (cases "parseNotificationMessage W (am_body msg)")
  case (Inl reason)
  with assms show ?thesis by (intro dead) (auto simp: tg_decide_def final_def)
next
  case (Inr n)
  note run = assms [unfolded tg_decide_def Inr sum.case]
  show ?thesis
  proof (cases "createNotification n")
    case (Inl e)
    then obtain m where m: "e = NotificationValidationError m" and "\<not> sendable n"
      using createNotification_Inl by blast
    with run Inl Inr show ?thesis by (intro dead [of Validation m]) (auto simp: tg_execute_def final_def)
  next
    case same: (Inr n')
    then have n: "n' = n" "sendable n" by (simp_all add: createNotification_Inr)
    obtain r' u where send: "send n s = (r', u)" by (cases "send n s")
    note left = send_leaves [OF send] and posts = send_posts [OF send]
    show ?thesis
    proof (cases r')
      case (Inr x)
      with run same n send have "r = Inr Ack_decision" "t = tg_say Debug_l ''notification delivered'' [] u"
        by (simp_all add: tg_execute_def)
      with left posts n(2) send_accepted [OF send [unfolded Inr]] \<open>parseNotificationMessage W (am_body msg) = Inr n\<close>
      show ?thesis by (intro delivered) auto
    next
      case (Inl e)
      with run same n send have rt: "(r, t) = map_prod Inr id (onSendError mx e attempt u)" by (simp add: tg_execute_def)
      from send_throws [OF send [unfolded Inl]] show ?thesis
      proof
        assume "\<exists>m. e = PermanentDeliveryError m"
        then obtain m where "e = PermanentDeliveryError m" by blast
        with rt left posts n(2) \<open>parseNotificationMessage W (am_body msg) = Inr n\<close> show ?thesis
          by (intro dead [of Permanent m]) (auto simp: onSendError_def final_def Let_def)
      next
        assume "\<exists>m ms. e = TransientDeliveryError m ms"
        then obtain m ms where e: "e = TransientDeliveryError m ms" by blast
        show ?thesis
        proof (cases "mx \<le> attempt + 1")
          case True
          with rt e left posts n(2) \<open>parseNotificationMessage W (am_body msg) = Inr n\<close> show ?thesis
            by (intro dead) (auto simp: onSendError_def final_def Let_def)
        next
          case False
          with rt e left posts n(2) \<open>parseNotificationMessage W (am_body msg) = Inr n\<close> show ?thesis
            by (intro again) (auto simp: onSendError_def Let_def)
        qed
      qed
    qed
  qed
qed

lemma handle_outcome:
  assumes "tg_handle W send c mx msg s = (r, t)"
  defines "attempt \<equiv> getAttemptCount W (am_headers msg) (tc_queue c)"
  obtains (delivered) n where "r = Inr ACK" and "parseNotificationMessage W (am_body msg) = Inr n" and "sendable n"
      and "accepted n (tg_posts s) (tg_posts t)" and "\<exists>ps. tg_posts t = tg_posts s @ ps"
      and "tg_dead t = tg_dead s" and "n_dead t = n_dead s"
      and "tg_counts t = recordDelivered (recordReceived (tg_counts s))"
    | (again) n where "r = Inr DROP" and "parseNotificationMessage W (am_body msg) = Inr n" and "sendable n"
      and "attempt + 1 < mx" and "\<exists>ps. tg_posts t = tg_posts s @ ps" and "tg_dead t = tg_dead s" and "n_dead t = n_dead s"
      and "tg_counts t = recordRetried (recordReceived (tg_counts s))"
    | (dead) category reason where "r = Inr ACK" and "final W mx msg attempt category"
      and "tw_confirm W (n_dead s) = None" and "\<exists>ps. tg_posts t = tg_posts s @ ps"
      and "tg_dead t = tg_dead s @ [dead_message c msg category reason]" and "n_dead t = Suc (n_dead s)"
      and "tg_counts t = recordDeadLettered (category_value category) (recordReceived (tg_counts s))"
    | (escaped) e through category reason where "r = Inl e" and "tw_confirm W (n_dead s) = Some (e, through)"
      and "final W mx msg attempt category" and "\<exists>ps. tg_posts t = tg_posts s @ ps"
      and "tg_dead t = tg_dead s @ (if through then [dead_message c msg category reason] else [])"
      and "n_dead t = Suc (n_dead s)" and "tg_counts t = recordReceived (tg_counts s)"
proof -
  obtain d u where d: "tg_decide W send mx msg attempt (tg_count recordReceived s) = (d, u)"
    by (cases "tg_decide W send mx msg attempt (tg_count recordReceived s)")
  from d show ?thesis
  proof (cases rule: decide_cases)
    case (delivered n)
    with assms(1) d have "r = Inr ACK" "t = tg_count recordDelivered u"
      by (simp_all add: tg_handle_def attempt_def apply_others)
    with delivered that(1) show ?thesis by simp
  next
    case (again n)
    with assms(1) d have "r = Inr DROP" "t = tg_count recordRetried u"
      by (simp_all add: tg_handle_def attempt_def apply_others)
    with again that(2) show ?thesis by simp
  next
    case (dead category reason)
    with assms(1) d have "applyDecision W c msg (Dead_letter_decision category reason) u = (r, t)"
      by (simp add: tg_handle_def attempt_def)
    then show ?thesis
    proof (cases rule: apply_dead_letter)
      case confirmed
      with dead that(3) show ?thesis by simp
    next
      case (failed e through)
      with dead that(4) show ?thesis by simp
    qed
  qed
qed

text \<open>The counters of the metrics add up.\<close>

definition counts_ok :: "tg_state \<Rightarrow> nat \<Rightarrow> bool" where
  "counts_ok s failures \<longleftrightarrow> mt_received (tg_counts s) =
     mt_delivered (tg_counts s) + mt_retried (tg_counts s) + dead_total (tg_counts s) + failures"

lemma handle_counts:
  "tg_handle W send c mx msg s = (r, t) \<Longrightarrow> counts_ok s f \<Longrightarrow> counts_ok t (case r of Inl e \<Rightarrow> Suc f | Inr x \<Rightarrow> f)"
  by (cases rule: handle_outcome)
    (auto simp: counts_ok_def)

end

section \<open>Telegram\<close>

definition answered_ok :: "tg_world \<Rightarrow> nat \<Rightarrow> ustr \<times> json \<Rightarrow> bool" where
  "answered_ok W i req \<longleftrightarrow> (\<exists>status answer. tw_fetch W i (fst req) (snd req) = Fetched status answer \<and>
     200 \<le> status \<and> status \<le> 299 \<and> member ''ok'' answer \<noteq> Some (JBool False))"

definition tg_accepted :: "tg_world \<Rightarrow> telegram_sender \<Rightarrow> tg_note \<Rightarrow> (ustr \<times> json) list \<Rightarrow> (ustr \<times> json) list \<Rightarrow> bool" where
  "tg_accepted W T n ps qs \<longleftrightarrow> qs = ps @ [(ts_endpoint T, buildPayload T n)] \<and>
     answered_ok W (length ps) (ts_endpoint T, buildPayload T n)"

lemma classifyFailure_cases:
  "(\<exists>m. classifyFailure W status body = PermanentDeliveryError m) \<and> 400 \<le> status \<and> status < 500 \<and> status \<noteq> 429 \<or>
   (\<exists>m ms. classifyFailure W status body = TransientDeliveryError m ms) \<and> (status < 400 \<or> status \<ge> 500 \<or> status = 429)"
  by (auto simp: classifyFailure_def Let_def)

lemma tg_send_returns: "tg_send W T n s = (Inr u, t) \<Longrightarrow> tg_accepted W T n (tg_posts s) (tg_posts t)"
  by (auto simp: tg_send_def tg_accepted_def answered_ok_def Let_def split: fetch_result.splits if_splits)

lemma tg_send_throws: "tg_send W T n s = (Inl e, t) \<Longrightarrow>
    (\<exists>m. e = PermanentDeliveryError m) \<or> (\<exists>m ms. e = TransientDeliveryError m ms)"
  using classifyFailure_cases [of W] by (auto simp: tg_send_def Let_def split: fetch_result.splits if_splits)

lemma tg_send_state: "tg_send W T n s = (r, t) \<Longrightarrow> t = s\<lparr>tg_posts := tg_posts s @ [(ts_endpoint T, buildPayload T n)]\<rparr>"
  by (auto simp: tg_send_def Let_def split: fetch_result.splits if_splits)

interpretation telegram: notification_sender "tg_send W T" "tg_accepted W T" for W T
  by unfold_locales (auto dest: tg_send_returns tg_send_throws tg_send_state)

end
