(* ===== verification/NotifyBroker.thy ===== *)
theory NotifyBroker
  imports NotifyTheorems
begin

text \<open>
  notifications and its broker: the messages in the queues that topology.ts declares, as a pool of
  pairs of a queue and a message, and the steps that move them. A delivery runs the handler to its
  end; its outcome settles the message, a rejected one goes where the arguments of its queue say, and
  what the handler published goes where the bindings say. A connection may be lost after a delivery,
  before the broker learns of its outcome. How rabbitmq-client settles a message and how RabbitMQ
  counts deaths is not under src/: the record \<open>broker_env\<close>, of which the code relies on \<open>broker_ok\<close>.
\<close>

section \<open>The broker\<close>

datatype settlement = Acked | Rejected bool

record broker_env =
  be_settle :: "bool \<Rightarrow> js_error + consumer_status \<Rightarrow> settlement"
  be_death :: "ustr \<Rightarrow> ustr \<Rightarrow> fields option \<Rightarrow> fields option"

text \<open>The consumer is created with \<open>requeue: false\<close>.\<close>

definition consumer_requeue :: bool where "consumer_requeue = False"

definition rejected :: ustr where "rejected = lit ''rejected''"
definition expired :: ustr where "expired = lit ''expired''"

text \<open>
  The count that the header \<open>x-death\<close> has for a queue and a reason. The documented behaviour: an
  outcome settles as its name says, an exception rejects with the consumer's \<open>requeue\<close>; a death
  counts up the entry of its queue and reason, or makes one, and leaves the others.
\<close>

definition death_count :: "fields option \<Rightarrow> ustr \<Rightarrow> ustr \<Rightarrow> int option" where
  "death_count headers q why = (case headers of None \<Rightarrow> None | Some hs \<Rightarrow>
     (case map_of hs (lit ''x-death'') of
        Some (JList es) \<Rightarrow>
          (case List.find (\<lambda>e. member ''queue'' (Some e) = Some (JStr q) \<and> member ''reason'' (Some e) = Some (JStr why)) es of
             Some e \<Rightarrow> (case member ''count'' (Some e) of Some (JInt n) \<Rightarrow> Some n | _ \<Rightarrow> None)
           | None \<Rightarrow> None)
      | _ \<Rightarrow> None))"

definition broker_ok :: "broker_env \<Rightarrow> bool" where
  "broker_ok B \<longleftrightarrow> (\<forall>b. be_settle B b (Inr ACK) = Acked \<and> be_settle B b (Inr DROP) = Rejected False \<and>
       be_settle B b (Inr REQUEUE) = Rejected True \<and> (\<forall>e. be_settle B b (Inl e) = Rejected b)) \<and>
     (\<forall>q why hs. death_count (be_death B q why hs) q why =
       Some (case death_count hs q why of None \<Rightarrow> 1 | Some n \<Rightarrow> n + 1)) \<and>
     (\<forall>q why q' why' hs. (q', why') \<noteq> (q, why) \<longrightarrow> death_count (be_death B q why hs) q' why' = death_count hs q' why')"

text \<open>A direct exchange sends a message to the queues bound to it with the message's key.\<close>

fun binding_of :: "ustr \<Rightarrow> ustr \<Rightarrow> amqp_op \<Rightarrow> ustr list" where
  "binding_of x k (Queue_bind q x' k') = (if x' = x \<and> k' = k then [q] else [])"
| "binding_of x k _ = []"

definition bound_queues :: "amqp_op list \<Rightarrow> ustr \<Rightarrow> ustr \<Rightarrow> ustr list" where
  "bound_queues ops x k = concat (map (binding_of x k) ops)"

fun arguments_of :: "ustr \<Rightarrow> amqp_op \<Rightarrow> fields list" where
  "arguments_of q (Queue_declare r) = (if rq_name r = q then [rq_arguments r] else [])"
| "arguments_of q _ = []"

definition queue_arguments :: "amqp_op list \<Rightarrow> ustr \<Rightarrow> fields" where
  "queue_arguments ops q = concat (concat (map (arguments_of q) ops))"

type_synonym pool = "(ustr \<times> amqp_message) list"

definition routed :: "amqp_op list \<Rightarrow> ustr \<Rightarrow> ustr \<Rightarrow> amqp_message \<Rightarrow> pool" where
  "routed ops x k m = map (\<lambda>q. (q, m)) (bound_queues ops x k)"

definition dead_lettered_to :: "amqp_op list \<Rightarrow> broker_env \<Rightarrow> ustr \<Rightarrow> ustr \<Rightarrow> amqp_message \<Rightarrow> pool" where
  "dead_lettered_to ops B q why m =
     (case (map_of (queue_arguments ops q) (lit ''x-dead-letter-exchange''),
            map_of (queue_arguments ops q) (lit ''x-dead-letter-routing-key'')) of
        (Some (JStr x), Some (JStr k)) \<Rightarrow> routed ops x k (m\<lparr>am_headers := be_death B q why (am_headers m)\<rparr>)
      | _ \<Rightarrow> [])"

definition published_pool :: "amqp_op list \<Rightarrow> (ustr \<times> ustr \<times> fields \<times> amqp_body) list \<Rightarrow> pool" where
  "published_pool ops ps = concat (map (\<lambda>(x, k, hs, b). routed ops x k \<lparr>am_headers = Some hs, am_body = b\<rparr>) ps)"

section \<open>The service at its queue\<close>

record tg_service =
  sv_sender :: telegram_sender
  sv_topology :: topology_config
  sv_max_attempts :: int

definition sv_handle :: "tg_world \<Rightarrow> tg_service \<Rightarrow> amqp_message \<Rightarrow> tg_state \<Rightarrow> (js_error + consumer_status) \<times> tg_state" where
  "sv_handle W V = tg_handle W (tg_send W (sv_sender V)) (sv_topology V) (sv_max_attempts V)"

definition sv_ops :: "tg_service \<Rightarrow> amqp_op list" where
  "sv_ops V = declareTopology (sv_topology V)"

definition settled :: "tg_service \<Rightarrow> broker_env \<Rightarrow> amqp_message \<Rightarrow> js_error + consumer_status \<Rightarrow> pool" where
  "settled V B m r = (case be_settle B consumer_requeue r of
     Acked \<Rightarrow> []
   | Rejected True \<Rightarrow> [(tc_queue (sv_topology V), m)]
   | Rejected False \<Rightarrow> dead_lettered_to (sv_ops V) B (tc_queue (sv_topology V)) rejected m)"

definition new_dead :: "tg_service \<Rightarrow> tg_state \<Rightarrow> tg_state \<Rightarrow> pool" where
  "new_dead V s t = published_pool (sv_ops V) (drop (length (tg_dead s)) (tg_dead t))"

text \<open>
  \<open>calm_step\<close> is a delivery that the broker hears the end of, or the expiry of the delay.
\<close>

inductive calm_step :: "tg_world \<Rightarrow> broker_env \<Rightarrow> tg_service \<Rightarrow> pool \<times> tg_state \<Rightarrow> pool \<times> tg_state \<Rightarrow> bool"
  for W B V where
  deliver: "sv_handle W V m s = (r, t) \<Longrightarrow> q = tc_queue (sv_topology V) \<Longrightarrow>
    calm_step W B V (ps @ (q, m) # qs, s) (ps @ settled V B m r @ new_dead V s t @ qs, t)"
| expire: "map_of (queue_arguments (sv_ops V) q) (lit ''x-message-ttl'') \<noteq> None \<Longrightarrow>
    calm_step W B V (ps @ (q, m) # qs, s) (ps @ dead_lettered_to (sv_ops V) B q expired m @ qs, s)"

text \<open>
  The state of the whole has the bodies ever published to the exchange, besides the pool. A step may
  also be a publication, or a delivery whose outcome is lost with the connection.
\<close>

inductive pool_reach :: "tg_world \<Rightarrow> broker_env \<Rightarrow> tg_service \<Rightarrow> amqp_body list \<times> pool \<times> tg_state \<Rightarrow> bool"
  for W B V where
  start: "pool_reach W B V ([], [], s)"
| arrive: "pool_reach W B V (bs, p, s) \<Longrightarrow> pool_reach W B V (b # bs,
    p @ routed (sv_ops V) (tc_exchange (sv_topology V)) (tc_routing_key (sv_topology V)) \<lparr>am_headers = hs, am_body = b\<rparr>, s)"
| calm: "pool_reach W B V (bs, p, s) \<Longrightarrow> calm_step W B V (p, s) (p', s') \<Longrightarrow> pool_reach W B V (bs, p', s')"
| lost: "pool_reach W B V (bs, p, s) \<Longrightarrow> (tc_queue (sv_topology V), m) \<in> set p \<Longrightarrow> sv_handle W V m s = (r, t) \<Longrightarrow>
    pool_reach W B V (bs, p @ new_dead V s t, t)"

section \<open>Where messages go\<close>

text \<open>The names of the configuration tell the exchanges and the queues apart.\<close>

definition names_apart :: "topology_config \<Rightarrow> bool" where
  "names_apart c \<longleftrightarrow> distinct [tc_exchange c, tc_retry_exchange c, tc_dlx c] \<and>
     distinct [tc_queue c, tc_retry_queue c, tc_dlq c]"

lemma bound_declared:
  assumes "names_apart c"
  shows "bound_queues (declareTopology c) (tc_exchange c) (tc_routing_key c) = [tc_queue c]"
    and "bound_queues (declareTopology c) (tc_retry_exchange c) (tc_routing_key c) = [tc_retry_queue c]"
    and "bound_queues (declareTopology c) (tc_dlx c) (tc_routing_key c) = [tc_dlq c]"
  using assms by (simp_all add: bound_queues_def declareTopology_def direct_exchange_def names_apart_def) auto

lemma arguments_declared:
  assumes "names_apart c"
  shows "queue_arguments (declareTopology c) (tc_queue c) = rq_arguments (main_queue c)"
    and "queue_arguments (declareTopology c) (tc_retry_queue c) = rq_arguments (tg_retry_queue c)"
    and "queue_arguments (declareTopology c) (tc_dlq c) = []"
  using assms
  by (auto simp: queue_arguments_def declareTopology_def direct_exchange_def names_apart_def main_queue_def
      tg_retry_queue_def durable_queue_def)

lemma route_facts:
  assumes "names_apart (sv_topology V)"
  shows "routed (sv_ops V) (tc_exchange (sv_topology V)) (tc_routing_key (sv_topology V)) m = [(tc_queue (sv_topology V), m)]"
    and "dead_lettered_to (sv_ops V) B (tc_queue (sv_topology V)) why m =
      [(tc_retry_queue (sv_topology V), m\<lparr>am_headers := be_death B (tc_queue (sv_topology V)) why (am_headers m)\<rparr>)]"
    and "dead_lettered_to (sv_ops V) B (tc_retry_queue (sv_topology V)) why m =
      [(tc_queue (sv_topology V), m\<lparr>am_headers := be_death B (tc_retry_queue (sv_topology V)) why (am_headers m)\<rparr>)]"
    and "published_pool (sv_ops V) [dead_message (sv_topology V) m category reason] =
      [(tc_dlq (sv_topology V), \<lparr>am_headers = Some (fst (snd (snd (dead_message (sv_topology V) m category reason)))), am_body = am_body m\<rparr>)]"
    and "map_of (queue_arguments (sv_ops V) q) (lit ''x-message-ttl'') \<noteq> None \<Longrightarrow>
      q \<in> {tc_queue (sv_topology V), tc_retry_queue (sv_topology V), tc_dlq (sv_topology V)} \<Longrightarrow> q = tc_retry_queue (sv_topology V)"
    and "map_of (queue_arguments (sv_ops V) (tc_retry_queue (sv_topology V))) (lit ''x-message-ttl'') \<noteq> None"
  using bound_declared [OF assms] arguments_declared [OF assms]
  by (auto simp: sv_ops_def routed_def dead_lettered_to_def main_queue_def tg_retry_queue_def published_pool_def
      dead_message_def)

lemma no_ttl:
  assumes "names_apart (sv_topology V)"
  shows "map_of (queue_arguments (sv_ops V) (tc_queue (sv_topology V))) (lit ''x-message-ttl'') = None"
    and "map_of (queue_arguments (sv_ops V) (tc_dlq (sv_topology V))) (lit ''x-message-ttl'') = None"
  using arguments_declared [OF assms] by (simp_all add: sv_ops_def main_queue_def)

section \<open>Counting\<close>

lemma count_rejected_find:
  "count_rejected W q es = (case List.find (\<lambda>e. member ''queue'' (Some e) = Some (JStr q) \<and>
      member ''reason'' (Some e) = Some (JStr rejected)) es of None \<Rightarrow> 0
     | Some e \<Rightarrow> (case number_floor W (member ''count'' (Some e)) of Some n \<Rightarrow> if n > 0 then n else 0 | None \<Rightarrow> 0))"
  by (induction es) (auto simp: rejected_def)

lemma attempts_death_count: "death_count hs q rejected = Some n \<Longrightarrow> 0 \<le> n \<Longrightarrow> getAttemptCount W hs q = n"
  by (auto simp: death_count_def getAttemptCount_def count_rejected_find number_floor_def
      split: option.splits json.splits)

definition no_deaths :: "fields option \<Rightarrow> bool" where
  "no_deaths hs \<longleftrightarrow> (case hs of None \<Rightarrow> True | Some fs \<Rightarrow> map_of fs (lit ''x-death'') = None)"

lemma no_deaths_count: "no_deaths hs \<Longrightarrow> death_count hs q why = None" "no_deaths hs \<Longrightarrow> getAttemptCount W hs q = 0"
  by (auto simp: no_deaths_def death_count_def getAttemptCount_def split: option.splits)

lemma broker_okD:
  assumes "broker_ok B"
  shows "be_settle B b (Inr ACK) = Acked" and "be_settle B b (Inr DROP) = Rejected False"
    and "be_settle B b (Inl e) = Rejected b"
    and "death_count (be_death B q why hs) q why = Some (case death_count hs q why of None \<Rightarrow> 1 | Some n \<Rightarrow> n + 1)"
    and "(q', why') \<noteq> (q, why) \<Longrightarrow> death_count (be_death B q why hs) q' why' = death_count hs q' why'"
  using assms unfolding broker_ok_def by blast+

section \<open>Delivery\<close>

lemma settled_cases:
  assumes "broker_ok B" and "names_apart (sv_topology V)"
  shows "settled V B m (Inr ACK) = []"
    and "settled V B m (Inr DROP) = [(tc_retry_queue (sv_topology V),
      m\<lparr>am_headers := be_death B (tc_queue (sv_topology V)) rejected (am_headers m)\<rparr>)]"
    and "settled V B m (Inl e) = [(tc_retry_queue (sv_topology V),
      m\<lparr>am_headers := be_death B (tc_queue (sv_topology V)) rejected (am_headers m)\<rparr>)]"
  by (simp_all add: settled_def broker_okD [OF assms(1)] consumer_requeue_def route_facts [OF assms(2)])

definition tg_delivered :: "tg_world \<Rightarrow> tg_service \<Rightarrow> tg_state \<Rightarrow> amqp_body \<Rightarrow> bool" where
  "tg_delivered W V s b \<longleftrightarrow> (\<exists>n i. parseNotificationMessage W b = Inr n \<and> i < length (tg_posts s) \<and>
     tg_posts s ! i = (ts_endpoint (sv_sender V), buildPayload (sv_sender V) n) \<and> answered_ok W i (tg_posts s ! i))"

lemma delivered_mono: "tg_delivered W V s b \<Longrightarrow> \<exists>ps. tg_posts t = tg_posts s @ ps \<Longrightarrow> tg_delivered W V t b"
  unfolding tg_delivered_def by (force simp: nth_append)

lemma accepted_delivered:
  assumes "parseNotificationMessage W b = Inr n" and "tg_accepted W (sv_sender V) n (tg_posts s) (tg_posts t)"
  shows "tg_delivered W V t b"
  unfolding tg_delivered_def using assms
  by (intro exI [of _ n] exI [of _ "length (tg_posts s)"]) (simp add: tg_accepted_def)

lemma new_dead_simps:
  "tg_dead t = tg_dead s \<Longrightarrow> new_dead V s t = []"
  "tg_dead t = tg_dead s @ ms \<Longrightarrow> new_dead V s t = published_pool (sv_ops V) ms"
  by (simp_all add: new_dead_def published_pool_def)

text \<open>A delivery, settled: accepted by Telegram, parked for a retry, or among the dead letters.\<close>

lemma delivery_outcome:
  assumes "broker_ok B" and "names_apart (sv_topology V)" and "sv_handle W V m s = (r, t)"
  defines "c \<equiv> sv_topology V"
  defines "attempt \<equiv> getAttemptCount W (am_headers m) (tc_queue c)"
    and "parked \<equiv> (tc_retry_queue c, m\<lparr>am_headers := be_death B (tc_queue c) rejected (am_headers m)\<rparr>)"
  obtains (delivered) "settled V B m r @ new_dead V s t = []" and "tg_delivered W V t (am_body m)"
      and "\<exists>ps. tg_posts t = tg_posts s @ ps"
    | (again) "settled V B m r @ new_dead V s t = [parked]" and "attempt + 1 < sv_max_attempts V"
      and "\<exists>ps. tg_posts t = tg_posts s @ ps"
    | (dead) hs where "settled V B m r @ new_dead V s t = [(tc_dlq c, \<lparr>am_headers = Some hs, am_body = am_body m\<rparr>)]"
      and "tw_confirm W (n_dead s) = None" and "\<exists>ps. tg_posts t = tg_posts s @ ps"
    | (escaped) e through hs where "settled V B m r @ new_dead V s t = parked #
        (if through then [(tc_dlq c, \<lparr>am_headers = Some hs, am_body = am_body m\<rparr>)] else [])"
      and "tw_confirm W (n_dead s) = Some (e, through)" and "\<exists>ps. tg_posts t = tg_posts s @ ps"
proof -
  from assms(3) [unfolded sv_handle_def] show ?thesis
  proof (cases rule: telegram.handle_outcome)
    case (delivered n)
    with accepted_delivered [OF delivered(2,4)] that(1) show ?thesis
      by (simp add: settled_cases [OF assms(1,2)] new_dead_simps)
  next
    case (again n)
    with that(2) show ?thesis
      by (simp add: settled_cases [OF assms(1,2)] new_dead_simps parked_def c_def attempt_def)
  next
    case (dead category reason)
    with that(3) show ?thesis
      by (simp add: settled_cases [OF assms(1,2)] new_dead_simps(2) route_facts [OF assms(2)] c_def)
  next
    case (escaped e through category reason)
    with that(4) [of through] show ?thesis
      by (cases through) (simp_all add: settled_cases [OF assms(1,2)] new_dead_simps route_facts [OF assms(2)] c_def parked_def)
  qed
qed

end
