(* ===== verification/NotifyLife.thy ===== *)
theory NotifyLife
  imports NotifyBroker
begin

text \<open>
  notifications: the life of its messages. No message is lost, whatever fails; with a dead letter
  exchange that works a message is settled after a bounded number of deliveries; without one it may
  circulate for ever.
\<close>

section \<open>No message is lost\<close>

definition our_queues :: "tg_service \<Rightarrow> ustr set" where
  "our_queues V = {tc_queue (sv_topology V), tc_retry_queue (sv_topology V), tc_dlq (sv_topology V)}"

definition held :: "tg_service \<Rightarrow> pool \<Rightarrow> amqp_body \<Rightarrow> bool" where
  "held V p b \<longleftrightarrow> (\<exists>(q, m) \<in> set p. q \<in> our_queues V \<and> am_body m = b)"

definition pool_ok :: "tg_world \<Rightarrow> tg_service \<Rightarrow> amqp_body list \<times> pool \<times> tg_state \<Rightarrow> bool" where
  "pool_ok W V x \<longleftrightarrow> (let (bs, p, s) = x in fst ` set p \<subseteq> our_queues V \<and>
     (\<forall>b \<in> set bs. held V p b \<or> tg_delivered W V s b))"

lemma held_append [simp]: "held V (p @ p') b \<longleftrightarrow> held V p b \<or> held V p' b"
  by (auto simp: held_def)

lemma held_Cons [simp]: "held V ((q, m) # p) b \<longleftrightarrow> (q \<in> our_queues V \<and> am_body m = b) \<or> held V p b"
  by (auto simp: held_def)

lemma held_Nil [simp]: "\<not> held V [] b"
  by (simp add: held_def)

lemma our_queues_simps [simp]: "tc_queue (sv_topology V) \<in> our_queues V" "tc_retry_queue (sv_topology V) \<in> our_queues V"
  "tc_dlq (sv_topology V) \<in> our_queues V"
  by (simp_all add: our_queues_def)

lemma delivery_keeps:
  assumes "broker_ok B" and "names_apart (sv_topology V)" and "sv_handle W V m s = (r, t)"
  shows "fst ` set (settled V B m r @ new_dead V s t) \<subseteq> our_queues V"
    and "held V (settled V B m r @ new_dead V s t) (am_body m) \<or> tg_delivered W V t (am_body m)"
    and "\<exists>ps. tg_posts t = tg_posts s @ ps"
proof -
  have "fst ` set (settled V B m r @ new_dead V s t) \<subseteq> our_queues V \<and>
    (held V (settled V B m r @ new_dead V s t) (am_body m) \<or> tg_delivered W V t (am_body m)) \<and>
    (\<exists>ps. tg_posts t = tg_posts s @ ps)"
    using assms(1-3)
  proof (cases rule: delivery_outcome)
    case delivered
    then show ?thesis unfolding delivered(1) by simp
  next
    case again
    then show ?thesis unfolding again(1) by simp
  next
    case (dead hs)
    then show ?thesis unfolding dead(1) by simp
  next
    case (escaped e through hs)
    then show ?thesis unfolding escaped(1) by (cases through) simp_all
  qed
  then show "fst ` set (settled V B m r @ new_dead V s t) \<subseteq> our_queues V"
    and "held V (settled V B m r @ new_dead V s t) (am_body m) \<or> tg_delivered W V t (am_body m)"
    and "\<exists>ps. tg_posts t = tg_posts s @ ps"
    by blast+
qed

lemma calm_keeps:
  assumes "broker_ok B" and "names_apart (sv_topology V)" and "pool_ok W V (bs, p, s)"
    and "calm_step W B V (p, s) (p', s')"
  shows "pool_ok W V (bs, p', s')"
  using assms(4)
proof cases
  case (deliver m r q ps qs)
  note keeps = delivery_keeps [OF assms(1,2) deliver(3)]
  have "held V p' b \<or> tg_delivered W V s' b" if "held V p b \<or> tg_delivered W V s b" for b
    using that keeps(2) delivered_mono [OF _ keeps(3), of W V b] deliver by auto
  with assms(3) keeps(1) deliver show ?thesis by (auto simp: pool_ok_def)
next
  case (expire q ps m qs)
  then have "q \<in> our_queues V" using assms(3) by (auto simp: pool_ok_def)
  with expire have q: "q = tc_retry_queue (sv_topology V)"
    using route_facts(5) [OF assms(2)] unfolding our_queues_def by blast
  with expire assms(3) show ?thesis by (auto simp: pool_ok_def route_facts(3) [OF assms(2)])
qed

lemma pool_ok_reach:
  assumes "broker_ok B" and "names_apart (sv_topology V)"
  shows "pool_reach W B V x \<Longrightarrow> pool_ok W V x"
proof (induction rule: pool_reach.induct)
  case (start s)
  then show ?case by (simp add: pool_ok_def)
next
  case (arrive bs p s b hs)
  then show ?case by (auto simp: pool_ok_def route_facts(1) [OF assms(2)])
next
  case (calm bs p s p' s')
  then show ?case using calm_keeps [OF assms] by blast
next
  case (lost bs p s m r t)
  note keeps = delivery_keeps [OF assms lost(3)]
  have "held V p b \<or> tg_delivered W V s b \<Longrightarrow> held V (p @ new_dead V s t) b \<or> tg_delivered W V t b" for b
    using delivered_mono [OF _ keeps(3), of W V b] by auto
  with lost.IH keeps(1) show ?case by (auto simp: pool_ok_def)
qed

text \<open>C2. No notification is lost: whatever Telegram answers, whichever publications to the dead letter
  exchange fail and whichever connections break, every message ever published to the exchange has
  been accepted by Telegram, in a request with its own payload, or is in the main queue, the retry
  queue or the dead letter queue.\<close>

theorem notifications_never_lost:
  assumes "broker_ok B" and "names_apart (sv_topology V)" and "pool_reach W B V (bs, p, s)" and "b \<in> set bs"
  shows "(\<exists>q m. (q, m) \<in> set p \<and> am_body m = b \<and>
      q \<in> {tc_queue (sv_topology V), tc_retry_queue (sv_topology V), tc_dlq (sv_topology V)}) \<or>
    (\<exists>n i. parseNotificationMessage W b = Inr n \<and> i < length (tg_posts s) \<and>
      tg_posts s ! i = (ts_endpoint (sv_sender V), buildPayload (sv_sender V) n) \<and> answered_ok W i (tg_posts s ! i))"
  using pool_ok_reach [OF assms(1-3)] assms(4)
  unfolding pool_ok_def Let_def prod.case held_def our_queues_def tg_delivered_def by blast

section \<open>A bounded number of deliveries\<close>

lemma single_split: "ps @ x # qs = [y] \<longleftrightarrow> ps = [] \<and> x = y \<and> qs = []"
  by (cases ps) auto

lemma calm_single:
  assumes "calm_step W B V ([(q, m)], s) (p, t)"
  shows "(q = tc_queue (sv_topology V) \<and> (\<exists>r. sv_handle W V m s = (r, t) \<and> p = settled V B m r @ new_dead V s t)) \<or>
    (map_of (queue_arguments (sv_ops V) q) (lit ''x-message-ttl'') \<noteq> None \<and>
      p = dead_lettered_to (sv_ops V) B q expired m \<and> t = s)"
  using assms
proof cases
  case (deliver m' r q' ps qs)
  from deliver(1) have "ps = []" "qs = []" "q' = q" "m' = m" by (metis single_split prod.inject)+
  with deliver show ?thesis by auto
next
  case (expire q' ps m' qs)
  from expire(1) have "ps = []" "qs = []" "q' = q" "m' = m" by (metis single_split prod.inject)+
  with expire show ?thesis by auto
qed

text \<open>The phases of one message: waiting for its k-th delivery, parked after it, or settled by it.\<close>

definition waits :: "tg_world \<Rightarrow> tg_service \<Rightarrow> amqp_body \<Rightarrow> int \<Rightarrow> pool \<Rightarrow> bool" where
  "waits W V b k p \<longleftrightarrow> (\<exists>m. p = [(tc_queue (sv_topology V), m)] \<and> am_body m = b \<and>
     getAttemptCount W (am_headers m) (tc_queue (sv_topology V)) = k \<and>
     death_count (am_headers m) (tc_queue (sv_topology V)) rejected = (if k = 0 then None else Some k))"

definition parks :: "tg_service \<Rightarrow> amqp_body \<Rightarrow> int \<Rightarrow> pool \<Rightarrow> bool" where
  "parks V b k p \<longleftrightarrow> (\<exists>m. p = [(tc_retry_queue (sv_topology V), m)] \<and> am_body m = b \<and>
     death_count (am_headers m) (tc_queue (sv_topology V)) rejected = Some k)"

definition is_settled :: "tg_world \<Rightarrow> tg_service \<Rightarrow> amqp_body \<Rightarrow> pool \<Rightarrow> tg_state \<Rightarrow> bool" where
  "is_settled W V b p s \<longleftrightarrow> (p = [] \<and> tg_delivered W V s b) \<or>
     (\<exists>m. p = [(tc_dlq (sv_topology V), m)] \<and> am_body m = b)"

lemma waits_next:
  assumes "broker_ok B" and "names_apart (sv_topology V)" and "\<forall>i. tw_confirm W i = None"
    and "waits W V b k p" and "0 \<le> k" and "calm_step W B V (p, s) (p', s')"
  shows "is_settled W V b p' s' \<or> (parks V b (k + 1) p' \<and> k + 1 < sv_max_attempts V)"
proof -
  let ?c = "sv_topology V"
  obtain m where m: "p = [(tc_queue ?c, m)]" "am_body m = b" "getAttemptCount W (am_headers m) (tc_queue ?c) = k"
      "death_count (am_headers m) (tc_queue ?c) rejected = (if k = 0 then None else Some k)"
    using assms(4) unfolding waits_def by blast
  obtain r where r: "sv_handle W V m s = (r, s')" "p' = settled V B m r @ new_dead V s s'"
    using calm_single [OF assms(6) [unfolded m(1)]] no_ttl(1) [OF assms(2)] by auto
  have counted: "death_count (be_death B (tc_queue ?c) rejected (am_headers m)) (tc_queue ?c) rejected = Some (k + 1)"
    using m(4) by (simp add: broker_okD(4) [OF assms(1)])
  from assms(1,2) r(1) show ?thesis
  proof (cases rule: delivery_outcome)
    case delivered
    with r(2) m(2) show ?thesis by (simp add: is_settled_def)
  next
    case again
    with r(2) m(2,3) counted show ?thesis by (simp add: parks_def)
  next
    case (dead hs)
    with r(2) m(2) show ?thesis by (simp add: is_settled_def)
  next
    case (escaped e through hs)
    with assms(3) show ?thesis by simp
  qed
qed

lemma parks_next:
  assumes "broker_ok B" and "names_apart (sv_topology V)" and "parks V b k p" and "0 < k"
    and "calm_step W B V (p, s) (p', s')"
  shows "waits W V b k p' \<and> s' = s"
proof -
  let ?c = "sv_topology V"
  obtain m where m: "p = [(tc_retry_queue ?c, m)]" "am_body m = b"
      "death_count (am_headers m) (tc_queue ?c) rejected = Some k"
    using assms(3) unfolding parks_def by blast
  have apart: "tc_retry_queue ?c \<noteq> tc_queue ?c" using assms(2) by (auto simp: names_apart_def)
  have p': "p' = dead_lettered_to (sv_ops V) B (tc_retry_queue ?c) expired m" "s' = s"
    using calm_single [OF assms(5) [unfolded m(1)]] apart by auto
  have "death_count (be_death B (tc_retry_queue ?c) expired (am_headers m)) (tc_queue ?c) rejected = Some k"
    using broker_okD(5) [OF assms(1), of "tc_queue ?c" rejected "tc_retry_queue ?c" expired] apart m(3) by simp
  with p' m(2) assms(4) show ?thesis
    using attempts_death_count [of _ "tc_queue ?c" k W] by (auto simp: waits_def route_facts(3) [OF assms(2)])
qed

lemma settled_ends:
  assumes "names_apart (sv_topology V)" and "is_settled W V b p s"
  shows "\<not> calm_step W B V (p, s) x"
proof
  let ?c = "sv_topology V"
  assume step: "calm_step W B V (p, s) x"
  have apart: "tc_dlq ?c \<noteq> tc_queue ?c" "tc_dlq ?c \<noteq> tc_retry_queue ?c" using assms(1) by (auto simp: names_apart_def)
  from assms(2) have "p = [] \<or> (\<exists>m. p = [(tc_dlq ?c, m)])" by (auto simp: is_settled_def)
  with step apart show False by cases (auto simp: single_split no_ttl [OF assms(1)])
qed

lemma unsettled_moves:
  assumes "names_apart (sv_topology V)" and "waits W V b k p \<or> parks V b k p"
  shows "\<exists>x. calm_step W B V (p, s) x"
  using assms(2)
proof
  assume "waits W V b k p"
  then obtain m where m: "p = [(tc_queue (sv_topology V), m)]" unfolding waits_def by blast
  obtain r t where "sv_handle W V m s = (r, t)" by (cases "sv_handle W V m s")
  from calm_step.deliver [OF this refl, of B "[]" "[]"] m show ?thesis by auto
next
  assume "parks V b k p"
  then obtain m where m: "p = [(tc_retry_queue (sv_topology V), m)]" unfolding parks_def by blast
  from calm_step.expire [OF route_facts(6) [OF assms(1)], of W B "[]" m "[]" s] m show ?thesis by auto
qed

definition phase :: "tg_world \<Rightarrow> tg_service \<Rightarrow> amqp_body \<Rightarrow> nat \<Rightarrow> pool \<times> tg_state \<Rightarrow> bool" where
  "phase W V b n x \<longleftrightarrow> (let (p, s) = x in
     (\<exists>k. n = 2 * k \<and> waits W V b (int k) p \<and> (k = 0 \<or> int k < sv_max_attempts V)) \<or>
     (\<exists>k. n = 2 * k + 1 \<and> parks V b (int k + 1) p \<and> int k + 1 < sv_max_attempts V) \<or>
     (\<exists>k. n = 2 * k + 1 \<and> is_settled W V b p s \<and> (k = 0 \<or> int k < sv_max_attempts V)))"

lemma phase_step:
  assumes "broker_ok B" and "names_apart (sv_topology V)" and "\<forall>i. tw_confirm W i = None"
    and "phase W V b n (p, s)" and "calm_step W B V (p, s) (p', s')"
  shows "phase W V b (Suc n) (p', s')"
proof -
  from assms(4) consider (wait) k where "n = 2 * k" "waits W V b (int k) p" "k = 0 \<or> int k < sv_max_attempts V"
    | (park) k where "n = 2 * k + 1" "parks V b (int k + 1) p" "int k + 1 < sv_max_attempts V"
    | (over) "is_settled W V b p s"
    unfolding phase_def Let_def prod.case by blast
  then show ?thesis
  proof cases
    case wait
    from waits_next [OF assms(1-3) wait(2) _ assms(5)] wait(1,3) show ?thesis
      unfolding phase_def Let_def prod.case by auto
  next
    case park
    from parks_next [OF assms(1,2) park(2) _ assms(5)] have "waits W V b (int (Suc k)) p'" by (simp add: add.commute)
    with park(1,3) show ?thesis unfolding phase_def Let_def prod.case by (intro disjI1 exI [of _ "Suc k"]) simp
  next
    case over
    with settled_ends [OF assms(2)] assms(5) show ?thesis by blast
  qed
qed

text \<open>C12. A notification is settled after a bounded number of deliveries: when the dead letter exchange
  confirms what it is given and no connection is lost, every sequence of steps of a new message has
  fewer than twice as many steps as there are attempts allowed; and when none is left, Telegram has
  accepted the message or it is in the dead letter queue.\<close>

theorem notification_settles:
  assumes "broker_ok B" and "names_apart (sv_topology V)" and "\<forall>i. tw_confirm W i = None" and "0 < sv_max_attempts V"
    and "no_deaths (am_headers m)"
    and "(calm_step W B V ^^ n) ([(tc_queue (sv_topology V), m)], s) (p, t)"
  shows "n < 2 * nat (sv_max_attempts V) \<and> ((\<nexists>x. calm_step W B V (p, t) x) \<longrightarrow>
    (p = [] \<and> tg_delivered W V t (am_body m)) \<or> (\<exists>m'. p = [(tc_dlq (sv_topology V), m')] \<and> am_body m' = am_body m))"
proof -
  have "phase W V (am_body m) n (p, t)"
    using assms(6)
  proof (induction n arbitrary: p t)
    case 0
    then have "p = [(tc_queue (sv_topology V), m)]" "t = s" by simp_all
    then show ?case by (simp add: phase_def waits_def no_deaths_count [OF assms(5)])
  next
    case (Suc n)
    from Suc.prems obtain p1 t1 where "(calm_step W B V ^^ n) ([(tc_queue (sv_topology V), m)], s) (p1, t1)"
        "calm_step W B V (p1, t1) (p, t)"
      by auto
    then show ?case using Suc.IH phase_step [OF assms(1-3)] by blast
  qed
  then consider k where "n = 2 * k" "waits W V (am_body m) (int k) p" "k = 0 \<or> int k < sv_max_attempts V"
    | k where "n = 2 * k + 1" "parks V (am_body m) (int k + 1) p" "int k + 1 < sv_max_attempts V"
    | k where "n = 2 * k + 1" "is_settled W V (am_body m) p t" "k = 0 \<or> int k < sv_max_attempts V"
    unfolding phase_def Let_def prod.case by blast
  then show ?thesis
  proof cases
    case (1 k)
    with assms(4) unsettled_moves [OF assms(2)] show ?thesis by fastforce
  next
    case (2 k)
    with unsettled_moves [OF assms(2)] show ?thesis by fastforce
  next
    case (3 k)
    with assms(4) show ?thesis by (auto simp: is_settled_def)
  qed
qed

section \<open>Without a dead letter exchange\<close>

lemma waits_outage:
  assumes "broker_ok B" and "names_apart (sv_topology V)" and "\<And>i. \<exists>e. tw_confirm W i = Some (e, False)"
    and "parseNotificationMessage W b = Inl reason" and "waits W V b k p" and "0 \<le> k"
  shows "\<exists>p' t. (calm_step W B V ^^ 2) (p, s) (p', t) \<and> waits W V b (k + 1) p'"
proof -
  let ?c = "sv_topology V"
  obtain m where m: "p = [(tc_queue ?c, m)]" "am_body m = b"
      "death_count (am_headers m) (tc_queue ?c) rejected = (if k = 0 then None else Some k)"
    using assms(5) unfolding waits_def by blast
  let ?m = "m\<lparr>am_headers := be_death B (tc_queue ?c) rejected (am_headers m)\<rparr>"
  obtain r t where h: "sv_handle W V m s = (r, t)" by (cases "sv_handle W V m s")
  have parked: "settled V B m r @ new_dead V s t = [(tc_retry_queue ?c, ?m)]"
    using assms(1,2) h
  proof (cases rule: delivery_outcome)
    case delivered
    with assms(4) m(2) show ?thesis by (auto simp: tg_delivered_def)
  next
    case (dead hs)
    then show ?thesis using assms(3) [of "n_dead s"] by auto
  next
    case (escaped e through hs)
    then show ?thesis using assms(3) [of "n_dead s"] by auto
  qed
  have "calm_step W B V (p, s) ([(tc_retry_queue ?c, ?m)], t)"
    using calm_step.deliver [OF h refl, of B "[]" "[]"] parked m(1) by simp
  moreover have "parks V b (k + 1) [(tc_retry_queue ?c, ?m)]"
    using m(2,3) by (simp add: parks_def broker_okD(4) [OF assms(1)])
  moreover obtain p' t' where step: "calm_step W B V ([(tc_retry_queue ?c, ?m)], t) (p', t')"
    using unsettled_moves [OF assms(2)] \<open>parks V b (k + 1) [(tc_retry_queue ?c, ?m)]\<close> by (metis surj_pair)
  moreover have "waits W V b (k + 1) p'"
    using parks_next [OF assms(1,2) \<open>parks V b (k + 1) [(tc_retry_queue ?c, ?m)]\<close> _ step] assms(6) by simp
  ultimately show ?thesis by (auto simp: numeral_2_eq_2 intro!: relcomppI)
qed

text \<open>C39. While nothing can be published to the dead letter exchange, the limit of attempts is not kept: a
  message that cannot even be read is delivered again and again, with ever more attempts counted.
  The handler throws for it every time, against its comment, and the client rejects it.\<close>

theorem dead_letter_outage:
  assumes "broker_ok B" and "names_apart (sv_topology V)" and "\<And>i. \<exists>e. tw_confirm W i = Some (e, False)"
    and "parseNotificationMessage W (am_body m) = Inl reason" and "no_deaths (am_headers m)"
  shows "\<exists>m' t. (calm_step W B V ^^ (2 * k)) ([(tc_queue (sv_topology V), m)], s) ([(tc_queue (sv_topology V), m')], t) \<and>
    am_body m' = am_body m \<and> getAttemptCount W (am_headers m') (tc_queue (sv_topology V)) = int k \<and>
    (\<exists>e u. sv_handle W V m' t = (Inl e, u))"
proof -
  have "\<exists>p t. (calm_step W B V ^^ (2 * k)) ([(tc_queue (sv_topology V), m)], s) (p, t) \<and> waits W V (am_body m) (int k) p"
  proof (induction k)
    case 0
    then show ?case by (auto simp: waits_def no_deaths_count [OF assms(5)])
  next
    case (Suc k)
    then obtain p t where pt: "(calm_step W B V ^^ (2 * k)) ([(tc_queue (sv_topology V), m)], s) (p, t)"
        "waits W V (am_body m) (int k) p"
      by blast
    have "int k + 1 = int (Suc k)" by simp
    with waits_outage [OF assms(1-4) pt(2) of_nat_0_le_iff, of t] obtain p' t' where
      two: "(calm_step W B V ^^ 2) (p, t) (p', t')" and w: "waits W V (am_body m) (int (Suc k)) p'" by metis
    have "2 * Suc k = 2 * k + 2" by simp
    have "(calm_step W B V ^^ (2 * Suc k)) ([(tc_queue (sv_topology V), m)], s) (p', t')"
      unfolding \<open>2 * Suc k = 2 * k + 2\<close> relpowp_add by (rule relcomppI [where b = "(p, t)"]) (rule pt(1) two)+
    with w show ?case by blast
  qed
  then obtain p t where pt: "(calm_step W B V ^^ (2 * k)) ([(tc_queue (sv_topology V), m)], s) (p, t)"
      "waits W V (am_body m) (int k) p" by blast
  then obtain m' where m': "p = [(tc_queue (sv_topology V), m')]" "am_body m' = am_body m"
      "getAttemptCount W (am_headers m') (tc_queue (sv_topology V)) = int k"
    unfolding waits_def by blast
  have "\<exists>e u. sv_handle W V m' t = (Inl e, u)"
    using assms(3) [of "n_dead t"] assms(4) m'(2)
    by (auto simp: sv_handle_def tg_handle_def tg_decide_def applyDecision_def dead_letter_publish_def Let_def)
  with pt(1) m' show ?thesis by blast
qed

section \<open>Witnesses\<close>

definition strict_zod :: zod where
  "strict_zod = \<lparr>zod_string = (\<lambda>j. case j of JStr s \<Rightarrow> Some s | _ \<Rightarrow> None),
     zod_boolean = (\<lambda>j. case j of JBool b \<Rightarrow> Some b | _ \<Rightarrow> None),
     zod_posint = (\<lambda>j. case j of JInt i \<Rightarrow> if 0 < i \<and> i < 2 ^ 53 then Some i else None | _ \<Rightarrow> None),
     zod_issues = (\<lambda>_. lit ''(root): invalid'')\<rparr>"

lemma zod_ok_strict: "zod_ok strict_zod"
  by (auto simp: zod_ok_def strict_zod_def split: json.splits if_splits)

text \<open>A broker that keeps a list of entries with queue, reason and count, the newest first.\<close>

definition same_death :: "ustr \<Rightarrow> ustr \<Rightarrow> json \<Rightarrow> bool" where
  "same_death q why e \<longleftrightarrow> member ''queue'' (Some e) = Some (JStr q) \<and> member ''reason'' (Some e) = Some (JStr why)"

definition deaths_of :: "fields option \<Rightarrow> json list" where
  "deaths_of hs = (case hs of None \<Rightarrow> [] | Some fs \<Rightarrow> (case map_of fs (lit ''x-death'') of Some (JList es) \<Rightarrow> es | _ \<Rightarrow> []))"

definition count_of :: "json option \<Rightarrow> int option" where
  "count_of e = (case e of None \<Rightarrow> None | Some x \<Rightarrow> (case member ''count'' (Some x) of Some (JInt n) \<Rightarrow> Some n | _ \<Rightarrow> None))"

lemma death_count_entries: "death_count hs q why = count_of (List.find (same_death q why) (deaths_of hs))"
  by (simp add: death_count_def deaths_of_def count_of_def same_death_def [abs_def] split: option.split json.split)

definition bump_deaths :: "ustr \<Rightarrow> ustr \<Rightarrow> fields option \<Rightarrow> fields option" where
  "bump_deaths q why hs = Some ((lit ''x-death'', JList (
       JObj [(lit ''queue'', JStr q), (lit ''reason'', JStr why),
         (lit ''count'', JInt (case death_count hs q why of None \<Rightarrow> 1 | Some n \<Rightarrow> n + 1))] #
       filter (\<lambda>e. \<not> same_death q why e) (deaths_of hs))) # (case hs of None \<Rightarrow> [] | Some fs \<Rightarrow> fs))"

definition sample_broker :: broker_env where
  "sample_broker = \<lparr>be_settle = (\<lambda>b r. case r of Inl e \<Rightarrow> Rejected b | Inr ACK \<Rightarrow> Acked
       | Inr DROP \<Rightarrow> Rejected False | Inr REQUEUE \<Rightarrow> Rejected True), be_death = bump_deaths\<rparr>"

lemma find_filter_other: "(\<And>e. P e \<Longrightarrow> Q e) \<Longrightarrow> List.find P (filter Q es) = List.find P es"
  by (induction es) auto

lemma bump_deaths_counts:
  "death_count (bump_deaths q why hs) q why = Some (case death_count hs q why of None \<Rightarrow> 1 | Some n \<Rightarrow> n + 1)"
  "(q', why') \<noteq> (q, why) \<Longrightarrow> death_count (bump_deaths q why hs) q' why' = death_count hs q' why'"
proof -
  let ?n = "case death_count hs q why of None \<Rightarrow> 1 | Some n \<Rightarrow> n + 1"
  let ?new = "JObj [(lit ''queue'', JStr q), (lit ''reason'', JStr why), (lit ''count'', JInt ?n)]"
  have ds: "deaths_of (bump_deaths q why hs) = ?new # filter (\<lambda>e. \<not> same_death q why e) (deaths_of hs)"
    by (simp add: deaths_of_def bump_deaths_def)
  have new: "same_death q' why' (JObj [(lit ''queue'', JStr q), (lit ''reason'', JStr why), (lit ''count'', c)]) \<longleftrightarrow>
      q' = q \<and> why' = why" for q' why' c
    by (auto simp: same_death_def member_def)
  have "count_of (Some ?new) = Some ?n" by (simp add: count_of_def member_def)
  then show "death_count (bump_deaths q why hs) q why = Some ?n"
    unfolding death_count_entries [of "bump_deaths q why hs"] ds by (simp add: new del: death_count_entries)
  assume other: "(q', why') \<noteq> (q, why)"
  then have "List.find (same_death q' why') (filter (\<lambda>e. \<not> same_death q why e) (deaths_of hs)) =
      List.find (same_death q' why') (deaths_of hs)"
    by (intro find_filter_other) (auto simp: same_death_def)
  then show "death_count (bump_deaths q why hs) q' why' = death_count hs q' why'"
    unfolding death_count_entries ds using other by (auto simp: new)
qed

lemma broker_ok_sample: "broker_ok sample_broker"
  by (simp add: broker_ok_def sample_broker_def bump_deaths_counts)

definition default_topology_config :: topology_config where
  "default_topology_config = \<lparr>tc_exchange = lit ''notifications'', tc_queue = lit ''notifications'',
     tc_routing_key = lit ''notify'', tc_retry_exchange = lit ''notifications.retry'',
     tc_retry_queue = lit ''notifications.retry'', tc_dlx = lit ''notifications.dlx'', tc_dlq = lit ''notifications.dlq'',
     tc_retry_delay_ms = 30000\<rparr>"

lemma names_apart_default: "names_apart default_topology_config"
  by (simp add: names_apart_def default_topology_config_def)

definition sample_service :: tg_service where
  "sample_service = \<lparr>sv_sender = TelegramNotificationSender \<lparr>to_bot_token = lit ''t'', to_chat_id = lit ''c'',
       to_base_url = None, to_timeout_ms = None, to_thread = None\<rparr>,
     sv_topology = default_topology_config, sv_max_attempts = 5\<rparr>"

definition sample_tg :: tg_world where
  "sample_tg = \<lparr>tw_fetch = (\<lambda>_ _ _. Fetched 200 (Some (JObj [(lit ''ok'', JBool True)]))), tw_confirm = (\<lambda>_. None),
     tw_zod = strict_zod, tw_decode = (\<lambda>_. []), tw_parse = (\<lambda>_. None), tw_string = (\<lambda>_. []),
     tw_number = (\<lambda>_. None), tw_times = id\<rparr>"

definition tg_start :: tg_state where
  "tg_start = \<lparr>tg_log = [], tg_counts = \<lparr>mt_received = 0, mt_delivered = 0, mt_retried = 0, mt_dead_lettered = []\<rparr>,
     tg_posts = [], tg_dead = [], n_dead = 0\<rparr>"

definition bad_message :: amqp_message where
  "bad_message = \<lparr>am_headers = None, am_body = Document JNull\<rparr>"

lemma bad_unreadable: "parseNotificationMessage W (am_body bad_message) = Inl (lit ''message body is not a JSON object'')"
  by (simp add: parseNotificationMessage_def coerceToObject_def bad_message_def)

lemma sample_parts: "sv_topology sample_service = default_topology_config" "sv_max_attempts sample_service = 5"
  "no_deaths (am_headers bad_message)"
  by (simp_all add: sample_service_def bad_message_def no_deaths_def)

theorem dead_letter_outage_witness:
  "\<exists>m' t. getAttemptCount (sample_tg\<lparr>tw_confirm := \<lambda>_. Some (JsError [], False)\<rparr>) (am_headers m') (lit ''notifications'') = 100 \<and>
     (calm_step (sample_tg\<lparr>tw_confirm := \<lambda>_. Some (JsError [], False)\<rparr>) sample_broker sample_service ^^ 200)
       ([(lit ''notifications'', bad_message)], tg_start) ([(lit ''notifications'', m')], t)"
proof -
  have q: "tc_queue (sv_topology sample_service) = lit ''notifications''"
    by (simp add: sample_parts default_topology_config_def)
  show ?thesis
    using dead_letter_outage [OF broker_ok_sample, of sample_service "sample_tg\<lparr>tw_confirm := \<lambda>_. Some (JsError [], False)\<rparr>"
        bad_message _ 100 tg_start] bad_unreadable
    unfolding q by (auto simp: sample_parts names_apart_default)
qed

theorem notification_settles_witness:
  "\<exists>n p t. (calm_step sample_tg sample_broker sample_service ^^ n)
     ([(tc_queue (sv_topology sample_service), bad_message)], tg_start) (p, t) \<and> n < 10 \<and>
     (\<exists>m'. p = [(lit ''notifications.dlq'', m')])"
proof -
  let ?q = "tc_queue (sv_topology sample_service)"
  obtain r t where h: "sv_handle sample_tg sample_service bad_message tg_start = (r, t)"
    by (cases "sv_handle sample_tg sample_service bad_message tg_start")
  let ?p = "settled sample_service sample_broker bad_message r @ new_dead sample_service tg_start t"
  have ok: "names_apart (sv_topology sample_service)" "\<forall>i. tw_confirm sample_tg i = None"
    by (simp_all add: sample_parts names_apart_default sample_tg_def)
  have "calm_step sample_tg sample_broker sample_service ([(?q, bad_message)], tg_start) (?p, t)"
    using calm_step.deliver [OF h refl, of sample_broker "[]" "[]"] by simp
  then have run: "(calm_step sample_tg sample_broker sample_service ^^ 1) ([(?q, bad_message)], tg_start) (?p, t)"
    by (simp only: relpowp_1)
  have "\<not> tg_delivered sample_tg sample_service t (am_body bad_message)"
    by (simp add: tg_delivered_def bad_unreadable)
  moreover have "is_settled sample_tg sample_service (am_body bad_message) ?p t"
  proof -
    have "\<exists>hs. ?p = [(tc_dlq (sv_topology sample_service), \<lparr>am_headers = Some hs, am_body = am_body bad_message\<rparr>)]"
      using h ok(2) bad_unreadable
      by (auto simp: sv_handle_def tg_handle_def tg_decide_def applyDecision_def dead_letter_publish_def
          settled_cases [OF broker_ok_sample ok(1)] new_dead_def tg_say_def tg_count_def tg_start_def published_pool_def
          routed_def sv_ops_def bound_declared [OF names_apart_default] sample_parts)
    then show ?thesis by (auto simp: is_settled_def)
  qed
  ultimately show ?thesis
    using notification_settles [OF broker_ok_sample ok _ sample_parts(3) run] run settled_ends [OF ok(1), of sample_tg]
    by (intro exI [of _ 1] exI [of _ ?p] exI [of _ t]) (auto simp: sample_parts default_topology_config_def)
qed

theorem notifications_never_lost_witness:
  "\<exists>p s. pool_reach sample_tg sample_broker sample_service ([Document JNull], p, s) \<and>
     (\<exists>q m. (q, m) \<in> set p \<and> am_body m = Document JNull)"
proof -
  have ok: "names_apart (sv_topology sample_service)" by (simp add: sample_parts names_apart_default)
  note reach = pool_reach.arrive [OF pool_reach.start [where s = tg_start], where W = sample_tg and B = sample_broker
      and V = sample_service and b = "Document JNull" and hs = None]
  have "parseNotificationMessage sample_tg (Document JNull) = Inl (lit ''message body is not a JSON object'')"
    using bad_unreadable by (simp add: bad_message_def)
  with notifications_never_lost [OF broker_ok_sample ok reach, of "Document JNull"] reach show ?thesis by fastforce
qed

end
