(* ===== verification/Telegram.thy ===== *)
theory Telegram
  imports Delivery NotifyLife
begin

text \<open>
  From llm to Telegram: every text that core publishes for llm is a message that notifications
  reads and finds valid, the exchanges meet, and the order that Delivery follows to the exchange ends
  as one request to the Bot API with the text llm built.
\<close>

section \<open>The contract\<close>

fun tg_mode_of :: "parse_mode \<Rightarrow> tg_mode" where
  "tg_mode_of HTML = Tg_HTML"
| "tg_mode_of MarkdownV2 = Tg_MarkdownV2"
| "tg_mode_of Markdown = Tg_Markdown"

definition note_of :: "notification_command \<Rightarrow> tg_note" where
  "note_of n = \<lparr>tn_text = nc_text n, tn_parse_mode = map_option tg_mode_of (nc_parse_mode n),
     tn_disable_notification = nc_disable_notification n, tn_disable_preview = nc_disable_web_page_preview n,
     tn_thread = nc_message_thread_id n\<rparr>"

definition thread_ok :: "int option \<Rightarrow> bool" where
  "thread_ok t \<longleftrightarrow> (case t of None \<Rightarrow> True | Some i \<Rightarrow> 0 < i \<and> i < 2 ^ 53)"

lemma zod_okD:
  assumes "zod_ok Z"
  shows "zod_string Z (JStr s) = Some s" and "zod_boolean Z (JBool b) = Some b"
    and "0 < i \<Longrightarrow> i < 2 ^ 53 \<Longrightarrow> zod_posint Z (JInt i) = Some i"
    and "zod_posint Z j = Some i \<Longrightarrow> 0 < i"
  using assms unfolding zod_ok_def by blast+

lemma read_tg_mode_value [simp]: "read_tg_mode (JStr (parse_mode_value m)) = Some (tg_mode_of m)"
  by (cases m) (simp_all add: read_tg_mode_def PARSE_MODES_def enum_values)

lemma read_payload:
  assumes "zod_ok Z" and "thread_ok (nc_message_thread_id n)"
  shows "notificationMessageSchema Z (notification_payload n) = Some (note_of n)"
proof -
  have "notificationMessageSchema Z (notification_payload
      \<lparr>nc_text = t, nc_parse_mode = pm, nc_disable_notification = dn, nc_disable_web_page_preview = dw,
       nc_message_thread_id = ti\<rparr>) =
      Some \<lparr>tn_text = t, tn_parse_mode = map_option tg_mode_of pm, tn_disable_notification = dn,
        tn_disable_preview = dw, tn_thread = ti\<rparr>" if "thread_ok ti" for t pm dn dw ti
    using that
    by (cases pm; cases dn; cases dw; cases ti)
      (simp_all add: notificationMessageSchema_def notification_payload_def dump_notification_def
        required_def optional_field_def zod_okD [OF assms(1)] thread_ok_def)
  with assms(2) show ?thesis by (cases n) (simp add: note_of_def)
qed

lemma js_length_tg_len: "int (js_length t) = tg_len t"
  by (induction t) (auto simp: js_length_def tg_len_def cp_width_def)

text \<open>The first code point of every text is the emoji of its header, whatever is cut off.\<close>

lemma header_first: "\<exists>t. tg_truncate (0x1f9e9 # rest) 4096 = 0x1f9e9 # t"
proof -
  have w: "cp_width 0x1f9e9 = 2" by (simp add: cp_width_def)
  show ?thesis
  proof (cases "tg_len (0x1f9e9 # rest) \<le> 4096")
    case True
    then show ?thesis by (simp only: tg_truncate_id) simp
  next
    case False
    obtain u where u: "kept_prefix 4095 0 (0x1f9e9 # rest) = 0x1f9e9 # u" by (simp add: w)
    have "\<not> is_space 0x1f9e9" by (simp add: is_space_def space_cps_def)
    then have "rstrip (0x1f9e9 # u) \<noteq> []" by (simp add: rstrip_def dropWhile_eq_Nil_conv)
    moreover from this have "hd (rstrip (0x1f9e9 # u)) = 0x1f9e9" using hd_append_rstrip by fastforce
    ultimately have "\<exists>v. rstrip (0x1f9e9 # u) = 0x1f9e9 # v" by (metis list.collapse)
    with False u show ?thesis by (auto simp: tg_truncate_def)
  qed
qed

lemma text_first: "\<exists>t. ln_text (build_notification l a) = 0x1f9e9 # t"
proof -
  have "\<exists>r. notification_header l = 0x1f9e9 # r" by (simp add: notification_header_def Let_def)
  then obtain r where "notification_header l = 0x1f9e9 # r" by blast
  then have "\<exists>r'. py_join SEPARATOR (if notification_summary l a \<noteq> []
      then [notification_header l, notification_summary l a, notification_meta l a]
      else [notification_header l, notification_meta l a]) = 0x1f9e9 # r'" by simp
  then obtain r' where "py_join SEPARATOR (if notification_summary l a \<noteq> []
      then [notification_header l, notification_summary l a, notification_meta l a]
      else [notification_header l, notification_meta l a]) = 0x1f9e9 # r'" by blast
  then show ?thesis using header_first [of r'] by (simp add: build_notification_def Let_def MAX_TEXT_LENGTH_def)
qed

lemma text_len: "tg_len (ln_text (build_notification l a)) \<le> 4096"
  using tg_truncate_len [of _ MAX_TEXT_LENGTH] by (simp add: build_notification_def Let_def MAX_TEXT_LENGTH_def)

lemma built_sendable: "sendable (note_of (core_command (build_notification l a)))"
proof -
  obtain t where t: "ln_text (build_notification l a) = 0x1f9e9 # t" using text_first by blast
  have "\<not> js_space 0x1f9e9" by (simp add: js_space_def)
  moreover have "int (js_length (ln_text (build_notification l a))) \<le> 4096"
    unfolding js_length_tg_len by (rule text_len)
  ultimately show ?thesis by (simp add: sendable_def note_of_def core_command_def t)
qed

definition payload_body :: "listing \<Rightarrow> assessment \<Rightarrow> json" where
  "payload_body l a = notification_payload (core_command (build_notification l a))"

lemma parse_built:
  assumes "zod_ok (tw_zod W)"
  shows "parseNotificationMessage W (Document (payload_body l a)) = Inr (note_of (core_command (build_notification l a)))"
proof -
  have "\<exists>fs. payload_body l a = JObj fs"
    by (simp add: payload_body_def notification_payload_def dump_notification_def)
  then have "coerceToObject W (Document (payload_body l a)) = Some (payload_body l a)"
    by (auto simp: coerceToObject_def)
  moreover have "thread_ok (nc_message_thread_id (core_command (build_notification l a)))"
    by (simp add: thread_ok_def core_command_def)
  ultimately show ?thesis
    using read_payload [OF assms] by (simp add: parseNotificationMessage_def payload_body_def)
qed

text \<open>The integers that zod takes are the positive ones up to the largest safe one.\<close>

definition zod_safe :: "zod \<Rightarrow> bool" where
  "zod_safe Z \<longleftrightarrow> (\<forall>i. \<not> (0 < i \<and> i < 2 ^ 53) \<longrightarrow> zod_posint Z (JInt i) = None)"

lemma zod_safe_strict: "zod_safe strict_zod"
  by (auto simp: zod_safe_def strict_zod_def)

lemma reject_topic:
  assumes "zod_ok Z" and "zod_safe Z" and "\<not> thread_ok (nc_message_thread_id n)"
  shows "notificationMessageSchema Z (notification_payload n) = None"
proof -
  obtain i where i: "nc_message_thread_id n = Some i" "\<not> (0 < i \<and> i < 2 ^ 53)"
    using assms(3) by (auto simp: thread_ok_def split: option.splits)
  have "zod_posint Z (JInt i) = None"
    using assms(2) i(2) by (simp add: zod_safe_def)
  then have "notificationMessageSchema Z (notification_payload
      \<lparr>nc_text = t, nc_parse_mode = pm, nc_disable_notification = dn, nc_disable_web_page_preview = dw,
       nc_message_thread_id = Some i\<rparr>) = None" for t pm dn dw
    by (cases pm; cases dn; cases dw)
      (simp_all add: notificationMessageSchema_def notification_payload_def dump_notification_def
        required_def optional_field_def zod_okD [OF assms(1)])
  with i(1) show ?thesis by (cases n) simp
qed

text \<open>core takes any integer for a topic and passes it on, and a topic of 0 makes the message one to be dead-lettered.\<close>

lemma topic_of_zero_rejected:
  "zod_ok Z \<Longrightarrow> zod_safe Z \<Longrightarrow>
    notificationMessageSchema Z (notification_payload (n\<lparr>nc_message_thread_id := Some 0\<rparr>)) = None"
  by (rule reject_topic) (simp_all add: thread_ok_def)

text \<open>C36. The services agree on the notification but for its topic: a command that core publishes is read back by
  notifications with every field when it has no topic or one between 1 and the largest safe integer of
  JavaScript, and is rejected as a whole otherwise; and every text that llm builds is valid for
  notifications too, neither blank nor longer than Telegram takes.\<close>

theorem notification_contract:
  assumes "zod_ok Z" and "zod_safe Z"
  shows "notificationMessageSchema Z (notification_payload n) =
      (if thread_ok (nc_message_thread_id n) then Some (note_of n) else None) \<and>
    createNotification (note_of (core_command (build_notification l a))) =
      Inr (note_of (core_command (build_notification l a)))"
  using read_payload [OF assms(1)] reject_topic [OF assms] built_sendable by (simp add: createNotification_Inr)

theorem notification_contract_witness:
  "notificationMessageSchema strict_zod (notification_payload \<lparr>nc_text = lit ''hi'', nc_parse_mode = Some MarkdownV2,
      nc_disable_notification = Some True, nc_disable_web_page_preview = None, nc_message_thread_id = Some 7\<rparr>) =
    Some \<lparr>tn_text = lit ''hi'', tn_parse_mode = Some Tg_MarkdownV2, tn_disable_notification = Some True,
      tn_disable_preview = None, tn_thread = Some 7\<rparr>"
  using notification_contract [OF zod_ok_strict zod_safe_strict, of "\<lparr>nc_text = lit ''hi'', nc_parse_mode = Some MarkdownV2,
      nc_disable_notification = Some True, nc_disable_web_page_preview = None, nc_message_thread_id = Some 7\<rparr>"]
  by (simp add: thread_ok_def note_of_def)

section \<open>The exchange\<close>

definition notify_wired :: "core_settings \<Rightarrow> topology_config \<Rightarrow> bool" where
  "notify_wired S c \<longleftrightarrow> cms_notify_exchange (cs_messaging S) = tc_exchange c \<and>
     cms_notify_routing_key (cs_messaging S) = tc_routing_key c"

text \<open>A message published with a \<open>publisher\<close> on a named exchange, as the queues bound to it get it.\<close>

definition published_to :: "amqp_op list \<Rightarrow> publisher \<Rightarrow> json \<Rightarrow> pool" where
  "published_to ops p j = (case pub_exchange p of
     Some x \<Rightarrow> routed ops (rx_name x) (pub_routing_key p) \<lparr>am_headers = None, am_body = Document j\<rparr>
   | None \<Rightarrow> [])"

lemma wired_pool:
  assumes "notify_wired S (sv_topology V)" and "names_apart (sv_topology V)"
  shows "published_to (sv_ops V) (core_notify_publisher S) j =
    [(tc_queue (sv_topology V), \<lparr>am_headers = None, am_body = Document j\<rparr>)]"
  using assms(1) route_facts(1) [OF assms(2)]
  by (simp add: notify_wired_def published_to_def core_notify_publisher_def build_notify_publisher_def
      notifications_exchange_def)

text \<open>core declares the exchange as notifications does, and the defaults of the two services meet.\<close>

lemma exchange_agrees:
  "notify_wired S c \<Longrightarrow> pub_exchange (core_notify_publisher S) = Some x \<Longrightarrow>
    Exchange_declare x \<in> set (declareTopology c)"
  by (auto simp: notify_wired_def core_notify_publisher_def build_notify_publisher_def notifications_exchange_def
      declareTopology_def direct_exchange_def)

lemma notify_wired_default: "notify_wired default_core_settings default_topology_config"
  by (simp add: notify_wired_def default_core_settings_def default_core_messaging_def default_topology_config_def)

text \<open>Of all the publishers of core and llm only this one does not ask the broker to keep its messages on disk.\<close>

lemma notifications_not_persistent:
  "\<not> pub_persist (core_notify_publisher S)" "pub_persist (core_assess_publisher S)" "pub_persist (core_dlq S)"
  "pub_persist (lc_result (llm_wiring L profile))" "pub_persist (lc_retry (llm_wiring L profile))"
  by (simp_all add: core_notify_publisher_def build_notify_publisher_def core_assess_publisher_def
      build_assess_request_publisher_def default_publisher_def core_dlq_def build_dlq_publisher_def llm_wiring_def
      build_result_publisher_def build_retry_publisher_def)

section \<open>To Telegram\<close>

lemma deliver_built:
  assumes "zod_ok (tw_zod W)" and "\<forall>url body. answered_ok W (length (tg_posts s)) (url, body)"
  shows "\<exists>t. sv_handle W V \<lparr>am_headers = hs, am_body = Document (payload_body l a)\<rparr> s = (Inr ACK, t) \<and>
    tg_posts t = tg_posts s @ [(ts_endpoint (sv_sender V),
      buildPayload (sv_sender V) (note_of (core_command (build_notification l a))))] \<and> tg_dead t = tg_dead s"
proof -
  let ?n = "note_of (core_command (build_notification l a))"
  let ?t = "s\<lparr>tg_counts := recordReceived (tg_counts s), tg_posts := tg_posts s @ [(ts_endpoint (sv_sender V), buildPayload (sv_sender V) ?n)]\<rparr>"
  obtain status answer where f: "tw_fetch W (length (tg_posts s)) (ts_endpoint (sv_sender V)) (buildPayload (sv_sender V) ?n) =
      Fetched status answer" "200 \<le> status" "status \<le> 299" "member ''ok'' answer \<noteq> Some (JBool False)"
    using assms(2) [rule_format, of "ts_endpoint (sv_sender V)" "buildPayload (sv_sender V) ?n"] by (auto simp: answered_ok_def)
  have sent: "tg_send W (sv_sender V) ?n (tg_count recordReceived s) = (Inr (), ?t)"
    using f by (simp add: tg_send_def Let_def tg_count_def)
  have "createNotification ?n = Inr ?n" using built_sendable by (simp add: createNotification_Inr)
  then have "sv_handle W V \<lparr>am_headers = hs, am_body = Document (payload_body l a)\<rparr> s =
      (Inr ACK, tg_count recordDelivered (tg_say Debug_l ''notification delivered'' [] ?t))"
    by (simp add: sv_handle_def tg_handle_def tg_decide_def parse_built [OF assms(1)] tg_execute_def sent applyDecision_def)
  then show ?thesis by simp
qed


text \<open>What the Bot API is asked to send for an order: the text of llm, as HTML, without a preview.\<close>

lemma built_request:
  "buildPayload T (note_of (core_command (build_notification li a))) = JObj ([(lit ''chat_id'', JStr (ts_chat_id T)),
     (lit ''text'', JStr (ln_text (build_notification li a)))] @ opt_field ''message_thread_id'' JInt (ts_thread T) @
     [(lit ''parse_mode'', JStr (lit ''HTML'')),
      (lit ''link_preview_options'', JObj [(lit ''is_disabled'', JBool True)])])"
proof -
  have "tg_mode_value Tg_HTML = lit ''HTML''" by (simp add: tg_mode_value.simps)
  then show ?thesis
    by (simp add: buildPayload_def note_of_def core_command_def build_notification_def Let_def opt_field_def)
qed

text \<open>What the chat is sent in the end, after the requests \<open>s\<close> already made.\<close>

abbreviation chat_reached :: "tg_world \<Rightarrow> broker_env \<Rightarrow> tg_service \<Rightarrow> core_settings \<Rightarrow> json \<Rightarrow> listing \<Rightarrow> assessment \<Rightarrow>
    tg_state \<Rightarrow> tg_state \<Rightarrow> bool" where
  "chat_reached T B V S j li a s t \<equiv>
    calm_step T B V (published_to (sv_ops V) (core_notify_publisher S) j, s) ([], t) \<and>
    tg_posts t = tg_posts s @ [(ts_endpoint (sv_sender V), JObj ([(lit ''chat_id'', JStr (ts_chat_id (sv_sender V))),
      (lit ''text'', JStr (ln_text (build_notification li a)))] @
      opt_field ''message_thread_id'' JInt (ts_thread (sv_sender V)) @ [(lit ''parse_mode'', JStr (lit ''HTML'')),
      (lit ''link_preview_options'', JObj [(lit ''is_disabled'', JBool True)])]))] \<and> tg_dead t = tg_dead s"

lemma chat_run:
  assumes "wired S L" and "notify_wired S (sv_topology V)" and "names_apart (sv_topology V)"
    and "reachable S L profile (c, l)" and "works S W U" and "suitable S L profile W U m w li a (c, l)"
    and "broker_ok B" and "zod_ok (tw_zod T)" and "\<forall>url body. answered_ok T (length (tg_posts s)) (url, body)"
  shows "\<exists>request mid reply final j t. delivered S L profile repr W U m li a (c, l) request mid reply final \<and>
    (core_notify_publisher S, j) \<in> set (rt_out (fst final)) \<and> chat_reached T B V S j li a s t"
proof -
  let ?j = "payload_body li a" and ?q = "tc_queue (sv_topology V)"
  obtain request mid reply final where run: "delivered S L profile repr W U m li a (c, l) request mid reply final"
      "(core_notify_publisher S, ?j) \<in> set (rt_out (fst final))"
    using delivery [OF assms(1,4,5,6), of repr] unfolding payload_body_def by metis
  obtain t where t: "sv_handle T V \<lparr>am_headers = None, am_body = Document ?j\<rparr> s = (Inr ACK, t)"
      "tg_posts t = tg_posts s @ [(ts_endpoint (sv_sender V),
        buildPayload (sv_sender V) (note_of (core_command (build_notification li a))))]" "tg_dead t = tg_dead s"
    using deliver_built [OF assms(8,9)] by blast
  have "calm_step T B V (published_to (sv_ops V) (core_notify_publisher S) ?j, s) ([], t)"
    using calm_step.deliver [OF t(1) refl, of B "[]" "[]"]
    by (simp add: wired_pool [OF assms(2,3)] settled_cases [OF assms(7,3)] new_dead_simps t(3))
  with run t(2,3) show ?thesis unfolding built_request by blast
qed

lemma sample_answers: "\<forall>url body. answered_ok sample_tg n (url, body)"
  by (simp add: answered_ok_def sample_tg_def member_def)

end
