(* ===== verification/Board.thy ===== *)
theory Board
  imports Telegram ParserLife
begin

text \<open>
  From the timer to the chat: the command of the scheduler, the page the parser makes of it, and the
  order of that page followed by Delivery and Telegram to the chat.
\<close>

section \<open>A request for one page\<close>

definition parser_wired :: "scheduler_settings \<Rightarrow> parser_config \<Rightarrow> core_settings \<Rightarrow> bool" where
  "parser_wired Sch cfg S \<longleftrightarrow> sg_parse_queue (ss_scheduler Sch) = pf_request_queue cfg \<and>
     pf_result_exchange cfg = [] \<and> pf_result_routing_key cfg = cms_parse_queue (cs_messaging S)"

lemma parser_wired_default: "parser_wired default_scheduler_settings default_parser_config default_core_settings"
  by (simp add: parser_wired_def default_scheduler_settings_def default_scheduler_group_def default_parser_config_def
      from_env_def parser_env_def default_core_settings_def default_core_messaging_def)

text \<open>There is a session, the board's next answer is \<open>page\<close>, its last one, and publishing raises no error.\<close>

definition board_offers :: "parser_world \<Rightarrow> parser_config \<Rightarrow> rs_request \<Rightarrow> parser_state \<Rightarrow> board_page \<Rightarrow> bool" where
  "board_offers X cfg r s page \<longleftrightarrow> (\<exists>ck. pw_cookies X (n_cookies s) = Inr ck \<and>
     page_of X (pw_http X (length (ps_requests s)) (board_request X cfg (rq_filter r) ck None)) = Inr page) \<and>
     bp_next_cursor page = None \<and> (\<exists>c. pw_publish X (n_published s) = Sent c)"

definition page_result :: "rs_request \<Rightarrow> board_page \<Rightarrow> rs_result" where
  "page_result r page = \<lparr>re_request_id = rq_request_id r, re_fetched_at = bp_server_ts page,
     re_total_count = bp_total_count page, re_next_cursor = None, re_orders = bp_orders page\<rparr>"

lemma offer_executes:
  assumes "board_offers X cfg r s page"
  shows "\<exists>t. parser_execute X cfg r s = (Inr (page_result r page), t)"
proof -
  obtain n where n: "unat (page_limit r) = Suc n" using page_limit_pos [of r] by (cases "unat (page_limit r)") auto
  show ?thesis
    using assms unfolding board_offers_def
    by (auto simp: parser_execute_def get_cookies_def n board_fetch_def Let_def add_page_def nothing_collected_def
        publish_result_def result_of_def page_result_def)
qed

lemma tick_delivered:
  assumes "parser_wired Sch cfg S" and "serde_ok (pw_serde X)" and "fits_u32 (Some (sg_parse_max_pages (ss_scheduler Sch)))"
    and "board_offers X cfg (request_of (command_at Sch SW i)) s page"
  shows "\<exists>t. parser_deliver X cfg (Inr (snd (request_at Sch SW i))) s = (Basic_ack, t) \<and>
    ps_out t = ps_out s @ [([], cms_parse_queue (cs_messaging S),
      dump_parse_result (wire_of (page_result (request_of (command_at Sch SW i)) page)))]"
proof -
  let ?c = "command_at Sch SW i"
  have "fits_u32 (Some (bf_page_size (pc_filter ?c)))" "fits_u32 (pc_max_pages ?c)"
    using assms(3) by (simp_all add: command_at_def BoardFilter_def fits_u32_def)
  then have "decode_request (pw_serde X) (Inr (snd (request_at Sch SW i))) = Inr (request_of ?c)"
    using scheduled_request [OF assms(2)] by (simp add: decode_request_def request_at_def)
  moreover obtain t where t: "parser_execute X cfg (request_of ?c) s = (Inr (page_result (request_of ?c) page), t)"
    using offer_executes [OF assms(4)] by blast
  ultimately have "parser_deliver X cfg (Inr (snd (request_at Sch SW i))) s = (Basic_ack, t)" by (simp add: parser_deliver_def)
  then show ?thesis
    using result_contract(1) [OF assms(2) pydantic_ok_strict t] assms(1) by (auto simp: parser_wired_def)
qed

section \<open>From end to end\<close>

text \<open>C1. From the timer to the chat: when the five services are wired together, the request of a tick goes to the queue of the
  parser; if there is a session and the board offers one new order, the parser acknowledges the request
  and publishes one result to the queue of core; and if the model finds the order suitable, that very
  document ends, through core, llm and core again, in exactly one request to the Bot API with the
  text llm built for the order.\<close>

theorem board_order_reaches_telegram:
  fixes Sch SW i page X cfg
  defines "r \<equiv> request_of (command_at Sch SW i)"
  defines "m \<equiv> wire_of (page_result r page)"
  assumes "parser_wired Sch cfg S" and "wired S L" and "notify_wired S (sv_topology V)" and "names_apart (sv_topology V)"
    and "serde_ok (pw_serde X)" and "fits_u32 (Some (sg_parse_max_pages (ss_scheduler Sch)))" and "board_offers X cfg r x page"
    and "reachable S L profile (c, l)" and "works S W U" and "suitable S L profile W U m w li a (c, l)"
    and "broker_ok B" and "zod_ok (tw_zod T)" and "\<forall>url body. answered_ok T (length (tg_posts s)) (url, body)"
  shows "routes_to (pf_request_queue cfg) (fst (request_at Sch SW i)) \<and>
    (\<exists>y. parser_deliver X cfg (Inr (snd (request_at Sch SW i))) x = (Basic_ack, y) \<and>
      ps_out y = ps_out x @ [([], cms_parse_queue (cs_messaging S), dump_parse_result m)]) \<and>
    (\<exists>request mid reply final j t. delivered S L profile repr W U m li a (c, l) request mid reply final \<and>
      (core_notify_publisher S, j) \<in> set (rt_out (fst final)) \<and> chat_reached T B V S j li a s t)"
proof (intro conjI)
  show "routes_to (pf_request_queue cfg) (fst (request_at Sch SW i))"
    using assms(3) by (simp add: parser_wired_def routes_to_def request_at_def scheduler_schedule_def build_scheduler_def)
  show "\<exists>y. parser_deliver X cfg (Inr (snd (request_at Sch SW i))) x = (Basic_ack, y) \<and>
      ps_out y = ps_out x @ [([], cms_parse_queue (cs_messaging S), dump_parse_result m)]"
    using tick_delivered [OF assms(3,7,8)] assms(9) unfolding r_def m_def by blast
qed (rule chat_run [OF assms(4,5,6,10,11,12,13,14,15)])

section \<open>Witness\<close>

text \<open>The sample board, whose first page was asked for before.\<close>

definition second_page :: board_page where
  "second_page = \<lparr>bp_orders = [plain_order ''2''], bp_next_cursor = None, bp_total_count = 2, bp_server_ts = 5\<rparr>"

definition asked_before :: parser_state where
  "asked_before = parser_start\<lparr>ps_requests := [\<lparr>hq_url = [], hq_headers = [], hq_body = JNull\<rparr>]\<rparr>"

lemma sample_offers: "board_offers sample_parser default_parser_config r asked_before second_page"
proof -
  have "pw_cookies sample_parser n = Inr \<lparr>ck_header = lit ''c'', ck_status = lit ''ok''\<rparr>" "pw_publish sample_parser n = Sent Not_requested" for n
    by (simp_all add: sample_parser_def)
  then show ?thesis by (simp add: board_offers_def asked_before_def parser_start_def sample_pages second_page_def)
qed

lemma uuid_length: "length (uuid_hex u) = 32"
  by (simp add: uuid_hex_def del: upt_rec_numeral)

lemma second_suitable:
  "\<exists>li a. suitable default_core_settings default_llm_settings tiny_profile sample_world willing_llm
     (wire_of (page_result (request_of (command_at default_scheduler_settings sample_scheduler i)) second_page))
     (wire_order_of (plain_order ''2'')) li a (core_start, llm_start)"
proof -
  have w: "wo_id (wire_order_of (plain_order ''2'')) = lit ''2''" by (simp add: wire_order_of_def plain_order_def)
  obtain li where li: "order_to_listing (wire_order_of (plain_order ''2'')) = Inr li" "ls_id li = lit ''2''"
    by (simp add: wire_order_of_def plain_order_def order_to_listing_def)
  obtain a where a: "verdict willing_llm tiny_profile 0 li = Inr a" "as_suitability_score a = 90" "as_unsupported_hits a = []"
      "\<not> as_is_rejected_type a"
    by (simp add: willing_llm_def sample_llm_defs)
  show ?thesis
    using li a uuid_length
    by (intro exI [of _ li] exI [of _ a])
      (simp add: suitable_def abs_orders_None wire_of_def page_result_def second_page_def core_start_def llm_start_def
        storable_def deliverable_def request_of_def command_at_def
        sample_world_def calm_env_def varchar_ok_def int32_ok_def int64_ok_def incoming_def outcome_of_def
        fresh_ids_def empty_db_def decide_notify default_core_settings_def default_llm_settings_def
        destination_value.simps source_value_len w lit_def)
qed

theorem board_order_reaches_telegram_witness:
  "\<exists>y (c :: pg) j t. parser_deliver sample_parser default_parser_config
       (Inr (snd (request_at default_scheduler_settings sample_scheduler 0))) asked_before = (Basic_ack, y) \<and>
     length (ps_out y) = 1 \<and> (core_notify_publisher default_core_settings, j) \<in> set (rt_out c) \<and>
     calm_step sample_tg sample_broker sample_service
       (published_to (sv_ops sample_service) (core_notify_publisher default_core_settings) j, tg_start) ([], t) \<and>
     length (tg_posts t) = 1"
proof -
  obtain li a where s: "suitable default_core_settings default_llm_settings tiny_profile sample_world willing_llm
     (wire_of (page_result (request_of (command_at default_scheduler_settings sample_scheduler 0)) second_page))
     (wire_order_of (plain_order ''2'')) li a (core_start, llm_start)"
    using second_suitable by blast
  have V: "notify_wired default_core_settings (sv_topology sample_service)" "names_apart (sv_topology sample_service)"
      "zod_ok (tw_zod sample_tg)" "serde_ok (pw_serde sample_parser)"
      "fits_u32 (Some (sg_parse_max_pages (ss_scheduler default_scheduler_settings)))"
    unfolding sample_parts by (simp_all add: names_apart_default notify_wired_default sample_tg_def zod_ok_strict
        sample_parser_def serde_ok_strict fits_u32_def default_scheduler_settings_def default_scheduler_group_def)
  have empty: "ps_out asked_before = []" "tg_posts tg_start = []"
    by (simp_all add: asked_before_def parser_start_def tg_start_def)
  from board_order_reaches_telegram [where s = tg_start and repr = exn_text, OF parser_wired_default wired_default V(1,2,4,5)
      sample_offers reachable_start works_sample s broker_ok_sample V(3) sample_answers]
  obtain y fin j t x x' where "parser_deliver sample_parser default_parser_config
       (Inr (snd (request_at default_scheduler_settings sample_scheduler 0))) asked_before = (Basic_ack, y)"
      and "ps_out y = ps_out asked_before @ [x]"
      and "(core_notify_publisher default_core_settings, j) \<in> set (rt_out (fin :: pg))"
      and "calm_step sample_tg sample_broker sample_service
        (published_to (sv_ops sample_service) (core_notify_publisher default_core_settings) j, tg_start) ([], t)"
      and "tg_posts t = tg_posts tg_start @ [x']"
    by (elim exE conjE) (rule that)
  then show ?thesis unfolding empty by (metis One_nat_def append_Nil length_Cons list.size(3))
qed

end
