(* ===== verification/NotifyApp.thy ===== *)
theory NotifyApp
  imports NotifyLife
begin

text \<open>
  notifications as a process: its configuration (src/infrastructure/config/config.ts), the consumer
  and the publisher it creates (createNotificationConsumer of consumer.ts), the router of its health
  server (src/infrastructure/http/server.ts), and start and shutdown (src/main.ts). Of zod and of
  JavaScript's \<open>Number\<close> what is not written out is in the record \<open>env_world\<close>.
\<close>

section \<open>Reading the environment\<close>

type_synonym tg_env = "ustr \<Rightarrow> ustr option"

text \<open>
  \<open>ew_number\<close>: the safe integer that \<open>Number\<close> makes of a text that is neither blank nor a short
  string of digits, if it makes one. \<open>ew_issues\<close>: the messages for a variable and the value it has
  (none, if it is missing) where the code gives no message of its own. \<open>ew_stack\<close>: \<open>err.stack\<close>.
\<close>

record env_world =
  ew_number :: "ustr \<Rightarrow> int option"
  ew_issues :: "string \<Rightarrow> ustr option \<Rightarrow> ustr list"
  ew_stack :: "js_error \<Rightarrow> ustr option"

type_synonym 'a env_read = "ustr list + 'a"

definition ascii_digit :: "nat \<Rightarrow> bool" where
  "ascii_digit c \<longleftrightarrow> 48 \<le> c \<and> c < 58"

text \<open>\<open>z.coerce.number().int()\<close>: \<open>Number\<close> ignores white space around the text and makes 0 of a blank one.\<close>

definition coerced_int :: "env_world \<Rightarrow> ustr \<Rightarrow> int option" where
  "coerced_int W v = (let t = js_trim v in
     if t = [] then Some 0
     else if list_all ascii_digit t \<and> digits_value t < 2 ^ 53 then Some (int (digits_value t))
     else ew_number W t)"

definition required_text :: "env_world \<Rightarrow> tg_env \<Rightarrow> string \<Rightarrow> ustr env_read" where
  "required_text W env k = (case env (lit k) of
     None \<Rightarrow> Inl (ew_issues W k None)
   | Some v \<Rightarrow> if v = [] then Inl [lit k @ lit '' is required''] else Inr v)"

definition text_or :: "env_world \<Rightarrow> tg_env \<Rightarrow> string \<Rightarrow> string \<Rightarrow> ustr env_read" where
  "text_or W env k d = (case env (lit k) of
     None \<Rightarrow> Inr (lit d)
   | Some v \<Rightarrow> if v = [] then Inl (ew_issues W k (Some v)) else Inr v)"

definition starts_with :: "string \<Rightarrow> ustr \<Rightarrow> bool" where
  "starts_with p v \<longleftrightarrow> take (length p) v = lit p"

definition url_or :: "tg_env \<Rightarrow> string \<Rightarrow> string \<Rightarrow> ustr env_read" where
  "url_or env k d = (case env (lit k) of
     None \<Rightarrow> Inr (lit d)
   | Some v \<Rightarrow> if starts_with ''http://'' v \<or> starts_with ''https://'' v then Inr v
       else Inl [lit ''must start with http:// or https://''])"

definition int_in :: "env_world \<Rightarrow> (int \<Rightarrow> bool) \<Rightarrow> string \<Rightarrow> ustr \<Rightarrow> int env_read" where
  "int_in W ok k v = (case coerced_int W v of
     Some i \<Rightarrow> if ok i then Inr i else Inl (ew_issues W k (Some v))
   | None \<Rightarrow> Inl (ew_issues W k (Some v)))"

definition int_or :: "env_world \<Rightarrow> tg_env \<Rightarrow> (int \<Rightarrow> bool) \<Rightarrow> string \<Rightarrow> int \<Rightarrow> int env_read" where
  "int_or W env ok k d = (case env (lit k) of None \<Rightarrow> Inr d | Some v \<Rightarrow> int_in W ok k v)"

definition optional_int :: "env_world \<Rightarrow> tg_env \<Rightarrow> (int \<Rightarrow> bool) \<Rightarrow> string \<Rightarrow> int option env_read" where
  "optional_int W env ok k = (case env (lit k) of None \<Rightarrow> Inr None | Some v \<Rightarrow> map_sum id Some (int_in W ok k v))"

definition level_or :: "env_world \<Rightarrow> tg_env \<Rightarrow> string \<Rightarrow> tg_level \<Rightarrow> tg_level env_read" where
  "level_or W env k d = (case env (lit k) of
     None \<Rightarrow> Inr d
   | Some v \<Rightarrow> (case List.find (\<lambda>l. tg_level_value l = v) [Debug_l, Info_l, Warn_l, Error_l] of
       Some l \<Rightarrow> Inr l | None \<Rightarrow> Inl (ew_issues W k (Some v))))"

text \<open>The issues of one variable, each as the code prints it; \<open>None\<close> when the value was accepted.\<close>

definition blame :: "string \<Rightarrow> 'a env_read \<Rightarrow> ustr list option" where
  "blame k r = (case r of Inl ms \<Rightarrow> Some (map (\<lambda>m. lit k @ lit '': '' @ m) ms) | Inr _ \<Rightarrow> None)"

section \<open>The configuration\<close>

record telegram_config =
  tgc_bot_token :: ustr
  tgc_chat_id :: ustr
  tgc_base_url :: ustr
  tgc_timeout_ms :: int
  tgc_thread :: "int option"

record rabbit_config =
  rc_url :: ustr
  rc_prefetch :: int
  rc_concurrency :: int

record app_config =
  ac_telegram :: telegram_config
  ac_rabbit :: rabbit_config
  ac_topology :: topology_config
  ac_max_attempts :: int
  ac_host :: ustr
  ac_port :: int
  ac_log_level :: tg_level

abbreviation positive :: "int \<Rightarrow> bool" where "positive i \<equiv> 0 < i"

definition port_number :: "int \<Rightarrow> bool" where "port_number i \<longleftrightarrow> 0 \<le> i \<and> i \<le> 65535"

text \<open>Every variable is read, in the order of the schema; any issue makes a \<open>ConfigError\<close> of them all.\<close>

definition loadConfig :: "env_world \<Rightarrow> tg_env \<Rightarrow> js_error + app_config" where
  "loadConfig W env =
     (let token = required_text W env ''TELEGRAM_BOT_TOKEN'';
          chat = required_text W env ''TELEGRAM_CHAT_ID'';
          base = url_or env ''TELEGRAM_API_BASE_URL'' ''https://api.telegram.org'';
          timeout = int_or W env positive ''TELEGRAM_TIMEOUT_MS'' 10000;
          thread = optional_int W env positive ''TELEGRAM_MESSAGE_THREAD_ID'';
          url = required_text W env ''RABBITMQ_URL'';
          prefetch = int_or W env positive ''RABBITMQ_PREFETCH'' 10;
          concurrency = int_or W env positive ''RABBITMQ_CONCURRENCY'' 5;
          exchange = text_or W env ''NOTIFY_EXCHANGE'' ''notifications'';
          queue = text_or W env ''NOTIFY_QUEUE'' ''notifications'';
          key = text_or W env ''NOTIFY_ROUTING_KEY'' ''notify'';
          retry_exchange = text_or W env ''NOTIFY_RETRY_EXCHANGE'' ''notifications.retry'';
          retry_queue = text_or W env ''NOTIFY_RETRY_QUEUE'' ''notifications.retry'';
          dlx = text_or W env ''NOTIFY_DLX'' ''notifications.dlx'';
          dlq = text_or W env ''NOTIFY_DLQ'' ''notifications.dlq'';
          attempts = int_or W env positive ''NOTIFY_MAX_ATTEMPTS'' 5;
          delay = int_or W env positive ''NOTIFY_RETRY_DELAY_MS'' 30000;
          host = text_or W env ''HTTP_HOST'' ''0.0.0.0'';
          port = int_or W env port_number ''HTTP_PORT'' 3000;
          level = level_or W env ''LOG_LEVEL'' Info_l;
          issues = [blame ''TELEGRAM_BOT_TOKEN'' token, blame ''TELEGRAM_CHAT_ID'' chat,
            blame ''TELEGRAM_API_BASE_URL'' base, blame ''TELEGRAM_TIMEOUT_MS'' timeout,
            blame ''TELEGRAM_MESSAGE_THREAD_ID'' thread, blame ''RABBITMQ_URL'' url,
            blame ''RABBITMQ_PREFETCH'' prefetch, blame ''RABBITMQ_CONCURRENCY'' concurrency,
            blame ''NOTIFY_EXCHANGE'' exchange, blame ''NOTIFY_QUEUE'' queue, blame ''NOTIFY_ROUTING_KEY'' key,
            blame ''NOTIFY_RETRY_EXCHANGE'' retry_exchange, blame ''NOTIFY_RETRY_QUEUE'' retry_queue,
            blame ''NOTIFY_DLX'' dlx, blame ''NOTIFY_DLQ'' dlq, blame ''NOTIFY_MAX_ATTEMPTS'' attempts,
            blame ''NOTIFY_RETRY_DELAY_MS'' delay, blame ''HTTP_HOST'' host, blame ''HTTP_PORT'' port,
            blame ''LOG_LEVEL'' level]
      in if list_all (\<lambda>i. i = None) issues
         then Inr \<lparr>
           ac_telegram = \<lparr>tgc_bot_token = projr token, tgc_chat_id = projr chat, tgc_base_url = projr base,
             tgc_timeout_ms = projr timeout, tgc_thread = projr thread\<rparr>,
           ac_rabbit = \<lparr>rc_url = projr url, rc_prefetch = projr prefetch, rc_concurrency = projr concurrency\<rparr>,
           ac_topology = \<lparr>tc_exchange = projr exchange, tc_queue = projr queue, tc_routing_key = projr key,
             tc_retry_exchange = projr retry_exchange, tc_retry_queue = projr retry_queue, tc_dlx = projr dlx,
             tc_dlq = projr dlq, tc_retry_delay_ms = projr delay\<rparr>,
           ac_max_attempts = projr attempts, ac_host = projr host, ac_port = projr port, ac_log_level = projr level\<rparr>
         else Inl (ConfigError (lit ''Invalid configuration: '' @
           py_join (lit ''; '') (concat (map (\<lambda>i. case i of None \<Rightarrow> [] | Some ms \<Rightarrow> ms) issues)))))"

lemma blame_None: "blame k r = None \<longleftrightarrow> \<not> isl r"
  by (auto simp: blame_def split: sum.split)

text \<open>What every accepted configuration satisfies.\<close>

definition config_ok :: "app_config \<Rightarrow> bool" where
  "config_ok c \<longleftrightarrow> (let t = ac_topology c in
     list_all (\<lambda>v. v \<noteq> []) [tgc_bot_token (ac_telegram c), tgc_chat_id (ac_telegram c), rc_url (ac_rabbit c),
       tc_exchange t, tc_queue t, tc_routing_key t, tc_retry_exchange t, tc_retry_queue t, tc_dlx t, tc_dlq t, ac_host c] \<and>
     list_all positive [tgc_timeout_ms (ac_telegram c), rc_prefetch (ac_rabbit c), rc_concurrency (ac_rabbit c),
       ac_max_attempts c, tc_retry_delay_ms t] \<and>
     (starts_with ''http://'' (tgc_base_url (ac_telegram c)) \<or> starts_with ''https://'' (tgc_base_url (ac_telegram c))) \<and>
     (case tgc_thread (ac_telegram c) of None \<Rightarrow> True | Some i \<Rightarrow> 0 < i) \<and> port_number (ac_port c))"

lemma env_reads:
  "\<not> isl (required_text W env k) \<Longrightarrow> projr (required_text W env k) \<noteq> []"
  "\<not> isl (text_or W env k d) \<Longrightarrow> d \<noteq> [] \<Longrightarrow> projr (text_or W env k d) \<noteq> []"
  "\<not> isl (int_or W env positive k i) \<Longrightarrow> 0 < i \<Longrightarrow> 0 < projr (int_or W env positive k i)"
  "\<not> isl (int_or W env port_number k i) \<Longrightarrow> port_number i \<Longrightarrow> port_number (projr (int_or W env port_number k i))"
  "\<not> isl (url_or env k d) \<Longrightarrow> starts_with ''https://'' (lit d) \<Longrightarrow>
    starts_with ''http://'' (projr (url_or env k d)) \<or> starts_with ''https://'' (projr (url_or env k d))"
  "\<not> isl (optional_int W env positive k) \<Longrightarrow>
    (case projr (optional_int W env positive k) of None \<Rightarrow> True | Some j \<Rightarrow> 0 < j)"
  by (auto simp: required_text_def text_or_def int_or_def int_in_def url_or_def optional_int_def lit_def
      split: option.splits if_splits)

lemma port_default: "port_number 3000"
  by (simp add: port_number_def)

lemma default_base: "starts_with ''https://'' (lit ''https://api.telegram.org'')"
  by (simp add: starts_with_def lit_def)

lemma loadConfig_ok:
  assumes "loadConfig W env = Inr c"
  shows "config_ok c"
proof -
  have split: "(if P then Inr R else Inl e) = Inr c \<longleftrightarrow> P \<and> c = R" for P R and e :: js_error by auto
  show ?thesis
    using assms
    unfolding loadConfig_def Let_def split list.pred_inject blame_None
    by (elim conjE) (simp add: config_ok_def env_reads port_default default_base)
qed


section \<open>The consumer and the publisher\<close>

record consumer_options =
  co_queue :: rabbit_queue
  co_prefetch :: int
  co_concurrency :: int
  co_requeue :: bool

record publisher_options =
  po_confirm :: bool
  po_max_attempts :: nat
  po_exchanges :: "rabbit_exchange list"

definition createNotificationConsumer :: "topology_config \<Rightarrow> rabbit_config \<Rightarrow> consumer_options \<times> publisher_options" where
  "createNotificationConsumer t r =
     (\<lparr>co_queue = \<lparr>rq_name = tc_queue t, rq_durable = True, rq_arguments = [
          (lit ''x-dead-letter-exchange'', JStr (tc_retry_exchange t)),
          (lit ''x-dead-letter-routing-key'', JStr (tc_routing_key t))]\<rparr>,
        co_prefetch = rc_prefetch r, co_concurrency = rc_concurrency r, co_requeue = consumer_requeue\<rparr>,
      \<lparr>po_confirm = True, po_max_attempts = 3,
        po_exchanges = [\<lparr>rx_name = tc_dlx t, rx_type = DIRECT, rx_durable = True\<rparr>]\<rparr>)"

section \<open>The health server\<close>

text \<open>An answer: status, body, and the content type where the code names one.\<close>

record health_response =
  hr_status :: nat
  hr_body :: ustr
  hr_content_type :: "ustr option"

definition status_json :: "string \<Rightarrow> ustr" where
  "status_json v = lit ''{'' @ [34] @ lit ''status'' @ [34] @ lit '':'' @ [34] @ lit v @ [34] @ lit ''}''"

definition createHealthRequestHandler :: "bool \<Rightarrow> bool \<Rightarrow> tg_metrics \<Rightarrow> ustr \<Rightarrow> ustr \<Rightarrow> health_response" where
  "createHealthRequestHandler live ready metrics http_method pathname =
     (if http_method \<notin> {lit ''GET'', lit ''HEAD''}
      then \<lparr>hr_status = 405, hr_body = lit ''method not allowed'', hr_content_type = None\<rparr>
      else if pathname \<in> {lit ''/health'', lit ''/healthz'', lit ''/livez''}
      then (if live then \<lparr>hr_status = 200, hr_body = status_json ''ok'', hr_content_type = None\<rparr>
            else \<lparr>hr_status = 503, hr_body = status_json ''down'', hr_content_type = None\<rparr>)
      else if pathname \<in> {lit ''/ready'', lit ''/readyz''}
      then (if ready then \<lparr>hr_status = 200, hr_body = status_json ''ready'', hr_content_type = None\<rparr>
            else \<lparr>hr_status = 503, hr_body = status_json ''not-ready'', hr_content_type = None\<rparr>)
      else if pathname = lit ''/metrics''
      then \<lparr>hr_status = 200, hr_body = render_metrics metrics,
             hr_content_type = Some (lit ''text/plain; version=0.0.4; charset=utf-8'')\<rparr>
      else \<lparr>hr_status = 404, hr_body = lit ''not found'', hr_content_type = None\<rparr>)"

section \<open>Start\<close>

text \<open>
  What \<open>main\<close> asks of the platform, in its order. Each may fail. (The listener that declares the
  topology on every connection does the same operations once more.)
\<close>

datatype boot_act =
    Connect_act ustr
  | Topology_act amqp_op
  | Consume_act consumer_options publisher_options
  | Serve_act ustr int

definition boot_plan :: "app_config \<Rightarrow> boot_act list" where
  "boot_plan c =
     (let (consumer, publisher) = createNotificationConsumer (ac_topology c) (ac_rabbit c) in
      Connect_act (rc_url (ac_rabbit c)) # map Topology_act (declareTopology (ac_topology c)) @
      [Consume_act consumer publisher, Serve_act (ac_host c) (ac_port c)])"

fun boot :: "(boot_act \<Rightarrow> js_error option) \<Rightarrow> boot_act list \<Rightarrow> (js_error + unit) \<times> boot_act list" where
  "boot fails [] = (Inr (), [])"
| "boot fails (a # as) = (case fails a of Some e \<Rightarrow> (Inl e, [])
     | None \<Rightarrow> (let (r, done) = boot fails as in (r, a # done)))"

text \<open>A failure ends in \<open>process.exit(1)\<close> after one line on standard error.\<close>

definition fatal_line :: "env_world \<Rightarrow> js_error \<Rightarrow> fields" where
  "fatal_line W e = [(lit ''level'', JStr (lit ''error'')), (lit ''service'', JStr (lit ''notifications'')),
     (lit ''message'', JStr (lit ''fatal startup error'')),
     (lit ''reason'', JStr (case e of NotAnError m \<Rightarrow> m
        | _ \<Rightarrow> (case ew_stack W e of Some t \<Rightarrow> t | None \<Rightarrow> error_message e)))]"

datatype start_outcome = Exited int fields | Serving tg_service

definition sender_of :: "telegram_config \<Rightarrow> telegram_sender" where
  "sender_of t = TelegramNotificationSender \<lparr>to_bot_token = tgc_bot_token t, to_chat_id = tgc_chat_id t,
     to_base_url = Some (tgc_base_url t), to_timeout_ms = Some (tgc_timeout_ms t), to_thread = tgc_thread t\<rparr>"

definition tg_main :: "env_world \<Rightarrow> (boot_act \<Rightarrow> js_error option) \<Rightarrow> tg_env \<Rightarrow> start_outcome \<times> boot_act list" where
  "tg_main W fails env = (case loadConfig W env of
     Inl e \<Rightarrow> (Exited 1 (fatal_line W e), [])
   | Inr c \<Rightarrow> (case boot fails (boot_plan c) of
       (Inl e, done) \<Rightarrow> (Exited 1 (fatal_line W e), done)
     | (Inr _, done) \<Rightarrow> (Serving \<lparr>sv_sender = sender_of (ac_telegram c), sv_topology = ac_topology c,
         sv_max_attempts = ac_max_attempts c\<rparr>, done)))"

lemma boot_take:
  "boot fails as = (r, done) \<Longrightarrow> \<exists>k. done = take k as \<and> k \<le> length as \<and>
     (case r of Inr _ \<Rightarrow> k = length as \<and> list_all (\<lambda>a. fails a = None) as
      | Inl e \<Rightarrow> k < length as \<and> fails (as ! k) = Some e \<and> list_all (\<lambda>a. fails a = None) (take k as))"
proof (induction as arbitrary: r "done")
  case (Cons a as)
  show ?case
  proof (cases "fails a")
    case None
    with Cons.prems obtain d where "boot fails as = (r, d)" "done = a # d" by (auto split: prod.splits)
    moreover from Cons.IH [OF this(1)] obtain k where "d = take k as" "k \<le> length as"
        "case r of Inr _ \<Rightarrow> k = length as \<and> list_all (\<lambda>a. fails a = None) as
         | Inl e \<Rightarrow> k < length as \<and> fails (as ! k) = Some e \<and> list_all (\<lambda>a. fails a = None) (take k as)"
      by blast
    ultimately show ?thesis using None by (intro exI [of _ "Suc k"]) (auto split: sum.splits)
  qed (use Cons.prems in \<open>auto intro!: exI [of _ 0]\<close>)
qed simp

section \<open>Shutdown\<close>

datatype resource = The_consumer | The_publisher | The_connection | The_server

record main_state =
  ms_shutting_down :: bool
  ms_closed :: "resource list"
  ms_exit :: "int option"
  ms_log :: "tg_entry list"

fun close_all :: "(resource \<Rightarrow> js_error option) \<Rightarrow> resource list \<Rightarrow> main_state \<Rightarrow> main_state" where
  "close_all fails [] s = s\<lparr>ms_log := ms_log s @ [(Info_l, lit ''shutdown complete'', [])], ms_exit := Some 0\<rparr>"
| "close_all fails (r # rs) s = (case fails r of
     None \<Rightarrow> close_all fails rs (s\<lparr>ms_closed := ms_closed s @ [r]\<rparr>)
   | Some e \<Rightarrow> s\<lparr>ms_log := ms_log s @ [(Error_l, lit ''error during shutdown'', [(lit ''reason'', JStr (error_message e))])],
       ms_exit := Some 1\<rparr>)"

definition tg_shutdown :: "(resource \<Rightarrow> js_error option) \<Rightarrow> ustr \<Rightarrow> main_state \<Rightarrow> main_state" where
  "tg_shutdown fails signal s =
     (if ms_shutting_down s then s
      else close_all fails [The_consumer, The_publisher, The_connection, The_server]
        (s\<lparr>ms_shutting_down := True,
           ms_log := ms_log s @ [(Info_l, lit ''shutting down'', [(lit ''signal'', JStr signal)])]\<rparr>))"

lemma shutdown_once: "tg_shutdown fails' signal' (tg_shutdown fails signal s) = tg_shutdown fails signal s"
proof -
  have "ms_shutting_down (close_all fails rs u) = ms_shutting_down u" for rs u
    by (induction fails rs u rule: close_all.induct) (auto split: option.split)
  then show ?thesis by (simp add: tg_shutdown_def del: close_all.simps)
qed


text \<open>What was closed is a prefix of consumer, publisher, connection and server; the exit code says whether it is all.\<close>

lemma shutdown_order:
  assumes "\<not> ms_shutting_down s" and "ms_closed s = []"
  shows "\<exists>k. ms_closed (tg_shutdown fails signal s) = take k [The_consumer, The_publisher, The_connection, The_server] \<and>
    ms_exit (tg_shutdown fails signal s) = Some (if k = 4 then 0 else 1) \<and> k \<le> 4"
proof -
  have "\<exists>k. ms_closed (close_all fails rs u) = ms_closed u @ take k rs \<and> k \<le> length rs \<and>
      ms_exit (close_all fails rs u) = Some (if k = length rs then 0 else 1)" for rs u
  proof (induction fails rs u rule: close_all.induct)
    case (2 fails r rs s)
    show ?case
    proof (cases "fails r")
      case None
      from 2 [OF None] obtain k where "ms_closed (close_all fails rs (s\<lparr>ms_closed := ms_closed s @ [r]\<rparr>)) =
          (ms_closed s @ [r]) @ take k rs" "k \<le> length rs"
          "ms_exit (close_all fails rs (s\<lparr>ms_closed := ms_closed s @ [r]\<rparr>)) = Some (if k = length rs then 0 else 1)"
        by auto
      with None show ?thesis by (intro exI [of _ "Suc k"]) simp
    qed (intro exI [of _ 0], simp)
  qed simp
  note closed = this
  let ?rs = "[The_consumer, The_publisher, The_connection, The_server]"
  let ?u = "s\<lparr>ms_shutting_down := True, ms_log := ms_log s @ [(Info_l, lit ''shutting down'', [(lit ''signal'', JStr signal)])]\<rparr>"
  have run: "tg_shutdown fails signal s = close_all fails ?rs ?u" using assms(1) by (simp only: tg_shutdown_def if_False)
  have "ms_closed ?u = []" using assms(2) by simp
  moreover have "length ?rs = 4" by simp
  ultimately show ?thesis using closed [of ?rs ?u] unfolding run by (metis append_Nil)
qed

section \<open>Theorems\<close>

text \<open>The hint of a 429 answer changes neither the decision nor the delay, which is the one of the retry queue.\<close>

lemma retry_hint_unused:
  "onSendError most (TransientDeliveryError m hint) attempt s = onSendError most (TransientDeliveryError m None) attempt s"
  by (simp add: onSendError_def)

lemma plan_parts:
  "boot_plan c = Connect_act (rc_url (ac_rabbit c)) # map Topology_act (declareTopology (ac_topology c)) @
     [Consume_act (fst (createNotificationConsumer (ac_topology c) (ac_rabbit c)))
        (snd (createNotificationConsumer (ac_topology c) (ac_rabbit c))), Serve_act (ac_host c) (ac_port c)]"
  by (simp add: boot_plan_def split: prod.split)

lemma declared_before:
  assumes "Consume_act o' p \<in> set (take k (boot_plan c))"
  shows "Topology_act ` set (declareTopology (ac_topology c)) \<subseteq> set (take k (boot_plan c))"
    and "o' = fst (createNotificationConsumer (ac_topology c) (ac_rabbit c))"
proof -
  let ?pre = "Connect_act (rc_url (ac_rabbit c)) # map Topology_act (declareTopology (ac_topology c))"
  let ?rest = "[Consume_act (fst (createNotificationConsumer (ac_topology c) (ac_rabbit c)))
        (snd (createNotificationConsumer (ac_topology c) (ac_rabbit c))), Serve_act (ac_host c) (ac_port c)]"
  have plan: "take k (boot_plan c) = take k ?pre @ take (k - length ?pre) ?rest"
    unfolding plan_parts by (metis append_Cons take_append)
  have "Consume_act o' p \<notin> set (take k ?pre)" using set_take_subset [of k ?pre] by auto
  with assms have inr: "Consume_act o' p \<in> set (take (k - length ?pre) ?rest)" unfolding plan by simp
  then have "length ?pre \<le> k" by (cases "length ?pre \<le> k") auto
  then have "take k ?pre = ?pre" by simp
  then show "Topology_act ` set (declareTopology (ac_topology c)) \<subseteq> set (take k (boot_plan c))" unfolding plan by auto
  show "o' = fst (createNotificationConsumer (ac_topology c) (ac_rabbit c))"
    using inr set_take_subset [of "k - length ?pre" ?rest] by auto
qed

lemma consumer_queue:
  "co_queue (fst (createNotificationConsumer t r)) = main_queue t" "\<not> co_requeue (fst (createNotificationConsumer t r))"
  by (simp_all add: createNotificationConsumer_def main_queue_def consumer_requeue_def)

text \<open>The process serves exactly when every variable is valid and every operation of its start succeeds, and then
  with at least one attempt per message; otherwise it exits with 1, after the operations before the
  one that failed, or none if the configuration was rejected. However the start ends, no consumer
  was created before all exchanges, queues and bindings were declared, and each consumes from the
  declared main queue and does not requeue.\<close>

theorem notifications_start:
  assumes "tg_main W fails env = (outcome, done)"
  shows "(case outcome of
      Serving V \<Rightarrow> \<exists>c. loadConfig W env = Inr c \<and> config_ok c \<and> sv_topology V = ac_topology c \<and> 0 < sv_max_attempts V \<and>
        done = boot_plan c \<and> list_all (\<lambda>a. fails a = None) done
    | Exited code line \<Rightarrow> code = 1 \<and>
        ((\<exists>e. loadConfig W env = Inl e \<and> line = fatal_line W e \<and> done = []) \<or>
         (\<exists>c k e. loadConfig W env = Inr c \<and> done = take k (boot_plan c) \<and> k < length (boot_plan c) \<and>
           fails (boot_plan c ! k) = Some e \<and> line = fatal_line W e))) \<and>
    (\<forall>o' p. Consume_act o' p \<in> set done \<longrightarrow> \<not> co_requeue o' \<and> (\<exists>t. co_queue o' = main_queue t \<and>
      Topology_act ` set (declareTopology t) \<subseteq> set done))"
proof (cases "loadConfig W env")
  case (Inl e)
  with assms show ?thesis by (auto simp: tg_main_def)
next
  case (Inr c)
  obtain r d where b: "boot fails (boot_plan c) = (r, d)" by (cases "boot fails (boot_plan c)")
  with assms Inr have d: "done = d" by (auto simp: tg_main_def split: sum.splits)
  obtain k where k: "done = take k (boot_plan c)" "k \<le> length (boot_plan c)"
      "case r of Inr _ \<Rightarrow> k = length (boot_plan c) \<and> list_all (\<lambda>a. fails a = None) (boot_plan c)
       | Inl e \<Rightarrow> k < length (boot_plan c) \<and> fails (boot_plan c ! k) = Some e \<and> list_all (\<lambda>a. fails a = None) (take k (boot_plan c))"
    using boot_take [OF b] d by blast
  have "\<not> co_requeue o' \<and> (\<exists>t. co_queue o' = main_queue t \<and> Topology_act ` set (declareTopology t) \<subseteq> set done)"
    if "Consume_act o' p \<in> set done" for o' p
    using declared_before [of o' p k c] that unfolding k(1) by (auto simp: consumer_queue)
  moreover have "0 < ac_max_attempts c" "config_ok c"
    using loadConfig_ok [OF Inr] by (simp_all add: config_ok_def Let_def)
  ultimately show ?thesis
    using assms Inr b k by (cases r) (auto simp: tg_main_def intro!: exI [of _ k])
qed

lemma blank_text: "list_all js_space v \<Longrightarrow> coerced_int W v = Some 0"
  by (simp add: coerced_int_def js_trim_empty)

text \<open>A variable for the default topic that is set but left blank, as the comment in .env.example asks of who wants
  none, stops the service: JavaScript reads the blank text as 0, the schema wants a positive number,
  and the process exits with 1 before it asks anything of the broker.\<close>

theorem blank_topic_stops_start:
  assumes "env (lit ''TELEGRAM_MESSAGE_THREAD_ID'') = Some v" and "list_all js_space v"
  shows "\<exists>details. loadConfig W env = Inl (ConfigError (lit ''Invalid configuration: '' @ details)) \<and>
    tg_main W fails env = (Exited 1 (fatal_line W (ConfigError (lit ''Invalid configuration: '' @ details))), [])"
proof -
  have "isl (optional_int W env positive ''TELEGRAM_MESSAGE_THREAD_ID'')"
    using assms by (simp add: optional_int_def int_in_def blank_text)
  moreover have "loadConfig W env = Inr c \<Longrightarrow> \<not> isl (optional_int W env positive ''TELEGRAM_MESSAGE_THREAD_ID'')" for c
    unfolding loadConfig_def Let_def by (simp add: blame_None split: if_splits)
  moreover have "loadConfig W env = Inl e \<Longrightarrow> \<exists>details. e = ConfigError (lit ''Invalid configuration: '' @ details)" for e
    unfolding loadConfig_def Let_def by (auto split: if_splits)
  ultimately obtain details where "loadConfig W env = Inl (ConfigError (lit ''Invalid configuration: '' @ details))"
    by (cases "loadConfig W env") blast+
  then show ?thesis by (simp add: tg_main_def)
qed


section \<open>Witnesses\<close>

definition sample_env_world :: env_world where
  "sample_env_world = \<lparr>ew_number = (\<lambda>_. None), ew_issues = (\<lambda>_ _. [lit ''invalid'']), ew_stack = (\<lambda>_. None)\<rparr>"

definition required_env :: tg_env where
  "required_env = map_of [(lit ''TELEGRAM_BOT_TOKEN'', lit ''t''), (lit ''TELEGRAM_CHAT_ID'', lit ''c''),
     (lit ''RABBITMQ_URL'', lit ''amqp://localhost'')]"

definition default_app_config :: app_config where
  "default_app_config = \<lparr>
     ac_telegram = \<lparr>tgc_bot_token = lit ''t'', tgc_chat_id = lit ''c'', tgc_base_url = lit ''https://api.telegram.org'',
       tgc_timeout_ms = 10000, tgc_thread = None\<rparr>,
     ac_rabbit = \<lparr>rc_url = lit ''amqp://localhost'', rc_prefetch = 10, rc_concurrency = 5\<rparr>,
     ac_topology = default_topology_config, ac_max_attempts = 5, ac_host = lit ''0.0.0.0'', ac_port = 3000,
     ac_log_level = Info_l\<rparr>"

text \<open>With the three required variables alone the rest has its defaults.\<close>

lemma loadConfig_defaults: "loadConfig W required_env = Inr default_app_config"
  unfolding loadConfig_def Let_def
  by (simp add: required_env_def blame_def required_text_def text_or_def url_or_def int_or_def optional_int_def
      level_or_def default_app_config_def default_topology_config_def) (simp add: lit_def)

lemma tg_main_defaults:
  "tg_main sample_env_world (\<lambda>_. None) required_env =
    (Serving \<lparr>sv_sender = sender_of (ac_telegram default_app_config), sv_topology = default_topology_config,
      sv_max_attempts = 5\<rparr>, boot_plan default_app_config)"
proof -
  have "boot (\<lambda>_. None) as = (Inr (), as)" for as by (induction as) simp_all
  then show ?thesis by (simp add: tg_main_def loadConfig_defaults) (simp add: default_app_config_def)
qed

theorem notifications_start_witness:
  "\<exists>o' p. Consume_act o' p \<in> set (boot_plan default_app_config) \<and> \<not> co_requeue o' \<and>
    (\<exists>t. co_queue o' = main_queue t \<and> Topology_act ` set (declareTopology t) \<subseteq> set (boot_plan default_app_config))"
proof -
  have "\<exists>o' p. Consume_act o' p \<in> set (boot_plan default_app_config)" unfolding plan_parts by auto
  with notifications_start [OF tg_main_defaults] show ?thesis by blast
qed

theorem blank_topic_stops_start_witness:
  "\<exists>line. tg_main sample_env_world (\<lambda>_. None) (required_env(lit ''TELEGRAM_MESSAGE_THREAD_ID'' \<mapsto> [])) = (Exited 1 line, [])"
  using blank_topic_stops_start [of "required_env(lit ''TELEGRAM_MESSAGE_THREAD_ID'' \<mapsto> [])" "[]" sample_env_world "\<lambda>_. None"]
  by auto

end
