(* ===== verification/Asgi.thy ===== *)
theory Asgi
  imports Runtime UrlQuote
begin

text \<open>
  What the three applications share: the answers of their HTTP routes and the declaration of queues
  when they start. FastStream, uvicorn and the broker are not under src/: whether a ping or a
  declaration succeeds is a parameter, and so is the answer \<open>make_ping_asgi\<close> gives for a ping.
\<close>

record response =
  rs_body :: "nat list"
  rs_status :: nat
  rs_headers :: "(string \<times> ustr) list"

definition AsgiResponse :: "nat list \<Rightarrow> nat \<Rightarrow> (string \<times> ustr) list \<Rightarrow> response" where
  "AsgiResponse body status headers = \<lparr>rs_body = body, rs_status = status, rs_headers = headers\<rparr>"

type_synonym routes = "(string \<times> (exn + response)) list"

text \<open>\<open>make_ping_asgi(broker, timeout=5.0)\<close> as a function of the ping.\<close>

definition ping_route :: "(bool \<Rightarrow> response) \<Rightarrow> exn + bool \<Rightarrow> exn + response" where
  "ping_route answer ping = map_sum id answer ping"

record service =
  declared :: "rabbit_queue list"

definition declare_queue :: "(rabbit_queue \<Rightarrow> exn + unit) \<Rightarrow> rabbit_queue \<Rightarrow> ('z service_scheme, unit) act" where
  "declare_queue broker q = bind_act (lift_act (broker q)) (\<lambda>_. modify_act (\<lambda>s. s\<lparr>declared := declared s @ [q]\<rparr>))"

lemma declare_queue_apply: "declare_queue broker q s = (case broker q of Inl e \<Rightarrow> (Inl e, s)
    | Inr _ \<Rightarrow> (Inr (), s\<lparr>declared := declared s @ [q]\<rparr>))"
  by (simp add: declare_queue_def bind_act_def split: sum.split)

text \<open>Queues declared one after the other: all of them, or those before the first that fails.\<close>

lemma declare_queues:
  "for_each (declare_queue broker) qs s = (r, t) \<Longrightarrow>
    \<exists>k. t = s\<lparr>declared := declared s @ take k qs\<rparr> \<and> k \<le> length qs \<and>
      (case r of Inr _ \<Rightarrow> k = length qs | Inl e \<Rightarrow> k < length qs \<and> broker (qs ! k) = Inl e)"
proof (induction qs arbitrary: s)
  case Nil
  then show ?case by auto
next
  case (Cons q qs)
  show ?case
  proof (cases "broker q")
    case (Inl e)
    with Cons.prems have "r = Inl e" "t = s" by (simp_all add: declare_queue_apply bind_act_def)
    with Inl show ?thesis by (intro exI [of _ 0]) simp
  next
    case (Inr u)
    then have "for_each (declare_queue broker) qs (s\<lparr>declared := declared s @ [q]\<rparr>) = (r, t)"
      using Cons.prems declare_queue_apply [of broker q s] by (simp add: bind_act_def)
    from Cons.IH [OF this] obtain k where
      "t = s\<lparr>declared := (declared s @ [q]) @ take k qs\<rparr>" "k \<le> length qs"
      "case r of Inr _ \<Rightarrow> k = length qs | Inl e \<Rightarrow> k < length qs \<and> broker (qs ! k) = Inl e" by auto
    then show ?thesis by (intro exI [of _ "Suc k"]) (auto split: sum.splits)
  qed
qed

end
