(* ===== verification/CoreLife.thy ===== *)
theory CoreLife
  imports CoreMessaging Asgi
begin

text \<open>
  order-core-service: start and stop. The poller object \<open>OutboxRelay\<close> (outbox/relay.py) with its
  asyncio task, as a step relation between the task, the request to cancel it and the caller that
  waits in \<open>stop\<close>; and the two hooks of main.py. A task that is cancelled gets \<open>CancelledError\<close> at
  the await it is at: in the pause, or somewhere in \<open>run_once\<close>, which unwinds and may come out with
  that exception or with another one.
\<close>

section \<open>The poller object\<close>

datatype phase = Polling | Napping | Ended exn

record relay_obj =
  ro_task :: "phase option"
  ro_cancel :: bool
  ro_stopping :: bool
  ro_stopped :: "(exn + unit) option"

definition OutboxRelay :: relay_obj where
  "OutboxRelay = \<lparr>ro_task = None, ro_cancel = False, ro_stopping = False, ro_stopped = None\<rparr>"

definition relay_start :: "relay_obj \<Rightarrow> relay_obj" where
  "relay_start s = s\<lparr>ro_task := Some Polling, ro_cancel := False\<rparr>"

text \<open>Where the loop goes when \<open>run_once\<close> is over: on to the pause, or out with what is no \<open>Exception\<close>.\<close>

definition after_poll :: "exn + nat \<Rightarrow> phase" where
  "after_poll r = (case r of Inr _ \<Rightarrow> Napping | Inl e \<Rightarrow> if is_Exception e then Napping else Ended e)"

text \<open>\<open>stop\<close> up to its await, and what comes after it.\<close>

definition relay_stop :: "relay_obj \<Rightarrow> relay_obj" where
  "relay_stop s = (case ro_task s of
     None \<Rightarrow> s\<lparr>ro_stopped := Some (Inr ())\<rparr>
   | Some (Ended e) \<Rightarrow> s\<lparr>ro_stopping := True\<rparr>
   | Some _ \<Rightarrow> s\<lparr>ro_stopping := True, ro_cancel := True\<rparr>)"

definition relay_joined :: "exn \<Rightarrow> relay_obj \<Rightarrow> relay_obj" where
  "relay_joined e s = (if e = CancelledError
     then s\<lparr>ro_stopping := False, ro_task := None, ro_stopped := Some (Inr ())\<rparr>
     else s\<lparr>ro_stopping := False, ro_stopped := Some (Inl e)\<rparr>)"

text \<open>
  \<open>polled\<close> are the ways a poll left alone can end, \<open>unwound\<close> those of a poll that is cancelled.
\<close>

inductive life_step :: "(exn + nat \<Rightarrow> bool) \<Rightarrow> (exn + nat \<Rightarrow> bool) \<Rightarrow> relay_obj \<Rightarrow> relay_obj \<Rightarrow> bool"
  for polled unwound where
  poll_ends: "ro_task s = Some Polling \<Longrightarrow> \<not> ro_cancel s \<Longrightarrow> polled r \<Longrightarrow>
    life_step polled unwound s (s\<lparr>ro_task := Some (after_poll r)\<rparr>)"
| nap_ends: "ro_task s = Some Napping \<Longrightarrow> \<not> ro_cancel s \<Longrightarrow> life_step polled unwound s (s\<lparr>ro_task := Some Polling\<rparr>)"
| poll_cancelled: "ro_task s = Some Polling \<Longrightarrow> ro_cancel s \<Longrightarrow> unwound r \<Longrightarrow>
    life_step polled unwound s (s\<lparr>ro_task := Some (after_poll r), ro_cancel := False\<rparr>)"
| nap_cancelled: "ro_task s = Some Napping \<Longrightarrow> ro_cancel s \<Longrightarrow>
    life_step polled unwound s (s\<lparr>ro_task := Some (Ended CancelledError), ro_cancel := False\<rparr>)"
| stop_joins: "ro_task s = Some (Ended e) \<Longrightarrow> ro_stopping s \<Longrightarrow> life_step polled unwound s (relay_joined e s)"

inductive_cases life_step_cases: "life_step polled unwound s t"

section \<open>Stopping\<close>

definition clean_cancel :: "exn + nat \<Rightarrow> bool" where
  "clean_cancel r \<longleftrightarrow> r = Inl CancelledError"

text \<open>How many steps \<open>stop\<close> is from its return.\<close>

definition stop_rank :: "relay_obj \<Rightarrow> nat" where
  "stop_rank s = (case ro_task s of Some (Ended _) \<Rightarrow> 1 | Some _ \<Rightarrow> 2 | None \<Rightarrow> 0)"

text \<open>A poller that is being stopped: it was cancelled, and is not over yet or ended by that.\<close>

definition stopping :: "relay_obj \<Rightarrow> bool" where
  "stopping s \<longleftrightarrow> ro_stopping s \<and> (\<exists>p. ro_task s = Some p \<and>
     (case p of Ended e \<Rightarrow> e = CancelledError \<and> \<not> ro_cancel s | _ \<Rightarrow> ro_cancel s))"

definition stopped :: "relay_obj \<Rightarrow> bool" where
  "stopped s \<longleftrightarrow> ro_task s = None \<and> ro_stopped s = Some (Inr ()) \<and> \<not> ro_stopping s \<and> \<not> ro_cancel s"

lemma stopping_step:
  assumes "stopping s" and "life_step polled clean_cancel s t"
  shows "(stopping t \<and> stop_rank t < stop_rank s) \<or> stopped t"
  using assms(2)
proof cases
  case (poll_cancelled r)
  then show ?thesis using assms(1) by (auto simp: stopping_def clean_cancel_def after_poll_def stop_rank_def)
next
  case nap_cancelled
  then show ?thesis using assms(1) by (auto simp: stopping_def stop_rank_def)
next
  case (stop_joins e)
  then show ?thesis using assms(1) by (auto simp: stopping_def stopped_def relay_joined_def)
qed (use assms(1) in \<open>auto simp: stopping_def\<close>)

lemma stopping_progress: "stopping s \<Longrightarrow> \<exists>t. life_step polled clean_cancel s t"
proof -
  assume s: "stopping s"
  then obtain p where p: "ro_task s = Some p" by (auto simp: stopping_def)
  show ?thesis
  proof (cases p)
    case Polling
    with s p have "life_step polled clean_cancel s (s\<lparr>ro_task := Some (after_poll (Inl CancelledError)), ro_cancel := False\<rparr>)"
      by (intro life_step.poll_cancelled) (auto simp: stopping_def clean_cancel_def)
    then show ?thesis by blast
  next
    case Napping
    with s p show ?thesis by (auto simp: stopping_def intro: life_step.nap_cancelled)
  next
    case (Ended e)
    with s p show ?thesis by (auto simp: stopping_def intro: life_step.stop_joins)
  qed
qed

lemma stopped_final: "stopped s \<Longrightarrow> \<not> life_step polled unwound s t"
  by (auto simp: stopped_def elim: life_step_cases)

text \<open>A poller that runs and that nobody stops yet.\<close>

definition running :: "relay_obj \<Rightarrow> bool" where
  "running s \<longleftrightarrow> (ro_task s = Some Polling \<or> ro_task s = Some Napping) \<and> \<not> ro_cancel s \<and> \<not> ro_stopping s"

lemma stop_running: "running s \<Longrightarrow> stopping (relay_stop s) \<and> stop_rank (relay_stop s) = 2"
  by (auto simp: running_def stopping_def relay_stop_def stop_rank_def)

lemma stopping_run: "(life_step polled clean_cancel ^^ n) s t \<Longrightarrow> stopping s \<Longrightarrow>
    (stopping t \<and> n + stop_rank t \<le> stop_rank s) \<or> (stopped t \<and> n \<le> stop_rank s)"
proof (induction n arbitrary: t)
  case 0
  then show ?case by simp
next
  case (Suc n)
  then obtain u where u: "(life_step polled clean_cancel ^^ n) s u" "life_step polled clean_cancel u t" by auto
  have rank: "0 < stop_rank v" if "stopping v" for v
  proof -
    from that obtain p where "ro_task v = Some p" by (auto simp: stopping_def)
    then show ?thesis by (cases p) (simp_all add: stop_rank_def)
  qed
  have "\<not> stopped u" using stopped_final u(2) by blast
  then have "stopping u" "n + stop_rank u \<le> stop_rank s" using Suc.IH [OF u(1) Suc.prems(2)] by blast+
  with stopping_step [OF _ u(2)] rank show ?case by fastforce
qed

lemma stop_ends:
  assumes "running s" and "(life_step polled clean_cancel ^^ n) (relay_stop s) t"
  shows "n \<le> 2 \<and> ((\<nexists>u. life_step polled clean_cancel t u) \<longleftrightarrow> stopped t)"
proof -
  from stop_running [OF assms(1)] stopping_run [OF assms(2)] have "(stopping t \<or> stopped t) \<and> n \<le> 2" by auto
  with stopping_progress stopped_final show ?thesis by blast
qed

text \<open>C25. Stopping the poller terminates. Whatever it is at when \<open>stop\<close> is called (the middle of a poll or
  the pause), as long as a cancelled poll passes the cancellation on, no run from there has more
  than two steps, every run can go on until \<open>stop\<close> has returned, and when no step is left it has
  returned without an exception and no task is left behind.\<close>

theorem stop_terminates:
  assumes "running s" and "(life_step polled clean_cancel ^^ n) (relay_stop s) t"
  shows "n \<le> 2 \<and> ((\<nexists>u. life_step polled clean_cancel t u) \<longleftrightarrow> stopped t)"
  by (rule stop_ends [OF assms])

definition poller_up :: relay_obj where
  "poller_up = relay_start OutboxRelay"

lemma running_up: "running poller_up"
  by (simp add: poller_up_def relay_start_def OutboxRelay_def running_def)

theorem stop_terminates_witness:
  "\<exists>t. (life_step (\<lambda>_. True) clean_cancel ^^ 2) (relay_stop poller_up) t \<and> stopped t"
proof -
  let ?s = "relay_stop poller_up"
  let ?t1 = "?s\<lparr>ro_task := Some (after_poll (Inl CancelledError)), ro_cancel := False\<rparr>"
  let ?t2 = "relay_joined CancelledError ?t1"
  have "life_step (\<lambda>_. True) clean_cancel ?s ?t1"
    by (rule life_step.poll_cancelled) (simp_all add: poller_up_def relay_start_def OutboxRelay_def relay_stop_def clean_cancel_def)
  moreover have "life_step (\<lambda>_. True) clean_cancel ?t1 ?t2"
    by (rule life_step.stop_joins) (simp_all add: poller_up_def relay_start_def OutboxRelay_def relay_stop_def after_poll_def)
  ultimately have run: "(life_step (\<lambda>_. True) clean_cancel ^^ 2) ?s ?t2" by (auto simp: numeral_2_eq_2)
  have "\<nexists>u. life_step (\<lambda>_. True) clean_cancel ?t2 u"
    by (rule notI) (auto simp: relay_joined_def elim: life_step_cases)
  with stop_terminates [OF running_up run] run show ?thesis by blast
qed

section \<open>A cancellation that is lost\<close>

text \<open>Somebody waits in \<open>stop\<close>, the request to cancel is used up, and the loop goes on.\<close>

definition stuck :: "relay_obj \<Rightarrow> bool" where
  "stuck s \<longleftrightarrow> ro_stopping s \<and> \<not> ro_cancel s \<and> (ro_task s = Some Polling \<or> ro_task s = Some Napping)"

lemma after_poll_goes_on: "r \<noteq> Inl CancelledError \<Longrightarrow> after_poll r = Napping"
proof (cases r)
  case (Inl e)
  assume "r \<noteq> Inl CancelledError"
  with Inl have "is_Exception e" by (cases e) simp_all
  with Inl show ?thesis by (simp add: after_poll_def)
qed (simp add: after_poll_def)

lemma stuck_step: "stuck s \<Longrightarrow> life_step polled unwound s t \<Longrightarrow> \<not> polled (Inl CancelledError) \<Longrightarrow> stuck t \<and> ro_stopped t = ro_stopped s"
  by (erule life_step_cases) (auto simp: stuck_def intro!: after_poll_goes_on)

lemma stuck_run:
  "(life_step polled unwound)\<^sup>*\<^sup>* s t \<Longrightarrow> stuck s \<Longrightarrow> \<not> polled (Inl CancelledError) \<Longrightarrow> stuck t \<and> ro_stopped t = ro_stopped s"
  by (induction rule: rtranclp_induct) (auto dest: stuck_step)

text \<open>A cancellation can be lost. When the poll that is cancelled comes out with an exception of its
  own (the rollback on the way out fails, and its error replaces the cancellation), the poller
  logs it like any other and goes on; nobody cancels it again, so \<open>stop\<close> never returns: whatever
  happens from then on, its caller, the shutdown of the service, still waits.\<close>

theorem lost_cancellation_hangs_stop:
  assumes "running s" and "ro_task s = Some Polling" and "unwound (Inl e)" and "e \<noteq> CancelledError"
    and "\<not> polled (Inl CancelledError)"
  shows "\<exists>t. life_step polled unwound (relay_stop s) t \<and>
    (\<forall>u. (life_step polled unwound)\<^sup>*\<^sup>* t u \<longrightarrow> ro_stopping u \<and> ro_stopped u = ro_stopped s \<and> ro_task u \<noteq> None)"
proof -
  let ?t = "(relay_stop s)\<lparr>ro_task := Some (after_poll (Inl e)), ro_cancel := False\<rparr>"
  have st: "ro_task (relay_stop s) = Some Polling" "ro_cancel (relay_stop s)" "ro_stopping (relay_stop s)"
      "ro_stopped (relay_stop s) = ro_stopped s"
    using assms(2) by (simp_all add: relay_stop_def)
  have "life_step polled unwound (relay_stop s) ?t" by (rule life_step.poll_cancelled [of _ _ "Inl e"]) (use st assms(3) in simp_all)
  moreover have "stuck ?t" using st assms(4) by (simp add: stuck_def after_poll_goes_on)
  then have "ro_stopping u \<and> ro_stopped u = ro_stopped s \<and> ro_task u \<noteq> None" if "(life_step polled unwound)\<^sup>*\<^sup>* ?t u" for u
    using stuck_run [OF that _ assms(5)] st(4) by (auto simp: stuck_def)
  ultimately show ?thesis by blast
qed

text \<open>The dispatch over SQL does that: a poll cancelled while it publishes, with the server gone.\<close>

definition cancelling_bus :: bus_env where
  "cancelling_bus = \<lparr>bus_fault = (\<lambda>_. Some (CancelledError, False))\<rparr>"

definition gone_env :: pg_env where
  "gone_env = calm_env\<lparr>pg_fault := (\<lambda>n. if n = 3 then Some (lit ''connection lost'') else None)\<rparr>"

abbreviation cancelled_poll :: "pg_env \<Rightarrow> (exn + nat) \<times> pg" where
  "cancelled_poll E \<equiv> run_once (sql_dispatch E) (event_publish cancelling_bus to_llm to_bot) 10 after_ingest"

lemma cancelled_poll_outcome:
  "fst (cancelled_poll calm_env) = Inl CancelledError"
  "fst (cancelled_poll gone_env) = Inl (DatabaseError (lit ''connection lost''))"
  unfolding after_ingest_def gone_env_def cancelling_bus_def
  by (simp_all add: relay_defs handler_defs stmt_defs sample_defs assess_key_def lit_def
      destination_value.simps status_value.simps source_value.simps)

theorem lost_cancellation_hangs_stop_witness:
  "\<exists>t. life_step (\<lambda>r. \<exists>k. r = Inr k) (\<lambda>r. r = fst (cancelled_poll gone_env)) (relay_stop poller_up) t \<and>
    (\<forall>u. (life_step (\<lambda>r. \<exists>k. r = Inr k) (\<lambda>r. r = fst (cancelled_poll gone_env)))\<^sup>*\<^sup>* t u \<longrightarrow>
      ro_stopping u \<and> ro_stopped u = ro_stopped poller_up \<and> ro_task u \<noteq> None)"
  by (rule lost_cancellation_hangs_stop [OF running_up _ _ _, where e = "DatabaseError (lit ''connection lost'')"])
    (simp_all add: poller_up_def relay_start_def cancelled_poll_outcome)

section \<open>The hooks of main.py\<close>

record core_app = service +
  ca_relay :: relay_obj
  ca_disposed :: bool

text \<open>
  \<open>_startup\<close>: the dead letter queue first, then the poller; what the broker answers is a parameter.
  \<open>_shutdown\<close> up to its await, and after it.
\<close>

definition core_startup :: "core_settings \<Rightarrow> (rabbit_queue \<Rightarrow> exn + unit) \<Rightarrow> (core_app, unit) act" where
  "core_startup S broker =
     bind_act (declare_queue broker (build_dead_letter_queue (cms_dlq (cs_messaging S)))) (\<lambda>_.
     modify_act (\<lambda>s. s\<lparr>ca_relay := relay_start (ca_relay s)\<rparr>))"

definition core_shutdown :: "core_app \<Rightarrow> core_app" where
  "core_shutdown s = s\<lparr>ca_relay := relay_stop (ca_relay s)\<rparr>"

text \<open>What follows the await: nothing yet, the exception of \<open>stop\<close>, or \<open>engine.dispose()\<close>.\<close>

definition core_shutdown_end :: "core_app \<Rightarrow> (exn + core_app) option" where
  "core_shutdown_end s = map_option (map_sum id (\<lambda>_. s\<lparr>ca_disposed := True\<rparr>)) (ro_stopped (ca_relay s))"

text \<open>The poller never runs without its dead letter queue: a start either fails with the poller not
  running, or has declared the queue and starts the poller. A shutdown, when the cancellation is
  passed on, gets past \<open>stop\<close> and disposes of the engine with no poller left that could use it.\<close>

theorem start_and_stop:
  assumes "core_startup S broker s = (r, t)" and "ca_relay s = OutboxRelay"
  shows "case r of
      Inl e \<Rightarrow> t = s \<and> broker (build_dead_letter_queue (cms_dlq (cs_messaging S))) = Inl e
    | Inr _ \<Rightarrow> declared t = declared s @ [build_dead_letter_queue (cms_dlq (cs_messaging S))] \<and> running (ca_relay t) \<and>
        (\<forall>polled n u. (life_step polled clean_cancel ^^ n) (ca_relay (core_shutdown t)) u \<longrightarrow>
           (\<nexists>v. life_step polled clean_cancel u v) \<longrightarrow>
           core_shutdown_end (t\<lparr>ca_relay := u\<rparr>) = Some (Inr (t\<lparr>ca_relay := u, ca_disposed := True\<rparr>)) \<and> ro_task u = None)"
proof (cases "broker (build_dead_letter_queue (cms_dlq (cs_messaging S)))")
  case (Inl e)
  then have "r = Inl e" "t = s" using assms(1) by (auto simp: core_startup_def declare_queue_apply bind_act_def)
  with Inl show ?thesis by simp
next
  case (Inr u)
  then have r: "r = Inr ()" and t: "ca_relay t = poller_up"
      "declared t = declared s @ [build_dead_letter_queue (cms_dlq (cs_messaging S))]"
    using assms by (auto simp: core_startup_def declare_queue_apply poller_up_def bind_act_def)
  have "core_shutdown_end (t\<lparr>ca_relay := u\<rparr>) = Some (Inr (t\<lparr>ca_relay := u, ca_disposed := True\<rparr>)) \<and> ro_task u = None"
    if "(life_step polled clean_cancel ^^ n) (ca_relay (core_shutdown t)) u" "\<nexists>v. life_step polled clean_cancel u v"
    for polled n u
  proof -
    have "stopped u" using stop_ends [OF running_up, of n polled u] that by (simp add: core_shutdown_def t)
    then show ?thesis by (simp add: stopped_def core_shutdown_end_def)
  qed
  with r t running_up show ?thesis by simp
qed

definition app_start :: core_app where
  "app_start = \<lparr>declared = [], ca_relay = OutboxRelay, ca_disposed = False\<rparr>"

theorem start_and_stop_witness:
  "running (ca_relay (snd (core_startup default_core_settings (\<lambda>_. Inr ()) app_start)))"
proof -
  obtain t where t: "core_startup default_core_settings (\<lambda>_. Inr ()) app_start = (Inr (), t)"
    by (simp add: core_startup_def declare_queue_apply bind_act_def)
  have "running (ca_relay t)" using start_and_stop [OF t] by (simp add: app_start_def)
  then show ?thesis by (simp add: t)
qed

end
