(* ===== verification/LlmProfile.thy ===== *)
theory LlmProfile
  imports LlmPrompts
begin

text \<open>
  llm: the contractor profile the service ships with (infrastructure/config/profile.py), one
  definition per commented section of its lists, in the order of the file.
\<close>

definition strong_terms_1 :: "ustr list" where
  "strong_terms_1 = [
     lit ''Python'',
     [0x43f, 0x438, 0x442, 0x43e, 0x43d],
     [80, 121, 116, 104, 111, 110, 45, 0x440, 0x430, 0x437, 0x440, 0x430, 0x431, 0x43e, 0x442, 0x447, 0x438, 0x43a],
     [80, 121, 116, 104, 111, 110, 32, 0x440, 0x430, 0x437, 0x440, 0x430, 0x431, 0x43e, 0x442, 0x447, 0x438, 0x43a],
     lit ''backend'',
     [0x431, 0x44d, 0x43a, 0x435, 0x43d, 0x434],
     [0x431, 0x435, 0x43a, 0x435, 0x43d, 0x434],
     [0x431, 0x44d, 0x43a],
     [0x441, 0x435, 0x440, 0x432, 0x435, 0x440, 0x43d, 0x430, 0x44f, 32, 0x447, 0x430, 0x441, 0x442, 0x44c],
     [0x440, 0x430, 0x437, 0x440, 0x430, 0x431, 0x43e, 0x442, 0x43a, 0x430, 32, 98, 97, 99, 107, 101, 110, 100],
     [98, 97, 99, 107, 101, 110, 100, 45, 0x440, 0x430, 0x437, 0x440, 0x430, 0x431, 0x43e, 0x442, 0x43a, 0x430],
     [0x440, 0x430, 0x437, 0x440, 0x430, 0x431, 0x43e, 0x442, 0x43a, 0x430, 32, 65, 80, 73],
     [0x441, 0x43e, 0x437, 0x434, 0x430, 0x43d, 0x438, 0x435, 32, 65, 80, 73],
     lit ''REST API'',
     lit ''REST'',
     [0x432, 0x435, 0x431, 45, 0x441, 0x435, 0x440, 0x432, 0x438, 0x441],
     [0x43c, 0x438, 0x43a, 0x440, 0x43e, 0x441, 0x435, 0x440, 0x432, 0x438, 0x441],
     [0x43c, 0x438, 0x43a, 0x440, 0x43e, 0x441, 0x435, 0x440, 0x432, 0x438, 0x441, 0x44b],
     [0x441, 0x435, 0x440, 0x432, 0x435, 0x440, 0x43d, 0x43e, 0x435, 32, 0x43f, 0x440, 0x438, 0x43b, 0x43e, 0x436, 0x435, 0x43d, 0x438, 0x435],
     [0x43b, 0x438, 0x447, 0x43d, 0x44b, 0x439, 32, 0x43a, 0x430, 0x431, 0x438, 0x43d, 0x435, 0x442],
     [0x430, 0x434, 0x43c, 0x438, 0x43d, 45, 0x43f, 0x430, 0x43d, 0x435, 0x43b, 0x44c],
     [0x430, 0x434, 0x43c, 0x438, 0x43d, 0x43a, 0x430],
     [0x43f, 0x430, 0x43d, 0x435, 0x43b, 0x44c, 32, 0x443, 0x43f, 0x440, 0x430, 0x432, 0x43b, 0x435, 0x43d, 0x438, 0x44f],
     lit ''FastAPI'',
     lit ''Django'',
     lit ''Flask'',
     lit ''PostgreSQL'',
     lit ''Postgres'',
     [0x431, 0x430, 0x437, 0x430, 32, 0x434, 0x430, 0x43d, 0x43d, 0x44b, 0x445],
     [0x43f, 0x440, 0x43e, 0x435, 0x43a, 0x442, 0x438, 0x440, 0x43e, 0x432, 0x430, 0x43d, 0x438, 0x435, 32, 0x431, 0x430, 0x437, 0x44b, 32, 0x434, 0x430, 0x43d, 0x43d, 0x44b, 0x445],
     lit ''SQL'',
     lit ''SQLAlchemy'',
     lit ''Redis'',
     lit ''RabbitMQ'',
     [0x43e, 0x447, 0x435, 0x440, 0x435, 0x434, 0x44c, 32, 0x441, 0x43e, 0x43e, 0x431, 0x449, 0x435, 0x43d, 0x438, 0x439],
     [0x444, 0x43e, 0x43d, 0x43e, 0x432, 0x44b, 0x435, 32, 0x437, 0x430, 0x434, 0x430, 0x447, 0x438],
     [0x430, 0x441, 0x438, 0x43d, 0x445, 0x440, 0x43e, 0x43d, 0x43d, 0x430, 0x44f, 32, 0x43e, 0x431, 0x440, 0x430, 0x431, 0x43e, 0x442, 0x43a, 0x430],
     lit ''TaskIQ'',
     lit ''Celery'',
     lit ''Docker'',
     lit ''Docker Compose'']"

definition strong_terms_2 :: "ustr list" where
  "strong_terms_2 = [
     [0x438, 0x43d, 0x442, 0x435, 0x433, 0x440, 0x430, 0x446, 0x438, 0x44f],
     [0x438, 0x43d, 0x442, 0x435, 0x433, 0x440, 0x430, 0x446, 0x438, 0x44f, 32, 0x441, 0x435, 0x440, 0x432, 0x438, 0x441, 0x43e, 0x432],
     [0x438, 0x43d, 0x442, 0x435, 0x433, 0x440, 0x430, 0x446, 0x438, 0x44f, 32, 0x43f, 0x43e, 32, 65, 80, 73],
     [0x43f, 0x43e, 0x434, 0x43a, 0x43b, 0x44e, 0x447, 0x435, 0x43d, 0x438, 0x435, 32, 65, 80, 73],
     [0x440, 0x430, 0x431, 0x43e, 0x442, 0x430, 32, 0x441, 32, 65, 80, 73],
     [0x432, 0x43d, 0x435, 0x448, 0x43d, 0x438, 0x439, 32, 65, 80, 73],
     [0x441, 0x442, 0x43e, 0x440, 0x43e, 0x43d, 0x43d, 0x438, 0x439, 32, 0x441, 0x435, 0x440, 0x432, 0x438, 0x441],
     [0x43e, 0x431, 0x43c, 0x435, 0x43d, 32, 0x434, 0x430, 0x43d, 0x43d, 0x44b, 0x43c, 0x438],
     [0x441, 0x438, 0x43d, 0x445, 0x440, 0x43e, 0x43d, 0x438, 0x437, 0x430, 0x446, 0x438, 0x44f, 32, 0x434, 0x430, 0x43d, 0x43d, 0x44b, 0x445],
     [0x432, 0x435, 0x431, 0x445, 0x443, 0x43a, 0x438],
     lit ''webhook'',
     [0x43d, 0x430, 0x441, 0x442, 0x440, 0x43e, 0x438, 0x442, 0x44c, 32, 0x432, 0x435, 0x431, 0x445, 0x443, 0x43a],
     [0x43f, 0x43e, 0x434, 0x43a, 0x43b, 0x44e, 0x447, 0x438, 0x442, 0x44c, 32, 0x441, 0x435, 0x440, 0x432, 0x438, 0x441],
     [0x441, 0x432, 0x44f, 0x437, 0x430, 0x442, 0x44c, 32, 0x441, 0x435, 0x440, 0x432, 0x438, 0x441, 0x44b],
     [0x438, 0x43d, 0x442, 0x435, 0x433, 0x440, 0x438, 0x440, 0x43e, 0x432, 0x430, 0x442, 0x44c, 32, 0x441, 0x430, 0x439, 0x442],
     [0x438, 0x43d, 0x442, 0x435, 0x433, 0x440, 0x430, 0x446, 0x438, 0x44f, 32, 0x441, 32, 67, 82, 77],
     [67, 82, 77, 45, 0x438, 0x43d, 0x442, 0x435, 0x433, 0x440, 0x430, 0x446, 0x438, 0x438],
     [0x438, 0x43d, 0x442, 0x435, 0x433, 0x440, 0x430, 0x446, 0x438, 0x44f, 32, 0x441, 32, 0x411, 0x438, 0x442, 0x440, 0x438, 0x43a, 0x441, 50, 52],
     lit ''Bitrix24'',
     [0x410, 0x43c, 0x43e, 67, 82, 77],
     lit ''amoCRM'',
     [0x438, 0x43d, 0x442, 0x435, 0x433, 0x440, 0x430, 0x446, 0x438, 0x44f, 32, 0x441, 32, 0x442, 0x435, 0x43b, 0x435, 0x444, 0x43e, 0x43d, 0x438, 0x435, 0x439],
     [0x438, 0x43d, 0x442, 0x435, 0x433, 0x440, 0x430, 0x446, 0x438, 0x44f, 32, 0x441, 32, 0x43f, 0x43b, 0x430, 0x442, 0x435, 0x436, 0x43d, 0x43e, 0x439, 32, 0x441, 0x438, 0x441, 0x442, 0x435, 0x43c, 0x43e, 0x439],
     [0x43f, 0x440, 0x438, 0x435, 0x43c, 32, 0x43f, 0x43b, 0x430, 0x442, 0x435, 0x436, 0x435, 0x439],
     [0x43e, 0x43d, 0x43b, 0x430, 0x439, 0x43d, 45, 0x43e, 0x43f, 0x43b, 0x430, 0x442, 0x430],
     [0x43f, 0x43b, 0x430, 0x442, 0x435, 0x436, 0x43d, 0x44b, 0x439, 32, 0x448, 0x43b, 0x44e, 0x437],
     [0x42e, 75, 97, 115, 115, 97],
     lit ''YooKassa'',
     lit ''CloudPayments'',
     lit ''Stripe'',
     lit ''payment APIs'',
     [0x438, 0x43d, 0x442, 0x435, 0x433, 0x440, 0x430, 0x446, 0x438, 0x44f, 32, 0x441, 32, 0x43c, 0x430, 0x440, 0x43a, 0x435, 0x442, 0x43f, 0x43b, 0x435, 0x439, 0x441, 0x43e, 0x43c],
     [0x438, 0x43d, 0x442, 0x435, 0x433, 0x440, 0x430, 0x446, 0x438, 0x44f, 32, 0x441, 32, 0x441, 0x430, 0x439, 0x442, 0x43e, 0x43c],
     [0x438, 0x43d, 0x442, 0x435, 0x433, 0x440, 0x430, 0x446, 0x438, 0x44f, 32, 0x441, 32, 0x43c, 0x43e, 0x431, 0x438, 0x43b, 0x44c, 0x43d, 0x44b, 0x43c, 32, 0x43f, 0x440, 0x438, 0x43b, 0x43e, 0x436, 0x435, 0x43d, 0x438, 0x435, 0x43c]]"

definition strong_terms_3 :: "ustr list" where
  "strong_terms_3 = [
     lit ''Telegram'',
     lit ''Telegram API'',
     lit ''Telegram Bot API'',
     [84, 101, 108, 101, 103, 114, 97, 109, 45, 0x431, 0x43e, 0x442],
     [84, 101, 108, 101, 103, 114, 97, 109, 32, 0x431, 0x43e, 0x442],
     [0x442, 0x435, 0x43b, 0x435, 0x433, 0x440, 0x430, 0x43c, 45, 0x431, 0x43e, 0x442],
     [0x442, 0x435, 0x43b, 0x435, 0x433, 0x440, 0x430, 0x43c, 32, 0x431, 0x43e, 0x442],
     [0x442, 0x433, 32, 0x431, 0x43e, 0x442],
     [0x431, 0x43e, 0x442, 32, 0x432, 32, 0x442, 0x435, 0x43b, 0x435, 0x433, 0x440, 0x430, 0x43c],
     [0x431, 0x43e, 0x442, 32, 0x434, 0x43b, 0x44f, 32, 0x442, 0x435, 0x43b, 0x435, 0x433, 0x440, 0x430, 0x43c, 0x430],
     [0x447, 0x430, 0x442, 45, 0x431, 0x43e, 0x442],
     [0x447, 0x430, 0x442, 32, 0x431, 0x43e, 0x442],
     [0x447, 0x430, 0x442, 0x431, 0x43e, 0x442],
     [0x431, 0x43e, 0x442, 32, 0x43f, 0x43e, 0x434, 32, 0x43a, 0x43b, 0x44e, 0x447],
     [0x441, 0x43e, 0x437, 0x434, 0x430, 0x442, 0x44c, 32, 0x431, 0x43e, 0x442, 0x430],
     [0x43d, 0x430, 0x43f, 0x438, 0x441, 0x430, 0x442, 0x44c, 32, 0x431, 0x43e, 0x442, 0x430],
     [0x440, 0x430, 0x437, 0x440, 0x430, 0x431, 0x43e, 0x442, 0x430, 0x442, 0x44c, 32, 0x431, 0x43e, 0x442, 0x430],
     [0x431, 0x43e, 0x442, 32, 0x434, 0x43b, 0x44f, 32, 0x431, 0x438, 0x437, 0x43d, 0x435, 0x441, 0x430],
     [0x431, 0x43e, 0x442, 32, 0x434, 0x43b, 0x44f, 32, 0x43c, 0x430, 0x433, 0x430, 0x437, 0x438, 0x43d, 0x430],
     [0x431, 0x43e, 0x442, 32, 0x434, 0x43b, 0x44f, 32, 0x43f, 0x440, 0x43e, 0x434, 0x430, 0x436],
     [0x431, 0x43e, 0x442, 32, 0x434, 0x43b, 0x44f, 32, 0x437, 0x430, 0x44f, 0x432, 0x43e, 0x43a],
     [0x431, 0x43e, 0x442, 32, 0x434, 0x43b, 0x44f, 32, 0x43f, 0x43e, 0x434, 0x434, 0x435, 0x440, 0x436, 0x43a, 0x438],
     [0x431, 0x43e, 0x442, 45, 0x43a, 0x43e, 0x43d, 0x441, 0x443, 0x43b, 0x44c, 0x442, 0x430, 0x43d, 0x442],
     [0x431, 0x43e, 0x442, 45, 0x430, 0x441, 0x441, 0x438, 0x441, 0x442, 0x435, 0x43d, 0x442],
     [0x431, 0x43e, 0x442, 32, 0x434, 0x43b, 0x44f, 32, 0x437, 0x430, 0x43f, 0x438, 0x441, 0x438],
     [0x431, 0x43e, 0x442, 32, 0x434, 0x43b, 0x44f, 32, 0x431, 0x440, 0x43e, 0x43d, 0x438, 0x440, 0x43e, 0x432, 0x430, 0x43d, 0x438, 0x44f],
     [0x431, 0x43e, 0x442, 32, 0x434, 0x43b, 0x44f, 32, 0x443, 0x432, 0x435, 0x434, 0x43e, 0x43c, 0x43b, 0x435, 0x43d, 0x438, 0x439],
     [0x431, 0x43e, 0x442, 32, 0x434, 0x43b, 0x44f, 32, 0x440, 0x430, 0x441, 0x441, 0x44b, 0x43b, 0x43a, 0x438],
     [0x431, 0x43e, 0x442, 32, 0x441, 32, 0x43e, 0x43f, 0x43b, 0x430, 0x442, 0x43e, 0x439],
     [0x431, 0x43e, 0x442, 32, 0x441, 32, 0x43f, 0x43e, 0x434, 0x43f, 0x438, 0x441, 0x43a, 0x43e, 0x439],
     [0x431, 0x43e, 0x442, 32, 0x441, 32, 0x43b, 0x438, 0x447, 0x43d, 0x44b, 0x43c, 32, 0x43a, 0x430, 0x431, 0x438, 0x43d, 0x435, 0x442, 0x43e, 0x43c],
     [0x431, 0x43e, 0x442, 32, 0x441, 32, 0x430, 0x434, 0x43c, 0x438, 0x43d, 0x43a, 0x43e, 0x439],
     [0x431, 0x43e, 0x442, 32, 0x441, 32, 0x431, 0x430, 0x437, 0x43e, 0x439, 32, 0x434, 0x430, 0x43d, 0x43d, 0x44b, 0x445],
     [0x431, 0x43e, 0x442, 32, 0x441, 32, 0x440, 0x435, 0x444, 0x435, 0x440, 0x430, 0x43b, 0x44c, 0x43d, 0x43e, 0x439, 32, 0x441, 0x438, 0x441, 0x442, 0x435, 0x43c, 0x43e, 0x439],
     [0x431, 0x43e, 0x442, 32, 0x441, 32, 0x432, 0x43d, 0x443, 0x442, 0x440, 0x435, 0x43d, 0x43d, 0x435, 0x439, 32, 0x432, 0x430, 0x43b, 0x44e, 0x442, 0x43e, 0x439],
     [0x431, 0x43e, 0x442, 32, 0x441, 32, 0x431, 0x430, 0x43b, 0x430, 0x43d, 0x441, 0x43e, 0x43c],
     [0x431, 0x43e, 0x442, 32, 0x441, 32, 0x440, 0x435, 0x433, 0x438, 0x441, 0x442, 0x440, 0x430, 0x446, 0x438, 0x435, 0x439],
     [0x431, 0x43e, 0x442, 32, 0x441, 32, 0x430, 0x43d, 0x43a, 0x435, 0x442, 0x43e, 0x439],
     [0x431, 0x43e, 0x442, 32, 0x441, 32, 0x43c, 0x435, 0x43d, 0x44e],
     [0x431, 0x43e, 0x442, 32, 0x434, 0x43b, 0x44f, 32, 0x43a, 0x430, 0x43d, 0x430, 0x43b, 0x430],
     [0x431, 0x43e, 0x442, 32, 0x434, 0x43b, 0x44f, 32, 0x433, 0x440, 0x443, 0x43f, 0x43f, 0x44b],
     [0x431, 0x43e, 0x442, 32, 0x434, 0x43b, 0x44f, 32, 0x447, 0x430, 0x442, 0x430],
     [0x43c, 0x43e, 0x434, 0x435, 0x440, 0x430, 0x442, 0x43e, 0x440, 32, 0x447, 0x430, 0x442, 0x430],
     [0x430, 0x432, 0x442, 0x43e, 0x43c, 0x430, 0x442, 0x438, 0x447, 0x435, 0x441, 0x43a, 0x438, 0x435, 32, 0x43e, 0x442, 0x432, 0x435, 0x442, 0x44b],
     [0x430, 0x432, 0x442, 0x43e, 0x43e, 0x442, 0x432, 0x435, 0x442, 0x447, 0x438, 0x43a],
     [0x443, 0x432, 0x435, 0x434, 0x43e, 0x43c, 0x43b, 0x435, 0x43d, 0x438, 0x44f, 32, 0x432, 32, 84, 101, 108, 101, 103, 114, 97, 109]]"

definition strong_terms_4 :: "ustr list" where
  "strong_terms_4 = [
     lit ''Telegram Mini App'',
     lit ''Telegram mini app'',
     lit ''Telegram Web App'',
     [0x43c, 0x438, 0x43d, 0x438, 45, 0x43f, 0x440, 0x438, 0x43b, 0x43e, 0x436, 0x435, 0x43d, 0x438, 0x435, 32, 84, 101, 108, 101, 103, 114, 97, 109],
     [0x43c, 0x438, 0x43d, 0x438, 32, 0x43f, 0x440, 0x438, 0x43b, 0x43e, 0x436, 0x435, 0x43d, 0x438, 0x435, 32, 0x432, 32, 0x442, 0x435, 0x43b, 0x435, 0x433, 0x440, 0x430, 0x43c],
     [0x43c, 0x438, 0x43d, 0x438, 0x430, 0x43f, 0x43f],
     lit ''mini app'',
     [119, 101, 98, 32, 97, 112, 112, 32, 0x434, 0x43b, 0x44f, 32, 84, 101, 108, 101, 103, 114, 97, 109],
     [0x43f, 0x440, 0x438, 0x43b, 0x43e, 0x436, 0x435, 0x43d, 0x438, 0x435, 32, 0x432, 0x43d, 0x443, 0x442, 0x440, 0x438, 32, 84, 101, 108, 101, 103, 114, 97, 109],
     [0x43c, 0x430, 0x433, 0x430, 0x437, 0x438, 0x43d, 32, 0x432, 32, 84, 101, 108, 101, 103, 114, 97, 109],
     [0x43b, 0x438, 0x447, 0x43d, 0x44b, 0x439, 32, 0x43a, 0x430, 0x431, 0x438, 0x43d, 0x435, 0x442, 32, 0x432, 32, 84, 101, 108, 101, 103, 114, 97, 109]]"

definition strong_terms_5 :: "ustr list" where
  "strong_terms_5 = [
     lit ''AI'',
     [0x418, 0x418],
     [0x430, 0x438],
     [0x438, 0x441, 0x43a, 0x443, 0x441, 0x441, 0x442, 0x432, 0x435, 0x43d, 0x43d, 0x44b, 0x439, 32, 0x438, 0x43d, 0x442, 0x435, 0x43b, 0x43b, 0x435, 0x43a, 0x442],
     [0x43d, 0x435, 0x439, 0x440, 0x43e, 0x441, 0x435, 0x442, 0x44c],
     [0x43d, 0x435, 0x439, 0x440, 0x43e, 0x441, 0x435, 0x442, 0x438],
     [0x43d, 0x435, 0x439, 0x440, 0x43e, 0x43d, 0x43a, 0x430],
     [65, 73, 45, 0x438, 0x43d, 0x442, 0x435, 0x433, 0x440, 0x430, 0x446, 0x438, 0x44f],
     [0x418, 0x418, 45, 0x438, 0x43d, 0x442, 0x435, 0x433, 0x440, 0x430, 0x446, 0x438, 0x44f],
     [0x438, 0x43d, 0x442, 0x435, 0x433, 0x440, 0x430, 0x446, 0x438, 0x44f, 32, 0x43d, 0x435, 0x439, 0x440, 0x43e, 0x441, 0x435, 0x442, 0x438],
     [0x43f, 0x43e, 0x434, 0x43a, 0x43b, 0x44e, 0x447, 0x438, 0x442, 0x44c, 32, 0x43d, 0x435, 0x439, 0x440, 0x43e, 0x441, 0x435, 0x442, 0x44c],
     [0x432, 0x43d, 0x435, 0x434, 0x440, 0x438, 0x442, 0x44c, 32, 0x418, 0x418],
     [0x434, 0x43e, 0x431, 0x430, 0x432, 0x438, 0x442, 0x44c, 32, 0x418, 0x418],
     lit ''AI assistant'',
     [65, 73, 45, 0x430, 0x441, 0x441, 0x438, 0x441, 0x442, 0x435, 0x43d, 0x442],
     [0x418, 0x418, 45, 0x430, 0x441, 0x441, 0x438, 0x441, 0x442, 0x435, 0x43d, 0x442],
     [0x443, 0x43c, 0x43d, 0x44b, 0x439, 32, 0x43f, 0x43e, 0x43c, 0x43e, 0x449, 0x43d, 0x438, 0x43a],
     [0x432, 0x438, 0x440, 0x442, 0x443, 0x430, 0x43b, 0x44c, 0x43d, 0x44b, 0x439, 32, 0x43f, 0x43e, 0x43c, 0x43e, 0x449, 0x43d, 0x438, 0x43a],
     [0x446, 0x438, 0x444, 0x440, 0x43e, 0x432, 0x43e, 0x439, 32, 0x43f, 0x43e, 0x43c, 0x43e, 0x449, 0x43d, 0x438, 0x43a],
     lit ''LLM'',
     lit ''LLM API'',
     [0x44f, 0x437, 0x44b, 0x43a, 0x43e, 0x432, 0x430, 0x44f, 32, 0x43c, 0x43e, 0x434, 0x435, 0x43b, 0x44c],
     [0x431, 0x43e, 0x43b, 0x44c, 0x448, 0x430, 0x44f, 32, 0x44f, 0x437, 0x44b, 0x43a, 0x43e, 0x432, 0x430, 0x44f, 32, 0x43c, 0x43e, 0x434, 0x435, 0x43b, 0x44c],
     lit ''ChatGPT'',
     [0x447, 0x430, 0x442, 32, 71, 80, 84],
     [0x447, 0x430, 0x442, 0x433, 0x43f, 0x442],
     lit ''GPT'',
     lit ''OpenAI'',
     lit ''Claude'',
     lit ''Gemini'',
     lit ''GigaChat'',
     lit ''Qwen'',
     lit ''DeepSeek'',
     [0x43b, 0x43e, 0x43a, 0x430, 0x43b, 0x44c, 0x43d, 0x430, 0x44f, 32, 0x43d, 0x435, 0x439, 0x440, 0x43e, 0x441, 0x435, 0x442, 0x44c],
     [0x43b, 0x43e, 0x43a, 0x430, 0x43b, 0x44c, 0x43d, 0x430, 0x44f, 32, 76, 76, 77],
     lit ''AI agent'',
     [65, 73, 45, 0x430, 0x433, 0x435, 0x43d, 0x442],
     [0x418, 0x418, 45, 0x430, 0x433, 0x435, 0x43d, 0x442],
     [0x430, 0x433, 0x435, 0x43d, 0x442, 32, 0x43d, 0x430, 32, 0x43d, 0x435, 0x439, 0x440, 0x43e, 0x441, 0x435, 0x442, 0x438],
     [0x43c, 0x443, 0x43b, 0x44c, 0x442, 0x438, 0x430, 0x433, 0x435, 0x43d, 0x442, 0x43d, 0x430, 0x44f, 32, 0x441, 0x438, 0x441, 0x442, 0x435, 0x43c, 0x430],
     [0x441, 0x438, 0x441, 0x442, 0x435, 0x43c, 0x430, 32, 0x430, 0x433, 0x435, 0x43d, 0x442, 0x43e, 0x432],
     [0x430, 0x432, 0x442, 0x43e, 0x43d, 0x43e, 0x43c, 0x43d, 0x44b, 0x439, 32, 0x430, 0x433, 0x435, 0x43d, 0x442],
     lit ''LangChain'',
     lit ''LangGraph'']"

definition strong_terms_6 :: "ustr list" where
  "strong_terms_6 = [
     lit ''RAG'',
     [82, 65, 71, 45, 0x441, 0x438, 0x441, 0x442, 0x435, 0x43c, 0x430],
     [0x431, 0x430, 0x437, 0x430, 32, 0x437, 0x43d, 0x430, 0x43d, 0x438, 0x439],
     [0x447, 0x430, 0x442, 32, 0x441, 32, 0x431, 0x430, 0x437, 0x43e, 0x439, 32, 0x437, 0x43d, 0x430, 0x43d, 0x438, 0x439],
     [0x447, 0x430, 0x442, 32, 0x43f, 0x43e, 32, 0x434, 0x43e, 0x43a, 0x443, 0x43c, 0x435, 0x43d, 0x442, 0x430, 0x43c],
     [0x43e, 0x442, 0x432, 0x435, 0x442, 0x44b, 32, 0x43f, 0x43e, 32, 0x434, 0x43e, 0x43a, 0x443, 0x43c, 0x435, 0x43d, 0x442, 0x430, 0x43c],
     [0x43f, 0x43e, 0x438, 0x441, 0x43a, 32, 0x43f, 0x43e, 32, 0x434, 0x43e, 0x43a, 0x443, 0x43c, 0x435, 0x43d, 0x442, 0x430, 0x43c],
     [0x443, 0x43c, 0x43d, 0x44b, 0x439, 32, 0x43f, 0x43e, 0x438, 0x441, 0x43a],
     [0x441, 0x435, 0x43c, 0x430, 0x43d, 0x442, 0x438, 0x447, 0x435, 0x441, 0x43a, 0x438, 0x439, 32, 0x43f, 0x43e, 0x438, 0x441, 0x43a],
     [0x432, 0x435, 0x43a, 0x442, 0x43e, 0x440, 0x43d, 0x44b, 0x439, 32, 0x43f, 0x43e, 0x438, 0x441, 0x43a],
     [0x43f, 0x43e, 0x438, 0x441, 0x43a, 32, 0x43f, 0x43e, 32, 0x441, 0x43c, 0x44b, 0x441, 0x43b, 0x443],
     [0x44d, 0x43c, 0x431, 0x435, 0x434, 0x434, 0x438, 0x43d, 0x433, 0x438],
     [0x432, 0x435, 0x43a, 0x442, 0x43e, 0x440, 0x43d, 0x430, 0x44f, 32, 0x431, 0x430, 0x437, 0x430, 32, 0x434, 0x430, 0x43d, 0x43d, 0x44b, 0x445],
     lit ''Qdrant'',
     lit ''Milvus'',
     lit ''Pinecone'',
     lit ''ChromaDB'',
     lit ''FAISS'',
     [0x43a, 0x43e, 0x440, 0x43f, 0x43e, 0x440, 0x430, 0x442, 0x438, 0x432, 0x43d, 0x44b, 0x439, 32, 0x447, 0x430, 0x442, 45, 0x431, 0x43e, 0x442],
     [0x431, 0x43e, 0x442, 32, 0x43f, 0x43e, 32, 0x431, 0x430, 0x437, 0x435, 32, 0x437, 0x43d, 0x430, 0x43d, 0x438, 0x439],
     [0x430, 0x441, 0x441, 0x438, 0x441, 0x442, 0x435, 0x43d, 0x442, 32, 0x434, 0x43b, 0x44f, 32, 0x441, 0x43e, 0x442, 0x440, 0x443, 0x434, 0x43d, 0x438, 0x43a, 0x43e, 0x432],
     [0x430, 0x441, 0x441, 0x438, 0x441, 0x442, 0x435, 0x43d, 0x442, 32, 0x434, 0x43b, 0x44f, 32, 0x43a, 0x43b, 0x438, 0x435, 0x43d, 0x442, 0x43e, 0x432],
     [0x437, 0x430, 0x433, 0x440, 0x443, 0x437, 0x43a, 0x430, 32, 0x434, 0x43e, 0x43a, 0x443, 0x43c, 0x435, 0x43d, 0x442, 0x43e, 0x432, 32, 0x432, 32, 0x43d, 0x435, 0x439, 0x440, 0x43e, 0x441, 0x435, 0x442, 0x44c],
     [0x43e, 0x431, 0x440, 0x430, 0x431, 0x43e, 0x442, 0x43a, 0x430, 32, 0x431, 0x430, 0x437, 0x44b, 32, 0x434, 0x43e, 0x43a, 0x443, 0x43c, 0x435, 0x43d, 0x442, 0x43e, 0x432],
     [0x430, 0x43d, 0x430, 0x43b, 0x438, 0x437, 32, 0x434, 0x43e, 0x43a, 0x443, 0x43c, 0x435, 0x43d, 0x442, 0x43e, 0x432],
     [0x432, 0x43e, 0x43f, 0x440, 0x43e, 0x441, 0x44b, 32, 0x438, 32, 0x43e, 0x442, 0x432, 0x435, 0x442, 0x44b, 32, 0x43f, 0x43e, 32, 0x434, 0x43e, 0x43a, 0x443, 0x43c, 0x435, 0x43d, 0x442, 0x430, 0x43c]]"

definition strong_terms_7 :: "ustr list" where
  "strong_terms_7 = [
     [0x43e, 0x431, 0x440, 0x430, 0x431, 0x43e, 0x442, 0x43a, 0x430, 32, 0x442, 0x435, 0x43a, 0x441, 0x442, 0x430],
     [0x430, 0x43d, 0x430, 0x43b, 0x438, 0x437, 32, 0x442, 0x435, 0x43a, 0x441, 0x442, 0x430],
     [0x43a, 0x43b, 0x430, 0x441, 0x441, 0x438, 0x444, 0x438, 0x43a, 0x430, 0x446, 0x438, 0x44f, 32, 0x442, 0x435, 0x43a, 0x441, 0x442, 0x430],
     [0x441, 0x443, 0x43c, 0x43c, 0x430, 0x440, 0x438, 0x437, 0x430, 0x446, 0x438, 0x44f],
     [0x433, 0x435, 0x43d, 0x435, 0x440, 0x430, 0x446, 0x438, 0x44f, 32, 0x442, 0x435, 0x43a, 0x441, 0x442, 0x430],
     [0x43f, 0x440, 0x43e, 0x432, 0x435, 0x440, 0x43a, 0x430, 32, 0x442, 0x435, 0x43a, 0x441, 0x442, 0x430],
     [0x438, 0x437, 0x432, 0x43b, 0x435, 0x447, 0x435, 0x43d, 0x438, 0x435, 32, 0x434, 0x430, 0x43d, 0x43d, 0x44b, 0x445, 32, 0x438, 0x437, 32, 0x442, 0x435, 0x43a, 0x441, 0x442, 0x430],
     [0x438, 0x437, 0x432, 0x43b, 0x435, 0x447, 0x435, 0x43d, 0x438, 0x435, 32, 0x434, 0x430, 0x43d, 0x43d, 0x44b, 0x445, 32, 0x438, 0x437, 32, 0x434, 0x43e, 0x43a, 0x443, 0x43c, 0x435, 0x43d, 0x442, 0x43e, 0x432],
     [0x43e, 0x431, 0x440, 0x430, 0x431, 0x43e, 0x442, 0x43a, 0x430, 32, 80, 68, 70],
     [0x43f, 0x430, 0x440, 0x441, 0x438, 0x43d, 0x433, 32, 80, 68, 70],
     [0x440, 0x430, 0x441, 0x43f, 0x43e, 0x437, 0x43d, 0x430, 0x432, 0x430, 0x43d, 0x438, 0x435, 32, 80, 68, 70],
     lit ''OCR'',
     [0x440, 0x430, 0x441, 0x43f, 0x43e, 0x437, 0x43d, 0x430, 0x432, 0x430, 0x43d, 0x438, 0x435, 32, 0x442, 0x435, 0x43a, 0x441, 0x442, 0x430],
     [0x440, 0x430, 0x441, 0x43f, 0x43e, 0x437, 0x43d, 0x430, 0x432, 0x430, 0x43d, 0x438, 0x435, 32, 0x441, 0x43a, 0x430, 0x43d, 0x43e, 0x432],
     [0x440, 0x430, 0x441, 0x43f, 0x43e, 0x437, 0x43d, 0x430, 0x432, 0x430, 0x43d, 0x438, 0x435, 32, 0x434, 0x43e, 0x43a, 0x443, 0x43c, 0x435, 0x43d, 0x442, 0x43e, 0x432],
     [0x43e, 0x431, 0x440, 0x430, 0x431, 0x43e, 0x442, 0x43a, 0x430, 32, 0x434, 0x43e, 0x433, 0x43e, 0x432, 0x43e, 0x440, 0x43e, 0x432],
     [0x43e, 0x431, 0x440, 0x430, 0x431, 0x43e, 0x442, 0x43a, 0x430, 32, 0x441, 0x447, 0x435, 0x442, 0x43e, 0x432],
     [0x43e, 0x431, 0x440, 0x430, 0x431, 0x43e, 0x442, 0x43a, 0x430, 32, 0x43d, 0x430, 0x43a, 0x43b, 0x430, 0x434, 0x43d, 0x44b, 0x445],
     [0x43e, 0x431, 0x440, 0x430, 0x431, 0x43e, 0x442, 0x43a, 0x430, 32, 0x440, 0x435, 0x437, 0x44e, 0x43c, 0x435],
     [0x430, 0x43d, 0x430, 0x43b, 0x438, 0x437, 32, 0x437, 0x430, 0x44f, 0x432, 0x43e, 0x43a],
     [0x430, 0x43d, 0x430, 0x43b, 0x438, 0x437, 32, 0x43e, 0x431, 0x440, 0x430, 0x449, 0x435, 0x43d, 0x438, 0x439],
     [0x430, 0x432, 0x442, 0x43e, 0x43c, 0x430, 0x442, 0x438, 0x447, 0x435, 0x441, 0x43a, 0x430, 0x44f, 32, 0x43e, 0x431, 0x440, 0x430, 0x431, 0x43e, 0x442, 0x43a, 0x430, 32, 0x437, 0x430, 0x44f, 0x432, 0x43e, 0x43a],
     [0x442, 0x440, 0x430, 0x43d, 0x441, 0x43a, 0x440, 0x438, 0x431, 0x430, 0x446, 0x438, 0x44f],
     [0x440, 0x430, 0x441, 0x448, 0x438, 0x444, 0x440, 0x43e, 0x432, 0x43a, 0x430, 32, 0x430, 0x443, 0x434, 0x438, 0x43e],
     [0x440, 0x430, 0x441, 0x43f, 0x43e, 0x437, 0x43d, 0x430, 0x432, 0x430, 0x43d, 0x438, 0x435, 32, 0x440, 0x435, 0x447, 0x438],
     [0x43f, 0x440, 0x435, 0x43e, 0x431, 0x440, 0x430, 0x437, 0x43e, 0x432, 0x430, 0x43d, 0x438, 0x435, 32, 0x430, 0x443, 0x434, 0x438, 0x43e, 32, 0x432, 32, 0x442, 0x435, 0x43a, 0x441, 0x442]]"

definition strong_terms_8 :: "ustr list" where
  "strong_terms_8 = [
     [0x430, 0x432, 0x442, 0x43e, 0x43c, 0x430, 0x442, 0x438, 0x437, 0x430, 0x446, 0x438, 0x44f],
     [0x430, 0x432, 0x442, 0x43e, 0x43c, 0x430, 0x442, 0x438, 0x437, 0x430, 0x446, 0x438, 0x44f, 32, 0x431, 0x438, 0x437, 0x43d, 0x435, 0x441, 0x430],
     [0x430, 0x432, 0x442, 0x43e, 0x43c, 0x430, 0x442, 0x438, 0x437, 0x430, 0x446, 0x438, 0x44f, 32, 0x431, 0x438, 0x437, 0x43d, 0x435, 0x441, 45, 0x43f, 0x440, 0x43e, 0x446, 0x435, 0x441, 0x441, 0x43e, 0x432],
     [0x430, 0x432, 0x442, 0x43e, 0x43c, 0x430, 0x442, 0x438, 0x437, 0x430, 0x446, 0x438, 0x44f, 32, 0x440, 0x430, 0x431, 0x43e, 0x442, 0x44b],
     [0x430, 0x432, 0x442, 0x43e, 0x43c, 0x430, 0x442, 0x438, 0x437, 0x430, 0x446, 0x438, 0x44f, 32, 0x440, 0x443, 0x442, 0x438, 0x43d, 0x44b],
     [0x430, 0x432, 0x442, 0x43e, 0x43c, 0x430, 0x442, 0x438, 0x437, 0x430, 0x446, 0x438, 0x44f, 32, 0x437, 0x430, 0x44f, 0x432, 0x43e, 0x43a],
     [0x430, 0x432, 0x442, 0x43e, 0x43c, 0x430, 0x442, 0x438, 0x437, 0x430, 0x446, 0x438, 0x44f, 32, 0x43f, 0x440, 0x43e, 0x434, 0x430, 0x436],
     [0x430, 0x432, 0x442, 0x43e, 0x43c, 0x430, 0x442, 0x438, 0x437, 0x430, 0x446, 0x438, 0x44f, 32, 0x43e, 0x442, 0x447, 0x435, 0x442, 0x43e, 0x432],
     [0x430, 0x432, 0x442, 0x43e, 0x43c, 0x430, 0x442, 0x438, 0x437, 0x430, 0x446, 0x438, 0x44f, 32, 0x434, 0x43e, 0x43a, 0x443, 0x43c, 0x435, 0x43d, 0x442, 0x43e, 0x43e, 0x431, 0x43e, 0x440, 0x43e, 0x442, 0x430],
     [0x430, 0x432, 0x442, 0x43e, 0x43c, 0x430, 0x442, 0x438, 0x437, 0x430, 0x446, 0x438, 0x44f, 32, 0x43e, 0x431, 0x440, 0x430, 0x431, 0x43e, 0x442, 0x43a, 0x438, 32, 0x434, 0x430, 0x43d, 0x43d, 0x44b, 0x445],
     [0x430, 0x432, 0x442, 0x43e, 0x43c, 0x430, 0x442, 0x438, 0x437, 0x430, 0x446, 0x438, 0x44f, 32, 0x43f, 0x435, 0x440, 0x435, 0x43f, 0x438, 0x441, 0x43a, 0x438],
     [0x430, 0x432, 0x442, 0x43e, 0x43c, 0x430, 0x442, 0x438, 0x447, 0x435, 0x441, 0x43a, 0x430, 0x44f, 32, 0x440, 0x430, 0x441, 0x441, 0x44b, 0x43b, 0x43a, 0x430],
     [0x430, 0x432, 0x442, 0x43e, 0x43c, 0x430, 0x442, 0x438, 0x447, 0x435, 0x441, 0x43a, 0x438, 0x435, 32, 0x443, 0x432, 0x435, 0x434, 0x43e, 0x43c, 0x43b, 0x435, 0x43d, 0x438, 0x44f],
     [0x430, 0x432, 0x442, 0x43e, 0x43c, 0x430, 0x442, 0x438, 0x447, 0x435, 0x441, 0x43a, 0x430, 0x44f, 32, 0x433, 0x435, 0x43d, 0x435, 0x440, 0x430, 0x446, 0x438, 0x44f, 32, 0x43e, 0x442, 0x447, 0x435, 0x442, 0x43e, 0x432],
     [0x441, 0x43a, 0x440, 0x438, 0x43f, 0x442, 32, 0x430, 0x432, 0x442, 0x43e, 0x43c, 0x430, 0x442, 0x438, 0x437, 0x430, 0x446, 0x438, 0x438],
     [0x43d, 0x430, 0x43f, 0x438, 0x441, 0x430, 0x442, 0x44c, 32, 0x441, 0x43a, 0x440, 0x438, 0x43f, 0x442],
     [0x434, 0x43e, 0x440, 0x430, 0x431, 0x43e, 0x442, 0x430, 0x442, 0x44c, 32, 0x441, 0x43a, 0x440, 0x438, 0x43f, 0x442],
     [0x43f, 0x440, 0x43e, 0x433, 0x440, 0x430, 0x43c, 0x43c, 0x430, 32, 0x434, 0x43b, 0x44f, 32, 0x430, 0x432, 0x442, 0x43e, 0x43c, 0x430, 0x442, 0x438, 0x437, 0x430, 0x446, 0x438, 0x438],
     [0x441, 0x435, 0x440, 0x432, 0x438, 0x441, 32, 0x430, 0x432, 0x442, 0x43e, 0x43c, 0x430, 0x442, 0x438, 0x437, 0x430, 0x446, 0x438, 0x438],
     [0x438, 0x43d, 0x442, 0x435, 0x433, 0x440, 0x430, 0x446, 0x438, 0x43e, 0x43d, 0x43d, 0x44b, 0x439, 32, 0x441, 0x435, 0x440, 0x432, 0x438, 0x441],
     [0x43f, 0x435, 0x440, 0x435, 0x43d, 0x43e, 0x441, 32, 0x434, 0x430, 0x43d, 0x43d, 0x44b, 0x445],
     [0x438, 0x43c, 0x43f, 0x43e, 0x440, 0x442, 32, 0x434, 0x430, 0x43d, 0x43d, 0x44b, 0x445],
     [0x44d, 0x43a, 0x441, 0x43f, 0x43e, 0x440, 0x442, 32, 0x434, 0x430, 0x43d, 0x43d, 0x44b, 0x445],
     [0x441, 0x438, 0x43d, 0x445, 0x440, 0x43e, 0x43d, 0x438, 0x437, 0x430, 0x446, 0x438, 0x44f, 32, 67, 82, 77],
     [0x43e, 0x431, 0x440, 0x430, 0x431, 0x43e, 0x442, 0x43a, 0x430, 32, 69, 120, 99, 101, 108],
     [0x440, 0x430, 0x431, 0x43e, 0x442, 0x430, 32, 0x441, 32, 69, 120, 99, 101, 108],
     [0x43e, 0x431, 0x440, 0x430, 0x431, 0x43e, 0x442, 0x43a, 0x430, 32, 67, 83, 86],
     lit ''Google Sheets'',
     [71, 111, 111, 103, 108, 101, 32, 0x422, 0x430, 0x431, 0x43b, 0x438, 0x446, 0x44b],
     [0x438, 0x43d, 0x442, 0x435, 0x433, 0x440, 0x430, 0x446, 0x438, 0x44f, 32, 0x441, 32, 71, 111, 111, 103, 108, 101, 32, 0x422, 0x430, 0x431, 0x43b, 0x438, 0x446, 0x430, 0x43c, 0x438]]"

definition strong_terms_9 :: "ustr list" where
  "strong_terms_9 = [
     [0x43f, 0x430, 0x440, 0x441, 0x438, 0x43d, 0x433],
     [0x43f, 0x430, 0x440, 0x441, 0x435, 0x440],
     [0x43d, 0x430, 0x43f, 0x438, 0x441, 0x430, 0x442, 0x44c, 32, 0x43f, 0x430, 0x440, 0x441, 0x435, 0x440],
     [0x441, 0x434, 0x435, 0x43b, 0x430, 0x442, 0x44c, 32, 0x43f, 0x430, 0x440, 0x441, 0x435, 0x440],
     [0x441, 0x431, 0x43e, 0x440, 32, 0x434, 0x430, 0x43d, 0x43d, 0x44b, 0x445],
     [0x441, 0x431, 0x43e, 0x440, 32, 0x438, 0x43d, 0x444, 0x43e, 0x440, 0x43c, 0x430, 0x446, 0x438, 0x438],
     [0x432, 0x44b, 0x433, 0x440, 0x443, 0x437, 0x43a, 0x430, 32, 0x434, 0x430, 0x43d, 0x43d, 0x44b, 0x445],
     [0x432, 0x435, 0x431, 45, 0x441, 0x43a, 0x440, 0x430, 0x43f, 0x438, 0x43d, 0x433],
     lit ''web scraping'',
     [0x441, 0x43a, 0x440, 0x430, 0x43f, 0x438, 0x43d, 0x433],
     [0x43c, 0x43e, 0x43d, 0x438, 0x442, 0x43e, 0x440, 0x438, 0x43d, 0x433, 32, 0x441, 0x430, 0x439, 0x442, 0x43e, 0x432],
     [0x43c, 0x43e, 0x43d, 0x438, 0x442, 0x43e, 0x440, 0x438, 0x43d, 0x433, 32, 0x446, 0x435, 0x43d],
     [0x43c, 0x43e, 0x43d, 0x438, 0x442, 0x43e, 0x440, 0x438, 0x43d, 0x433, 32, 0x442, 0x43e, 0x432, 0x430, 0x440, 0x43e, 0x432],
     [0x43c, 0x43e, 0x43d, 0x438, 0x442, 0x43e, 0x440, 0x438, 0x43d, 0x433, 32, 0x43e, 0x431, 0x44a, 0x44f, 0x432, 0x43b, 0x435, 0x43d, 0x438, 0x439],
     [0x43f, 0x430, 0x440, 0x441, 0x435, 0x440, 32, 0x441, 0x430, 0x439, 0x442, 0x430],
     [0x43f, 0x430, 0x440, 0x441, 0x435, 0x440, 32, 0x43c, 0x430, 0x440, 0x43a, 0x435, 0x442, 0x43f, 0x43b, 0x435, 0x439, 0x441, 0x430],
     [0x43f, 0x430, 0x440, 0x441, 0x435, 0x440, 32, 0x43e, 0x431, 0x44a, 0x44f, 0x432, 0x43b, 0x435, 0x43d, 0x438, 0x439],
     [0x43f, 0x430, 0x440, 0x441, 0x435, 0x440, 32, 0x432, 0x430, 0x43a, 0x430, 0x43d, 0x441, 0x438, 0x439],
     [0x43f, 0x430, 0x440, 0x441, 0x435, 0x440, 32, 0x442, 0x43e, 0x432, 0x430, 0x440, 0x43e, 0x432],
     [0x43f, 0x430, 0x440, 0x441, 0x435, 0x440, 32, 0x446, 0x435, 0x43d],
     [0x43f, 0x430, 0x440, 0x441, 0x435, 0x440, 32, 84, 101, 108, 101, 103, 114, 97, 109],
     [0x43f, 0x430, 0x440, 0x441, 0x435, 0x440, 32, 0x43a, 0x430, 0x43d, 0x430, 0x43b, 0x43e, 0x432],
     [0x43f, 0x430, 0x440, 0x441, 0x435, 0x440, 32, 0x447, 0x430, 0x442, 0x43e, 0x432],
     [0x43f, 0x430, 0x440, 0x441, 0x435, 0x440, 32, 0x441, 0x43e, 0x43e, 0x431, 0x449, 0x435, 0x43d, 0x438, 0x439],
     [0x430, 0x433, 0x440, 0x435, 0x433, 0x430, 0x442, 0x43e, 0x440, 32, 0x434, 0x430, 0x43d, 0x43d, 0x44b, 0x445],
     [0x430, 0x433, 0x440, 0x435, 0x433, 0x430, 0x442, 0x43e, 0x440, 32, 0x43e, 0x431, 0x44a, 0x44f, 0x432, 0x43b, 0x435, 0x43d, 0x438, 0x439],
     lit ''Selenium'',
     lit ''Playwright'',
     lit ''requests'',
     lit ''httpx'',
     lit ''aiohttp'']"

definition working_terms_1 :: "ustr list" where
  "working_terms_1 = [
     lit ''frontend'',
     [0x444, 0x440, 0x43e, 0x43d, 0x442, 0x435, 0x43d, 0x434],
     [0x444, 0x440, 0x43e, 0x43d, 0x442],
     [0x432, 0x435, 0x440, 0x441, 0x442, 0x43a, 0x430],
     [0x432, 0x435, 0x431, 45, 0x438, 0x43d, 0x442, 0x435, 0x440, 0x444, 0x435, 0x439, 0x441],
     [0x438, 0x43d, 0x442, 0x435, 0x440, 0x444, 0x435, 0x439, 0x441, 32, 0x441, 0x430, 0x439, 0x442, 0x430],
     [0x43a, 0x43b, 0x438, 0x435, 0x43d, 0x442, 0x441, 0x43a, 0x430, 0x44f, 32, 0x447, 0x430, 0x441, 0x442, 0x44c],
     lit ''fullstack'',
     [0x444, 0x443, 0x43b, 0x441, 0x442, 0x435, 0x43a],
     lit ''full-stack'',
     lit ''React'',
     lit ''React.js'',
     lit ''Next.js'',
     lit ''NextJS'',
     lit ''TypeScript'',
     lit ''JavaScript'',
     lit ''Node.js'',
     lit ''NodeJS'',
     lit ''Bun'',
     lit ''HTML'',
     lit ''CSS'',
     lit ''Tailwind CSS'',
     [0x430, 0x434, 0x430, 0x43f, 0x442, 0x438, 0x432, 0x43d, 0x430, 0x44f, 32, 0x432, 0x435, 0x440, 0x441, 0x442, 0x43a, 0x430],
     [0x43c, 0x43e, 0x431, 0x438, 0x43b, 0x44c, 0x43d, 0x430, 0x44f, 32, 0x432, 0x435, 0x440, 0x441, 0x438, 0x44f],
     [0x430, 0x434, 0x430, 0x43f, 0x442, 0x438, 0x432, 0x43d, 0x44b, 0x439, 32, 0x441, 0x430, 0x439, 0x442],
     [0x43b, 0x438, 0x447, 0x43d, 0x44b, 0x439, 32, 0x43a, 0x430, 0x431, 0x438, 0x43d, 0x435, 0x442],
     [0x43f, 0x430, 0x43d, 0x435, 0x43b, 0x44c, 32, 0x430, 0x434, 0x43c, 0x438, 0x43d, 0x438, 0x441, 0x442, 0x440, 0x430, 0x442, 0x43e, 0x440, 0x430],
     lit ''dashboard'',
     [0x434, 0x430, 0x448, 0x431, 0x43e, 0x440, 0x434]]"

definition working_terms_2 :: "ustr list" where
  "working_terms_2 = [
     [0x441, 0x430, 0x439, 0x442],
     [0x440, 0x430, 0x437, 0x440, 0x430, 0x431, 0x43e, 0x442, 0x43a, 0x430, 32, 0x441, 0x430, 0x439, 0x442, 0x430],
     [0x441, 0x43e, 0x437, 0x434, 0x430, 0x43d, 0x438, 0x435, 32, 0x441, 0x430, 0x439, 0x442, 0x430],
     [0x441, 0x430, 0x439, 0x442, 32, 0x43f, 0x43e, 0x434, 32, 0x43a, 0x43b, 0x44e, 0x447],
     [0x441, 0x434, 0x435, 0x43b, 0x430, 0x442, 0x44c, 32, 0x441, 0x430, 0x439, 0x442],
     [0x43d, 0x430, 0x43f, 0x438, 0x441, 0x430, 0x442, 0x44c, 32, 0x441, 0x430, 0x439, 0x442],
     [0x434, 0x43e, 0x440, 0x430, 0x431, 0x43e, 0x442, 0x430, 0x442, 0x44c, 32, 0x441, 0x430, 0x439, 0x442],
     [0x43f, 0x435, 0x440, 0x435, 0x434, 0x435, 0x43b, 0x430, 0x442, 0x44c, 32, 0x441, 0x430, 0x439, 0x442],
     [0x43e, 0x431, 0x43d, 0x43e, 0x432, 0x438, 0x442, 0x44c, 32, 0x441, 0x430, 0x439, 0x442],
     [0x432, 0x435, 0x431, 45, 0x43f, 0x440, 0x438, 0x43b, 0x43e, 0x436, 0x435, 0x43d, 0x438, 0x435],
     lit ''web application'',
     [0x43a, 0x43e, 0x440, 0x43f, 0x43e, 0x440, 0x430, 0x442, 0x438, 0x432, 0x43d, 0x44b, 0x439, 32, 0x441, 0x430, 0x439, 0x442],
     [0x441, 0x430, 0x439, 0x442, 32, 0x43a, 0x43e, 0x43c, 0x43f, 0x430, 0x43d, 0x438, 0x438],
     [0x441, 0x430, 0x439, 0x442, 32, 0x443, 0x441, 0x43b, 0x443, 0x433],
     [0x441, 0x430, 0x439, 0x442, 45, 0x432, 0x438, 0x437, 0x438, 0x442, 0x43a, 0x430],
     [0x441, 0x430, 0x439, 0x442, 32, 0x432, 0x438, 0x437, 0x438, 0x442, 0x43a, 0x430],
     [0x43e, 0x434, 0x43d, 0x43e, 0x441, 0x442, 0x440, 0x430, 0x43d, 0x438, 0x447, 0x43d, 0x44b, 0x439, 32, 0x441, 0x430, 0x439, 0x442],
     [0x43e, 0x434, 0x43d, 0x43e, 0x441, 0x442, 0x440, 0x430, 0x43d, 0x438, 0x447, 0x43d, 0x438, 0x43a],
     [0x43b, 0x435, 0x43d, 0x434, 0x438, 0x43d, 0x433],
     [0x43b, 0x44d, 0x43d, 0x434, 0x438, 0x43d, 0x433],
     [0x43b, 0x435, 0x43d, 0x434, 0x43e, 0x441],
     lit ''landing page'',
     [0x43f, 0x440, 0x43e, 0x434, 0x430, 0x44e, 0x449, 0x430, 0x44f, 32, 0x441, 0x442, 0x440, 0x430, 0x43d, 0x438, 0x446, 0x430],
     [0x43f, 0x43e, 0x441, 0x430, 0x434, 0x43e, 0x447, 0x43d, 0x430, 0x44f, 32, 0x441, 0x442, 0x440, 0x430, 0x43d, 0x438, 0x446, 0x430],
     lit ''MVP'',
     [0x43f, 0x440, 0x43e, 0x442, 0x43e, 0x442, 0x438, 0x43f, 32, 0x441, 0x430, 0x439, 0x442, 0x430],
     [0x438, 0x43d, 0x442, 0x435, 0x440, 0x43d, 0x435, 0x442, 45, 0x43c, 0x430, 0x433, 0x430, 0x437, 0x438, 0x43d],
     [0x43e, 0x43d, 0x43b, 0x430, 0x439, 0x43d, 45, 0x43c, 0x430, 0x433, 0x430, 0x437, 0x438, 0x43d],
     [0x43c, 0x430, 0x433, 0x430, 0x437, 0x438, 0x43d, 32, 0x43f, 0x43e, 0x434, 32, 0x43a, 0x43b, 0x44e, 0x447],
     [0x43a, 0x430, 0x442, 0x430, 0x43b, 0x43e, 0x433, 32, 0x442, 0x43e, 0x432, 0x430, 0x440, 0x43e, 0x432],
     [0x441, 0x430, 0x439, 0x442, 45, 0x43a, 0x430, 0x442, 0x430, 0x43b, 0x43e, 0x433],
     [0x43c, 0x430, 0x440, 0x43a, 0x435, 0x442, 0x43f, 0x43b, 0x435, 0x439, 0x441],
     [0x434, 0x43e, 0x441, 0x43a, 0x430, 32, 0x43e, 0x431, 0x44a, 0x44f, 0x432, 0x43b, 0x435, 0x43d, 0x438, 0x439],
     [0x441, 0x435, 0x440, 0x432, 0x438, 0x441, 32, 0x431, 0x440, 0x43e, 0x43d, 0x438, 0x440, 0x43e, 0x432, 0x430, 0x43d, 0x438, 0x44f],
     [0x441, 0x435, 0x440, 0x432, 0x438, 0x441, 32, 0x437, 0x430, 0x43f, 0x438, 0x441, 0x438],
     [0x43e, 0x43d, 0x43b, 0x430, 0x439, 0x43d, 45, 0x43f, 0x43b, 0x430, 0x442, 0x444, 0x43e, 0x440, 0x43c, 0x430],
     lit ''SaaS'',
     [67, 82, 77, 45, 0x441, 0x438, 0x441, 0x442, 0x435, 0x43c, 0x430],
     [69, 82, 80, 45, 0x441, 0x438, 0x441, 0x442, 0x435, 0x43c, 0x430],
     [0x432, 0x43d, 0x443, 0x442, 0x440, 0x435, 0x43d, 0x43d, 0x438, 0x439, 32, 0x43f, 0x43e, 0x440, 0x442, 0x430, 0x43b],
     [0x43a, 0x43e, 0x440, 0x43f, 0x43e, 0x440, 0x430, 0x442, 0x438, 0x432, 0x43d, 0x44b, 0x439, 32, 0x43f, 0x43e, 0x440, 0x442, 0x430, 0x43b]]"

definition working_terms_3 :: "ustr list" where
  "working_terms_3 = [
     lit ''SEO'',
     [0x441, 0x435, 0x43e],
     [83, 69, 79, 45, 0x43e, 0x43f, 0x442, 0x438, 0x43c, 0x438, 0x437, 0x430, 0x446, 0x438, 0x44f],
     [0x441, 0x435, 0x43e, 32, 0x43e, 0x43f, 0x442, 0x438, 0x43c, 0x438, 0x437, 0x430, 0x446, 0x438, 0x44f],
     [0x43f, 0x440, 0x43e, 0x434, 0x432, 0x438, 0x436, 0x435, 0x43d, 0x438, 0x435, 32, 0x441, 0x430, 0x439, 0x442, 0x430],
     [0x43e, 0x43f, 0x442, 0x438, 0x43c, 0x438, 0x437, 0x430, 0x446, 0x438, 0x44f, 32, 0x441, 0x430, 0x439, 0x442, 0x430],
     [0x442, 0x435, 0x445, 0x43d, 0x438, 0x447, 0x435, 0x441, 0x43a, 0x43e, 0x435, 32, 83, 69, 79],
     [83, 69, 79, 32, 0x434, 0x43b, 0x44f, 32, 0x441, 0x430, 0x439, 0x442, 0x430],
     [0x43d, 0x430, 0x441, 0x442, 0x440, 0x43e, 0x438, 0x442, 0x44c, 32, 83, 69, 79],
     [0x43f, 0x43e, 0x434, 0x433, 0x43e, 0x442, 0x43e, 0x432, 0x438, 0x442, 0x44c, 32, 0x441, 0x430, 0x439, 0x442, 32, 0x43a, 32, 83, 69, 79],
     [0x43c, 0x435, 0x442, 0x430, 0x442, 0x435, 0x433, 0x438],
     [116, 105, 116, 108, 101, 32, 0x438, 32, 100, 101, 115, 99, 114, 105, 112, 116, 105, 111, 110],
     lit ''sitemap'',
     lit ''sitemap.xml'',
     lit ''robots.txt'',
     [0x43c, 0x438, 0x43a, 0x440, 0x43e, 0x440, 0x430, 0x437, 0x43c, 0x435, 0x442, 0x43a, 0x430],
     lit ''Schema.org'',
     lit ''Open Graph'',
     [0x441, 0x43a, 0x43e, 0x440, 0x43e, 0x441, 0x442, 0x44c, 32, 0x437, 0x430, 0x433, 0x440, 0x443, 0x437, 0x43a, 0x438, 32, 0x441, 0x430, 0x439, 0x442, 0x430],
     [0x43e, 0x43f, 0x442, 0x438, 0x43c, 0x438, 0x437, 0x430, 0x446, 0x438, 0x44f, 32, 0x43f, 0x440, 0x43e, 0x438, 0x437, 0x432, 0x43e, 0x434, 0x438, 0x442, 0x435, 0x43b, 0x44c, 0x43d, 0x43e, 0x441, 0x442, 0x438],
     lit ''Core Web Vitals'',
     [0x438, 0x43d, 0x434, 0x435, 0x43a, 0x441, 0x430, 0x446, 0x438, 0x44f, 32, 0x441, 0x430, 0x439, 0x442, 0x430]]"

definition working_terms_4 :: "ustr list" where
  "working_terms_4 = [
     lit ''VK'',
     [0x412, 0x41a, 0x43e, 0x43d, 0x442, 0x430, 0x43a, 0x442, 0x435],
     [0x412, 0x41a, 32, 0x431, 0x43e, 0x442],
     [86, 75, 32, 0x431, 0x43e, 0x442],
     [0x431, 0x43e, 0x442, 32, 0x412, 0x41a, 0x43e, 0x43d, 0x442, 0x430, 0x43a, 0x442, 0x435],
     [0x431, 0x43e, 0x442, 32, 0x434, 0x43b, 0x44f, 32, 0x412, 0x41a],
     [0x441, 0x43e, 0x43e, 0x431, 0x449, 0x435, 0x441, 0x442, 0x432, 0x43e, 32, 0x412, 0x41a, 0x43e, 0x43d, 0x442, 0x430, 0x43a, 0x442, 0x435],
     lit ''VK API'',
     lit ''WhatsApp'',
     [0x432, 0x430, 0x442, 0x441, 0x430, 0x43f],
     [87, 104, 97, 116, 115, 65, 112, 112, 32, 0x431, 0x43e, 0x442],
     [0x431, 0x43e, 0x442, 32, 0x434, 0x43b, 0x44f, 32, 87, 104, 97, 116, 115, 65, 112, 112],
     lit ''WhatsApp Business API'',
     lit ''WABA'',
     lit ''Discord'',
     [68, 105, 115, 99, 111, 114, 100, 32, 0x431, 0x43e, 0x442],
     [0x431, 0x43e, 0x442, 32, 0x434, 0x43b, 0x44f, 32, 68, 105, 115, 99, 111, 114, 100],
     lit ''Instagram'',
     lit ''Instagram API'',
     [0x431, 0x43e, 0x442, 32, 0x434, 0x43b, 0x44f, 32, 73, 110, 115, 116, 97, 103, 114, 97, 109],
     [0x430, 0x432, 0x442, 0x43e, 0x43e, 0x442, 0x432, 0x435, 0x442, 0x447, 0x438, 0x43a, 32, 73, 110, 115, 116, 97, 103, 114, 97, 109],
     lit ''Direct Instagram'',
     [0x447, 0x430, 0x442, 45, 0x431, 0x43e, 0x442, 32, 0x434, 0x43b, 0x44f, 32, 0x441, 0x430, 0x439, 0x442, 0x430],
     [0x43e, 0x43d, 0x43b, 0x430, 0x439, 0x43d, 45, 0x43a, 0x43e, 0x43d, 0x441, 0x443, 0x43b, 0x44c, 0x442, 0x430, 0x43d, 0x442],
     [0x432, 0x438, 0x434, 0x436, 0x435, 0x442, 32, 0x447, 0x430, 0x442, 0x430],
     [0x43e, 0x43c, 0x43d, 0x438, 0x43a, 0x430, 0x43d, 0x430, 0x43b, 0x44c, 0x43d, 0x44b, 0x439, 32, 0x447, 0x430, 0x442],
     [0x435, 0x434, 0x438, 0x43d, 0x43e, 0x435, 32, 0x43e, 0x43a, 0x43d, 0x43e, 32, 0x441, 0x43e, 0x43e, 0x431, 0x449, 0x435, 0x43d, 0x438, 0x439]]"

definition working_terms_5 :: "ustr list" where
  "working_terms_5 = [
     lit ''Data Science'',
     [0x434, 0x430, 0x442, 0x430, 32, 0x441, 0x430, 0x439, 0x43d, 0x441],
     [0x430, 0x43d, 0x430, 0x43b, 0x438, 0x437, 32, 0x434, 0x430, 0x43d, 0x43d, 0x44b, 0x445],
     [0x430, 0x43d, 0x430, 0x43b, 0x438, 0x442, 0x438, 0x43a, 0x430, 32, 0x434, 0x430, 0x43d, 0x43d, 0x44b, 0x445],
     [0x43e, 0x431, 0x440, 0x430, 0x431, 0x43e, 0x442, 0x43a, 0x430, 32, 0x434, 0x430, 0x43d, 0x43d, 0x44b, 0x445],
     [0x438, 0x441, 0x441, 0x43b, 0x435, 0x434, 0x43e, 0x432, 0x430, 0x43d, 0x438, 0x435, 32, 0x434, 0x430, 0x43d, 0x43d, 0x44b, 0x445],
     [0x432, 0x438, 0x437, 0x443, 0x430, 0x43b, 0x438, 0x437, 0x430, 0x446, 0x438, 0x44f, 32, 0x434, 0x430, 0x43d, 0x43d, 0x44b, 0x445],
     [0x434, 0x430, 0x448, 0x431, 0x43e, 0x440, 0x434, 32, 0x441, 32, 0x430, 0x43d, 0x430, 0x43b, 0x438, 0x442, 0x438, 0x43a, 0x43e, 0x439],
     lit ''Power BI'',
     lit ''PowerBI'',
     [0x431, 0x438, 0x437, 0x43d, 0x435, 0x441, 45, 0x430, 0x43d, 0x430, 0x43b, 0x438, 0x442, 0x438, 0x43a, 0x430],
     [0x43e, 0x442, 0x447, 0x435, 0x442, 32, 0x432, 32, 80, 111, 119, 101, 114, 32, 66, 73],
     [0x438, 0x43d, 0x442, 0x435, 0x440, 0x430, 0x43a, 0x442, 0x438, 0x432, 0x43d, 0x44b, 0x439, 32, 0x43e, 0x442, 0x447, 0x435, 0x442],
     [0x438, 0x43d, 0x442, 0x435, 0x440, 0x430, 0x43a, 0x442, 0x438, 0x432, 0x43d, 0x44b, 0x439, 32, 0x434, 0x430, 0x448, 0x431, 0x43e, 0x440, 0x434],
     [0x43c, 0x430, 0x448, 0x438, 0x43d, 0x43d, 0x43e, 0x435, 32, 0x43e, 0x431, 0x443, 0x447, 0x435, 0x43d, 0x438, 0x435],
     lit ''machine learning'',
     lit ''ML'',
     [0x43e, 0x431, 0x443, 0x447, 0x435, 0x43d, 0x438, 0x435, 32, 0x43c, 0x43e, 0x434, 0x435, 0x43b, 0x438],
     [0x43c, 0x43e, 0x434, 0x435, 0x43b, 0x44c, 32, 0x43c, 0x430, 0x448, 0x438, 0x43d, 0x43d, 0x43e, 0x433, 0x43e, 32, 0x43e, 0x431, 0x443, 0x447, 0x435, 0x43d, 0x438, 0x44f],
     [0x43f, 0x440, 0x435, 0x434, 0x441, 0x43a, 0x430, 0x437, 0x430, 0x442, 0x435, 0x43b, 0x44c, 0x43d, 0x430, 0x44f, 32, 0x43c, 0x43e, 0x434, 0x435, 0x43b, 0x44c],
     [0x43f, 0x440, 0x43e, 0x433, 0x43d, 0x43e, 0x437, 0x438, 0x440, 0x43e, 0x432, 0x430, 0x43d, 0x438, 0x435],
     [0x43a, 0x43b, 0x430, 0x441, 0x441, 0x438, 0x444, 0x438, 0x43a, 0x430, 0x446, 0x438, 0x44f],
     [0x440, 0x435, 0x433, 0x440, 0x435, 0x441, 0x441, 0x438, 0x44f],
     [0x43a, 0x43b, 0x430, 0x441, 0x442, 0x435, 0x440, 0x438, 0x437, 0x430, 0x446, 0x438, 0x44f],
     [0x440, 0x435, 0x43a, 0x43e, 0x43c, 0x435, 0x43d, 0x434, 0x430, 0x442, 0x435, 0x43b, 0x44c, 0x43d, 0x430, 0x44f, 32, 0x441, 0x438, 0x441, 0x442, 0x435, 0x43c, 0x430],
     [0x441, 0x438, 0x441, 0x442, 0x435, 0x43c, 0x430, 32, 0x440, 0x435, 0x43a, 0x43e, 0x43c, 0x435, 0x43d, 0x434, 0x430, 0x446, 0x438, 0x439],
     [0x43f, 0x43e, 0x434, 0x431, 0x43e, 0x440, 32, 0x442, 0x43e, 0x432, 0x430, 0x440, 0x43e, 0x432],
     [0x43f, 0x435, 0x440, 0x441, 0x43e, 0x43d, 0x430, 0x43b, 0x44c, 0x43d, 0x44b, 0x435, 32, 0x440, 0x435, 0x43a, 0x43e, 0x43c, 0x435, 0x43d, 0x434, 0x430, 0x446, 0x438, 0x438],
     [0x441, 0x43a, 0x43e, 0x440, 0x438, 0x43d, 0x433],
     [0x430, 0x43d, 0x442, 0x438, 0x444, 0x440, 0x43e, 0x434],
     [0x43f, 0x43e, 0x438, 0x441, 0x43a, 32, 0x430, 0x43d, 0x43e, 0x43c, 0x430, 0x43b, 0x438, 0x439],
     lit ''NumPy'',
     lit ''Pandas'',
     lit ''Scikit-learn'',
     lit ''PyTorch'',
     lit ''TensorFlow'',
     lit ''XGBoost'',
     lit ''CatBoost'',
     lit ''LightGBM'']"

definition working_terms_6 :: "ustr list" where
  "working_terms_6 = [
     [0x43a, 0x43e, 0x43c, 0x43f, 0x44c, 0x44e, 0x442, 0x435, 0x440, 0x43d, 0x43e, 0x435, 32, 0x437, 0x440, 0x435, 0x43d, 0x438, 0x435],
     lit ''computer vision'',
     [0x430, 0x43d, 0x430, 0x43b, 0x438, 0x437, 32, 0x438, 0x437, 0x43e, 0x431, 0x440, 0x430, 0x436, 0x435, 0x43d, 0x438, 0x439],
     [0x43e, 0x431, 0x440, 0x430, 0x431, 0x43e, 0x442, 0x43a, 0x430, 32, 0x438, 0x437, 0x43e, 0x431, 0x440, 0x430, 0x436, 0x435, 0x43d, 0x438, 0x439],
     [0x440, 0x430, 0x441, 0x43f, 0x43e, 0x437, 0x43d, 0x430, 0x432, 0x430, 0x43d, 0x438, 0x435, 32, 0x438, 0x437, 0x43e, 0x431, 0x440, 0x430, 0x436, 0x435, 0x43d, 0x438, 0x439],
     [0x440, 0x430, 0x441, 0x43f, 0x43e, 0x437, 0x43d, 0x430, 0x432, 0x430, 0x43d, 0x438, 0x435, 32, 0x43b, 0x438, 0x446],
     [0x434, 0x435, 0x442, 0x435, 0x43a, 0x446, 0x438, 0x44f, 32, 0x43e, 0x431, 0x44a, 0x435, 0x43a, 0x442, 0x43e, 0x432],
     [0x43f, 0x43e, 0x438, 0x441, 0x43a, 32, 0x43e, 0x431, 0x44a, 0x435, 0x43a, 0x442, 0x43e, 0x432, 32, 0x43d, 0x430, 32, 0x444, 0x43e, 0x442, 0x43e],
     [0x43f, 0x43e, 0x434, 0x441, 0x447, 0x435, 0x442, 32, 0x43e, 0x431, 0x44a, 0x435, 0x43a, 0x442, 0x43e, 0x432],
     [0x441, 0x435, 0x433, 0x43c, 0x435, 0x43d, 0x442, 0x430, 0x446, 0x438, 0x44f, 32, 0x438, 0x437, 0x43e, 0x431, 0x440, 0x430, 0x436, 0x435, 0x43d, 0x438, 0x439],
     [0x43a, 0x43b, 0x430, 0x441, 0x441, 0x438, 0x444, 0x438, 0x43a, 0x430, 0x446, 0x438, 0x44f, 32, 0x438, 0x437, 0x43e, 0x431, 0x440, 0x430, 0x436, 0x435, 0x43d, 0x438, 0x439],
     [0x430, 0x43d, 0x430, 0x43b, 0x438, 0x437, 32, 0x432, 0x438, 0x434, 0x435, 0x43e],
     [0x43e, 0x431, 0x440, 0x430, 0x431, 0x43e, 0x442, 0x43a, 0x430, 32, 0x432, 0x438, 0x434, 0x435, 0x43e],
     [0x43d, 0x435, 0x439, 0x440, 0x43e, 0x441, 0x435, 0x442, 0x44c, 32, 0x434, 0x43b, 0x44f, 32, 0x43a, 0x430, 0x43c, 0x435, 0x440, 0x44b],
     lit ''YOLO'',
     lit ''OpenCV'']"

definition working_terms_7 :: "ustr list" where
  "working_terms_7 = [
     lit ''ClickHouse'',
     lit ''Kafka'',
     lit ''Redpanda'',
     lit ''ETL'',
     [69, 84, 76, 45, 0x43f, 0x440, 0x43e, 0x446, 0x435, 0x441, 0x441],
     [0x43f, 0x430, 0x439, 0x43f, 0x43b, 0x430, 0x439, 0x43d, 32, 0x434, 0x430, 0x43d, 0x43d, 0x44b, 0x445],
     lit ''data pipeline'',
     [0x43e, 0x431, 0x440, 0x430, 0x431, 0x43e, 0x442, 0x43a, 0x430, 32, 0x431, 0x43e, 0x43b, 0x44c, 0x448, 0x438, 0x445, 32, 0x434, 0x430, 0x43d, 0x43d, 0x44b, 0x445],
     [0x445, 0x440, 0x430, 0x43d, 0x438, 0x43b, 0x438, 0x449, 0x435, 32, 0x434, 0x430, 0x43d, 0x43d, 0x44b, 0x445],
     [0x430, 0x43d, 0x430, 0x43b, 0x438, 0x442, 0x438, 0x447, 0x435, 0x441, 0x43a, 0x430, 0x44f, 32, 0x431, 0x430, 0x437, 0x430, 32, 0x434, 0x430, 0x43d, 0x43d, 0x44b, 0x445],
     lit ''Milvus'',
     lit ''SBERT'',
     lit ''Sentence Transformers'']"

definition working_terms_8 :: "ustr list" where
  "working_terms_8 = [
     lit ''DevOps'',
     [0x434, 0x435, 0x432, 0x43e, 0x43f, 0x441],
     [0x43d, 0x430, 0x441, 0x442, 0x440, 0x43e, 0x439, 0x43a, 0x430, 32, 0x441, 0x435, 0x440, 0x432, 0x435, 0x440, 0x430],
     [0x440, 0x430, 0x437, 0x432, 0x435, 0x440, 0x43d, 0x443, 0x442, 0x44c, 32, 0x43f, 0x440, 0x43e, 0x435, 0x43a, 0x442],
     [0x440, 0x430, 0x437, 0x432, 0x435, 0x440, 0x442, 0x44b, 0x432, 0x430, 0x43d, 0x438, 0x435, 32, 0x43f, 0x440, 0x43e, 0x435, 0x43a, 0x442, 0x430],
     [0x434, 0x435, 0x43f, 0x43b, 0x43e, 0x439],
     [0x43d, 0x430, 0x441, 0x442, 0x440, 0x43e, 0x438, 0x442, 0x44c, 32, 0x434, 0x435, 0x43f, 0x43b, 0x43e, 0x439],
     [0x432, 0x44b, 0x43b, 0x43e, 0x436, 0x438, 0x442, 0x44c, 32, 0x441, 0x430, 0x439, 0x442, 32, 0x43d, 0x430, 32, 0x441, 0x435, 0x440, 0x432, 0x435, 0x440],
     [0x43f, 0x435, 0x440, 0x435, 0x43d, 0x435, 0x441, 0x442, 0x438, 32, 0x441, 0x430, 0x439, 0x442, 32, 0x43d, 0x430, 32, 0x441, 0x435, 0x440, 0x432, 0x435, 0x440],
     [0x43d, 0x430, 0x441, 0x442, 0x440, 0x43e, 0x438, 0x442, 0x44c, 32, 86, 80, 83],
     [0x43d, 0x430, 0x441, 0x442, 0x440, 0x43e, 0x438, 0x442, 0x44c, 32, 76, 105, 110, 117, 120, 45, 0x441, 0x435, 0x440, 0x432, 0x435, 0x440],
     [0x43d, 0x430, 0x441, 0x442, 0x440, 0x43e, 0x438, 0x442, 0x44c, 32, 68, 111, 99, 107, 101, 114],
     [0x43a, 0x43e, 0x43d, 0x442, 0x435, 0x439, 0x43d, 0x435, 0x440, 0x438, 0x437, 0x430, 0x446, 0x438, 0x44f],
     lit ''Docker Swarm'',
     lit ''Nginx'',
     lit ''Traefik'',
     lit ''reverse proxy'',
     lit ''SSL'',
     lit ''HTTPS'',
     [0x43d, 0x430, 0x441, 0x442, 0x440, 0x43e, 0x438, 0x442, 0x44c, 32, 0x434, 0x43e, 0x43c, 0x435, 0x43d],
     [0x43f, 0x43e, 0x434, 0x43a, 0x43b, 0x44e, 0x447, 0x438, 0x442, 0x44c, 32, 0x434, 0x43e, 0x43c, 0x435, 0x43d],
     [0x43d, 0x430, 0x441, 0x442, 0x440, 0x43e, 0x438, 0x442, 0x44c, 32, 0x441, 0x435, 0x440, 0x442, 0x438, 0x444, 0x438, 0x43a, 0x430, 0x442],
     lit ''CI/CD'',
     [0x430, 0x432, 0x442, 0x43e, 0x43c, 0x430, 0x442, 0x438, 0x447, 0x435, 0x441, 0x43a, 0x438, 0x439, 32, 0x434, 0x435, 0x43f, 0x43b, 0x43e, 0x439],
     lit ''GitHub Actions'',
     lit ''Jenkins'',
     lit ''Ansible'',
     [0x43c, 0x43e, 0x43d, 0x438, 0x442, 0x43e, 0x440, 0x438, 0x43d, 0x433, 32, 0x441, 0x435, 0x440, 0x432, 0x435, 0x440, 0x43e, 0x432],
     [0x43c, 0x43e, 0x43d, 0x438, 0x442, 0x43e, 0x440, 0x438, 0x43d, 0x433, 32, 0x43f, 0x440, 0x438, 0x43b, 0x43e, 0x436, 0x435, 0x43d, 0x438, 0x44f],
     lit ''Prometheus'',
     lit ''Grafana'',
     lit ''Loki'',
     [0x441, 0x431, 0x43e, 0x440, 32, 0x43b, 0x43e, 0x433, 0x43e, 0x432],
     [0x446, 0x435, 0x43d, 0x442, 0x440, 0x430, 0x43b, 0x438, 0x437, 0x43e, 0x432, 0x430, 0x43d, 0x43d, 0x44b, 0x435, 32, 0x43b, 0x43e, 0x433, 0x438],
     [0x430, 0x43b, 0x435, 0x440, 0x442, 0x44b],
     [0x440, 0x435, 0x437, 0x435, 0x440, 0x432, 0x43d, 0x43e, 0x435, 32, 0x43a, 0x43e, 0x43f, 0x438, 0x440, 0x43e, 0x432, 0x430, 0x43d, 0x438, 0x435],
     [0x431, 0x44d, 0x43a, 0x430, 0x43f, 0x44b],
     lit ''S3'',
     [0x43e, 0x431, 0x44a, 0x435, 0x43a, 0x442, 0x43d, 0x43e, 0x435, 32, 0x445, 0x440, 0x430, 0x43d, 0x438, 0x43b, 0x438, 0x449, 0x435]]"

definition unsupported_terms :: "ustr list" where
  "unsupported_terms = [
     [49, 67, 45, 0x440, 0x430, 0x437, 0x440, 0x430, 0x431, 0x43e, 0x442, 0x43a, 0x430],
     [0x440, 0x430, 0x437, 0x440, 0x430, 0x431, 0x43e, 0x442, 0x43a, 0x430, 32, 0x43a, 0x43e, 0x43d, 0x444, 0x438, 0x433, 0x443, 0x440, 0x430, 0x446, 0x438, 0x438, 32, 49, 0x421],
     [0x434, 0x43e, 0x440, 0x430, 0x431, 0x43e, 0x442, 0x43a, 0x430, 32, 0x43a, 0x43e, 0x43d, 0x444, 0x438, 0x433, 0x443, 0x440, 0x430, 0x446, 0x438, 0x438, 32, 49, 0x421],
     [49, 0x421, 32, 0x411, 0x443, 0x445, 0x433, 0x430, 0x43b, 0x442, 0x435, 0x440, 0x438, 0x44f],
     lit ''Bitrix frontend'',
     [0x432, 0x435, 0x440, 0x441, 0x442, 0x43a, 0x430, 32, 0x448, 0x430, 0x431, 0x43b, 0x43e, 0x43d, 0x430, 32, 49, 0x421, 45, 0x411, 0x438, 0x442, 0x440, 0x438, 0x43a, 0x441],
     [0x43d, 0x430, 0x442, 0x438, 0x432, 0x43d, 0x430, 0x44f, 32, 105, 79, 83, 45, 0x440, 0x430, 0x437, 0x440, 0x430, 0x431, 0x43e, 0x442, 0x43a, 0x430],
     lit ''Swift'',
     lit ''Objective-C'',
     [0x43d, 0x430, 0x442, 0x438, 0x432, 0x43d, 0x430, 0x44f, 32, 65, 110, 100, 114, 111, 105, 100, 45, 0x440, 0x430, 0x437, 0x440, 0x430, 0x431, 0x43e, 0x442, 0x43a, 0x430],
     lit ''Kotlin'',
     lit ''Java Android'',
     lit ''PHP'',
     lit ''Laravel'',
     lit ''WordPress'',
     lit ''Tilda'',
     [0x422, 0x438, 0x43b, 0x44c, 0x434, 0x430],
     [0x43a, 0x43e, 0x43d, 0x441, 0x442, 0x440, 0x443, 0x43a, 0x442, 0x43e, 0x440, 32, 0x441, 0x430, 0x439, 0x442, 0x43e, 0x432],
     [0x447, 0x438, 0x441, 0x442, 0x430, 0x44f, 32, 0x432, 0x435, 0x440, 0x441, 0x442, 0x43a, 0x430, 32, 0x431, 0x435, 0x437, 32, 98, 97, 99, 107, 101, 110, 100]]"

definition types_terms :: "ustr list" where
  "types_terms = [
     lit ''backend'',
     [0x431, 0x44d, 0x43a, 0x435, 0x43d, 0x434],
     lit ''api'',
     lit ''microservices'',
     [0x43c, 0x438, 0x43a, 0x440, 0x43e, 0x441, 0x435, 0x440, 0x432, 0x438, 0x441, 0x44b],
     lit ''fullstack'',
     lit ''frontend'',
     lit ''web'',
     [0x441, 0x430, 0x439, 0x442],
     [0x43b, 0x435, 0x43d, 0x434, 0x438, 0x43d, 0x433],
     [0x438, 0x43d, 0x442, 0x435, 0x440, 0x43d, 0x435, 0x442, 45, 0x43c, 0x430, 0x433, 0x430, 0x437, 0x438, 0x43d],
     lit ''telegram_bot'',
     lit ''telegram_mini_app'',
     lit ''vk_bot'',
     lit ''whatsapp_bot'',
     lit ''chatbot'',
     lit ''devops'',
     lit ''machine_learning'',
     lit ''data_science'',
     lit ''computer_vision'',
     lit ''llm'',
     lit ''rag'',
     lit ''ai_agent'',
     lit ''automation'',
     lit ''integration'',
     lit ''parsing'',
     lit ''data_processing'',
     lit ''dashboard'',
     lit ''seo'']"

definition infra_terms :: "ustr list" where
  "infra_terms = [
     lit ''Docker'',
     lit ''Docker Compose'',
     lit ''Docker Swarm'',
     lit ''Linux'',
     lit ''VPS'',
     lit ''Nginx'',
     lit ''Traefik'',
     lit ''GitHub Actions'',
     lit ''Jenkins'',
     lit ''Ansible'',
     lit ''Prometheus'',
     lit ''Grafana'',
     lit ''Loki'',
     lit ''Redis'',
     lit ''RabbitMQ'',
     lit ''Kafka'',
     lit ''PostgreSQL'',
     lit ''ClickHouse'',
     lit ''S3'',
     lit ''CI/CD'',
     lit ''SSL'',
     lit ''HTTPS'',
     [0x43c, 0x43e, 0x43d, 0x438, 0x442, 0x43e, 0x440, 0x438, 0x43d, 0x433],
     [0x43b, 0x43e, 0x433, 0x438, 0x440, 0x43e, 0x432, 0x430, 0x43d, 0x438, 0x435],
     [0x440, 0x435, 0x437, 0x435, 0x440, 0x432, 0x43d, 0x43e, 0x435, 32, 0x43a, 0x43e, 0x43f, 0x438, 0x440, 0x43e, 0x432, 0x430, 0x43d, 0x438, 0x435],
     [0x430, 0x432, 0x442, 0x43e, 0x43c, 0x430, 0x442, 0x438, 0x447, 0x435, 0x441, 0x43a, 0x438, 0x439, 32, 0x434, 0x435, 0x43f, 0x43b, 0x43e, 0x439]]"

definition integrations_terms :: "ustr list" where
  "integrations_terms = [
     lit ''Telegram'',
     lit ''Telegram Bot API'',
     lit ''Telegram Mini Apps'',
     lit ''VK API'',
     lit ''WhatsApp Business API'',
     lit ''Instagram API'',
     lit ''Bitrix24'',
     lit ''amoCRM'',
     lit ''CRM'',
     lit ''LLM API'',
     lit ''OpenAI API'',
     lit ''Claude API'',
     lit ''Gemini API'',
     lit ''GigaChat API'',
     lit ''DeepSeek API'',
     lit ''Qwen API'',
     lit ''payment APIs'',
     lit ''YooKassa'',
     lit ''CloudPayments'',
     lit ''Stripe'',
     lit ''Google Sheets'',
     lit ''Google Drive'',
     lit ''Google Calendar'',
     lit ''email'',
     lit ''SMTP'',
     lit ''marketplace APIs'',
     lit ''webhooks'',
     lit ''REST API'',
     lit ''GraphQL'']"

definition preferred_terms :: "ustr list" where
  "preferred_terms = [
     lit ''Python backend'',
     [0x440, 0x430, 0x437, 0x440, 0x430, 0x431, 0x43e, 0x442, 0x43a, 0x430, 32, 98, 97, 99, 107, 101, 110, 100, 32, 0x43d, 0x430, 32, 80, 121, 116, 104, 111, 110],
     [0x441, 0x43e, 0x437, 0x434, 0x430, 0x43d, 0x438, 0x435, 32, 65, 80, 73],
     [0x43c, 0x438, 0x43a, 0x440, 0x43e, 0x441, 0x435, 0x440, 0x432, 0x438, 0x441, 0x43d, 0x430, 0x44f, 32, 0x430, 0x440, 0x445, 0x438, 0x442, 0x435, 0x43a, 0x442, 0x443, 0x440, 0x430],
     [84, 101, 108, 101, 103, 114, 97, 109, 45, 0x431, 0x43e, 0x442, 0x44b],
     lit ''Telegram Mini Apps'',
     [0x447, 0x430, 0x442, 45, 0x431, 0x43e, 0x442, 0x44b, 32, 0x434, 0x43b, 0x44f, 32, 0x431, 0x438, 0x437, 0x43d, 0x435, 0x441, 0x430],
     [0x431, 0x43e, 0x442, 0x44b, 32, 0x441, 32, 0x43e, 0x43f, 0x43b, 0x430, 0x442, 0x43e, 0x439, 32, 0x438, 32, 0x43f, 0x43e, 0x434, 0x43f, 0x438, 0x441, 0x43a, 0x430, 0x43c, 0x438],
     lit ''LLM integrations'',
     [0x438, 0x43d, 0x442, 0x435, 0x433, 0x440, 0x430, 0x446, 0x438, 0x44f, 32, 67, 104, 97, 116, 71, 80, 84, 32, 0x438, 32, 0x434, 0x440, 0x443, 0x433, 0x438, 0x445, 32, 76, 76, 77],
     [65, 73, 45, 0x430, 0x441, 0x441, 0x438, 0x441, 0x442, 0x435, 0x43d, 0x442, 0x44b],
     [65, 73, 45, 0x430, 0x433, 0x435, 0x43d, 0x442, 0x44b],
     lit ''RAG'',
     [0x431, 0x430, 0x437, 0x44b, 32, 0x437, 0x43d, 0x430, 0x43d, 0x438, 0x439],
     [0x43f, 0x43e, 0x438, 0x441, 0x43a, 32, 0x43f, 0x43e, 32, 0x434, 0x43e, 0x43a, 0x443, 0x43c, 0x435, 0x43d, 0x442, 0x430, 0x43c],
     [0x43e, 0x431, 0x440, 0x430, 0x431, 0x43e, 0x442, 0x43a, 0x430, 32, 80, 68, 70, 32, 0x438, 32, 0x434, 0x43e, 0x43a, 0x443, 0x43c, 0x435, 0x43d, 0x442, 0x43e, 0x432],
     [0x430, 0x432, 0x442, 0x43e, 0x43c, 0x430, 0x442, 0x438, 0x437, 0x430, 0x446, 0x438, 0x44f, 32, 0x431, 0x438, 0x437, 0x43d, 0x435, 0x441, 45, 0x43f, 0x440, 0x43e, 0x446, 0x435, 0x441, 0x441, 0x43e, 0x432],
     [67, 82, 77, 45, 0x438, 0x43d, 0x442, 0x435, 0x433, 0x440, 0x430, 0x446, 0x438, 0x438],
     [0x438, 0x43d, 0x442, 0x435, 0x433, 0x440, 0x430, 0x446, 0x438, 0x438, 32, 0x43f, 0x43e, 32, 65, 80, 73],
     [0x43f, 0x430, 0x440, 0x441, 0x438, 0x43d, 0x433, 32, 0x438, 32, 0x441, 0x431, 0x43e, 0x440, 32, 0x434, 0x430, 0x43d, 0x43d, 0x44b, 0x445],
     [0x43e, 0x431, 0x440, 0x430, 0x431, 0x43e, 0x442, 0x43a, 0x430, 32, 0x434, 0x430, 0x43d, 0x43d, 0x44b, 0x445],
     lit ''ETL'',
     [0x430, 0x43d, 0x430, 0x43b, 0x438, 0x442, 0x438, 0x447, 0x435, 0x441, 0x43a, 0x438, 0x435, 32, 0x441, 0x435, 0x440, 0x432, 0x438, 0x441, 0x44b],
     [0x43c, 0x430, 0x448, 0x438, 0x43d, 0x43d, 0x43e, 0x435, 32, 0x43e, 0x431, 0x443, 0x447, 0x435, 0x43d, 0x438, 0x435],
     [0x440, 0x435, 0x43a, 0x43e, 0x43c, 0x435, 0x43d, 0x434, 0x430, 0x442, 0x435, 0x43b, 0x44c, 0x43d, 0x44b, 0x435, 32, 0x441, 0x438, 0x441, 0x442, 0x435, 0x43c, 0x44b],
     [0x43a, 0x43e, 0x43c, 0x43f, 0x44c, 0x44e, 0x442, 0x435, 0x440, 0x43d, 0x43e, 0x435, 32, 0x437, 0x440, 0x435, 0x43d, 0x438, 0x435],
     [68, 101, 118, 79, 112, 115, 32, 0x438, 32, 0x440, 0x430, 0x437, 0x432, 0x435, 0x440, 0x442, 0x44b, 0x432, 0x430, 0x43d, 0x438, 0x435],
     [0x43c, 0x43e, 0x43d, 0x438, 0x442, 0x43e, 0x440, 0x438, 0x43d, 0x433, 32, 0x438, 0x43d, 0x444, 0x440, 0x430, 0x441, 0x442, 0x440, 0x443, 0x43a, 0x442, 0x443, 0x440, 0x44b],
     [0x43b, 0x438, 0x447, 0x43d, 0x44b, 0x435, 32, 0x43a, 0x430, 0x431, 0x438, 0x43d, 0x435, 0x442, 0x44b, 32, 0x438, 32, 0x430, 0x434, 0x43c, 0x438, 0x43d, 45, 0x43f, 0x430, 0x43d, 0x435, 0x43b, 0x438],
     [77, 86, 80, 32, 0x432, 0x435, 0x431, 45, 0x441, 0x435, 0x440, 0x432, 0x438, 0x441, 0x43e, 0x432]]"

definition rejected_terms :: "ustr list" where
  "rejected_terms = [
     [0x443, 0x447, 0x435, 0x431, 0x43d, 0x44b, 0x435, 32, 0x440, 0x430, 0x431, 0x43e, 0x442, 0x44b],
     [0x43a, 0x443, 0x440, 0x441, 0x43e, 0x432, 0x44b, 0x435, 32, 0x440, 0x430, 0x431, 0x43e, 0x442, 0x44b],
     [0x434, 0x438, 0x43f, 0x43b, 0x43e, 0x43c, 0x43d, 0x44b, 0x435, 32, 0x440, 0x430, 0x431, 0x43e, 0x442, 0x44b],
     [0x440, 0x435, 0x448, 0x435, 0x43d, 0x438, 0x435, 32, 0x43b, 0x430, 0x431, 0x43e, 0x440, 0x430, 0x442, 0x43e, 0x440, 0x43d, 0x44b, 0x445, 32, 0x440, 0x430, 0x431, 0x43e, 0x442],
     [0x43d, 0x430, 0x43a, 0x440, 0x443, 0x442, 0x43a, 0x430],
     [0x43d, 0x430, 0x43a, 0x440, 0x443, 0x442, 0x43a, 0x430, 32, 0x43f, 0x43e, 0x434, 0x43f, 0x438, 0x441, 0x447, 0x438, 0x43a, 0x43e, 0x432],
     [0x43d, 0x430, 0x43a, 0x440, 0x443, 0x442, 0x43a, 0x430, 32, 0x43f, 0x440, 0x43e, 0x441, 0x43c, 0x43e, 0x442, 0x440, 0x43e, 0x432],
     [0x441, 0x43f, 0x430, 0x43c],
     [0x43c, 0x430, 0x441, 0x441, 0x43e, 0x432, 0x44b, 0x439, 32, 0x441, 0x43f, 0x430, 0x43c],
     [0x43e, 0x431, 0x445, 0x43e, 0x434, 32, 0x431, 0x43b, 0x43e, 0x43a, 0x438, 0x440, 0x43e, 0x432, 0x43e, 0x43a, 32, 0x430, 0x43a, 0x43a, 0x430, 0x443, 0x43d, 0x442, 0x43e, 0x432],
     [0x432, 0x437, 0x43b, 0x43e, 0x43c],
     [0x43a, 0x440, 0x430, 0x436, 0x430, 32, 0x430, 0x43a, 0x43a, 0x430, 0x443, 0x43d, 0x442, 0x43e, 0x432],
     [0x432, 0x440, 0x435, 0x434, 0x43e, 0x43d, 0x43e, 0x441, 0x43d, 0x43e, 0x435, 32, 0x41f, 0x41e],
     [0x43a, 0x430, 0x437, 0x438, 0x43d, 0x43e],
     [0x441, 0x442, 0x430, 0x432, 0x43a, 0x438]]"

definition DEFAULT_PROFILE :: contractor_profile where
  "DEFAULT_PROFILE = \<lparr>
     cp_strong_skills = strong_terms_1 @ strong_terms_2 @ strong_terms_3 @ strong_terms_4 @ strong_terms_5 @ strong_terms_6 @ strong_terms_7 @ strong_terms_8 @ strong_terms_9,
     cp_working_skills = working_terms_1 @ working_terms_2 @ working_terms_3 @ working_terms_4 @ working_terms_5 @ working_terms_6 @ working_terms_7 @ working_terms_8,
     cp_unsupported_skills = unsupported_terms,
     cp_project_types = types_terms,
     cp_infrastructure_experience = infra_terms,
     cp_integrations_experience = integrations_terms,
     cp_preferred_projects = preferred_terms,
     cp_rejected_projects = rejected_terms,
     cp_minimum_budget = None, cp_maximum_duration_months = None\<rparr>"

section \<open>The profile is consistent\<close>

definition clash :: "ustr list \<Rightarrow> ustr list \<Rightarrow> bool" where
  "clash xs ys \<longleftrightarrow> list_ex (\<lambda>x. x \<in> set ys) xs"

lemma clash_simps: "clash [] ys \<longleftrightarrow> False" "clash (x # xs) ys \<longleftrightarrow> x \<in> set ys \<or> clash xs ys"
  by (simp_all add: clash_def)

lemma clash_append: "clash xs (ys @ zs) \<longleftrightarrow> clash xs ys \<or> clash xs zs"
  by (auto simp: clash_def list_ex_iff)

lemma unsupported_strong:
  "\<not> clash unsupported_terms strong_terms_1"
  "\<not> clash unsupported_terms strong_terms_2"
  "\<not> clash unsupported_terms strong_terms_3"
  "\<not> clash unsupported_terms strong_terms_4"
  "\<not> clash unsupported_terms strong_terms_5"
  "\<not> clash unsupported_terms strong_terms_6"
  "\<not> clash unsupported_terms strong_terms_7"
  "\<not> clash unsupported_terms strong_terms_8"
  "\<not> clash unsupported_terms strong_terms_9"
  by (simp_all add: unsupported_terms_def strong_terms_1_def strong_terms_2_def strong_terms_3_def strong_terms_4_def strong_terms_5_def strong_terms_6_def strong_terms_7_def strong_terms_8_def strong_terms_9_def clash_simps lit_def)

lemma unsupported_working:
  "\<not> clash unsupported_terms working_terms_1"
  "\<not> clash unsupported_terms working_terms_2"
  "\<not> clash unsupported_terms working_terms_3"
  "\<not> clash unsupported_terms working_terms_4"
  "\<not> clash unsupported_terms working_terms_5"
  "\<not> clash unsupported_terms working_terms_6"
  "\<not> clash unsupported_terms working_terms_7"
  "\<not> clash unsupported_terms working_terms_8"
  by (simp_all add: unsupported_terms_def working_terms_1_def working_terms_2_def working_terms_3_def working_terms_4_def working_terms_5_def working_terms_6_def working_terms_7_def working_terms_8_def clash_simps lit_def)

lemma unsupported_other:
  "\<not> clash unsupported_terms types_terms"
  "\<not> clash unsupported_terms infra_terms"
  "\<not> clash unsupported_terms integrations_terms"
  "\<not> clash unsupported_terms preferred_terms"
  by (simp_all add: unsupported_terms_def types_terms_def infra_terms_def integrations_terms_def preferred_terms_def clash_simps lit_def)

lemma rejected_preferred: "\<not> clash rejected_terms preferred_terms" "\<not> clash rejected_terms types_terms"
  by (simp_all add: rejected_terms_def preferred_terms_def types_terms_def clash_simps lit_def)

text \<open>The shipped profile does not contradict itself where it decides: no skill listed as unsupported,
  which rejects an order outright, is also listed as a strong or a working skill, as a project type,
  as experience or as preferred, and no rejected kind of project is a preferred or an accepted one.\<close>

theorem profile_consistent:
  "\<not> clash (cp_unsupported_skills DEFAULT_PROFILE) (cp_strong_skills DEFAULT_PROFILE @ cp_working_skills DEFAULT_PROFILE @
      cp_project_types DEFAULT_PROFILE @ cp_infrastructure_experience DEFAULT_PROFILE @
      cp_integrations_experience DEFAULT_PROFILE @ cp_preferred_projects DEFAULT_PROFILE) \<and>
   \<not> clash (cp_rejected_projects DEFAULT_PROFILE) (cp_preferred_projects DEFAULT_PROFILE @ cp_project_types DEFAULT_PROFILE)"
  unfolding clash_append DEFAULT_PROFILE_def contractor_profile.simps
  using unsupported_strong unsupported_working unsupported_other rejected_preferred by simp

end
