(* ===== verification/ServiceCopies.thy ===== *)
theory ServiceCopies
  imports Settings Logging
begin

text \<open>
  Each service carries its own copy of the broker settings (infrastructure/config/settings.py) and of
  the JSON logger (infrastructure/observability/logging.py). The copies of llm and of the scheduler
  are translated here from their own files, and shown to do what those of order-core-service do,
  which Settings and Logging model.
\<close>

section \<open>llm\<close>

definition llm_rabbitmq_url :: "rabbitmq_settings \<Rightarrow> exn + ustr" where
  "llm_rabbitmq_url r = (case quote (rmq_username r) of Inl e \<Rightarrow> Inl e | Inr user \<Rightarrow>
     (case quote (rmq_password r) of Inl e \<Rightarrow> Inl e | Inr pwd \<Rightarrow>
     (case (if rmq_vhost r \<noteq> [] then quote (rmq_vhost r) else Inr (lit ''%2F'')) of
        Inl e \<Rightarrow> Inl e
      | Inr vhost_enc \<Rightarrow> Inr (lit ''amqp://'' @ user @ lit '':'' @ pwd @ lit ''@'' @ rmq_host r @ lit '':'' @
          show_int (rmq_port r) @ lit ''/'' @ vhost_enc))))"

definition llm_levels :: "(ustr \<times> nat) list" where
  "llm_levels = [(lit ''debug'', 10), (lit ''info'', 20), (lit ''warning'', 30), (lit ''error'', 40)]"

definition llm_JsonLogger :: "ustr \<Rightarrow> ustr \<Rightarrow> json_logger" where
  "llm_JsonLogger service lvl = \<lparr>jl_service = service,
     jl_threshold = (case map_of llm_levels (py_lower lvl) of Some n \<Rightarrow> n | None \<Rightarrow> 20)\<rparr>"

definition llm_emit :: "json_logger \<Rightarrow> ustr \<Rightarrow> level \<Rightarrow> ustr \<Rightarrow> fields \<Rightarrow> (stream \<times> fields) option" where
  "llm_emit lg now l ev fs =
     (if the (map_of llm_levels (level_name l)) < jl_threshold lg then None
      else Some (if the (map_of llm_levels (level_name l)) \<ge> the (map_of llm_levels (lit ''warning'')) then Stderr else Stdout,
        dict_merge [(lit ''level'', JStr (level_name l)), (lit ''time'', JStr now),
          (lit ''service'', JStr (jl_service lg)), (lit ''event'', JStr ev)] fs))"

section \<open>scheduler\<close>

definition scheduler_rabbitmq_url :: "rabbitmq_settings \<Rightarrow> exn + ustr" where
  "scheduler_rabbitmq_url r = (case quote (rmq_username r) of Inl e \<Rightarrow> Inl e | Inr user \<Rightarrow>
     (case quote (rmq_password r) of Inl e \<Rightarrow> Inl e | Inr pwd \<Rightarrow>
     (case (if rmq_vhost r \<noteq> [] then quote (rmq_vhost r) else Inr (lit ''%2F'')) of
        Inl e \<Rightarrow> Inl e
      | Inr vhost_enc \<Rightarrow> Inr (lit ''amqp://'' @ user @ lit '':'' @ pwd @ lit ''@'' @ rmq_host r @ lit '':'' @
          show_int (rmq_port r) @ lit ''/'' @ vhost_enc))))"

definition scheduler_levels :: "(ustr \<times> nat) list" where
  "scheduler_levels = [(lit ''debug'', 10), (lit ''info'', 20), (lit ''warning'', 30), (lit ''error'', 40)]"

definition scheduler_JsonLogger :: "ustr \<Rightarrow> ustr \<Rightarrow> json_logger" where
  "scheduler_JsonLogger service lvl = \<lparr>jl_service = service,
     jl_threshold = (case map_of scheduler_levels (py_lower lvl) of Some n \<Rightarrow> n | None \<Rightarrow> 20)\<rparr>"

definition scheduler_emit :: "json_logger \<Rightarrow> ustr \<Rightarrow> level \<Rightarrow> ustr \<Rightarrow> fields \<Rightarrow> (stream \<times> fields) option" where
  "scheduler_emit lg now l ev fs =
     (if the (map_of scheduler_levels (level_name l)) < jl_threshold lg then None
      else Some (if the (map_of scheduler_levels (level_name l)) \<ge> the (map_of scheduler_levels (lit ''warning'')) then Stderr else Stdout,
        dict_merge [(lit ''level'', JStr (level_name l)), (lit ''time'', JStr now),
          (lit ''service'', JStr (jl_service lg)), (lit ''event'', JStr ev)] fs))"

section \<open>They agree\<close>

lemma copied_urls: "llm_rabbitmq_url = rabbitmq_url" "scheduler_rabbitmq_url = rabbitmq_url"
  by (simp_all add: fun_eq_iff llm_rabbitmq_url_def scheduler_rabbitmq_url_def rabbitmq_url_def)

lemma copied_levels: "llm_levels = levels_table" "scheduler_levels = levels_table"
  by (simp_all add: llm_levels_def scheduler_levels_def levels_table_def)

lemma levels_table_no: "map_of levels_table (level_name l) = Some (level_no l)"
  "map_of levels_table (lit ''warning'') = Some (level_no WARNING)"
  by (cases l; simp add: levels_table_def lit_def level_name.simps)+

lemma copied_loggers: "llm_JsonLogger = JsonLogger" "scheduler_JsonLogger = JsonLogger" "llm_emit = emit" "scheduler_emit = emit"
  by (simp_all add: fun_eq_iff llm_JsonLogger_def scheduler_JsonLogger_def JsonLogger_def llm_emit_def scheduler_emit_def
      emit_def copied_levels levels_table_no)

end
