(* ===== verification/Apps.thy ===== *)
theory Apps
  imports CoreLife Pipeline LlmProfile ServiceCopies
begin

text \<open>
  The composition roots (main.py of each service): what \<open>build_app\<close> makes of loaded settings, the HTTP
  routes, and the start and stop of llm and scheduler (those of the core are in CoreLife). A
  connection URL that cannot be encoded makes \<open>build_app\<close> raise; nothing else in it can.
\<close>

section \<open>order-core-service\<close>

text \<open>infrastructure/db/engine.py: the options given to SQLAlchemy.\<close>

record engine =
  en_url :: ustr
  en_pool_pre_ping :: bool

definition create_engine :: "ustr \<Rightarrow> engine" where
  "create_engine url = \<lparr>en_url = url, en_pool_pre_ping = True\<rparr>"

record session_factory =
  sf_engine :: engine
  sf_expire_on_commit :: bool

definition create_session_factory :: "engine \<Rightarrow> session_factory" where
  "create_session_factory engine = \<lparr>sf_engine = engine, sf_expire_on_commit = False\<rparr>"

record 's core_built =
  cb_engine :: engine
  cb_sessions :: session_factory
  cb_broker_url :: ustr
  cb_prefetch :: int
  cb_logger :: json_logger
  cb_subscribers :: "(rabbit_queue \<times> (json \<Rightarrow> ('s, unit) act)) list"
  cb_relay :: "('s, nat) act"
  cb_interval_ms :: int

definition core_build_app :: "core_settings \<Rightarrow> core_world \<Rightarrow> exn + ('z pg_scheme) core_built" where
  "core_build_app S W =
     (case postgres_url (cs_postgres S) of Inl e \<Rightarrow> Inl e | Inr db_url \<Rightarrow>
     (case rabbitmq_url (cs_rabbitmq S) of Inl e \<Rightarrow> Inl e | Inr url \<Rightarrow>
      Inr \<lparr>cb_engine = create_engine db_url, cb_sessions = create_session_factory (create_engine db_url), cb_broker_url = url, cb_prefetch = cms_prefetch (cs_messaging S),
        cb_logger = JsonLogger (lit ''order-core'') (cs_log_level S),
        cb_subscribers = [
          (build_parse_queue (cms_parse_queue (cs_messaging S)) (cms_dlq (cs_messaging S)), core_on_parse S W),
          (build_assess_result_queue (cms_assess_result_queue (cs_messaging S)), core_on_assess S W)],
        cb_relay = core_relay S W, cb_interval_ms = obs_poll_interval_ms (cs_outbox S)\<rparr>))"

text \<open>asgi.py: the settings are loaded, then the application is built; a failure of either ends the start.\<close>

definition core_asgi :: "core_world \<Rightarrow> core_settings \<Rightarrow> exn + ('z pg_scheme) core_built" where
  "core_asgi W settings = (case load core_settings_ok ''Settings'' settings of
     Inl e \<Rightarrow> Inl e | Inr S \<Rightarrow> core_build_app S W)"

definition core_routes :: "(bool \<Rightarrow> response) \<Rightarrow> exn + bool \<Rightarrow> exn + unit \<Rightarrow> routes" where
  "core_routes answer ping probe = [
     (''/health'', ping_route answer ping),
     (''/ready'', map_sum id (\<lambda>(body, status). AsgiResponse body status []) (readiness ping probe))]"

section \<open>llm\<close>

record chat_openai =
  co_model :: ustr
  co_base_url :: ustr
  co_api_key :: ustr
  co_temperature :: float64
  co_max_tokens :: int
  co_timeout :: float64
  co_max_retries :: int
  co_extra_body :: json

definition build_assessor :: "llm_settings \<Rightarrow> chat_openai" where
  "build_assessor S = (let c = ls_llm S in
     \<lparr>co_model = lcs_model c, co_base_url = lcs_base_url c, co_api_key = lcs_api_key c,
      co_temperature = lcs_temperature c, co_max_tokens = lcs_max_tokens c, co_timeout = lcs_timeout c,
      co_max_retries = lcs_max_retries c, co_extra_body = JObj [
        (lit ''service_tier'', JStr (lcs_service_tier c)),
        (lit ''chat_template_kwargs'', JObj [(lit ''enable_thinking'', JBool (lcs_enable_thinking c))])]\<rparr>)"

record llm_built =
  lb_broker_url :: ustr
  lb_prefetch :: int
  lb_logger :: json_logger
  lb_model :: chat_openai
  lb_config :: llm_config
  lb_input :: rabbit_queue

definition llm_build_app :: "llm_settings \<Rightarrow> exn + llm_built" where
  "llm_build_app S = (case llm_rabbitmq_url (ls_rabbitmq S) of Inl e \<Rightarrow> Inl e | Inr url \<Rightarrow>
     Inr \<lparr>lb_broker_url = url, lb_prefetch = lms_prefetch (ls_messaging S),
       lb_logger = llm_JsonLogger (lit ''llm'') (ls_log_level S), lb_model = build_assessor S,
       lb_config = llm_wiring S DEFAULT_PROFILE, lb_input = llm_input_queue (lms_input_queue (ls_messaging S))\<rparr>)"

definition llm_asgi :: "llm_settings \<Rightarrow> exn + llm_built" where
  "llm_asgi settings = (case load llm_settings_ok ''Settings'' settings of Inl e \<Rightarrow> Inl e | Inr S \<Rightarrow> llm_build_app S)"

definition llm_routes :: "(bool \<Rightarrow> response) \<Rightarrow> exn + bool \<Rightarrow> exn + bool \<Rightarrow> routes" where
  "llm_routes answer ping ping' = [(''/health'', ping_route answer ping), (''/ready'', ping_route answer ping')]"

definition llm_declare_queues :: "llm_settings \<Rightarrow> (rabbit_queue \<Rightarrow> exn + unit) \<Rightarrow> ('z service_scheme, unit) act" where
  "llm_declare_queues S broker =
     bind_act (declare_queue broker (llm_dead_letter_queue (lms_input_queue (ls_messaging S)))) (\<lambda>_.
     bind_act (declare_queue broker (llm_retry_queue (lms_input_queue (ls_messaging S)) (lms_retry_ttl_ms (ls_messaging S)))) (\<lambda>_.
     declare_queue broker (llm_result_queue (lms_result_queue (ls_messaging S)))))"

section \<open>scheduler\<close>

definition metrics_content_type :: ustr where
  "metrics_content_type = lit ''text/plain; version=0.0.4; charset=utf-8''"

definition scheduler_health :: "exn + response" where
  "scheduler_health = Inr (AsgiResponse (lit ''ok'') 200 [])"

definition scheduler_metrics :: "(float64 \<Rightarrow> ustr) \<Rightarrow> 'z scheduler_state_scheme \<Rightarrow> exn + response" where
  "scheduler_metrics show_float s = map_sum id (\<lambda>body. AsgiResponse body 200 [(''content-type'', metrics_content_type)])
     (utf8 (render show_float s))"

definition scheduler_routes :: "(float64 \<Rightarrow> ustr) \<Rightarrow> (bool \<Rightarrow> response) \<Rightarrow> exn + bool \<Rightarrow> 'z scheduler_state_scheme \<Rightarrow> routes" where
  "scheduler_routes show_float answer ping s = [
     (''/health'', scheduler_health), (''/ready'', ping_route answer ping), (''/metrics'', scheduler_metrics show_float s)]"

text \<open>
  The background task is taskiq's \<open>run_scheduler\<close>: it runs, or it has ended somehow. \<open>tasks\<close> is the
  dict of main.py, which has at most the one key.
\<close>

datatype task = Runs schedule | Returned | Raised exn

record scheduler_app = service +
  sa_task :: "task option"
  sa_log :: "log_entry list"

definition scheduler_startup :: "scheduler_settings \<Rightarrow> (rabbit_queue \<Rightarrow> exn + unit) \<Rightarrow> (scheduler_app, unit) act" where
  "scheduler_startup S broker =
     bind_act (declare_queue broker (parse_requests_queue (sg_parse_queue (ss_scheduler S)))) (\<lambda>_.
     bind_act (modify_act (\<lambda>s. s\<lparr>sa_task := Some (Runs (scheduler_schedule S))\<rparr>)) (\<lambda>_.
     modify_act (\<lambda>s. s\<lparr>sa_log := sa_log s @ [entry INFO ''scheduler_started''
       [(lit ''interval_seconds'', JInt (sg_parse_interval_seconds (ss_scheduler S)))]]\<rparr>)))"

text \<open>
  \<open>_shutdown\<close>: cancel, then await, where only \<open>CancelledError\<close> is suppressed. The first argument says
  how a running task ends when it is cancelled; one that is over keeps its end.
\<close>

definition scheduler_shutdown :: "task \<Rightarrow> (scheduler_app, unit) act" where
  "scheduler_shutdown ended s = (case sa_task s of
     None \<Rightarrow> (Inr (), s)
   | Some t \<Rightarrow> (let over = (case t of Runs _ \<Rightarrow> ended | _ \<Rightarrow> t); s' = s\<lparr>sa_task := Some over\<rparr> in
       case over of
         Raised e \<Rightarrow> if e = CancelledError then (Inr (), s') else (Inl e, s')
       | _ \<Rightarrow> (Inr (), s')))"

definition scheduler_build_app :: "scheduler_settings \<Rightarrow> exn + (ustr \<times> json_logger \<times> schedule)" where
  "scheduler_build_app S = (case scheduler_rabbitmq_url (ss_rabbitmq S) of Inl e \<Rightarrow> Inl e | Inr url \<Rightarrow>
     Inr (url, scheduler_JsonLogger (lit ''scheduler'') (ss_log_level S), scheduler_schedule S))"

definition scheduler_asgi :: "scheduler_settings \<Rightarrow> exn + (ustr \<times> json_logger \<times> schedule)" where
  "scheduler_asgi settings = (case load (\<lambda>s. scheduler_group_ok (ss_scheduler s)) ''Settings'' settings of
     Inl e \<Rightarrow> Inl e | Inr S \<Rightarrow> scheduler_build_app S)"

section \<open>What starts\<close>

lemma quote_iff: "(\<exists>q. quote s = Inr q) \<longleftrightarrow> list_all is_scalar s"
  by (auto simp: quote_def utf8_def)

lemma rabbitmq_url_total: "(\<exists>u. rabbitmq_url r = Inr u) \<longleftrightarrow>
    list_all is_scalar (rmq_username r) \<and> list_all is_scalar (rmq_password r) \<and> list_all is_scalar (rmq_vhost r)"
  using quote_iff [of "rmq_username r"] quote_iff [of "rmq_password r"] quote_iff [of "rmq_vhost r"]
  by (cases "rmq_vhost r") (auto simp: rabbitmq_url_def split: sum.splits)

lemma postgres_url_total: "(\<exists>u. postgres_url p = Inr u) \<longleftrightarrow>
    list_all is_scalar (pgs_username p) \<and> list_all is_scalar (pgs_password p)"
  using quote_iff [of "pgs_username p"] quote_iff [of "pgs_password p"]
  by (auto simp: postgres_url_def split: sum.splits)

text \<open>A service comes up exactly with settings in their bounds and credentials that UTF-8 can encode.\<close>

lemma llm_asgi_starts: "(\<exists>b. llm_asgi S = Inr b) \<longleftrightarrow> llm_settings_ok S \<and> (\<exists>u. rabbitmq_url (ls_rabbitmq S) = Inr u)"
  by (auto simp: llm_asgi_def llm_build_app_def load_def copied_urls split: sum.splits)

lemma scheduler_asgi_starts: "(\<exists>b. scheduler_asgi S = Inr b) \<longleftrightarrow>
    scheduler_group_ok (ss_scheduler S) \<and> (\<exists>u. rabbitmq_url (ss_rabbitmq S) = Inr u)"
  by (auto simp: scheduler_asgi_def scheduler_build_app_def load_def copied_urls split: sum.splits)

lemma core_asgi_starts: "(\<exists>b. core_asgi W S = Inr b) \<longleftrightarrow> core_settings_ok S \<and>
    (\<exists>u. postgres_url (cs_postgres S) = Inr u) \<and> (\<exists>u. rabbitmq_url (cs_rabbitmq S) = Inr u)"
  by (auto simp: core_asgi_def core_build_app_def load_def split: sum.splits)

section \<open>Probes\<close>

text \<open>
  The scheduler's liveness does not depend on the broker, its metrics are the rendered text in UTF-8
  for any counter and clock, and the core is ready exactly when broker and database answer.
\<close>

lemma probes:
  "map_of (scheduler_routes show_float answer ping s) ''/health'' = Some (Inr (AsgiResponse (lit ''ok'') 200 []))"
  "list_all is_scalar (render show_float s) \<Longrightarrow> \<exists>m. map_of (scheduler_routes show_float answer ping s) ''/metrics'' = Some (Inr m) \<and>
     rs_status m = 200 \<and> utf8_decode (rs_body m) = render show_float s"
  "map_of (core_routes answer (Inr up) probe) ''/ready'' = Some (Inr m) \<Longrightarrow> rs_status m = 200 \<longleftrightarrow> up \<and> probe = Inr ()"
proof -
  show "map_of (scheduler_routes show_float answer ping s) ''/health'' = Some (Inr (AsgiResponse (lit ''ok'') 200 []))"
    by (simp add: scheduler_routes_def scheduler_health_def)
  show "\<exists>m. map_of (scheduler_routes show_float answer ping s) ''/metrics'' = Some (Inr m) \<and>
     rs_status m = 200 \<and> utf8_decode (rs_body m) = render show_float s" if "list_all is_scalar (render show_float s)"
    using that by (simp add: scheduler_routes_def scheduler_metrics_def utf8_def utf8_decode_concat AsgiResponse_def)
  show "rs_status m = 200 \<longleftrightarrow> up \<and> probe = Inr ()" if "map_of (core_routes answer (Inr up) probe) ''/ready'' = Some (Inr m)"
    using that by (auto simp: core_routes_def readiness_def database_ready_def AsgiResponse_def split: if_splits sum.splits)
qed

section \<open>Start and stop of the scheduler\<close>

text \<open>
  A start either fails before anything runs, or leaves one task with the configured schedule. A stop
  raises exactly when the task has ended with an exception other than its cancellation.
\<close>

lemma scheduler_startup_ends:
  assumes "scheduler_startup S broker s = (r, t)"
  shows "case r of Inl e \<Rightarrow> t = s
    | Inr _ \<Rightarrow> sa_task t = Some (Runs (scheduler_schedule S)) \<and> declared t = declared s @ [parse_requests_queue (sg_parse_queue (ss_scheduler S))]"
proof (cases "broker (parse_requests_queue (sg_parse_queue (ss_scheduler S)))")
  case (Inl e)
  with assms have "r = Inl e" "t = s" by (simp_all add: scheduler_startup_def declare_queue_apply bind_act_def)
  then show ?thesis by simp
next
  case (Inr u)
  then have "r = Inr ()" "sa_task t = Some (Runs (scheduler_schedule S))"
      "declared t = declared s @ [parse_requests_queue (sg_parse_queue (ss_scheduler S))]"
    using assms by (auto simp: scheduler_startup_def declare_queue_apply bind_act_def)
  then show ?thesis by simp
qed

lemma scheduler_shutdown_raises:
  "(\<exists>t. scheduler_shutdown ended s = (Inl e, t)) \<longleftrightarrow>
    e \<noteq> CancelledError \<and> (sa_task s = Some (Raised e) \<or> (\<exists>sch. sa_task s = Some (Runs sch) \<and> ended = Raised e))"
  by (auto simp: scheduler_shutdown_def Let_def split: option.split task.split)

section \<open>No message into the void\<close>

definition dead_letter_target :: "rabbit_queue \<Rightarrow> ustr option" where
  "dead_letter_target q = (case map_of (rq_arguments q) (lit ''x-dead-letter-routing-key'') of
     Some (JStr k) \<Rightarrow> Some k | _ \<Rightarrow> None)"

text \<open>The queues that are there when both services have been built and started.\<close>

definition queues_up :: "('s core_built) \<Rightarrow> core_app \<Rightarrow> llm_built \<Rightarrow> service \<Rightarrow> rabbit_queue list" where
  "queues_up c a l b = map fst (cb_subscribers c) @ declared a @ lb_input l # declared b"

text \<open>C26. No message goes into the void: when core and llm, with settings that fit together, have been built
  and started, every queue that one of them publishes to through the default exchange and every
  queue that one of their queues hands dead letters or expired messages to exists.\<close>

theorem no_message_into_the_void:
  fixes c :: "pg core_built"
  assumes "wired S L" and "core_build_app S W = Inr c" and "core_startup S broker a = (Inr (), a')"
    and "llm_build_app L = Inr l" and "llm_declare_queues L broker' b = (Inr (), b')"
  shows "let qs = queues_up c a' l b' in
    (\<forall>p \<in> set [core_dlq S, core_assess_publisher S, lc_result (lb_config l), lc_retry (lb_config l)].
      pub_exchange p = None \<and> pub_routing_key p \<in> rq_name ` set qs) \<and>
    (\<forall>q \<in> set (core_queues S @ llm_queues L). q \<in> set qs \<and>
      (\<forall>k. dead_letter_target q = Some k \<longrightarrow> k \<in> rq_name ` set qs))"
proof -
  have core: "map fst (cb_subscribers c) = [build_parse_queue (cms_parse_queue (cs_messaging S)) (cms_dlq (cs_messaging S)),
      build_assess_result_queue (cms_assess_result_queue (cs_messaging S))]"
    using assms(2) by (auto simp: core_build_app_def split: sum.splits)
  have dlq: "declared a' = declared a @ [build_dead_letter_queue (cms_dlq (cs_messaging S))]"
    using assms(3) by (auto simp: core_startup_def declare_queue_apply bind_act_def split: sum.splits)
  have llm: "lb_input l = llm_input_queue (lms_input_queue (ls_messaging L))" "lb_config l = llm_wiring L DEFAULT_PROFILE"
    using assms(4) by (auto simp: llm_build_app_def split: sum.splits)
  have own: "declared b' = declared b @ [llm_dead_letter_queue (lms_input_queue (ls_messaging L)),
      llm_retry_queue (lms_input_queue (ls_messaging L)) (lms_retry_ttl_ms (ls_messaging L)),
      llm_result_queue (lms_result_queue (ls_messaging L))]"
    using assms(5) by (auto simp: llm_declare_queues_def declare_queue_apply bind_act_def split: sum.splits)
  define qs where "qs = queues_up c a' l b'"
  have up: "set (core_queues S @ llm_queues L) \<subseteq> set qs"
    unfolding qs_def queues_up_def core dlq llm own core_queues_def llm_queues_def by auto
  have names: "rq_name ` set (core_queues S @ llm_queues L) \<subseteq> rq_name ` set qs" by (rule image_mono [OF up])
  have pubs: "pub_exchange p = None \<and> pub_routing_key p \<in> rq_name ` set (core_queues S @ llm_queues L)"
    if "p \<in> set [core_dlq S, core_assess_publisher S, lc_result (lb_config l), lc_retry (lb_config l)]" for p
    using that assms(1) unfolding llm(2)
    by (auto simp: core_dlq_def build_dlq_publisher_def core_assess_publisher_def build_assess_request_publisher_def
        llm_wiring_def build_result_publisher_def build_retry_publisher_def default_publisher_def core_queues_def
        llm_queues_def build_dead_letter_queue_def durable_queue_def llm_input_queue_def llm_retry_queue_def
        llm_result_queue_def wired_def input_queue_def)
  have targets: "k \<in> rq_name ` set (core_queues S @ llm_queues L)"
    if "q \<in> set (core_queues S @ llm_queues L)" "dead_letter_target q = Some k" for q k
    using that
    by (auto simp: core_queues_def llm_queues_def build_parse_queue_def build_assess_result_queue_def
        build_dead_letter_queue_def durable_queue_def llm_input_queue_def llm_dead_letter_queue_def llm_retry_queue_def
        llm_result_queue_def dead_letter_target_def lit_def split: json.splits)
  show ?thesis unfolding Let_def qs_def [symmetric] using up names pubs targets by blast
qed

theorem no_message_into_the_void_witness:
  "\<exists>c :: pg core_built. \<exists>l b'. core_build_app default_core_settings sample_world = Inr c \<and>
     llm_build_app default_llm_settings = Inr l \<and>
     input_queue default_llm_settings \<in>
       rq_name ` set (queues_up c (snd (core_startup default_core_settings (\<lambda>_. Inr ()) app_start)) l b')"
proof -
  obtain c :: "pg core_built" where c: "core_build_app default_core_settings sample_world = Inr c"
    by (simp add: core_build_app_def default_core_settings_def postgres_url_def default_postgres_def rabbitmq_url_def
        default_rabbitmq_def quote_def utf8_def is_scalar_def lit_def)
  obtain l where l: "llm_build_app default_llm_settings = Inr l"
    by (simp add: llm_build_app_def default_llm_settings_def copied_urls rabbitmq_url_def default_rabbitmq_def quote_def utf8_def
        is_scalar_def lit_def)
  obtain a' where a: "core_startup default_core_settings (\<lambda>_. Inr ()) app_start = (Inr (), a')"
    by (simp add: core_startup_def declare_queue_apply bind_act_def)
  obtain b' where b: "llm_declare_queues default_llm_settings (\<lambda>_. Inr ()) \<lparr>declared = []\<rparr> = (Inr (), b')"
    by (simp add: llm_declare_queues_def declare_queue_apply bind_act_def)
  have w: "wired default_core_settings default_llm_settings"
    by (simp add: wired_def input_queue_def retry_queue_def result_queue_def default_core_settings_def
        default_core_messaging_def default_llm_settings_def default_llm_messaging_def lit_def)
  have "pub_routing_key (core_assess_publisher default_core_settings) \<in> rq_name ` set (queues_up c a' l b')"
    using no_message_into_the_void [OF w c a l b] by (simp add: Let_def)
  moreover have "pub_routing_key (core_assess_publisher default_core_settings) = input_queue default_llm_settings"
    using w by (simp add: wired_def core_assess_publisher_def build_assess_request_publisher_def default_publisher_def)
  ultimately show ?thesis using c l a by (intro exI [of _ c] exI [of _ l] exI [of _ b']) simp
qed

end
