(* ===== verification/CoreProg.thy ===== *)
theory CoreProg
  imports CoreTheorems
begin

text \<open>
  order-core-service: the two handlers as programs that pause at every awaited call of a port and go
  on with its answer. Between two pauses no other task of the event loop runs, so these are the
  atomic pieces when several messages are handled at once. Each program is shown to be the handler
  of CoreUseCases, whatever implements the ports.
\<close>

datatype db_prog =
    Finish "exn + unit"
  | Say level string fields db_prog
  | Insert_new incoming_order "bool \<Rightarrow> db_prog"
  | Get_order source ustr "dom_order option \<Rightarrow> db_prog"
  | Set_status source ustr order_status "int option" "bool \<Rightarrow> db_prog"
  | Add_request incoming_order db_prog
  | Add_notification source ustr notification_command db_prog
  | Commit db_prog

primrec run_prog :: "('z runtime_scheme) uow \<Rightarrow> db_prog \<Rightarrow> ('z runtime_scheme, unit) act" where
  "run_prog U (Finish r) = lift_act r"
| "run_prog U (Say l ev fs p) = bind_act (log l ev fs) (\<lambda>_. run_prog U p)"
| "run_prog U (Insert_new ord k) = bind_act (uow_insert_new U ord) (\<lambda>b. run_prog U (k b))"
| "run_prog U (Get_order src ext k) = bind_act (uow_get U src ext) (\<lambda>r. run_prog U (k r))"
| "run_prog U (Set_status src ext st sc k) = bind_act (uow_set_status U src ext st sc) (\<lambda>b. run_prog U (k b))"
| "run_prog U (Add_request ord p) = bind_act (uow_add_assessment_request U ord) (\<lambda>_. run_prog U p)"
| "run_prog U (Add_notification src ext n p) = bind_act (uow_add_notification U src ext n) (\<lambda>_. run_prog U p)"
| "run_prog U (Commit p) = bind_act (uow_commit U) (\<lambda>_. run_prog U p)"

section \<open>The handlers as programs\<close>

primrec ingest_prog :: "incoming_order list \<Rightarrow> db_prog" where
  "ingest_prog [] = Commit (Finish (Inr ()))"
| "ingest_prog (ord # ords) = Insert_new ord (\<lambda>new.
     if new then Add_request ord (Say INFO ''order_ingested''
         [(lit ''source'', JStr (source_value (io_source ord))),
          (lit ''external_id'', JStr (io_external_id ord))] (ingest_prog ords))
     else Say DEBUG ''order_duplicate''
         [(lit ''source'', JStr (source_value (io_source ord))),
          (lit ''external_id'', JStr (io_external_id ord))] (ingest_prog ords))"

definition verdict_prog :: "int \<Rightarrow> assessment_outcome \<Rightarrow> db_prog" where
  "verdict_prog threshold out =
     (let dcs = decide_notification out threshold; oid = ao_order_id out;
          score = ao_suitability_score out; done_prog = Commit (Finish (Inr ())) in
      if dec_notify dcs
      then Set_status PROFI oid NOTIFY_REQUESTED (Some score) (\<lambda>_.
           Add_notification PROFI oid (ao_notification out) (
           Say INFO ''notification_requested''
             [(lit ''external_id'', JStr oid), (lit ''score'', JInt score)] done_prog))
      else Set_status PROFI oid NO_NOTIFY (Some score) (\<lambda>_.
           Say INFO ''order_no_notify''
             [(lit ''external_id'', JStr oid), (lit ''reason'', JStr (reason_value (dec_reason dcs)))] done_prog))"

definition process_prog :: "int \<Rightarrow> assessment_outcome \<Rightarrow> db_prog" where
  "process_prog threshold out = Get_order PROFI (ao_order_id out) (\<lambda>ord.
     case ord of
       None \<Rightarrow> Finish (Inl (unknown_order (ao_order_id out)))
     | Some o' \<Rightarrow>
         if \<not> can_apply_assessment (do_status o')
         then Say INFO ''assessment_ignored''
             [(lit ''external_id'', JStr (ao_order_id out)),
              (lit ''status'', JStr (status_value (do_status o')))] (Commit (Finish (Inr ())))
         else verdict_prog threshold out)"

section \<open>They are the handlers\<close>

lemma bind_lift_Inr: "bind_act m (\<lambda>_. lift_act (Inr ())) = (m :: ('s, unit) act)"
  by (rule ext) (simp add: bind_act_def split: prod.split sum.split)

lemma lift_Inl: "lift_act (Inl e) = raise e"
  by (simp add: lift_act_def raise_def)

lemma run_ingest_prog:
  "run_prog U (ingest_prog batch) = bind_act (for_each (ingest_one U) batch) (\<lambda>_. uow_commit U)"
proof (induction batch)
  case Nil
  show ?case by (simp add: bind_lift_Inr)
next
  case (Cons ord ords)
  then show ?case
    by (simp add: ingest_one_def bind_act_assoc if_distrib [of "run_prog U"]
        if_distribR if_distrib [of "\<lambda>m. bind_act m f" for f] cong: if_cong)
qed

lemma run_verdict_prog:
  "run_prog U (verdict_prog th out) = bind_act (apply_verdict U th out) (\<lambda>_. uow_commit U)"
  by (simp add: verdict_prog_def apply_verdict_def Let_def bind_act_assoc bind_lift_Inr)

lemma run_process_prog: "run_prog U (process_prog th out) = bind_act (uow_get U PROFI (ao_order_id out)) (\<lambda>ord.
       case ord of
         None \<Rightarrow> raise (unknown_order (ao_order_id out))
       | Some o' \<Rightarrow>
           if \<not> can_apply_assessment (do_status o')
           then bind_act (log INFO ''assessment_ignored''
               [(lit ''external_id'', JStr (ao_order_id out)),
                (lit ''status'', JStr (status_value (do_status o')))]) (\<lambda>_. uow_commit U)
           else bind_act (apply_verdict U th out) (\<lambda>_. uow_commit U))"
  unfolding process_prog_def run_prog.simps
  by (intro arg_cong [of _ _ "bind_act (uow_get U PROFI (ao_order_id out))"] ext)
    (auto simp: run_verdict_prog bind_lift_Inr lift_Inl fun_eq_iff split: option.split simp del: lift_act_apply)

text \<open>The programs that pause at every await are the handlers: run over any implementation of the
  ports, inside its scope, the program of a batch is \<open>IngestOrders.handle\<close> and the program of a
  verdict is \<open>ProcessAssessment.handle\<close>, with the same results, states and log.\<close>

lemma programs_are_handlers:
  "IngestOrders_handle U batch = uow_scope U (run_prog U (ingest_prog batch)) \<and>
   ProcessAssessment_handle U th out = uow_scope U (run_prog U (process_prog th out))"
  by (simp add: IngestOrders_handle_def ProcessAssessment_handle_def run_ingest_prog run_process_prog)

end
