(* ===== verification/CoreConcurrent.thy ===== *)
theory CoreConcurrent
  imports CoreProg
begin

text \<open>
  order-core-service: several messages handled at once. The subscribers take up to ten messages
  together, and each handler has a session of its own; PostgreSQL runs the sessions at its default
  level, READ COMMITTED. A state is the committed tables and the open transactions, each with the
  rest of its program and its own uncommitted writes. A step is one statement of one transaction,
  which sees the committed tables of that moment and the transaction's own writes; a statement that
  needs a key or a row another transaction holds has no step until that one ends.
\<close>

section \<open>Transactions\<close>

primrec call_prog :: "core_call \<Rightarrow> db_prog" where
  "call_prog (Ingest batch) = ingest_prog batch"
| "call_prog (Process th out) = process_prog th out"

text \<open>Logging awaits nothing: it goes with the statement before it.\<close>

primrec settle :: "db_prog \<Rightarrow> db_prog" where
  "settle (Finish r) = Finish r"
| "settle (Say l ev fs p) = settle p"
| "settle (Insert_new ord k) = Insert_new ord k"
| "settle (Get_order src ext k) = Get_order src ext k"
| "settle (Set_status src ext st sc k) = Set_status src ext st sc k"
| "settle (Add_request ord p) = Add_request ord p"
| "settle (Add_notification src ext n p) = Add_notification src ext n p"
| "settle (Commit p) = Commit p"

type_synonym row_update = "(ustr \<times> ustr) \<times> order_status \<times> int option \<times> int"

record tx =
  tx_call :: core_call
  tx_prog :: db_prog
  tx_orders :: "order_row list"
  tx_events :: "outbox_row list"
  tx_sets :: "row_update list"

definition open_tx :: "core_call \<Rightarrow> tx" where
  "open_tx call = \<lparr>tx_call = call, tx_prog = settle (call_prog call), tx_orders = [], tx_events = [], tx_sets = []\<rparr>"

fun apply_set :: "row_update \<Rightarrow> order_row \<Rightarrow> order_row" where
  "apply_set (k, st, sc, now) r = (if order_key r = k
     then r\<lparr>or_status := status_value st, or_suitability_score := sc, or_updated_at := now\<rparr> else r)"

text \<open>What a transaction sees, and what its commit makes of the committed tables.\<close>

definition view :: "database \<Rightarrow> tx \<Rightarrow> database" where
  "view db t = db\<lparr>orders_t := map (fold apply_set (tx_sets t)) (orders_t db @ tx_orders t),
     outbox_t := outbox_t db @ tx_events t\<rparr>"

type_synonym conc = "database \<times> (nat \<Rightarrow> tx option)"

text \<open>A key or row is free for a transaction when no other open transaction has it among its own.\<close>

definition free :: "(nat \<Rightarrow> tx option) \<Rightarrow> nat \<Rightarrow> (tx \<Rightarrow> 'k set) \<Rightarrow> 'k \<Rightarrow> bool" where
  "free T i held k \<longleftrightarrow> (\<forall>j t. j \<noteq> i \<longrightarrow> T j = Some t \<longrightarrow> k \<notin> held t)"

definition order_keys :: "tx \<Rightarrow> (ustr \<times> ustr) set" where "order_keys t = order_key ` set (tx_orders t)"
definition order_ids :: "tx \<Rightarrow> nat set" where "order_ids t = or_id ` set (tx_orders t)"
definition event_keys :: "tx \<Rightarrow> ustr set" where "event_keys t = ob_dedup_key ` set (tx_events t)"
definition event_ids :: "tx \<Rightarrow> nat set" where "event_ids t = ob_id ` set (tx_events t)"
definition row_locks :: "tx \<Rightarrow> (ustr \<times> ustr) set" where "row_locks t = fst ` set (tx_sets t)"

lemmas held_defs = order_keys_def order_ids_def event_keys_def event_ids_def row_locks_def

definition decode_row :: "order_row option \<Rightarrow> exn + dom_order option" where
  "decode_row row = (case row of None \<Rightarrow> Inr None
     | Some r \<Rightarrow> (case source_of (or_source r) of Inl e \<Rightarrow> Inl e
       | Inr sr \<Rightarrow> (case status_of (or_status r) of Inl e \<Rightarrow> Inl e
         | Inr st \<Rightarrow> Inr (Some \<lparr>do_source = sr, do_external_id = or_external_id r, do_status = st,
             do_suitability_score = or_suitability_score r\<rparr>))))"

lemma get_order_decode: "get_order E src ext = bind_act (execute E (select_order_stmt src ext)) (\<lambda>row. lift_act (decode_row row))"
  unfolding get_order_def
  by (intro arg_cong [of _ _ "bind_act (execute E (select_order_stmt src ext))"] ext)
    (auto simp: decode_row_def bind_act_def split: option.split sum.split)

section \<open>Steps\<close>

definition new_rows :: "'r list \<Rightarrow> 'r list \<Rightarrow> 'r list" where
  "new_rows old new = drop (length old) new"

inductive conc_step :: "pg_env \<Rightarrow> (core_call \<Rightarrow> bool) \<Rightarrow> conc \<Rightarrow> conc \<Rightarrow> bool"
  for E delivered where
  begin_tx: "T i = None \<Longrightarrow> delivered call \<Longrightarrow> conc_step E delivered (db, T) (db, T(i \<mapsto> open_tx call))"
| insert_tx: "T i = Some t \<Longrightarrow> tx_prog t = Insert_new ord k \<Longrightarrow> free T i order_keys (in_key ord) \<Longrightarrow>
    free T i order_ids uid \<Longrightarrow> insert_order_stmt E uid ord now (view db t) = Inr (b, v) \<Longrightarrow>
    conc_step E delivered (db, T) (db, T(i \<mapsto> t\<lparr>tx_prog := settle (k b),
      tx_orders := tx_orders t @ new_rows (orders_t (view db t)) (orders_t v)\<rparr>))"
| get_tx: "T i = Some t \<Longrightarrow> tx_prog t = Get_order src ext k \<Longrightarrow>
    select_order_stmt src ext now (view db t) = Inr (row, v) \<Longrightarrow> decode_row row = Inr r \<Longrightarrow>
    conc_step E delivered (db, T) (db, T(i \<mapsto> t\<lparr>tx_prog := settle (k r)\<rparr>))"
| set_tx: "T i = Some t \<Longrightarrow> tx_prog t = Set_status src ext st sc k \<Longrightarrow>
    free T i row_locks (source_value src, ext) \<Longrightarrow>
    update_status_stmt src ext st sc now (view db t) = Inr (b, v) \<Longrightarrow>
    conc_step E delivered (db, T) (db, T(i \<mapsto> t\<lparr>tx_prog := settle (k b),
      tx_sets := tx_sets t @ (if b then [((source_value src, ext), st, sc, now)] else [])\<rparr>))"
| request_tx: "T i = Some t \<Longrightarrow> tx_prog t = Add_request ord p \<Longrightarrow>
    key = assess_key (io_source ord) (io_external_id ord) \<Longrightarrow> free T i event_keys key \<Longrightarrow> free T i event_ids uid \<Longrightarrow>
    insert_outbox_stmt E uid ASSESS_REQUEST key (assess_request_payload ord) now (view db t) = Inr (u, v) \<Longrightarrow>
    conc_step E delivered (db, T) (db, T(i \<mapsto> t\<lparr>tx_prog := settle p,
      tx_events := tx_events t @ new_rows (outbox_t (view db t)) (outbox_t v)\<rparr>))"
| notify_tx: "T i = Some t \<Longrightarrow> tx_prog t = Add_notification src ext n p \<Longrightarrow>
    key = notify_key src ext \<Longrightarrow> free T i event_keys key \<Longrightarrow> free T i event_ids uid \<Longrightarrow>
    insert_outbox_stmt E uid NOTIFY key (notification_payload n) now (view db t) = Inr (u, v) \<Longrightarrow>
    conc_step E delivered (db, T) (db, T(i \<mapsto> t\<lparr>tx_prog := settle p,
      tx_events := tx_events t @ new_rows (outbox_t (view db t)) (outbox_t v)\<rparr>))"
| commit_tx: "T i = Some t \<Longrightarrow> tx_prog t = Commit p \<Longrightarrow>
    conc_step E delivered (db, T) (view db t, T(i \<mapsto> t\<lparr>tx_prog := settle p, tx_orders := [], tx_events := [],
      tx_sets := []\<rparr>))"
| relay_tx: "mark_stmt ids now db = Inr (u, db') \<Longrightarrow> conc_step E delivered (db, T) (db', T)"
| end_tx: "T i = Some t \<Longrightarrow> conc_step E delivered (db, T) (db, T(i := None))"

text \<open>
  \<open>relay_tx\<close> is the commit of a relay pass: it marks rows that were committed and that no handler
  writes to. \<open>end_tx\<close> is the end of a finished transaction, and the rollback of any other: for a failed
  statement or commit, a lost connection, a deadlock that the server breaks, or an exception of the
  handler.
\<close>

inductive conc_reach :: "pg_env \<Rightarrow> (core_call \<Rightarrow> bool) \<Rightarrow> database \<Rightarrow> conc \<Rightarrow> bool" for E delivered db0 where
  start: "conc_reach E delivered db0 (db0, \<lambda>_. None)"
| step: "conc_reach E delivered db0 p \<Longrightarrow> conc_step E delivered p q \<Longrightarrow> conc_reach E delivered db0 q"

section \<open>What a transaction sees\<close>

lemma order_key_apply_set [simp]: "order_key (apply_set u r) = order_key r"
  by (cases u) (simp add: order_key_def)

lemma apply_set_keeps [simp]: "or_id (apply_set u r) = or_id r" "or_source (apply_set u r) = or_source r"
  by (cases u; simp)+

lemma fold_apply_set_keeps [simp]: "order_key (fold apply_set us r) = order_key r"
  "or_id (fold apply_set us r) = or_id r" "or_source (fold apply_set us r) = or_source r"
  by (induction us arbitrary: r) simp_all

lemma fold_apply_set_other: "order_key r \<notin> fst ` set us \<Longrightarrow> fold apply_set us r = r"
proof (induction us arbitrary: r)
  case (Cons u us)
  then show ?case by (cases u) auto
qed simp

lemma view_own_nothing: "tx_orders t = [] \<Longrightarrow> tx_events t = [] \<Longrightarrow> tx_sets t = [] \<Longrightarrow> view db t = db"
  by (simp add: view_def)

lemma view_keys:
  "map order_key (orders_t (view db t)) = map order_key (orders_t db) @ map order_key (tx_orders t)"
  "map or_id (orders_t (view db t)) = map or_id (orders_t db) @ map or_id (tx_orders t)"
  "map or_source (orders_t (view db t)) = map or_source (orders_t db) @ map or_source (tx_orders t)"
  "outbox_t (view db t) = outbox_t db @ tx_events t"
  by (simp_all add: view_def comp_def)

lemma insert_order_rows:
  assumes "insert_order_stmt E uid ord now db = Inr (b, v)"
  obtains (dup) "in_key ord \<in> set (map order_key (orders_t db))" and "b = False" and "v = db"
    | (new) r where "in_key ord \<notin> set (map order_key (orders_t db))" and "b = True"
        and "v = db\<lparr>orders_t := orders_t db @ [r]\<rparr>" and "or_id r = uid" and "uid \<notin> set (map or_id (orders_t db))"
        and "order_binding r = (in_key ord, (status_value ASSESS_REQUESTED, None))"
        and "or_source r = source_value PROFI"
proof -
  have "io_source ord = PROFI" by simp
  with assms show ?thesis
    using dup new unfolding insert_order_stmt_def Let_def in_key_def order_binding_def
    by (auto simp: order_key_def split: if_splits)
qed

lemma insert_outbox_rows:
  assumes "insert_outbox_stmt E uid dest key payload now db = Inr (u, v)"
  obtains (dup) "key \<in> set (map ob_dedup_key (outbox_t db))" and "v = db"
    | (new) r where "key \<notin> set (map ob_dedup_key (outbox_t db))" and "v = db\<lparr>outbox_t := outbox_t db @ [r]\<rparr>"
        and "ob_id r = uid" and "uid \<notin> set (map ob_id (outbox_t db))"
        and "event_binding r = (key, (destination_value dest, payload))" and "ob_status r = pending"
  using assms dup new unfolding insert_outbox_stmt_def event_binding_def by (auto split: if_splits)

text \<open>The writes a step records are the ones its statement made.\<close>

lemma view_insert: "orders_t (view db (t\<lparr>tx_orders := tx_orders t @ [r]\<rparr>)) =
    orders_t (view db t) @ [fold apply_set (tx_sets t) r]"
  "outbox_t (view db (t\<lparr>tx_orders := ors\<rparr>)) = outbox_t (view db t)"
  by (simp_all add: view_def)

lemma view_set:
  assumes "update_status_stmt src ext st sc now (view db t) = Inr (b, v)"
  shows "view db (t\<lparr>tx_sets := tx_sets t @ (if b then [((source_value src, ext), st, sc, now)] else [])\<rparr>) = v"
    and "b \<longleftrightarrow> (source_value src, ext) \<in> set (map order_key (orders_t db)) \<union> order_keys t"
proof -
  let ?k = "(source_value src, ext)"
  let ?upd = "\<lambda>r. if order_key r = ?k
    then r\<lparr>or_status := status_value st, or_suitability_score := sc, or_updated_at := now\<rparr> else r"
  have b: "b \<longleftrightarrow> ?k \<in> set (map order_key (orders_t (view db t)))"
    and v: "v = (view db t)\<lparr>orders_t := map ?upd (orders_t (view db t))\<rparr>"
    using assms by (auto simp: update_status_stmt_def split: if_splits option.splits)
  show "b \<longleftrightarrow> ?k \<in> set (map order_key (orders_t db)) \<union> order_keys t"
    unfolding b view_keys by (simp add: order_keys_def)
  have same: "map ?upd (orders_t (view db t)) = orders_t (view db t)" if "\<not> b"
  proof (rule map_idI)
    fix r assume "r \<in> set (orders_t (view db t))"
    then have "order_key r \<in> set (map order_key (orders_t (view db t)))" by simp
    with that have "order_key r \<noteq> ?k" unfolding b by metis
    then show "?upd r = r" by simp
  qed
  have "apply_set (?k, st, sc, now) = ?upd" by (rule ext) simp
  then have "view db (t\<lparr>tx_sets := tx_sets t @ [(?k, st, sc, now)]\<rparr>) = v"
    by (simp add: v view_def comp_def)
  moreover have "v = view db t" if "\<not> b" using same [OF that] by (simp add: v)
  ultimately show "view db (t\<lparr>tx_sets := tx_sets t @ (if b then [(?k, st, sc, now)] else [])\<rparr>) = v"
    by (cases b) simp_all
qed

end
