(* ===== verification/CoreConcProps.thy ===== *)
theory CoreConcProps
  imports CoreConcurrent
begin

text \<open>
  order-core-service: the rows of overlapping transactions. The uncommitted rows of two transactions
  never collide, so whichever commits first leaves the rows of the other fit for the tables.
\<close>

section \<open>Uncommitted rows do not collide\<close>

definition apart :: "tx \<Rightarrow> tx \<Rightarrow> bool" where
  "apart t u \<longleftrightarrow> order_keys t \<inter> order_keys u = {} \<and> order_ids t \<inter> order_ids u = {} \<and>
     event_keys t \<inter> event_keys u = {} \<and> event_ids t \<inter> event_ids u = {} \<and> row_locks t \<inter> row_locks u = {}"

definition tx_rows :: "database \<Rightarrow> tx \<Rightarrow> bool" where
  "tx_rows db t \<longleftrightarrow> rows_ok (view db t) \<and> row_locks t \<subseteq> set (map order_key (orders_t db))"

definition conc_rows :: "conc \<Rightarrow> bool" where
  "conc_rows p \<longleftrightarrow> rows_ok (fst p) \<and> (\<forall>i t. snd p i = Some t \<longrightarrow> tx_rows (fst p) t) \<and>
     (\<forall>i j t u. i \<noteq> j \<longrightarrow> snd p i = Some t \<longrightarrow> snd p j = Some u \<longrightarrow> apart t u)"

lemma apart_sym: "apart t u \<Longrightarrow> apart u t"
  by (auto simp: apart_def)

lemma apart_nothing: "order_keys t = {} \<Longrightarrow> order_ids t = {} \<Longrightarrow> event_keys t = {} \<Longrightarrow> event_ids t = {} \<Longrightarrow>
    row_locks t = {} \<Longrightarrow> apart t u"
  by (simp add: apart_def)

lemma rows_ok_view:
  "rows_ok (view db t) \<longleftrightarrow>
     distinct (map order_key (orders_t db) @ map order_key (tx_orders t)) \<and>
     distinct (map or_id (orders_t db) @ map or_id (tx_orders t)) \<and>
     distinct (map ob_dedup_key (outbox_t db) @ map ob_dedup_key (tx_events t)) \<and>
     distinct (map ob_id (outbox_t db) @ map ob_id (tx_events t)) \<and>
     (\<forall>r \<in> set (orders_t (view db t)). or_source r = source_value PROFI \<and> (\<exists>st. or_status r = status_value st)) \<and>
     (\<forall>r \<in> set (outbox_t db @ tx_events t). (\<exists>d. ob_destination r = destination_value d) \<and>
        ob_status r \<in> {pending, published})"
  unfolding rows_ok_def view_keys map_append by blast

lemma fold_apply_set_status: "(\<exists>st. or_status r = status_value st) \<Longrightarrow>
    \<exists>st. or_status (fold apply_set us r) = status_value st"
proof (induction us arbitrary: r)
  case (Cons u us)
  then show ?case by (cases u) auto
qed simp

lemma distinct_three: "distinct (xs @ ys) \<Longrightarrow> distinct (xs @ zs) \<Longrightarrow> set ys \<inter> set zs = {} \<Longrightarrow> distinct ((xs @ zs) @ ys)"
  by auto

text \<open>A commit of another transaction leaves the own rows fit.\<close>

lemma tx_rows_commit:
  assumes "tx_rows db t" and "tx_rows db u" and "apart t u"
  shows "tx_rows (view db u) t"
proof -
  have vt: "rows_ok (view db t)" and vu: "rows_ok (view db u)" using assms(1,2) by (simp_all add: tx_rows_def)
  have ap: "order_key ` set (tx_orders t) \<inter> order_key ` set (tx_orders u) = {}"
      "or_id ` set (tx_orders t) \<inter> or_id ` set (tx_orders u) = {}"
      "ob_dedup_key ` set (tx_events t) \<inter> ob_dedup_key ` set (tx_events u) = {}"
      "ob_id ` set (tx_events t) \<inter> ob_id ` set (tx_events u) = {}"
    using assms(3) by (simp_all add: apart_def held_defs)
  have orders: "orders_t (view (view db u) t) =
      map (fold apply_set (tx_sets t)) (orders_t (view db u) @ tx_orders t)"
    and outbox: "outbox_t (view db u) = outbox_t db @ tx_events u"
    by (simp_all add: view_def)
  have old: "\<exists>st. or_status (fold apply_set (tx_sets t) r) = status_value st"
      "or_source (fold apply_set (tx_sets t) r) = source_value PROFI"
    if "r \<in> set (orders_t (view db u))" for r
    using vu that by (auto simp: rows_ok_def intro: fold_apply_set_status)
  have own: "or_source (fold apply_set (tx_sets t) r) = source_value PROFI \<and>
      (\<exists>st. or_status (fold apply_set (tx_sets t) r) = status_value st)" if "r \<in> set (tx_orders t)" for r
  proof -
    have "fold apply_set (tx_sets t) r \<in> set (orders_t (view db t))" using that by (simp add: view_def)
    with vt show ?thesis unfolding rows_ok_def by blast
  qed
  have "\<forall>r \<in> set (orders_t (view (view db u) t)). or_source r = source_value PROFI \<and> (\<exists>st. or_status r = status_value st)"
  proof
    fix r assume "r \<in> set (orders_t (view (view db u) t))"
    then obtain r' where r: "r = fold apply_set (tx_sets t) r'"
        "r' \<in> set (orders_t (view db u)) \<or> r' \<in> set (tx_orders t)"
      unfolding orders by auto
    show "or_source r = source_value PROFI \<and> (\<exists>st. or_status r = status_value st)"
      using r(2) old own unfolding r(1) by blast
  qed
  moreover have "\<forall>r \<in> set (outbox_t (view db u) @ tx_events t). (\<exists>d. ob_destination r = destination_value d) \<and>
        ob_status r \<in> {pending, published}"
    using vt vu unfolding outbox rows_ok_view by auto
  moreover have "distinct (map order_key (orders_t (view db u)) @ map order_key (tx_orders t))"
      "distinct (map or_id (orders_t (view db u)) @ map or_id (tx_orders t))"
      "distinct (map ob_dedup_key (outbox_t (view db u)) @ map ob_dedup_key (tx_events t))"
      "distinct (map ob_id (outbox_t (view db u)) @ map ob_id (tx_events t))"
    unfolding view_keys map_append
    by (intro distinct_three; use vt [unfolded rows_ok_view] vu [unfolded rows_ok_view] ap in simp)+
  ultimately have "rows_ok (view (view db u) t)" unfolding rows_ok_view by blast
  moreover have "row_locks t \<subseteq> set (map order_key (orders_t (view db u)))"
    using assms(1) unfolding tx_rows_def view_keys by auto
  ultimately show ?thesis by (simp add: tx_rows_def)
qed

lemma conc_rows_update:
  assumes "conc_rows (db, T)" and "tx_rows db t" and "\<And>j u. j \<noteq> i \<Longrightarrow> T j = Some u \<Longrightarrow> apart t u"
  shows "conc_rows (db, T(i \<mapsto> t))"
  unfolding conc_rows_def fst_conv snd_conv
proof (intro conjI allI impI)
  show "rows_ok db" using assms(1) by (simp add: conc_rows_def)
  fix j u assume "(T(i \<mapsto> t)) j = Some u"
  then show "tx_rows db u" using assms(1,2) unfolding conc_rows_def by (auto split: if_splits)
next
  fix j k u v assume jk: "j \<noteq> k" "(T(i \<mapsto> t)) j = Some u" "(T(i \<mapsto> t)) k = Some v"
  then consider "j = i" "u = t" "k \<noteq> i" "T k = Some v" | "k = i" "v = t" "j \<noteq> i" "T j = Some u"
    | "j \<noteq> i" "k \<noteq> i" "T j = Some u" "T k = Some v"
    by (auto split: if_splits)
  then show "apart u v"
    using assms(1,3) apart_sym jk(1) unfolding conc_rows_def by cases (simp; blast)+
qed

lemma conc_rowsD:
  assumes "conc_rows (db, T)" and "T i = Some t"
  shows "rows_ok db" and "tx_rows db t" and "j \<noteq> i \<Longrightarrow> T j = Some u \<Longrightarrow> apart t u"
proof -
  from assms(1) have c: "rows_ok db" "\<And>i t. T i = Some t \<Longrightarrow> tx_rows db t"
      "\<And>i j t u. i \<noteq> j \<Longrightarrow> T i = Some t \<Longrightarrow> T j = Some u \<Longrightarrow> apart t u"
    by (simp_all add: conc_rows_def)
  show "rows_ok db" by (rule c(1))
  show "tx_rows db t" by (rule c(2) [OF assms(2)])
  show "j \<noteq> i \<Longrightarrow> T j = Some u \<Longrightarrow> apart t u" by (rule c(3) [OF not_sym assms(2)])
qed

lemma apart_more_orders: "apart t u \<Longrightarrow> order_key r \<notin> order_keys u \<Longrightarrow> or_id r \<notin> order_ids u \<Longrightarrow>
    apart (t\<lparr>tx_prog := p, tx_orders := tx_orders t @ [r]\<rparr>) u"
  by (auto simp: apart_def held_defs)

lemma apart_more_events: "apart t u \<Longrightarrow> ob_dedup_key r \<notin> event_keys u \<Longrightarrow> ob_id r \<notin> event_ids u \<Longrightarrow>
    apart (t\<lparr>tx_prog := p, tx_events := tx_events t @ [r]\<rparr>) u"
  by (auto simp: apart_def held_defs)

lemma apart_more_sets: "apart t u \<Longrightarrow> k \<notin> row_locks u \<Longrightarrow>
    apart (t\<lparr>tx_prog := p, tx_sets := tx_sets t @ (if b then [(k, st, sc, now)] else [])\<rparr>) u"
  by (cases b) (simp_all add: apart_def held_defs)

lemma view_prog [simp]: "view db (t\<lparr>tx_prog := p\<rparr>) = view db t"
  and held_prog [simp]: "order_keys (t\<lparr>tx_prog := p\<rparr>) = order_keys t" "order_ids (t\<lparr>tx_prog := p\<rparr>) = order_ids t"
    "event_keys (t\<lparr>tx_prog := p\<rparr>) = event_keys t" "event_ids (t\<lparr>tx_prog := p\<rparr>) = event_ids t"
    "row_locks (t\<lparr>tx_prog := p\<rparr>) = row_locks t"
  by (simp_all add: view_def held_defs)

lemma new_rows_simps [simp]: "new_rows xs xs = []" "new_rows xs (xs @ ys) = ys"
  by (simp_all add: new_rows_def)

lemma tx_rows_add_order:
  assumes "tx_rows db t" and "order_key r \<notin> set (map order_key (orders_t (view db t)))"
    and "or_id r \<notin> set (map or_id (orders_t (view db t)))" and "or_source r = source_value PROFI"
    and "\<exists>st. or_status r = status_value st"
  shows "tx_rows db (t\<lparr>tx_prog := p, tx_orders := tx_orders t @ [r]\<rparr>)"
proof -
  let ?t = "t\<lparr>tx_prog := p, tx_orders := tx_orders t @ [r]\<rparr>"
  have "orders_t (view db ?t) = orders_t (view db t) @ [fold apply_set (tx_sets t) r]"
      "outbox_t (view db ?t) = outbox_t (view db t)"
    by (simp_all add: view_def)
  moreover have "\<exists>st. or_status (fold apply_set (tx_sets t) r) = status_value st"
    by (rule fold_apply_set_status [OF assms(5)])
  ultimately have "rows_ok (view db ?t)" using assms unfolding tx_rows_def rows_ok_def by auto
  moreover have "row_locks ?t = row_locks t" by (simp add: row_locks_def)
  ultimately show ?thesis using assms(1) by (simp add: tx_rows_def)
qed

lemma tx_rows_add_event:
  assumes "tx_rows db t" and "ob_dedup_key r \<notin> set (map ob_dedup_key (outbox_t (view db t)))"
    and "ob_id r \<notin> set (map ob_id (outbox_t (view db t)))" and "ob_destination r = destination_value d"
    and "ob_status r = pending"
  shows "tx_rows db (t\<lparr>tx_prog := p, tx_events := tx_events t @ [r]\<rparr>)"
proof -
  let ?t = "t\<lparr>tx_prog := p, tx_events := tx_events t @ [r]\<rparr>"
  have "orders_t (view db ?t) = orders_t (view db t)" "outbox_t (view db ?t) = outbox_t (view db t) @ [r]"
    by (simp_all add: view_def)
  then have "rows_ok (view db ?t)" using assms unfolding tx_rows_def rows_ok_def by auto
  moreover have "row_locks ?t = row_locks t" by (simp add: row_locks_def)
  ultimately show ?thesis using assms(1) by (simp add: tx_rows_def)
qed

end
