(* ===== verification/CoreConcLink.thy ===== *)
theory CoreConcLink
  imports CoreConcProps
begin

text \<open>
  order-core-service: the specification's side of overlapping transactions. What a batch still inserts
  when other batches were committed meanwhile; what the commit of a verdict does to the tables it
  finds; and the part of the link between orders and outbox that a race cannot break.
\<close>

section \<open>What a batch inserts\<close>

text \<open>The orders of a batch that find no row: none in \<open>D\<close> and none of an earlier one of the batch.\<close>

fun fresh_orders :: "(ustr \<times> ustr) set \<Rightarrow> incoming_order list \<Rightarrow> incoming_order list" where
  "fresh_orders D [] = []"
| "fresh_orders D (ord # ords) = (if in_key ord \<in> D then fresh_orders D ords
     else ord # fresh_orders (insert (in_key ord) D) ords)"

definition in_bind :: "incoming_order \<Rightarrow> (ustr \<times> ustr) \<times> (ustr \<times> int option)" where
  "in_bind ord = (in_key ord, (status_value ASSESS_REQUESTED, None))"

definition ev_bind :: "incoming_order \<Rightarrow> ustr \<times> (ustr \<times> json)" where
  "ev_bind ord = (assess_key PROFI (io_external_id ord), (destination_value ASSESS_REQUEST, assess_request_payload ord))"

lemma fresh_orders_snoc: "fresh_orders D (ords @ [ord]) =
    fresh_orders D ords @ (if in_key ord \<in> D \<union> in_key ` set (fresh_orders D ords) then [] else [ord])"
  by (induction D ords rule: fresh_orders.induct) auto

lemma fresh_orders_new: "in_key ` set (fresh_orders D ords) \<inter> D = {}"
  by (induction D ords rule: fresh_orders.induct) auto

lemma fresh_orders_distinct: "distinct (map in_key (fresh_orders D ords))"
proof (induction D ords rule: fresh_orders.induct)
  case (2 D ord ords)
  then show ?case using fresh_orders_new [of "insert (in_key ord) D" ords] by auto
qed simp

lemma fresh_orders_stable:
  "D \<subseteq> D' \<Longrightarrow> D' \<inter> in_key ` set (fresh_orders D ords) = {} \<Longrightarrow> fresh_orders D' ords = fresh_orders D ords"
proof (induction D ords arbitrary: D' rule: fresh_orders.induct)
  case (2 D ord ords)
  show ?case
  proof (cases "in_key ord \<in> D")
    case True
    with 2(1) [of D'] 2(3,4) show ?thesis by auto
  next
    case False
    then have "in_key ord \<notin> in_key ` set (fresh_orders (insert (in_key ord) D) ords)"
      using fresh_orders_new [of "insert (in_key ord) D" ords] by auto
    with False 2(2) [of "insert (in_key ord) D'"] 2(3,4) show ?thesis by auto
  qed
qed simp

lemma fold_spec_ingest_fresh:
  "fold spec_ingest ords a = fold spec_ingest (fresh_orders (dom (fst a)) ords) a"
proof (induction ords arbitrary: a)
  case (Cons ord ords)
  show ?case
  proof (cases "in_key ord \<in> dom (fst a)")
    case True
    then have "spec_ingest ord a = a" by (intro spec_ingest_known) auto
    with True Cons show ?thesis by simp
  next
    case False
    then have "dom (fst (spec_ingest ord a)) = insert (in_key ord) (dom (fst a))"
      by (cases a) (auto simp: spec_ingest_def)
    with False Cons show ?thesis by simp
  qed
qed simp

text \<open>Rows appended for orders that are new are the specification's step.\<close>

lemma fold_spec_ingest_rows:
  assumes "distinct (map in_key ords)" and "\<forall>ord \<in> set ords. map_of obs (in_key ord) = None"
    and "\<forall>ord \<in> set ords. map_of evs (assess_key PROFI (io_external_id ord)) = None"
  shows "fold spec_ingest ords (map_of obs, map_of evs) =
    (map_of (obs @ map in_bind ords), map_of (evs @ map ev_bind ords))"
  using assms
proof (induction ords arbitrary: obs evs)
  case (Cons ord ords)
  let ?obs = "obs @ [in_bind ord]" and ?evs = "evs @ [ev_bind ord]"
  have step: "spec_ingest ord (map_of obs, map_of evs) = (map_of ?obs, map_of ?evs)"
    using Cons.prems by (simp add: spec_ingest_def in_bind_def ev_bind_def map_of_snoc put_new_def del: map_of_append)
  have keys: "io_external_id ord \<noteq> io_external_id ord'" if "ord' \<in> set ords" for ord'
    using Cons.prems(1) that by (force simp: in_key_profi)
  have "fold spec_ingest ords (map_of ?obs, map_of ?evs) =
      (map_of (?obs @ map in_bind ords), map_of (?evs @ map ev_bind ords))"
  proof (rule Cons.IH)
    show "\<forall>o' \<in> set ords. map_of ?obs (in_key o') = None"
      using Cons.prems(2) keys [symmetric] by (auto simp: map_of_snoc in_bind_def in_key_profi simp del: map_of_append)
    show "\<forall>o' \<in> set ords. map_of ?evs (assess_key PROFI (io_external_id o')) = None"
      using Cons.prems(3) keys [symmetric] by (auto simp: map_of_snoc ev_bind_def simp del: map_of_append)
  qed (use Cons.prems(1) in simp)
  with step show ?case by simp
qed simp

section \<open>The link that survives a race\<close>

text \<open>
  What the outbox holds for the row of one order: its assessment event, and its notification event
  with the status \<open>NOTIFY_REQUESTED\<close>, or perhaps with \<open>NO_NOTIFY\<close>, when another verdict came after.
\<close>

fun row_link :: "(ustr \<times> int option) option \<Rightarrow> (ustr \<times> json) option \<Rightarrow> (ustr \<times> json) option \<Rightarrow> bool" where
  "row_link None a n \<longleftrightarrow> a = None \<and> n = None"
| "row_link (Some (st, sc)) a n \<longleftrightarrow>
     (\<exists>p. a = Some (destination_value ASSESS_REQUEST, p)) \<and>
     (n = None \<or> (\<exists>p. n = Some (destination_value NOTIFY, p))) \<and>
     ((st = status_value ASSESS_REQUESTED \<and> sc = None \<and> n = None) \<or>
      (st = status_value NOTIFY_REQUESTED \<and> sc \<noteq> None \<and> n \<noteq> None) \<or>
      (st = status_value NO_NOTIFY \<and> sc \<noteq> None))"

definition weak_link :: "abs_core \<Rightarrow> bool" where
  "weak_link a \<longleftrightarrow>
     (\<forall>src oid. fst a (src, oid) \<noteq> None \<longrightarrow> src = source_value PROFI) \<and>
     (\<forall>oid. row_link (fst a (profi_key oid)) (snd a (assess_key PROFI oid)) (snd a (notify_key PROFI oid))) \<and>
     (\<forall>key. snd a key \<noteq> None \<longrightarrow> (\<exists>oid. key = assess_key PROFI oid \<or> key = notify_key PROFI oid))"

lemma weak_linkI:
  assumes "\<And>src oid. om (src, oid) \<noteq> None \<Longrightarrow> src = source_value PROFI"
    and "\<And>oid. row_link (om (profi_key oid)) (ev (assess_key PROFI oid)) (ev (notify_key PROFI oid))"
    and "\<And>key. ev key \<noteq> None \<Longrightarrow> \<exists>oid. key = assess_key PROFI oid \<or> key = notify_key PROFI oid"
  shows "weak_link (om, ev)"
  using assms unfolding weak_link_def fst_conv snd_conv by blast

lemma weak_linkD:
  assumes "weak_link (om, ev)"
  shows "om (src, oid) \<noteq> None \<Longrightarrow> src = source_value PROFI"
    and "row_link (om (profi_key oid)) (ev (assess_key PROFI oid)) (ev (notify_key PROFI oid))"
    and "ev key \<noteq> None \<Longrightarrow> \<exists>oid. key = assess_key PROFI oid \<or> key = notify_key PROFI oid"
  using assms unfolding weak_link_def fst_conv snd_conv by blast+

text \<open>Without the verdicts that cross, it is the link of the handlers run one after the other.\<close>

definition no_crossing :: "abs_core \<Rightarrow> bool" where
  "no_crossing a \<longleftrightarrow> (\<forall>oid sc. fst a (profi_key oid) = Some (status_value NO_NOTIFY, sc) \<longrightarrow>
     snd a (notify_key PROFI oid) = None)"

lemma row_link_cases:
  assumes "row_link r a n"
  obtains "r = None" "a = None" "n = None"
    | p where "r = Some (status_value ASSESS_REQUESTED, None)" "a = Some (destination_value ASSESS_REQUEST, p)" "n = None"
    | p q sc where "r = Some (status_value NOTIFY_REQUESTED, Some sc)" "a = Some (destination_value ASSESS_REQUEST, p)"
        "n = Some (destination_value NOTIFY, q)"
    | p sc where "r = Some (status_value NO_NOTIFY, Some sc)" "a = Some (destination_value ASSESS_REQUEST, p)"
        "n = None \<or> (\<exists>q. n = Some (destination_value NOTIFY, q))"
  using assms that by (cases "(r, a, n)" rule: row_link.cases) (simp; blast | auto)+

lemma link_ok_no_crossing: "link_ok (om, ev) \<longleftrightarrow> weak_link (om, ev) \<and> no_crossing (om, ev)" (is "_ = ?W")
proof
  assume l: "link_ok (om, ev)"
  note L = link_okD [OF l]
  have row: "row_link (om (profi_key oid)) (ev (assess_key PROFI oid)) (ev (notify_key PROFI oid))" for oid
  proof (cases "om (profi_key oid)")
    case None
    have "ev (notify_key PROFI oid) = None"
    proof (rule ccontr)
      assume "ev (notify_key PROFI oid) \<noteq> None"
      then obtain d p where e: "ev (notify_key PROFI oid) = Some (d, p)" by auto
      with L(5) [OF e] L(4) [of oid] None show False by auto
    qed
    then show ?thesis using link_ok_no_assess [OF l None] None by simp
  next
    case (Some v)
    obtain st sc where v: "v = (st, sc)" by (cases v)
    have a: "\<exists>p. ev (assess_key PROFI oid) = Some (destination_value ASSESS_REQUEST, p)" using L(3) [of oid] Some by simp
    have n: "ev (notify_key PROFI oid) = None \<or> (\<exists>p. ev (notify_key PROFI oid) = Some (destination_value NOTIFY, p))"
    proof (cases "ev (notify_key PROFI oid)")
      case (Some dp)
      obtain d p where "dp = (d, p)" by (cases dp)
      with L(5) [of "notify_key PROFI oid" d p] Some show ?thesis by auto
    qed simp
    show ?thesis using L(2) [OF Some [unfolded v]] a n L(4) [of oid] Some v by (auto)
  qed
  have "weak_link (om, ev)"
  proof (rule weak_linkI)
    show "\<And>src oid. om (src, oid) \<noteq> None \<Longrightarrow> src = source_value PROFI" by (rule L(1))
    fix key assume "ev key \<noteq> None"
    then obtain d p where "ev key = Some (d, p)" by auto
    from L(5) [OF this] show "\<exists>oid. key = assess_key PROFI oid \<or> key = notify_key PROFI oid" by blast
  qed (rule row)
  moreover have "no_crossing (om, ev)" unfolding no_crossing_def fst_conv snd_conv
  proof (intro allI impI)
    fix oid sc assume "om (profi_key oid) = Some (status_value NO_NOTIFY, sc)"
    with row [of oid] L(4) [of oid] show "ev (notify_key PROFI oid) = None" by auto
  qed
  ultimately show ?W by blast
next
  assume ?W
  then have w: "weak_link (om, ev)" and c: "\<And>oid sc. om (profi_key oid) = Some (status_value NO_NOTIFY, sc) \<Longrightarrow>
      ev (notify_key PROFI oid) = None" by (simp_all add: no_crossing_def)
  note W = weak_linkD [OF w]
  show "link_ok (om, ev)"
  proof (rule link_okI)
    show "\<And>src oid. om (src, oid) \<noteq> None \<Longrightarrow> src = source_value PROFI" by (rule W(1))
    fix oid
    show "om (profi_key oid) = Some (st, sc) \<Longrightarrow>
        (st = status_value ASSESS_REQUESTED \<and> sc = None) \<or>
        (st = status_value NOTIFY_REQUESTED \<and> sc \<noteq> None) \<or>
        (st = status_value NO_NOTIFY \<and> sc \<noteq> None)" for st sc
      using W(2) [of oid] by auto
    show "(\<exists>p. ev (assess_key PROFI oid) = Some (destination_value ASSESS_REQUEST, p)) \<longleftrightarrow> om (profi_key oid) \<noteq> None"
      by (rule row_link_cases [OF W(2) [of oid]]) auto
    show "(\<exists>p. ev (notify_key PROFI oid) = Some (destination_value NOTIFY, p)) \<longleftrightarrow>
        (\<exists>sc. om (profi_key oid) = Some (status_value NOTIFY_REQUESTED, sc))"
      by (rule row_link_cases [OF W(2) [of oid]]) (use c [of oid] in auto)
  next
    fix key d p assume e: "ev key = Some (d, p)"
    then obtain oid where k: "key = assess_key PROFI oid \<or> key = notify_key PROFI oid" using W(3) [of key] by auto
    show "\<exists>oid. (key = assess_key PROFI oid \<and> d = destination_value ASSESS_REQUEST) \<or>
               (key = notify_key PROFI oid \<and> d = destination_value NOTIFY)"
      by (rule exI [of _ oid], rule row_link_cases [OF W(2) [of oid]]) (use k e in auto)
  qed
qed

section \<open>Steps on one order\<close>

lemma weak_link_update:
  assumes "weak_link (om, ev)" and "\<And>k. k \<noteq> profi_key oid \<Longrightarrow> om' k = om k"
    and "\<And>key. key \<noteq> assess_key PROFI oid \<Longrightarrow> key \<noteq> notify_key PROFI oid \<Longrightarrow> ev' key = ev key"
    and "row_link (om' (profi_key oid)) (ev' (assess_key PROFI oid)) (ev' (notify_key PROFI oid))"
  shows "weak_link (om', ev')"
proof (rule weak_linkI)
  fix src o' assume some: "om' (src, o') \<noteq> None"
  show "src = source_value PROFI"
  proof (cases "(src, o') = profi_key oid")
    case False
    then show ?thesis using weak_linkD(1) [OF assms(1), of src o'] assms(2) [OF False] some by simp
  qed (simp add: profi_key_def)
next
  fix o'
  show "row_link (om' (profi_key o')) (ev' (assess_key PROFI o')) (ev' (notify_key PROFI o'))"
  proof (cases "o' = oid")
    case False
    then have "om' (profi_key o') = om (profi_key o')" "ev' (assess_key PROFI o') = ev (assess_key PROFI o')"
        "ev' (notify_key PROFI o') = ev (notify_key PROFI o')"
      by (simp_all add: assms(2,3))
    then show ?thesis using weak_linkD(2) [OF assms(1), of o'] by simp
  qed (simp add: assms(4))
next
  fix key assume some: "ev' key \<noteq> None"
  show "\<exists>o'. key = assess_key PROFI o' \<or> key = notify_key PROFI o'"
  proof (cases "key = assess_key PROFI oid \<or> key = notify_key PROFI oid")
    case False
    then show ?thesis using weak_linkD(3) [OF assms(1), of key] assms(3) [of key] some by simp
  qed blast
qed

lemma no_crossing_update:
  assumes "no_crossing (om, ev)" and "\<And>k. k \<noteq> profi_key oid \<Longrightarrow> om' k = om k"
    and "\<And>o'. o' \<noteq> oid \<Longrightarrow> ev' (notify_key PROFI o') = ev (notify_key PROFI o')"
    and "\<And>sc. om' (profi_key oid) = Some (status_value NO_NOTIFY, sc) \<Longrightarrow> ev' (notify_key PROFI oid) = None"
  shows "no_crossing (om', ev')"
  unfolding no_crossing_def fst_conv snd_conv
proof (intro allI impI)
  fix o' sc assume "om' (profi_key o') = Some (status_value NO_NOTIFY, sc)"
  then show "ev' (notify_key PROFI o') = None"
    using assms(1) [unfolded no_crossing_def fst_conv snd_conv] assms(2-4) by (cases "o' = oid") simp_all
qed

lemma spec_ingest_new:
  assumes "weak_link (om, ev)" and "om (profi_key (io_external_id ord)) = None"
  shows "spec_ingest ord (om, ev) =
    (om(profi_key (io_external_id ord) \<mapsto> (status_value ASSESS_REQUESTED, None)),
     ev(assess_key PROFI (io_external_id ord) \<mapsto> (destination_value ASSESS_REQUEST, assess_request_payload ord)))"
  using weak_linkD(2) [OF assms(1), of "io_external_id ord"] assms(2)
  by (simp add: spec_ingest_def in_key_profi put_new_def)

lemma link_ingest:
  assumes "weak_link a"
  shows "weak_link (spec_ingest ord a)" and "no_crossing a \<Longrightarrow> no_crossing (spec_ingest ord a)"
proof -
  obtain om ev where a: "a = (om, ev)" by (cases a)
  have w: "weak_link (om, ev)" using assms by (simp add: a)
  let ?oid = "io_external_id ord"
  note row = weak_linkD(2) [OF w, of ?oid]
  have known: "spec_ingest ord a = a" if "om (profi_key ?oid) \<noteq> None"
    by (rule spec_ingest_known) (use that in \<open>simp add: a in_key_profi\<close>)
  note new = spec_ingest_new [OF w, of ord, folded a]
  show "weak_link (spec_ingest ord a)"
  proof (cases "om (profi_key ?oid) = None")
    case True
    show ?thesis unfolding new [OF True]
      by (rule weak_link_update [OF w, of ?oid]) (use row True in auto)
  qed (use known assms in simp)
  show "no_crossing (spec_ingest ord a)" if "no_crossing a"
  proof (cases "om (profi_key ?oid) = None")
    case True
    show ?thesis unfolding new [OF True]
      by (rule no_crossing_update [OF that [unfolded a], of ?oid]) auto
  qed (use known that in simp)
qed

lemma link_fold_ingest:
  "weak_link a \<Longrightarrow> weak_link (fold spec_ingest ords a)"
  "weak_link a \<Longrightarrow> no_crossing a \<Longrightarrow> no_crossing (fold spec_ingest ords a)"
  by (induction ords arbitrary: a) (simp_all add: link_ingest)

text \<open>What the commit of a verdict does to the tables it finds, whatever their status says by then.\<close>

definition verdict_effect :: "int \<Rightarrow> assessment_outcome \<Rightarrow> abs_core \<Rightarrow> abs_core" where
  "verdict_effect th out a = (let (om, ev) = a; k = profi_key (ao_order_id out); score = ao_suitability_score out in
     if th \<le> score
     then (om(k \<mapsto> (status_value NOTIFY_REQUESTED, Some score)), put_new (notify_key PROFI (ao_order_id out))
       (destination_value NOTIFY, notification_payload (ao_notification out)) ev)
     else (om(k \<mapsto> (status_value NO_NOTIFY, Some score)), ev))"

lemma verdict_effect_spec:
  "fst a (profi_key (ao_order_id out)) = Some (status_value ASSESS_REQUESTED, sc) \<Longrightarrow>
   spec_process th out a = Some (verdict_effect th out a)"
  by (cases a) (simp add: spec_process_def verdict_effect_def Let_def)

lemma put_new_other: "k' \<noteq> k \<Longrightarrow> put_new k v m k' = m k'"
  by (simp add: put_new_def split: option.split)

lemma put_new_here: "put_new k v m k = Some (case m k of None \<Rightarrow> v | Some w \<Rightarrow> w)"
  by (simp add: put_new_def split: option.split)

lemma link_verdict:
  assumes "weak_link a" and "fst a (profi_key (ao_order_id out)) \<noteq> None"
  shows "weak_link (verdict_effect th out a)"
    and "no_crossing a \<Longrightarrow> th \<le> ao_suitability_score out \<Longrightarrow> no_crossing (verdict_effect th out a)"
proof -
  obtain om ev where a: "a = (om, ev)" by (cases a)
  have w: "weak_link (om, ev)" using assms(1) by (simp add: a)
  let ?oid = "ao_order_id out" and ?sc = "ao_suitability_score out"
  let ?N = "(destination_value NOTIFY, notification_payload (ao_notification out))"
  have known: "om (profi_key ?oid) \<noteq> None" using assms(2) by (simp add: a)
  note row = weak_linkD(2) [OF w, of ?oid]
  have notify: "verdict_effect th out a = (om(profi_key ?oid \<mapsto> (status_value NOTIFY_REQUESTED, Some ?sc)),
      put_new (notify_key PROFI ?oid) ?N ev)" if "th \<le> ?sc"
    using that by (simp add: verdict_effect_def a Let_def)
  have skip: "verdict_effect th out a = (om(profi_key ?oid \<mapsto> (status_value NO_NOTIFY, Some ?sc)), ev)" if "\<not> th \<le> ?sc"
    using that by (simp add: verdict_effect_def a Let_def)
  show "weak_link (verdict_effect th out a)"
  proof (cases "th \<le> ?sc")
    case True
    show ?thesis unfolding notify [OF True]
      by (rule weak_link_update [OF w, of ?oid])
        (use known in \<open>auto simp: put_new_other put_new_here intro: row_link_cases [OF row]\<close>)
  next
    case False
    show ?thesis unfolding skip [OF False]
      by (rule weak_link_update [OF w, of ?oid]) (use known in \<open>auto intro: row_link_cases [OF row]\<close>)
  qed
  show "no_crossing (verdict_effect th out a)" if "no_crossing a" "th \<le> ?sc"
    unfolding notify [OF that(2)]
    by (rule no_crossing_update [OF that(1) [unfolded a], of ?oid]) (simp_all add: put_new_other)
qed

end
