(* ===== verification/CoreConcTheorems.thy ===== *)
theory CoreConcTheorems
  imports CoreConcLink
begin

text \<open>
  order-core-service: what holds of every interleaving of the handlers. The tables keep their
  constraints; each transaction, when it commits, makes one step of the specification on the tables
  committed at that moment (for a verdict: unless another verdict got in between); and which part of
  the link between orders and outbox survives.
\<close>

section \<open>The rows of every reachable state\<close>

lemma free_others: "free T i held k \<Longrightarrow> j \<noteq> i \<Longrightarrow> T j = Some u \<Longrightarrow> k \<notin> held u"
  by (simp add: free_def)

lemma apart_prog: "apart (t\<lparr>tx_prog := p\<rparr>) u \<longleftrightarrow> apart t u"
  by (simp add: apart_def)

lemma tx_rows_prog [simp]: "tx_rows db (t\<lparr>tx_prog := p\<rparr>) \<longleftrightarrow> tx_rows db t"
  by (simp add: tx_rows_def)

definition idle_tx :: "tx \<Rightarrow> bool" where
  "idle_tx t \<longleftrightarrow> tx_orders t = [] \<and> tx_events t = [] \<and> tx_sets t = []"

lemma idle_view: "idle_tx t \<Longrightarrow> view db t = db"
  by (simp add: idle_tx_def view_own_nothing)

lemma idle_rows: "idle_tx t \<Longrightarrow> rows_ok db \<Longrightarrow> tx_rows db t"
  by (simp add: tx_rows_def idle_view) (simp add: idle_tx_def row_locks_def)

lemma idle_apart: "idle_tx t \<Longrightarrow> apart t u"
  by (simp add: apart_def held_defs idle_tx_def)

lemma conc_rows_prog:
  assumes "conc_rows (db, T)" and "T i = Some t"
  shows "conc_rows (db, T(i \<mapsto> t\<lparr>tx_prog := p\<rparr>))"
  by (rule conc_rows_update [OF assms(1)]) (use conc_rowsD [OF assms] in \<open>simp_all add: apart_prog\<close>)

lemma conc_rows_insert:
  assumes "conc_rows (db, T)" and "T i = Some t" and "free T i order_keys (in_key ord)"
    and "free T i order_ids uid" and "insert_order_stmt E uid ord now (view db t) = Inr (b, v)"
  shows "conc_rows (db, T(i \<mapsto> t\<lparr>tx_prog := p, tx_orders := tx_orders t @ new_rows (orders_t (view db t)) (orders_t v)\<rparr>))"
  using assms(5)
proof (cases rule: insert_order_rows)
  case dup
  then show ?thesis using conc_rows_prog [OF assms(1,2)] by simp
next
  case (new r)
  have key: "order_key r = in_key ord" "\<exists>st. or_status r = status_value st"
    using new(6) by (auto simp: order_binding_def)
  have rows: "new_rows (orders_t (view db t)) (orders_t v) = [r]" using new(3) by simp
  note c = conc_rowsD [OF assms(1,2)]
  show ?thesis unfolding rows
  proof (rule conc_rows_update [OF assms(1)])
    show "tx_rows db (t\<lparr>tx_prog := p, tx_orders := tx_orders t @ [r]\<rparr>)"
      by (rule tx_rows_add_order [OF c(2)]) (use new key in simp_all)
    fix j u assume j: "j \<noteq> i" "T j = Some u"
    show "apart (t\<lparr>tx_prog := p, tx_orders := tx_orders t @ [r]\<rparr>) u"
      by (rule apart_more_orders [OF c(3) [OF j]])
        (use free_others [OF assms(3) j] free_others [OF assms(4) j] key new in simp_all)
  qed
qed

lemma conc_rows_event:
  assumes "conc_rows (db, T)" and "T i = Some t" and "free T i event_keys key"
    and "free T i event_ids uid" and "insert_outbox_stmt E uid dest key payload now (view db t) = Inr (u, v)"
  shows "conc_rows (db, T(i \<mapsto> t\<lparr>tx_prog := p, tx_events := tx_events t @ new_rows (outbox_t (view db t)) (outbox_t v)\<rparr>))"
  using assms(5)
proof (cases rule: insert_outbox_rows)
  case dup
  then show ?thesis using conc_rows_prog [OF assms(1,2)] by simp
next
  case (new r)
  have key: "ob_dedup_key r = key" "ob_destination r = destination_value dest"
    using new(5) by (simp_all add: event_binding_def)
  have rows: "new_rows (outbox_t (view db t)) (outbox_t v) = [r]" using new(2) by simp
  note c = conc_rowsD [OF assms(1,2)]
  show ?thesis unfolding rows
  proof (rule conc_rows_update [OF assms(1)])
    show "tx_rows db (t\<lparr>tx_prog := p, tx_events := tx_events t @ [r]\<rparr>)"
      by (rule tx_rows_add_event [OF c(2)]) (use new key in simp_all)
    fix j w assume j: "j \<noteq> i" "T j = Some w"
    show "apart (t\<lparr>tx_prog := p, tx_events := tx_events t @ [r]\<rparr>) w"
      by (rule apart_more_events [OF c(3) [OF j]])
        (use free_others [OF assms(3) j] free_others [OF assms(4) j] key new in simp_all)
  qed
qed

lemma conc_rows_set:
  assumes "conc_rows (db, T)" and "T i = Some t" and "tx_orders t = []"
    and "free T i row_locks (source_value src, ext)"
    and "update_status_stmt src ext st sc now (view db t) = Inr (b, v)"
  shows "conc_rows (db, T(i \<mapsto> t\<lparr>tx_prog := p,
    tx_sets := tx_sets t @ (if b then [((source_value src, ext), st, sc, now)] else [])\<rparr>))"
proof (rule conc_rows_update [OF assms(1)])
  let ?sets = "tx_sets t @ (if b then [((source_value src, ext), st, sc, now)] else [])"
  note c = conc_rowsD [OF assms(1,2)]
  have v: "view db (t\<lparr>tx_prog := p, tx_sets := ?sets\<rparr>) = v"
    using view_set(1) [OF assms(5)] by (simp add: view_def)
  have "rows_ok v" by (rule update_status_stmt_Inr(1) [OF assms(5)]) (use c(2) in \<open>simp add: tx_rows_def\<close>)
  moreover have "row_locks (t\<lparr>tx_prog := p, tx_sets := ?sets\<rparr>) \<subseteq> set (map order_key (orders_t db))"
    using c(2) view_set(2) [OF assms(5)] assms(3) by (auto simp: tx_rows_def held_defs)
  ultimately show "tx_rows db (t\<lparr>tx_prog := p, tx_sets := ?sets\<rparr>)" by (simp add: tx_rows_def v)
  fix j u assume j: "j \<noteq> i" "T j = Some u"
  show "apart (t\<lparr>tx_prog := p, tx_sets := ?sets\<rparr>) u"
    by (rule apart_more_sets [OF c(3) [OF j] free_others [OF assms(4) j]])
qed

lemma conc_rows_end: "conc_rows (db, T) \<Longrightarrow> conc_rows (db, T(i := None))"
  unfolding conc_rows_def fst_conv snd_conv by (auto split: if_splits)

lemma conc_rows_commit:
  assumes "conc_rows (db, T)" and "T i = Some t" and "idle_tx t'"
  shows "conc_rows (view db t, T(i \<mapsto> t'))"
proof -
  note c = conc_rowsD [OF assms(1,2)]
  have ok: "rows_ok (view db t)" using c(2) by (simp add: tx_rows_def)
  have others: "tx_rows (view db t) u" if "j \<noteq> i" "T j = Some u" for j u
    by (rule tx_rows_commit [OF conc_rowsD(2) [OF assms(1) that(2)] c(2) apart_sym [OF c(3) [OF that]]])
  have rest: "conc_rows (view db t, T(i := None))"
    using ok others conc_rows_end [OF assms(1), of i] unfolding conc_rows_def fst_conv snd_conv
    by (auto split: if_splits)
  have "conc_rows (view db t, T(i := None, i \<mapsto> t'))"
    by (rule conc_rows_update [OF rest idle_rows [OF assms(3) ok]]) (rule idle_apart [OF assms(3)])
  then show ?thesis by simp
qed

section \<open>How far a transaction is\<close>

text \<open>
  The orders of a batch handled so far are those of its program no longer; the rows they added are the
  new ones among them, with respect to the tables committed now. A verdict's program has looked its
  order up, and then writes for an order that is known.
\<close>

definition wrote :: "incoming_order list \<Rightarrow> incoming_order list \<Rightarrow> tx \<Rightarrow> bool" where
  "wrote os es t \<longleftrightarrow> map order_binding (tx_orders t) = map in_bind os \<and>
     map event_binding (tx_events t) = map ev_bind es \<and> tx_sets t = []"

abbreviation fresh_in :: "database \<Rightarrow> incoming_order list \<Rightarrow> incoming_order list" where
  "fresh_in db \<equiv> fresh_orders (dom (abs_orders db))"

abbreviation verdict_set :: "assessment_outcome \<Rightarrow> order_status \<Rightarrow> int \<Rightarrow> row_update" where
  "verdict_set out st now \<equiv> (profi_key (ao_order_id out), st, Some (ao_suitability_score out), now)"

abbreviation notify_bind :: "assessment_outcome \<Rightarrow> ustr \<times> (ustr \<times> json)" where
  "notify_bind out \<equiv> (notify_key PROFI (ao_order_id out),
     (destination_value NOTIFY, notification_payload (ao_notification out)))"

abbreviation known_order :: "database \<Rightarrow> assessment_outcome \<Rightarrow> bool" where
  "known_order db out \<equiv> abs_orders db (profi_key (ao_order_id out)) \<noteq> None"

definition decided :: "abs_core \<Rightarrow> assessment_outcome \<Rightarrow> bool" where
  "decided a out \<longleftrightarrow> (\<exists>st sc. fst a (profi_key (ao_order_id out)) = Some (st, sc) \<and> st \<noteq> status_value ASSESS_REQUESTED)"

inductive tx_ok :: "database \<Rightarrow> tx \<Rightarrow> bool" for db where
  in_batch: "tx_call t = Ingest (d @ rest) \<Longrightarrow> tx_prog t = settle (ingest_prog rest) \<Longrightarrow>
    wrote (fresh_in db d) (fresh_in db d) t \<Longrightarrow> tx_ok db t"
| in_order: "tx_call t = Ingest (d @ ord # rest) \<Longrightarrow> tx_prog t = Add_request ord p \<Longrightarrow>
    settle p = settle (ingest_prog rest) \<Longrightarrow> fresh_in db (d @ [ord]) = fresh_in db d @ [ord] \<Longrightarrow>
    wrote (fresh_in db d @ [ord]) (fresh_in db d) t \<Longrightarrow> tx_ok db t"
| looks_up: "tx_call t = Process th out \<Longrightarrow> tx_prog t = process_prog th out \<Longrightarrow> idle_tx t \<Longrightarrow> tx_ok db t"
| found: "tx_call t = Process th out \<Longrightarrow> tx_prog t = verdict_prog th out \<Longrightarrow> idle_tx t \<Longrightarrow>
    known_order db out \<Longrightarrow> tx_ok db t"
| notifies: "tx_call t = Process th out \<Longrightarrow>
    tx_prog t = Add_notification PROFI (ao_order_id out) (ao_notification out) p \<Longrightarrow>
    settle p = Commit (Finish (Inr ())) \<Longrightarrow> th \<le> ao_suitability_score out \<Longrightarrow> known_order db out \<Longrightarrow>
    tx_orders t = [] \<Longrightarrow> tx_events t = [] \<Longrightarrow> tx_sets t = [verdict_set out NOTIFY_REQUESTED now] \<Longrightarrow> tx_ok db t"
| ignored: "tx_call t = Process th out \<Longrightarrow> tx_prog t = Commit (Finish (Inr ())) \<Longrightarrow> idle_tx t \<Longrightarrow>
    decided (abs_db db) out \<Longrightarrow> tx_ok db t"
| notified: "tx_call t = Process th out \<Longrightarrow> tx_prog t = Commit (Finish (Inr ())) \<Longrightarrow>
    th \<le> ao_suitability_score out \<Longrightarrow> known_order db out \<Longrightarrow> tx_orders t = [] \<Longrightarrow>
    (tx_events t = [] \<and> abs_events db (notify_key PROFI (ao_order_id out)) \<noteq> None) \<or>
      map event_binding (tx_events t) = [notify_bind out] \<Longrightarrow>
    tx_sets t = [verdict_set out NOTIFY_REQUESTED now] \<Longrightarrow> tx_ok db t"
| skipped: "tx_call t = Process th out \<Longrightarrow> tx_prog t = Commit (Finish (Inr ())) \<Longrightarrow>
    \<not> th \<le> ao_suitability_score out \<Longrightarrow> known_order db out \<Longrightarrow> tx_orders t = [] \<Longrightarrow> tx_events t = [] \<Longrightarrow>
    tx_sets t = [verdict_set out NO_NOTIFY now] \<Longrightarrow> tx_ok db t"
| finished: "tx_prog t = Finish r \<Longrightarrow> idle_tx t \<Longrightarrow> tx_ok db t"

inductive_cases tx_ok_cases: "tx_ok db t"

lemma dom_abs_orders: "dom (abs_orders db) = set (map order_key (orders_t db))"
  using abs_orders_None [of db] by (auto simp: dom_def)

lemma dom_abs_events: "dom (abs_events db) = set (map ob_dedup_key (outbox_t db))"
  unfolding abs_events_def dom_map_of_conv_image_fst by (simp add: image_image)

lemma wrote_keys: "wrote os es t \<Longrightarrow> map order_key (tx_orders t) = map in_key os \<and>
    map ob_dedup_key (tx_events t) = map (\<lambda>ord. assess_key PROFI (io_external_id ord)) es"
proof -
  assume w: "wrote os es t"
  have "map fst (map order_binding (tx_orders t)) = map fst (map in_bind os)"
    "map fst (map event_binding (tx_events t)) = map fst (map ev_bind es)"
    using w by (simp_all add: wrote_def)
  then show ?thesis by (simp add: comp_def in_bind_def ev_bind_def)
qed

lemma fresh_in_commit:
  assumes "rows_ok (view db' t)" and "dom (abs_orders db) \<subseteq> dom (abs_orders db')"
    and "wrote os es t" and "set (fresh_in db d) \<subseteq> set os"
  shows "fresh_in db' d = fresh_in db d"
proof (rule fresh_orders_stable [OF assms(2)])
  have "set (map order_key (orders_t db')) \<inter> set (map order_key (tx_orders t)) = {}"
    using assms(1) unfolding rows_ok_view by simp
  then show "dom (abs_orders db') \<inter> in_key ` set (fresh_in db d) = {}"
    using wrote_keys [OF assms(3)] assms(4) unfolding dom_abs_orders by auto
qed

lemma view_dom: "dom (abs_orders db) \<subseteq> dom (abs_orders (view db u))"
    "dom (abs_events db) \<subseteq> dom (abs_events (view db u))"
  unfolding dom_abs_orders dom_abs_events view_keys by auto

section \<open>What a commit does\<close>

lemma view_batch:
  assumes "rows_ok (view db t)" and "wrote (fresh_in db batch) (fresh_in db batch) t"
  shows "abs_db (view db t) = fold spec_ingest batch (abs_db db)"
proof -
  let ?f = "fresh_in db batch"
  note keys = wrote_keys [OF assms(2)]
  have w: "map order_binding (tx_orders t) = map in_bind ?f" "map event_binding (tx_events t) = map ev_bind ?f"
      "tx_sets t = []"
    using assms(2) by (simp_all add: wrote_def)
  have "fold spec_ingest ?f (map_of (map order_binding (orders_t db)), map_of (map event_binding (outbox_t db))) =
      (map_of (map order_binding (orders_t db) @ map in_bind ?f), map_of (map event_binding (outbox_t db) @ map ev_bind ?f))"
  proof (rule fold_spec_ingest_rows)
    show "distinct (map in_key ?f)" by (rule fresh_orders_distinct)
    show "\<forall>ord \<in> set ?f. map_of (map order_binding (orders_t db)) (in_key ord) = None"
      using fresh_orders_new [of "dom (abs_orders db)" batch] unfolding abs_orders_def by auto
    have apart: "set (map ob_dedup_key (outbox_t db)) \<inter> set (map ob_dedup_key (tx_events t)) = {}"
      using assms(1) unfolding rows_ok_view by simp
    show "\<forall>ord \<in> set ?f. map_of (map event_binding (outbox_t db)) (assess_key PROFI (io_external_id ord)) = None"
    proof
      fix ord assume "ord \<in> set ?f"
      then have "assess_key PROFI (io_external_id ord) \<in> set (map ob_dedup_key (tx_events t))"
        unfolding conjunct2 [OF keys] by simp
      then have "assess_key PROFI (io_external_id ord) \<notin> dom (abs_events db)"
        using apart unfolding dom_abs_events by blast
      then show "map_of (map event_binding (outbox_t db)) (assess_key PROFI (io_external_id ord)) = None"
        by (auto simp: abs_events_def)
    qed
  qed
  moreover have "abs_db (view db t) =
      (map_of (map order_binding (orders_t db) @ map in_bind ?f), map_of (map event_binding (outbox_t db) @ map ev_bind ?f))"
    by (simp add: abs_db_def abs_orders_def abs_events_def view_def w del: map_of_append)
  moreover have "fold spec_ingest batch (abs_db db) = fold spec_ingest ?f (abs_db db)"
    unfolding abs_db_def using fold_spec_ingest_fresh [of batch "(abs_orders db, abs_events db)"] by simp
  ultimately show ?thesis by (simp add: abs_db_def abs_orders_def abs_events_def)
qed

lemma order_binding_set: "order_binding (apply_set (k, st, sc, now) r) =
    (if order_key r = k then (k, (status_value st, sc)) else order_binding r)"
  by (auto simp: order_binding_def order_key_def)

lemma map_of_apply_set: "map_of (map order_binding (map (apply_set (k, st, sc, now)) rs)) x =
    (if x = k \<and> k \<in> set (map order_key rs) then Some (status_value st, sc) else map_of (map order_binding rs) x)"
proof (induction rs)
  case (Cons r rs)
  have r: "map_of (order_binding r # xs) x = (if x = order_key r then Some (or_status r, or_suitability_score r) else map_of xs x)" for xs
    by (simp add: order_binding_def)
  show ?case
    using Cons r by (cases "order_key r = k"; cases "x = k") (simp_all add: order_binding_set del: map_of_map apply_set.simps)
qed simp

lemma view_set_one:
  assumes "tx_orders t = []" and "tx_sets t = [(k, st, sc, now)]" and "abs_orders db k \<noteq> None"
  shows "abs_orders (view db t) = (abs_orders db)(k \<mapsto> (status_value st, sc))"
proof
  fix x
  have "k \<in> set (map order_key (orders_t db))" using assms(3) unfolding dom_abs_orders [symmetric] by blast
  then show "abs_orders (view db t) x = ((abs_orders db)(k \<mapsto> (status_value st, sc))) x"
    unfolding abs_orders_def by (simp add: view_def assms(1,2) map_of_apply_set del: map_of_map map_map apply_set.simps)
qed

lemma view_events: "abs_events (view db t) = map_of (map event_binding (outbox_t db) @ map event_binding (tx_events t))"
  by (simp add: abs_events_def view_def)

lemma view_verdict:
  assumes "rows_ok (view db t)" and "tx_orders t = []" and "known_order db out"
  shows "th \<le> ao_suitability_score out \<Longrightarrow> tx_sets t = [verdict_set out NOTIFY_REQUESTED now] \<Longrightarrow>
      (tx_events t = [] \<and> abs_events db (notify_key PROFI (ao_order_id out)) \<noteq> None) \<or>
        map event_binding (tx_events t) = [notify_bind out] \<Longrightarrow>
      abs_db (view db t) = verdict_effect th out (abs_db db)"
    and "\<not> th \<le> ao_suitability_score out \<Longrightarrow> tx_sets t = [verdict_set out NO_NOTIFY now] \<Longrightarrow> tx_events t = [] \<Longrightarrow>
      abs_db (view db t) = verdict_effect th out (abs_db db)"
proof -
  let ?key = "notify_key PROFI (ao_order_id out)"
  let ?N = "(destination_value NOTIFY, notification_payload (ao_notification out))"
  show "abs_db (view db t) = verdict_effect th out (abs_db db)"
    if "\<not> th \<le> ao_suitability_score out" "tx_sets t = [verdict_set out NO_NOTIFY now]" "tx_events t = []"
    using that view_set_one [OF assms(2) that(2) assms(3)] view_events [of db t]
    by (simp add: abs_db_def verdict_effect_def Let_def abs_events_def)
  assume th: "th \<le> ao_suitability_score out" and sets: "tx_sets t = [verdict_set out NOTIFY_REQUESTED now]"
    and ev: "(tx_events t = [] \<and> abs_events db ?key \<noteq> None) \<or> map event_binding (tx_events t) = [notify_bind out]"
  have "abs_events (view db t) = put_new ?key ?N (abs_events db)"
    using ev
  proof
    assume "tx_events t = [] \<and> abs_events db ?key \<noteq> None"
    then show ?thesis by (auto simp: view_events put_new_def abs_events_def [of db])
  next
    assume e: "map event_binding (tx_events t) = [notify_bind out]"
    then have "map fst (map event_binding (tx_events t)) = [?key]" by simp
    then have "map ob_dedup_key (tx_events t) = [?key]" by (simp add: comp_def)
    then have "?key \<notin> dom (abs_events db)" using assms(1) unfolding rows_ok_view dom_abs_events by auto
    then have "abs_events db ?key = None" by blast
    then show ?thesis unfolding view_events e
      by (simp add: put_new_def map_of_snoc abs_events_def del: map_of_append)
  qed
  with view_set_one [OF assms(2) sets assms(3)] th
  show "abs_db (view db t) = verdict_effect th out (abs_db db)"
    by (simp add: abs_db_def verdict_effect_def Let_def)
qed

lemma decided_idle: "decided (abs_db db) out \<Longrightarrow> spec_process th out (abs_db db) = Some (abs_db db)"
  by (auto simp: decided_def abs_db_def spec_process_def)

lemma commit_effect:
  assumes "rows_ok (view db t)" and "tx_ok db t" and "tx_prog t = Commit p"
  shows "p = Finish (Inr ()) \<and> (case tx_call t of
      Ingest batch \<Rightarrow> abs_db (view db t) = fold spec_ingest batch (abs_db db)
    | Process th out \<Rightarrow> (view db t = db \<and> decided (abs_db db) out) \<or>
        (known_order db out \<and> abs_db (view db t) = verdict_effect th out (abs_db db)))"
  using assms(2)
proof cases
  case (in_batch d rest)
  then have "rest = []" "p = Finish (Inr ())" using assms(3) by (cases rest; simp)+
  then show ?thesis using in_batch view_batch [OF assms(1)] by simp
next
  case (notified th out now)
  then show ?thesis using view_verdict(1) [OF assms(1) notified(5,4,3,7,6)] assms(3) by simp
next
  case (skipped th out now)
  then show ?thesis using view_verdict(2) [OF assms(1) skipped(5,4,3,7,6)] assms(3) by simp
next
  case (ignored th out)
  then show ?thesis using idle_view assms(3) by simp
qed (use assms(3) in \<open>simp_all add: process_prog_def verdict_prog_def Let_def split: if_splits\<close>)

text \<open>A verdict that was applied stays so.\<close>

lemma decided_ingest: "decided a out \<Longrightarrow> decided (fold spec_ingest batch a) out"
proof -
  assume "decided a out"
  then obtain st sc where d: "fst a (profi_key (ao_order_id out)) = Some (st, sc)" "st \<noteq> status_value ASSESS_REQUESTED"
    by (auto simp: decided_def)
  then have "fst (fold spec_ingest batch a) (profi_key (ao_order_id out)) = Some (st, sc)"
    by (simp add: fold_spec_ingest_keeps)
  with d(2) show ?thesis by (auto simp: decided_def)
qed

lemma decided_verdict: "decided a out \<Longrightarrow> decided (verdict_effect th out' a) out"
  by (cases a; cases "ao_order_id out = ao_order_id out'") (auto simp: decided_def verdict_effect_def Let_def)

lemma commit_decided:
  assumes "rows_ok (view db u)" and "tx_ok db u" and "tx_prog u = Commit p" and "decided (abs_db db) out"
  shows "decided (abs_db (view db u)) out"
  using commit_effect [OF assms(1-3)] decided_ingest [OF assms(4)] decided_verdict [OF assms(4)] assms(4)
  by (cases "tx_call u") auto

text \<open>What other transactions may do to the tables meanwhile.\<close>

lemma tx_ok_keep:
  assumes "tx_ok db t"
    and known: "\<And>out. known_order db out \<Longrightarrow> known_order db' out"
    and event: "\<And>key. abs_events db key \<noteq> None \<Longrightarrow> abs_events db' key \<noteq> None"
    and decided: "\<And>out. decided (abs_db db) out \<Longrightarrow> decided (abs_db db') out"
    and fresh: "\<And>os es d. wrote os es t \<Longrightarrow> set (fresh_in db d) \<subseteq> set os \<Longrightarrow> fresh_in db' d = fresh_in db d"
  shows "tx_ok db' t"
  using assms(1)
proof cases
  case (in_batch d rest)
  have same: "fresh_in db' d = fresh_in db d" by (rule fresh [OF in_batch(3)]) simp
  show ?thesis by (rule tx_ok.in_batch [OF in_batch(1,2)]) (simp only: same in_batch(3))
next
  case (in_order d ord rest p)
  have same: "fresh_in db' d = fresh_in db d" by (rule fresh [OF in_order(5)]) auto
  have "fresh_in db' (d @ [ord]) = fresh_in db (d @ [ord])" by (rule fresh [OF in_order(5)]) (simp add: in_order(4))
  then show ?thesis
    by (intro tx_ok.in_order [OF in_order(1-3)]) (simp_all only: same in_order(4,5))
next
  case (looks_up th out)
  then show ?thesis by (rule tx_ok.looks_up)
next
  case (found th out)
  show ?thesis by (rule tx_ok.found [OF found(1,2,3) known [OF found(4)]])
next
  case (notifies th out p now)
  show ?thesis by (rule tx_ok.notifies [OF notifies(1-4) known [OF notifies(5)] notifies(6-)])
next
  case (ignored th out)
  show ?thesis by (rule tx_ok.ignored [OF ignored(1-3) decided [OF ignored(4)]])
next
  case (notified th out now)
  show ?thesis
    by (rule tx_ok.notified [OF notified(1-3) known [OF notified(4)] notified(5) _ notified(7)]) (use notified(6) event in blast)
next
  case (skipped th out now)
  show ?thesis by (rule tx_ok.skipped [OF skipped(1-3) known [OF skipped(4)] skipped(5-)])
next
  case (finished r)
  then show ?thesis by (rule tx_ok.finished)
qed

lemma tx_ok_commit:
  assumes "tx_rows db t" and "tx_rows db u" and "apart t u" and "tx_ok db t"
    and "tx_ok db u" and "tx_prog u = Commit p"
  shows "tx_ok (view db u) t"
proof (rule tx_ok_keep [OF assms(4)])
  have rows: "rows_ok (view (view db u) t)" using tx_rows_commit [OF assms(1-3)] by (simp add: tx_rows_def)
  have own: "rows_ok (view db u)" using assms(2) by (simp add: tx_rows_def)
  show "known_order db out \<Longrightarrow> known_order (view db u) out" for out
    using view_dom(1) [of db u] by blast
  show "abs_events db key \<noteq> None \<Longrightarrow> abs_events (view db u) key \<noteq> None" for key
    using view_dom(2) [of db u] by blast
  show "decided (abs_db db) out \<Longrightarrow> decided (abs_db (view db u)) out" for out
    by (rule commit_decided [OF own assms(5,6)])
  show "wrote os es t \<Longrightarrow> set (fresh_in db d) \<subseteq> set os \<Longrightarrow> fresh_in (view db u) d = fresh_in db d" for os es d
    by (rule fresh_in_commit [OF rows view_dom(1)])
qed

section \<open>Every statement takes a transaction one step further\<close>

lemma settle_prog [simp]: "settle (process_prog th out) = process_prog th out"
  "settle (verdict_prog th out) = verdict_prog th out"
  by (simp_all add: process_prog_def verdict_prog_def Let_def)

lemma settle_ingest: "settle (ingest_prog rest) \<noteq> Finish r" "settle (ingest_prog rest) \<noteq> Get_order src ext g"
  "settle (ingest_prog rest) \<noteq> Set_status src ext st sc k" "settle (ingest_prog rest) \<noteq> Add_request ord p"
  "settle (ingest_prog rest) \<noteq> Add_notification src ext n p"
  by (cases rest; simp)+

lemma prog_shape: "process_prog th out \<noteq> Insert_new ord k" "verdict_prog th out \<noteq> Insert_new ord k"
  "process_prog th out \<noteq> Add_request ord p" "verdict_prog th out \<noteq> Add_request ord p"
  "process_prog th out \<noteq> Set_status src ext st sc k" "verdict_prog th out \<noteq> Get_order src ext g"
  "process_prog th out \<noteq> Add_notification src ext n p" "verdict_prog th out \<noteq> Add_notification src ext n p"
  by (simp_all add: process_prog_def verdict_prog_def Let_def)

lemmas other_prog = prog_shape prog_shape [symmetric] settle_ingest settle_ingest [symmetric]

lemma fresh_in_snoc: "wrote (fresh_in db d) es t \<Longrightarrow> fresh_in db (d @ [ord]) =
    fresh_in db d @ (if in_key ord \<in> set (map order_key (orders_t (view db t))) then [] else [ord])"
  unfolding fresh_orders_snoc view_keys set_append wrote_keys [THEN conjunct1] dom_abs_orders by simp

lemma tx_ok_insert:
  assumes "tx_ok db t" and "tx_prog t = Insert_new ord k"
    and "insert_order_stmt E uid ord now (view db t) = Inr (b, v)"
  shows "tx_ok db (t\<lparr>tx_prog := settle (k b),
    tx_orders := tx_orders t @ new_rows (orders_t (view db t)) (orders_t v)\<rparr>)" (is "tx_ok db ?t")
  using assms(1)
proof cases
  case (in_batch d rest)
  with assms(2) obtain rest' where rest: "rest = ord # rest'" by (cases rest) auto
  with in_batch(2) assms(2) have k: "settle (k False) = settle (ingest_prog rest')"
      "\<exists>p. k True = Add_request ord p \<and> settle p = settle (ingest_prog rest')"
    by auto
  have w: "map order_binding (tx_orders t) = map in_bind (fresh_in db d)"
      "map event_binding (tx_events t) = map ev_bind (fresh_in db d)" "tx_sets t = []"
    using in_batch(3) by (simp_all add: wrote_def)
  note snoc = fresh_in_snoc [OF in_batch(3), of ord]
  from assms(3) show ?thesis
  proof (cases rule: insert_order_rows)
    case dup
    show ?thesis
      by (rule tx_ok.in_batch [of _ "d @ [ord]" rest'])
        (use in_batch(1) rest dup k(1) snoc w in \<open>simp_all add: wrote_def\<close>)
  next
    case (new r)
    from k(2) obtain p where p: "k True = Add_request ord p" "settle p = settle (ingest_prog rest')" by blast
    have fresh: "fresh_in db (d @ [ord]) = fresh_in db d @ [ord]" using snoc new(1) by simp
    show ?thesis
      by (rule tx_ok.in_order [of _ d ord rest' p])
        (use in_batch(1) rest new p fresh w in \<open>simp_all add: wrote_def in_bind_def\<close>)
  qed
qed (use assms(2) in \<open>simp_all add: other_prog\<close>)

lemma tx_ok_request:
  assumes "tx_ok db t" and "tx_prog t = Add_request ord p" and "rows_ok (view db t)" and "weak_link (abs_db db)"
    and "insert_outbox_stmt E uid ASSESS_REQUEST (assess_key (io_source ord) (io_external_id ord))
      (assess_request_payload ord) now (view db t) = Inr (u, v)"
  shows "tx_ok db (t\<lparr>tx_prog := settle p,
    tx_events := tx_events t @ new_rows (outbox_t (view db t)) (outbox_t v)\<rparr>)"
  using assms(1)
proof cases
  case (in_order d o' rest p')
  with assms(2) have same: "o' = ord" "p' = p" by simp_all
  have w: "map order_binding (tx_orders t) = map in_bind (fresh_in db d @ [ord])"
      "map event_binding (tx_events t) = map ev_bind (fresh_in db d)" "tx_sets t = []"
    using in_order(5) by (simp_all add: wrote_def same)
  note keys = wrote_keys [OF in_order(5)]
  let ?key = "assess_key PROFI (io_external_id ord)"
  have src: "assess_key (io_source ord) (io_external_id ord) = ?key" by (cases "io_source ord") simp
  have distinct: "distinct (map in_key (fresh_in db d @ [ord]))"
    using fresh_orders_distinct [of "dom (abs_orders db)" "d @ [ord]"] in_order(4) same by simp
  have own: "?key \<notin> set (map ob_dedup_key (tx_events t))"
    unfolding conjunct2 [OF keys] using distinct by (auto simp: in_key_profi)
  have "in_key ord \<notin> dom (abs_orders db)"
    using fresh_orders_new [of "dom (abs_orders db)" "d @ [ord]"] in_order(4) same by auto
  then have "abs_orders db (profi_key (io_external_id ord)) = None" by (auto simp: in_key_profi)
  with assms(4) have "abs_events db ?key = None"
    using weak_linkD(2) [of "abs_orders db" "abs_events db" "io_external_id ord"] by (simp add: abs_db_def)
  then have "?key \<notin> set (map ob_dedup_key (outbox_t db))" unfolding dom_abs_events [symmetric] by blast
  with own have fresh: "?key \<notin> set (map ob_dedup_key (outbox_t (view db t)))" by (simp add: view_keys)
  from assms(5) [unfolded src] show ?thesis
  proof (cases rule: insert_outbox_rows)
    case dup
    with fresh show ?thesis by simp
  next
    case (new r)
    show ?thesis
      by (rule tx_ok.in_batch [of _ "d @ [ord]" rest])
        (use in_order same new w in \<open>simp_all add: wrote_def ev_bind_def\<close>)
  qed
qed (use assms(2) in \<open>simp_all add: other_prog\<close>)

lemma tx_ok_get:
  assumes "tx_ok db t" and "tx_prog t = Get_order src ext k" and "rows_ok db"
    and "select_order_stmt src ext now (view db t) = Inr (row, v)" and "decode_row row = Inr r"
  shows "tx_ok db (t\<lparr>tx_prog := settle (k r)\<rparr>)"
  using assms(1)
proof cases
  case (looks_up th out)
  from looks_up(2) assms(2) have k: "src = PROFI" "ext = ao_order_id out"
      "k = (\<lambda>ord. case ord of
         None \<Rightarrow> Finish (Inl (unknown_order (ao_order_id out)))
       | Some o' \<Rightarrow>
           if \<not> can_apply_assessment (do_status o')
           then Say INFO ''assessment_ignored''
               [(lit ''external_id'', JStr (ao_order_id out)),
                (lit ''status'', JStr (status_value (do_status o')))] (Commit (Finish (Inr ())))
           else verdict_prog th out)"
    by (simp_all add: process_prog_def)
  have idle: "idle_tx (t\<lparr>tx_prog := p\<rparr>)" for p using looks_up(3) by (simp add: idle_tx_def)
  have sel: "select_order_stmt PROFI (ao_order_id out) now db = Inr (row, v)"
    using assms(4) by (simp add: idle_view [OF looks_up(3)] k)
  show ?thesis
  proof (cases r)
    case None
    show ?thesis by (rule tx_ok.finished [OF _ idle]) (simp add: k None)
  next
    case (Some o')
    then obtain ro where row: "row = Some ro" using assms(5) by (cases row) (auto simp: decode_row_def)
    have known: "known_order db out"
      using select_order_stmt_Inr(2) [OF sel assms(3)] row by (simp add: profi_key_def)
    show ?thesis
    proof (cases "can_apply_assessment (do_status o')")
      case True
      then show ?thesis by (intro tx_ok.found [OF _ _ idle known]) (simp_all add: k Some looks_up(1))
    next
      case False
      obtain sr where sr: "source_of (or_source ro) = Inr sr" "status_of (or_status ro) = Inr (do_status o')"
        using assms(5) row Some by (auto simp: decode_row_def split: sum.splits)
      have "or_status ro \<noteq> status_value ASSESS_REQUESTED"
        using sr(2) False by (auto simp: can_apply_assessment_def)
      then have "decided (abs_db db) out"
        using select_order_stmt_Inr(3) [OF sel assms(3) row] by (simp add: decided_def abs_db_def profi_key_def)
      with False show ?thesis by (intro tx_ok.ignored [OF _ _ idle]) (simp_all add: k Some looks_up(1))
    qed
  qed
qed (use assms(2) in \<open>simp_all add: other_prog\<close>)

lemma tx_ok_set:
  assumes "tx_ok db t" and "tx_prog t = Set_status src ext st sc k"
    and "update_status_stmt src ext st sc now (view db t) = Inr (b, v)"
  shows "tx_orders t = []" and "tx_ok db (t\<lparr>tx_prog := settle (k b),
      tx_sets := tx_sets t @ (if b then [((source_value src, ext), st, sc, now)] else [])\<rparr>)"
proof -
  from assms(1) have "tx_orders t = [] \<and> tx_ok db (t\<lparr>tx_prog := settle (k b),
      tx_sets := tx_sets t @ (if b then [((source_value src, ext), st, sc, now)] else [])\<rparr>)"
  proof cases
    case (found th out)
    have own: "tx_orders t = []" "tx_events t = []" "tx_sets t = []" using found(3) by (simp_all add: idle_tx_def)
    have args: "src = PROFI" "ext = ao_order_id out" "sc = Some (ao_suitability_score out)"
      using found(2) assms(2) by (simp_all add: verdict_prog_def Let_def split: if_splits)
    then have key: "(source_value src, ext) = profi_key (ao_order_id out)" by (simp add: profi_key_def)
    have "profi_key (ao_order_id out) \<in> set (map order_key (orders_t db))"
      using found(4) unfolding dom_abs_orders [symmetric] by blast
    then have b: b using view_set(2) [OF assms(3)] key by simp
    show ?thesis
    proof (cases "th \<le> ao_suitability_score out")
      case True
      then have d: "dec_notify (decide_notification out th)" by (simp add: decide_notification_def)
      have k: "st = NOTIFY_REQUESTED" "\<exists>p. k True = Add_notification PROFI (ao_order_id out) (ao_notification out) p \<and>
          settle p = Commit (Finish (Inr ()))"
        using found(2) assms(2) d by (auto simp: verdict_prog_def Let_def)
      then obtain p where p: "k True = Add_notification PROFI (ao_order_id out) (ao_notification out) p"
          "settle p = Commit (Finish (Inr ()))" by blast
      have "tx_ok db (t\<lparr>tx_prog := Add_notification PROFI (ao_order_id out) (ao_notification out) p,
          tx_sets := [verdict_set out NOTIFY_REQUESTED now]\<rparr>)"
        by (rule tx_ok.notifies [where th = th and p = p and now = now]) (use found(1,4) True p own in simp_all)
      then show ?thesis using b p(1) k(1) own args key by simp
    next
      case False
      then have d: "\<not> dec_notify (decide_notification out th)" by (simp add: decide_notification_def)
      have k: "st = NO_NOTIFY" "settle (k True) = Commit (Finish (Inr ()))"
        using found(2) assms(2) d by (auto simp: verdict_prog_def Let_def)
      have "tx_ok db (t\<lparr>tx_prog := Commit (Finish (Inr ())), tx_sets := [verdict_set out NO_NOTIFY now]\<rparr>)"
        by (rule tx_ok.skipped [where th = th and now = now]) (use found(1,4) False own in simp_all)
      then show ?thesis using b k own args key by simp
    qed
  qed (use assms(2) in \<open>simp_all add: other_prog\<close>)
  then show "tx_orders t = []" and "tx_ok db (t\<lparr>tx_prog := settle (k b),
      tx_sets := tx_sets t @ (if b then [((source_value src, ext), st, sc, now)] else [])\<rparr>)" by blast+
qed

lemma tx_ok_notify:
  assumes "tx_ok db t" and "tx_prog t = Add_notification src ext n p"
    and "insert_outbox_stmt E uid NOTIFY (notify_key src ext) (notification_payload n) now (view db t) = Inr (u, v)"
  shows "tx_ok db (t\<lparr>tx_prog := settle p,
    tx_events := tx_events t @ new_rows (outbox_t (view db t)) (outbox_t v)\<rparr>)"
  using assms(1)
proof cases
  case (notifies th out p' now')
  with assms(2) have same: "src = PROFI" "ext = ao_order_id out" "n = ao_notification out" "p' = p" by simp_all
  from assms(3) show ?thesis
  proof (cases rule: insert_outbox_rows)
    case dup
    then have "notify_key PROFI (ao_order_id out) \<in> dom (abs_events db)"
      using notifies(7) same by (simp add: view_keys dom_abs_events)
    then have there: "abs_events db (notify_key PROFI (ao_order_id out)) \<noteq> None" by blast
    show ?thesis
      by (rule tx_ok.notified [where th = th and now = now']) (use notifies same dup there in simp_all)
  next
    case (new r)
    show ?thesis
      by (rule tx_ok.notified [where th = th and now = now']) (use notifies same new in simp_all)
  qed
qed (use assms(2) in \<open>simp_all add: other_prog\<close>)

section \<open>The invariant\<close>

definition conc_inv :: "(core_call \<Rightarrow> bool) \<Rightarrow> conc \<Rightarrow> bool" where
  "conc_inv delivered p \<longleftrightarrow> conc_rows p \<and> weak_link (abs_db (fst p)) \<and>
     (\<forall>i t. snd p i = Some t \<longrightarrow> tx_ok (fst p) t \<and> delivered (tx_call t))"

lemma conc_invD:
  assumes "conc_inv delivered (db, T)"
  shows "conc_rows (db, T)" and "rows_ok db" and "weak_link (abs_db db)"
    and "T i = Some t \<Longrightarrow> rows_ok (view db t)" and "T i = Some t \<Longrightarrow> tx_ok db t"
    and "T i = Some t \<Longrightarrow> delivered (tx_call t)"
  using assms by (auto simp: conc_inv_def conc_rows_def tx_rows_def)

lemma conc_inv_update:
  assumes "conc_inv delivered (db, T)" and "conc_rows (db, T(i \<mapsto> t'))" and "tx_ok db t'" and "delivered (tx_call t')"
  shows "conc_inv delivered (db, T(i \<mapsto> t'))"
  using assms unfolding conc_inv_def fst_conv snd_conv by (auto split: if_splits)

lemma tx_ok_open: "tx_ok db (open_tx call)"
proof (cases call)
  case (Ingest batch)
  show ?thesis by (rule tx_ok.in_batch [of _ "[]" batch]) (simp_all add: Ingest open_tx_def wrote_def)
next
  case (Process th out)
  show ?thesis by (rule tx_ok.looks_up [of _ th out]) (simp_all add: Process open_tx_def idle_tx_def)
qed

lemma commit_weak_link:
  assumes "conc_inv delivered (db, T)" and "T i = Some t" and "tx_prog t = Commit p"
  shows "weak_link (abs_db (view db t))"
proof -
  note inv = conc_invD [OF assms(1)]
  note eff = commit_effect [OF inv(4) [OF assms(2)] inv(5) [OF assms(2)] assms(3)]
  show ?thesis
  proof (cases "tx_call t")
    case (Ingest batch)
    with eff link_fold_ingest(1) [OF inv(3)] show ?thesis by simp
  next
    case (Process th out)
    have "weak_link (verdict_effect th out (abs_db db))" if "known_order db out"
      by (rule link_verdict(1) [OF inv(3)]) (use that in \<open>simp add: abs_db_def\<close>)
    with eff Process inv(3) show ?thesis by auto
  qed
qed

lemma conc_inv_commit:
  assumes "conc_inv delivered (db, T)" and "T i = Some t" and "tx_prog t = Commit p"
  shows "conc_inv delivered (view db t, T(i \<mapsto> t\<lparr>tx_prog := settle p, tx_orders := [], tx_events := [], tx_sets := []\<rparr>))"
    (is "conc_inv delivered (_, T(i \<mapsto> ?t))")
proof -
  note inv = conc_invD [OF assms(1)]
  have p: "p = Finish (Inr ())"
    using commit_effect [OF inv(4) [OF assms(2)] inv(5) [OF assms(2)] assms(3)] by blast
  have idle: "idle_tx ?t" by (simp add: idle_tx_def)
  have others: "tx_ok (view db t) u" if "j \<noteq> i" "T j = Some u" for j u
    by (rule tx_ok_commit [OF conc_rowsD(2) [OF inv(1) that(2)] conc_rowsD(2) [OF inv(1) assms(2)]
          apart_sym [OF conc_rowsD(3) [OF inv(1) assms(2) that]] inv(5) [OF that(2)] inv(5) [OF assms(2)] assms(3)])
  have "tx_ok (view db t) ?t" by (rule tx_ok.finished [OF _ idle]) (simp add: p)
  with others conc_rows_commit [OF inv(1) assms(2) idle] commit_weak_link [OF assms] inv(6) assms(2)
  show ?thesis unfolding conc_inv_def fst_conv snd_conv by auto
qed

lemma conc_inv_end: "conc_inv delivered (db, T) \<Longrightarrow> conc_inv delivered (db, T(i := None))"
  using conc_rows_end unfolding conc_inv_def fst_conv snd_conv by (auto split: if_splits)

lemma mark_stmt_keeps:
  assumes "mark_stmt ids now db = Inr (u, db')"
  shows "orders_t db' = orders_t db" and "map event_binding (outbox_t db') = map event_binding (outbox_t db)"
    and "map ob_id (outbox_t db') = map ob_id (outbox_t db)"
    and "\<forall>r \<in> set (outbox_t db). (\<exists>d. ob_destination r = destination_value d) \<and> ob_status r \<in> {pending, published} \<Longrightarrow>
      \<forall>r \<in> set (outbox_t db'). (\<exists>d. ob_destination r = destination_value d) \<and> ob_status r \<in> {pending, published}"
  using assms by (auto simp: mark_stmt_def event_binding_def)

lemma mark_stmt_abs:
  assumes "mark_stmt ids now db = Inr (u, db')"
  shows "abs_db db' = abs_db db" and "tx_ok db t \<Longrightarrow> tx_ok db' t"
proof -
  show same: "abs_db db' = abs_db db"
    by (simp add: abs_db_def abs_orders_def abs_events_def mark_stmt_keeps(1,2) [OF assms] del: map_of_map)
  then have eq: "abs_orders db' = abs_orders db" "abs_events db' = abs_events db" by (simp_all add: abs_db_def)
  show "tx_ok db t \<Longrightarrow> tx_ok db' t"
    by (erule tx_ok_keep; (assumption | simp only: eq same simp_thms)?)
qed

lemma mark_stmt_rows:
  assumes "mark_stmt ids now db = Inr (u, db')" and "tx_rows db t"
  shows "tx_rows db' t"
proof -
  note m = mark_stmt_keeps [OF assms(1)]
  have "map fst (map event_binding (outbox_t db')) = map fst (map event_binding (outbox_t db))" by (simp only: m)
  then have keys: "map ob_dedup_key (outbox_t db') = map ob_dedup_key (outbox_t db)" by (simp add: comp_def)
  have orders: "orders_t (view db' t) = orders_t (view db t)" by (simp add: view_def m(1))
  have r: "rows_ok (view db t)" using assms(2) by (simp add: tx_rows_def)
  have "\<forall>r \<in> set (outbox_t db @ tx_events t). (\<exists>d. ob_destination r = destination_value d) \<and> ob_status r \<in> {pending, published}"
    using r unfolding rows_ok_view by blast
  then have "\<forall>r \<in> set (outbox_t db' @ tx_events t). (\<exists>d. ob_destination r = destination_value d) \<and> ob_status r \<in> {pending, published}"
    using m(4) unfolding set_append ball_Un by blast
  then have "rows_ok (view db' t)" using r unfolding rows_ok_view orders m(1,3) keys by blast
  then show ?thesis using assms(2) by (simp add: tx_rows_def m(1))
qed

lemma conc_inv_relay:
  assumes "conc_inv delivered (db, T)" and "mark_stmt ids now db = Inr (u, db')"
  shows "conc_inv delivered (db', T)"
proof -
  note m = mark_stmt_abs [OF assms(2)] mark_stmt_rows [OF assms(2)]
  have idle: "idle_tx \<lparr>tx_call = Ingest [], tx_prog = Finish (Inr ()), tx_orders = [], tx_events = [], tx_sets = []\<rparr>" (is "idle_tx ?t")
    by (simp add: idle_tx_def)
  have "rows_ok db'"
    using m(3) [OF idle_rows [OF idle conc_invD(2) [OF assms(1)]]] by (simp add: tx_rows_def idle_view [OF idle])
  with assms(1) m show ?thesis unfolding conc_inv_def conc_rows_def fst_conv snd_conv by simp
qed

lemma conc_inv_step:
  assumes "conc_step E delivered p q" and "conc_inv delivered p"
  shows "conc_inv delivered q"
  using assms
proof cases
  case (begin_tx T i call db)
  then have inv: "conc_inv delivered (db, T)" using assms(2) by simp
  have idle: "idle_tx (open_tx call)" by (simp add: open_tx_def idle_tx_def)
  show ?thesis unfolding begin_tx(2)
    by (rule conc_inv_update [OF inv conc_rows_update [OF conc_invD(1) [OF inv] idle_rows [OF idle conc_invD(2) [OF inv]]]
          tx_ok_open])
      (use idle_apart [OF idle] begin_tx in \<open>simp_all add: open_tx_def\<close>)
next
  case (insert_tx T i t ord k uid now db b v)
  then have inv: "conc_inv delivered (db, T)" using assms(2) by simp
  show ?thesis unfolding insert_tx(2)
    by (rule conc_inv_update [OF inv conc_rows_insert [OF conc_invD(1) [OF inv] insert_tx(3,5,6,7)]
          tx_ok_insert [OF conc_invD(5) [OF inv insert_tx(3)] insert_tx(4,7)]])
      (simp add: conc_invD(6) [OF inv insert_tx(3)])
next
  case (get_tx T i t src ext k now db row v r)
  then have inv: "conc_inv delivered (db, T)" using assms(2) by simp
  show ?thesis unfolding get_tx(2)
    by (rule conc_inv_update [OF inv conc_rows_prog [OF conc_invD(1) [OF inv] get_tx(3)]
          tx_ok_get [OF conc_invD(5) [OF inv get_tx(3)] get_tx(4) conc_invD(2) [OF inv] get_tx(5,6)]])
      (simp add: conc_invD(6) [OF inv get_tx(3)])
next
  case (set_tx T i t src ext st sc k now db b v)
  then have inv: "conc_inv delivered (db, T)" using assms(2) by simp
  note ok = tx_ok_set [OF conc_invD(5) [OF inv set_tx(3)] set_tx(4,6)]
  show ?thesis unfolding set_tx(2)
    by (rule conc_inv_update [OF inv conc_rows_set [OF conc_invD(1) [OF inv] set_tx(3) ok(1) set_tx(5,6)] ok(2)])
      (simp add: conc_invD(6) [OF inv set_tx(3)])
next
  case (request_tx T i t ord p key uid now db u v)
  then have inv: "conc_inv delivered (db, T)" using assms(2) by simp
  show ?thesis unfolding request_tx(2)
    by (rule conc_inv_update [OF inv conc_rows_event [OF conc_invD(1) [OF inv] request_tx(3,6,7,8)]
          tx_ok_request [OF conc_invD(5) [OF inv request_tx(3)] request_tx(4) conc_invD(4) [OF inv request_tx(3)]
            conc_invD(3) [OF inv] request_tx(8) [unfolded request_tx(5)]]])
      (simp add: conc_invD(6) [OF inv request_tx(3)])
next
  case (notify_tx T i t src ext n p key uid now db u v)
  then have inv: "conc_inv delivered (db, T)" using assms(2) by simp
  show ?thesis unfolding notify_tx(2)
    by (rule conc_inv_update [OF inv conc_rows_event [OF conc_invD(1) [OF inv] notify_tx(3,6,7,8)]
          tx_ok_notify [OF conc_invD(5) [OF inv notify_tx(3)] notify_tx(4) notify_tx(8) [unfolded notify_tx(5)]]])
      (simp add: conc_invD(6) [OF inv notify_tx(3)])
next
  case (commit_tx T i t p db)
  then show ?thesis using conc_inv_commit assms(2) by simp
next
  case (relay_tx ids now db u db' T)
  then show ?thesis using conc_inv_relay assms(2) by simp
next
  case (end_tx T i t db)
  then show ?thesis using conc_inv_end assms(2) by simp
qed

lemma conc_inv_reach:
  assumes "conc_reach E delivered db0 p" and "rows_ok db0" and "weak_link (abs_db db0)"
  shows "conc_inv delivered p"
  using assms(1)
proof induction
  case start
  show ?case using assms(2,3) by (simp add: conc_inv_def conc_rows_def)
next
  case (step p q)
  then show ?case by (simp add: conc_inv_step)
qed

section \<open>A verdict on its own\<close>

text \<open>What the columns ask of the rows a verdict writes.\<close>

definition verdict_fits :: "pg_env \<Rightarrow> assessment_outcome \<Rightarrow> bool" where
  "verdict_fits E out \<longleftrightarrow> int32_ok (ao_suitability_score out) \<and> varchar_ok E 32 (destination_value NOTIFY) \<and>
     varchar_ok E 200 (notify_key PROFI (ao_order_id out)) \<and> json_ok E (notification_payload (ao_notification out))"

definition found_tx :: "int \<Rightarrow> assessment_outcome \<Rightarrow> tx" where
  "found_tx th out = \<lparr>tx_call = Process th out, tx_prog = verdict_prog th out, tx_orders = [], tx_events = [], tx_sets = []\<rparr>"

lemma idle_found [simp]: "idle_tx (found_tx th out)"
  by (simp add: idle_tx_def found_tx_def)

lemma free_idle: "(\<And>j u. j \<noteq> i \<Longrightarrow> T j = Some u \<Longrightarrow> idle_tx u) \<Longrightarrow>
    free T i event_keys x \<and> free T i event_ids y \<and> free T i row_locks z"
  unfolding free_def held_defs by (auto simp: idle_tx_def)

lemma free_idle_upd:
  assumes "\<And>j u. j \<noteq> i \<Longrightarrow> T j = Some u \<Longrightarrow> idle_tx u"
  shows "free (T(i \<mapsto> t)) i event_keys x" and "free (T(i \<mapsto> t)) i event_ids y"
  using assms unfolding free_def held_defs by (auto simp: idle_tx_def)

lemma awaiting_row:
  assumes "rows_ok db" and "abs_orders db (profi_key oid) = Some (status_value st, sc)"
  shows "\<exists>row. select_order_stmt PROFI oid now db = Inr (Some row, db) \<and>
    decode_row (Some row) = Inr (Some \<lparr>do_source = PROFI, do_external_id = oid, do_status = st, do_suitability_score = sc\<rparr>)"
proof -
  obtain row where sel: "select_order_stmt PROFI oid now db = Inr (row, db)" by (simp add: select_order_stmt_def)
  note s = select_order_stmt_Inr [OF sel assms(1), folded profi_key_def]
  from s(2) assms(2) obtain r where r: "row = Some r" by (cases row) auto
  have k: "order_key r = profi_key oid" "abs_orders db (profi_key oid) = Some (or_status r, or_suitability_score r)"
    using s(3) [OF r] by blast+
  from k assms(2) have "or_source r = source_value PROFI" "or_external_id r = oid" "or_status r = status_value st"
      "or_suitability_score r = sc"
    by (simp_all add: order_key_def profi_key_def)
  then have "decode_row (Some r) = Inr (Some \<lparr>do_source = PROFI, do_external_id = oid, do_status = st, do_suitability_score = sc\<rparr>)"
    by (simp add: decode_row_def)
  with sel r show ?thesis by blast
qed

lemma reach_found:
  assumes "conc_reach E delivered db0 (db, T)" and "T i = None" and "delivered (Process th out)" and "rows_ok db"
    and "abs_orders db (profi_key (ao_order_id out)) = Some (status_value ASSESS_REQUESTED, sc)"
  shows "conc_reach E delivered db0 (db, T(i \<mapsto> found_tx th out))"
proof -
  let ?open = "open_tx (Process th out)"
  have "conc_reach E delivered db0 (db, T(i \<mapsto> ?open))"
    by (rule conc_reach.step [OF assms(1) conc_step.begin_tx]) (rule assms(2,3))+
  moreover obtain row where row: "select_order_stmt PROFI (ao_order_id out) 0 db = Inr (Some row, db)"
      "decode_row (Some row) = Inr (Some \<lparr>do_source = PROFI, do_external_id = ao_order_id out,
        do_status = ASSESS_REQUESTED, do_suitability_score = sc\<rparr>)"
    using awaiting_row [OF assms(4,5)] by blast
  have "conc_step E delivered (db, T(i \<mapsto> ?open)) (db, T(i \<mapsto> ?open, i \<mapsto> ?open\<lparr>tx_prog := settle (verdict_prog th out)\<rparr>))"
  proof -
    have v: "view db ?open = db" by (rule idle_view) (simp add: idle_tx_def open_tx_def)
    have g: "tx_prog ?open = process_prog th out" by (simp add: open_tx_def)
    show ?thesis
      using conc_step.get_tx [of "T(i \<mapsto> ?open)" i ?open PROFI "ao_order_id out" _ 0 db "Some row" db, OF _ g [unfolded process_prog_def] _ row(2)]
        row(1) v by (simp add: can_apply_assessment_def)
  qed
  ultimately show ?thesis
    using conc_reach.step by (fastforce simp: found_tx_def open_tx_def)
qed

lemma committed_verdict:
  assumes "rows_ok (view db t)" and "tx_ok db t" and "tx_prog t = Commit p" and "tx_call t = Process th out"
    and "tx_sets t \<noteq> []"
  shows "abs_db (view db t) = verdict_effect th out (abs_db db)"
  using assms(2)
proof cases
  case (notified th' out' now)
  then show ?thesis using view_verdict(1) [OF assms(1) notified(5,4,3,7,6)] assms(4) by simp
next
  case (skipped th' out' now)
  then show ?thesis using view_verdict(2) [OF assms(1) skipped(5,4,3,7,6)] assms(4) by simp
qed (use assms(3-5) in \<open>simp_all add: idle_tx_def other_prog process_prog_def verdict_prog_def Let_def split: if_splits\<close>)

lemma reach_commit:
  assumes "conc_reach E delivered db0 (db, T)" and "rows_ok db0" and "weak_link (abs_db db0)"
    and "T i = Some t" and "tx_prog t = Commit p" and "tx_call t = Process th out" and "tx_sets t \<noteq> []"
  shows "\<exists>db'. conc_reach E delivered db0 (db', T(i := None)) \<and> abs_db db' = verdict_effect th out (abs_db db)"
proof -
  note inv = conc_invD [OF conc_inv_reach [OF assms(1-3)]]
  let ?t = "t\<lparr>tx_prog := settle p, tx_orders := [], tx_events := [], tx_sets := []\<rparr>"
  have "conc_reach E delivered db0 (view db t, T(i \<mapsto> ?t))"
    by (rule conc_reach.step [OF assms(1) conc_step.commit_tx]) (rule assms(4,5))+
  then have "conc_reach E delivered db0 (view db t, T(i \<mapsto> ?t, i := None))"
    by (rule conc_reach.step [OF _ conc_step.end_tx [of _ _ ?t]]) simp
  with committed_verdict [OF inv(4) [OF assms(4)] inv(5) [OF assms(4)] assms(5-7)]
  show ?thesis by (intro exI [of _ "view db t"]) simp
qed

lemma new_uid: "\<exists>uid. uid \<notin> set (map f xs)" for f :: "'a \<Rightarrow> nat"
  using ex_new_if_finite [OF infinite_UNIV_nat, of "set (map f xs)"] by simp

lemma found_known: "tx_ok db (found_tx th out) \<Longrightarrow> known_order db out"
  by (erule tx_ok_cases) (simp_all add: found_tx_def other_prog process_prog_def verdict_prog_def Let_def split: if_splits)

lemma reach_ready:
  assumes "conc_reach E delivered db0 (db, T)" and "rows_ok db0" and "weak_link (abs_db db0)"
    and "T i = Some (found_tx th out)" and "\<And>j u. j \<noteq> i \<Longrightarrow> T j = Some u \<Longrightarrow> idle_tx u" and "verdict_fits E out"
  shows "\<exists>t. conc_reach E delivered db0 (db, T(i \<mapsto> t)) \<and> tx_prog t = Commit (Finish (Inr ())) \<and>
    tx_call t = Process th out \<and> tx_sets t \<noteq> []"
proof -
  note inv = conc_invD [OF conc_inv_reach [OF assms(1-3)]]
  let ?oid = "ao_order_id out" and ?sc = "ao_suitability_score out" and ?t = "found_tx th out"
  have known: "known_order db out" by (rule found_known [OF inv(5) [OF assms(4)]])
  have view: "view db ?t = db" by (rule idle_view) simp
  have free: "free T i event_keys x" "free T i event_ids y" "free T i row_locks z" for x y z
    by (simp_all add: free_idle [OF assms(5)])
  let ?st = "if th \<le> ?sc then NOTIFY_REQUESTED else NO_NOTIFY"
  obtain b v where upd: "update_status_stmt PROFI ?oid ?st (Some ?sc) 0 db = Inr (b, v)"
    using assms(6) by (simp add: verdict_fits_def update_status_stmt_def)
  have b: b using update_status_stmt_Inr(3) [OF upd inv(2)] known by (simp add: profi_key_def)
  let ?sets = "[((source_value PROFI, ?oid), ?st, Some ?sc, 0)]"
  obtain k where k: "verdict_prog th out = Set_status PROFI ?oid ?st (Some ?sc) k"
    by (cases "th \<le> ?sc") (simp_all add: verdict_prog_def decide_notification_def Let_def)
  let ?t1 = "?t\<lparr>tx_prog := settle (k True), tx_sets := ?sets\<rparr>"
  have upd': "update_status_stmt PROFI ?oid ?st (Some ?sc) 0 (view db ?t) = Inr (b, v)" by (simp only: view upd)
  have "conc_step E delivered (db, T) (db, T(i \<mapsto> ?t\<lparr>tx_prog := settle (k b),
      tx_sets := tx_sets ?t @ (if b then ?sets else [])\<rparr>))"
    by (rule conc_step.set_tx [OF assms(4) _ free(3) upd']) (simp add: found_tx_def k)
  then have step1: "conc_step E delivered (db, T) (db, T(i \<mapsto> ?t1))" using b by (simp add: found_tx_def)
  have reach1: "conc_reach E delivered db0 (db, T(i \<mapsto> ?t1))" by (rule conc_reach.step [OF assms(1) step1])
  show ?thesis
  proof (cases "th \<le> ?sc")
    case False
    then have "settle (k True) = Commit (Finish (Inr ()))"
      using k by (auto simp: verdict_prog_def decide_notification_def Let_def)
    with reach1 show ?thesis by (intro exI [of _ ?t1]) (simp add: found_tx_def)
  next
    case True
    then obtain p where p: "k True = Add_notification PROFI ?oid (ao_notification out) p" "settle p = Commit (Finish (Inr ()))"
      using k by (auto simp: verdict_prog_def decide_notification_def Let_def)
    obtain uid where uid: "uid \<notin> set (map ob_id (outbox_t db))" using new_uid by blast
    have out: "outbox_t (view db ?t1) = outbox_t db" by (simp add: view_def found_tx_def)
    obtain v' where ins: "insert_outbox_stmt E uid NOTIFY (notify_key PROFI ?oid)
        (notification_payload (ao_notification out)) 0 (view db ?t1) = Inr ((), v')"
      using assms(6) uid unfolding insert_outbox_stmt_def out verdict_fits_def
      by (cases "notify_key PROFI ?oid \<in> set (map ob_dedup_key (outbox_t db))") simp_all
    let ?t2 = "?t1\<lparr>tx_prog := settle p,
        tx_events := tx_events ?t1 @ new_rows (outbox_t (view db ?t1)) (outbox_t v')\<rparr>"
    note free' = free_idle_upd [OF assms(5)]
    have "conc_step E delivered (db, T(i \<mapsto> ?t1)) (db, T(i \<mapsto> ?t1, i \<mapsto> ?t2))"
      by (rule conc_step.notify_tx [OF _ _ refl free'(1) free'(2) ins]) (simp_all add: p(1))
    then have reach2: "conc_reach E delivered db0 (db, T(i \<mapsto> ?t2))"
      using conc_reach.step [OF reach1] by simp
    with p(2) show ?thesis by (intro exI [of _ ?t2]) (simp add: found_tx_def)
  qed
qed

lemma reach_verdict:
  assumes "conc_reach E delivered db0 (db, T)" and "rows_ok db0" and "weak_link (abs_db db0)"
    and "T i = Some (found_tx th out)" and "\<And>j u. j \<noteq> i \<Longrightarrow> T j = Some u \<Longrightarrow> idle_tx u" and "verdict_fits E out"
  shows "\<exists>db'. conc_reach E delivered db0 (db', T(i := None)) \<and> abs_db db' = verdict_effect th out (abs_db db)"
proof -
  have "\<exists>t. conc_reach E delivered db0 (db, T(i \<mapsto> t)) \<and> tx_prog t = Commit (Finish (Inr ())) \<and>
      tx_call t = Process th out \<and> tx_sets t \<noteq> []"
    by (rule reach_ready [OF assms(1-4) _ assms(6)]) (rule assms(5))
  then obtain t where t: "conc_reach E delivered db0 (db, T(i \<mapsto> t))" "tx_prog t = Commit (Finish (Inr ()))"
      "tx_call t = Process th out" "tx_sets t \<noteq> []"
    by blast
  have "\<exists>db'. conc_reach E delivered db0 (db', T(i \<mapsto> t, i := None)) \<and> abs_db db' = verdict_effect th out (abs_db db)"
    by (rule reach_commit [OF t(1) assms(2,3) _ t(2-4)]) simp
  then show ?thesis by simp
qed

section \<open>The theorems\<close>

lemma link_ok_weak_link: "link_ok (abs_db db) \<Longrightarrow> weak_link (abs_db db)"
  by (simp add: abs_db_def link_ok_no_crossing)

text \<open>C20. Whatever the ten handlers of a process and those of its other replicas do at once, in any
  interleaving of their statements and with any of them rolled back at any point, the committed
  tables keep every constraint, every stored order has its assessment event, no event is there
  without its order, and an order with a requested notification has the notification event.\<close>

theorem overlap_invariant:
  assumes "conc_reach E delivered db0 (db, T)" and "rows_ok db0" and "link_ok (abs_db db0)"
  shows "rows_ok db \<and> weak_link (abs_db db)"
  using conc_invD(2,3) [OF conc_inv_reach [OF assms(1,2) link_ok_weak_link [OF assms(3)]]] by blast

text \<open>C22. Two verdicts that disagree, handled at once, break the promise that a verdict is final:
  nothing locks the row a handler has looked up, so there is always an interleaving after which the
  order says \<open>no_notify\<close> with the second score, while the notification of the first is in the outbox
  and will be sent.\<close>

theorem verdict_race:
  assumes "rows_ok db0" and "link_ok (abs_db db0)"
    and "abs_orders db0 (profi_key (ao_order_id out)) = Some (status_value ASSESS_REQUESTED, sc)"
    and "ao_order_id out' = ao_order_id out" and "th \<le> ao_suitability_score out" and "ao_suitability_score out' < th"
    and "verdict_fits E out" and "verdict_fits E out'" and "delivered (Process th out)" and "delivered (Process th out')"
  shows "\<exists>db. conc_reach E delivered db0 (db, \<lambda>_. None) \<and>
    abs_orders db (profi_key (ao_order_id out)) = Some (status_value NO_NOTIFY, Some (ao_suitability_score out')) \<and>
    abs_events db (notify_key PROFI (ao_order_id out)) =
      Some (destination_value NOTIFY, notification_payload (ao_notification out))"
proof -
  note weak = link_ok_weak_link [OF assms(2)]
  let ?T1 = "(\<lambda>_. None)(0 := Some (found_tx th out))"
  let ?T2 = "?T1(Suc 0 := Some (found_tx th out'))"
  have r1: "conc_reach E delivered db0 (db0, ?T1)"
    by (rule reach_found) (use assms(9,1,3) in \<open>auto intro: conc_reach.start\<close>)
  have r2: "conc_reach E delivered db0 (db0, ?T2)"
    by (rule reach_found [OF r1 _ assms(10,1)]) (use assms(3,4) in simp_all)
  have "\<exists>db1. conc_reach E delivered db0 (db1, ?T2(0 := None)) \<and> abs_db db1 = verdict_effect th out (abs_db db0)"
    by (rule reach_verdict [OF r2 assms(1) weak _ _ assms(7)]) (auto split: if_splits)
  then obtain db1 where r3: "conc_reach E delivered db0 (db1, ?T2(0 := None))" "abs_db db1 = verdict_effect th out (abs_db db0)"
    by blast
  have "\<exists>db2. conc_reach E delivered db0 (db2, (?T2(0 := None))(Suc 0 := None)) \<and>
      abs_db db2 = verdict_effect th out' (abs_db db1)"
    by (rule reach_verdict [OF r3(1) assms(1) weak _ _ assms(8)]) (auto split: if_splits)
  then obtain db2 where r4: "conc_reach E delivered db0 (db2, (?T2(0 := None))(Suc 0 := None))"
      "abs_db db2 = verdict_effect th out' (abs_db db1)" by blast
  have none: "(?T2(0 := None))(Suc 0 := None) = (\<lambda>_. None)" by auto
  have ev: "abs_events db0 (notify_key PROFI (ao_order_id out)) = None"
    by (rule link_ok_no_notify [OF assms(2) [unfolded abs_db_def] assms(3)])
  have "abs_db db2 = verdict_effect th out' (verdict_effect th out (abs_db db0))" by (simp add: r4(2) r3(2))
  then show ?thesis using r4(1) ev assms(4-6) unfolding none
    by (intro exI [of _ db2]) (simp add: abs_db_def verdict_effect_def Let_def put_new_def)
qed

text \<open>C23. With a threshold no delivered verdict stays below (the default threshold is 0, and scores are
  not negative) the race is harmless: in every interleaving, stored orders and outbox stay linked
  exactly as when the messages are handled one by one.\<close>

theorem overlap_link:
  assumes "conc_reach E delivered db0 p" and "rows_ok db0" and "link_ok (abs_db db0)"
    and "\<And>th out. delivered (Process th out) \<Longrightarrow> th \<le> ao_suitability_score out"
  shows "link_ok (abs_db (fst p))"
proof -
  note weak = link_ok_weak_link [OF assms(3)]
  have "no_crossing (abs_db (fst p))"
    using assms(1)
  proof induction
    case start
    then show ?case using assms(3) by (simp add: abs_db_def link_ok_no_crossing)
  next
    case (step p q)
    note keep = conc_inv_reach [OF step(1) assms(2) weak]
    from step(2) show ?case
    proof cases
      case (commit_tx T i t pr db)
      note inv = conc_invD [OF keep [unfolded commit_tx(1)]]
      note eff = commit_effect [OF inv(4) [OF commit_tx(3)] inv(5) [OF commit_tx(3)] commit_tx(4)]
      have c: "no_crossing (abs_db db)" using step(3) by (simp add: commit_tx(1))
      show ?thesis
      proof (cases "tx_call t")
        case (Ingest batch)
        then show ?thesis using eff link_fold_ingest(2) [OF inv(3) c] by (simp add: commit_tx(2))
      next
        case (Process th out)
        have th: "th \<le> ao_suitability_score out" using inv(6) [OF commit_tx(3)] Process by (intro assms(4)) simp
        have "no_crossing (verdict_effect th out (abs_db db))" if "known_order db out"
          by (rule link_verdict(2) [OF inv(3) _ c th]) (use that in \<open>simp add: abs_db_def\<close>)
        then show ?thesis using eff Process c by (auto simp: commit_tx(2))
      qed
    next
      case (relay_tx ids now db u db' T)
      then show ?thesis using step(3) mark_stmt_abs(1) [OF relay_tx(3)] by simp
    qed (use step(3) in simp_all)
  qed
  then show ?thesis
    using conc_inv_reach [OF assms(1,2) weak] by (simp add: conc_inv_def abs_db_def link_ok_no_crossing)
qed

section \<open>An example of each\<close>

lemma stored_order:
  "rows_ok (committed after_ingest)" "link_ok (abs_db (committed after_ingest))"
  "abs_orders (committed after_ingest) (profi_key (lit ''1'')) = Some (status_value ASSESS_REQUESTED, None)"
proof -
  show "rows_ok (committed after_ingest)" using core_idle_after_ingest by (simp add: core_idle_def)
  show "link_ok (abs_db (committed after_ingest))"
    unfolding abs_after_ingest by (rule link_ok_fold_ingest [OF link_ok_start])
  have "fst (abs_db (committed after_ingest)) (profi_key (lit ''1'')) = Some (status_value ASSESS_REQUESTED, None)"
    unfolding abs_after_ingest
    by (simp add: spec_ingest_def core_start_def abs_db_def in_key_profi sample_order_def)
  then show "abs_orders (committed after_ingest) (profi_key (lit ''1'')) = Some (status_value ASSESS_REQUESTED, None)"
    by (simp add: abs_db_def)
qed

lemma sample_fits: "verdict_fits calm_env sample_outcome" "verdict_fits calm_env later_outcome"
  by (simp_all add: verdict_fits_def calm_env_def sample_outcome_def later_outcome_def varchar_ok_def int32_ok_def
      notify_key_def lit_def destination_value.simps source_value.simps)

lemma sample_ids [simp]: "ao_order_id sample_outcome = lit ''1''" "ao_order_id later_outcome = lit ''1''"
  "ao_suitability_score sample_outcome = 90" "ao_suitability_score later_outcome = 3"
  by (simp_all add: sample_outcome_def later_outcome_def)

lemma sample_overlap:
  "conc_reach calm_env (\<lambda>_. True) (committed after_ingest) (committed after_ingest,
     [0 \<mapsto> found_tx 60 sample_outcome, Suc 0 \<mapsto> found_tx 60 later_outcome])"
proof (rule reach_found [OF reach_found [OF conc_reach.start]])
  show "abs_orders (committed after_ingest) (profi_key (ao_order_id sample_outcome)) = Some (status_value ASSESS_REQUESTED, None)"
    "abs_orders (committed after_ingest) (profi_key (ao_order_id later_outcome)) = Some (status_value ASSESS_REQUESTED, None)"
    by (simp_all add: stored_order)
qed (simp_all add: stored_order)

lemma sample_first:
  "\<exists>db. conc_reach calm_env (\<lambda>_. True) (committed after_ingest) (db, [Suc 0 \<mapsto> found_tx 60 later_outcome]) \<and>
     abs_db db = verdict_effect 60 sample_outcome (abs_db (committed after_ingest))"
proof -
  have "[0 \<mapsto> found_tx 60 sample_outcome, Suc 0 \<mapsto> found_tx 60 later_outcome](0 := None) =
      [Suc 0 \<mapsto> found_tx 60 later_outcome]" by auto
  moreover have "\<exists>db. conc_reach calm_env (\<lambda>_. True) (committed after_ingest)
      (db, [0 \<mapsto> found_tx 60 sample_outcome, Suc 0 \<mapsto> found_tx 60 later_outcome](0 := None)) \<and>
      abs_db db = verdict_effect 60 sample_outcome (abs_db (committed after_ingest))"
    by (rule reach_verdict [OF sample_overlap stored_order(1) link_ok_weak_link [OF stored_order(2)] _ _ sample_fits(1)])
      (auto split: if_splits)
  ultimately show ?thesis by simp
qed

theorem overlap_invariant_witness:
  "\<exists>db. abs_db db = verdict_effect 60 sample_outcome (abs_db (committed after_ingest)) \<and> rows_ok db \<and> weak_link (abs_db db)"
proof -
  obtain db where db: "conc_reach calm_env (\<lambda>_. True) (committed after_ingest) (db, [Suc 0 \<mapsto> found_tx 60 later_outcome])"
      "abs_db db = verdict_effect 60 sample_outcome (abs_db (committed after_ingest))"
    using sample_first by blast
  from overlap_invariant [OF db(1) stored_order(1,2)] db(2) show ?thesis by blast
qed

theorem verdict_race_witness:
  "\<exists>db. conc_reach calm_env (\<lambda>_. True) (committed after_ingest) (db, \<lambda>_. None) \<and>
    abs_orders db (profi_key (lit ''1'')) = Some (status_value NO_NOTIFY, Some 3) \<and>
    abs_events db (notify_key PROFI (lit ''1'')) =
      Some (destination_value NOTIFY, notification_payload (ao_notification sample_outcome))"
  using verdict_race [OF stored_order(1,2), of sample_outcome None later_outcome 60 calm_env "\<lambda>_. True"]
  by (simp add: stored_order sample_fits)

theorem overlap_link_witness:
  "\<exists>db. conc_reach calm_env (\<lambda>c. c = Process 0 sample_outcome) (committed after_ingest) (db, \<lambda>_. None) \<and>
    abs_db db = verdict_effect 0 sample_outcome (abs_db (committed after_ingest)) \<and> link_ok (abs_db db)"
proof -
  let ?D = "\<lambda>c. c = Process 0 sample_outcome" and ?T = "[0::nat \<mapsto> found_tx 0 sample_outcome]"
  have r: "conc_reach calm_env ?D (committed after_ingest) (committed after_ingest, ?T)"
    by (rule reach_found [OF conc_reach.start _ _ stored_order(1)]) (simp_all add: stored_order)
  have "\<exists>db. conc_reach calm_env ?D (committed after_ingest) (db, ?T(0 := None)) \<and>
      abs_db db = verdict_effect 0 sample_outcome (abs_db (committed after_ingest))"
    by (rule reach_verdict [OF r stored_order(1) link_ok_weak_link [OF stored_order(2)] _ _ sample_fits(1)])
      (auto split: if_splits)
  then obtain db where db: "conc_reach calm_env ?D (committed after_ingest) (db, \<lambda>_. None)"
      "abs_db db = verdict_effect 0 sample_outcome (abs_db (committed after_ingest))" by auto
  have "link_ok (abs_db (fst (db, (\<lambda>_. None) :: nat \<Rightarrow> tx option)))"
    by (rule overlap_link [OF db(1) stored_order(1,2)]) simp
  with db show ?thesis by (intro exI [of _ db]) simp
qed

end
