(* ===== verification/CoreConcSerial.thy ===== *)
theory CoreConcSerial
  imports CoreConcTheorems
begin

text \<open>
  order-core-service: the runs of overlapping handlers with their history, and how far the handlers are
  serializable. A history is the list of the steps made, the oldest first, each with the state before
  and the state after it.
\<close>

section \<open>Runs\<close>

inductive conc_run :: "pg_env \<Rightarrow> (core_call \<Rightarrow> bool) \<Rightarrow> database \<Rightarrow> (conc \<times> conc) list \<Rightarrow> conc \<Rightarrow> bool"
  for E delivered db0 where
  start: "conc_run E delivered db0 [] (db0, \<lambda>_. None)"
| step: "conc_run E delivered db0 es p \<Longrightarrow> conc_step E delivered p q \<Longrightarrow> conc_run E delivered db0 (es @ [(p, q)]) q"

lemma run_reach: "conc_run E delivered db0 es p \<Longrightarrow> conc_reach E delivered db0 p"
  by (induction rule: conc_run.induct) (auto intro: conc_reach.intros)

lemma reach_run: "conc_reach E delivered db0 p \<Longrightarrow> \<exists>es. conc_run E delivered db0 es p"
  by (induction rule: conc_reach.induct) (blast intro: conc_run.intros)+

text \<open>The step in which the i-th transaction looked up the order of its verdict.\<close>

definition looked_up :: "nat \<Rightarrow> int \<Rightarrow> assessment_outcome \<Rightarrow> conc \<times> conc \<Rightarrow> bool" where
  "looked_up i th out e \<longleftrightarrow> (\<exists>t u. snd (fst e) i = Some t \<and> tx_call t = Process th out \<and> tx_prog t = process_prog th out \<and>
     snd (snd e) i = Some u \<and> tx_call u = Process th out \<and> tx_prog u \<noteq> process_prog th out)"

text \<open>A step in which another transaction commits a verdict of its own for that order, the first one.\<close>

definition overtaken :: "nat \<Rightarrow> assessment_outcome \<Rightarrow> conc \<times> conc \<Rightarrow> bool" where
  "overtaken i out e \<longleftrightarrow> (\<exists>j u th' out'. j \<noteq> i \<and> snd (fst e) j = Some u \<and> tx_call u = Process th' out' \<and>
     ao_order_id out' = ao_order_id out \<and> tx_prog u = Commit (Finish (Inr ())) \<and> fst (snd e) = view (fst (fst e)) u \<and>
     \<not> decided (abs_db (fst (fst e))) out \<and> decided (abs_db (fst (snd e))) out)"

section \<open>What one step can change\<close>

lemma ingest_undecided:
  assumes "\<not> decided a out"
  shows "\<not> decided (fold spec_ingest batch a) out"
proof
  assume "decided (fold spec_ingest batch a) out"
  then obtain st sc where d: "fst (fold spec_ingest batch a) (profi_key (ao_order_id out)) = Some (st, sc)"
      "st \<noteq> status_value ASSESS_REQUESTED"
    by (auto simp: decided_def)
  show False
  proof (cases "fst a (profi_key (ao_order_id out))")
    case None
    from fold_spec_ingest_new [OF None d(1)] d(2) show False by simp
  next
    case (Some v)
    then have "fst a (profi_key (ao_order_id out)) = Some (st, sc)"
      using fold_spec_ingest_keeps [of a "profi_key (ao_order_id out)" batch] d(1) by simp
    with d(2) assms show False by (auto simp: decided_def)
  qed
qed

lemma verdict_undecided:
  "\<not> decided a out \<Longrightarrow> decided (verdict_effect th out' a) out \<Longrightarrow> ao_order_id out' = ao_order_id out"
  by (cases a) (auto simp: decided_def verdict_effect_def Let_def profi_key_def split: if_splits)

lemma newly_decided:
  assumes "conc_step E delivered p q" and "conc_inv delivered p"
    and "\<not> decided (abs_db (fst p)) out" and "decided (abs_db (fst q)) out"
  obtains j u th' out' where "snd p j = Some u" and "tx_call u = Process th' out'" and "ao_order_id out' = ao_order_id out"
    and "tx_prog u = Commit (Finish (Inr ()))" and "fst q = view (fst p) u"
    and "\<And>t. snd q j = Some t \<Longrightarrow> tx_prog t = Finish (Inr ())"
  using assms(1)
proof cases
  case (commit_tx T i t c db)
  then have inv: "conc_inv delivered (db, T)" using assms(2) by simp
  note eff = commit_effect [OF conc_invD(4) [OF inv commit_tx(3)] conc_invD(5) [OF inv commit_tx(3)] commit_tx(4)]
  have undecided: "\<not> decided (abs_db db) out" "decided (abs_db (view db t)) out" using assms(3,4) commit_tx by simp_all
  obtain th' out' where call: "tx_call t = Process th' out'"
    using eff undecided ingest_undecided [of "abs_db db" out] by (cases "tx_call t") auto
  then have "ao_order_id out' = ao_order_id out"
    using eff undecided verdict_undecided [of "abs_db db" out th' out'] by auto
  with call eff commit_tx show ?thesis using that [of i t th' out'] by simp
next
  case (relay_tx ids now db u db' T)
  then show ?thesis using assms(3,4) mark_stmt_abs(1) by simp
qed (use assms(3,4) in simp_all)

text \<open>Looking up an order that is decided leads to a commit of nothing; any other lookup leads to a write or an error.\<close>

lemma get_decided:
  assumes "tx_ok db t" and "tx_prog t = Get_order src ext k" and "rows_ok db"
    and "select_order_stmt src ext now (view db t) = Inr (row, v)" and "decode_row row = Inr r"
    and "tx_call t = Process th out"
  shows "if decided (abs_db db) out then settle (k r) = Commit (Finish (Inr ())) else \<forall>c. settle (k r) \<noteq> Commit c"
  using assms(1)
proof cases
  case (looks_up th' out')
  from looks_up(1) assms(6) have same: "th' = th" "out' = out" by simp_all
  from looks_up(2) assms(2) have k: "src = PROFI" "ext = ao_order_id out"
      "k = (\<lambda>ord. case ord of
         None \<Rightarrow> Finish (Inl (unknown_order (ao_order_id out)))
       | Some o' \<Rightarrow>
           if \<not> can_apply_assessment (do_status o')
           then Say INFO ''assessment_ignored''
               [(lit ''external_id'', JStr (ao_order_id out)),
                (lit ''status'', JStr (status_value (do_status o')))] (Commit (Finish (Inr ())))
           else verdict_prog th out)"
    by (simp_all add: process_prog_def same)
  have sel: "select_order_stmt PROFI (ao_order_id out) now db = Inr (row, v)"
    using assms(4) by (simp add: idle_view [OF looks_up(3)] k)
  note found = select_order_stmt_Inr [OF sel assms(3), folded profi_key_def]
  show ?thesis
  proof (cases row)
    case None
    then have "r = None" using assms(5) by (simp add: decode_row_def)
    moreover have "\<not> decided (abs_db db) out" using found(2) None by (simp add: decided_def abs_db_def)
    ultimately show ?thesis by (simp add: k)
  next
    case (Some ro)
    have "\<exists>o'. r = Some o' \<and> status_of (or_status ro) = Inr (do_status o')"
      using assms(5) Some by (auto simp: decode_row_def split: sum.splits)
    then obtain o' where o': "r = Some o'" "status_of (or_status ro) = Inr (do_status o')" by blast
    have "decided (abs_db db) out \<longleftrightarrow> or_status ro \<noteq> status_value ASSESS_REQUESTED"
      using found(3) [OF Some] by (simp add: decided_def abs_db_def)
    also have "\<dots> \<longleftrightarrow> \<not> can_apply_assessment (do_status o')"
      using o'(2) by (auto simp: can_apply_assessment_def status_of_def status_value.simps split: if_splits)
    finally show ?thesis by (simp add: k o'(1) verdict_prog_def Let_def)
  qed
qed (use assms(2) in \<open>simp_all add: other_prog\<close>)

lemma set_found:
  assumes "tx_ok db t" and "tx_prog t = Set_status src ext st sc k"
    and "update_status_stmt src ext st sc now (view db t) = Inr (b, v)"
  shows b
  using assms(1)
proof cases
  case (found th out)
  then have "(source_value src, ext) = profi_key (ao_order_id out)"
    using assms(2) by (simp add: verdict_prog_def Let_def profi_key_def split: if_splits)
  moreover have "profi_key (ao_order_id out) \<in> set (map order_key (orders_t db))"
    using found(4) unfolding dom_abs_orders [symmetric] by blast
  ultimately show ?thesis using view_set(2) [OF assms(3)] by simp
qed (use assms(2) in \<open>simp_all add: other_prog\<close>)

text \<open>Past the lookup a transaction stays past it, and one that found the order decided has nothing to write.\<close>

definition past :: "int \<Rightarrow> assessment_outcome \<Rightarrow> tx \<Rightarrow> bool" where
  "past th out t \<longleftrightarrow> tx_call t = Process th out \<and> tx_prog t \<noteq> process_prog th out"

definition harmless :: "tx \<Rightarrow> bool" where
  "harmless t \<longleftrightarrow> idle_tx t \<and> (tx_prog t = Commit (Finish (Inr ())) \<or> (\<exists>r. tx_prog t = Finish r))"

definition writes :: "tx \<Rightarrow> bool" where
  "writes t \<longleftrightarrow> (\<forall>c. tx_prog t = Commit c \<longrightarrow> tx_sets t \<noteq> [])"

lemma step_past:
  assumes "conc_step E delivered p q" and "conc_inv delivered p" and "snd q i = Some t" and "past th out t"
  obtains (lookup) "looked_up i th out (p, q)" and "fst q = fst p" and "if decided (abs_db (fst p)) out then harmless t else writes t"
    | (later) t0 where "snd p i = Some t0" and "past th out t0" and "harmless t0 \<Longrightarrow> harmless t" and "writes t0 \<Longrightarrow> writes t"
        and "\<And>r. tx_prog t0 = Finish r \<Longrightarrow> tx_prog t = Finish r"
proof -
  have other: thesis if "snd p i = Some t" using later [OF that assms(4)] by simp
  have busy: thesis if "snd p i = Some t0" "tx_call t0 = tx_call t" "\<And>r. tx_prog t0 \<noteq> Finish r" "\<And>c. tx_prog t0 \<noteq> Commit c"
      "tx_prog t0 \<noteq> process_prog th out" "writes t" for t0
    by (rule later [OF that(1)]) (use that assms(4) in \<open>simp_all add: past_def harmless_def\<close>)
  note t = assms(4) [unfolded past_def]
  from assms(1) show thesis
  proof cases
    case (begin_tx T j call db)
    show thesis
    proof (cases "j = i")
      case True
      then have "t = open_tx call" using begin_tx assms(3) by simp
      then show thesis using t by (auto simp: open_tx_def)
    qed (use other begin_tx assms(3) in simp)
  next
    case (insert_tx T j u ord k uid now db b v)
    show thesis
    proof (cases "j = i")
      case True
      with insert_tx assms(3) t have u: "tx_call u = Process th out" by auto
      have "tx_ok db u" using insert_tx assms(2) conc_invD(5) [of delivered db T] by simp
      then show thesis by (cases rule: tx_ok.cases) (use insert_tx u in \<open>simp_all add: other_prog\<close>)
    qed (use other insert_tx assms(3) in simp)
  next
    case (set_tx T j u src ext st sc k now db b v)
    show thesis
    proof (cases "j = i")
      case True
      have "tx_ok db u" using set_tx assms(2) conc_invD(5) [of delivered db T] by simp
      from set_found [OF this set_tx(4,6)] have "writes t" using set_tx True assms(3) by (auto simp: writes_def)
      then show thesis using set_tx True assms(3) by (intro busy [of u]) (auto simp: process_prog_def)
    qed (use other set_tx assms(3) in simp)
  next
    case (request_tx T j u ord c key uid now db x v)
    show thesis
    proof (cases "j = i")
      case True
      with request_tx assms(3) t have u: "tx_call u = Process th out" by auto
      have "tx_ok db u" using request_tx assms(2) conc_invD(5) [of delivered db T] by simp
      then show thesis by (cases rule: tx_ok.cases) (use request_tx u in \<open>simp_all add: other_prog\<close>)
    qed (use other request_tx assms(3) in simp)
  next
    case (notify_tx T j u src ext n c key uid now db x v)
    show thesis
    proof (cases "j = i")
      case True
      have "tx_ok db u" using notify_tx assms(2) conc_invD(5) [of delivered db T] by simp
      then have "tx_sets u \<noteq> []" by (cases rule: tx_ok.cases) (use notify_tx in \<open>simp_all add: other_prog\<close>)
      then have "writes t" using notify_tx True assms(3) by (auto simp: writes_def)
      then show thesis using notify_tx True assms(3) by (intro busy [of u]) (auto simp: process_prog_def)
    qed (use other notify_tx assms(3) in simp)
  next
    case (get_tx T j u src ext k now db row v r)
    then have inv: "conc_inv delivered (db, T)" using assms(2) by simp
    show thesis
    proof (cases "j = i")
      case True
      then have q: "t = u\<lparr>tx_prog := settle (k r)\<rparr>" "tx_call u = Process th out" using get_tx assms(3) t by auto
      note ok = conc_invD(5) [OF inv get_tx(3)]
      from ok have prog: "idle_tx u \<and> tx_prog u = process_prog th out"
        by (cases rule: tx_ok.cases) (use get_tx(4) q(2) in \<open>simp_all add: other_prog\<close>)
      show thesis
      proof (rule lookup)
        show "looked_up i th out (p, q)"
          using get_tx True prog q t assms(3) by (auto simp: looked_up_def)
        show "fst q = fst p" using get_tx by simp
        show "if decided (abs_db (fst p)) out then harmless t else writes t"
          using get_decided [OF ok get_tx(4) conc_invD(2) [OF inv] get_tx(5,6) q(2)] get_tx(1) q(1) prog
          by (auto simp: harmless_def writes_def idle_tx_def split: if_splits)
      qed
    qed (use other get_tx assms(3) in simp)
  next
    case (commit_tx T j u c db)
    show thesis
    proof (cases "j = i")
      case True
      show thesis
      proof (rule later)
        show "snd p i = Some u" using commit_tx True by simp
        show "past th out u" using commit_tx True assms(3) t by (auto simp: past_def process_prog_def)
        show "harmless u \<Longrightarrow> harmless t" using commit_tx True assms(3) by (auto simp: harmless_def idle_tx_def)
        have inv: "conc_inv delivered (db, T)" using commit_tx assms(2) by simp
        note eff = commit_effect [OF conc_invD(4) [OF inv commit_tx(3)] conc_invD(5) [OF inv commit_tx(3)] commit_tx(4)]
        then show "writes u \<Longrightarrow> writes t" using commit_tx True assms(3) by (auto simp: writes_def)
        show "tx_prog u = Finish r \<Longrightarrow> tx_prog t = Finish r" for r using commit_tx by simp
      qed
    qed (use other commit_tx assms(3) in simp)
  next
    case (relay_tx ids now db x db' T)
    then show thesis using other assms(3) by simp
  next
    case (end_tx T j u db)
    then show thesis using other assms(3) by (cases "j = i") simp_all
  qed
qed

section \<open>The history of a verdict\<close>

text \<open>
  What the history of a transaction past its lookup says: it found the order decided and has nothing
  to write, or it found it undecided and commits nothing but a write, and if it is decided by now then
  by another transaction, or by its own commit.
\<close>

definition traced :: "nat \<Rightarrow> int \<Rightarrow> assessment_outcome \<Rightarrow> (conc \<times> conc) list \<Rightarrow> conc \<times> conc \<Rightarrow> (conc \<times> conc) list \<Rightarrow> bool" where
  "traced i th out es e after \<longleftrightarrow>
     (\<exists>before. es = before @ e # after) \<and> looked_up i th out e \<and> (\<forall>e' \<in> set after. snd (snd e') i \<noteq> None)"

definition history_ok :: "nat \<Rightarrow> int \<Rightarrow> assessment_outcome \<Rightarrow> (conc \<times> conc) list \<Rightarrow> database \<Rightarrow> tx \<Rightarrow> bool" where
  "history_ok i th out es db t \<longleftrightarrow> (\<exists>e after. traced i th out es e after \<and>
     (if decided (abs_db (fst (fst e))) out then harmless t
      else writes t \<and> (decided (abs_db db) out \<longrightarrow> (\<exists>r. tx_prog t = Finish r) \<or> (\<exists>e' \<in> set after. overtaken i out e'))))"

lemma history_step:
  assumes "conc_step E delivered p q" and "conc_inv delivered p" and "snd q i = Some t" and "past th out t"
    and old: "\<And>t0. snd p i = Some t0 \<Longrightarrow> past th out t0 \<Longrightarrow> history_ok i th out es (fst p) t0"
  shows "history_ok i th out (es @ [(p, q)]) (fst q) t"
proof (cases rule: step_past [OF assms(1-4)])
  case 1
  then show ?thesis unfolding history_ok_def traced_def by (intro exI [of _ "(p, q)"] exI [of _ "[]"]) auto
next
  case (2 t0)
  from old [OF 2(1,2)] obtain before e after where h: "es = before @ e # after" "looked_up i th out e"
      "\<forall>e' \<in> set after. snd (snd e') i \<noteq> None"
    and now: "if decided (abs_db (fst (fst e))) out then harmless t0
      else writes t0 \<and> (decided (abs_db (fst p)) out \<longrightarrow> (\<exists>r. tx_prog t0 = Finish r) \<or> (\<exists>e' \<in> set after. overtaken i out e'))"
    unfolding history_ok_def traced_def by blast
  let ?after = "after @ [(p, q)]"
  have trace: "traced i th out (es @ [(p, q)]) e ?after" using h assms(3) by (simp add: traced_def)
  have later: "(\<exists>r. tx_prog t = Finish r) \<or> (\<exists>e' \<in> set ?after. overtaken i out e')"
    if "\<not> decided (abs_db (fst (fst e))) out" "decided (abs_db (fst q)) out"
  proof (cases "decided (abs_db (fst p)) out")
    case True
    with now that(1) 2(5) show ?thesis by auto
  next
    case False
    from newly_decided [OF assms(1,2) False that(2)] obtain j u th' out' where j: "snd p j = Some u"
        "tx_call u = Process th' out'" "ao_order_id out' = ao_order_id out" "tx_prog u = Commit (Finish (Inr ()))"
        "fst q = view (fst p) u" "\<And>t. snd q j = Some t \<Longrightarrow> tx_prog t = Finish (Inr ())" by blast
    show ?thesis
    proof (cases "j = i")
      case True
      with j(6) assms(3) show ?thesis by blast
    next
      case False
      with j(1-5) that(2) \<open>\<not> decided (abs_db (fst p)) out\<close> have "overtaken i out (p, q)"
        unfolding overtaken_def by auto
      then show ?thesis by simp
    qed
  qed
  show ?thesis
    unfolding history_ok_def by (intro exI conjI, rule trace) (use now later 2(3,4) in auto)
qed

lemma run_history:
  assumes "conc_run E delivered db0 es p" and "rows_ok db0" and "weak_link (abs_db db0)"
    and "snd p i = Some t" and "past th out t"
  shows "history_ok i th out es (fst p) t"
  using assms(1,4,5)
proof (induction arbitrary: t rule: conc_run.induct)
  case start
  then show ?case by simp
next
  case (step es p q)
  show ?case
    by (rule history_step [OF step.hyps(2) conc_inv_reach [OF run_reach [OF step.hyps(1)] assms(2,3)] step.prems]) (rule step.IH)
qed

section \<open>Serializability\<close>

text \<open>C21. The handlers are serializable in the order of their commits, but for one case. A commit of a batch makes
  exactly the specification's step on the tables committed by then. A transaction that commits a
  verdict looked its order up in one step of the run and was open ever since. If the order was decided
  then, the commit writes nothing, as specified. Otherwise the commit makes the specification's step
  on the tables committed by then, unless in a step since the lookup another transaction was the
  first to commit a verdict for that order: then, and only then, the commit overwrites the status
  and score of a decided order.\<close>

theorem commit_serial:
  assumes "conc_run E delivered db0 es (db, T)" and "rows_ok db0" and "link_ok (abs_db db0)"
    and "T i = Some t" and "tx_prog t = Commit p"
  shows "p = Finish (Inr ()) \<and> delivered (tx_call t) \<and> (case tx_call t of
      Ingest batch \<Rightarrow> abs_db (view db t) = fold spec_ingest batch (abs_db db)
    | Process th out \<Rightarrow> \<exists>before e after. es = before @ e # after \<and> looked_up i th out e \<and>
        (\<forall>e' \<in> set after. snd (snd e') i \<noteq> None) \<and>
        (if decided (abs_db (fst (fst e))) out
         then view db t = db \<and> spec_process th out (abs_db db) = Some (abs_db db)
         else if \<exists>e' \<in> set after. overtaken i out e'
         then abs_db (view db t) = verdict_effect th out (abs_db db)
         else spec_process th out (abs_db db) = Some (abs_db (view db t))))"
proof -
  have weak: "weak_link (abs_db db0)" by (rule link_ok_weak_link [OF assms(3)])
  note inv = conc_invD [OF conc_inv_reach [OF run_reach [OF assms(1)] assms(2) weak]]
  note eff = commit_effect [OF inv(4) [OF assms(4)] inv(5) [OF assms(4)] assms(5)]
  show ?thesis
  proof (cases "tx_call t")
    case (Ingest batch)
    then show ?thesis using eff inv(6) [OF assms(4)] by simp
  next
    case (Process th out)
    have "past th out t" using Process assms(5) by (simp add: past_def process_prog_def)
    then have "history_ok i th out es db t" using run_history [OF assms(1,2) weak, of i t] assms(4) by simp
    then obtain before e after where h: "es = before @ e # after" "looked_up i th out e"
        "\<forall>e' \<in> set after. snd (snd e') i \<noteq> None"
      and now: "if decided (abs_db (fst (fst e))) out then harmless t
        else writes t \<and> (decided (abs_db db) out \<longrightarrow> (\<exists>r. tx_prog t = Finish r) \<or> (\<exists>e' \<in> set after. overtaken i out e'))"
      unfolding history_ok_def traced_def by blast
    have commit: "(view db t = db \<and> decided (abs_db db) out) \<or>
        (known_order db out \<and> abs_db (view db t) = verdict_effect th out (abs_db db))"
      using eff Process by simp
    have spec: "spec_process th out (abs_db db) = Some (abs_db (view db t))" if "\<not> decided (abs_db db) out"
    proof -
      from commit that have c: "known_order db out" "abs_db (view db t) = verdict_effect th out (abs_db db)" by auto
      then obtain st sc where "abs_orders db (profi_key (ao_order_id out)) = Some (st, sc)"
        by (cases "abs_orders db (profi_key (ao_order_id out))") auto
      with that have "fst (abs_db db) (profi_key (ao_order_id out)) = Some (status_value ASSESS_REQUESTED, sc)"
        by (auto simp: decided_def abs_db_def)
      from verdict_effect_spec [OF this] c(2) show ?thesis by simp
    qed
    have "if decided (abs_db (fst (fst e))) out
         then view db t = db \<and> spec_process th out (abs_db db) = Some (abs_db db)
         else if \<exists>e' \<in> set after. overtaken i out e'
         then abs_db (view db t) = verdict_effect th out (abs_db db)
         else spec_process th out (abs_db db) = Some (abs_db (view db t))"
    proof (cases "decided (abs_db (fst (fst e))) out")
      case True
      with now have idle: "idle_tx t" by (simp add: harmless_def)
      from inv(5) [OF assms(4)] have "decided (abs_db db) out"
        by (cases rule: tx_ok.cases) (use idle Process assms(5) in \<open>simp_all add: idle_tx_def other_prog process_prog_def verdict_prog_def Let_def split: if_splits\<close>)
      with True idle_view [OF idle] decided_idle [of db out th] show ?thesis by simp
    next
      case False
      with now assms(5) have "abs_db (view db t) = verdict_effect th out (abs_db db)"
        by (intro committed_verdict [OF inv(4) [OF assms(4)] inv(5) [OF assms(4)] assms(5) Process]) (auto simp: writes_def)
      with False now assms(5) spec show ?thesis by auto
    qed
    with h have "\<exists>before e after. es = before @ e # after \<and> looked_up i th out e \<and>
        (\<forall>e' \<in> set after. snd (snd e') i \<noteq> None) \<and>
        (if decided (abs_db (fst (fst e))) out
         then view db t = db \<and> spec_process th out (abs_db db) = Some (abs_db db)
         else if \<exists>e' \<in> set after. overtaken i out e'
         then abs_db (view db t) = verdict_effect th out (abs_db db)
         else spec_process th out (abs_db db) = Some (abs_db (view db t)))"
      by (intro exI [of _ before] exI [of _ e] exI [of _ after] conjI)
    with inv(6) [OF assms(4)] eff Process show ?thesis by simp
  qed
qed

theorem commit_serial_witness:
  "\<exists>es e t. conc_run calm_env (\<lambda>_. True) (committed after_ingest) es (committed after_ingest,
       [0 \<mapsto> found_tx 60 sample_outcome, Suc 0 \<mapsto> found_tx 60 later_outcome](0 \<mapsto> t)) \<and>
     tx_call t = Process 60 sample_outcome \<and> tx_sets t \<noteq> [] \<and> e \<in> set es \<and> looked_up 0 60 sample_outcome e"
proof -
  have "\<exists>t. conc_reach calm_env (\<lambda>_. True) (committed after_ingest) (committed after_ingest,
        [0 \<mapsto> found_tx 60 sample_outcome, Suc 0 \<mapsto> found_tx 60 later_outcome](0 \<mapsto> t)) \<and>
      tx_prog t = Commit (Finish (Inr ())) \<and> tx_call t = Process 60 sample_outcome \<and> tx_sets t \<noteq> []"
    by (rule reach_ready [OF sample_overlap stored_order(1) link_ok_weak_link [OF stored_order(2)] _ _ sample_fits(1)])
      (auto split: if_splits)
  then obtain t es where t: "conc_run calm_env (\<lambda>_. True) (committed after_ingest) es (committed after_ingest,
        [0 \<mapsto> found_tx 60 sample_outcome, Suc 0 \<mapsto> found_tx 60 later_outcome](0 \<mapsto> t))"
      "tx_prog t = Commit (Finish (Inr ()))" "tx_call t = Process 60 sample_outcome" "tx_sets t \<noteq> []"
    using reach_run by blast
  from commit_serial [OF t(1) stored_order(1,2) fun_upd_same t(2)] t(3)
  obtain before e after where "es = before @ e # after" "looked_up 0 60 sample_outcome e" by auto
  with t show ?thesis by (intro exI [of _ es] exI [of _ e] exI [of _ t]) simp
qed

end
