(* ===== verification/CoreRelays.thy ===== *)
theory CoreRelays
  imports CoreConcTheorems CoreDispatch
begin

text \<open>
  order-core-service: several relays at once, each with a session of its own, beside the overlapping
  handlers of CoreConcurrent. A poll is a program that pauses at every awaited call; claiming locks
  the rows it returns until the transaction ends, and skips those that other relays hold. What the
  broker was given is kept in order, and for every pass that was broken off the rows it held.
\<close>

section \<open>A poll as a program\<close>

datatype relay_prog =
    Claim nat "pending_event list \<Rightarrow> relay_prog"
  | Publish_event pending_event relay_prog
  | Mark "nat list" relay_prog
  | Relay_commit relay_prog
  | Relay_say level string fields relay_prog
  | Relayed nat

primrec run_relay :: "('z runtime_scheme) dispatch \<Rightarrow> ('z runtime_scheme) event_publisher \<Rightarrow> relay_prog \<Rightarrow>
    ('z runtime_scheme, nat) act" where
  "run_relay D pub (Claim n k) = bind_act (dp_claim_pending D n) (\<lambda>events. run_relay D pub (k events))"
| "run_relay D pub (Publish_event e p) = bind_act (pub (pe_destination e) (pe_payload e)) (\<lambda>_. run_relay D pub p)"
| "run_relay D pub (Mark ids p) = bind_act (dp_mark_published D ids) (\<lambda>_. run_relay D pub p)"
| "run_relay D pub (Relay_commit p) = bind_act (dp_commit D) (\<lambda>_. run_relay D pub p)"
| "run_relay D pub (Relay_say l ev fs p) = bind_act (log l ev fs) (\<lambda>_. run_relay D pub p)"
| "run_relay D pub (Relayed n) = ret n"

text \<open>What follows the claim: the events still to be published, then the end of the pass for all of them.\<close>

definition pass_end :: "pending_event list \<Rightarrow> relay_prog" where
  "pass_end events = Mark (map pe_id events) (Relay_commit (Relay_say INFO ''outbox_relayed''
     [(lit ''count'', JInt (int (length events)))] (Relayed (length events))))"

definition publishing :: "pending_event list \<Rightarrow> pending_event list \<Rightarrow> relay_prog" where
  "publishing todo events = foldr Publish_event todo (pass_end events)"

definition relay_pass :: "nat \<Rightarrow> relay_prog" where
  "relay_pass batch_size = Claim batch_size (\<lambda>events. if events = [] then Relayed 0 else publishing events events)"

text \<open>The program is the poll, whatever implements the ports.\<close>

lemma run_once_program: "run_once D pub batch_size = dp_scope D (run_relay D pub (relay_pass batch_size))"
proof -
  have "run_relay D pub (foldr Publish_event es p) =
      bind_act (for_each (\<lambda>e. pub (pe_destination e) (pe_payload e)) es) (\<lambda>_. run_relay D pub p)" for es p
    by (induction es) (simp_all add: bind_act_assoc)
  then have "run_relay D pub (publishing events events) =
      bind_act (for_each (\<lambda>e. pub (pe_destination e) (pe_payload e)) events) (\<lambda>_.
        bind_act (dp_mark_published D (map pe_id events)) (\<lambda>_. bind_act (dp_commit D) (\<lambda>_.
        bind_act (log INFO ''outbox_relayed'' [(lit ''count'', JInt (int (length events)))]) (\<lambda>_. ret (length events)))))"
    for events by (simp add: publishing_def pass_end_def)
  then have "run_relay D pub (if events = [] then Relayed 0 else publishing events events) =
      (if events = [] then ret 0 else
      bind_act (for_each (\<lambda>e. pub (pe_destination e) (pe_payload e)) events) (\<lambda>_.
        bind_act (dp_mark_published D (map pe_id events)) (\<lambda>_. bind_act (dp_commit D) (\<lambda>_.
        bind_act (log INFO ''outbox_relayed'' [(lit ''count'', JInt (int (length events)))]) (\<lambda>_. ret (length events))))))"
    for events by simp
  then show ?thesis by (simp add: run_once_def relay_pass_def)
qed

section \<open>Relays and handlers at once\<close>

record rtx =
  rx_prog :: relay_prog
  rx_locks :: "nat set"
  rx_marks :: "nat list"
  rx_sent :: "nat list"

primrec settle_relay :: "relay_prog \<Rightarrow> relay_prog" where
  "settle_relay (Claim n k) = Claim n k"
| "settle_relay (Publish_event e p) = Publish_event e p"
| "settle_relay (Mark ids p) = Mark ids p"
| "settle_relay (Relay_commit p) = Relay_commit p"
| "settle_relay (Relay_say l ev fs p) = settle_relay p"
| "settle_relay (Relayed n) = Relayed n"

definition open_rtx :: "nat \<Rightarrow> rtx" where
  "open_rtx batch_size = \<lparr>rx_prog = settle_relay (relay_pass batch_size), rx_locks = {}, rx_marks = [], rx_sent = []\<rparr>"

definition held_by_others :: "(nat \<Rightarrow> rtx option) \<Rightarrow> nat \<Rightarrow> nat \<Rightarrow> bool" where
  "held_by_others R i e \<longleftrightarrow> (\<exists>j x. j \<noteq> i \<and> R j = Some x \<and> e \<in> rx_locks x)"

type_synonym relays = "conc \<times> (nat \<Rightarrow> rtx option) \<times> (pending_event \<times> publisher) list \<times> nat set list"

text \<open>
  \<open>handler\<close>: a step of a handler, which leaves the rows of the outbox alone and may add some.
  \<open>refused\<close>: a publication that raises, though the message may have got through. \<open>close\<close>: the end of
  a finished pass, or the rollback of one that is broken off anywhere, which frees its rows.
\<close>

inductive relay_step :: "pg_env \<Rightarrow> (core_call \<Rightarrow> bool) \<Rightarrow> (ustr \<rightharpoonup> publisher) \<Rightarrow> relays \<Rightarrow> relays \<Rightarrow> bool"
  for E delivered route where
  handler: "conc_step E delivered (db, T) (db', T') \<Longrightarrow> outbox_t db' = outbox_t db @ new \<Longrightarrow>
    relay_step E delivered route ((db, T), R, ou, ab) ((db', T'), R, ou, ab)"
| begin_pass: "R i = None \<Longrightarrow>
    relay_step E delivered route ((db, T), R, ou, ab) ((db, T), R(i \<mapsto> open_rtx batch_size), ou, ab)"
| claim: "R i = Some x \<Longrightarrow> rx_prog x = Claim n k \<Longrightarrow> claim_stmt rank (held_by_others R i) n now db = Inr (rows, v) \<Longrightarrow>
    relay_step E delivered route ((db, T), R, ou, ab) ((db, T), R(i \<mapsto> x\<lparr>rx_prog := settle_relay (k (map to_event rows)),
      rx_locks := rx_locks x \<union> ob_id ` set rows\<rparr>), ou, ab)"
| send: "R i = Some x \<Longrightarrow> rx_prog x = Publish_event e p \<Longrightarrow> route (pe_destination e) = Some q \<Longrightarrow>
    relay_step E delivered route ((db, T), R, ou, ab) ((db, T), R(i \<mapsto> x\<lparr>rx_prog := settle_relay p,
      rx_sent := rx_sent x @ [pe_id e]\<rparr>), ou @ [(e, q)], ab)"
| refused: "R i = Some x \<Longrightarrow> rx_prog x = Publish_event e p \<Longrightarrow> route (pe_destination e) = Some q \<Longrightarrow>
    relay_step E delivered route ((db, T), R, ou, ab) ((db, T), R(i := None), ou @ [(e, q)], ab @ [rx_locks x])"
| mark: "R i = Some x \<Longrightarrow> rx_prog x = Mark ids p \<Longrightarrow>
    relay_step E delivered route ((db, T), R, ou, ab) ((db, T), R(i \<mapsto> x\<lparr>rx_prog := settle_relay p,
      rx_marks := ids\<rparr>), ou, ab)"
| commit: "R i = Some x \<Longrightarrow> rx_prog x = Relay_commit p \<Longrightarrow> mark_stmt (rx_marks x) now db = Inr (u, db') \<Longrightarrow>
    relay_step E delivered route ((db, T), R, ou, ab) ((db', T), R(i \<mapsto> x\<lparr>rx_prog := settle_relay p, rx_locks := {},
      rx_marks := [], rx_sent := []\<rparr>), ou, ab)"
| close: "R i = Some x \<Longrightarrow>
    relay_step E delivered route ((db, T), R, ou, ab) ((db, T), R(i := None), ou,
      if rx_locks x = {} then ab else ab @ [rx_locks x])"

inductive relay_reach :: "pg_env \<Rightarrow> (core_call \<Rightarrow> bool) \<Rightarrow> (ustr \<rightharpoonup> publisher) \<Rightarrow> database \<Rightarrow> relays \<Rightarrow> bool"
  for E delivered route db0 where
  start: "relay_reach E delivered route db0 ((db0, \<lambda>_. None), \<lambda>_. None, [], [])"
| step: "relay_reach E delivered route db0 p \<Longrightarrow> relay_step E delivered route p q \<Longrightarrow> relay_reach E delivered route db0 q"

inductive_cases relay_stepE: "relay_step E delivered route (c, R, ou, ab) q"

text \<open>Seen from the handlers, a pass is the commit of its marks: what holds of CoreConcurrent holds here.\<close>

lemma relay_conc:
  "relay_reach E delivered route db0 p \<Longrightarrow> conc_reach E delivered db0 (fst p)"
proof (induction rule: relay_reach.induct)
  case (step p q)
  from step(2,3) show ?case
  proof (cases rule: relay_step.cases)
    case (handler db T db' T' new R ou ab)
    with step(3) show ?thesis using conc_reach.step by fastforce
  next
    case (commit R i x p' now db u db' T ou ab)
    with step(3) show ?thesis using conc_reach.step [OF _ conc_step.relay_tx] by fastforce
  qed simp_all
qed (simp add: conc_reach.start)

section \<open>New rows are pending\<close>

lemma new_events_pending:
  "conc_reach E delivered db0 p \<Longrightarrow> snd p i = Some t \<Longrightarrow> r \<in> set (tx_events t) \<Longrightarrow> ob_status r = pending"
proof (induction arbitrary: i t r rule: conc_reach.induct)
  case (step p q)
  have new: "ob_status r = pending"
    if "insert_outbox_stmt E uid dest key payload now (view db u) = Inr (w, v)"
      and "r \<in> set (new_rows (outbox_t (view db u)) (outbox_t v))" for uid dest key payload now db u w v
    using that by (cases rule: insert_outbox_rows [OF that(1)]) (auto simp: new_rows_def)
  from step(2) show ?case
    using step(3-5)
    by (cases rule: conc_step.cases) (auto simp: open_tx_def split: if_splits dest: new)
qed simp

section \<open>How far a pass is\<close>

definition unpublished :: "database \<Rightarrow> pending_event list \<Rightarrow> bool" where
  "unpublished db events \<longleftrightarrow> (\<forall>e \<in> set events. \<exists>r \<in> set (outbox_t db). e = to_event r \<and> ob_status r = pending)"

definition sent_out :: "(ustr \<rightharpoonup> publisher) \<Rightarrow> (pending_event \<times> publisher) list \<Rightarrow> pending_event \<Rightarrow> bool" where
  "sent_out route ou e \<longleftrightarrow> (\<exists>q. (e, q) \<in> set ou \<and> route (pe_destination e) = Some q)"

inductive rtx_ok :: "(ustr \<rightharpoonup> publisher) \<Rightarrow> database \<Rightarrow> (pending_event \<times> publisher) list \<Rightarrow> rtx \<Rightarrow> bool"
  for route db ou where
  claiming: "rx_prog x = relay_pass n \<Longrightarrow> rx_locks x = {} \<Longrightarrow> rx_sent x = [] \<Longrightarrow> rtx_ok route db ou x"
| sending: "rx_prog x = publishing todo (done @ todo) \<Longrightarrow> rx_locks x = pe_id ` set (done @ todo) \<Longrightarrow>
    rx_sent x = map pe_id done \<Longrightarrow> distinct (map pe_id (done @ todo)) \<Longrightarrow> unpublished db (done @ todo) \<Longrightarrow>
    \<forall>e \<in> set done. sent_out route ou e \<Longrightarrow> rtx_ok route db ou x"
| marked: "rx_prog x = Relay_commit (Relay_say l ev fs (Relayed n)) \<Longrightarrow> rx_locks x = pe_id ` set events \<Longrightarrow>
    rx_marks x = map pe_id events \<Longrightarrow> rx_sent x = map pe_id events \<Longrightarrow> unpublished db events \<Longrightarrow>
    \<forall>e \<in> set events. sent_out route ou e \<Longrightarrow> rtx_ok route db ou x"
| relayed: "rx_prog x = Relayed n \<Longrightarrow> rx_locks x = {} \<Longrightarrow> rx_sent x = [] \<Longrightarrow> rtx_ok route db ou x"

inductive_cases rtx_okE: "rtx_ok route db ou x"

lemma publishing_simps [simp]: "publishing (e # todo) events = Publish_event e (publishing todo events)"
  "publishing [] events = pass_end events" "settle_relay (relay_pass n) = relay_pass n"
  by (simp_all add: publishing_def relay_pass_def)

lemma settle_publishing [simp]: "settle_relay (publishing todo events) = publishing todo events"
  by (cases todo) (simp_all add: pass_end_def)

lemma publishing_shape:
  "publishing todo events = Publish_event e p \<longleftrightarrow> (\<exists>rest. todo = e # rest \<and> p = publishing rest events)"
  "publishing todo events = Mark ids p \<longleftrightarrow> todo = [] \<and> pass_end events = Mark ids p"
  "publishing todo events \<noteq> Claim n k" "publishing todo events \<noteq> Relay_commit p" "publishing todo events \<noteq> Relayed n"
  by (cases todo; auto simp: pass_end_def)+

lemmas relay_shapes = publishing_shape publishing_shape(3-5) [THEN not_sym] relay_pass_def

lemma rtx_sent: "rtx_ok route db ou x \<Longrightarrow> set (rx_sent x) \<subseteq> rx_locks x"
  by (erule rtx_okE) auto

lemma unpublishedD: "unpublished db events \<Longrightarrow> k \<in> pe_id ` set events \<Longrightarrow>
    \<exists>r \<in> set (outbox_t db). ob_id r = k \<and> ob_status r = pending"
  unfolding unpublished_def by (metis (no_types) imageE to_event_sel(1))

lemma rtx_locks:
  assumes "rtx_ok route db ou x" and "k \<in> rx_locks x"
  shows "\<exists>r \<in> set (outbox_t db). ob_id r = k \<and> ob_status r = pending"
  using assms(1)
proof (cases rule: rtx_ok.cases)
  case (sending todo don)
  then show ?thesis using unpublishedD [OF sending(5)] assms(2) by metis
next
  case (marked l ev fs n events)
  then show ?thesis using unpublishedD [OF marked(5)] assms(2) by metis
qed (use assms(2) in simp_all)

text \<open>Nothing others do takes a pass back: rows are added, rows it has not locked are marked, more is sent.\<close>

lemma unpublished_keep:
  assumes "unpublished db events"
    and "\<And>r. r \<in> set (outbox_t db) \<Longrightarrow> ob_id r \<in> pe_id ` set events \<Longrightarrow> r \<in> set (outbox_t db')"
  shows "unpublished db' events"
  unfolding unpublished_def
proof
  fix e assume e: "e \<in> set events"
  with assms(1) obtain r where r: "r \<in> set (outbox_t db)" "e = to_event r" "ob_status r = pending"
    by (auto simp: unpublished_def)
  have "ob_id r \<in> pe_id ` set events" using e r(2) by force
  with assms(2) r show "\<exists>r \<in> set (outbox_t db'). e = to_event r \<and> ob_status r = pending" by blast
qed

lemma rtx_ok_keep:
  assumes "rtx_ok route db ou x"
    and "\<And>r. r \<in> set (outbox_t db) \<Longrightarrow> ob_id r \<in> rx_locks x \<Longrightarrow> r \<in> set (outbox_t db')" and "set ou \<subseteq> set ou'"
  shows "rtx_ok route db' ou' x"
proof -
  have out: "sent_out route ou e \<Longrightarrow> sent_out route ou' e" for e
    using assms(3) by (auto simp: sent_out_def)
  show ?thesis
    using assms(1)
  proof (cases rule: rtx_ok.cases)
    case (sending todo don)
    then show ?thesis using unpublished_keep [OF sending(5), of db'] assms(2) out
      by (intro rtx_ok.sending [of x todo don]) auto
  next
    case (marked l ev fs n events)
    then show ?thesis using unpublished_keep [OF marked(5), of db'] assms(2) out
      by (intro rtx_ok.marked [of x l ev fs n events]) auto
  qed (auto intro: rtx_ok.intros)
qed

section \<open>All of them\<close>

definition relays_ok :: "(ustr \<rightharpoonup> publisher) \<Rightarrow> database \<Rightarrow> (pending_event \<times> publisher) list \<Rightarrow> (nat \<Rightarrow> rtx option) \<Rightarrow> bool" where
  "relays_ok route db ou R \<longleftrightarrow> (\<forall>i x. R i = Some x \<longrightarrow> rtx_ok route db ou x) \<and>
     (\<forall>i j x y. i \<noteq> j \<longrightarrow> R i = Some x \<longrightarrow> R j = Some y \<longrightarrow> rx_locks x \<inter> rx_locks y = {})"

definition published_ids :: "database \<Rightarrow> nat set" where
  "published_ids db = {ob_id r | r. r \<in> set (outbox_t db) \<and> ob_status r = published}"

definition sent_ids :: "(nat \<Rightarrow> rtx option) \<Rightarrow> nat set" where
  "sent_ids R = {k. \<exists>i x. R i = Some x \<and> k \<in> set (rx_sent x)}"

definition times_sent :: "(pending_event \<times> publisher) list \<Rightarrow> nat \<Rightarrow> nat" where
  "times_sent ou k = length (filter (\<lambda>m. pe_id (fst m) = k) ou)"

definition broken_off :: "nat set list \<Rightarrow> nat \<Rightarrow> nat" where
  "broken_off ab k = length (filter (\<lambda>ids. k \<in> ids) ab)"

text \<open>A row was sent once for each pass that was broken off while it held it, once more when it is marked,
  and once more while a pass that has sent it is under way.\<close>

definition times_ok :: "database \<Rightarrow> (nat \<Rightarrow> rtx option) \<Rightarrow> (pending_event \<times> publisher) list \<Rightarrow> nat set list \<Rightarrow> bool" where
  "times_ok db R ou ab \<longleftrightarrow>
     (\<forall>k. times_sent ou k \<le> broken_off ab k + of_bool (k \<in> published_ids db) + of_bool (k \<in> sent_ids R))"

definition published_sent :: "(ustr \<rightharpoonup> publisher) \<Rightarrow> database \<Rightarrow> database \<Rightarrow> (pending_event \<times> publisher) list \<Rightarrow> bool" where
  "published_sent route db0 db ou \<longleftrightarrow> (\<forall>r \<in> set (outbox_t db). ob_status r = published \<longrightarrow>
     ob_id r \<in> published_ids db0 \<or> sent_out route ou (to_event r))"

lemma times_sent_snoc [simp]: "times_sent (ou @ [m]) k = times_sent ou k + of_bool (pe_id (fst m) = k)" "times_sent [] k = 0"
  by (simp_all add: times_sent_def)

lemma broken_off_snoc [simp]: "broken_off (ab @ [ids]) k = broken_off ab k + of_bool (k \<in> ids)" "broken_off [] k = 0"
  by (simp_all add: broken_off_def)

lemma relays_okD: "relays_ok route db ou R \<Longrightarrow> R i = Some x \<Longrightarrow> rtx_ok route db ou x"
  by (simp add: relays_ok_def)

lemma relays_apart: "relays_ok route db ou R \<Longrightarrow> R i = Some x \<Longrightarrow> R j = Some y \<Longrightarrow> i \<noteq> j \<Longrightarrow> rx_locks x \<inter> rx_locks y = {}"
  unfolding relays_ok_def by blast

lemma relays_ok_keep:
  assumes "relays_ok route db ou R" and "set ou \<subseteq> set ou'"
    and "\<And>i x r. R i = Some x \<Longrightarrow> r \<in> set (outbox_t db) \<Longrightarrow> ob_id r \<in> rx_locks x \<Longrightarrow> r \<in> set (outbox_t db')"
  shows "relays_ok route db' ou' R"
  using assms(1) rtx_ok_keep [OF _ _ assms(2)] assms(3) unfolding relays_ok_def by metis

lemma relays_ok_update:
  assumes "relays_ok route db ou (R(i := None))" and "rtx_ok route db ou x"
    and "\<And>j y. j \<noteq> i \<Longrightarrow> R j = Some y \<Longrightarrow> rx_locks x \<inter> rx_locks y = {}"
  shows "relays_ok route db ou (R(i \<mapsto> x))"
  unfolding relays_ok_def
proof (intro conjI allI impI)
  fix j y assume "(R(i \<mapsto> x)) j = Some y"
  then show "rtx_ok route db ou y"
    using assms(2) relays_okD [OF assms(1), of j y] by (cases "j = i") simp_all
next
  fix j l y z
  assume "j \<noteq> l" "(R(i \<mapsto> x)) j = Some y" "(R(i \<mapsto> x)) l = Some z"
  then show "rx_locks y \<inter> rx_locks z = {}"
    using assms(3) [of j y] assms(3) [of l z] relays_apart [OF assms(1), of j y l z]
    by (cases "j = i"; cases "l = i") (simp_all add: Int_commute)
qed

lemma relays_ok_end: "relays_ok route db ou R \<Longrightarrow> relays_ok route db ou (R(i := None))"
  unfolding relays_ok_def by (auto split: if_splits)

lemma sent_ids_update: "sent_ids (R(i \<mapsto> x)) = set (rx_sent x) \<union> sent_ids (R(i := None))"
  unfolding sent_ids_def by (auto split: if_splits)

lemma sent_ids_split: "R i = Some x \<Longrightarrow> sent_ids R = set (rx_sent x) \<union> sent_ids (R(i := None))"
  using sent_ids_update [of R i x] by (simp add: fun_upd_idem)

text \<open>A row is sent, or marked, only for the pass that holds it.\<close>

lemma locked_elsewhere:
  assumes "relays_ok route db ou R" and "R i = Some x" and "k \<in> rx_locks x"
  shows "k \<notin> sent_ids (R(i := None))"
proof
  assume "k \<in> sent_ids (R(i := None))"
  then obtain j y where "j \<noteq> i" "R j = Some y" "k \<in> set (rx_sent y)"
    by (auto simp: sent_ids_def split: if_splits)
  then show False
    using relays_apart [OF assms(1,2)] rtx_sent [OF relays_okD [OF assms(1)]] assms(3) by (metis disjoint_iff subsetD)
qed

lemma locked_unpublished:
  assumes "relays_ok route db ou R" and "R i = Some x" and "k \<in> rx_locks x" and "distinct (map ob_id (outbox_t db))"
  shows "k \<notin> published_ids db"
proof
  assume "k \<in> published_ids db"
  then obtain r where "r \<in> set (outbox_t db)" "ob_id r = k" "ob_status r = published"
    by (auto simp: published_ids_def)
  moreover obtain r' where "r' \<in> set (outbox_t db)" "ob_id r' = k" "ob_status r' = pending"
    using rtx_locks [OF relays_okD [OF assms(1,2)] assms(3)] by blast
  ultimately have "r = r'" using assms(4) by (auto simp: distinct_map inj_on_def)
  with \<open>ob_status r = published\<close> \<open>ob_status r' = pending\<close> show False
    by (simp add: pending_def published_def lit_def)
qed

section \<open>The steps of a pass\<close>

lemma send_rtx:
  assumes "rtx_ok route db ou x" and "rx_prog x = Publish_event e p" and "route (pe_destination e) = Some q"
  shows "rtx_ok route db (ou @ [(e, q)]) (x\<lparr>rx_prog := settle_relay p, rx_sent := rx_sent x @ [pe_id e]\<rparr>)"
    and "pe_id e \<in> rx_locks x" and "pe_id e \<notin> set (rx_sent x)"
proof -
  from assms(1,2) obtain don rest where x: "p = publishing rest (don @ e # rest)"
      "rx_locks x = pe_id ` set (don @ e # rest)" "rx_sent x = map pe_id don" "distinct (map pe_id (don @ e # rest))"
      "unpublished db (don @ e # rest)" "\<forall>e \<in> set don. sent_out route ou e"
    by (cases rule: rtx_ok.cases) (auto simp: relay_shapes)
  show "pe_id e \<in> rx_locks x" "pe_id e \<notin> set (rx_sent x)" using x(2-4) by auto
  have "\<forall>e' \<in> set (don @ [e]). sent_out route (ou @ [(e, q)]) e'"
    using x(6) assms(3) by (auto simp: sent_out_def)
  then show "rtx_ok route db (ou @ [(e, q)]) (x\<lparr>rx_prog := settle_relay p, rx_sent := rx_sent x @ [pe_id e]\<rparr>)"
    using x by (intro rtx_ok.sending [of _ rest "don @ [e]"]) simp_all
qed

lemma mark_rtx:
  assumes "rtx_ok route db ou x" and "rx_prog x = Mark ids p"
  shows "rtx_ok route db ou (x\<lparr>rx_prog := settle_relay p, rx_marks := ids\<rparr>)"
proof -
  from assms obtain events where x: "pass_end events = Mark ids p" "rx_locks x = pe_id ` set events"
      "rx_sent x = map pe_id events" "unpublished db events" "\<forall>e \<in> set events. sent_out route ou e"
    by (cases rule: rtx_ok.cases) (auto simp: relay_shapes)
  then show ?thesis by (intro rtx_ok.marked [where events = events]) (auto simp: pass_end_def)
qed

lemma claim_rtx:
  assumes "rtx_ok route db ou x" and "rx_prog x = Claim n k" and "rows_ok db"
    and "claim_stmt rank lk n now db = Inr (rows, v)"
  shows "rtx_ok route db ou (x\<lparr>rx_prog := settle_relay (k (map to_event rows)), rx_locks := rx_locks x \<union> ob_id ` set rows\<rparr>)"
    and "rx_locks x = {}" and "\<forall>r \<in> set rows. \<not> lk (ob_id r)"
proof -
  from assms(1,2) have x: "k = (\<lambda>events. if events = [] then Relayed 0 else publishing events events)"
      "rx_locks x = {}" "rx_sent x = []"
    by (cases rule: rtx_ok.cases; auto simp: relay_shapes)+
  show "rx_locks x = {}" by (rule x(2))
  note rows = claimed_rows [OF assms(3,4)]
  show "\<forall>r \<in> set rows. \<not> lk (ob_id r)"
    using assms(4) by (auto simp: claim_stmt_def dest!: in_set_takeD)
  show "rtx_ok route db ou (x\<lparr>rx_prog := settle_relay (k (map to_event rows)), rx_locks := rx_locks x \<union> ob_id ` set rows\<rparr>)"
  proof (cases "rows = []")
    case True
    then show ?thesis using x by (intro rtx_ok.relayed [of _ 0]) simp_all
  next
    case False
    have "unpublished db (map to_event rows)"
      using rows(3) by (auto simp: unpublished_def pending_rows_def)
    then show ?thesis
      using False x rows(2) by (intro rtx_ok.sending [of _ "map to_event rows" "[]"]) (auto simp: comp_def image_image)
  qed
qed

lemma commit_rtx:
  assumes "rtx_ok route db ou x" and "rx_prog x = Relay_commit p" and "distinct (map ob_id (outbox_t db))"
  shows "\<exists>n. settle_relay p = Relayed n" and "set (rx_marks x) = rx_locks x" and "set (rx_sent x) = rx_locks x"
    and "r \<in> set (outbox_t db) \<Longrightarrow> ob_id r \<in> rx_locks x \<Longrightarrow> sent_out route ou (to_event r)"
proof -
  from assms(1,2) obtain l ev fs n events where x: "p = Relay_say l ev fs (Relayed n)"
      "rx_locks x = pe_id ` set events" "rx_marks x = map pe_id events" "rx_sent x = map pe_id events"
      "unpublished db events" "\<forall>e \<in> set events. sent_out route ou e"
    by (cases rule: rtx_ok.cases) (auto simp: relay_shapes)
  then show "\<exists>n. settle_relay p = Relayed n" "set (rx_marks x) = rx_locks x" "set (rx_sent x) = rx_locks x" by simp_all
  show "sent_out route ou (to_event r)" if r: "r \<in> set (outbox_t db)" "ob_id r \<in> rx_locks x"
  proof -
    obtain e where e: "e \<in> set events" "pe_id e = ob_id r" using r(2) x(2) by auto
    then obtain r' where "r' \<in> set (outbox_t db)" "e = to_event r'" using x(5) by (auto simp: unpublished_def)
    with e(2) r(1) assms(3) have "e = to_event r" by (auto simp: distinct_map inj_on_def)
    with e(1) x(6) show ?thesis by simp
  qed
qed

section \<open>Every reachable state\<close>

definition relay_inv :: "(ustr \<rightharpoonup> publisher) \<Rightarrow> database \<Rightarrow> database \<Rightarrow> (nat \<Rightarrow> rtx option) \<Rightarrow>
    (pending_event \<times> publisher) list \<Rightarrow> nat set list \<Rightarrow> bool" where
  "relay_inv route db0 db R ou ab \<longleftrightarrow> relays_ok route db ou R \<and> times_ok db R ou ab \<and> published_sent route db0 db ou"

lemma handler_new:
  assumes "conc_reach E delivered db0 (db, T)" and "conc_step E delivered (db, T) (db', T')"
    and "outbox_t db' = outbox_t db @ new"
  shows "\<forall>r \<in> set new. ob_status r = pending"
  using assms(2)
proof (cases rule: conc_step.cases)
  case (commit_tx i t p)
  then show ?thesis using new_events_pending [OF assms(1)] assms(3) by (auto simp: view_keys(4))
next
  case (relay_tx ids now u)
  have "length (outbox_t db') = length (outbox_t db)" using mark_stmt_keeps(3) [OF relay_tx(2)] by (metis length_map)
  then show ?thesis using assms(3) by simp
qed (use assms(3) in simp_all)

lemma relay_inv_handler:
  assumes "relay_inv route db0 db R ou ab" and "outbox_t db' = outbox_t db @ new" and "\<forall>r \<in> set new. ob_status r = pending"
  shows "relay_inv route db0 db' R ou ab"
proof -
  have "ob_status r \<noteq> published" if "r \<in> set new" for r using assms(3) that by (auto simp: pending_def published_def lit_def)
  then have "published_ids db' = published_ids db" "published_sent route db0 db' ou \<longleftrightarrow> published_sent route db0 db ou"
    by (auto simp: published_ids_def published_sent_def assms(2))
  moreover have "relays_ok route db' ou R"
    by (rule relays_ok_keep) (use assms(1,2) in \<open>auto simp: relay_inv_def\<close>)
  ultimately show ?thesis using assms(1) by (simp add: relay_inv_def times_ok_def)
qed

lemma published_sent_more: "published_sent route db0 db ou \<Longrightarrow> set ou \<subseteq> set ou' \<Longrightarrow> published_sent route db0 db ou'"
  unfolding published_sent_def sent_out_def by blast

text \<open>A pass moves on: it keeps its rows, and times_sent them or not.\<close>

lemma relays_advance:
  assumes "relays_ok route db ou R" and "R i = Some x" and "set ou \<subseteq> set ou'"
    and "rtx_ok route db ou' x'" and "rx_locks x' \<subseteq> rx_locks x"
  shows "relays_ok route db ou' (R(i \<mapsto> x'))"
  by (rule relays_ok_update [OF relays_ok_end [OF relays_ok_keep [OF assms(1,3)]] assms(4)])
    (use relays_apart [OF assms(1,2)] assms(5) in blast)+

lemma relay_inv_open:
  assumes "relay_inv route db0 db R ou ab" and "R i = None \<or> (\<exists>x. R i = Some x \<and> rx_sent x = [])"
    and "rtx_ok route db ou x'" and "rx_sent x' = []" and "\<And>j y. j \<noteq> i \<Longrightarrow> R j = Some y \<Longrightarrow> rx_locks x' \<inter> rx_locks y = {}"
  shows "relay_inv route db0 db (R(i \<mapsto> x')) ou ab"
proof -
  have "sent_ids (R(i \<mapsto> x')) = sent_ids (R(i := None))" using assms(4) by (simp add: sent_ids_update)
  also have "\<dots> = sent_ids R" using assms(2) sent_ids_split [of R i] by (auto simp: fun_upd_idem)
  finally show ?thesis
    using assms(1) relays_ok_update [OF relays_ok_end assms(3,5)] by (simp add: relay_inv_def times_ok_def)
qed

lemma relay_inv_send:
  assumes "relay_inv route db0 db R ou ab" and "R i = Some x" and "rx_prog x = Publish_event e p"
    and "route (pe_destination e) = Some q"
  shows "relay_inv route db0 db (R(i \<mapsto> x\<lparr>rx_prog := settle_relay p, rx_sent := rx_sent x @ [pe_id e]\<rparr>)) (ou @ [(e, q)]) ab"
proof -
  let ?x = "x\<lparr>rx_prog := settle_relay p, rx_sent := rx_sent x @ [pe_id e]\<rparr>"
  have ok: "relays_ok route db ou R" and n: "times_ok db R ou ab" and pub: "published_sent route db0 db ou"
    using assms(1) by (simp_all add: relay_inv_def)
  note s = send_rtx [OF relays_okD [OF ok assms(2)] assms(3,4)]
  have new: "pe_id e \<notin> sent_ids R"
    using locked_elsewhere [OF ok assms(2) s(2)] s(3) by (simp add: sent_ids_split [where R = R and i = i, OF assms(2)])
  have ids: "sent_ids (R(i \<mapsto> ?x)) = insert (pe_id e) (sent_ids R)"
    by (simp add: sent_ids_update sent_ids_split [where R = R and i = i, OF assms(2)])
  have "times_ok db (R(i \<mapsto> ?x)) (ou @ [(e, q)]) ab"
    unfolding times_ok_def
  proof
    fix k
    from n [unfolded times_ok_def, rule_format, of k]
    show "times_sent (ou @ [(e, q)]) k \<le> broken_off ab k + of_bool (k \<in> published_ids db) + of_bool (k \<in> sent_ids (R(i \<mapsto> ?x)))"
      using new by (cases "k = pe_id e") (simp_all add: ids)
  qed
  moreover have "relays_ok route db (ou @ [(e, q)]) (R(i \<mapsto> ?x))"
    by (rule relays_advance [OF ok assms(2) _ s(1)]) auto
  moreover have "published_sent route db0 db (ou @ [(e, q)])" by (rule published_sent_more [OF pub]) auto
  ultimately show ?thesis by (simp add: relay_inv_def)
qed

lemma relay_inv_mark:
  assumes "relay_inv route db0 db R ou ab" and "R i = Some x" and "rx_prog x = Mark ids p"
  shows "relay_inv route db0 db (R(i \<mapsto> x\<lparr>rx_prog := settle_relay p, rx_marks := ids\<rparr>)) ou ab"
proof -
  have ok: "relays_ok route db ou R" using assms(1) by (simp add: relay_inv_def)
  have "sent_ids (R(i \<mapsto> x\<lparr>rx_prog := settle_relay p, rx_marks := ids\<rparr>)) = sent_ids R"
    by (simp add: sent_ids_update sent_ids_split [where R = R and i = i, OF assms(2)])
  then show ?thesis
    using assms(1) relays_advance [OF ok assms(2) _ mark_rtx [OF relays_okD [OF ok assms(2)] assms(3)]]
    by (simp add: relay_inv_def times_ok_def)
qed

text \<open>A pass that ends early gives its rows back, and each of them may have been sent.\<close>

lemma relay_inv_abort:
  assumes "relay_inv route db0 db R ou ab" and "R i = Some x"
    and "ou' = ou \<or> (\<exists>e q. ou' = ou @ [(e, q)] \<and> pe_id e \<in> rx_locks x \<and> pe_id e \<notin> set (rx_sent x))"
  shows "relay_inv route db0 db (R(i := None)) ou' (ab @ [rx_locks x])"
proof -
  have ok: "relays_ok route db ou R" and n: "times_ok db R ou ab" and pub: "published_sent route db0 db ou"
    using assms(1) by (simp_all add: relay_inv_def)
  have sub: "set ou \<subseteq> set ou'" using assms(3) by auto
  have "times_ok db (R(i := None)) ou' (ab @ [rx_locks x])"
    unfolding times_ok_def
  proof
    fix k
    have le: "times_sent ou k \<le> broken_off ab k + of_bool (k \<in> published_ids db) + of_bool (k \<in> set (rx_sent x) \<union> sent_ids (R(i := None)))"
      using n sent_ids_split [where R = R and i = i, OF assms(2)] unfolding times_ok_def by metis
    show "times_sent ou' k \<le> broken_off (ab @ [rx_locks x]) k + of_bool (k \<in> published_ids db) + of_bool (k \<in> sent_ids (R(i := None)))"
    proof (cases "k \<in> rx_locks x")
      case True
      then show ?thesis using le locked_elsewhere [OF ok assms(2) True] assms(3)
        by (auto simp: of_bool_def split: if_splits)
    next
      case False
      then have "k \<notin> set (rx_sent x)" using rtx_sent [OF relays_okD [OF ok assms(2)]] by blast
      moreover have "times_sent ou' k = times_sent ou k" using assms(3) False by auto
      ultimately show ?thesis using le False by simp
    qed
  qed
  then show ?thesis
    using relays_ok_end [OF relays_ok_keep [OF ok sub]] published_sent_more [OF pub sub] by (simp add: relay_inv_def)
qed

lemma image_Collect_image: "g ` {r \<in> f ` S. P r} = (\<lambda>r. g (f r)) ` {r \<in> S. P (f r)}"
  by auto

lemma published_ids_image: "published_ids db = ob_id ` {r \<in> set (outbox_t db). ob_status r = published}"
  by (auto simp: published_ids_def)

lemma relay_inv_commit:
  assumes "relay_inv route db0 db R ou ab" and "R i = Some x" and "rx_prog x = Relay_commit p"
    and "mark_stmt (rx_marks x) now db = Inr (u, db')" and "distinct (map ob_id (outbox_t db))"
  shows "relay_inv route db0 db' (R(i \<mapsto> x\<lparr>rx_prog := settle_relay p, rx_locks := {}, rx_marks := [], rx_sent := []\<rparr>)) ou ab"
proof -
  let ?x = "x\<lparr>rx_prog := settle_relay p, rx_locks := {}, rx_marks := [], rx_sent := []\<rparr>"
  have ok: "relays_ok route db ou R" and n: "times_ok db R ou ab" and pub: "published_sent route db0 db ou"
    using assms(1) by (simp_all add: relay_inv_def)
  note c = commit_rtx [OF relays_okD [OF ok assms(2)] assms(3,5)]
  have rows: "outbox_t db' = map (\<lambda>r. if ob_id r \<in> rx_locks x
      then r\<lparr>ob_status := published, ob_published_at := Some now\<rparr> else r) (outbox_t db)"
    using assms(4) c(2) by (auto simp: mark_stmt_def)
  have keep: "r \<in> set (outbox_t db')" if "r \<in> set (outbox_t db)" "ob_id r \<notin> rx_locks x" for r
    using that by (force simp: rows)
  have "relays_ok route db' ou (R(i := None))"
    by (rule relays_ok_keep [OF relays_ok_end [OF ok] order_refl])
      (use relays_apart [OF ok assms(2)] keep in \<open>auto split: if_splits\<close>)
  moreover have "rtx_ok route db' ou ?x" using c(1) by (auto intro: rtx_ok.relayed)
  ultimately have relays: "relays_ok route db' ou (R(i \<mapsto> ?x))" by (rule relays_ok_update) simp
  have "published_sent route db0 db' ou"
    using pub c(4) by (auto simp: published_sent_def rows to_event_def)
  moreover have "times_ok db' (R(i \<mapsto> ?x)) ou ab"
  proof -
    have ids: "published_ids db' = published_ids db \<union> rx_locks x"
    proof -
      have "rx_locks x \<subseteq> ob_id ` set (outbox_t db)"
        using rtx_locks [OF relays_okD [OF ok assms(2)]] by blast
      moreover have "published_ids db' = ob_id ` {r \<in> set (outbox_t db). ob_status r = published \<or> ob_id r \<in> rx_locks x}"
        unfolding published_ids_image rows set_map image_Collect_image by (rule image_cong) auto
      ultimately show ?thesis by (auto simp: published_ids_image [of db])
    qed
    show ?thesis unfolding times_ok_def
    proof
      fix k
      have "times_sent ou k \<le> broken_off ab k + of_bool (k \<in> published_ids db) + of_bool (k \<in> rx_locks x \<union> sent_ids (R(i := None)))"
        using n sent_ids_split [where R = R and i = i, OF assms(2)] c(3) unfolding times_ok_def by metis
      then show "times_sent ou k \<le> broken_off ab k + of_bool (k \<in> published_ids db') + of_bool (k \<in> sent_ids (R(i \<mapsto> ?x)))"
        using locked_elsewhere [OF ok assms(2), of k] locked_unpublished [OF ok assms(2) _ assms(5), of k]
        by (auto simp: ids sent_ids_update of_bool_def split: if_splits)
    qed
  qed
  ultimately show ?thesis using relays by (simp add: relay_inv_def)
qed

lemma relay_inv_step:
  assumes "relay_step E delivered route ((db, T), R, ou, ab) ((db', T'), R', ou', ab')"
    and "relay_inv route db0 db R ou ab" and "conc_reach E delivered db0 (db, T)" and "rows_ok db"
  shows "relay_inv route db0 db' R' ou' ab'"
proof -
  have ids: "distinct (map ob_id (outbox_t db))" using assms(4) by (simp add: rows_ok_def)
  have ok: "relays_ok route db ou R" using assms(2) by (simp add: relay_inv_def)
  from assms(1) show ?thesis
  proof (cases rule: relay_step.cases)
    case (handler new)
    then show ?thesis using relay_inv_handler [OF assms(2) handler(5) handler_new [OF assms(3) handler(4,5)]] by simp
  next
    case (begin_pass i batch_size)
    have "relay_inv route db0 db (R(i \<mapsto> open_rtx batch_size)) ou ab"
      by (rule relay_inv_open [OF assms(2)])
        (use begin_pass in \<open>auto simp: open_rtx_def intro: rtx_ok.claiming [of _ batch_size]\<close>)
    then show ?thesis using begin_pass by simp
  next
    case (claim i x n k rank now rows v)
    note c = claim_rtx [OF relays_okD [OF ok claim(6)] claim(7) assms(4) claim(8)]
    have "rx_sent x = []" using rtx_sent [OF relays_okD [OF ok claim(6)]] c(2) by simp
    then have "relay_inv route db0 db (R(i \<mapsto> x\<lparr>rx_prog := settle_relay (k (map to_event rows)),
        rx_locks := rx_locks x \<union> ob_id ` set rows\<rparr>)) ou ab"
      by (intro relay_inv_open [OF assms(2) _ c(1)]) (use claim(6) c(2,3) in \<open>auto simp: held_by_others_def\<close>)
    then show ?thesis using claim by simp
  next
    case (send i x e p q)
    then show ?thesis using relay_inv_send [OF assms(2), of i x e p q] by simp
  next
    case (refused i x e p q)
    then show ?thesis
      using relay_inv_abort [OF assms(2), of i x "ou @ [(e, q)]"] send_rtx(2,3) [OF relays_okD [OF ok], of i x e p q] by auto
  next
    case (mark i x ids p)
    then show ?thesis using relay_inv_mark [OF assms(2), of i x ids p] by simp
  next
    case (commit i x p now u)
    then show ?thesis using relay_inv_commit [OF assms(2) _ _ _ ids, of i x p now u db'] by simp
  next
    case (close i x)
    show ?thesis
    proof (cases "rx_locks x = {}")
      case True
      then have "sent_ids (R(i := None)) = sent_ids R"
        using rtx_sent [OF relays_okD [OF ok, of i x]] close sent_ids_split [of R i x] by simp
      then show ?thesis using assms(2) close True relays_ok_end [OF ok] by (simp add: relay_inv_def times_ok_def)
    next
      case False
      then show ?thesis using relay_inv_abort [OF assms(2), of i x ou] close by simp
    qed
  qed
qed

lemma relay_inv_reach:
  assumes "relay_reach E delivered route db0 p" and "rows_ok db0" and "weak_link (abs_db db0)"
  shows "case p of ((db, T), R, ou, ab) \<Rightarrow> relay_inv route db0 db R ou ab"
  using assms(1)
proof induction
  case start
  show ?case by (auto simp: relay_inv_def relays_ok_def times_ok_def published_sent_def published_ids_def)
next
  case (step p q)
  obtain db T R ou ab db' T' R' ou' ab' where pq: "p = ((db, T), R, ou, ab)" "q = ((db', T'), R', ou', ab')"
    by (metis prod.exhaust)
  have conc: "conc_reach E delivered db0 (db, T)" using relay_conc [OF step(1)] pq(1) by simp
  from step(2,3) relay_inv_step [OF _ _ conc conc_invD(2) [OF conc_inv_reach [OF conc assms(2,3)]]]
  show ?case unfolding pq by simp
qed

section \<open>No event lost, and none repeated without a cause\<close>

text \<open>C17. Any number of relays may poll at once, beside the handlers and in any interleaving: no two passes
  hold a row together; every row marked as published was given to the publisher its destination names;
  and a row is sent more than once only if passes that held it were broken off, at most once for each
  of them and once more.\<close>

theorem relays_send_once:
  assumes "relay_reach E delivered route db0 ((db, T), R, ou, ab)" and "rows_ok db0" and "link_ok (abs_db db0)"
  shows "(\<forall>i j x y. i \<noteq> j \<longrightarrow> R i = Some x \<longrightarrow> R j = Some y \<longrightarrow> rx_locks x \<inter> rx_locks y = {}) \<and>
    (\<forall>r \<in> set (outbox_t db). ob_status r = published \<longrightarrow> ob_id r \<in> published_ids db0 \<or>
      (\<exists>q. (to_event r, q) \<in> set ou \<and> route (ob_destination r) = Some q)) \<and>
    (\<forall>k. times_sent ou k \<le> Suc (broken_off ab k))"
proof (intro conjI)
  note weak = link_ok_weak_link [OF assms(3)]
  have inv: "relay_inv route db0 db R ou ab" using relay_inv_reach [OF assms(1,2) weak] by simp
  then have ok: "relays_ok route db ou R" and n: "times_ok db R ou ab" by (simp_all add: relay_inv_def)
  show "\<forall>i j x y. i \<noteq> j \<longrightarrow> R i = Some x \<longrightarrow> R j = Some y \<longrightarrow> rx_locks x \<inter> rx_locks y = {}"
    using ok unfolding relays_ok_def by (rule conjunct2)
  show "\<forall>r \<in> set (outbox_t db). ob_status r = published \<longrightarrow> ob_id r \<in> published_ids db0 \<or>
      (\<exists>q. (to_event r, q) \<in> set ou \<and> route (ob_destination r) = Some q)"
    using inv by (simp add: relay_inv_def published_sent_def sent_out_def)
  have "conc_reach E delivered db0 (db, T)" using relay_conc [OF assms(1)] by simp
  from conc_invD(2) [OF conc_inv_reach [OF this assms(2) weak]]
  have ids: "distinct (map ob_id (outbox_t db))" by (simp add: rows_ok_def)
  show "\<forall>k. times_sent ou k \<le> Suc (broken_off ab k)"
  proof
    fix k
    have "k \<notin> published_ids db \<or> k \<notin> sent_ids R"
      using locked_unpublished [OF ok _ _ ids] rtx_sent [OF relays_okD [OF ok]] unfolding sent_ids_def by blast
    then show "times_sent ou k \<le> Suc (broken_off ab k)"
      using n [unfolded times_ok_def, rule_format, of k] by (auto simp: of_bool_def split: if_splits)
  qed
qed

text \<open>An example: one pass times_sent the event of \<open>after_ingest\<close> and marks it.\<close>

lemma one_row:
  obtains r where "outbox_t (committed after_ingest) = [r]" and "ob_id r = 1" and "ob_status r = pending"
    and "ob_destination r = destination_value ASSESS_REQUEST"
proof -
  have "\<exists>r. outbox_t (committed after_ingest) = [r] \<and> ob_id r = 1 \<and> ob_status r = pending \<and>
      ob_destination r = destination_value ASSESS_REQUEST"
    unfolding after_ingest_def
    by (simp add: handler_defs stmt_defs assess_key_def lit_def destination_value.simps status_value.simps
        source_value.simps calm_env_def core_start_def sample_order_def empty_db_def)
  then show ?thesis using that by blast
qed

lemma pass_reach:
  assumes "outbox_t db0 = [r]" and "ob_status r = pending" and "route (ob_destination r) = Some q"
  shows "\<exists>db R. relay_reach E delivered route db0 ((db, \<lambda>_. None), R, [(to_event r, q)], []) \<and>
    outbox_t db = [r\<lparr>ob_status := published, ob_published_at := Some 0\<rparr>]"
proof -
  let ?e = "to_event r"
  let ?at = "\<lambda>db x ou. relay_reach E delivered route db0 ((db, \<lambda>_. None), [0 \<mapsto> x], ou, [])"
  let ?x1 = "\<lparr>rx_prog = publishing [?e] [?e], rx_locks = {ob_id r}, rx_marks = [], rx_sent = []\<rparr>"
  let ?x2 = "?x1\<lparr>rx_prog := pass_end [?e], rx_sent := [ob_id r]\<rparr>"
  let ?x3 = "?x2\<lparr>rx_prog := settle_relay (Relay_commit (Relay_say INFO ''outbox_relayed'' [(lit ''count'', JInt 1)] (Relayed 1))),
    rx_marks := [ob_id r]\<rparr>"
  have "?at db0 (open_rtx 10) []" by (rule relay_reach.step [OF relay_reach.start]) (rule relay_step.begin_pass, simp)
  then have "?at db0 ?x1 []"
  proof (rule relay_reach.step)
    have "claim_stmt (\<lambda>_. 0) (held_by_others [0 \<mapsto> open_rtx 10] 0) 10 0 db0 = Inr ([r], db0)"
      using assms(1,2) by (simp add: claim_stmt_def held_by_others_def)
    then have "relay_step E delivered route ((db0, \<lambda>_. None), [0 \<mapsto> open_rtx 10], [], [])
        ((db0, \<lambda>_. None), [0 \<mapsto> open_rtx 10, 0 \<mapsto> (open_rtx 10)\<lparr>rx_prog := settle_relay
          ((\<lambda>events. if events = [] then Relayed 0 else publishing events events) (map to_event [r])),
          rx_locks := rx_locks (open_rtx 10) \<union> ob_id ` set [r]\<rparr>], [], [])"
      by (rule relay_step.claim [rotated 2]) (simp_all add: open_rtx_def relay_pass_def)
    then show "relay_step E delivered route ((db0, \<lambda>_. None), [0 \<mapsto> open_rtx 10], [], []) ((db0, \<lambda>_. None), [0 \<mapsto> ?x1], [], [])"
      by (simp add: open_rtx_def)
  qed
  then have "?at db0 ?x2 [(?e, q)]"
    by (rule relay_reach.step) (use relay_step.send [where R = "[0 \<mapsto> ?x1]" and i = 0 and x = ?x1 and e = ?e and q = q and ou = "[]" and p = "pass_end [?e]"] assms(3) in \<open>simp add: pass_end_def\<close>)
  then have "?at db0 ?x3 [(?e, q)]"
    by (rule relay_reach.step) (use relay_step.mark [of "[0 \<mapsto> ?x2]" 0 ?x2] in \<open>simp add: pass_end_def\<close>)
  moreover have "relay_step E delivered route ((db0, \<lambda>_. None), [0 \<mapsto> ?x3], [(?e, q)], [])
      ((db0\<lparr>outbox_t := [r\<lparr>ob_status := published, ob_published_at := Some 0\<rparr>]\<rparr>, \<lambda>_. None),
       [0 \<mapsto> ?x3, 0 \<mapsto> ?x3\<lparr>rx_prog := settle_relay (Relay_say INFO ''outbox_relayed'' [(lit ''count'', JInt 1)] (Relayed 1)),
         rx_locks := {}, rx_marks := [], rx_sent := []\<rparr>], [(?e, q)], [])"
    by (rule relay_step.commit [where now = 0 and u = "()"]) (simp_all add: mark_stmt_def assms(1))
  ultimately have "\<exists>R. relay_reach E delivered route db0
      ((db0\<lparr>outbox_t := [r\<lparr>ob_status := published, ob_published_at := Some 0\<rparr>]\<rparr>, \<lambda>_. None), R, [(?e, q)], [])"
    by (intro exI) (rule relay_reach.step)
  then obtain R where "relay_reach E delivered route db0
      ((db0\<lparr>outbox_t := [r\<lparr>ob_status := published, ob_published_at := Some 0\<rparr>]\<rparr>, \<lambda>_. None), R, [(?e, q)], [])" ..
  moreover have "outbox_t (db0\<lparr>outbox_t := [r\<lparr>ob_status := published, ob_published_at := Some 0\<rparr>]\<rparr>) =
      [r\<lparr>ob_status := published, ob_published_at := Some 0\<rparr>]" by simp
  ultimately show ?thesis by blast
qed

theorem relays_send_once_witness:
  "\<exists>(db :: database) r ou. r \<in> set (outbox_t db) \<and> ob_status r = published \<and> ob_id r = 1 \<and>
     (\<exists>q. (to_event r, q) \<in> set ou \<and> by_destination to_llm to_bot (ob_destination r) = Some q) \<and> times_sent ou 1 \<le> 1"
proof -
  obtain r where r: "outbox_t (committed after_ingest) = [r]" "ob_id r = 1" "ob_status r = pending"
      "ob_destination r = destination_value ASSESS_REQUEST" by (rule one_row)
  have "by_destination to_llm to_bot (ob_destination r) = Some to_llm" by (simp add: r by_destination_def)
  from pass_reach [where E = calm_env and delivered = "\<lambda>_. True" and route = "by_destination to_llm to_bot" and r = r,
      OF r(1,3) this] obtain db R where
    reach: "relay_reach calm_env (\<lambda>_. True) (by_destination to_llm to_bot) (committed after_ingest)
      ((db, \<lambda>_. None), R, [(to_event r, to_llm)], [])"
    and row: "outbox_t db = [r\<lparr>ob_status := published, ob_published_at := Some 0\<rparr>]" by blast
  have "ob_id r \<notin> published_ids (committed after_ingest)"
    by (simp add: published_ids_def r pending_def published_def lit_def)
  then have "r\<lparr>ob_status := published, ob_published_at := Some 0\<rparr> \<in> set (outbox_t db) \<and>
      (\<exists>q. (to_event (r\<lparr>ob_status := published, ob_published_at := Some 0\<rparr>), q) \<in> set [(to_event r, to_llm)] \<and>
        by_destination to_llm to_bot (ob_destination r) = Some q) \<and> times_sent [(to_event r, to_llm)] 1 \<le> 1"
    using relays_send_once [OF reach stored_order(1,2)] row by simp
  then show ?thesis using r(2)
    by (intro exI [of _ db] exI [of _ "r\<lparr>ob_status := published, ob_published_at := Some 0\<rparr>"] exI [of _ "[(to_event r, to_llm)]"])
      simp
qed

end
