(* ===== verification/CoreSchema.thy ===== *)
theory CoreSchema
  imports CoreConcTheorems
begin

text \<open>
  order-core-service: the schema. The tables as the models declare them (models.py), the statements of
  the first migration and of its downgrade (alembic/versions/0001_init.py), run on a schema, and the
  rows of CoreDb as rows of those tables. A statement that meets a missing or an existing object
  fails, as PostgreSQL's documentation has it.
\<close>

section \<open>Tables as data\<close>

datatype col_type = Uuid_t | String_t nat | Text_t | Integer_t | Big_integer_t | Jsonb_t | Date_time_tz_t

datatype server_default = Now_d | Text_d string | Int_d int

datatype client_default = Uuid4_d | None_d

record column =
  c_name :: string
  c_type :: col_type
  c_nullable :: bool
  c_default :: "server_default option"

record table =
  tb_name :: string
  tb_columns :: "column list"
  tb_primary :: "string list"
  tb_uniques :: "(string \<times> string list) list"
  tb_indexes :: "(string \<times> string list) list"

type_synonym schema = "table list"

section \<open>The models\<close>

text \<open>\<open>Mapped[T] = mapped_column(...)\<close>: the column, and what only the client does with it.\<close>

record mapped = column +
  m_primary :: bool
  m_client :: "client_default option"
  m_onupdate :: "server_default option"

definition mapped_column :: "string \<Rightarrow> col_type \<Rightarrow> bool \<Rightarrow> mapped" where
  "mapped_column n ty nul = \<lparr>c_name = n, c_type = ty, c_nullable = nul, c_default = None,
     m_primary = False, m_client = None, m_onupdate = None\<rparr>"

definition OrderRow :: "mapped list" where
  "OrderRow = [
     (mapped_column ''id'' Uuid_t False)\<lparr>m_primary := True, m_client := Some Uuid4_d\<rparr>,
     mapped_column ''source'' (String_t 32) False,
     mapped_column ''external_id'' (String_t 128) False,
     mapped_column ''status'' (String_t 32) False,
     mapped_column ''payload'' Jsonb_t False,
     (mapped_column ''suitability_score'' Integer_t True)\<lparr>m_client := Some None_d\<rparr>,
     (mapped_column ''request_id'' (String_t 128) True)\<lparr>m_client := Some None_d\<rparr>,
     (mapped_column ''source_fetched_at'' Big_integer_t True)\<lparr>m_client := Some None_d\<rparr>,
     (mapped_column ''created_at'' Date_time_tz_t False)\<lparr>c_default := Some Now_d\<rparr>,
     (mapped_column ''updated_at'' Date_time_tz_t False)\<lparr>c_default := Some Now_d, m_onupdate := Some Now_d\<rparr>]"

definition OutboxRow :: "mapped list" where
  "OutboxRow = [
     (mapped_column ''id'' Uuid_t False)\<lparr>m_primary := True, m_client := Some Uuid4_d\<rparr>,
     (mapped_column ''aggregate_id'' Uuid_t True)\<lparr>m_client := Some None_d\<rparr>,
     mapped_column ''destination'' (String_t 32) False,
     mapped_column ''payload'' Jsonb_t False,
     mapped_column ''dedup_key'' (String_t 200) False,
     (mapped_column ''status'' (String_t 16) False)\<lparr>c_default := Some (Text_d ''pending'')\<rparr>,
     (mapped_column ''attempts'' Integer_t False)\<lparr>c_default := Some (Int_d 0)\<rparr>,
     (mapped_column ''last_error'' Text_t True)\<lparr>m_client := Some None_d\<rparr>,
     (mapped_column ''created_at'' Date_time_tz_t False)\<lparr>c_default := Some Now_d\<rparr>,
     (mapped_column ''published_at'' Date_time_tz_t True)\<lparr>m_client := Some None_d\<rparr>]"

definition table_of :: "string \<Rightarrow> mapped list \<Rightarrow> (string \<times> string list) list \<Rightarrow> (string \<times> string list) list \<Rightarrow> table" where
  "table_of n ms uniques indexes = \<lparr>tb_name = n, tb_columns = map column.truncate ms,
     tb_primary = map c_name (filter m_primary ms), tb_uniques = uniques, tb_indexes = indexes\<rparr>"

text \<open>\<open>Base.metadata\<close>.\<close>

definition metadata :: schema where
  "metadata = [
     table_of ''orders'' OrderRow [(''uq_orders_source_external_id'', [''source'', ''external_id''])] [],
     table_of ''outbox'' OutboxRow [(''uq_outbox_dedup_key'', [''dedup_key''])]
       [(''ix_outbox_status_created_at'', [''status'', ''created_at''])]]"

section \<open>The migration\<close>

datatype mig_op =
    Create_table string "column list" "string list" "(string \<times> string list) list"
  | Create_index string string "string list"
  | Drop_index string string
  | Drop_table string

definition sa_column :: "string \<Rightarrow> col_type \<Rightarrow> bool \<Rightarrow> server_default option \<Rightarrow> column" where
  "sa_column n ty nul dflt = \<lparr>c_name = n, c_type = ty, c_nullable = nul, c_default = dflt\<rparr>"

definition upgrade :: "mig_op list" where
  "upgrade = [
     Create_table ''orders'' [
       sa_column ''id'' Uuid_t False None,
       sa_column ''source'' (String_t 32) False None,
       sa_column ''external_id'' (String_t 128) False None,
       sa_column ''status'' (String_t 32) False None,
       sa_column ''payload'' Jsonb_t False None,
       sa_column ''suitability_score'' Integer_t True None,
       sa_column ''request_id'' (String_t 128) True None,
       sa_column ''source_fetched_at'' Big_integer_t True None,
       sa_column ''created_at'' Date_time_tz_t False (Some Now_d),
       sa_column ''updated_at'' Date_time_tz_t False (Some Now_d)]
       [''id''] [(''uq_orders_source_external_id'', [''source'', ''external_id''])],
     Create_table ''outbox'' [
       sa_column ''id'' Uuid_t False None,
       sa_column ''aggregate_id'' Uuid_t True None,
       sa_column ''destination'' (String_t 32) False None,
       sa_column ''payload'' Jsonb_t False None,
       sa_column ''dedup_key'' (String_t 200) False None,
       sa_column ''status'' (String_t 16) False (Some (Text_d ''pending'')),
       sa_column ''attempts'' Integer_t False (Some (Int_d 0)),
       sa_column ''last_error'' Text_t True None,
       sa_column ''created_at'' Date_time_tz_t False (Some Now_d),
       sa_column ''published_at'' Date_time_tz_t True None]
       [''id''] [(''uq_outbox_dedup_key'', [''dedup_key''])],
     Create_index ''ix_outbox_status_created_at'' ''outbox'' [''status'', ''created_at'']]"

definition downgrade :: "mig_op list" where
  "downgrade = [Drop_index ''ix_outbox_status_created_at'' ''outbox'', Drop_table ''outbox'', Drop_table ''orders'']"

definition has_table :: "string \<Rightarrow> schema \<Rightarrow> bool" where
  "has_table n S \<longleftrightarrow> n \<in> set (map tb_name S)"

text \<open>Indexes, unique constraints among them, share one name space.\<close>

definition index_names :: "schema \<Rightarrow> string list" where
  "index_names S = concat (map (\<lambda>t. map fst (tb_uniques t) @ map fst (tb_indexes t)) S)"

fun run_op :: "mig_op \<Rightarrow> schema \<Rightarrow> exn + schema" where
  "run_op (Create_table n cols pk uqs) S =
     (if has_table n S \<or> (\<exists>uq \<in> set (map fst uqs). uq \<in> set (index_names S))
      then Inl (DatabaseError (lit ''DuplicateTable''))
      else Inr (S @ [\<lparr>tb_name = n, tb_columns = cols, tb_primary = pk, tb_uniques = uqs, tb_indexes = []\<rparr>]))"
| "run_op (Create_index ix n cols) S =
     (if \<not> has_table n S then Inl (DatabaseError (lit ''UndefinedTable''))
      else if ix \<in> set (index_names S) then Inl (DatabaseError (lit ''DuplicateTable''))
      else Inr (map (\<lambda>t. if tb_name t = n then t\<lparr>tb_indexes := tb_indexes t @ [(ix, cols)]\<rparr> else t) S))"
| "run_op (Drop_index ix n) S =
     (if ix \<notin> set (concat (map (\<lambda>t. map fst (tb_indexes t)) S)) then Inl (DatabaseError (lit ''UndefinedObject''))
      else Inr (map (\<lambda>t. t\<lparr>tb_indexes := filter (\<lambda>i. fst i \<noteq> ix) (tb_indexes t)\<rparr>) S))"
| "run_op (Drop_table n) S =
     (if \<not> has_table n S then Inl (DatabaseError (lit ''UndefinedTable''))
      else Inr (filter (\<lambda>t. tb_name t \<noteq> n) S))"

primrec run_ops :: "mig_op list \<Rightarrow> schema \<Rightarrow> exn + schema" where
  "run_ops [] S = Inr S"
| "run_ops (m # ms) S = (case run_op m S of Inl e \<Rightarrow> Inl e | Inr S' \<Rightarrow> run_ops ms S')"

section \<open>Rows of a table\<close>

datatype cell = VNull | VUuid nat | VText ustr | VInt int | VJson json | VTime int

fun cell_fits :: "pg_env \<Rightarrow> col_type \<Rightarrow> cell \<Rightarrow> bool" where
  "cell_fits E Uuid_t (VUuid u) = True"
| "cell_fits E (String_t n) (VText s) = varchar_ok E n s"
| "cell_fits E Text_t (VText s) = text_ok E s"
| "cell_fits E Integer_t (VInt i) = int32_ok i"
| "cell_fits E Big_integer_t (VInt i) = int64_ok i"
| "cell_fits E Jsonb_t (VJson j) = json_ok E j"
| "cell_fits E Date_time_tz_t (VTime t) = True"
| "cell_fits E _ _ = False"

type_synonym row = "(string \<times> cell) list"

definition column_fits :: "pg_env \<Rightarrow> column \<Rightarrow> string \<times> cell \<Rightarrow> bool" where
  "column_fits E c v \<longleftrightarrow> fst v = c_name c \<and> (if snd v = VNull then c_nullable c else cell_fits E (c_type c) (snd v))"

text \<open>The columns of a key are never null here, so equal keys are equal cells.\<close>

definition project :: "string list \<Rightarrow> row \<Rightarrow> cell option list" where
  "project cols r = map (map_of r) cols"

definition rows_fit :: "pg_env \<Rightarrow> table \<Rightarrow> row list \<Rightarrow> bool" where
  "rows_fit E t rows \<longleftrightarrow> (\<forall>r \<in> set rows. list_all2 (column_fits E) (tb_columns t) r) \<and>
     (\<forall>key \<in> set (tb_primary t # map snd (tb_uniques t)). distinct (map (project key) rows))"

definition null_or :: "('a \<Rightarrow> cell) \<Rightarrow> 'a option \<Rightarrow> cell" where
  "null_or f x = (case x of None \<Rightarrow> VNull | Some y \<Rightarrow> f y)"

definition order_cells :: "order_row \<Rightarrow> row" where
  "order_cells r = [(''id'', VUuid (or_id r)), (''source'', VText (or_source r)),
     (''external_id'', VText (or_external_id r)), (''status'', VText (or_status r)), (''payload'', VJson (or_payload r)),
     (''suitability_score'', null_or VInt (or_suitability_score r)), (''request_id'', null_or VText (or_request_id r)),
     (''source_fetched_at'', null_or VInt (or_source_fetched_at r)),
     (''created_at'', VTime (or_created_at r)), (''updated_at'', VTime (or_updated_at r))]"

definition outbox_cells :: "outbox_row \<Rightarrow> row" where
  "outbox_cells r = [(''id'', VUuid (ob_id r)), (''aggregate_id'', null_or VUuid (ob_aggregate_id r)),
     (''destination'', VText (ob_destination r)), (''payload'', VJson (ob_payload r)),
     (''dedup_key'', VText (ob_dedup_key r)), (''status'', VText (ob_status r)), (''attempts'', VInt (ob_attempts r)),
     (''last_error'', null_or VText (ob_last_error r)), (''created_at'', VTime (ob_created_at r)),
     (''published_at'', null_or VTime (ob_published_at r))]"

definition rows_of :: "string \<Rightarrow> database \<Rightarrow> row list" where
  "rows_of n db = (if n = ''orders'' then map order_cells (orders_t db)
     else if n = ''outbox'' then map outbox_cells (outbox_t db) else [])"

text \<open>The tables of the database are tables of the schema, with rows its columns and keys admit.\<close>

definition db_fits :: "pg_env \<Rightarrow> schema \<Rightarrow> database \<Rightarrow> bool" where
  "db_fits E S db \<longleftrightarrow> has_table ''orders'' S \<and> has_table ''outbox'' S \<and>
     (\<forall>t \<in> set S. rows_fit E t (rows_of (tb_name t) db))"

section \<open>The migration creates what the models declare\<close>

lemma metadata_tables: "metadata = [
    \<lparr>tb_name = ''orders'', tb_columns = map column.truncate OrderRow, tb_primary = [''id''],
      tb_uniques = [(''uq_orders_source_external_id'', [''source'', ''external_id''])], tb_indexes = []\<rparr>,
    \<lparr>tb_name = ''outbox'', tb_columns = map column.truncate OutboxRow, tb_primary = [''id''],
      tb_uniques = [(''uq_outbox_dedup_key'', [''dedup_key''])],
      tb_indexes = [(''ix_outbox_status_created_at'', [''status'', ''created_at''])]\<rparr>]"
  by (simp add: metadata_def table_of_def OrderRow_def OutboxRow_def mapped_column_def)

lemma upgrade_tables: "upgrade = [
    Create_table ''orders'' (map column.truncate OrderRow) [''id'']
      [(''uq_orders_source_external_id'', [''source'', ''external_id''])],
    Create_table ''outbox'' (map column.truncate OutboxRow) [''id''] [(''uq_outbox_dedup_key'', [''dedup_key''])],
    Create_index ''ix_outbox_status_created_at'' ''outbox'' [''status'', ''created_at'']]"
  by (simp add: upgrade_def OrderRow_def OutboxRow_def mapped_column_def sa_column_def column.truncate_def)

definition untouched :: "schema \<Rightarrow> bool" where
  "untouched S \<longleftrightarrow> \<not> has_table ''orders'' S \<and> \<not> has_table ''outbox'' S \<and>
     set (index_names S) \<inter> {''uq_orders_source_external_id'', ''uq_outbox_dedup_key'', ''ix_outbox_status_created_at''} = {}"

lemma index_names_append [simp]: "index_names (S @ S') = index_names S @ index_names S'"
  "index_names [] = []" "index_names (t # S) = map fst (tb_uniques t) @ map fst (tb_indexes t) @ index_names S"
  by (simp_all add: index_names_def)

lemma has_table_append [simp]: "has_table n (S @ S') \<longleftrightarrow> has_table n S \<or> has_table n S'"
  "\<not> has_table n []" "has_table n (t # S) \<longleftrightarrow> tb_name t = n \<or> has_table n S"
  by (auto simp: has_table_def)

lemma upgrade_runs: "untouched S \<Longrightarrow> run_ops upgrade S = Inr (S @ metadata)"
proof -
  assume u: "untouched S"
  then have "map (\<lambda>t. if tb_name t = ''outbox'' then t\<lparr>tb_indexes := tb_indexes t @ ix\<rparr> else t) S = S" for ix
    by (intro map_idI) (force simp: untouched_def has_table_def)
  with u show ?thesis by (simp add: upgrade_tables metadata_tables untouched_def)
qed

lemma downgrade_runs: "untouched S \<Longrightarrow> run_ops downgrade (S @ metadata) = Inr S"
proof -
  assume u: "untouched S"
  have "t\<lparr>tb_indexes := filter (\<lambda>i. fst i \<noteq> ''ix_outbox_status_created_at'') (tb_indexes t)\<rparr> = t" if "t \<in> set S" for t
  proof -
    have "''ix_outbox_status_created_at'' \<notin> set (map fst (tb_indexes t))"
      using u that unfolding untouched_def index_names_def by auto
    then have "filter (\<lambda>i. fst i \<noteq> ''ix_outbox_status_created_at'') (tb_indexes t) = tb_indexes t"
      by (intro filter_True) force
    then show ?thesis by simp
  qed
  then have "map (\<lambda>t. t\<lparr>tb_indexes := filter (\<lambda>i. fst i \<noteq> ''ix_outbox_status_created_at'') (tb_indexes t)\<rparr>) S = S"
    by (intro map_idI)
  moreover have "filter (\<lambda>t. tb_name t \<noteq> n) S = S" if "\<not> has_table n S" for n
    using that by (intro filter_True) (auto simp: has_table_def)
  ultimately show ?thesis using u by (simp add: downgrade_def metadata_tables untouched_def)
qed

text \<open>The migration and the models agree: on any schema without the two tables, the upgrade adds
  exactly the tables, columns, defaults, keys and indexes that the models declare, and the
  downgrade takes exactly these away again.\<close>

theorem migration_matches_models:
  assumes "untouched S"
  shows "run_ops upgrade S = Inr (S @ metadata) \<and> run_ops downgrade (S @ metadata) = Inr S"
  by (simp add: upgrade_runs downgrade_runs assms)

theorem migration_matches_models_witness:
  "run_ops upgrade [] = Inr metadata \<and> run_ops downgrade metadata = Inr []"
  using migration_matches_models [of "[]"] by (simp add: untouched_def)

section \<open>Every stored row fits its columns\<close>

definition order_fits :: "pg_env \<Rightarrow> order_row \<Rightarrow> bool" where
  "order_fits E r \<longleftrightarrow> varchar_ok E 32 (or_source r) \<and> varchar_ok E 128 (or_external_id r) \<and>
     varchar_ok E 32 (or_status r) \<and> json_ok E (or_payload r) \<and>
     (\<forall>i. or_suitability_score r = Some i \<longrightarrow> int32_ok i) \<and> (\<forall>q. or_request_id r = Some q \<longrightarrow> varchar_ok E 128 q) \<and>
     (\<forall>i. or_source_fetched_at r = Some i \<longrightarrow> int64_ok i)"

definition event_fits :: "pg_env \<Rightarrow> outbox_row \<Rightarrow> bool" where
  "event_fits E r \<longleftrightarrow> varchar_ok E 32 (ob_destination r) \<and> json_ok E (ob_payload r) \<and>
     varchar_ok E 200 (ob_dedup_key r) \<and> varchar_ok E 16 (ob_status r) \<and> int32_ok (ob_attempts r) \<and>
     (\<forall>m. ob_last_error r = Some m \<longrightarrow> text_ok E m)"

lemma null_or_simps [simp]: "null_or f None = VNull" "null_or f (Some x) = f x"
  by (simp_all add: null_or_def)

lemma order_cells_fit: "list_all2 (column_fits E) (map column.truncate OrderRow) (order_cells r) \<longleftrightarrow> order_fits E r"
  by (cases "or_suitability_score r"; cases "or_request_id r"; cases "or_source_fetched_at r")
    (simp_all add: OrderRow_def mapped_column_def column.truncate_def order_cells_def column_fits_def order_fits_def)

lemma outbox_cells_fit: "list_all2 (column_fits E) (map column.truncate OutboxRow) (outbox_cells r) \<longleftrightarrow> event_fits E r"
  by (cases "ob_aggregate_id r"; cases "ob_last_error r"; cases "ob_published_at r")
    (simp_all add: OutboxRow_def mapped_column_def column.truncate_def outbox_cells_def column_fits_def event_fits_def)

lemma distinct_map_inj: "(\<And>x y. f x = f y \<longleftrightarrow> g x = g y) \<Longrightarrow> distinct (map f xs) \<longleftrightarrow> distinct (map g xs)"
  by (induction xs) (auto simp: image_iff)

lemma keys_fit:
  "distinct (map (\<lambda>r. project [''id''] (order_cells r)) rs) \<longleftrightarrow> distinct (map or_id rs)"
  "distinct (map (\<lambda>r. project [''source'', ''external_id''] (order_cells r)) rs) \<longleftrightarrow> distinct (map order_key rs)"
  "distinct (map (\<lambda>r. project [''id''] (outbox_cells r)) es) \<longleftrightarrow> distinct (map ob_id es)"
  "distinct (map (\<lambda>r. project [''dedup_key''] (outbox_cells r)) es) \<longleftrightarrow> distinct (map ob_dedup_key es)"
  by (rule distinct_map_inj, simp add: project_def order_cells_def outbox_cells_def order_key_def)+

lemma db_fits_iff: "db_fits E metadata db \<longleftrightarrow> (\<forall>r \<in> set (orders_t db). order_fits E r) \<and>
    (\<forall>r \<in> set (outbox_t db). event_fits E r) \<and>
    distinct (map or_id (orders_t db)) \<and> distinct (map order_key (orders_t db)) \<and>
    distinct (map ob_id (outbox_t db)) \<and> distinct (map ob_dedup_key (outbox_t db))"
  by (auto simp: db_fits_def metadata_tables rows_fit_def rows_of_def order_cells_fit outbox_cells_fit comp_def keys_fit)

text \<open>What the statements write fits, whatever the database thinks of texts, as long as it takes ASCII.\<close>

definition takes_ascii :: "pg_env \<Rightarrow> bool" where
  "takes_ascii E \<longleftrightarrow> (\<forall>s. (\<forall>c \<in> set s. 32 \<le> c \<and> c < 127) \<longrightarrow> text_ok E s)"

lemma status_fits: "takes_ascii E \<Longrightarrow> varchar_ok E 32 (status_value st)"
  by (cases st) (simp_all add: takes_ascii_def varchar_ok_def status_value.simps lit_def)

lemma pending_fits: "takes_ascii E \<Longrightarrow> varchar_ok E 16 pending \<and> varchar_ok E 16 published"
  by (simp add: takes_ascii_def varchar_ok_def pending_def published_def lit_def)

definition set_fits :: "row_update \<Rightarrow> bool" where
  "set_fits u \<longleftrightarrow> (\<forall>i. fst (snd (snd u)) = Some i \<longrightarrow> int32_ok i)"

lemma order_fits_set: "takes_ascii E \<Longrightarrow> set_fits u \<Longrightarrow> order_fits E r \<Longrightarrow> order_fits E (apply_set u r)"
  by (cases u) (simp add: order_fits_def set_fits_def status_fits)

lemma order_fits_sets: "takes_ascii E \<Longrightarrow> \<forall>u \<in> set us. set_fits u \<Longrightarrow> order_fits E r \<Longrightarrow> order_fits E (fold apply_set us r)"
  by (induction us arbitrary: r) (simp_all add: order_fits_set del: apply_set.simps)

definition tx_fits :: "pg_env \<Rightarrow> tx \<Rightarrow> bool" where
  "tx_fits E t \<longleftrightarrow> (\<forall>r \<in> set (tx_orders t). order_fits E r) \<and> (\<forall>r \<in> set (tx_events t). event_fits E r) \<and>
     (\<forall>u \<in> set (tx_sets t). set_fits u)"

definition conc_fits :: "pg_env \<Rightarrow> conc \<Rightarrow> bool" where
  "conc_fits E p \<longleftrightarrow> (\<forall>r \<in> set (orders_t (fst p)). order_fits E r) \<and> (\<forall>r \<in> set (outbox_t (fst p)). event_fits E r) \<and>
     (\<forall>i t. snd p i = Some t \<longrightarrow> tx_fits E t)"

lemma conc_fits_update: "conc_fits E (db, T) \<Longrightarrow> tx_fits E t \<Longrightarrow> conc_fits E (db, T(i \<mapsto> t))"
  by (simp add: conc_fits_def)

lemma conc_fitsD: "conc_fits E (db, T) \<Longrightarrow> T i = Some t \<Longrightarrow> tx_fits E t"
  by (simp add: conc_fits_def)

lemma insert_order_fits:
  assumes "insert_order_stmt E uid ord now db = Inr (b, v)" and "takes_ascii E"
  shows "\<forall>r \<in> set (new_rows (orders_t db) (orders_t v)). order_fits E r"
  using assms(1) status_fits [OF assms(2), of ASSESS_REQUESTED] unfolding insert_order_stmt_def Let_def order_fits_def
  by (auto split: if_splits option.splits)

lemma insert_outbox_fits:
  assumes "insert_outbox_stmt E uid dest key payload now db = Inr (u, v)" and "takes_ascii E"
  shows "\<forall>r \<in> set (new_rows (outbox_t db) (outbox_t v)). event_fits E r"
  using assms(1) pending_fits [OF assms(2)] unfolding insert_outbox_stmt_def event_fits_def
  by (auto simp: int32_ok_def split: if_splits)

lemma view_fits: "takes_ascii E \<Longrightarrow> conc_fits E (db, T) \<Longrightarrow> tx_fits E t \<Longrightarrow>
    (\<forall>r \<in> set (orders_t (view db t)). order_fits E r) \<and> (\<forall>r \<in> set (outbox_t (view db t)). event_fits E r)"
  unfolding conc_fits_def tx_fits_def view_def by (auto simp: order_fits_sets)

lemma mark_fits: "takes_ascii E \<Longrightarrow> mark_stmt ids now db = Inr (u, db') \<Longrightarrow> \<forall>r \<in> set (outbox_t db). event_fits E r \<Longrightarrow>
    \<forall>r \<in> set (outbox_t db'). event_fits E r"
  using pending_fits [of E] by (auto simp: mark_stmt_def event_fits_def)

lemma conc_fits_step:
  assumes "conc_step E delivered p q" and "conc_fits E p" and "takes_ascii E"
  shows "conc_fits E q"
  using assms(1)
proof cases
  case (begin_tx T i call db)
  show ?thesis unfolding begin_tx(2)
    by (rule conc_fits_update) (use assms(2) begin_tx(1) in \<open>simp_all add: open_tx_def tx_fits_def\<close>)
next
  case (insert_tx T i t ord k uid now db b v)
  note t = conc_fitsD [OF assms(2) [unfolded insert_tx(1)] insert_tx(3)]
  show ?thesis unfolding insert_tx(2)
    by (rule conc_fits_update)
      (use assms(2) t insert_tx(1) insert_order_fits [OF insert_tx(7) assms(3)] in \<open>auto simp: tx_fits_def\<close>)
next
  case (get_tx T i t src ext k now db row v r)
  note t = conc_fitsD [OF assms(2) [unfolded get_tx(1)] get_tx(3)]
  show ?thesis unfolding get_tx(2)
    by (rule conc_fits_update) (use assms(2) t get_tx(1) in \<open>simp_all add: tx_fits_def\<close>)
next
  case (set_tx T i t src ext st sc k now db b v)
  note t = conc_fitsD [OF assms(2) [unfolded set_tx(1)] set_tx(3)]
  have "set_fits ((source_value src, ext), st, sc, now)"
    using set_tx(6) by (auto simp: set_fits_def update_status_stmt_def split: if_splits option.splits)
  then show ?thesis unfolding set_tx(2)
    by (intro conc_fits_update) (use assms(2) t set_tx(1) in \<open>auto simp: tx_fits_def\<close>)
next
  case (request_tx T i t ord p key uid now db u v)
  note t = conc_fitsD [OF assms(2) [unfolded request_tx(1)] request_tx(3)]
  show ?thesis unfolding request_tx(2)
    by (rule conc_fits_update)
      (use assms(2) t request_tx(1) insert_outbox_fits [OF request_tx(8) assms(3)] in \<open>auto simp: tx_fits_def\<close>)
next
  case (notify_tx T i t src ext n p key uid now db u v)
  note t = conc_fitsD [OF assms(2) [unfolded notify_tx(1)] notify_tx(3)]
  show ?thesis unfolding notify_tx(2)
    by (rule conc_fits_update)
      (use assms(2) t notify_tx(1) insert_outbox_fits [OF notify_tx(8) assms(3)] in \<open>auto simp: tx_fits_def\<close>)
next
  case (commit_tx T i t p db)
  note t = conc_fitsD [OF assms(2) [unfolded commit_tx(1)] commit_tx(3)]
  have "conc_fits E (view db t, T)"
    using view_fits [OF assms(3) assms(2) [unfolded commit_tx(1)] t] assms(2) by (simp add: conc_fits_def commit_tx(1))
  then show ?thesis unfolding commit_tx(2) by (rule conc_fits_update) (simp add: tx_fits_def)
next
  case (relay_tx ids now db u db' T)
  have same: "orders_t db' = orders_t db" by (rule mark_stmt_keeps(1) [OF relay_tx(3)])
  show ?thesis
    using assms(2) mark_fits [OF assms(3) relay_tx(3)] by (simp add: conc_fits_def relay_tx(1,2) same)
next
  case (end_tx T i t db)
  then show ?thesis using assms(2) by (simp add: conc_fits_def)
qed

text \<open>C24. The rows are what the schema says: start the service on the migrated database and run any
  interleaving of its handlers, and in every state reached each row of both tables has a value of
  the column's type in every column, no null where none is allowed, and primary and unique keys of
  its own.\<close>

theorem stored_rows_fit:
  assumes "run_ops upgrade [] = Inr S" and "conc_reach E delivered empty_db (db, T)" and "takes_ascii E"
  shows "db_fits E S db"
proof -
  have S: "S = metadata" using assms(1) upgrade_runs [of "[]"] by (simp add: untouched_def)
  have "conc_fits E (db, T)"
    using assms(2)
  proof (induction "(db, T)" arbitrary: db T)
    case start
    show ?case by (simp add: conc_fits_def empty_db_def)
  next
    case (step p)
    then show ?case by (cases p) (use conc_fits_step [OF _ _ assms(3)] in blast)
  qed
  moreover have "rows_ok db"
    by (rule conc_invD(2) [OF conc_inv_reach [OF assms(2) rows_ok_empty link_ok_weak_link]])
      (simp add: abs_db_def link_ok_empty)
  ultimately show ?thesis unfolding S db_fits_iff by (simp add: conc_fits_def rows_ok_def)
qed

text \<open>One order is stored by its own message.\<close>

lemma reach_one_order:
  "\<exists>db. conc_reach calm_env (\<lambda>_. True) empty_db (db, \<lambda>_. None) \<and> length (orders_t db) = 1"
proof -
  let ?D = "\<lambda>_. True" and ?t0 = "open_tx (Ingest [sample_order])"
  obtain k p where k: "tx_prog ?t0 = Insert_new sample_order k" "settle (k True) = Add_request sample_order p"
      "settle p = Commit (Finish (Inr ()))"
    by (simp add: open_tx_def)
  have v0: "view empty_db ?t0 = empty_db" by (rule idle_view) (simp add: idle_tx_def open_tx_def)
  obtain v1 r where v1: "insert_order_stmt calm_env 0 sample_order 0 empty_db = Inr (True, v1)" "orders_t v1 = [r]"
    by (simp add: insert_order_stmt_def Let_def sample_defs varchar_ok_def int64_ok_def lit_def source_value.simps)
  have v1': "insert_order_stmt calm_env 0 sample_order 0 (view empty_db ?t0) = Inr (True, v1)" by (simp only: v0 v1(1))
  let ?t1 = "?t0\<lparr>tx_prog := settle (k True), tx_orders := tx_orders ?t0 @ new_rows (orders_t (view empty_db ?t0)) (orders_t v1)\<rparr>"
  let ?key = "assess_key (io_source sample_order) (io_external_id sample_order)"
  have out: "outbox_t (view empty_db ?t1) = []" by (simp add: view_def empty_db_def open_tx_def)
  obtain v2 where v2: "insert_outbox_stmt calm_env 0 ASSESS_REQUEST ?key (assess_request_payload sample_order) 0
      (view empty_db ?t1) = Inr ((), v2)"
    unfolding insert_outbox_stmt_def out
    by (simp add: sample_defs varchar_ok_def lit_def source_value.simps destination_value.simps assess_key_def)
  let ?t2 = "?t1\<lparr>tx_prog := settle p, tx_events := tx_events ?t1 @ new_rows (outbox_t (view empty_db ?t1)) (outbox_t v2)\<rparr>"
  let ?t3 = "?t2\<lparr>tx_prog := settle (Finish (Inr ())), tx_orders := [], tx_events := [], tx_sets := []\<rparr>"
  have "conc_reach calm_env ?D empty_db (empty_db, [0 \<mapsto> ?t0])"
    by (rule conc_reach.step [OF conc_reach.start conc_step.begin_tx]) simp_all
  then have "conc_reach calm_env ?D empty_db (empty_db, [0 \<mapsto> ?t0, 0 \<mapsto> ?t1])"
    by (rule conc_reach.step [OF _ conc_step.insert_tx [OF _ k(1) _ _ v1']]) (simp_all add: free_def)
  then have "conc_reach calm_env ?D empty_db (empty_db, [0 \<mapsto> ?t0, 0 \<mapsto> ?t1, 0 \<mapsto> ?t2])"
    by (rule conc_reach.step [OF _ conc_step.request_tx [OF _ _ refl _ _ v2]]) (simp_all add: free_def k(2))
  then have "conc_reach calm_env ?D empty_db (view empty_db ?t2, [0 \<mapsto> ?t0, 0 \<mapsto> ?t1, 0 \<mapsto> ?t2, 0 \<mapsto> ?t3])"
    by (rule conc_reach.step [OF _ conc_step.commit_tx]) (simp_all add: k(3))
  then have "conc_reach calm_env ?D empty_db (view empty_db ?t2, [0 \<mapsto> ?t0, 0 \<mapsto> ?t1, 0 \<mapsto> ?t2, 0 \<mapsto> ?t3](0 := None))"
    by (rule conc_reach.step [OF _ conc_step.end_tx [of _ _ ?t3]]) simp
  moreover have "length (orders_t (view empty_db ?t2)) = 1"
    by (simp add: view_def v1(2) open_tx_def empty_db_def new_rows_def)
  ultimately show ?thesis by (intro exI [of _ "view empty_db ?t2"]) simp
qed

theorem stored_rows_fit_witness:
  "\<exists>db. length (orders_t db) = 1 \<and> db_fits calm_env metadata db"
proof -
  obtain db where db: "conc_reach calm_env (\<lambda>_. True) empty_db (db, \<lambda>_. None)" "length (orders_t db) = 1"
    using reach_one_order by blast
  have "run_ops upgrade [] = Inr metadata" using upgrade_runs [of "[]"] by (simp add: untouched_def)
  from stored_rows_fit [OF this db(1)] db(2) show ?thesis by (intro exI [of _ db]) (simp add: takes_ascii_def calm_env_def)
qed

end
