(* ===== verification/CoreMigrate.thy ===== *)
theory CoreMigrate
  imports CoreSchema Settings
begin

text \<open>
  order-core-service: alembic/env.py. The connection URL goes through the options of a configuration
  file: Python's \<open>configparser\<close> with its \<open>BasicInterpolation\<close>, where a percent sign starts a
  reference to another option. What alembic and the database do is a parameter: whether the run is
  offline, a connection handed in by the caller, whether connecting succeeds, and what the pending
  migrations make of a schema.
\<close>

section \<open>Options with interpolation\<close>

text \<open>\<open>value.replace('%%', '')\<close>, and \<open>%(name)s\<close> at the start of a text: the name and what follows.\<close>

fun drop_pairs :: "ustr \<Rightarrow> ustr" where
  "drop_pairs (c # d # s) = (if c = 37 \<and> d = 37 then drop_pairs s else c # drop_pairs (d # s))"
| "drop_pairs s = s"

definition key_ref :: "ustr \<Rightarrow> (ustr \<times> ustr) option" where
  "key_ref s = (case s of
     p # b # t \<Rightarrow> (let name = takeWhile (\<lambda>c. c \<noteq> 41) t; rest = dropWhile (\<lambda>c. c \<noteq> 41) t in
       if p = 37 \<and> b = 40 \<and> name \<noteq> [] \<and> take 2 rest = lit '')s'' then Some (name, drop 2 rest) else None)
   | _ \<Rightarrow> None)"

lemma key_ref_shorter: "key_ref s = Some (name, rest) \<Longrightarrow> length rest < length s"
proof -
  assume k: "key_ref s = Some (name, rest)"
  then obtain p b t where s: "s = p # b # t" by (auto simp: key_ref_def split: list.splits)
  have "rest = drop 2 (dropWhile (\<lambda>c. c \<noteq> 41) t)" using k by (auto simp: key_ref_def s Let_def split: if_splits)
  moreover have "length (dropWhile (\<lambda>c. c \<noteq> 41) t) \<le> length t" by (rule length_dropWhile_le)
  ultimately show ?thesis by (simp add: s)
qed

function drop_refs :: "ustr \<Rightarrow> ustr" where
  "drop_refs s = (case s of [] \<Rightarrow> []
     | c # t \<Rightarrow> (case key_ref s of Some (_, rest) \<Rightarrow> drop_refs rest | None \<Rightarrow> c # drop_refs t))"
  by pat_completeness auto
termination by (relation "measure length") (auto dest: key_ref_shorter)

declare drop_refs.simps [simp del]

text \<open>\<open>before_set\<close>: a percent sign that is left over is refused. (The message is shortened.)\<close>

definition before_set :: "ustr \<Rightarrow> exn + ustr" where
  "before_set v = (if 37 \<in> set (drop_refs (drop_pairs v))
     then Inl (ValueError (lit ''invalid interpolation syntax'')) else Inr v)"

text \<open>
  \<open>before_get\<close>: the references are filled in, themselves with references up to the tenth depth; the
  first argument holds the other options, the second the depths left.
\<close>

function interpolate :: "(ustr \<Rightarrow> ustr option) \<Rightarrow> nat \<Rightarrow> ustr \<Rightarrow> exn + ustr" where
  "interpolate vars n s = (if n = 0 then Inl (OtherError (lit ''InterpolationDepthError'')) else
     (case s of
        [] \<Rightarrow> Inr []
      | c # t \<Rightarrow>
          if c \<noteq> 37 then map_sum id (Cons c) (interpolate vars n t)
          else if take 1 t = [37] then map_sum id (Cons 37) (interpolate vars n (drop 1 t))
          else (case key_ref s of
             None \<Rightarrow> Inl (OtherError (lit ''InterpolationSyntaxError''))
           | Some (name, rest) \<Rightarrow> (case vars (py_lower name) of
               None \<Rightarrow> Inl (OtherError (lit ''InterpolationMissingOptionError''))
             | Some v \<Rightarrow> (case (if 37 \<in> set v then interpolate vars (n - 1) v else Inr v) of
                 Inl e \<Rightarrow> Inl e
               | Inr w \<Rightarrow> map_sum id (append w) (interpolate vars n rest))))))"
  by pat_completeness auto
termination by (relation "measures [\<lambda>(vars, n, s). n, \<lambda>(vars, n, s). length s]") (auto dest: key_ref_shorter)

declare interpolate.simps [simp del]

section \<open>env.py\<close>

datatype conn = Given nat | Own

datatype mig_event =
    Log_config ustr
  | Configure_connection conn
  | Configure_url ustr
  | Begin_tx
  | Run_migrations
  | Commit_tx
  | Rollback_tx
  | Connect ustr
  | Close
  | Dispose

record mig_env =
  me_config_file :: "ustr option"
  me_file_config :: "ustr \<Rightarrow> exn + unit"
  me_offline :: bool
  me_connection :: "nat option"
  me_options :: "ustr \<Rightarrow> ustr option"
  me_connect :: "ustr \<Rightarrow> exn + unit"
  me_run :: "schema \<Rightarrow> exn + schema"
  me_script :: "exn + unit"

record mig_state =
  ms_url :: ustr
  ms_schema :: schema
  ms_trace :: "mig_event list"

type_synonym 'a mig = "(mig_state, 'a) act"

definition mig_emit :: "mig_event \<Rightarrow> unit mig" where
  "mig_emit e = modify_act (\<lambda>s. s\<lparr>ms_trace := ms_trace s @ [e]\<rparr>)"

definition set_main_option :: "ustr \<Rightarrow> unit mig" where
  "set_main_option v = bind_act (lift_act (before_set v)) (\<lambda>w. modify_act (\<lambda>s. s\<lparr>ms_url := w\<rparr>))"

definition get_main_option :: "mig_env \<Rightarrow> ustr mig" where
  "get_main_option M s = (interpolate (me_options M) 10 (ms_url s), s)"

text \<open>\<open>with context.begin_transaction(): context.run_migrations()\<close>; the DDL of PostgreSQL is transactional.\<close>

definition migrate_in_tx :: "(schema \<Rightarrow> exn + schema) \<Rightarrow> unit mig" where
  "migrate_in_tx run = bind_act (mig_emit Begin_tx) (\<lambda>_. bind_act (mig_emit Run_migrations) (\<lambda>_ s.
     case run (ms_schema s) of
       Inl e \<Rightarrow> (Inl e, snd (mig_emit Rollback_tx s))
     | Inr S \<Rightarrow> mig_emit Commit_tx (s\<lparr>ms_schema := S\<rparr>)))"

definition do_run_migrations :: "mig_env \<Rightarrow> conn \<Rightarrow> unit mig" where
  "do_run_migrations M c = bind_act (mig_emit (Configure_connection c)) (\<lambda>_. migrate_in_tx (me_run M))"

text \<open>\<open>async with connectable.connect() as connection: ...\<close> closes on every way out; \<open>dispose\<close> does not.\<close>

definition run_async_migrations :: "mig_env \<Rightarrow> unit mig" where
  "run_async_migrations M = bind_act (get_main_option M) (\<lambda>url.
     bind_act (lift_act (me_connect M url)) (\<lambda>_.
     bind_act (mig_emit (Connect url)) (\<lambda>_.
     bind_act (\<lambda>s. case do_run_migrations M Own s of (r, t) \<Rightarrow> (r, snd (mig_emit Close t))) (\<lambda>_.
     mig_emit Dispose))))"

definition run_migrations_offline :: "mig_env \<Rightarrow> unit mig" where
  "run_migrations_offline M = bind_act (get_main_option M) (\<lambda>url.
     bind_act (mig_emit (Configure_url url)) (\<lambda>_.
     migrate_in_tx (\<lambda>S. map_sum id (\<lambda>_. S) (me_script M))))"

definition run_migrations_online :: "mig_env \<Rightarrow> unit mig" where
  "run_migrations_online M = (case me_connection M of
     Some c \<Rightarrow> do_run_migrations M (Given c)
   | None \<Rightarrow> run_async_migrations M)"

definition env_module :: "mig_env \<Rightarrow> postgres_settings \<Rightarrow> unit mig" where
  "env_module M p =
     bind_act (case me_config_file M of None \<Rightarrow> ret ()
       | Some f \<Rightarrow> bind_act (lift_act (me_file_config M f)) (\<lambda>_. mig_emit (Log_config f))) (\<lambda>_.
     bind_act (lift_act (postgres_url p)) (\<lambda>url.
     bind_act (set_main_option url) (\<lambda>_.
     if me_offline M then run_migrations_offline M else run_migrations_online M)))"

section \<open>Percent signs of an encoded text\<close>

text \<open>No percent sign is followed by another or by an opening parenthesis, and none comes last.\<close>

fun lone :: "ustr \<Rightarrow> bool" where
  "lone [] = True"
| "lone (c # s) = ((c = 37 \<longrightarrow> s \<noteq> [] \<and> hd s \<notin> {37, 40}) \<and> lone s)"

lemma lone_append: "lone a \<Longrightarrow> lone b \<Longrightarrow> lone (a @ b)"
  by (induction a) (auto simp: hd_append)

lemma lone_plain: "37 \<notin> set s \<Longrightarrow> lone s"
  by (induction s) auto

lemma key_ref_percent: "hd s \<noteq> 37 \<or> hd (tl s) \<noteq> 40 \<Longrightarrow> key_ref s = None"
  by (auto simp: key_ref_def Let_def split: list.split)

lemma lone_drop_pairs: "lone s \<Longrightarrow> drop_pairs s = s"
  by (induction s rule: drop_pairs.induct) auto

lemma lone_drop_refs: "lone s \<Longrightarrow> drop_refs s = s"
proof (induction s)
  case Nil
  show ?case by (simp add: drop_refs.simps [of "[]"])
next
  case (Cons c s)
  have "key_ref (c # s) = None" by (rule key_ref_percent) (use Cons.prems in \<open>cases s; auto\<close>)
  then show ?case using Cons by (simp add: drop_refs.simps [of "c # s"])
qed

lemma lone_before_set: "lone s \<Longrightarrow> before_set s = (if 37 \<in> set s
    then Inl (ValueError (lit ''invalid interpolation syntax'')) else Inr s)"
  by (simp add: before_set_def lone_drop_pairs lone_drop_refs)

lemma interpolate_plain: "37 \<notin> set s \<Longrightarrow> 0 < n \<Longrightarrow> interpolate vars n s = Inr s"
proof (induction s)
  case Nil
  then show ?case by (simp add: interpolate.simps [of vars n "[]"])
next
  case (Cons c s)
  then show ?case by (simp add: interpolate.simps [of vars n "c # s"])
qed

lemma lone_quote_byte: "b < 256 \<Longrightarrow> lone (quote_byte b)"
proof -
  assume "b < 256"
  then have "unreserved (hex_digit (b div 16))" "unreserved (hex_digit (b mod 16))"
    by (simp_all add: hex_digit_unreserved less_mult_imp_div_less)
  then have "hex_digit (b div 16) \<notin> {37, 40}" "hex_digit (b mod 16) \<noteq> 37" by (auto simp: unreserved_def)
  then show ?thesis by (auto simp: quote_byte_def unreserved_def)
qed

lemma lone_quote: "quote s = Inr q \<Longrightarrow> lone q"
proof (erule quote_Inr)
  fix bs assume "\<forall>b \<in> set bs. b < 256" "q = concat (map quote_byte bs)"
  then show "lone q" by (induction bs arbitrary: q) (simp_all add: lone_append lone_quote_byte)
qed

lemma unreserved_cp: "unreserved c \<Longrightarrow> utf8_cp c = [c]"
  by (auto simp: unreserved_def utf8_cp_def)

lemma utf8_cp_unreserved: "is_scalar c \<Longrightarrow> (\<forall>b \<in> set (utf8_cp c). unreserved b) \<longleftrightarrow> unreserved c"
  by (auto simp: utf8_cp_def unreserved_def)

lemma percent_quote_byte: "37 \<in> set (quote_byte b) \<longleftrightarrow> \<not> unreserved b"
  by (auto simp: quote_byte_def unreserved_def)

lemma percent_quote: "quote s = Inr q \<Longrightarrow> 37 \<in> set q \<longleftrightarrow> \<not> list_all unreserved s"
proof (erule quote_Inr)
  fix bs assume s: "list_all is_scalar s" and q: "bs = concat (map utf8_cp s)" "q = concat (map quote_byte bs)"
  have "37 \<in> set q \<longleftrightarrow> (\<exists>c \<in> set s. \<exists>b \<in> set (utf8_cp c). \<not> unreserved b)"
    by (auto simp: q percent_quote_byte)
  also have "\<dots> \<longleftrightarrow> (\<exists>c \<in> set s. \<not> unreserved c)"
  proof -
    have "(\<exists>b \<in> set (utf8_cp c). \<not> unreserved b) \<longleftrightarrow> \<not> unreserved c" if "c \<in> set s" for c
      using utf8_cp_unreserved [of c] s that by (auto simp: list_all_iff)
    then show ?thesis by blast
  qed
  finally show "37 \<in> set q \<longleftrightarrow> \<not> list_all unreserved s" by (auto simp: list_all_iff)
qed

lemma show_int_percent: "37 \<notin> set (show_int i)"
proof -
  have "c \<in> set (show_nat n) \<Longrightarrow> 48 \<le> c" for c n
  proof (induction n rule: show_nat.induct)
    case (1 n)
    then show ?case by (cases "n < 10") (auto simp: show_nat_small show_nat_big)
  qed
  then show ?thesis by (force simp: show_int_def split: if_splits)
qed

lemma postgres_url_percent:
  assumes "postgres_url p = Inr u" and "37 \<notin> set (pgs_host p)" and "37 \<notin> set (pgs_db p)"
  shows "lone u" and "37 \<in> set u \<longleftrightarrow> \<not> (list_all unreserved (pgs_username p) \<and> list_all unreserved (pgs_password p))"
proof -
  obtain user pwd where q: "quote (pgs_username p) = Inr user" "quote (pgs_password p) = Inr pwd"
    and u: "u = lit ''postgresql+asyncpg://'' @ user @ lit '':'' @ pwd @ lit ''@'' @ pgs_host p @ lit '':'' @
          show_int (pgs_port p) @ lit ''/'' @ pgs_db p"
    using assms(1) unfolding postgres_url_def by (auto split: sum.splits)
  have plain: "lone (lit ''postgresql+asyncpg://'')" "lone (lit '':'')" "lone (lit ''@'')" "lone (lit ''/'')"
    by (simp_all add: lit_def)
  show "lone u" unfolding u
    by (intro lone_append plain lone_quote [OF q(1)] lone_quote [OF q(2)] lone_plain assms show_int_percent)
  show "37 \<in> set u \<longleftrightarrow> \<not> (list_all unreserved (pgs_username p) \<and> list_all unreserved (pgs_password p))"
    unfolding u using assms(2,3) show_int_percent percent_quote [OF q(1)] percent_quote [OF q(2)]
    by (simp add: lit_def)
qed

section \<open>What a run does\<close>

lemma mig_emit_apply [simp]: "mig_emit e s = (Inr (), s\<lparr>ms_trace := ms_trace s @ [e]\<rparr>)"
  by (simp add: mig_emit_def)

definition log_config_ok :: "mig_env \<Rightarrow> bool" where
  "log_config_ok M \<longleftrightarrow> (case me_config_file M of None \<Rightarrow> True | Some f \<Rightarrow> me_file_config M f = Inr ())"

definition log_events :: "mig_env \<Rightarrow> mig_event list" where
  "log_events M = (case me_config_file M of None \<Rightarrow> [] | Some f \<Rightarrow> [Log_config f])"

lemma env_module_start:
  assumes "log_config_ok M" and "postgres_url p = Inr u"
  shows "env_module M p s = bind_act (set_main_option u) (\<lambda>_.
    if me_offline M then run_migrations_offline M else run_migrations_online M)
    (s\<lparr>ms_trace := ms_trace s @ log_events M\<rparr>)"
  using assms by (cases "me_config_file M") (simp_all add: env_module_def log_config_ok_def log_events_def bind_act_assoc)

text \<open>A user name or password with any character that percent-encoding has to change (a password
  such as p@ss) makes every migration impossible: env.py hands the encoded URL to the
  configuration as it is, the percent sign is taken for the start of an interpolation, and the run
  raises ValueError before it connects.\<close>

theorem encoded_credentials_stop_migrations:
  assumes "log_config_ok M" and "postgres_url p = Inr u" and "37 \<notin> set (pgs_host p)" and "37 \<notin> set (pgs_db p)"
    and "\<not> (list_all unreserved (pgs_username p) \<and> list_all unreserved (pgs_password p))"
  shows "env_module M p s =
    (Inl (ValueError (lit ''invalid interpolation syntax'')), s\<lparr>ms_trace := ms_trace s @ log_events M\<rparr>)"
  using postgres_url_percent [OF assms(2-4)] assms(5)
  by (simp add: env_module_start [OF assms(1,2)] set_main_option_def lone_before_set bind_act_def)

definition sample_migration :: mig_env where
  "sample_migration = \<lparr>me_config_file = Some (lit ''alembic.ini''), me_file_config = (\<lambda>_. Inr ()), me_offline = False,
     me_connection = None, me_options = (\<lambda>_. None), me_connect = (\<lambda>_. Inr ()), me_run = run_ops upgrade,
     me_script = Inr ()\<rparr>"

definition mig_start :: mig_state where
  "mig_start = \<lparr>ms_url = [], ms_schema = [], ms_trace = []\<rparr>"

theorem encoded_credentials_stop_migrations_witness:
  "env_module sample_migration (default_postgres\<lparr>pgs_password := lit ''p@ss''\<rparr>) mig_start =
    (Inl (ValueError (lit ''invalid interpolation syntax'')),
     mig_start\<lparr>ms_trace := ms_trace mig_start @ log_events sample_migration\<rparr>)"
proof -
  let ?p = "default_postgres\<lparr>pgs_password := lit ''p@ss''\<rparr>"
  obtain u where u: "postgres_url ?p = Inr u"
    by (simp add: postgres_url_def default_postgres_def quote_def utf8_def is_scalar_def lit_def)
  show ?thesis
    by (rule encoded_credentials_stop_migrations [OF _ u])
      (simp_all add: log_config_ok_def sample_migration_def default_postgres_def lit_def unreserved_def)
qed

text \<open>With other credentials, the first run on an empty database connects to the URL of the
  settings, creates exactly the tables of the models in one transaction, closes the connection and
  disposes of the engine.\<close>

theorem migrations_create_models:
  assumes "log_config_ok M" and "postgres_url p = Inr u" and "37 \<notin> set (pgs_host p)" and "37 \<notin> set (pgs_db p)"
    and "list_all unreserved (pgs_username p)" and "list_all unreserved (pgs_password p)"
    and "\<not> me_offline M" and "me_connection M = None" and "me_connect M u = Inr ()" and "me_run M = run_ops upgrade"
    and "ms_schema s = []"
  shows "env_module M p s = (Inr (), s\<lparr>ms_url := u, ms_schema := metadata, ms_trace := ms_trace s @ log_events M @
    [Connect u, Configure_connection Own, Begin_tx, Run_migrations, Commit_tx, Close, Dispose]\<rparr>)"
proof -
  have "37 \<notin> set u" "before_set u = Inr u"
    using postgres_url_percent [OF assms(2-4)] assms(5,6) by (simp_all add: lone_before_set)
  moreover have "run_ops upgrade [] = Inr metadata" using upgrade_runs [of "[]"] by (simp add: untouched_def)
  ultimately show ?thesis
    using assms(7-11) by (simp add: env_module_start [OF assms(1,2)] set_main_option_def run_migrations_online_def
      run_async_migrations_def get_main_option_def interpolate_plain do_run_migrations_def migrate_in_tx_def)
qed

theorem migrations_create_models_witness:
  "ms_schema (snd (env_module sample_migration default_postgres mig_start)) = metadata"
proof -
  obtain u where u: "postgres_url default_postgres = Inr u"
    by (simp add: postgres_url_def default_postgres_def quote_def utf8_def is_scalar_def lit_def)
  have run: "env_module sample_migration default_postgres mig_start = (Inr (), mig_start\<lparr>ms_url := u, ms_schema := metadata,
      ms_trace := ms_trace mig_start @ log_events sample_migration @
      [Connect u, Configure_connection Own, Begin_tx, Run_migrations, Commit_tx, Close, Dispose]\<rparr>)"
    by (rule migrations_create_models [OF _ u])
      (simp_all add: log_config_ok_def sample_migration_def default_postgres_def lit_def unreserved_def mig_start_def)
  show ?thesis unfolding run by simp
qed

text \<open>A run is all or nothing: when env.py raises, the schema is the one from before; when it
  returns, it is what the migrations make of that, or, offline, the same. An engine of its own
  never outlives a successful run, and a connection handed in is never closed.\<close>

theorem migration_atomic:
  "case env_module M p s of
     (Inl e, t) \<Rightarrow> ms_schema t = ms_schema s
   | (Inr _, t) \<Rightarrow> if me_offline M then ms_schema t = ms_schema s else me_run M (ms_schema s) = Inr (ms_schema t) \<and>
       (me_connection M = None \<and> last (ms_trace t) = Dispose \<or>
        (\<exists>c. me_connection M = Some c \<and> last (ms_trace t) = Commit_tx))"
  unfolding env_module_def set_main_option_def run_migrations_online_def run_migrations_offline_def
    run_async_migrations_def get_main_option_def do_run_migrations_def migrate_in_tx_def
  by (cases "me_script M") (auto simp: bind_act_def split: option.split sum.split prod.splits)

end
