(* ===== verification/LlmPorts.thy ===== *)
theory LlmPorts
  imports LlmTheorems "HOL-Library.Sublist"
begin

text \<open>
  llm: the use case as application/assess_orders.py writes it, over the ports of
  application/ports.py. The locale states what the two ports promise about the messages sent; the
  use case is verified once against that, for ports that may fail in any other way, and the
  adapters of LlmService are shown to keep the promise.
\<close>

section \<open>Ports\<close>

record 's assess_ports =
  ap_assess :: "listing \<Rightarrow> contractor_profile \<Rightarrow> ('s, assessment) act"
  ap_publish :: "assessment_result \<Rightarrow> ('s, unit) act"

record 's assess_orders =
  uc_ports :: "'s assess_ports"
  uc_profile :: contractor_profile
  uc_threshold :: int
  uc_repr :: "exn \<Rightarrow> ustr"

section \<open>The use case over its ports\<close>

definition try_listing :: "('z runtime_scheme) assess_orders \<Rightarrow> listing \<Rightarrow> ('z runtime_scheme, unit) act" where
  "try_listing A l = bind_act (ap_assess (uc_ports A) l (uc_profile A)) (\<lambda>a.
     let decision = decide a (uc_threshold A) in
     if ld_notify decision
     then bind_act (ap_publish (uc_ports A) (build_result l a)) (\<lambda>_.
       log INFO ''result_published'' [(lit ''order_id'', JStr (ls_id l)),
         (lit ''score'', JInt (as_suitability_score a))])
     else log INFO ''order_skipped'' [(lit ''order_id'', JStr (ls_id l)),
       (lit ''reason'', JStr (reason_text (ld_reason decision)))])"

definition except_listing :: "('z runtime_scheme) assess_orders \<Rightarrow> listing \<Rightarrow> exn \<Rightarrow> ('z runtime_scheme, bool) act" where
  "except_listing A l e = (let entry_for = (\<lambda>m. [(lit ''order_id'', JStr (ls_id l)), (lit ''error'', JStr m)]) in
     case e of
       TransientError m \<Rightarrow> bind_act (log WARNING ''assessment_retry_scheduled'' (entry_for m)) (\<lambda>_. ret False)
     | PermanentError m \<Rightarrow> bind_act (log WARNING ''order_failed'' (entry_for m)) (\<lambda>_. ret True)
     | _ \<Rightarrow> if is_Exception e
         then bind_act (log ERROR ''order_unexpected_error'' (entry_for (uc_repr A e))) (\<lambda>_. ret True)
         else raise e)"

definition listing_done :: "('z runtime_scheme) assess_orders \<Rightarrow> listing \<Rightarrow> ('z runtime_scheme, bool) act" where
  "listing_done A l s = (case try_listing A l s of
     (Inr _, t) \<Rightarrow> (Inr True, t) | (Inl e, t) \<Rightarrow> except_listing A l e t)"

primrec listings_loop :: "('z runtime_scheme) assess_orders \<Rightarrow> listing list \<Rightarrow> ustr list \<Rightarrow>
    ('z runtime_scheme, ustr list) act" where
  "listings_loop A [] retryable = ret retryable"
| "listings_loop A (l # ls) retryable = bind_act (listing_done A l) (\<lambda>done.
     listings_loop A ls (if done then retryable else retryable @ [ls_id l]))"

definition handle_listings :: "('z runtime_scheme) assess_orders \<Rightarrow> listing list \<Rightarrow>
    ('z runtime_scheme, ustr list) act" where
  "handle_listings A ls = listings_loop A ls []"

section \<open>What the ports promise\<close>

text \<open>
  Assessing and logging send nothing; a publication that returns has sent its message once, and one
  that raises at most once. \<open>plausible\<close> is what the assessor promises of an assessment.
\<close>

locale assessing =
  fixes P :: "('z runtime_scheme) assess_ports"
    and sent :: "('z runtime_scheme) \<Rightarrow> 'm list"
    and message :: "assessment_result \<Rightarrow> 'm"
    and plausible :: "assessment \<Rightarrow> bool"
  assumes log_silent: "sent (s\<lparr>rt_log := es\<rparr>) = sent s"
    and assess_silent: "ap_assess P l p s = (r, t) \<Longrightarrow> sent t = sent s"
    and assess_plausible: "ap_assess P l p s = (Inr a, t) \<Longrightarrow> plausible a"
    and publish_sends: "ap_publish P x s = (Inr u, t) \<Longrightarrow> sent t = sent s @ [message x]"
    and publish_fails: "ap_publish P x s = (Inl e, t) \<Longrightarrow> sent t = sent s \<or> sent t = sent s @ [message x]"
begin

text \<open>The verdicts of some of the listings, in their order and with an assessment each that passes.\<close>

definition verdicts_of :: "int \<Rightarrow> listing list \<Rightarrow> (listing \<times> assessment) list \<Rightarrow> bool" where
  "verdicts_of th ls picks \<longleftrightarrow> subseq (map fst picks) ls \<and>
     (\<forall>(l, a) \<in> set picks. ld_notify (decide a th) \<and> plausible a)"

definition sends :: "(listing \<times> assessment) list \<Rightarrow> ('z runtime_scheme) \<Rightarrow> ('z runtime_scheme) \<Rightarrow> bool" where
  "sends picks s t \<longleftrightarrow> sent t = sent s @ map (\<lambda>(l, a). message (build_result l a)) picks"

lemma sends_trans: "sends ps s t \<Longrightarrow> sends qs t u \<Longrightarrow> sends (ps @ qs) s u"
  by (simp add: sends_def)

lemma verdicts_append: "verdicts_of th ls ps \<Longrightarrow> verdicts_of th ks qs \<Longrightarrow> verdicts_of th (ls @ ks) (ps @ qs)"
  by (auto simp: verdicts_of_def intro: list_emb_append_mono)

lemma no_verdict [simp]: "verdicts_of th ls []"
  by (simp add: verdicts_of_def)

lemma except_listing_silent: "except_listing A l e s = (r, t) \<Longrightarrow> sends [] s t"
  by (auto simp: except_listing_def sends_def log_silent split: exn.splits)

lemma try_listing_sends:
  assumes "uc_ports A = P" and run: "try_listing A l s = (r, t)"
  shows "\<exists>picks. verdicts_of (uc_threshold A) [l] picks \<and> sends picks s t"
proof -
  obtain r1 s1 where one: "ap_assess P l (uc_profile A) s = (r1, s1)" by (cases "ap_assess P l (uc_profile A) s")
  note s1 = assess_silent [OF one]
  show ?thesis
  proof (cases r1)
    case (Inl e)
    with one s1 run assms(1) have "sends [] s t" by (auto simp: try_listing_def sends_def)
    then show ?thesis by (intro exI [of _ "[]"]) simp
  next
    case (Inr a)
    show ?thesis
    proof (cases "ld_notify (decide a (uc_threshold A))")
      case False
      with one Inr s1 run assms(1) have "sends [] s t" by (auto simp: try_listing_def sends_def log_silent Let_def)
      then show ?thesis by (intro exI [of _ "[]"]) simp
    next
      case True
      obtain r2 s2 where two: "ap_publish P (build_result l a) s1 = (r2, s2)" by (cases "ap_publish P (build_result l a) s1")
      have "sent t = sent s2"
        using one two Inr True run assms(1) by (cases r2) (auto simp: try_listing_def log_silent Let_def)
      moreover have "sent s2 = sent s1 \<or> sent s2 = sent s1 @ [message (build_result l a)]"
        using two publish_sends publish_fails by (cases r2) auto
      moreover have "verdicts_of (uc_threshold A) [l] [(l, a)]"
        using True assess_plausible one Inr by (simp add: verdicts_of_def)
      ultimately show ?thesis
        using s1 by (elim disjE; intro exI [of _ "[]"] exI [of _ "[(l, a)]"]) (simp_all add: sends_def)
    qed
  qed
qed

lemma listing_done_sends:
  assumes "uc_ports A = P" and "listing_done A l s = (r, t)"
  shows "\<exists>picks. verdicts_of (uc_threshold A) [l] picks \<and> sends picks s t"
proof -
  obtain r1 s1 where one: "try_listing A l s = (r1, s1)" by (cases "try_listing A l s")
  then obtain picks where p: "verdicts_of (uc_threshold A) [l] picks" "sends picks s s1"
    using try_listing_sends [OF assms(1)] by blast
  have "sends [] s1 t"
    using one assms(2) except_listing_silent by (cases r1) (auto simp: listing_done_def sends_def)
  with p sends_trans [OF p(2)] show ?thesis by force
qed

lemma loop_sends:
  assumes "uc_ports A = P"
  shows "listings_loop A ls acc s = (r, t) \<Longrightarrow>
    \<exists>picks. verdicts_of (uc_threshold A) ls picks \<and> sends picks s t"
proof (induction ls arbitrary: acc s)
  case Nil
  then show ?case by (intro exI [of _ "[]"]) (simp add: sends_def)
next
  case (Cons l ls)
  obtain r1 s1 where one: "listing_done A l s = (r1, s1)" by (cases "listing_done A l s")
  obtain ps where ps: "verdicts_of (uc_threshold A) [l] ps" "sends ps s s1"
    using listing_done_sends [OF assms one] by blast
  show ?case
  proof (cases r1)
    case (Inl e)
    with Cons.prems one ps verdicts_append [OF ps(1) no_verdict, of ls] show ?thesis
      by (intro exI [of _ ps]) simp
  next
    case (Inr ok)
    with Cons.prems one obtain qs where "verdicts_of (uc_threshold A) ls qs" "sends qs s1 t"
      using Cons.IH by auto
    with ps verdicts_append [OF ps(1), of ls qs] sends_trans [OF ps(2), of qs t] show ?thesis
      by (intro exI [of _ "ps @ qs"]) simp
  qed
qed

text \<open>Whatever fails, at most one verdict per listing is sent, in the order of the listings.\<close>

lemma handle_sends:
  "uc_ports A = P \<Longrightarrow> handle_listings A ls s = (r, t) \<Longrightarrow>
    \<exists>picks. verdicts_of (uc_threshold A) ls picks \<and> sends picks s t"
  unfolding handle_listings_def by (rule loop_sends)

end

section \<open>Which listings come back\<close>

text \<open>Only a cancellation leaves the loop; what it returns are identifiers of listings, in their order.\<close>

lemma except_listing_raises: "except_listing A l e s = (Inl x, t) \<Longrightarrow> x = CancelledError"
  by (auto simp: except_listing_def split: exn.splits)

lemma listing_done_raises: "listing_done A l s = (Inl x, t) \<Longrightarrow> x = CancelledError"
  by (auto simp: listing_done_def dest: except_listing_raises split: prod.splits sum.splits)

lemma loop_returns:
  "listings_loop A ls acc s = (r, t) \<Longrightarrow>
    (case r of Inl e \<Rightarrow> e = CancelledError | Inr ids \<Rightarrow> \<exists>new. ids = acc @ new \<and> subseq new (map ls_id ls))"
proof (induction ls arbitrary: acc s)
  case (Cons l ls)
  obtain r1 s1 where one: "listing_done A l s = (r1, s1)" by (cases "listing_done A l s")
  show ?case
  proof (cases r1)
    case (Inl e)
    with Cons.prems one listing_done_raises [of A l s e s1] show ?thesis by auto
  next
    case (Inr ok)
    with Cons.prems one have "listings_loop A ls (if ok then acc else acc @ [ls_id l]) s1 = (r, t)" by simp
    note ih = Cons.IH [OF this]
    show ?thesis
    proof (cases r)
      case (Inr ids)
      with ih obtain new where "ids = (if ok then acc else acc @ [ls_id l]) @ new" "subseq new (map ls_id ls)" by auto
      then show ?thesis using Inr
        by (cases ok) (auto intro: exI [of _ "ls_id l # new"])
    qed (use ih in simp)
  qed
qed auto

lemma handle_returns:
  "handle_listings A ls s = (r, t) \<Longrightarrow>
    (case r of Inl e \<Rightarrow> e = CancelledError | Inr ids \<Rightarrow> subseq ids (map ls_id ls))"
  using loop_returns [of A ls "[]" s r t] by (cases r) (simp_all add: handle_listings_def)

section \<open>The adapters\<close>

definition llm_ports :: "llm_world \<Rightarrow> llm_config \<Rightarrow> ('z llm_state_scheme) assess_ports" where
  "llm_ports W C = \<lparr>ap_assess = (\<lambda>l profile. assess W profile l),
     ap_publish = result_publish (lw_bus W) (lc_result C)\<rparr>"

definition llm_use_case :: "llm_world \<Rightarrow> llm_config \<Rightarrow> ('z llm_state_scheme) assess_orders" where
  "llm_use_case W C = \<lparr>uc_ports = llm_ports W C, uc_profile = lc_profile C, uc_threshold = lc_threshold C,
     uc_repr = lw_repr W\<rparr>"

definition verdict_message :: "llm_config \<Rightarrow> assessment_result \<Rightarrow> publisher \<times> json" where
  "verdict_message C r = (lc_result C, dump_llm_result (from_result r))"

definition score_in_range :: "assessment \<Rightarrow> bool" where
  "score_in_range a \<longleftrightarrow> 0 \<le> as_suitability_score a \<and> as_suitability_score a \<le> 100"

lemma llm_assess_law:
  assumes "ap_assess (llm_ports W C) l p s = (r, t)"
  shows "rt_out t = rt_out s" and "r = Inr a \<Longrightarrow> score_in_range a"
  using assms by (auto simp: llm_ports_def assess_def score_in_range_def dest: verdict_range)

lemma llm_publish_law:
  assumes "ap_publish (llm_ports W C) x s = (r, t)"
  shows "r = Inr u \<Longrightarrow> rt_out t = rt_out s @ [verdict_message C x]"
    and "rt_out t = rt_out s \<or> rt_out t = rt_out s @ [verdict_message C x]"
  using assms by (cases r; auto simp: llm_ports_def result_publish_def verdict_message_def
      dest: publish_Inr publish_Inl)+

interpretation llm_uc: assessing "llm_ports W C :: ('z llm_state_scheme) assess_ports" rt_out "verdict_message C"
    score_in_range
  for W :: llm_world and C :: llm_config
proof unfold_locales
  fix l p r t a x u e es and s :: "'z llm_state_scheme"
  show "rt_out (s\<lparr>rt_log := es\<rparr>) = rt_out s" by simp
  show "rt_out t = rt_out s" if "ap_assess (llm_ports W C) l p s = (r, t)" by (rule llm_assess_law(1) [OF that])
  show "score_in_range a" if "ap_assess (llm_ports W C) l p s = (Inr a, t)" by (rule llm_assess_law(2) [OF that refl])
  show "rt_out t = rt_out s @ [verdict_message C x]" if "ap_publish (llm_ports W C) x s = (Inr u, t)"
    by (rule llm_publish_law(1) [OF that refl])
  show "rt_out t = rt_out s \<or> rt_out t = rt_out s @ [verdict_message C x]"
    if "ap_publish (llm_ports W C) x s = (Inl e, t)" by (rule llm_publish_law(2) [OF that])
qed

text \<open>The use case of LlmService is this one, over the adapters.\<close>

lemma assess_one_ports: "assess_one W C = listing_done (llm_use_case W C)"
proof (intro ext)
  fix l s
  have body: "try_listing (llm_use_case W C) l = bind_act (assess W (lc_profile C) l) (\<lambda>a.
      let decision = decide a (lc_threshold C) in
      if ld_notify decision
      then bind_act (result_publish (lw_bus W) (lc_result C) (build_result l a)) (\<lambda>_.
        log INFO ''result_published'' [(lit ''order_id'', JStr (ls_id l)),
          (lit ''score'', JInt (as_suitability_score a))])
      else log INFO ''order_skipped'' [(lit ''order_id'', JStr (ls_id l)),
        (lit ''reason'', JStr (reason_text (ld_reason decision)))])"
    by (simp add: try_listing_def llm_use_case_def llm_ports_def Let_def cong: if_cong)
  show "assess_one W C l s = listing_done (llm_use_case W C) l s"
    unfolding assess_one_def listing_done_def body
    by (simp add: except_listing_def llm_use_case_def split: prod.split sum.split exn.split)
qed

lemma loop_ports: "assess_loop W C ls acc = listings_loop (llm_use_case W C) ls acc"
  by (induction ls arbitrary: acc) (simp_all add: assess_one_ports)

lemma handle_ports: "AssessOrders_handle W C = handle_listings (llm_use_case W C)"
  unfolding AssessOrders_handle_def handle_listings_def loop_ports ..

section \<open>What llm sends for a batch\<close>



end
