(* ===== verification/AuthDomain.thy ===== *)
theory AuthDomain
  imports Json "HOL-Library.AList" "HOL-Library.List_Lexorder" "HOL-Library.Product_Lexorder"
begin

text \<open>
  auth-worker: the cookies of the session and the tokens among them (internal/domain of auth-worker).
  A Go string is a list of code points, whose order is that of its bytes; an \<open>int64\<close> is a word, so
  that a difference of times wraps around. A Go map is an association list: where the code ranges
  over one, the order does not matter. SHA-256, the claims that \<open>json.Unmarshal\<close> reads from bytes, and
  the conversions between floats and integers are parameters.
\<close>

section \<open>Cookies\<close>

type_synonym int64 = "64 word"

datatype same_site = SameSiteUnspecified | SameSiteNone | SameSiteLax | SameSiteStrict

record cookie =
  ak_name :: ustr
  ak_value :: ustr
  ak_domain :: ustr
  ak_path :: ustr
  ak_secure :: bool
  ak_http_only :: bool
  ak_host_only :: bool
  ak_session :: bool
  ak_same_site :: same_site
  ak_expires_at :: int64

definition IsSession :: "cookie \<Rightarrow> bool" where
  "IsSession c \<longleftrightarrow> ak_session c \<or> ak_expires_at c = 0"

definition SameIdentity :: "cookie \<Rightarrow> cookie \<Rightarrow> bool" where
  "SameIdentity c other \<longleftrightarrow> ak_name c = ak_name other \<and> ak_domain c = ak_domain other \<and> ak_path c = ak_path other"

definition SameValue :: "cookie \<Rightarrow> cookie \<Rightarrow> bool" where
  "SameValue c other \<longleftrightarrow> SameIdentity c other \<and> ak_value c = ak_value other"

section \<open>The jar\<close>

type_synonym jar = "cookie list"

primrec jar_set :: "cookie \<Rightarrow> jar \<Rightarrow> jar" where
  "jar_set c [] = [c]"
| "jar_set c (d # ds) = (if SameIdentity d c then c # ds else d # jar_set c ds)"

definition NewJar :: "cookie list \<Rightarrow> jar" where
  "NewJar cs = fold jar_set cs []"

section \<open>Tokens\<close>

record auth_lib =
  al_sha256 :: "ustr \<Rightarrow> ustr"
  al_claims :: "nat list \<Rightarrow> (float64 option \<times> ustr) option"
  al_int64 :: "float64 \<Rightarrow> int64"
  al_float :: "int64 \<Rightarrow> float64"
  al_number :: "int \<Rightarrow> float64"

definition token_cookie_names :: "ustr list" where
  "token_cookie_names = [lit ''prfr_bo_tkn'']"

definition auth_cookie_names :: "ustr list" where
  "auth_cookie_names = map lit [''prfr_tkn'', ''prfr_bo_tkn'', ''sid'', ''sl-session'', ''prfr_q_uuid'', ''prfr_q_val'', ''uid'']"

definition IsTokenCookie :: "ustr \<Rightarrow> bool" where
  "IsTokenCookie name \<longleftrightarrow> name \<in> set token_cookie_names"

definition IsAuthCookie :: "ustr \<Rightarrow> bool" where
  "IsAuthCookie name \<longleftrightarrow> name \<in> set auth_cookie_names"

record token_info =
  ti_name :: ustr
  ti_expiration :: int64
  ti_fingerprint :: ustr
  ti_status :: ustr
  ti_cookie :: cookie

record token_detail =
  td_name :: ustr
  td_domain :: ustr
  td_path :: ustr
  td_jwt_exp :: "int64 option"
  td_jwt_ttl :: "int64 option"
  td_cookie_expires :: "int64 option"
  td_fingerprint :: ustr

definition Fingerprint :: "auth_lib \<Rightarrow> ustr \<Rightarrow> ustr" where
  "Fingerprint L value = take 12 (al_sha256 L value)"

text \<open>\<open>strings.Split(token, ".")\<close>\<close>

fun split_dots :: "ustr \<Rightarrow> ustr list" where
  "split_dots [] = [[]]"
| "split_dots (c # cs) = (if c = 46 then [] # split_dots cs
     else (case split_dots cs of [] \<Rightarrow> [[c]] | p # ps \<Rightarrow> (c # p) # ps))"

text \<open>
  \<open>base64.URLEncoding.DecodeString\<close>: the URL alphabet, padded, with line breaks ignored anywhere; the
  bits left over before the padding are not checked.
\<close>

definition b64_digit :: "nat \<Rightarrow> nat option" where
  "b64_digit c = (if 65 \<le> c \<and> c \<le> 90 then Some (c - 65) else if 97 \<le> c \<and> c \<le> 122 then Some (c - 71)
     else if 48 \<le> c \<and> c \<le> 57 then Some (c + 4) else if c = 45 then Some 62 else if c = 95 then Some 63 else None)"

fun b64_quads :: "ustr \<Rightarrow> nat list option" where
  "b64_quads [] = Some []"
| "b64_quads (a # b # c # d # rest) = (case (b64_digit a, b64_digit b) of
     (Some w, Some x) \<Rightarrow>
       if c = 61 \<and> d = 61 then (if rest = [] then Some [4 * w + x div 16] else None)
       else (case b64_digit c of
         None \<Rightarrow> None
       | Some y \<Rightarrow>
           if d = 61 then (if rest = [] then Some [4 * w + x div 16, 16 * (x mod 16) + y div 4] else None)
           else (case b64_digit d of
             None \<Rightarrow> None
           | Some z \<Rightarrow> map_option (\<lambda>bs. [4 * w + x div 16, 16 * (x mod 16) + y div 4, 64 * (y mod 4) + z] @ bs)
               (b64_quads rest)))
   | _ \<Rightarrow> None)"
| "b64_quads _ = None"

definition decode_b64 :: "ustr \<Rightarrow> nat list option" where
  "decode_b64 s = b64_quads (filter (\<lambda>c. c \<noteq> 10 \<and> c \<noteq> 13) s)"

definition decodeJWTClaims :: "auth_lib \<Rightarrow> ustr \<Rightarrow> (float64 option \<times> ustr) option" where
  "decodeJWTClaims L segment = (let r = length segment mod 4 in
     Option.bind (decode_b64 (if r \<noteq> 0 then segment @ replicate (4 - r) 61 else segment)) (al_claims L))"

definition DecodeJWTExp :: "auth_lib \<Rightarrow> ustr \<Rightarrow> int64 option" where
  "DecodeJWTExp L token = (case split_dots token of
     [_, segment, _] \<Rightarrow> (case decodeJWTClaims L segment of Some (Some e, _) \<Rightarrow> Some (al_int64 L e) | _ \<Rightarrow> None)
   | _ \<Rightarrow> None)"

definition TokenStatus :: "auth_lib \<Rightarrow> ustr \<Rightarrow> ustr option" where
  "TokenStatus L token = (case split_dots token of
     [_, segment, _] \<Rightarrow> map_option snd (decodeJWTClaims L segment)
   | _ \<Rightarrow> None)"

type_synonym tokens = "(ustr \<times> token_info) list"

definition token_info_of :: "auth_lib \<Rightarrow> cookie \<Rightarrow> int64 \<Rightarrow> token_info" where
  "token_info_of L c e = \<lparr>ti_name = ak_name c, ti_expiration = e, ti_fingerprint = Fingerprint L (ak_value c),
     ti_status = (case TokenStatus L (ak_value c) of Some s \<Rightarrow> s | None \<Rightarrow> []), ti_cookie = c\<rparr>"

definition latest_step :: "auth_lib \<Rightarrow> cookie \<Rightarrow> tokens \<Rightarrow> tokens" where
  "latest_step L c latest = (if \<not> IsTokenCookie (ak_name c) then latest
     else (case DecodeJWTExp L (ak_value c) of
       None \<Rightarrow> latest
     | Some e \<Rightarrow> (case map_of latest (ak_name c) of
           None \<Rightarrow> AList.update (ak_name c) (token_info_of L c e) latest
         | Some current \<Rightarrow> if ti_expiration current <s e then AList.update (ak_name c) (token_info_of L c e) latest
             else latest)))"

definition LatestTokens :: "auth_lib \<Rightarrow> jar \<Rightarrow> tokens" where
  "LatestTokens L j = fold (latest_step L) j []"

definition AllTouched :: "auth_lib \<Rightarrow> jar \<Rightarrow> bool" where
  "AllTouched L j = (let latest = LatestTokens L j in
     latest \<noteq> [] \<and> list_all (\<lambda>(_, t). ti_status t = lit ''touched'') latest)"

definition max_int64 :: int64 where
  "max_int64 = 9223372036854775807"

definition TokenTTL :: "auth_lib \<Rightarrow> jar \<Rightarrow> int64 \<Rightarrow> int64 option" where
  "TokenTTL L j now = (let latest = LatestTokens L j in
     if latest = [] then None
     else Some (fold (\<lambda>(_, t) shortest. let remaining = ti_expiration t - now in
       if remaining <s shortest then remaining else shortest) latest max_int64))"

definition token_detail_of :: "auth_lib \<Rightarrow> int64 \<Rightarrow> cookie \<Rightarrow> token_detail" where
  "token_detail_of L now c = \<lparr>td_name = ak_name c, td_domain = ak_domain c, td_path = ak_path c,
     td_jwt_exp = DecodeJWTExp L (ak_value c), td_jwt_ttl = map_option (\<lambda>e. e - now) (DecodeJWTExp L (ak_value c)),
     td_cookie_expires = (if ak_expires_at c \<noteq> 0 then Some (ak_expires_at c) else None),
     td_fingerprint = Fingerprint L (ak_value c)\<rparr>"

text \<open>\<open>sort.Slice\<close> by name, domain and path, which tell the cookies of a jar apart.\<close>

definition TokenDetails :: "auth_lib \<Rightarrow> jar \<Rightarrow> int64 \<Rightarrow> token_detail list" where
  "TokenDetails L j now = sort_key (\<lambda>d. (td_name d, td_domain d, td_path d))
     (map (token_detail_of L now) (filter (\<lambda>c. IsTokenCookie (ak_name c)) j))"

definition NeedsRefresh :: "int64 option \<Rightarrow> int64 \<Rightarrow> bool" where
  "NeedsRefresh ttl threshold = (case ttl of None \<Rightarrow> True | Some t \<Rightarrow> t <=s threshold)"

definition ChangedTokens :: "tokens \<Rightarrow> tokens \<Rightarrow> ustr list" where
  "ChangedTokens before after = sort (filter (\<lambda>name. case map_of after name of
     None \<Rightarrow> False
   | Some next \<Rightarrow> (case map_of before name of None \<Rightarrow> True
       | Some previous \<Rightarrow> ti_fingerprint previous \<noteq> ti_fingerprint next \<or> ti_expiration previous \<noteq> ti_expiration next))
     token_cookie_names)"

definition isStaleDuplicate :: "tokens \<Rightarrow> cookie \<Rightarrow> bool" where
  "isStaleDuplicate latest c = (IsTokenCookie (ak_name c) \<and>
     (case map_of latest (ak_name c) of None \<Rightarrow> False | Some newest \<Rightarrow> \<not> SameValue (ti_cookie newest) c))"

text \<open>What the jar keeps, and what is removed.\<close>

definition RemoveOldTokenDuplicates :: "auth_lib \<Rightarrow> jar \<Rightarrow> jar \<times> cookie list" where
  "RemoveOldTokenDuplicates L j = (let latest = LatestTokens L j in
     (filter (\<lambda>c. \<not> isStaleDuplicate latest c) j, filter (isStaleDuplicate latest) j))"

section \<open>Errors and states\<close>

datatype auth_error =
    CookieFileError ustr
  | AuthExpiredError ustr
  | RenewFailedError ustr "int64 option" "token_detail list"
  | RenewNetworkError ustr bool
  | GoError ustr

datatype auth_status = StatusOK | StatusRenewFailed | StatusRequiresLogin | StatusMissingCookies
  | StatusNetworkTimeout | StatusNetworkError | StatusError

primrec status_string :: "auth_status \<Rightarrow> ustr" where
  "status_string StatusOK = lit ''ok''"
| "status_string StatusRenewFailed = lit ''renew_failed''"
| "status_string StatusRequiresLogin = lit ''requires_login''"
| "status_string StatusMissingCookies = lit ''missing_or_invalid_cookies''"
| "status_string StatusNetworkTimeout = lit ''network_timeout''"
| "status_string StatusNetworkError = lit ''network_error''"
| "status_string StatusError = lit ''error''"

record status_report =
  sr_status :: auth_status
  sr_updated_at :: int64
  sr_token_ttl :: "int64 option"
  sr_refreshed :: bool
  sr_error :: ustr
  sr_tokens :: "token_detail list"

end
