(* ===== verification/AuthStore.thy ===== *)
theory AuthStore
  imports AuthDomain
begin

text \<open>
  auth-worker: the cookie file (internal/adapter/cookiefile), in the format of a browser's export. A
  file is what \<open>encoding/json\<close> makes of its bytes: its errors and the values of a document, whose
  members it matches without regard to case, where a \<open>null\<close> leaves a field as it is.
\<close>

section \<open>Reading JSON into structs\<close>

datatype file_text = Blank_text | Bad_text ustr | Json_text json

text \<open>The only other code points that fold to ASCII letters are the long s and the Kelvin sign.\<close>

definition fold_key :: "ustr \<Rightarrow> ustr" where
  "fold_key = map (\<lambda>c. if 65 \<le> c \<and> c \<le> 90 then c + 32 else if c = 0x17f then 115 else if c = 0x212a then 107 else c)"

definition go_string :: "ustr \<Rightarrow> json \<Rightarrow> ustr option" where
  "go_string old j = (case j of JStr s \<Rightarrow> Some s | JNull \<Rightarrow> Some old | _ \<Rightarrow> None)"

definition go_bool :: "bool \<Rightarrow> json \<Rightarrow> bool option" where
  "go_bool old j = (case j of JBool b \<Rightarrow> Some b | JNull \<Rightarrow> Some old | _ \<Rightarrow> None)"

definition go_float :: "auth_lib \<Rightarrow> json \<Rightarrow> float64 option option" where
  "go_float L j = (case j of JFloat f \<Rightarrow> Some (Some f) | JInt i \<Rightarrow> Some (Some (al_number L i)) | JNull \<Rightarrow> Some None | _ \<Rightarrow> None)"

record browser_cookie =
  bk_domain :: ustr
  bk_host_only :: bool
  bk_http_only :: bool
  bk_name :: ustr
  bk_path :: ustr
  bk_same_site :: ustr
  bk_secure :: bool
  bk_session :: bool
  bk_store_id :: ustr
  bk_value :: ustr
  bk_expiration :: "float64 option"

definition zero_cookie :: browser_cookie where
  "zero_cookie = \<lparr>bk_domain = [], bk_host_only = False, bk_http_only = False, bk_name = [], bk_path = [], bk_same_site = [],
     bk_secure = False, bk_session = False, bk_store_id = [], bk_value = [], bk_expiration = None\<rparr>"

definition read_member :: "auth_lib \<Rightarrow> ustr \<times> json \<Rightarrow> browser_cookie \<Rightarrow> browser_cookie option" where
  "read_member L m b = (let k = fold_key (fst m); v = snd m in
     if k = lit ''domain'' then map_option (\<lambda>x. b\<lparr>bk_domain := x\<rparr>) (go_string (bk_domain b) v)
     else if k = lit ''hostonly'' then map_option (\<lambda>x. b\<lparr>bk_host_only := x\<rparr>) (go_bool (bk_host_only b) v)
     else if k = lit ''httponly'' then map_option (\<lambda>x. b\<lparr>bk_http_only := x\<rparr>) (go_bool (bk_http_only b) v)
     else if k = lit ''name'' then map_option (\<lambda>x. b\<lparr>bk_name := x\<rparr>) (go_string (bk_name b) v)
     else if k = lit ''path'' then map_option (\<lambda>x. b\<lparr>bk_path := x\<rparr>) (go_string (bk_path b) v)
     else if k = lit ''samesite'' then map_option (\<lambda>x. b\<lparr>bk_same_site := x\<rparr>) (go_string (bk_same_site b) v)
     else if k = lit ''secure'' then map_option (\<lambda>x. b\<lparr>bk_secure := x\<rparr>) (go_bool (bk_secure b) v)
     else if k = lit ''session'' then map_option (\<lambda>x. b\<lparr>bk_session := x\<rparr>) (go_bool (bk_session b) v)
     else if k = lit ''storeid'' then map_option (\<lambda>x. b\<lparr>bk_store_id := x\<rparr>) (go_string (bk_store_id b) v)
     else if k = lit ''value'' then map_option (\<lambda>x. b\<lparr>bk_value := x\<rparr>) (go_string (bk_value b) v)
     else if k = lit ''expirationdate'' then map_option (\<lambda>x. b\<lparr>bk_expiration := x\<rparr>) (go_float L v)
     else Some b)"

definition go_cookie :: "auth_lib \<Rightarrow> json \<Rightarrow> browser_cookie option" where
  "go_cookie L j = (case j of JNull \<Rightarrow> Some zero_cookie
     | JObj ms \<Rightarrow> fold (\<lambda>m b. Option.bind b (read_member L m)) ms (Some zero_cookie) | _ \<Rightarrow> None)"

definition go_cookies :: "auth_lib \<Rightarrow> json \<Rightarrow> browser_cookie list option" where
  "go_cookies L j = (case j of JNull \<Rightarrow> Some [] | JList js \<Rightarrow> those (map (go_cookie L) js) | _ \<Rightarrow> None)"

section \<open>The export format\<close>

record browser_export =
  ex_url :: ustr
  ex_cookies :: "browser_cookie list"

definition go_or_default :: "ustr \<Rightarrow> ustr \<Rightarrow> ustr" where
  "go_or_default value fallback = (if value = [] then fallback else value)"

definition defaultURL :: ustr where "defaultURL = lit ''https://profi.ru''"
definition defaultDomain :: ustr where "defaultDomain = lit ''.profi.ru''"
definition defaultPath :: ustr where "defaultPath = lit ''/''"

text \<open>\<open>strings.ToLower\<close>, as far as it makes ASCII letters.\<close>

definition go_lower :: "ustr \<Rightarrow> ustr" where
  "go_lower = map (\<lambda>c. if 65 \<le> c \<and> c \<le> 90 then c + 32 else if c = 0x130 then 105 else if c = 0x212a then 107 else c)"

definition sameSiteFromBrowser :: "ustr \<Rightarrow> same_site" where
  "sameSiteFromBrowser value = (let v = go_lower value in
     if v = lit ''no_restriction'' \<or> v = lit ''none'' then SameSiteNone
     else if v = lit ''lax'' then SameSiteLax
     else if v = lit ''strict'' then SameSiteStrict
     else SameSiteUnspecified)"

primrec sameSiteToBrowser :: "same_site \<Rightarrow> ustr" where
  "sameSiteToBrowser SameSiteNone = lit ''no_restriction''"
| "sameSiteToBrowser SameSiteLax = lit ''lax''"
| "sameSiteToBrowser SameSiteStrict = lit ''strict''"
| "sameSiteToBrowser SameSiteUnspecified = lit ''unspecified''"

definition toDomain :: "auth_lib \<Rightarrow> browser_cookie \<Rightarrow> cookie option" where
  "toDomain L b = (if bk_name b = [] then None
     else Some \<lparr>ak_name = bk_name b, ak_value = bk_value b, ak_domain = go_or_default (bk_domain b) defaultDomain,
       ak_path = go_or_default (bk_path b) defaultPath, ak_secure = bk_secure b, ak_http_only = bk_http_only b,
       ak_host_only = bk_host_only b, ak_session = bk_session b, ak_same_site = sameSiteFromBrowser (bk_same_site b),
       ak_expires_at = (case bk_expiration b of Some f \<Rightarrow> if \<not> bk_session b then al_int64 L f else 0 | None \<Rightarrow> 0)\<rparr>)"

definition browserCookieFrom :: "auth_lib \<Rightarrow> cookie \<Rightarrow> browser_cookie" where
  "browserCookieFrom L c = \<lparr>bk_domain = ak_domain c, bk_host_only = ak_host_only c, bk_http_only = ak_http_only c,
     bk_name = ak_name c, bk_path = go_or_default (ak_path c) defaultPath, bk_same_site = sameSiteToBrowser (ak_same_site c),
     bk_secure = ak_secure c, bk_session = IsSession c, bk_store_id = lit ''0'', bk_value = ak_value c,
     bk_expiration = (if \<not> IsSession c \<and> ak_expires_at c \<noteq> 0 then Some (al_float L (ak_expires_at c)) else None)\<rparr>"

definition exportFrom :: "auth_lib \<Rightarrow> jar \<Rightarrow> ustr \<Rightarrow> browser_export" where
  "exportFrom L j url = \<lparr>ex_url = url,
     ex_cookies = sort_key (\<lambda>b. (bk_domain b, bk_path b, bk_name b)) (map (browserCookieFrom L) j)\<rparr>"

definition cookie_json :: "browser_cookie \<Rightarrow> json" where
  "cookie_json b = JObj ([(lit ''domain'', JStr (bk_domain b)), (lit ''hostOnly'', JBool (bk_host_only b)),
     (lit ''httpOnly'', JBool (bk_http_only b)), (lit ''name'', JStr (bk_name b)), (lit ''path'', JStr (bk_path b)),
     (lit ''sameSite'', JStr (bk_same_site b)), (lit ''secure'', JBool (bk_secure b)), (lit ''session'', JBool (bk_session b)),
     (lit ''storeId'', JStr (bk_store_id b)), (lit ''value'', JStr (bk_value b))] @
     (case bk_expiration b of Some f \<Rightarrow> [(lit ''expirationDate'', JFloat f)] | None \<Rightarrow> []))"

definition export_json :: "browser_export \<Rightarrow> json" where
  "export_json x = JObj [(lit ''url'', JStr (ex_url x)), (lit ''cookies'', JList (map cookie_json (ex_cookies x)))]"

section \<open>The file\<close>

text \<open>\<open>type_error\<close> is the text of the error for a document of another shape.\<close>

definition invalidJSON :: "ustr \<Rightarrow> auth_error" where
  "invalidJSON e = CookieFileError (lit ''invalid JSON in cookie file: '' @ e)"

definition parseCookieArray :: "auth_lib \<Rightarrow> (json \<Rightarrow> ustr) \<Rightarrow> json \<Rightarrow> auth_error + browser_export" where
  "parseCookieArray L type_error j = (case go_cookies L j of
     None \<Rightarrow> Inl (invalidJSON (type_error j))
   | Some cs \<Rightarrow> Inr \<lparr>ex_url = defaultURL, ex_cookies = cs\<rparr>)"

text \<open>The members of the object: the URL, and the cookies as they stand.\<close>

definition raw_member :: "ustr \<times> json \<Rightarrow> ustr \<times> json option \<Rightarrow> (ustr \<times> json option) option" where
  "raw_member m raw = (let k = fold_key (fst m) in
     if k = lit ''url'' then map_option (\<lambda>u. (u, snd raw)) (go_string (fst raw) (snd m))
     else if k = lit ''cookies'' then Some (fst raw, Some (snd m))
     else Some raw)"

definition parseCookieObject :: "auth_lib \<Rightarrow> (json \<Rightarrow> ustr) \<Rightarrow> json \<Rightarrow> auth_error + browser_export" where
  "parseCookieObject L type_error j = (case (case j of JNull \<Rightarrow> Some ([], None)
       | JObj ms \<Rightarrow> fold (\<lambda>m r. Option.bind r (raw_member m)) ms (Some ([], None)) | _ \<Rightarrow> None) of
     None \<Rightarrow> Inl (invalidJSON (type_error j))
   | Some (url, None) \<Rightarrow> Inl (CookieFileError (lit ''cookie file has no '' @ [34] @ lit ''cookies'' @ [34] @ lit '' array''))
   | Some (url, Some raw) \<Rightarrow> (case go_cookies L raw of
         None \<Rightarrow> Inl (CookieFileError ([34] @ lit ''cookies'' @ [34] @ lit '' must be an array''))
       | Some cs \<Rightarrow> Inr \<lparr>ex_url = go_or_default url defaultURL, ex_cookies = cs\<rparr>))"

definition parseExport :: "auth_lib \<Rightarrow> (json \<Rightarrow> ustr) \<Rightarrow> file_text \<Rightarrow> auth_error + browser_export" where
  "parseExport L type_error text = (case text of
     Blank_text \<Rightarrow> Inl (CookieFileError (lit ''cookie file is empty''))
   | Bad_text e \<Rightarrow> Inl (invalidJSON e)
   | Json_text j \<Rightarrow> (case j of JList _ \<Rightarrow> parseCookieArray L type_error j | _ \<Rightarrow> parseCookieObject L type_error j))"

definition jarFromExport :: "auth_lib \<Rightarrow> browser_export \<Rightarrow> jar" where
  "jarFromExport L x = NewJar (List.map_filter (toDomain L) (ex_cookies x))"

text \<open>\<open>Load\<close>, given the error of \<open>os.ReadFile\<close>, if any, and the file, if it is there.\<close>

definition store_load :: "auth_lib \<Rightarrow> (json \<Rightarrow> ustr) \<Rightarrow> ustr \<Rightarrow> ustr option \<Rightarrow> file_text option \<Rightarrow> auth_error + jar \<times> ustr" where
  "store_load L type_error path fault file = (case fault of
     Some e \<Rightarrow> Inl (CookieFileError (lit ''could not read cookie file: '' @ e))
   | None \<Rightarrow> (case file of
       None \<Rightarrow> Inl (CookieFileError (lit ''cookie file not found: '' @ path))
     | Some text \<Rightarrow> (case parseExport L type_error text of
         Inl e \<Rightarrow> Inl e
       | Inr x \<Rightarrow> (let j = jarFromExport L x in
           if j = [] then Inl (CookieFileError (lit ''cookies.json contains no valid cookies'')) else Inr (j, ex_url x)))))"

definition saved_text :: "auth_lib \<Rightarrow> jar \<Rightarrow> ustr \<Rightarrow> file_text" where
  "saved_text L j url = Json_text (export_json (exportFrom L j url))"

end
