(* ===== verification/AuthRefresh.thy ===== *)
theory AuthRefresh
  imports AuthStore
begin

text \<open>
  auth-worker at work: the renewal over HTTP (internal/adapter/httprenew), the use cases
  (internal/usecase), the status file (internal/adapter/statusfile) and the gRPC server's answers
  (internal/adapter/grpcserver). The clock, the lock, the disk and the site are parameters; the log is
  not part of the state.
\<close>

section \<open>World and state\<close>

datatype http_same_site = HttpDefaultMode | HttpLaxMode | HttpStrictMode | HttpNoneMode

record set_cookie =
  hc_name :: ustr
  hc_value :: ustr
  hc_domain :: ustr
  hc_path :: ustr
  hc_secure :: bool
  hc_http_only :: bool
  hc_same_site :: http_same_site
  hc_max_age :: int64
  hc_expires :: "int64 option"

record http_response =
  hr_code :: nat
  hr_cookies :: "set_cookie list"
  hr_location :: ustr
  hr_retry_after :: ustr

record renew_request =
  rr_url :: ustr
  rr_headers :: "(ustr \<times> ustr) list"

text \<open>A request that cannot be built, one that fails (and whether by a timeout), and an answer.\<close>

datatype renew_outcome =
    Bad_request ustr
  | Transport_failed ustr bool
  | Response http_response

text \<open>
  Each function is asked by the number of the call. A publication of the file is atomic: an error of
  \<open>atomicjson.Write\<close> leaves the old file (see AuthFile).
\<close>

record auth_world =
  aw_lib :: auth_lib
  aw_type_error :: "json \<Rightarrow> ustr"
  aw_now :: "nat \<Rightarrow> int64"
  aw_lock :: "nat \<Rightarrow> ustr option"
  aw_read :: "nat \<Rightarrow> ustr option"
  aw_write :: "nat \<Rightarrow> ustr option"
  aw_http :: "nat \<Rightarrow> renew_request \<Rightarrow> renew_outcome"

record auth_config =
  cf_cookie_file :: ustr
  cf_renew_url :: ustr
  cf_touch_url :: ustr
  cf_user_agent :: ustr
  cf_refresh_before :: int64
  cf_check :: int64
  cf_auth_expired :: int64
  cf_error :: int64

record auth_state =
  as_clock :: nat
  as_locks :: nat
  as_reads :: nat
  as_writes :: nat
  as_requests :: "renew_request list"
  as_file :: "file_text option"
  as_status :: "status_report option"

type_synonym 'a go = "auth_state \<Rightarrow> (auth_error + 'a) \<times> auth_state"

text \<open>\<open>if err != nil { return err }\<close>\<close>

definition go_ret :: "'a \<Rightarrow> 'a go" where
  "go_ret x s = (Inr x, s)"

definition go_fail :: "auth_error \<Rightarrow> 'a go" where
  "go_fail e s = (Inl e, s)"

definition go_bind :: "'a go \<Rightarrow> ('a \<Rightarrow> 'b go) \<Rightarrow> 'b go" where
  "go_bind m f s = (case m s of (Inl e, t) \<Rightarrow> (Inl e, t) | (Inr x, t) \<Rightarrow> f x t)"

lemma go_simps [simp]: "go_ret x s = (Inr x, s)" "go_fail e s = (Inl e, s)"
  by (simp_all add: go_ret_def go_fail_def)

lemma go_bind_step [simp]: "m s = (Inl e, t) \<Longrightarrow> go_bind m f s = (Inl e, t)"
  "m s = (Inr x, t) \<Longrightarrow> go_bind m f s = f x t"
  by (simp_all add: go_bind_def)

lemma go_bind_InrE:
  assumes "go_bind m f s = (Inr y, u)"
  obtains x t where "m s = (Inr x, t)" and "f x t = (Inr y, u)"
  using assms by (auto simp: go_bind_def split: prod.splits sum.splits)

definition clock_now :: "auth_world \<Rightarrow> int64 go" where
  "clock_now W s = (Inr (aw_now W (as_clock s)), s\<lparr>as_clock := Suc (as_clock s)\<rparr>)"

definition acquire :: "auth_world \<Rightarrow> unit go" where
  "acquire W s = ((case aw_lock W (as_locks s) of Some e \<Rightarrow> Inl (GoError e) | None \<Rightarrow> Inr ()), s\<lparr>as_locks := Suc (as_locks s)\<rparr>)"

definition load_jar :: "auth_world \<Rightarrow> auth_config \<Rightarrow> (jar \<times> ustr) go" where
  "load_jar W cfg s = (store_load (aw_lib W) (aw_type_error W) (cf_cookie_file cfg) (aw_read W (as_reads s)) (as_file s),
     s\<lparr>as_reads := Suc (as_reads s)\<rparr>)"

definition save_jar :: "auth_world \<Rightarrow> jar \<Rightarrow> ustr \<Rightarrow> unit go" where
  "save_jar W j url s = (let s' = s\<lparr>as_writes := Suc (as_writes s)\<rparr> in
     case aw_write W (as_writes s) of Some e \<Rightarrow> (Inl (GoError e), s')
     | None \<Rightarrow> (Inr (), s'\<lparr>as_file := Some (saved_text (aw_lib W) j url)\<rparr>))"

section \<open>Renewal over HTTP\<close>

text \<open>One cookie per name, the last value in the place of the first.\<close>

definition pair_text :: "ustr \<times> ustr \<Rightarrow> ustr" where
  "pair_text p = fst p @ lit ''='' @ snd p"

definition renew_header :: "jar \<Rightarrow> ustr" where
  "renew_header j = py_join (lit ''; '') (map pair_text (fold (\<lambda>c. AList.update (ak_name c) (ak_value c)) j []))"

primrec sameSiteFromHTTP :: "http_same_site \<Rightarrow> same_site" where
  "sameSiteFromHTTP HttpLaxMode = SameSiteLax"
| "sameSiteFromHTTP HttpStrictMode = SameSiteStrict"
| "sameSiteFromHTTP HttpNoneMode = SameSiteNone"
| "sameSiteFromHTTP HttpDefaultMode = SameSiteUnspecified"

definition domainCookie :: "auth_world \<Rightarrow> set_cookie \<Rightarrow> cookie go" where
  "domainCookie W h = (let c = \<lparr>ak_name = hc_name h, ak_value = hc_value h, ak_domain = go_or_default (hc_domain h) defaultDomain,
       ak_path = go_or_default (hc_path h) defaultPath, ak_secure = hc_secure h, ak_http_only = hc_http_only h,
       ak_host_only = False, ak_session = False, ak_same_site = sameSiteFromHTTP (hc_same_site h), ak_expires_at = 0\<rparr> in
     if 0 <s hc_max_age h then go_bind (clock_now W) (\<lambda>now. go_ret (c\<lparr>ak_expires_at := now + hc_max_age h\<rparr>))
     else (case hc_expires h of Some e \<Rightarrow> go_ret (c\<lparr>ak_expires_at := e\<rparr>) | None \<Rightarrow> go_ret (c\<lparr>ak_session := True\<rparr>)))"

primrec merge_cookies :: "auth_world \<Rightarrow> set_cookie list \<Rightarrow> jar \<Rightarrow> jar go" where
  "merge_cookies W [] j = go_ret j"
| "merge_cookies W (h # hs) j = go_bind (domainCookie W h) (\<lambda>c. merge_cookies W hs (jar_set c j))"

definition sorted_names :: "ustr list \<Rightarrow> ustr list" where
  "sorted_names names = sort (remdups names)"

definition classify_response :: "http_response \<Rightarrow> auth_error option" where
  "classify_response r = (let code = hr_code r in
     if code \<in> {401, 403} then Some (AuthExpiredError (lit ''profi.ru rejected the renew request: HTTP '' @ show_int (int code)))
     else if code \<in> {301, 302, 303, 307, 308} then
       Some (AuthExpiredError (lit ''renew returned a redirect: '' @ go_or_default (hr_location r) (lit ''no Location header'')))
     else if code = 429 then Some (GoError (lit ''profi.ru rate limited the renew request: Retry-After='' @
       go_or_default (hr_retry_after r) (lit ''unspecified'')))
     else if 400 \<le> code then Some (RenewNetworkError (lit ''renew returned HTTP '' @ show_int (int code)) False)
     else None)"

definition renew_headers :: "auth_config \<Rightarrow> jar \<Rightarrow> (ustr \<times> ustr) list" where
  "renew_headers cfg j = [(lit ''accept'', lit ''*/*''), (lit ''accept-language'', lit ''ru,en-US;q=0.9,en;q=0.8''),
     (lit ''referer'', lit ''https://profi.ru/backoffice/n.php''), (lit ''user-agent'', cf_user_agent cfg),
     (lit ''x-app-id'', lit ''BO''), (lit ''x-new-auth-compatible'', lit ''1''), (lit ''x-requested-with'', lit ''XMLHttpRequest''),
     (lit ''x-warp-ui-app'', lit ''WEBBO''), (lit ''x-warp-ui-type'', lit ''WEB''), (lit ''x-warp-ui-ver'', lit ''1.0''),
     (lit ''Cookie'', renew_header j)]"

definition send_request :: "auth_world \<Rightarrow> auth_config \<Rightarrow> jar \<Rightarrow> ustr \<Rightarrow> http_response go" where
  "send_request W cfg j url s = (let request = \<lparr>rr_url = url, rr_headers = renew_headers cfg j\<rparr>;
       sent = s\<lparr>as_requests := as_requests s @ [request]\<rparr> in
     case aw_http W (length (as_requests s)) request of
       Bad_request e \<Rightarrow> (Inl (GoError e), s)
     | Transport_failed e timeout \<Rightarrow> (Inl (RenewNetworkError e timeout), sent)
     | Response r \<Rightarrow> (Inr r, sent))"

text \<open>
  \<open>step\<close> changes the jar even when it fails: it returns the jar beside the error or the names, since
  the code passes a pointer to it.
\<close>

definition renew_step :: "auth_world \<Rightarrow> auth_config \<Rightarrow> jar \<Rightarrow> ustr \<Rightarrow> ((auth_error + ustr list) \<times> jar) go" where
  "renew_step W cfg j url s = (case send_request W cfg j url s of
     (Inl e, t) \<Rightarrow> (Inr (Inl e, j), t)
   | (Inr r, t) \<Rightarrow> go_bind (merge_cookies W (hr_cookies r) j) (\<lambda>j'. go_ret
       ((case classify_response r of Some e \<Rightarrow> Inl e | None \<Rightarrow> Inr (sorted_names (map hc_name (hr_cookies r)))), j')) t)"

definition Renew :: "auth_world \<Rightarrow> auth_config \<Rightarrow> jar \<Rightarrow> (jar \<times> ustr list) go" where
  "Renew W cfg j = go_bind (renew_step W cfg j (cf_renew_url cfg)) (\<lambda>(r, j1). case r of
     Inl e \<Rightarrow> go_fail e
   | Inr renewed \<Rightarrow> go_bind (renew_step W cfg j1 (cf_touch_url cfg)) (\<lambda>(t, j2). go_ret (j2,
       sorted_names (renewed @ (case t of Inl _ \<Rightarrow> [] | Inr touched \<Rightarrow> touched)))))"

section \<open>The use cases\<close>

record token_snapshot =
  ts_ttl :: "int64 option"
  ts_tokens :: tokens
  ts_details :: "token_detail list"

definition snapshot :: "auth_world \<Rightarrow> jar \<Rightarrow> token_snapshot go" where
  "snapshot W j = go_bind (clock_now W) (\<lambda>now. go_ret \<lparr>ts_ttl = TokenTTL (aw_lib W) j now,
     ts_tokens = LatestTokens (aw_lib W) j, ts_details = TokenDetails (aw_lib W) j now\<rparr>)"

definition verifyRenew :: "auth_world \<Rightarrow> jar \<Rightarrow> token_snapshot \<Rightarrow> ustr list \<Rightarrow> unit go" where
  "verifyRenew W j before names = go_bind (clock_now W) (\<lambda>now.
     let details = TokenDetails (aw_lib W) j now; changed = ChangedTokens (ts_tokens before) (LatestTokens (aw_lib W) j) in
     case TokenTTL (aw_lib W) j now of
       None \<Rightarrow> go_fail (RenewFailedError (lit ''renew returned success but no JWT token cookies were found'') None details)
     | Some ttl \<Rightarrow>
         if ttl <=s 0 then go_fail (RenewFailedError (lit ''renew returned success but tokens remain expired: ttl='' @
           show_int (sint ttl) @ lit '', response cookies: ['' @ py_join (lit '' '') names @ lit '']'') (Some ttl) details)
         else if changed = [] then go_fail (RenewFailedError
           (lit ''renew returned success but token values and expiry did not change'') (Some ttl) details)
         else go_ret ())"

definition refreshIfNeeded :: "auth_world \<Rightarrow> auth_config \<Rightarrow> jar \<Rightarrow> token_snapshot \<Rightarrow> (jar \<times> bool) go" where
  "refreshIfNeeded W cfg j before = (if \<not> NeedsRefresh (ts_ttl before) (cf_refresh_before cfg) then go_ret (j, False)
     else go_bind (Renew W cfg j) (\<lambda>(j', names). go_bind (verifyRenew W j' before names) (\<lambda>_.
       go_ret (fst (RemoveOldTokenDuplicates (aw_lib W) j'), True))))"

definition finalTokens :: "auth_world \<Rightarrow> jar \<Rightarrow> (int64 \<times> token_detail list) go" where
  "finalTokens W j = go_bind (clock_now W) (\<lambda>now. case TokenTTL (aw_lib W) j now of
     None \<Rightarrow> go_fail (AuthExpiredError (lit ''no JWT tokens present in cookie jar''))
   | Some ttl \<Rightarrow> if ttl <=s 0 then go_fail (AuthExpiredError (lit ''JWT tokens expired: ttl='' @ show_int (sint ttl)))
       else go_ret (ttl, TokenDetails (aw_lib W) j now))"

record refresh_result =
  rf_ttl_before :: "int64 option"
  rf_ttl_after :: int64
  rf_refreshed :: bool
  rf_tokens_before :: "token_detail list"
  rf_tokens_after :: "token_detail list"

definition RefreshAuth_Execute :: "auth_world \<Rightarrow> auth_config \<Rightarrow> refresh_result go" where
  "RefreshAuth_Execute W cfg = go_bind (acquire W) (\<lambda>_. go_bind (load_jar W cfg) (\<lambda>(j, url).
     go_bind (snapshot W j) (\<lambda>before. go_bind (refreshIfNeeded W cfg j before) (\<lambda>(j', refreshed).
     go_bind (finalTokens W j') (\<lambda>(ttl, details). go_bind (save_jar W j' url) (\<lambda>_.
       go_ret \<lparr>rf_ttl_before = ts_ttl before, rf_ttl_after = ttl, rf_refreshed = refreshed,
         rf_tokens_before = ts_details before, rf_tokens_after = details\<rparr>))))))"

record cookie_snapshot =
  cs_cookies :: "cookie list"
  cs_header :: ustr
  cs_status :: auth_status
  cs_ttl :: int64
  cs_has_token :: bool

definition cookieHeader :: "cookie list \<Rightarrow> ustr" where
  "cookieHeader cs = py_join (lit ''; '') (map (\<lambda>c. pair_text (ak_name c, ak_value c)) cs)"

definition snapshotStatus :: "int64 option \<Rightarrow> auth_status" where
  "snapshotStatus ttl = (case ttl of Some t \<Rightarrow> if 0 <s t then StatusOK else StatusRequiresLogin | None \<Rightarrow> StatusRequiresLogin)"

definition GetCookies_Execute :: "auth_world \<Rightarrow> auth_config \<Rightarrow> cookie_snapshot go" where
  "GetCookies_Execute W cfg = go_bind (acquire W) (\<lambda>_. go_bind (load_jar W cfg) (\<lambda>(j, _). go_bind (clock_now W) (\<lambda>now.
     let ttl = TokenTTL (aw_lib W) j now in
     go_ret \<lparr>cs_cookies = j, cs_header = cookieHeader j, cs_status = snapshotStatus ttl,
       cs_ttl = (case ttl of Some t \<Rightarrow> t | None \<Rightarrow> 0), cs_has_token = (ttl \<noteq> None)\<rparr>)))"

section \<open>The worker\<close>

primrec auth_error_text :: "auth_error \<Rightarrow> ustr" where
  "auth_error_text (CookieFileError m) = m"
| "auth_error_text (AuthExpiredError m) = m"
| "auth_error_text (RenewFailedError m ttl details) = m"
| "auth_error_text (RenewNetworkError m timeout) = m"
| "auth_error_text (GoError m) = m"

text \<open>A report that cannot be written is logged.\<close>

definition report :: "auth_world \<Rightarrow> status_report \<Rightarrow> auth_state \<Rightarrow> auth_state" where
  "report W r s = (let s' = s\<lparr>as_writes := Suc (as_writes s)\<rparr> in
     case aw_write W (as_writes s) of Some e \<Rightarrow> s' | None \<Rightarrow> s'\<lparr>as_status := Some r\<rparr>)"

definition failure_report :: "auth_error \<Rightarrow> int64 \<Rightarrow> status_report" where
  "failure_report e now = \<lparr>sr_status = (case e of RenewFailedError _ _ _ \<Rightarrow> StatusRenewFailed | AuthExpiredError _ \<Rightarrow> StatusRequiresLogin
       | CookieFileError _ \<Rightarrow> StatusMissingCookies
       | RenewNetworkError _ timeout \<Rightarrow> if timeout then StatusNetworkTimeout else StatusNetworkError
       | GoError _ \<Rightarrow> StatusError),
     sr_updated_at = now, sr_token_ttl = (case e of RenewFailedError _ ttl _ \<Rightarrow> ttl | _ \<Rightarrow> None),
     sr_refreshed = (case e of RenewFailedError _ _ _ \<Rightarrow> True | _ \<Rightarrow> False), sr_error = auth_error_text e,
     sr_tokens = (case e of RenewFailedError _ _ details \<Rightarrow> details | _ \<Rightarrow> [])\<rparr>"

definition failure_pause :: "auth_config \<Rightarrow> auth_error \<Rightarrow> int64" where
  "failure_pause cfg e = (case e of RenewFailedError _ _ _ \<Rightarrow> cf_auth_expired cfg | AuthExpiredError _ \<Rightarrow> cf_auth_expired cfg
     | _ \<Rightarrow> cf_error cfg)"

definition success_report :: "refresh_result \<Rightarrow> int64 \<Rightarrow> status_report" where
  "success_report r now = \<lparr>sr_status = StatusOK, sr_updated_at = now, sr_token_ttl = Some (rf_ttl_after r),
     sr_refreshed = rf_refreshed r, sr_error = [], sr_tokens = rf_tokens_after r\<rparr>"

text \<open>\<open>RunOnce\<close>: the pause before the next cycle, and the state.\<close>

definition auth_run_once :: "auth_world \<Rightarrow> auth_config \<Rightarrow> auth_state \<Rightarrow> int64 \<times> auth_state" where
  "auth_run_once W cfg s = (case RefreshAuth_Execute W cfg s of
     (Inl e, t) \<Rightarrow> (failure_pause cfg e, report W (failure_report e (aw_now W (as_clock t))) (t\<lparr>as_clock := Suc (as_clock t)\<rparr>))
   | (Inr r, t) \<Rightarrow> (cf_check cfg, report W (success_report r (aw_now W (as_clock t))) (t\<lparr>as_clock := Suc (as_clock t)\<rparr>)))"

section \<open>The server\<close>

datatype grpc_code = FailedPrecondition | Internal

record cookies_reply =
  cr_cookies :: "cookie list"
  cr_header :: ustr
  cr_status :: ustr
  cr_ttl :: int64
  cr_has_token :: bool

definition toResponse :: "cookie_snapshot \<Rightarrow> cookies_reply" where
  "toResponse c = \<lparr>cr_cookies = cs_cookies c, cr_header = cs_header c, cr_status = status_string (cs_status c),
     cr_ttl = cs_ttl c, cr_has_token = cs_has_token c\<rparr>"

definition toStatusError :: "auth_error \<Rightarrow> grpc_code \<times> ustr" where
  "toStatusError e = (case e of CookieFileError m \<Rightarrow> (FailedPrecondition, m) | _ \<Rightarrow> (Internal, lit ''could not read cookies''))"

definition serve_cookies :: "auth_world \<Rightarrow> auth_config \<Rightarrow> auth_state \<Rightarrow> (grpc_code \<times> ustr + cookies_reply) \<times> auth_state" where
  "serve_cookies W cfg s = (case GetCookies_Execute W cfg s of
     (Inl e, t) \<Rightarrow> (Inl (toStatusError e), t) | (Inr c, t) \<Rightarrow> (Inr (toResponse c), t))"

definition servingStatus :: "auth_world \<Rightarrow> auth_config \<Rightarrow> auth_state \<Rightarrow> bool \<times> auth_state" where
  "servingStatus W cfg s = (case GetCookies_Execute W cfg s of
     (Inl e, t) \<Rightarrow> (False, t) | (Inr c, t) \<Rightarrow> (cs_status c = StatusOK, t))"

end
