(* ===== verification/AuthFacts.thy ===== *)
theory AuthFacts
  imports AuthRefresh
begin

text \<open>
  auth-worker: what the parts keep. A jar never holds two cookies of one identity; the freshest token
  is the one of the latest expiry; and a jar that was saved is read back, in the order of the file.
\<close>

section \<open>Jars\<close>

abbreviation ident :: "cookie \<Rightarrow> ustr \<times> ustr \<times> ustr" where
  "ident c \<equiv> (ak_name c, ak_domain c, ak_path c)"

lemma SameIdentity_ident: "SameIdentity c d \<longleftrightarrow> ident c = ident d"
  by (simp add: SameIdentity_def)

definition jar_ok :: "jar \<Rightarrow> bool" where
  "jar_ok j \<longleftrightarrow> distinct (map ident j)"

text \<open>What \<open>toDomain\<close> and \<open>domainCookie\<close> see to.\<close>

definition cookie_ok :: "cookie \<Rightarrow> bool" where
  "cookie_ok c \<longleftrightarrow> ak_name c \<noteq> [] \<and> ak_domain c \<noteq> [] \<and> ak_path c \<noteq> []"

lemma jar_set_idents: "map ident (jar_set c j) = (if ident c \<in> set (map ident j) then map ident j else map ident j @ [ident c])"
  by (induction j) (auto simp: SameIdentity_ident)

lemma jar_set_new: "ident c \<notin> set (map ident j) \<Longrightarrow> jar_set c j = j @ [c]"
  by (induction j) (auto simp: SameIdentity_ident)

lemma jar_set_set: "set (jar_set c j) \<subseteq> insert c (set j)" "c \<in> set (jar_set c j)"
  by (induction j) auto

lemma jar_ok_set: "jar_ok j \<Longrightarrow> jar_ok (jar_set c j)"
  unfolding jar_ok_def jar_set_idents by auto

lemma fold_jar_set: "jar_ok j \<Longrightarrow> jar_ok (fold jar_set cs j) \<and> set (fold jar_set cs j) \<subseteq> set cs \<union> set j"
proof (induction cs arbitrary: j)
  case (Cons c cs)
  then show ?case using Cons.IH [OF jar_ok_set [of j c]] jar_set_set(1) [of c j] by auto
qed simp

lemma NewJar_ok: "jar_ok (NewJar cs)" "set (NewJar cs) \<subseteq> set cs"
proof -
  have "jar_ok []" by (simp add: jar_ok_def)
  from fold_jar_set [OF this, of cs] show "jar_ok (NewJar cs)" "set (NewJar cs) \<subseteq> set cs" by (simp_all add: NewJar_def)
qed

lemma NewJar_distinct: "jar_ok cs \<Longrightarrow> NewJar cs = cs"
proof -
  have "jar_ok (j @ cs) \<Longrightarrow> fold jar_set cs j = j @ cs" for j
  proof (induction cs arbitrary: j)
    case (Cons c cs)
    then have "ident c \<notin> set (map ident j)" by (auto simp: jar_ok_def)
    with Cons show ?case by (simp add: jar_set_new)
  qed simp
  from this [of "[]"] show "jar_ok cs \<Longrightarrow> NewJar cs = cs" by (simp add: NewJar_def)
qed

lemma jar_ok_inj: "jar_ok j \<Longrightarrow> c \<in> set j \<Longrightarrow> d \<in> set j \<Longrightarrow> ident c = ident d \<Longrightarrow> c = d"
  by (auto simp: jar_ok_def distinct_map inj_on_def)

lemma jar_ok_filter: "jar_ok j \<Longrightarrow> jar_ok (filter P j)"
  by (simp add: jar_ok_def distinct_map_filter)

section \<open>Tokens\<close>

abbreviation token_exp :: "auth_lib \<Rightarrow> cookie \<Rightarrow> int64 option" where
  "token_exp L c \<equiv> (if IsTokenCookie (ak_name c) then DecodeJWTExp L (ak_value c) else None)"

text \<open>There is one name of a token, so there is at most one freshest token.\<close>

definition freshest :: "auth_lib \<Rightarrow> jar \<Rightarrow> tokens \<Rightarrow> bool" where
  "freshest L j ts \<longleftrightarrow> (ts = [] \<and> (\<forall>c \<in> set j. token_exp L c = None)) \<or>
     (\<exists>c \<in> set j. \<exists>e. ts = [(lit ''prfr_bo_tkn'', token_info_of L c e)] \<and> token_exp L c = Some e \<and>
       (\<forall>d \<in> set j. \<forall>e'. token_exp L d = Some e' \<longrightarrow> e' <=s e))"

lemma IsTokenCookie_iff [simp]: "IsTokenCookie name \<longleftrightarrow> name = lit ''prfr_bo_tkn''"
  by (simp add: IsTokenCookie_def token_cookie_names_def)

lemma token_info_sel [simp]: "ti_expiration (token_info_of L c e) = e" "ti_cookie (token_info_of L c e) = c"
  "ti_fingerprint (token_info_of L c e) = Fingerprint L (ak_value c)"
  by (simp_all add: token_info_of_def)

lemma sless_iff: "(a :: int64) <s b \<longleftrightarrow> sint a < sint b" "(a :: int64) <=s b \<longleftrightarrow> sint a \<le> sint b"
  by (simp_all add: word_sless_alt word_sle_eq)

lemma freshest_step:
  assumes "freshest L j ts"
  shows "freshest L (j @ [c]) (latest_step L c ts)"
proof (cases "token_exp L c")
  case None
  then have "latest_step L c ts = ts" by (simp add: latest_step_def split: if_splits)
  then show ?thesis using assms None unfolding freshest_def by auto
next
  case (Some e)
  then have c: "ak_name c = lit ''prfr_bo_tkn''" "DecodeJWTExp L (ak_value c) = Some e" by (simp_all split: if_splits)
  from assms consider (none) "ts = []" "\<forall>d \<in> set j. token_exp L d = None"
    | (one) b f where "b \<in> set j" "ts = [(lit ''prfr_bo_tkn'', token_info_of L b f)]" "token_exp L b = Some f"
        "\<forall>d \<in> set j. \<forall>e'. token_exp L d = Some e' \<longrightarrow> e' <=s f"
    unfolding freshest_def by blast
  then show ?thesis
  proof cases
    case none
    then show ?thesis using c unfolding freshest_def by (intro disjI2 bexI [of _ c] exI [of _ e]) (auto simp: latest_step_def sless_iff)
  next
    case one
    show ?thesis
    proof (cases "f <s e")
      case True
      have "e' <=s e" if "d \<in> set j" "token_exp L d = Some e'" for d e'
        using one(4) that True unfolding sless_iff by fastforce
      then show ?thesis using c one(2) True unfolding freshest_def
        by (intro disjI2 bexI [of _ c] exI [of _ e]) (auto simp: latest_step_def sless_iff split: if_splits)
    next
      case False
      then have "e <=s f" by (simp add: sless_iff)
      then show ?thesis using c one False unfolding freshest_def
        by (intro disjI2 bexI [of _ b] exI [of _ f]) (auto simp: latest_step_def split: if_splits)
    qed
  qed
qed

lemma latest_freshest: "freshest L j (LatestTokens L j)"
proof -
  have "freshest L i ts \<Longrightarrow> freshest L (i @ j) (fold (latest_step L) j ts)" for i ts
  proof (induction j arbitrary: i ts)
    case (Cons c j)
    from Cons.IH [OF freshest_step [OF Cons.prems, of c]] show ?case by simp
  qed simp
  from this [of "[]" "[]"] show ?thesis by (simp add: LatestTokens_def freshest_def)
qed

lemma latest_cases:
  obtains (none) "LatestTokens L j = []" and "\<forall>c \<in> set j. token_exp L c = None"
    | (one) c e where "c \<in> set j" and "LatestTokens L j = [(lit ''prfr_bo_tkn'', token_info_of L c e)]"
        and "token_exp L c = Some e" and "\<forall>d \<in> set j. \<forall>e'. token_exp L d = Some e' \<longrightarrow> e' <=s e"
  using latest_freshest [of L j] unfolding freshest_def by blast

lemma max_int64_top: "(x :: int64) <=s max_int64"
proof -
  have "sint x < 2 ^ 63" using sint_lt [of x] by simp
  moreover have "sint max_int64 = 2 ^ 63 - 1" by (simp add: max_int64_def)
  ultimately show ?thesis by (simp add: sless_iff)
qed

lemma TokenTTL_one:
  assumes "LatestTokens L j = [(k, token_info_of L c e)]"
  shows "TokenTTL L j now = Some (e - now)"
proof -
  have "\<not> e - now <s max_int64 \<longrightarrow> max_int64 = e - now"
    using max_int64_top [of "e - now"] by (metis signed.leD signed.not_less_iff_gr_or_eq)
  then show ?thesis by (simp add: TokenTTL_def assms Let_def)
qed

text \<open>The time left is that of the token of the latest expiry.\<close>

lemma TokenTTL_cases:
  obtains (none) "TokenTTL L j now = None" and "LatestTokens L j = []" and "\<forall>c \<in> set j. token_exp L c = None"
    | (one) c e where "TokenTTL L j now = Some (e - now)" and "c \<in> set j" and "token_exp L c = Some e"
        and "LatestTokens L j = [(lit ''prfr_bo_tkn'', token_info_of L c e)]"
        and "\<forall>d \<in> set j. \<forall>e'. token_exp L d = Some e' \<longrightarrow> e' <=s e"
proof (cases rule: latest_cases [of L j])
  case none
  then show ?thesis using that(1) by (simp add: TokenTTL_def)
next
  case (one c e)
  from one TokenTTL_one [OF one(2)] that(2) show ?thesis by blast
qed

lemma ttl_later:
  assumes "TokenTTL L j now = Some ttl"
  obtains c e where "c \<in> set j" and "token_exp L c = Some e" and "ttl = e - now" and "\<And>now'. TokenTTL L j now' = Some (e - now')"
    and "\<forall>d \<in> set j. \<forall>e'. token_exp L d = Some e' \<longrightarrow> e' <=s e"
  using assms TokenTTL_one by (cases rule: TokenTTL_cases [of L j now]) auto

section \<open>Removing stale copies\<close>

lemma filter_only: "distinct xs \<Longrightarrow> x \<in> set xs \<Longrightarrow> filter (\<lambda>y. y = x) xs = [x]"
  by (induction xs) (auto simp: filter_empty_conv)

text \<open>With a readable token, one cookie of its name is kept: the freshest.\<close>

lemma RemoveOld_kept:
  assumes "jar_ok j" and "LatestTokens L j = [(lit ''prfr_bo_tkn'', token_info_of L c e)]" and "c \<in> set j"
    and "ak_name c = lit ''prfr_bo_tkn''"
  shows "filter (\<lambda>d. IsTokenCookie (ak_name d)) (fst (RemoveOldTokenDuplicates L j)) = [c]"
proof -
  have "isStaleDuplicate (LatestTokens L j) d \<longleftrightarrow> ak_name d = lit ''prfr_bo_tkn'' \<and> d \<noteq> c" if "d \<in> set j" for d
    using jar_ok_inj [OF assms(1) that assms(3)] assms(2,4) by (auto simp: isStaleDuplicate_def SameValue_def SameIdentity_def)
  then have "filter (\<lambda>d. IsTokenCookie (ak_name d)) (fst (RemoveOldTokenDuplicates L j)) = filter (\<lambda>d. d = c) j"
    using assms(4) by (auto simp: RemoveOldTokenDuplicates_def Let_def intro!: filter_cong)
  also have "\<dots> = [c]"
    using assms(1,3) by (intro filter_only) (simp_all add: jar_ok_def distinct_map)
  finally show ?thesis .
qed

section \<open>The file, written and read\<close>

lemma those_Some: "those (map Some xs) = Some xs"
  by (induction xs) simp_all

lemma sort_key_map: "sort_key f (map g xs) = map g (sort_key (\<lambda>x. f (g x)) xs)"
proof -
  have "insort_key f (g x) (map g ys) = map g (insort_key (\<lambda>x. f (g x)) x ys)" for x ys
    by (induction ys) simp_all
  then show ?thesis by (induction xs) simp_all
qed

lemma sort_key_same: "(\<And>x. x \<in> set xs \<Longrightarrow> f x = g x) \<Longrightarrow> sort_key f xs = sort_key g xs"
proof -
  have "insort_key f x ys = insort_key g x ys" if "f x = g x" "\<forall>y \<in> set ys. f y = g y" for x ys
    using that by (induction ys) simp_all
  then show "(\<And>x. x \<in> set xs \<Longrightarrow> f x = g x) \<Longrightarrow> sort_key f xs = sort_key g xs" by (induction xs) simp_all
qed

lemma fold_keys: "fold_key (lit ''domain'') = lit ''domain''" "fold_key (lit ''hostOnly'') = lit ''hostonly''"
  "fold_key (lit ''httpOnly'') = lit ''httponly''" "fold_key (lit ''name'') = lit ''name''" "fold_key (lit ''path'') = lit ''path''"
  "fold_key (lit ''sameSite'') = lit ''samesite''" "fold_key (lit ''secure'') = lit ''secure''"
  "fold_key (lit ''session'') = lit ''session''" "fold_key (lit ''storeId'') = lit ''storeid''" "fold_key (lit ''value'') = lit ''value''"
  "fold_key (lit ''expirationDate'') = lit ''expirationdate''" "fold_key (lit ''url'') = lit ''url''"
  "fold_key (lit ''cookies'') = lit ''cookies''"
  by (simp_all add: fold_key_def lit_eval)

lemma go_cookie_json: "go_cookie L (cookie_json b) = Some b"
  by (cases "bk_expiration b")
    (simp_all add: go_cookie_def cookie_json_def read_member_def Let_def fold_keys go_string_def go_bool_def go_float_def zero_cookie_def)

lemma go_cookies_json: "go_cookies L (JList (map cookie_json bs)) = Some bs"
  by (simp add: go_cookies_def comp_def go_cookie_json those_Some)

lemma parse_saved: "parseExport L te (Json_text (export_json x)) = Inr (x\<lparr>ex_url := go_or_default (ex_url x) defaultURL\<rparr>)"
  by (simp add: parseExport_def export_json_def parseCookieObject_def raw_member_def Let_def fold_keys go_string_def go_cookies_json)

text \<open>A cookie is read back but for its expiry, which takes the way through a float, and the flag of a session.\<close>

definition reread :: "auth_lib \<Rightarrow> cookie \<Rightarrow> cookie" where
  "reread L c = c\<lparr>ak_session := IsSession c, ak_expires_at := if IsSession c then 0 else al_int64 L (al_float L (ak_expires_at c))\<rparr>"

lemma same_site_back: "sameSiteFromBrowser (sameSiteToBrowser v) = v"
  by (cases v) (simp_all add: sameSiteFromBrowser_def go_lower_def lit_eval Let_def)

lemma toDomain_back: "cookie_ok c \<Longrightarrow> toDomain L (browserCookieFrom L c) = Some (reread L c)"
  by (auto simp: toDomain_def browserCookieFrom_def cookie_ok_def go_or_default_def same_site_back reread_def IsSession_def)

lemma toDomain_ok: "toDomain L b = Some c \<Longrightarrow> cookie_ok c"
  by (auto simp: toDomain_def cookie_ok_def go_or_default_def defaultDomain_def defaultPath_def lit_eval split: if_splits)

abbreviation by_location :: "cookie \<Rightarrow> ustr \<times> ustr \<times> ustr" where
  "by_location c \<equiv> (ak_domain c, ak_path c, ak_name c)"

definition reread_jar :: "auth_lib \<Rightarrow> jar \<Rightarrow> jar" where
  "reread_jar L j = map (reread L) (sort_key by_location j)"

lemma reread_keeps [simp]: "ak_name (reread L c) = ak_name c" "ak_domain (reread L c) = ak_domain c"
  "ak_path (reread L c) = ak_path c" "ak_value (reread L c) = ak_value c"
  by (simp_all add: reread_def)

lemma map_filter_Some: "(\<And>x. x \<in> set xs \<Longrightarrow> f (h x) = Some (g x)) \<Longrightarrow> List.map_filter f (map h xs) = map g xs"
  by (induction xs) (auto simp: List.map_filter_simps)

lemma load_saved:
  assumes "jar_ok j" and "\<forall>c \<in> set j. cookie_ok c" and "j \<noteq> []"
  shows "store_load L te path None (Some (saved_text L j url)) = Inr (reread_jar L j, go_or_default url defaultURL)"
proof -
  have loc: "(\<lambda>b. (bk_domain b, bk_path b, bk_name b)) (browserCookieFrom L c) = by_location c" if "c \<in> set j" for c
    using assms(2) that by (simp add: browserCookieFrom_def cookie_ok_def go_or_default_def)
  then have "sort_key (\<lambda>b. (bk_domain b, bk_path b, bk_name b)) (map (browserCookieFrom L) j) = map (browserCookieFrom L) (sort_key by_location j)"
    unfolding sort_key_map by (intro arg_cong [of _ _ "map (browserCookieFrom L)"] sort_key_same) simp
  then have jar: "jarFromExport L (exportFrom L j url) = NewJar (reread_jar L j)"
    using assms(2) map_filter_Some [of "sort_key by_location j" "toDomain L" "browserCookieFrom L" "reread L"] toDomain_back
    by (simp add: jarFromExport_def exportFrom_def reread_jar_def)
  have "jar_ok (reread_jar L j)"
    using assms(1) by (simp add: reread_jar_def jar_ok_def comp_def distinct_map)
  with jar have "jarFromExport L (exportFrom L j url) = reread_jar L j" by (simp add: NewJar_distinct)
  then have "jarFromExport L ((exportFrom L j url)\<lparr>ex_url := u\<rparr>) = reread_jar L j" for u
    by (simp add: jarFromExport_def)
  moreover have "ex_url (exportFrom L j url) = url" by (simp add: exportFrom_def)
  moreover have "length (reread_jar L j) \<noteq> 0" using assms(3) by (simp add: reread_jar_def)
  ultimately show ?thesis
    unfolding store_load_def saved_text_def option.case parse_saved sum.case Let_def length_0_conv by simp
qed

end
