(* ===== verification/AuthTheorems.thy ===== *)
theory AuthTheorems
  imports AuthFacts
begin

text \<open>
  auth-worker: what a cycle leaves. The file is written only with a token that is alive, and only by
  a cycle that succeeds; it can always be read; and what is served afterwards is that jar.
\<close>

section \<open>What leaves the file alone\<close>

named_theorems gives_intros \<open>what the operations of a cycle give\<close>

definition gives :: "'a go \<Rightarrow> ('a \<Rightarrow> bool) \<Rightarrow> bool" where
  "gives m Q \<longleftrightarrow> (\<forall>s. as_file (snd (m s)) = as_file s \<and> as_status (snd (m s)) = as_status s \<and>
     as_clock s \<le> as_clock (snd (m s)) \<and> (\<forall>x. fst (m s) = Inr x \<longrightarrow> Q x))"

lemma givesD: "gives m Q \<Longrightarrow> m s = (r, t) \<Longrightarrow>
    as_file t = as_file s \<and> as_status t = as_status s \<and> as_clock s \<le> as_clock t \<and> (\<forall>x. r = Inr x \<longrightarrow> Q x)"
  unfolding gives_def by (metis fst_conv snd_conv)

lemma gives_bind [gives_intros]:
  assumes "gives m P" and "\<And>x. P x \<Longrightarrow> gives (f x) Q"
  shows "gives (go_bind m f) Q"
  unfolding gives_def
proof
  fix s
  obtain r t where m: "m s = (r, t)" by (cases "m s")
  note d = givesD [OF assms(1) m]
  show "as_file (snd (go_bind m f s)) = as_file s \<and> as_status (snd (go_bind m f s)) = as_status s \<and>
      as_clock s \<le> as_clock (snd (go_bind m f s)) \<and> (\<forall>x. fst (go_bind m f s) = Inr x \<longrightarrow> Q x)"
  proof (cases r)
    case (Inl e)
    then show ?thesis using m d by simp
  next
    case (Inr x)
    then have "gives (f x) Q" using d assms(2) by simp
    then show ?thesis using m d Inr unfolding gives_def by (auto intro: le_trans)
  qed
qed

lemma gives_ret [gives_intros]: "Q x \<Longrightarrow> gives (go_ret x) Q"
  by (simp add: gives_def)

lemma gives_fail [gives_intros]: "gives (go_fail e) Q"
  by (simp add: gives_def)

lemma gives_mono: "gives m P \<Longrightarrow> (\<And>x. P x \<Longrightarrow> Q x) \<Longrightarrow> gives m Q"
  unfolding gives_def by blast

lemma gives_clock: "gives (clock_now W) (\<lambda>_. True)"
  by (simp add: gives_def clock_now_def)

lemma gives_acquire: "gives (acquire W) (\<lambda>_. True)"
  by (simp add: gives_def acquire_def)

section \<open>Good jars\<close>

definition good :: "jar \<Rightarrow> bool" where
  "good j \<longleftrightarrow> jar_ok j \<and> (\<forall>c \<in> set j. cookie_ok c) \<and> j \<noteq> []"

lemma load_good: "store_load L te path fault file = Inr (j, url) \<Longrightarrow> good j"
proof -
  assume "store_load L te path fault file = Inr (j, url)"
  then obtain x where x: "j = jarFromExport L x" "j \<noteq> []"
    by (auto simp: store_load_def Let_def split: option.splits sum.splits if_splits)
  have "set j \<subseteq> set (List.map_filter (toDomain L) (ex_cookies x))" using NewJar_ok(2) x(1) by (simp add: jarFromExport_def)
  then have "\<forall>c \<in> set j. cookie_ok c" by (fastforce simp: List.map_filter_def dest: toDomain_ok)
  then show "good j" using x NewJar_ok(1) by (simp add: good_def jarFromExport_def)
qed

lemma gives_load: "gives (load_jar W cfg) (\<lambda>(j, url). good j)"
  unfolding gives_def load_jar_def by (auto dest: load_good)

text \<open>\<open>http.Response.Cookies\<close> gives no cookie without a name.\<close>

definition named_cookies :: "auth_world \<Rightarrow> bool" where
  "named_cookies W \<longleftrightarrow> (\<forall>n request r. aw_http W n request = Response r \<longrightarrow> (\<forall>h \<in> set (hr_cookies r). hc_name h \<noteq> []))"

lemma gives_domainCookie: "hc_name h \<noteq> [] \<Longrightarrow> gives (domainCookie W h) cookie_ok"
  unfolding domainCookie_def Let_def
  by (auto simp: cookie_ok_def go_or_default_def defaultDomain_def defaultPath_def lit_eval split: option.split
      intro!: gives_bind [OF gives_clock] gives_ret)

lemma good_set: "good j \<Longrightarrow> cookie_ok c \<Longrightarrow> good (jar_set c j)"
  using jar_set_set [of c j] jar_ok_set unfolding good_def by (metis empty_iff empty_set insertE subsetD)

lemma gives_merge: "\<forall>h \<in> set hs. hc_name h \<noteq> [] \<Longrightarrow> good j \<Longrightarrow> gives (merge_cookies W hs j) good"
proof (induction hs arbitrary: j)
  case (Cons h hs)
  then show ?case by (auto intro!: gives_bind [OF gives_domainCookie] good_set)
qed (simp add: gives_ret)

lemma gives_step:
  assumes "named_cookies W" and "good j"
  shows "gives (renew_step W cfg j url) (\<lambda>(r, j'). good j')"
  unfolding gives_def
proof
  fix s
  obtain r t where send: "send_request W cfg j url s = (r, t)" by (cases "send_request W cfg j url s")
  then have frame: "as_file t = as_file s" "as_status t = as_status s" "as_clock t = as_clock s"
    by (auto simp: send_request_def Let_def split: renew_outcome.splits)
  show "as_file (snd (renew_step W cfg j url s)) = as_file s \<and> as_status (snd (renew_step W cfg j url s)) = as_status s \<and>
      as_clock s \<le> as_clock (snd (renew_step W cfg j url s)) \<and> (\<forall>x. fst (renew_step W cfg j url s) = Inr x \<longrightarrow> (case x of (r, j') \<Rightarrow> good j'))"
  proof (cases r)
    case (Inl e)
    then show ?thesis using send frame assms(2) by (simp add: renew_step_def)
  next
    case (Inr a)
    then have "\<forall>h \<in> set (hr_cookies a). hc_name h \<noteq> []"
      using send assms(1) by (auto simp: send_request_def Let_def named_cookies_def split: renew_outcome.splits)
    from gives_merge [OF this assms(2)]
    have "gives (go_bind (merge_cookies W (hr_cookies a) j) (\<lambda>j'. go_ret
        ((case classify_response a of Some e \<Rightarrow> Inl e | None \<Rightarrow> Inr (sorted_names (map hc_name (hr_cookies a)))), j')))
      (\<lambda>(r, j'). good j')" by (rule gives_bind) (simp add: gives_ret)
    from this [unfolded gives_def, rule_format, of t] show ?thesis using send frame Inr by (simp add: renew_step_def)
  qed
qed

lemma gives_Renew:
  assumes "named_cookies W" and "good j"
  shows "gives (Renew W cfg j) (\<lambda>(j', names). good j')"
  unfolding Renew_def
  by (rule gives_bind [OF gives_step [OF assms]])
    (auto split: sum.split intro!: gives_fail gives_ret gives_bind [OF gives_step [OF assms(1)]])

section \<open>A cycle\<close>

text \<open>What a jar is when it is saved: a live token, and after a renewal the only one of its name.\<close>

definition alive :: "auth_world \<Rightarrow> jar \<Rightarrow> int64 \<Rightarrow> int64 \<Rightarrow> bool" where
  "alive W j now ttl \<longleftrightarrow> TokenTTL (aw_lib W) j now = Some ttl \<and> 0 <s ttl"

definition single_token :: "jar \<Rightarrow> bool" where
  "single_token j \<longleftrightarrow> length (filter (\<lambda>c. IsTokenCookie (ak_name c)) j) = 1"

lemma RemoveOld_good:
  assumes "good j" and "TokenTTL L j now = Some ttl"
  shows "good (fst (RemoveOldTokenDuplicates L j)) \<and> single_token (fst (RemoveOldTokenDuplicates L j))"
proof (cases rule: TokenTTL_cases [of L j now])
  case (one c e)
  then have name: "ak_name c = lit ''prfr_bo_tkn''" by (simp split: if_splits)
  from RemoveOld_kept [OF _ one(4,2) name] assms(1)
  have kept: "filter (\<lambda>d. IsTokenCookie (ak_name d)) (fst (RemoveOldTokenDuplicates L j)) = [c]" by (simp add: good_def)
  then have "fst (RemoveOldTokenDuplicates L j) \<noteq> []" by auto
  then show ?thesis using assms(1) kept
    by (auto simp: good_def single_token_def RemoveOldTokenDuplicates_def Let_def jar_ok_filter)
qed (use assms(2) in simp)

lemma gives_refresh:
  assumes "named_cookies W" and "good j"
  shows "gives (refreshIfNeeded W cfg j before) (\<lambda>(j', refreshed). good j' \<and> (refreshed \<longrightarrow> single_token j'))"
proof -
  have verify: "gives (verifyRenew W j' before names) (\<lambda>_. \<exists>now ttl. TokenTTL (aw_lib W) j' now = Some ttl)" for j' names
    unfolding verifyRenew_def Let_def
  proof (rule gives_bind [OF gives_clock])
    fix now
    show "gives (case TokenTTL (aw_lib W) j' now of None \<Rightarrow> go_fail (a now) | Some ttl \<Rightarrow> if ttl <=s 0 then go_fail (b now ttl)
        else if changed then go_fail (c now ttl) else go_ret ()) (\<lambda>_. \<exists>now ttl. TokenTTL (aw_lib W) j' now = Some ttl)" for a b c changed
      by (cases "TokenTTL (aw_lib W) j' now") (simp_all add: gives_fail gives_def, blast)
  qed
  show ?thesis
    unfolding refreshIfNeeded_def
  proof (auto intro!: gives_ret assms(2), rule gives_bind [OF gives_Renew [OF assms]], clarsimp)
    fix j' names assume "good j'"
    then show "gives (go_bind (verifyRenew W j' before names) (\<lambda>_. go_ret (fst (RemoveOldTokenDuplicates (aw_lib W) j'), True)))
        (\<lambda>(j', refreshed). good j' \<and> (refreshed \<longrightarrow> single_token j'))"
      using RemoveOld_good by (intro gives_bind [OF verify] gives_ret) auto
  qed
qed

definition cycle_jar :: "auth_world \<Rightarrow> auth_config \<Rightarrow> (jar \<times> ustr \<times> refresh_result) go" where
  "cycle_jar W cfg = go_bind (acquire W) (\<lambda>_. go_bind (load_jar W cfg) (\<lambda>(j, url).
     go_bind (snapshot W j) (\<lambda>before. go_bind (refreshIfNeeded W cfg j before) (\<lambda>(j', refreshed).
     go_bind (finalTokens W j') (\<lambda>(ttl, details). go_ret (j', url,
       \<lparr>rf_ttl_before = ts_ttl before, rf_ttl_after = ttl, rf_refreshed = refreshed,
         rf_tokens_before = ts_details before, rf_tokens_after = details\<rparr>))))))"

lemma go_bind_assoc: "go_bind (go_bind m f) g = go_bind m (\<lambda>x. go_bind (f x) g)"
  by (rule ext) (simp add: go_bind_def split: prod.split sum.split)

lemma go_bind_ret: "go_bind (go_ret x) f = f x"
  by (rule ext) simp

lemma Execute_cycle: "RefreshAuth_Execute W cfg = go_bind (cycle_jar W cfg) (\<lambda>(j, url, r). go_bind (save_jar W j url) (\<lambda>_. go_ret r))"
  by (simp add: RefreshAuth_Execute_def cycle_jar_def go_bind_assoc go_bind_ret split_def)

lemma gives_cycle:
  assumes "named_cookies W"
  shows "gives (cycle_jar W cfg) (\<lambda>(j, url, r). good j \<and> (rf_refreshed r \<longrightarrow> single_token j))"
proof -
  have final: "gives (finalTokens W j) (\<lambda>_. True)" for j
    unfolding finalTokens_def
    by (rule gives_bind [OF gives_clock]) (auto split: option.split intro!: gives_fail gives_ret)
  have snap: "gives (snapshot W j) (\<lambda>_. True)" for j
    unfolding snapshot_def by (auto intro!: gives_bind [OF gives_clock] gives_ret)
  show ?thesis
    unfolding cycle_jar_def
    by (rule gives_bind [OF gives_acquire], rule gives_bind [OF gives_load], clarify, rule gives_bind [OF snap],
        rule gives_bind [OF gives_refresh [OF assms]], assumption, clarify, rule gives_bind [OF final], clarify, rule gives_ret)
      auto
qed

text \<open>The last reading of the clock in a cycle is the one that its token outlives.\<close>

lemma finalTokens_alive:
  assumes "finalTokens W j s = (Inr (ttl, details), t)"
  shows "alive W j (aw_now W (as_clock s)) ttl" and "as_clock t = Suc (as_clock s)"
  using assms by (auto simp: finalTokens_def clock_now_def go_bind_def alive_def sless_iff split: option.splits if_splits)

lemma cycle_alive:
  assumes "named_cookies W" and "cycle_jar W cfg s = (Inr (j, url, r), t)"
  shows "alive W j (aw_now W (as_clock t - 1)) (rf_ttl_after r)" and "as_clock s < as_clock t"
proof -
  from assms(2) obtain s1 s2 s3 s4 i before refreshed ttl details where
    run: "acquire W s = (Inr (), s1)" "load_jar W cfg s1 = (Inr (i, url), s2)" "snapshot W i s2 = (Inr before, s3)"
      "refreshIfNeeded W cfg i before s3 = (Inr (j, refreshed), s4)" "finalTokens W j s4 = (Inr (ttl, details), t)"
      "rf_ttl_after r = ttl"
    unfolding cycle_jar_def by (auto elim!: go_bind_InrE simp: split_def)
  have "good i" using givesD [OF gives_load run(2)] by simp
  have "gives (snapshot W i) (\<lambda>_. True)"
    unfolding snapshot_def by (auto intro!: gives_bind [OF gives_clock] gives_ret)
  note clocks = givesD [OF gives_acquire run(1)] givesD [OF gives_load run(2)] givesD [OF this run(3)]
    givesD [OF gives_refresh [OF assms(1) \<open>good i\<close>] run(4)]
  from finalTokens_alive [OF run(5)] run(6) clocks
  show "alive W j (aw_now W (as_clock t - 1)) (rf_ttl_after r)" "as_clock s < as_clock t" by simp_all
qed

text \<open>What \<open>Execute\<close> makes of the file.\<close>

lemma Execute_file:
  assumes "named_cookies W" and "RefreshAuth_Execute W cfg s = (r, t)"
  shows "as_status t = as_status s" and "r = Inl e \<Longrightarrow> as_file t = as_file s"
    and "r = Inr x \<Longrightarrow> as_clock s < as_clock t \<and> (\<exists>j url. as_file t = Some (saved_text (aw_lib W) j url) \<and> good j \<and>
      (rf_refreshed x \<longrightarrow> single_token j) \<and> alive W j (aw_now W (as_clock t - 1)) (rf_ttl_after x))"
proof -
  obtain c u where c: "cycle_jar W cfg s = (c, u)" by (cases "cycle_jar W cfg s")
  note g = givesD [OF gives_cycle [OF assms(1)] c]
  have "as_status t = as_status s \<and> (\<forall>e. r = Inl e \<longrightarrow> as_file t = as_file s) \<and>
    (\<forall>x. r = Inr x \<longrightarrow> as_clock s < as_clock t \<and> (\<exists>j url. as_file t = Some (saved_text (aw_lib W) j url) \<and> good j \<and>
      (rf_refreshed x \<longrightarrow> single_token j) \<and> alive W j (aw_now W (as_clock t - 1)) (rf_ttl_after x)))"
  proof (cases c)
    case (Inl e)
    then show ?thesis using assms(2) c g by (auto simp: Execute_cycle)
  next
    case (Inr p)
    obtain j url x where p: "p = (j, url, x)" by (cases p)
    note live = cycle_alive [OF assms(1) c [unfolded Inr p]]
    show ?thesis
    proof (cases "aw_write W (as_writes u)")
      case None
      then have "r = Inr x" "t = u\<lparr>as_writes := Suc (as_writes u), as_file := Some (saved_text (aw_lib W) j url)\<rparr>"
        using assms(2) c Inr p by (auto simp: Execute_cycle save_jar_def Let_def go_bind_def)
      then show ?thesis using g Inr p live by auto
    next
      case (Some e)
      then have "r = Inl (GoError e)" "t = u\<lparr>as_writes := Suc (as_writes u)\<rparr>"
        using assms(2) c Inr p by (auto simp: Execute_cycle save_jar_def Let_def go_bind_def)
      then show ?thesis using g by simp
    qed
  qed
  then show "as_status t = as_status s" "r = Inl e \<Longrightarrow> as_file t = as_file s"
    "r = Inr x \<Longrightarrow> as_clock s < as_clock t \<and> (\<exists>j url. as_file t = Some (saved_text (aw_lib W) j url) \<and> good j \<and>
      (rf_refreshed x \<longrightarrow> single_token j) \<and> alive W j (aw_now W (as_clock t - 1)) (rf_ttl_after x))" by blast+
qed

section \<open>Any number of cycles and calls\<close>

text \<open>The refresh loop and the gRPC calls, one at a time since each takes the lock.\<close>

inductive auth_step :: "auth_world \<Rightarrow> auth_config \<Rightarrow> auth_state \<Rightarrow> auth_state \<Rightarrow> bool" for W cfg where
  cycle: "auth_run_once W cfg s = (pause, t) \<Longrightarrow> auth_step W cfg s t"
| call: "serve_cookies W cfg s = (r, t) \<Longrightarrow> auth_step W cfg s t"
| probe: "servingStatus W cfg s = (b, t) \<Longrightarrow> auth_step W cfg s t"

inductive auth_reach :: "auth_world \<Rightarrow> auth_config \<Rightarrow> auth_state \<Rightarrow> auth_state \<Rightarrow> bool" for W cfg s where
  start: "auth_reach W cfg s s"
| step: "auth_reach W cfg s t \<Longrightarrow> auth_step W cfg t u \<Longrightarrow> auth_reach W cfg s u"

inductive_cases auth_stepE: "auth_step W cfg s t"

definition readable :: "auth_world \<Rightarrow> auth_config \<Rightarrow> file_text option \<Rightarrow> bool" where
  "readable W cfg file \<longleftrightarrow> (\<exists>j url. store_load (aw_lib W) (aw_type_error W) (cf_cookie_file cfg) None file = Inr (j, url))"

lemma saved_readable: "good j \<Longrightarrow> readable W cfg (Some (saved_text (aw_lib W) j url))"
  unfolding good_def readable_def using load_saved by blast

lemma report_file [simp]: "as_file (report W r s) = as_file s"
  by (simp add: report_def Let_def split: option.split)

text \<open>A cycle that succeeds from \<open>s\<close>, leaves \<open>file\<close>, and whose last reading of the clock the token outlives.\<close>

definition saved_alive :: "auth_world \<Rightarrow> auth_config \<Rightarrow> auth_state \<Rightarrow> file_text option \<Rightarrow> jar \<Rightarrow> bool" where
  "saved_alive W cfg s file j \<longleftrightarrow> (\<exists>r t url. RefreshAuth_Execute W cfg s = (Inr r, t) \<and> as_clock s < as_clock t \<and>
     as_file t = file \<and> file = Some (saved_text (aw_lib W) j url) \<and>
     TokenTTL (aw_lib W) j (aw_now W (as_clock t - 1)) = Some (rf_ttl_after r) \<and> 0 <s rf_ttl_after r)"

lemma run_once_file:
  assumes "named_cookies W" and "auth_run_once W cfg s = (pause, t)"
  shows "as_file t = as_file s \<or> (\<exists>j. good j \<and> saved_alive W cfg s (as_file t) j)"
proof -
  obtain r u where r: "RefreshAuth_Execute W cfg s = (r, u)" by (cases "RefreshAuth_Execute W cfg s")
  then have t: "as_file t = as_file u" using assms(2) by (auto simp: auth_run_once_def split: sum.splits)
  show ?thesis
  proof (cases r)
    case (Inl e)
    then show ?thesis using Execute_file(2) [OF assms(1) r] t by simp
  next
    case (Inr x)
    from Execute_file(3) [OF assms(1) r Inr] obtain j url where "as_clock s < as_clock u"
        "as_file u = Some (saved_text (aw_lib W) j url)" "good j" "alive W j (aw_now W (as_clock u - 1)) (rf_ttl_after x)" by blast
    then have "good j \<and> saved_alive W cfg s (as_file t) j"
      using r Inr t unfolding saved_alive_def alive_def
      by (intro conjI exI [of _ x] exI [of _ u] exI [of _ url]) simp_all
    then show ?thesis by blast
  qed
qed

lemma gives_GetCookies: "gives (GetCookies_Execute W cfg) (\<lambda>_. True)"
  unfolding GetCookies_Execute_def
  by (auto simp: Let_def split_def intro!: gives_bind [OF gives_acquire] gives_bind [OF gives_load] gives_bind [OF gives_clock] gives_ret)

lemma GetCookies_file: "GetCookies_Execute W cfg s = (r, t) \<Longrightarrow> as_file t = as_file s"
  using givesD [OF gives_GetCookies] by blast

lemma auth_step_file:
  assumes "named_cookies W" and "auth_step W cfg s t"
  shows "as_file t = as_file s \<or> (\<exists>j. good j \<and> saved_alive W cfg s (as_file t) j)"
  using assms(2)
proof (cases rule: auth_step.cases)
  case (cycle pause)
  then show ?thesis by (rule run_once_file [OF assms(1)])
qed (use GetCookies_file in \<open>fastforce simp: serve_cookies_def servingStatus_def split: prod.splits sum.splits\<close>)+


end
