(* ===== verification/AuthLife.thy ===== *)
theory AuthLife
  imports AuthTheorems ParserService
begin

text \<open>
  auth-worker and the service that asks it: what is saved is what is served, through the port of the
  cookie store; the time left of a token, with the bounds within which it is exact; and a response to
  the touch request that undoes a renewal.
\<close>

section \<open>The cookie store\<close>

locale cookie_store =
  fixes put :: "jar \<Rightarrow> ustr \<Rightarrow> 'f" and fetch :: "'f \<Rightarrow> auth_error + jar \<times> ustr"
    and valid :: "jar \<Rightarrow> bool" and same :: "jar \<Rightarrow> jar \<Rightarrow> bool"
  assumes read_written: "valid j \<Longrightarrow> \<exists>j' u. fetch (put j url) = Inr (j', u) \<and> valid j' \<and> same j j'"
    and same_trans: "same i j \<Longrightarrow> same j k \<Longrightarrow> same i k"
begin

definition pass_on :: "'f \<Rightarrow> 'f" where
  "pass_on f = (case fetch f of Inr (j, u) \<Rightarrow> put j u | Inl e \<Rightarrow> f)"

lemma passed_on:
  assumes "valid j"
  shows "\<exists>j' u. fetch ((pass_on ^^ n) (put j url)) = Inr (j', u) \<and> valid j' \<and> same j j'"
proof -
  have "\<exists>i v. (pass_on ^^ n) (put j url) = put i v \<and> valid i \<and> (i = j \<or> same j i)"
  proof (induction n)
    case 0
    then show ?case using assms by auto
  next
    case (Suc n)
    then obtain i v where i: "(pass_on ^^ n) (put j url) = put i v" "valid i" "i = j \<or> same j i" by blast
    from read_written [OF i(2)] obtain k u where "fetch (put i v) = Inr (k, u)" "valid k" "same i k" by blast
    then have "(pass_on ^^ Suc n) (put j url) = put k u" by (simp only: funpow.simps comp_apply i(1)) (simp add: pass_on_def)
    moreover have "same j k" using i(3) \<open>same i k\<close> same_trans by blast
    ultimately show ?case using \<open>valid k\<close> by blast
  qed
  then show ?thesis using read_written same_trans by metis
qed

end

text \<open>What the tokens depend on: the names and values.\<close>

definition same_values :: "jar \<Rightarrow> jar \<Rightarrow> bool" where
  "same_values i j \<longleftrightarrow> (\<lambda>c. (ident c, ak_value c)) ` set i = (\<lambda>c. (ident c, ak_value c)) ` set j"

lemma same_values_trans: "same_values i j \<Longrightarrow> same_values j k \<Longrightarrow> same_values i k"
  by (simp add: same_values_def)

lemma reread_values: "same_values j (reread_jar L j)"
  by (simp add: same_values_def reread_jar_def image_image)

lemma reread_good:
  assumes "good j"
  shows "good (reread_jar L j)"
proof -
  have "map ident (reread_jar L j) = map ident (sort_key by_location j)" by (simp add: reread_jar_def comp_def)
  then have "jar_ok (reread_jar L j)" using assms by (simp add: good_def jar_ok_def distinct_map)
  moreover
  have "cookie_ok (reread L c) \<longleftrightarrow> cookie_ok c" for c by (simp add: cookie_ok_def reread_def)
  then have "\<forall>c \<in> set (reread_jar L j). cookie_ok c" using assms by (simp add: reread_jar_def good_def)
  moreover have "length (reread_jar L j) = length j" by (simp add: reread_jar_def)
  then have "reread_jar L j \<noteq> []" using assms by (auto simp: good_def)
  ultimately show ?thesis unfolding good_def by blast
qed

lemma load_good_saved:
  "good j \<Longrightarrow> store_load L te path None (Some (saved_text L j url)) = Inr (reread_jar L j, go_or_default url defaultURL)"
  unfolding good_def by (blast intro: load_saved)

interpretation cookie_file: cookie_store "saved_text L" "\<lambda>f. store_load L te path None (Some f)" good same_values
  for L te path
proof
  show "\<exists>j' u. store_load L te path None (Some (saved_text L j url)) = Inr (j', u) \<and> good j' \<and> same_values j j'"
    if "good j" for j url
    using load_good_saved [OF that] reread_good [OF that] reread_values by blast
qed (rule same_values_trans)

lemma same_exp:
  assumes "same_values i j" and "c \<in> set i" and "token_exp L c = Some e"
  obtains d where "d \<in> set j" and "token_exp L d = Some e"
proof -
  have "(ident c, ak_value c) \<in> (\<lambda>c. (ident c, ak_value c)) ` set j"
    using assms(1,2) unfolding same_values_def by blast
  then obtain d where "d \<in> set j" "ident d = ident c" "ak_value d = ak_value c" by auto
  then show ?thesis using that [of d] assms(3) by (simp split: if_splits)
qed

text \<open>The time left does not depend on the order of the jar.\<close>

lemma ttl_same:
  assumes "same_values i j"
  shows "TokenTTL L i now = TokenTTL L j now"
proof -
  have sym: "same_values j i" using assms by (simp add: same_values_def)
  show ?thesis
  proof (cases rule: TokenTTL_cases [of L i now])
    case none
    then have "token_exp L d = None" if "d \<in> set j" for d
      using same_exp [OF sym that, of L] by (cases "token_exp L d") fastforce+
    then show ?thesis using none(1) by (cases rule: TokenTTL_cases [of L j now]) auto
  next
    case i: (one c e)
    obtain d where d: "d \<in> set j" "token_exp L d = Some e" using same_exp [OF assms i(2,3)] by blast
    show ?thesis
    proof (cases rule: TokenTTL_cases [of L j now])
      case none
      then show ?thesis using d by auto
    next
      case j: (one b f)
      obtain a where a: "a \<in> set i" "token_exp L a = Some f" using same_exp [OF sym j(2,3)] by blast
      have "f <=s e" using i(5) a by blast
      moreover have "e <=s f" using j(5) d by blast
      ultimately have "e = f" unfolding sless_iff by (metis order_antisym word_eq_iff_signed)
      then show ?thesis using i(1) j(1) by simp
    qed
  qed
qed

section \<open>What is served\<close>

lemma serve_loaded:
  assumes "aw_lock W (as_locks s) = None" and "aw_read W (as_reads s) = None"
    and "store_load (aw_lib W) (aw_type_error W) (cf_cookie_file cfg) None (as_file s) = Inr (j, url)"
  shows "\<exists>u. serve_cookies W cfg s = (Inr (toResponse (let ttl = TokenTTL (aw_lib W) j (aw_now W (as_clock s)) in
      \<lparr>cs_cookies = j, cs_header = cookieHeader j, cs_status = snapshotStatus ttl,
       cs_ttl = (case ttl of Some t \<Rightarrow> t | None \<Rightarrow> 0), cs_has_token = (ttl \<noteq> None)\<rparr>)), u)"
  using assms by (simp add: serve_cookies_def GetCookies_Execute_def acquire_def load_jar_def clock_now_def go_bind_def Let_def)

lemma serve_saved:
  assumes "named_cookies W" and "RefreshAuth_Execute W cfg s = (Inr r, t)"
    and "aw_lock W (as_locks t) = None" and "aw_read W (as_reads t) = None"
  shows "\<exists>reply u e. serve_cookies W cfg t = (Inr reply, u) \<and> as_clock s < as_clock t \<and>
    rf_ttl_after r = e - aw_now W (as_clock t - 1) \<and> 0 <s rf_ttl_after r \<and>
    cr_has_token reply \<and> cr_ttl reply = e - aw_now W (as_clock t) \<and>
    cr_status reply = (if 0 <s cr_ttl reply then lit ''ok'' else lit ''requires_login'') \<and>
    cr_header reply = py_join (lit ''; '') (map (\<lambda>c. ak_name c @ lit ''='' @ ak_value c) (cr_cookies reply)) \<and>
    (\<exists>j url. as_file t = Some (saved_text (aw_lib W) j url) \<and> (\<exists>c \<in> set (cr_cookies reply). \<exists>d \<in> set j.
      IsTokenCookie (ak_name c) \<and> ak_name d = ak_name c \<and> ak_value d = ak_value c \<and> DecodeJWTExp (aw_lib W) (ak_value c) = Some e)) \<and>
    (rf_refreshed r \<longrightarrow> single_token (cr_cookies reply))"
proof -
  let ?L = "aw_lib W"
  let ?now = "aw_now W (as_clock t - 1)"
  obtain j url where j: "as_clock s < as_clock t" "as_file t = Some (saved_text ?L j url)" "good j"
      "rf_refreshed r \<longrightarrow> single_token j" "alive W j ?now (rf_ttl_after r)"
    using Execute_file(3) [OF assms(1,2) refl] by blast
  let ?j = "reread_jar ?L j"
  have load: "store_load ?L (aw_type_error W) (cf_cookie_file cfg) None (as_file t) = Inr (?j, go_or_default url defaultURL)"
    using load_good_saved [OF j(3)] j(2) by simp
  obtain e c where e: "rf_ttl_after r = e - ?now" "0 <s rf_ttl_after r" "c \<in> set ?j" "token_exp ?L c = Some e"
      "TokenTTL ?L ?j (aw_now W (as_clock t)) = Some (e - aw_now W (as_clock t))"
  proof -
    have "TokenTTL ?L ?j ?now = Some (rf_ttl_after r)" "0 <s rf_ttl_after r"
      using j(5) ttl_same [OF reread_values [of j ?L], where L = ?L and now = ?now] by (simp_all add: alive_def)
    then show ?thesis using that by (elim ttl_later) (auto split: if_splits)
  qed
  have single: "single_token ?j" if "single_token j"
  proof -
    have "filter (\<lambda>c. IsTokenCookie (ak_name c)) ?j = map (reread ?L) (filter (\<lambda>c. IsTokenCookie (ak_name c)) (sort_key by_location j))"
      by (simp add: reread_jar_def filter_map comp_def)
    moreover have "length (filter P (sort_key by_location j)) = length (filter P j)" for P
      by (simp add: filter_sort)
    ultimately show ?thesis using that by (simp add: single_token_def)
  qed
  obtain d where d: "d \<in> set j" "ak_name d = ak_name c" "ak_value d = ak_value c"
    using e(3) by (auto simp: reread_jar_def reread_def)
  have token: "IsTokenCookie (ak_name c) \<and> DecodeJWTExp ?L (ak_value c) = Some e" using e(4) by (simp split: if_splits)
  define reply where "reply = toResponse \<lparr>cs_cookies = ?j, cs_header = cookieHeader ?j,
    cs_status = snapshotStatus (Some (e - aw_now W (as_clock t))), cs_ttl = e - aw_now W (as_clock t), cs_has_token = True\<rparr>"
  from serve_loaded [OF assms(3,4) load] obtain u where "serve_cookies W cfg t = (Inr reply, u)"
    by (auto simp: e(5) reply_def)
  moreover have "cr_has_token reply" "cr_ttl reply = e - aw_now W (as_clock t)" "cr_cookies reply = ?j"
    "cr_status reply = (if 0 <s cr_ttl reply then lit ''ok'' else lit ''requires_login'')"
    "cr_header reply = py_join (lit ''; '') (map (\<lambda>c. ak_name c @ lit ''='' @ ak_value c) (cr_cookies reply))"
    by (simp_all add: reply_def toResponse_def snapshotStatus_def cookieHeader_def pair_text_def)
  moreover have "\<exists>c \<in> set (cr_cookies reply). \<exists>d \<in> set j. IsTokenCookie (ak_name c) \<and> ak_name d = ak_name c \<and>
      ak_value d = ak_value c \<and> DecodeJWTExp ?L (ak_value c) = Some e"
    using e(3) d token by (intro bexI [of _ c] bexI [of _ d]) (simp_all add: reply_def toResponse_def)
  ultimately show ?thesis using e(1,2) single j(1,2,4)
    by - (rule exI [of _ reply], rule exI [of _ u], rule exI [of _ e], auto)
qed

text \<open>C0. The port of parser-worker meets auth-worker: after a cycle that succeeds, a call that gets the lock
  and the file is answered with the jar that was saved, under the header that carries every one of its
  cookies; the token that was saved is among them, and had time left at the last reading of the clock
  in the cycle; the time left is that of the saved token at the moment of the call, and the status is \<open>ok\<close>
  exactly while it is positive; after a renewal there is one token cookie among them.\<close>

theorem saved_session_served:
  assumes "named_cookies W" and "RefreshAuth_Execute W cfg s = (Inr r, t)"
    and "aw_lock W (as_locks t) = None" and "aw_read W (as_reads t) = None"
  shows "\<exists>reply u e. serve_cookies W cfg t = (Inr reply, u) \<and> as_clock s < as_clock t \<and>
    rf_ttl_after r = e - aw_now W (as_clock t - 1) \<and> 0 <s rf_ttl_after r \<and>
    cr_has_token reply \<and> cr_ttl reply = e - aw_now W (as_clock t) \<and>
    cr_status reply = (if 0 <s cr_ttl reply then lit ''ok'' else lit ''requires_login'') \<and>
    cr_header reply = py_join (lit ''; '') (map (\<lambda>c. ak_name c @ lit ''='' @ ak_value c) (cr_cookies reply)) \<and>
    (\<exists>j url. as_file t = Some (saved_text (aw_lib W) j url) \<and> (\<exists>c \<in> set (cr_cookies reply). \<exists>d \<in> set j.
      IsTokenCookie (ak_name c) \<and> ak_name d = ak_name c \<and> ak_value d = ak_value c \<and> DecodeJWTExp (aw_lib W) (ak_value c) = Some e)) \<and>
    (rf_refreshed r \<longrightarrow> single_token (cr_cookies reply))"
  by (rule serve_saved [OF assms])

section \<open>The file, exactly\<close>

text \<open>What IEEE 754 gives: the integers up to two to the power of 53 are floats.\<close>

definition floats_exact :: "auth_lib \<Rightarrow> bool" where
  "floats_exact L \<longleftrightarrow> (\<forall>n. \<bar>sint n\<bar> \<le> 2 ^ 53 \<longrightarrow> al_int64 L (al_float L n) = n)"

text \<open>C11. The cookie file keeps a jar: written and read back it is the same cookies, whole, in the order of domain,
  path and name, with the same URL, when the identities differ, names, domains and paths are not empty,
  a session cookie has no expiry, and the others expire within the integers a float holds.\<close>

theorem cookie_file_keeps:
  assumes "floats_exact L" and "j \<noteq> []" and "distinct (map (\<lambda>c. (ak_name c, ak_domain c, ak_path c)) j)"
    and "\<forall>c \<in> set j. ak_name c \<noteq> [] \<and> ak_domain c \<noteq> [] \<and> ak_path c \<noteq> [] \<and>
      (ak_session c \<longleftrightarrow> ak_expires_at c = 0) \<and> \<bar>sint (ak_expires_at c)\<bar> \<le> 2 ^ 53" and "url \<noteq> []"
  shows "store_load L te path None (Some (saved_text L j url)) = Inr (sort_key (\<lambda>c. (ak_domain c, ak_path c, ak_name c)) j, url)"
proof -
  have "good j" using assms(2-4) by (auto simp: good_def jar_ok_def cookie_ok_def)
  moreover have "reread L c = c" if "c \<in> set j" for c
    using assms(1,4) that by (auto simp: reread_def IsSession_def floats_exact_def)
  then have "reread_jar L j = sort_key by_location j" unfolding reread_jar_def by (intro map_idI) simp
  ultimately show ?thesis using load_good_saved assms(5) by (simp add: go_or_default_def)
qed

section \<open>The time left\<close>

text \<open>C29. The time left is exact while it fits: when no expiry lies more than two to the power of 63 seconds
  before now, it is the latest expiry of a readable token minus now, and positive exactly if some token
  is still valid; an expiry further back wraps around, and the token counts as valid.\<close>

theorem time_left_exact:
  assumes "TokenTTL L j now = Some ttl"
  shows "\<exists>e. (\<exists>c \<in> set j. IsTokenCookie (ak_name c) \<and> DecodeJWTExp L (ak_value c) = Some e) \<and>
    (\<forall>c \<in> set j. \<forall>e'. IsTokenCookie (ak_name c) \<longrightarrow> DecodeJWTExp L (ak_value c) = Some e' \<longrightarrow> sint e' \<le> sint e) \<and>
    (0 \<le> sint now \<longrightarrow> (if - (2 ^ 63) \<le> sint e - sint now then sint ttl = sint e - sint now else 0 < sint ttl))"
proof -
  obtain c e where e: "c \<in> set j" "token_exp L c = Some e" "ttl = e - now" "\<forall>d \<in> set j. \<forall>e'. token_exp L d = Some e' \<longrightarrow> e' <=s e"
    using assms by (rule ttl_later)
  have b: "- (2 ^ 63) \<le> sint e" "sint e < 2 ^ 63" "sint now < 2 ^ 63" "- (2 ^ 63) \<le> sint now"
    using sint_lt [of e] sint_lt [of now] sint_ge [of e] sint_ge [of now] by simp_all
  have ttl: "sint ttl = signed_take_bit 63 (sint e - sint now)"
    unfolding e(3) using sint_sbintrunc' [of "sint e - sint now"] by (simp add: signed_take_bit_diff sint_word_ariths)
  have "if - (2 ^ 63) \<le> sint e - sint now then sint ttl = sint e - sint now else 0 < sint ttl" if "0 \<le> sint now"
  proof (cases "- (2 ^ 63) \<le> sint e - sint now")
    case True
    then show ?thesis using ttl that b by (simp add: signed_take_bit_int_eq_self)
  next
    case False
    then have "(sint e - sint now + 2 ^ 63) mod 2 ^ 64 = sint e - sint now + 2 ^ 63 + 2 ^ 64"
      using b that by (subst mod_add_self2 [symmetric], intro mod_pos_pos_trivial) simp_all
    then have "signed_take_bit 63 (sint e - sint now) = sint e - sint now + 2 ^ 64"
      by (simp add: signed_take_bit_eq_take_bit_shift take_bit_eq_mod)
    then show ?thesis using False ttl b that by simp
  qed
  then show ?thesis using e(1,2,4)
    by (intro exI [of _ e] conjI) (auto simp: sless_iff split: if_splits)
qed

end
