(* ===== verification/AuthSample.thy ===== *)
theory AuthSample
  imports AuthLife
begin

text \<open>
  auth-worker on one session: a token that is about to expire is renewed and touched, or the answer to
  the touch request takes it away again.
\<close>

text \<open>A library that knows the claims of two tokens, and reads a float as the integer of its bits.\<close>

definition auth_sample_lib :: auth_lib where
  "auth_sample_lib = \<lparr>al_sha256 = id,
     al_claims = (\<lambda>bytes. if bytes = [65] then Some (Some 1000, lit ''touched'') else if bytes = [66] then Some (Some 2000, lit ''renew'')
       else None),
     al_int64 = id, al_float = id, al_number = of_int\<rparr>"

definition old_token :: ustr where "old_token = lit ''a.QQ.s''"
definition new_token :: ustr where "new_token = lit ''a.Qg.s''"

definition token_cookie :: "ustr \<Rightarrow> cookie" where
  "token_cookie value = \<lparr>ak_name = lit ''prfr_bo_tkn'', ak_value = value, ak_domain = lit ''.profi.ru'', ak_path = lit ''/'',
     ak_secure = True, ak_http_only = True, ak_host_only = False, ak_session = True, ak_same_site = SameSiteLax, ak_expires_at = 0\<rparr>"

definition token_set :: "ustr \<Rightarrow> set_cookie" where
  "token_set value = \<lparr>hc_name = lit ''prfr_bo_tkn'', hc_value = value, hc_domain = [], hc_path = lit ''/'', hc_secure = True,
     hc_http_only = True, hc_same_site = HttpLaxMode, hc_max_age = 0, hc_expires = None\<rparr>"

text \<open>The second request is the touch.\<close>

definition auth_sample_world :: "http_response \<Rightarrow> auth_world" where
  "auth_sample_world touch = \<lparr>aw_lib = auth_sample_lib, aw_type_error = (\<lambda>_. []), aw_now = (\<lambda>_. 900), aw_lock = (\<lambda>_. None),
     aw_read = (\<lambda>_. None), aw_write = (\<lambda>_. None),
     aw_http = (\<lambda>n _. Response (if n = 0 then \<lparr>hr_code = 200, hr_cookies = [token_set new_token], hr_location = [], hr_retry_after = []\<rparr>
       else touch))\<rparr>"

definition touch_ok :: http_response where
  "touch_ok = \<lparr>hr_code = 200, hr_cookies = [], hr_location = [], hr_retry_after = []\<rparr>"

definition touch_refused :: http_response where
  "touch_refused = \<lparr>hr_code = 401, hr_cookies = [], hr_location = [], hr_retry_after = []\<rparr>"

definition touch_clears :: http_response where
  "touch_clears = \<lparr>hr_code = 401, hr_cookies = [token_set []], hr_location = [], hr_retry_after = []\<rparr>"

definition auth_sample_config :: auth_config where
  "auth_sample_config = \<lparr>cf_cookie_file = lit ''cookies.json'', cf_renew_url = lit ''renew'', cf_touch_url = lit ''touch'',
     cf_user_agent = lit ''ua'', cf_refresh_before = 180, cf_check = 60, cf_auth_expired = 300, cf_error = 60\<rparr>"

definition auth_sample_state :: auth_state where
  "auth_sample_state = \<lparr>as_clock = 0, as_locks = 0, as_reads = 0, as_writes = 0, as_requests = [],
     as_file = Some (saved_text auth_sample_lib [token_cookie old_token] (lit ''https://profi.ru'')), as_status = None\<rparr>"

lemmas auth_sample_defs = auth_sample_lib_def auth_sample_config_def touch_ok_def touch_refused_def touch_clears_def
  old_token_def new_token_def token_cookie_def token_set_def

lemma auth_sample_jar: "good [token_cookie value]" "reread_jar L [token_cookie value] = [token_cookie value]"
  by (simp_all add: good_def jar_ok_def cookie_ok_def token_cookie_def reread_jar_def reread_def IsSession_def lit_eval)

lemma padding: "replicate 2 (61 :: nat) = [61, 61]"
  by (simp add: numeral_2_eq_2)

lemma auth_sample_exp: "DecodeJWTExp auth_sample_lib old_token = Some 1000" "DecodeJWTExp auth_sample_lib new_token = Some 2000"
  "DecodeJWTExp auth_sample_lib [] = None"
  by (simp_all add: DecodeJWTExp_def decodeJWTClaims_def decode_b64_def b64_digit_def padding auth_sample_defs lit_eval Let_def)

lemma auth_sample_latest: "LatestTokens auth_sample_lib [token_cookie old_token] = [(lit ''prfr_bo_tkn'', token_info_of auth_sample_lib (token_cookie old_token) 1000)]"
  "LatestTokens auth_sample_lib [token_cookie new_token] = [(lit ''prfr_bo_tkn'', token_info_of auth_sample_lib (token_cookie new_token) 2000)]"
  "LatestTokens auth_sample_lib [token_cookie []] = []"
  by (simp_all add: LatestTokens_def latest_step_def token_cookie_def auth_sample_exp)

lemma auth_sample_ttl: "TokenTTL auth_sample_lib [token_cookie old_token] now = Some (1000 - now)"
  "TokenTTL auth_sample_lib [token_cookie new_token] now = Some (2000 - now)" "TokenTTL auth_sample_lib [token_cookie []] now = None"
  using auth_sample_latest TokenTTL_one by (auto simp: TokenTTL_def [where j = "[token_cookie []]"])

lemma auth_sample_merge: "jar_set (token_cookie v) [token_cookie w] = [token_cookie v]"
  by (simp add: token_cookie_def SameIdentity_def)

lemma auth_sample_domainCookie: "hc_value h = v \<Longrightarrow> h = token_set v \<Longrightarrow> domainCookie W h = go_ret (token_cookie v)"
  by (simp add: domainCookie_def token_set_def token_cookie_def go_or_default_def defaultDomain_def lit_eval)

lemma auth_sample_details: "TokenDetails auth_sample_lib [token_cookie v] now = [token_detail_of auth_sample_lib now (token_cookie v)]"
  by (simp add: TokenDetails_def token_cookie_def)

lemma auth_sample_changed: "ChangedTokens (LatestTokens auth_sample_lib [token_cookie old_token]) (LatestTokens auth_sample_lib [token_cookie new_token]) =
    [lit ''prfr_bo_tkn'']"
  by (simp add: ChangedTokens_def auth_sample_latest token_cookie_names_def)

lemma auth_sample_removed: "fst (RemoveOldTokenDuplicates auth_sample_lib [token_cookie new_token]) = [token_cookie new_token]"
  by (simp add: RemoveOldTokenDuplicates_def auth_sample_latest isStaleDuplicate_def SameValue_def SameIdentity_def)

text \<open>Each operation on the way, in any state.\<close>

abbreviation session_url :: ustr where
  "session_url \<equiv> lit ''https://profi.ru''"

lemma auth_sample_ops:
  "acquire (auth_sample_world touch) s = (Inr (), s\<lparr>as_locks := Suc (as_locks s)\<rparr>)"
  "clock_now (auth_sample_world touch) s = (Inr 900, s\<lparr>as_clock := Suc (as_clock s)\<rparr>)"
  "save_jar (auth_sample_world touch) j url s = (Inr (), s\<lparr>as_writes := Suc (as_writes s), as_file := Some (saved_text auth_sample_lib j url)\<rparr>)"
  "as_file s = Some (saved_text auth_sample_lib [token_cookie v] session_url) \<Longrightarrow>
    load_jar (auth_sample_world touch) auth_sample_config s = (Inr ([token_cookie v], session_url), s\<lparr>as_reads := Suc (as_reads s)\<rparr>)"
  using load_good_saved [OF auth_sample_jar(1), where L = auth_sample_lib]
  by (simp_all add: acquire_def clock_now_def save_jar_def load_jar_def auth_sample_world_def auth_sample_jar(2) go_or_default_def Let_def flip: length_0_conv)

lemma auth_sample_lib_of [simp]: "aw_lib (auth_sample_world touch) = auth_sample_lib"
  by (simp add: auth_sample_world_def)

abbreviation sent_to :: "ustr \<Rightarrow> jar \<Rightarrow> renew_request" where
  "sent_to url j \<equiv> \<lparr>rr_url = url, rr_headers = renew_headers auth_sample_config j\<rparr>"

lemma auth_sample_renew_step: "as_requests s = [] \<Longrightarrow> renew_step (auth_sample_world touch) auth_sample_config j url s =
    (case merge_cookies (auth_sample_world touch) [token_set new_token] j (s\<lparr>as_requests := [sent_to url j]\<rparr>) of
       (Inl e, t) \<Rightarrow> (Inl e, t) | (Inr j', t) \<Rightarrow> (Inr (Inr [lit ''prfr_bo_tkn''], j'), t))"
  by (simp add: renew_step_def send_request_def auth_sample_world_def go_bind_def classify_response_def sorted_names_def token_set_def
      split: prod.split sum.split)

lemma token_set_value: "hc_value (token_set v) = v"
  by (simp add: token_set_def)

lemma auth_sample_merged: "merge_cookies W [token_set v] [token_cookie w] s = (Inr [token_cookie v], s)" "merge_cookies W [] j s = (Inr j, s)"
  by (simp_all add: auth_sample_domainCookie [OF token_set_value refl] auth_sample_merge go_bind_def del: jar_set.simps)

lemma auth_sample_touch_step: "as_requests s = [r] \<Longrightarrow> renew_step (auth_sample_world touch) auth_sample_config j url s =
    (case merge_cookies (auth_sample_world touch) (hr_cookies touch) j (s\<lparr>as_requests := [r, sent_to url j]\<rparr>) of
       (Inl e, t) \<Rightarrow> (Inl e, t)
     | (Inr j', t) \<Rightarrow> (Inr ((case classify_response touch of Some e \<Rightarrow> Inl e | None \<Rightarrow> Inr (sorted_names (map hc_name (hr_cookies touch)))), j'), t))"
  by (simp add: renew_step_def send_request_def auth_sample_world_def go_bind_def split: prod.split sum.split)

lemma auth_sample_Renew:
  assumes "as_requests s = []" and "(touch = touch_ok \<or> touch = touch_refused) \<and> v = new_token \<or> touch = touch_clears \<and> v = []"
  shows "\<exists>names t. Renew (auth_sample_world touch) auth_sample_config [token_cookie w] s = (Inr ([token_cookie v], names), t)"
proof -
  note renewed = auth_sample_renew_step [OF assms(1), unfolded auth_sample_merged prod.case sum.case]
  show ?thesis
    using assms(2)
    by (auto simp: Renew_def renewed auth_sample_touch_step touch_ok_def touch_refused_def touch_clears_def auth_sample_merged classify_response_def
        simp del: merge_cookies.simps)
qed

lemma auth_sample_needs: "NeedsRefresh (Some (1000 - 900)) (cf_refresh_before auth_sample_config)"
  by (simp add: NeedsRefresh_def auth_sample_config_def)

text \<open>A touch that is refused leaves the renewed token, which is saved; one that also clears the cookie loses it.\<close>

lemma auth_sample_start: "as_file auth_sample_state = Some (saved_text auth_sample_lib [token_cookie old_token] session_url)"
  "as_requests auth_sample_state = []"
  by (simp_all add: auth_sample_state_def)

abbreviation auth_sample_before :: token_snapshot where
  "auth_sample_before \<equiv> \<lparr>ts_ttl = Some 100, ts_tokens = LatestTokens auth_sample_lib [token_cookie old_token],
     ts_details = TokenDetails auth_sample_lib [token_cookie old_token] 900\<rparr>"

definition after_renewal :: "http_response \<Rightarrow> ustr \<Rightarrow> ustr list \<Rightarrow> refresh_result go" where
  "after_renewal touch v names = go_bind (verifyRenew (auth_sample_world touch) [token_cookie v] auth_sample_before names) (\<lambda>_.
     go_bind (finalTokens (auth_sample_world touch) (fst (RemoveOldTokenDuplicates auth_sample_lib [token_cookie v]))) (\<lambda>(ttl, details).
     go_bind (save_jar (auth_sample_world touch) (fst (RemoveOldTokenDuplicates auth_sample_lib [token_cookie v])) session_url) (\<lambda>_.
       go_ret \<lparr>rf_ttl_before = Some 100, rf_ttl_after = ttl, rf_refreshed = True,
         rf_tokens_before = TokenDetails auth_sample_lib [token_cookie old_token] 900, rf_tokens_after = details\<rparr>)))"

lemma auth_sample_cycle:
  assumes "(touch = touch_ok \<or> touch = touch_refused) \<and> v = new_token \<or> touch = touch_clears \<and> v = []"
  shows "\<exists>names u. RefreshAuth_Execute (auth_sample_world touch) auth_sample_config auth_sample_state = after_renewal touch v names u"
proof -
  let ?s = "auth_sample_state\<lparr>as_locks := Suc (as_locks auth_sample_state), as_reads := Suc (as_reads auth_sample_state),
    as_clock := Suc (as_clock auth_sample_state)\<rparr>"
  obtain names u where renew: "Renew (auth_sample_world touch) auth_sample_config [token_cookie old_token] ?s = (Inr ([token_cookie v], names), u)"
    using auth_sample_Renew [OF _ assms, of ?s old_token] auth_sample_start(2) by auto
  have "NeedsRefresh (Some 100) (cf_refresh_before auth_sample_config)" using auth_sample_needs by simp
  with renew show ?thesis
    by (intro exI [of _ names] exI [of _ u])
      (simp add: RefreshAuth_Execute_def auth_sample_ops auth_sample_start snapshot_def refreshIfNeeded_def auth_sample_ttl go_bind_assoc go_bind_ret
        after_renewal_def)
qed

lemma auth_sample_verify: "verifyRenew (auth_sample_world touch) [token_cookie new_token] auth_sample_before names s =
    (Inr (), s\<lparr>as_clock := Suc (as_clock s)\<rparr>)"
  by (simp add: verifyRenew_def go_bind_def auth_sample_ops auth_sample_ttl auth_sample_changed Let_def sless_iff)

lemma auth_sample_final: "finalTokens (auth_sample_world touch) [token_cookie new_token] s =
    (Inr (1100, TokenDetails auth_sample_lib [token_cookie new_token] 900), s\<lparr>as_clock := Suc (as_clock s)\<rparr>)"
  by (simp add: finalTokens_def go_bind_def auth_sample_ops auth_sample_ttl sless_iff)

lemma auth_sample_named: "named_cookies (auth_sample_world touch_clears)" "named_cookies (auth_sample_world touch_ok)"
  by (auto simp: named_cookies_def auth_sample_world_def touch_clears_def touch_ok_def token_set_def lit_eval split: if_splits)

lemma auth_sample_renews:
  assumes "touch = touch_ok \<or> touch = touch_refused"
  shows "\<exists>r t. RefreshAuth_Execute (auth_sample_world touch) auth_sample_config auth_sample_state = (Inr r, t) \<and>
    rf_refreshed r \<and> rf_ttl_after r = 1100 \<and> as_file t = Some (saved_text auth_sample_lib [token_cookie new_token] session_url)"
proof -
  obtain names u where "RefreshAuth_Execute (auth_sample_world touch) auth_sample_config auth_sample_state = after_renewal touch new_token names u"
    using auth_sample_cycle [of touch new_token] assms by blast
  then show ?thesis by (simp add: after_renewal_def auth_sample_verify auth_sample_removed auth_sample_final auth_sample_ops go_bind_def)
qed

lemma touch_loses_renewal:
  "\<exists>e t. RefreshAuth_Execute (auth_sample_world touch_clears) auth_sample_config auth_sample_state = (Inl e, t) \<and>
     auth_error_text e = lit ''renew returned success but no JWT token cookies were found'' \<and>
     as_file t = Some (saved_text auth_sample_lib [token_cookie old_token] session_url)"
proof -
  obtain names u where c: "RefreshAuth_Execute (auth_sample_world touch_clears) auth_sample_config auth_sample_state = after_renewal touch_clears [] names u"
    using auth_sample_cycle [of touch_clears "[]"] by blast
  have "\<exists>e t. after_renewal touch_clears [] names u = (Inl e, t) \<and>
      auth_error_text e = lit ''renew returned success but no JWT token cookies were found''"
    by (simp add: after_renewal_def verifyRenew_def auth_sample_ops auth_sample_ttl go_bind_def Let_def)
  then obtain e t where e: "RefreshAuth_Execute (auth_sample_world touch_clears) auth_sample_config auth_sample_state = (Inl e, t)"
      "auth_error_text e = lit ''renew returned success but no JWT token cookies were found''"
    using c by auto
  from Execute_file(2) [OF auth_sample_named(1) e(1) refl] e show ?thesis by (simp add: auth_sample_start)
qed

section \<open>An example of each property\<close>


theorem saved_session_served_witness:
  "\<exists>t reply u. serve_cookies (auth_sample_world touch_ok) auth_sample_config t = (Inr reply, u) \<and> cr_has_token reply \<and>
     single_token (cr_cookies reply)"
proof -
  obtain r t where r: "RefreshAuth_Execute (auth_sample_world touch_ok) auth_sample_config auth_sample_state = (Inr r, t)" "rf_refreshed r"
    using auth_sample_renews by blast
  show ?thesis using saved_session_served [OF auth_sample_named(2) r(1)] r(2) by (auto simp: auth_sample_world_def)
qed

theorem cookie_file_keeps_witness:
  "store_load auth_sample_lib (\<lambda>_. []) [] None (Some (saved_text auth_sample_lib [token_cookie old_token] session_url)) =
     Inr ([token_cookie old_token], session_url)"
proof -
  have "floats_exact auth_sample_lib" by (simp add: floats_exact_def auth_sample_lib_def)
  from cookie_file_keeps [OF this, of "[token_cookie old_token]" session_url "\<lambda>_. []" "[]"]
  show ?thesis by (simp add: token_cookie_def lit_eval)
qed

theorem time_left_exact_witness:
  "\<exists>e :: int64. IsTokenCookie (ak_name (token_cookie old_token)) \<and>
     DecodeJWTExp auth_sample_lib (ak_value (token_cookie old_token)) = Some e \<and> sint (100 :: int64) = sint e - sint (900 :: int64)"
  using time_left_exact [of auth_sample_lib "[token_cookie old_token]" 900 100] auth_sample_ttl(1) [of 900]
  by (auto simp: auth_sample_exp token_cookie_def split: if_splits)

end
