(* ===== verification/AuthMain.thy ===== *)
theory AuthMain
  imports AuthTheorems
begin

text \<open>
  auth-worker: the configuration from the environment (internal/platform/config), the loop of cycles and
  the main function (cmd/auth-worker/main.go), and the health probe (internal/adapter/grpcclient). How a
  float is read and scaled, how an address is split, and what the probe is answered are parameters.
\<close>

section \<open>Configuration\<close>

record go_config = auth_config +
  cg_lock_file :: ustr
  cg_status_file :: ustr
  cg_log_level :: ustr
  cg_grpc_addr :: ustr
  cg_request_timeout :: int64
  cg_lock_timeout :: int64
  cg_run_once :: bool

text \<open>\<open>strconv.ParseInt(value, 10, 64)\<close>: digits after an optional sign, within the range.\<close>

definition parse_int64 :: "ustr \<Rightarrow> int64 option" where
  "parse_int64 v = (let (negative, ds) = (case v of c # cs \<Rightarrow> if c = 45 then (True, cs) else if c = 43 then (False, cs) else (False, v)
       | [] \<Rightarrow> (False, []));
     i = (if negative then - int (digits_value ds) else int (digits_value ds)) in
     if ds \<noteq> [] \<and> list_all (\<lambda>c. 48 \<le> c \<and> c < 58) ds \<and> - (2 ^ 63) \<le> i \<and> i < 2 ^ 63 then Some (of_int i) else None)"

definition go_env :: "(ustr \<Rightarrow> ustr option) \<Rightarrow> string \<Rightarrow> string \<Rightarrow> ustr" where
  "go_env E key fallback = (case E (lit key) of Some v \<Rightarrow> v | None \<Rightarrow> lit fallback)"

definition envInt :: "(ustr \<Rightarrow> ustr option) \<Rightarrow> string \<Rightarrow> int64 \<Rightarrow> int64" where
  "envInt E key fallback = (case E (lit key) of None \<Rightarrow> fallback
     | Some v \<Rightarrow> (case parse_int64 v of None \<Rightarrow> fallback | Some i \<Rightarrow> i))"

text \<open>A \<open>time.Duration\<close> counts nanoseconds in an \<open>int64\<close>, and the product wraps around.\<close>

definition envSeconds :: "(ustr \<Rightarrow> ustr option) \<Rightarrow> string \<Rightarrow> int64 \<Rightarrow> int64" where
  "envSeconds E key fallback = envInt E key fallback * 1000000000"

definition envFractionalSeconds :: "(ustr \<Rightarrow> int64 option) \<Rightarrow> (ustr \<Rightarrow> ustr option) \<Rightarrow> string \<Rightarrow> int64 \<Rightarrow> int64" where
  "envFractionalSeconds fraction E key fallback = (case E (lit key) of None \<Rightarrow> fallback * 1000000000
     | Some v \<Rightarrow> (case fraction v of None \<Rightarrow> fallback * 1000000000 | Some d \<Rightarrow> d))"

definition defaultUserAgent :: string where
  "defaultUserAgent = ''Mozilla/5.0 (Windows NT 10.0; Win64; x64) '' @ ''AppleWebKit/537.36 (KHTML, like Gecko) '' @
     ''Chrome/150.0.0.0 Safari/537.36''"

definition go_load_config :: "(ustr \<Rightarrow> int64 option) \<Rightarrow> (ustr \<Rightarrow> ustr option) \<Rightarrow> go_config" where
  "go_load_config fraction E = \<lparr>cf_cookie_file = go_env E ''PROFI_COOKIE_JSON'' ''./data/cookies.json'',
     cf_renew_url = go_env E ''PROFI_RENEW_URL'' ''https://profi.ru/auth/token/renew'',
     cf_touch_url = go_env E ''PROFI_TOUCH_URL'' ''https://profi.ru/auth/token/touch'',
     cf_user_agent = go_env E ''PROFI_USER_AGENT'' defaultUserAgent,
     cf_refresh_before = envInt E ''PROFI_REFRESH_BEFORE'' 180,
     cf_check = envSeconds E ''PROFI_CHECK_INTERVAL'' 60,
     cf_auth_expired = envSeconds E ''PROFI_AUTH_EXPIRED_INTERVAL'' 300,
     cf_error = envSeconds E ''PROFI_ERROR_INTERVAL'' 60,
     cg_lock_file = go_env E ''PROFI_COOKIE_LOCK'' ''./data/cookies.lock'',
     cg_status_file = go_env E ''PROFI_AUTH_STATUS'' ''./data/auth-status.json'',
     cg_log_level = go_env E ''LOG_LEVEL'' ''INFO'', cg_grpc_addr = go_env E ''PROFI_GRPC_ADDR'' ''127.0.0.1:50051'',
     cg_request_timeout = envFractionalSeconds fraction E ''PROFI_REQUEST_TIMEOUT'' 30,
     cg_lock_timeout = envFractionalSeconds fraction E ''PROFI_LOCK_TIMEOUT'' 30,
     cg_run_once = (go_env E ''PROFI_RUN_ONCE'' ''0'' = lit ''1'')\<rparr>"

section \<open>The loop\<close>

text \<open>
  \<open>stop n\<close>: the signal is taken in the n-th pause. The loop is given a number of cycles; what it returns
  is whether it has stopped, and the pauses it asked for.
\<close>

primrec runLoop :: "auth_world \<Rightarrow> auth_config \<Rightarrow> (nat \<Rightarrow> bool) \<Rightarrow> nat \<Rightarrow> nat \<Rightarrow> auth_state \<Rightarrow> bool \<times> int64 list \<times> auth_state" where
  "runLoop W cfg stop 0 n s = (False, [], s)"
| "runLoop W cfg stop (Suc cycles) n s = (let (pause, t) = auth_run_once W cfg s in
     if stop n then (True, [pause], t)
     else (let (stopped, pauses, u) = runLoop W cfg stop cycles (Suc n) t in (stopped, pause # pauses, u)))"

section \<open>The main function\<close>

text \<open>The exit code, if the process has ended; the error of \<open>net.Listen\<close>, if any, comes with the call.\<close>

definition JoinHostPort :: "ustr \<Rightarrow> ustr \<Rightarrow> ustr" where
  "JoinHostPort host port = (if 58 \<in> set host then lit ''['' @ host @ lit '']:'' @ port else host @ lit '':'' @ port)"

definition healthTarget :: "(ustr \<Rightarrow> (ustr \<times> ustr) option) \<Rightarrow> ustr \<Rightarrow> ustr" where
  "healthTarget split addr = (case split addr of None \<Rightarrow> addr
     | Some (host, port) \<Rightarrow>
         JoinHostPort (if host \<in> {[], lit ''0.0.0.0'', lit ''::''} then lit ''127.0.0.1'' else host) port)"

text \<open>The answer to the probe: an error of the call, or whether the server is serving.\<close>

definition CheckHealth :: "(ustr \<Rightarrow> ustr + bool) \<Rightarrow> ustr \<Rightarrow> bool" where
  "CheckHealth probe target \<longleftrightarrow> probe target = Inr True"

definition runHealthCheck :: "(ustr \<Rightarrow> (ustr \<times> ustr) option) \<Rightarrow> (ustr \<Rightarrow> ustr + bool) \<Rightarrow> go_config \<Rightarrow> nat" where
  "runHealthCheck split probe cfg = (if CheckHealth probe (healthTarget split (cg_grpc_addr cfg)) then 0 else 1)"

definition auth_main :: "auth_world \<Rightarrow> go_config \<Rightarrow> ustr option \<Rightarrow> (nat \<Rightarrow> bool) \<Rightarrow> nat \<Rightarrow> auth_state \<Rightarrow> nat option \<times> auth_state" where
  "auth_main W cfg listen stop cycles s = (let c = auth_config.truncate cfg in
     if cg_run_once cfg then (Some 0, snd (auth_run_once W c s))
     else (case listen of Some e \<Rightarrow> (Some 1, s)
       | None \<Rightarrow> (let (stopped, pauses, t) = runLoop W c stop cycles 0 s in (if stopped then Some 0 else None, t))))"

section \<open>Its pace\<close>

lemma run_once_pause: "auth_run_once W cfg s = (pause, t) \<Longrightarrow> pause \<in> {cf_check cfg, cf_auth_expired cfg, cf_error cfg}"
  by (auto simp: auth_run_once_def failure_pause_def split: prod.splits sum.splits auth_error.splits)

lemma loop_pauses: "runLoop W cfg stop cycles n s = (stopped, pauses, t) \<Longrightarrow>
    set pauses \<subseteq> {cf_check cfg, cf_auth_expired cfg, cf_error cfg}"
proof (induction cycles arbitrary: n s stopped pauses t)
  case (Suc cycles)
  then show ?case
    by (auto simp: Let_def split: prod.splits if_splits dest: run_once_pause) (use run_once_pause in fastforce)+
qed simp

text \<open>A number of seconds that fits, or a variable whose value is not used.\<close>

definition seconds_ok :: "(ustr \<Rightarrow> ustr option) \<Rightarrow> string \<Rightarrow> bool" where
  "seconds_ok E key \<longleftrightarrow> (\<forall>v i. E (lit key) = Some v \<longrightarrow> parse_int64 v = Some i \<longrightarrow> 0 < sint i \<and> sint i \<le> 9223372036)"

lemma seconds_product:
  assumes "0 < sint i" and "sint i \<le> 9223372036"
  shows "sint ((i :: int64) * 1000000000) = sint i * 1000000000"
proof -
  have "sint (i * 1000000000) = signed_take_bit 63 (sint i * 1000000000)" by (simp add: sint_word_ariths)
  also have "\<dots> = sint i * 1000000000" using assms by (simp add: signed_take_bit_int_eq_self)
  finally show ?thesis .
qed

lemma envSeconds_exact:
  assumes "seconds_ok E key" and "0 < sint fallback" and "sint fallback \<le> 9223372036"
  shows "\<exists>n > 0. sint (envSeconds E key fallback) = n * 1000000000"
proof -
  have "0 < sint (envInt E key fallback) \<and> sint (envInt E key fallback) \<le> 9223372036"
  proof (cases "Option.bind (E (lit key)) parse_int64")
    case None
    then have "envInt E key fallback = fallback" by (cases "E (lit key)") (simp_all add: envInt_def)
    with assms(2,3) show ?thesis by simp
  next
    case (Some i)
    then have "envInt E key fallback = i" "0 < sint i \<and> sint i \<le> 9223372036"
      using assms(1) unfolding seconds_ok_def by (auto simp: envInt_def bind_eq_Some_conv)
    then show ?thesis by simp
  qed
  then have i: "0 < sint (envInt E key fallback)" "sint (envInt E key fallback) \<le> 9223372036" by blast+
  have "sint (envSeconds E key fallback) = sint (envInt E key fallback) * 1000000000"
    unfolding envSeconds_def by (rule seconds_product [OF i])
  with i(1) show ?thesis by (intro exI conjI)
qed

text \<open>The loop keeps its pace: when each of the three intervals is missing, no number, or between 1 and
  9223372036 seconds, every pause of every run is a positive whole number of seconds.\<close>

theorem loop_keeps_pace:
  assumes "seconds_ok E ''PROFI_CHECK_INTERVAL''" and "seconds_ok E ''PROFI_AUTH_EXPIRED_INTERVAL''" and "seconds_ok E ''PROFI_ERROR_INTERVAL''"
  shows "\<forall>pause \<in> set (fst (snd (runLoop W (auth_config.truncate (go_load_config fraction E)) stop cycles 0 s))).
      \<exists>n > 0. sint pause = n * 1000000000"
    (is "\<forall>pause \<in> set (fst (snd ?run)). _")
proof
  let ?cfg = "auth_config.truncate (go_load_config fraction E)"
  fix pause assume pause: "pause \<in> set (fst (snd ?run))"
  obtain stopped pauses t where run: "?run = (stopped, pauses, t)" by (cases ?run)
  have "pause \<in> {cf_check ?cfg, cf_auth_expired ?cfg, cf_error ?cfg}"
    using loop_pauses [OF run] pause unfolding run by auto
  then show "\<exists>n > 0. sint pause = n * 1000000000"
    using envSeconds_exact [OF assms(1), of 60] envSeconds_exact [OF assms(2), of 300] envSeconds_exact [OF assms(3), of 60]
    by (auto simp: go_load_config_def auth_config.truncate_def)
qed

text \<open>A signal in the n-th pause ends the loop after exactly n + 1 cycles, however many it is given beyond them.\<close>

theorem loop_stops:
  assumes "stop (n + k)" and "\<And>i. i < k \<Longrightarrow> \<not> stop (n + i)" and "k < cycles"
  shows "\<exists>pauses t. runLoop W cfg stop cycles n s = (True, pauses, t) \<and> length pauses = Suc k"
  using assms
proof (induction k arbitrary: n cycles s)
  case 0
  then obtain c where "cycles = Suc c" by (cases cycles) auto
  with 0(1) show ?case by (simp add: split_def Let_def)
next
  case (Suc k)
  then obtain c where c: "cycles = Suc c" "k < c" by (cases cycles) auto
  obtain pause u where once: "auth_run_once W cfg s = (pause, u)" by (cases "auth_run_once W cfg s")
  have "stop (Suc n + k)" "\<And>i. i < k \<Longrightarrow> \<not> stop (Suc n + i)"
    using Suc.prems(1) Suc.prems(2) [of "Suc i" for i] by (simp_all add: less_Suc_eq_0_disj)
  from Suc.IH [OF this c(2)] obtain pauses t where "runLoop W cfg stop c (Suc n) u = (True, pauses, t)" "length pauses = Suc k" by blast
  moreover have "\<not> stop n" using Suc.prems(2) [of 0] by simp
  ultimately show ?case using c(1) once by simp
qed

text \<open>One second more, and the product wraps around: the pause is negative, and the loop runs without any.\<close>

lemma long_interval_wraps:
  "sint (envSeconds (\<lambda>_. Some (lit ''9223372037'')) ''PROFI_CHECK_INTERVAL'' 60) < 0"
  using digit_value_ascii [of 9] digit_value_ascii [of 2] digit_value_ascii [of 3] digit_value_ascii [of 7] digit_value_ascii [of 0]
  by (simp add: envSeconds_def envInt_def parse_int64_def digits_value_def lit_eval Let_def)

section \<open>An example of each\<close>

theorem loop_keeps_pace_witness:
  "\<forall>pause \<in> set (fst (snd (runLoop W (auth_config.truncate (go_load_config (\<lambda>_. None) (\<lambda>_. None))) (\<lambda>_. False) 3 0 s))).
     \<exists>n > 0. sint pause = n * 1000000000"
  by (rule loop_keeps_pace) (simp_all add: seconds_ok_def)

theorem loop_stops_witness: "\<exists>pauses t. runLoop W cfg (\<lambda>n. n = 2) 10 0 s = (True, pauses, t) \<and> length pauses = 3"
  using loop_stops [of "\<lambda>n. n = 2" 0 2 10 W cfg s] by simp

end
