(* ===== verification/AuthFile.thy ===== *)
theory AuthFile
  imports AuthStore
begin

text \<open>
  auth-worker: how a file is replaced (internal/platform/atomicjson) and what the status file holds
  (internal/adapter/statusfile). A path is a directory and a name in it, a file its bytes and its mode.
  Every call of the operating system may fail; a write may fail half done; and the process may stop
  between any two of them.
\<close>

section \<open>The file system\<close>

type_synonym fpath = "ustr \<times> ustr"
type_synonym files = "fpath \<Rightarrow> (nat list \<times> nat) option"

datatype fs_op =
    Make_dir ustr
  | Open_trunc fpath nat
  | Write_bytes fpath "nat list"
  | Sync_file fpath
  | Close_file fpath
  | Rename_file fpath fpath
  | Change_mode fpath nat
  | Remove_file fpath

primrec fs_apply :: "fs_op \<Rightarrow> files \<Rightarrow> files" where
  "fs_apply (Make_dir d) fs = fs"
| "fs_apply (Open_trunc p mode) fs = fs(p \<mapsto> ([], case fs p of Some (_, m) \<Rightarrow> m | None \<Rightarrow> mode))"
| "fs_apply (Write_bytes p bs) fs = (case fs p of Some (old, m) \<Rightarrow> fs(p \<mapsto> (old @ bs, m)) | None \<Rightarrow> fs)"
| "fs_apply (Sync_file p) fs = fs"
| "fs_apply (Close_file p) fs = fs"
| "fs_apply (Rename_file p q) fs = (case fs p of Some f \<Rightarrow> (fs(p := None))(q \<mapsto> f) | None \<Rightarrow> fs)"
| "fs_apply (Change_mode p mode) fs = (case fs p of Some (bs, _) \<Rightarrow> fs(p \<mapsto> (bs, mode)) | None \<Rightarrow> fs)"
| "fs_apply (Remove_file p) fs = fs(p := None)"

text \<open>What a call that fails has done: a write, some of the bytes; any other, nothing.\<close>

primrec fs_partial :: "nat \<Rightarrow> fs_op \<Rightarrow> files \<Rightarrow> files" where
  "fs_partial n (Make_dir d) fs = fs"
| "fs_partial n (Open_trunc p mode) fs = fs"
| "fs_partial n (Write_bytes p bs) fs = fs_apply (Write_bytes p (take n bs)) fs"
| "fs_partial n (Sync_file p) fs = fs"
| "fs_partial n (Close_file p) fs = fs"
| "fs_partial n (Rename_file p q) fs = fs"
| "fs_partial n (Change_mode p mode) fs = fs"
| "fs_partial n (Remove_file p) fs = fs"

section \<open>Writing a file\<close>

definition temporary :: "fpath \<Rightarrow> nat \<Rightarrow> fpath" where
  "temporary path pid = (fst path, lit ''.'' @ snd path @ lit ''.'' @ show_int (int pid) @ lit ''.tmp'')"

definition private_mode :: nat where
  "private_mode = 384"

text \<open>The calls that end the write when they fail, up to the rename.\<close>

definition write_ops :: "fpath \<Rightarrow> nat \<Rightarrow> nat list \<Rightarrow> fs_op list" where
  "write_ops path pid data = (let t = temporary path pid in
     [Make_dir (fst path), Open_trunc t private_mode, Write_bytes t data, Sync_file t, Close_file t, Rename_file t path])"

text \<open>
  \<open>fault n\<close> is the error of the n-th call and how much of it was done. The states passed are kept, the
  first one first, for a process that stops in any of them.
\<close>

primrec run_calls :: "(nat \<Rightarrow> (ustr \<times> nat) option) \<Rightarrow> nat \<Rightarrow> fs_op list \<Rightarrow> files \<Rightarrow> (ustr option \<times> nat \<times> files list)" where
  "run_calls fault n [] fs = (None, n, [fs])"
| "run_calls fault n (p # ps) fs = (case fault n of
     Some (e, k) \<Rightarrow> (Some e, Suc n, [fs, fs_partial k p fs])
   | None \<Rightarrow> (case run_calls fault (Suc n) ps (fs_apply p fs) of (r, m, states) \<Rightarrow> (r, m, fs # states)))"

text \<open>
  \<open>Write\<close>: the calls; after a rename the mode, whose error is ignored; and at the end, unless the
  directory could not be made, the removal of the temporary file, whose error is ignored too.
\<close>

definition ignore_error :: "(nat \<Rightarrow> (ustr \<times> nat) option) \<Rightarrow> nat \<Rightarrow> fs_op \<Rightarrow> files \<Rightarrow> files" where
  "ignore_error fault n p fs = (case fault n of Some (e, k) \<Rightarrow> fs_partial k p fs | None \<Rightarrow> fs_apply p fs)"

definition atomic_write :: "(nat \<Rightarrow> (ustr \<times> nat) option) \<Rightarrow> fpath \<Rightarrow> nat \<Rightarrow> nat list \<Rightarrow> files \<Rightarrow> ustr option \<times> files list" where
  "atomic_write fault path pid data fs = (case run_calls fault 0 (write_ops path pid data) fs of (r, n, states) \<Rightarrow>
     (case r of
        Some e \<Rightarrow> (Some e, if n = 1 then states
          else states @ [ignore_error fault n (Remove_file (temporary path pid)) (last states)])
      | None \<Rightarrow> (let moded = ignore_error fault n (Change_mode path private_mode) (last states) in
          (None, states @ [moded, ignore_error fault (Suc n) (Remove_file (temporary path pid)) moded]))))"

section \<open>The status file\<close>

definition opt_int :: "int64 option \<Rightarrow> json" where
  "opt_int v = (case v of Some i \<Rightarrow> JInt (sint i) | None \<Rightarrow> JNull)"

definition token_json :: "token_detail \<Rightarrow> json" where
  "token_json d = JObj [(lit ''name'', JStr (td_name d)), (lit ''domain'', JStr (td_domain d)), (lit ''path'', JStr (td_path d)),
     (lit ''jwt_exp'', opt_int (td_jwt_exp d)), (lit ''jwt_ttl'', opt_int (td_jwt_ttl d)),
     (lit ''cookie_expires'', opt_int (td_cookie_expires d)), (lit ''fingerprint'', JStr (td_fingerprint d))]"

definition status_file_json :: "status_report \<Rightarrow> json" where
  "status_file_json r = JObj [(lit ''status'', JStr (status_string (sr_status r))), (lit ''updated_at'', JInt (sint (sr_updated_at r))),
     (lit ''token_ttl'', opt_int (sr_token_ttl r)), (lit ''refreshed'', JBool (sr_refreshed r)),
     (lit ''error'', if sr_error r = [] then JNull else JStr (sr_error r)), (lit ''tokens'', JList (map token_json (sr_tokens r)))]"

section \<open>Old or new, never in between\<close>

lemma temporary_other: "temporary path pid \<noteq> path" "path \<noteq> temporary path pid"
proof -
  have "length (snd (temporary path pid)) \<noteq> length (snd path)" by (simp add: temporary_def)
  then show "temporary path pid \<noteq> path" "path \<noteq> temporary path pid" by metis+
qed

text \<open>C9. Replacing a file is atomic: whatever calls fail, and wherever the process stops on the way, the file is
  the old one or the new one with all its bytes, and no other file but the temporary one is touched. It
  is the new one exactly if no error is returned, with the private mode when the temporary file was
  not left over from before.\<close>

theorem write_is_atomic:
  assumes "atomic_write fault path pid data fs = (r, states)"
  shows "(\<forall>f \<in> set states. (f path = fs path \<or> (\<exists>m. f path = Some (data, m))) \<and>
      (\<forall>q. q \<noteq> path \<longrightarrow> q \<noteq> temporary path pid \<longrightarrow> f q = fs q)) \<and>
    (case r of Some e \<Rightarrow> last states path = fs path
     | None \<Rightarrow> \<exists>m. last states path = Some (data, m) \<and> (fs (temporary path pid) = None \<longrightarrow> m = private_mode))"
proof -
  let ?t = "temporary path pid"
  note t = temporary_other [of path pid]
  show ?thesis
    using assms t
    by (auto simp: atomic_write_def write_ops_def ignore_error_def Let_def split: option.splits prod.splits if_splits)
qed

text \<open>An example: the disk is full half way through the write.\<close>

definition half_written :: "nat \<Rightarrow> (ustr \<times> nat) option" where
  "half_written n = (if n = 2 then Some (lit ''no space left'', 1) else None)"

theorem write_is_atomic_witness:
  "\<exists>states. atomic_write half_written (lit ''data'', lit ''cookies.json'') 7 [1, 2, 3] [(lit ''data'', lit ''cookies.json'') \<mapsto> ([9], 384)] =
      (Some (lit ''no space left''), states) \<and> last states (lit ''data'', lit ''cookies.json'') = Some ([9], 384)"
proof -
  let ?path = "(lit ''data'', lit ''cookies.json'')"
  obtain r states where w: "atomic_write half_written ?path 7 [1, 2, 3] [?path \<mapsto> ([9], 384)] = (r, states)"
    by (cases "atomic_write half_written ?path 7 [1, 2, 3] [?path \<mapsto> ([9], 384)]")
  have "r = fst (atomic_write half_written ?path 7 [1, 2, 3] [?path \<mapsto> ([9], 384)])" using w by simp
  then have "r = Some (lit ''no space left'')"
    by (simp add: atomic_write_def write_ops_def half_written_def Let_def)
  then show ?thesis using write_is_atomic [OF w] w by simp
qed

end
