(* ===== verification/AuthRedact.thy ===== *)
theory AuthRedact
  imports Prelude
begin

text \<open>
  auth-worker: what of a response reaches the log (internal/adapter/httprenew/redact.go). The pattern
  names three runs of characters with dots between, and a dot ends a run, so the leftmost match, as
  long as it can be, is found without backtracking. A text is its bytes.
\<close>

section \<open>The pattern\<close>

definition jwt_char :: "nat \<Rightarrow> bool" where
  "jwt_char c \<longleftrightarrow> 97 \<le> c \<and> c \<le> 122 \<or> 65 \<le> c \<and> c \<le> 90 \<or> 48 \<le> c \<and> c \<le> 57 \<or> c = 95 \<or> c = 45"

text \<open>A run, at least one character long: what follows it.\<close>

definition jwt_run :: "ustr \<Rightarrow> ustr option" where
  "jwt_run s = (if takeWhile jwt_char s = [] then None else Some (dropWhile jwt_char s))"

definition jwt_dot :: "ustr \<Rightarrow> ustr option" where
  "jwt_dot s = (case s of c # cs \<Rightarrow> if c = 46 then jwt_run cs else None | [] \<Rightarrow> None)"

text \<open>\<open>jwtPattern\<close> at the start of a text: what follows the match.\<close>

definition jwt_match :: "ustr \<Rightarrow> ustr option" where
  "jwt_match s = (case s of a # b # c # cs \<Rightarrow>
       if a = 101 \<and> b = 121 \<and> c = 74 then Option.bind (Option.bind (jwt_run cs) jwt_dot) jwt_dot else None
     | _ \<Rightarrow> None)"

definition redacted_mark :: ustr where
  "redacted_mark = lit ''[JWT_REDACTED]''"

lemma jwt_run_length: "jwt_run s = Some t \<Longrightarrow> length t < length s"
  by (cases s) (auto simp: jwt_run_def split: if_splits intro: le_imp_less_Suc length_dropWhile_le)

lemma jwt_dot_length: "jwt_dot s = Some t \<Longrightarrow> length t < length s"
  by (auto simp: jwt_dot_def dest: jwt_run_length split: list.splits if_splits)

lemma jwt_match_length: "jwt_match s = Some t \<Longrightarrow> length t < length s"
  by (fastforce simp: jwt_match_def bind_eq_Some_conv dest!: jwt_run_length jwt_dot_length split: list.splits if_splits)

function redact_jwts :: "ustr \<Rightarrow> ustr" where
  "redact_jwts [] = []"
| "redact_jwts (c # cs) = (case jwt_match (c # cs) of Some rest \<Rightarrow> redacted_mark @ redact_jwts rest | None \<Rightarrow> c # redact_jwts cs)"
  by pat_completeness auto
termination
  by (relation "measure length") (auto dest: jwt_match_length)

definition maxBodyPreview :: nat where
  "maxBodyPreview = 1000"

definition redactBody :: "ustr \<Rightarrow> ustr" where
  "redactBody body = (let redacted = redact_jwts body in
     if maxBodyPreview < length redacted then take maxBodyPreview redacted @ lit ''...'' else redacted)"

section \<open>No token is left\<close>

definition has_jwt :: "ustr \<Rightarrow> bool" where
  "has_jwt s \<longleftrightarrow> (\<exists>pre post. s = pre @ post \<and> jwt_match post \<noteq> None)"

text \<open>A match is a matter of the characters it covers: it is there in every longer text.\<close>

lemma jwt_run_append: "jwt_run s = Some t \<Longrightarrow> \<exists>u. jwt_run (s @ v) = Some u \<and> (t \<noteq> [] \<longrightarrow> u = t @ v)"
  by (cases "dropWhile jwt_char s = []")
    (auto simp: jwt_run_def takeWhile_append dropWhile_append split: if_splits)

lemma jwt_dot_append: "jwt_dot s = Some t \<Longrightarrow> \<exists>u. jwt_dot (s @ v) = Some u \<and> (t \<noteq> [] \<longrightarrow> u = t @ v)"
  using jwt_run_append by (auto simp: jwt_dot_def split: list.splits if_splits)

lemma jwt_dot_nonempty: "jwt_dot s = Some t \<Longrightarrow> s \<noteq> []"
  by (auto simp: jwt_dot_def)

lemma jwt_match_append:
  assumes "jwt_match s \<noteq> None"
  shows "jwt_match (s @ v) \<noteq> None"
proof -
  obtain cs t where s: "s = 101 # 121 # 74 # cs" "Option.bind (Option.bind (jwt_run cs) jwt_dot) jwt_dot = Some t"
    using assms by (auto simp: jwt_match_def split: list.splits if_splits)
  then obtain a b where ab: "jwt_run cs = Some a" "jwt_dot a = Some b" "jwt_dot b = Some t" by (auto simp: bind_eq_Some_conv)
  have "jwt_run (cs @ v) = Some (a @ v)" using jwt_run_append [OF ab(1), of v] jwt_dot_nonempty [OF ab(2)] by auto
  moreover have "jwt_dot (a @ v) = Some (b @ v)" using jwt_dot_append [OF ab(2), of v] jwt_dot_nonempty [OF ab(3)] by auto
  moreover obtain u where "jwt_dot (b @ v) = Some u" using jwt_dot_append [OF ab(3), of v] by auto
  ultimately show ?thesis by (simp add: jwt_match_def s(1))
qed

text \<open>Nor can a match reach over a character that no run has and after which no dot and run follow.\<close>

lemma jwt_run_stop:
  assumes "jwt_run (s @ x # v) = Some t" and "\<not> jwt_char x"
  shows "\<exists>w. t = w @ x # v \<and> jwt_run s = Some w"
  using assms by (cases s) (auto simp: jwt_run_def takeWhile_append dropWhile_append split: if_splits)

lemma jwt_dot_stop:
  assumes "jwt_dot (s @ x # v) = Some t" and "\<not> jwt_char x" and "jwt_dot (x # v) = None"
  shows "\<exists>w. t = w @ x # v \<and> jwt_dot s = Some w"
  using assms jwt_run_stop by (cases s) (auto simp: jwt_dot_def split: if_splits)

lemma jwt_match_stop:
  assumes "jwt_match (s @ x # v) \<noteq> None" and "\<not> jwt_char x" and "jwt_dot (x # v) = None"
  shows "s = [] \<or> jwt_match s \<noteq> None"
proof (rule disjCI)
  assume none: "\<not> jwt_match s \<noteq> None"
  have x: "x \<noteq> 101" "x \<noteq> 121" "x \<noteq> 74" using assms(2) by (auto simp: jwt_char_def)
  show "s = []"
  proof (rule ccontr)
    assume "s \<noteq> []"
    then obtain cs where s: "s = 101 # 121 # 74 # cs"
      using assms(1) x by (auto simp: jwt_match_def neq_Nil_conv Cons_eq_append_conv append_eq_Cons_conv split: list.splits if_splits)
    then obtain a b t where ab: "jwt_run (cs @ x # v) = Some a" "jwt_dot a = Some b" "jwt_dot b = Some t"
      using assms(1) by (auto simp: jwt_match_def bind_eq_Some_conv)
    obtain a' where a': "a = a' @ x # v" "jwt_run cs = Some a'" using jwt_run_stop [OF ab(1) assms(2)] by blast
    obtain b' where b': "b = b' @ x # v" "jwt_dot a' = Some b'" using jwt_dot_stop [OF ab(2) [unfolded a'(1)] assms(2,3)] by blast
    obtain t' where "jwt_dot b' = Some t'" using jwt_dot_stop [OF ab(3) [unfolded b'(1)] assms(2,3)] by blast
    then show False using none a'(2) b'(2) by (simp add: jwt_match_def s)
  qed
qed

lemma has_jwt_Cons: "has_jwt (c # s) \<longleftrightarrow> jwt_match (c # s) \<noteq> None \<or> has_jwt s"
  unfolding has_jwt_def by (auto simp: Cons_eq_append_conv)

lemma has_jwt_Nil [simp]: "\<not> has_jwt []"
  by (simp add: has_jwt_def jwt_match_def)

lemma jwt_match_first: "jwt_match (c # s) = Some t \<Longrightarrow> c = 101"
  by (auto simp: jwt_match_def split: list.splits if_splits)

lemma has_jwt_after: "101 \<notin> set m \<Longrightarrow> has_jwt (m @ s) \<longleftrightarrow> has_jwt s"
  by (induction m) (auto simp: has_jwt_Cons dest: jwt_match_first)

text \<open>Up to the first mark, the redacted text is the text.\<close>

lemma redact_prefix: "redact_jwts s = s \<or> (\<exists>u v w. redact_jwts s = u @ 91 # v \<and> s = u @ w)"
proof (induction s rule: redact_jwts.induct)
  case (2 c cs)
  show ?case
  proof (cases "jwt_match (c # cs)")
    case None
    from 2(1) [OF None] show ?thesis
    proof (elim disjE exE conjE)
      fix u v w assume "redact_jwts cs = u @ 91 # v" "cs = u @ w"
      then have "redact_jwts (c # cs) = (c # u) @ 91 # v" "c # cs = (c # u) @ w" using None by simp_all
      then show ?thesis by blast
    qed (use None in simp)
  next
    case (Some rest)
    then have "redact_jwts (c # cs) = [] @ 91 # (tl redacted_mark @ redact_jwts rest)"
      by (simp add: redacted_mark_def lit_eval)
    then show ?thesis by blast
  qed
qed simp

lemma redact_no_jwt: "\<not> has_jwt (redact_jwts s)"
proof (induction s rule: redact_jwts.induct)
  case (2 c cs)
  show ?case
  proof (cases "jwt_match (c # cs)")
    case (Some rest)
    have "101 \<notin> set redacted_mark" by (simp add: redacted_mark_def lit_eval)
    then show ?thesis using 2(2) [OF Some] Some by (simp add: has_jwt_after)
  next
    case None
    have "jwt_match (c # redact_jwts cs) = None"
    proof (rule ccontr)
      assume m: "jwt_match (c # redact_jwts cs) \<noteq> None"
      from redact_prefix [of cs] show False
      proof (elim disjE exE conjE)
        fix u v w assume uvw: "redact_jwts cs = u @ 91 # v" "cs = u @ w"
        have "jwt_match ((c # u) @ 91 # v) \<noteq> None" using m uvw(1) by simp
        then have "jwt_match (c # u) \<noteq> None"
          using jwt_match_stop [of "c # u" 91 v] by (simp add: jwt_char_def jwt_dot_def)
        from jwt_match_append [OF this, of w] show False using None uvw(2) by simp
      qed (use m None in simp)
    qed
    then show ?thesis using 2(1) [OF None] None by (simp add: has_jwt_Cons)
  qed
qed simp

lemma has_jwt_prefix: "has_jwt s \<Longrightarrow> has_jwt (s @ v)"
  unfolding has_jwt_def using jwt_match_append by (metis append_assoc)

lemma has_jwt_dots: "has_jwt (s @ [46, 46, 46]) \<Longrightarrow> has_jwt s"
proof (induction s)
  case (Cons c s)
  have "jwt_match (c # s) \<noteq> None" if "jwt_match ((c # s) @ [46, 46, 46]) \<noteq> None"
    using jwt_match_stop [OF that] by (simp add: jwt_char_def jwt_dot_def jwt_run_def)
  with Cons show ?case by (auto simp: has_jwt_Cons)
qed (auto simp: has_jwt_Cons dest: jwt_match_first)

text \<open>C16. No token reaches the log: whatever the site answers, the preview of the body that is logged contains
  nothing of the shape of a token, neither whole nor where it was cut, and no more than 1000 bytes and
  the dots that mark the cut.\<close>

theorem no_token_in_log: "\<not> has_jwt (redactBody body) \<and> length (redactBody body) \<le> maxBodyPreview + 3"
proof -
  have "\<not> has_jwt (take n (redact_jwts body))" for n
    using has_jwt_prefix [of "take n (redact_jwts body)" "drop n (redact_jwts body)"] redact_no_jwt [of body] by auto
  moreover have "lit ''...'' = [46, 46, 46]" by (simp add: lit_eval)
  ultimately show ?thesis
    using has_jwt_dots [of "take maxBodyPreview (redact_jwts body)"] redact_no_jwt [of body]
    by (auto simp: redactBody_def Let_def)
qed

end
