(* ===== verification/AuthSession.thy ===== *)
theory AuthSession
  imports AuthSample AuthMain AuthFile AuthRedact ParserLife
begin

text \<open>
  auth-worker and parser-worker together: the session that a cycle saved is the one that the board is
  asked with. The message of the gRPC call has the fields of the proto file on both sides.
\<close>

section \<open>The answer the parser takes\<close>

definition cookies_answer :: "grpc_code \<times> ustr + cookies_reply \<Rightarrow> ustr + auth_cookies" where
  "cookies_answer answer = (case answer of Inl (code, message) \<Rightarrow> Inl message
     | Inr r \<Rightarrow> Inr \<lparr>ck_header = cr_header r, ck_status = cr_status r\<rparr>)"

section \<open>Its requests\<close>

abbreviation with_cookie :: "auth_cookies \<Rightarrow> http_request \<Rightarrow> bool" where
  "with_cookie c q \<equiv> hq_headers q = (lit ''cookie'', ck_header c) # HEADERS"

lemma fetch_requests:
  "fetch_pages P cfg f c n first col s = (r, t) \<Longrightarrow>
     \<exists>rs. ps_requests t = ps_requests s @ rs \<and> list_all (with_cookie c) rs \<and> (0 < n \<longrightarrow> rs \<noteq> [])"
proof (induction n arbitrary: first col s)
  case (Suc n)
  obtain p u where b: "board_fetch P cfg f c (co_cursor col) s = (p, u)" by (cases "board_fetch P cfg f c (co_cursor col) s")
  then have u: "ps_requests u = ps_requests s @ [board_request P cfg f c (co_cursor col)]" by (auto simp: board_fetch_def Let_def)
  have q: "with_cookie c (board_request P cfg f c (co_cursor col))" by (simp add: board_request_def)
  show ?case
  proof (cases "\<exists>page. p = Inr page \<and> co_cursor (add_page first page col) \<noteq> None")
    case True
    then obtain page where "p = Inr page" "fetch_pages P cfg f c n False (add_page first page col) u = (r, t)"
      using Suc.prems b by (auto simp: Let_def)
    with Suc.IH [of False "add_page first page col" u] obtain rs where
      "ps_requests t = ps_requests u @ rs" "list_all (with_cookie c) rs" by blast
    then show ?thesis using u q by (intro exI [of _ "board_request P cfg f c (co_cursor col) # rs"]) simp
  next
    case False
    then have "t = u" using Suc.prems b by (auto simp: Let_def split: sum.splits)
    then show ?thesis using u q by (intro exI [of _ "[board_request P cfg f c (co_cursor col)]"]) simp
  qed
qed simp

lemma deliver_requests:
  assumes "decode_request (pw_serde P) bytes = Inr request" and "pw_cookies P (n_cookies x) = Inr c"
    and "parser_deliver P cfg bytes x = (reply, y)"
  shows "\<exists>rs. ps_requests y = ps_requests x @ rs \<and> list_all (with_cookie c) rs \<and> rs \<noteq> []"
proof -
  let ?x = "x\<lparr>n_cookies := Suc (n_cookies x)\<rparr>"
  obtain r u where f: "fetch_pages P cfg (rq_filter request) c (unat (page_limit request)) True nothing_collected ?x = (r, u)"
    by (cases "fetch_pages P cfg (rq_filter request) c (unat (page_limit request)) True nothing_collected ?x")
  have pub: "ps_requests v = ps_requests u" if "publish_result P cfg res u = (w, v)" for res w v
    using that by (auto simp: publish_result_def Let_def split: publish_outcome.splits)
  have "ps_requests y = ps_requests u"
    using assms f pub by (auto simp: parser_deliver_def parser_execute_def get_cookies_def Let_def split: sum.splits prod.splits)
  then show ?thesis using fetch_requests [OF f] page_limit_pos [of request] by auto
qed

section \<open>The session that reaches the board\<close>

lemma positive_difference:
  assumes "0 <s e - now" and "0 \<le> sint e" and "0 \<le> sint (now :: int64)"
  shows "sint now < sint e"
proof -
  have "sint e < 2 ^ 63" "sint now < 2 ^ 63" using sint_lt [of e] sint_lt [of now] by simp_all
  then have "sint (e - now) = sint e - sint now"
    using assms(2,3) by (simp add: sint_word_ariths signed_take_bit_int_eq_self)
  then show ?thesis using assms(1) by (simp add: sless_iff)
qed

lemma pair_in_header: "c \<in> set cs \<Longrightarrow> sublist (ak_name c @ lit ''='' @ ak_value c) (py_join (lit ''; '') (map (\<lambda>c. ak_name c @ lit ''='' @ ak_value c) cs))"
  by (rule sublist_py_join) simp

text \<open>C3. From the refreshed session to the board: when a cycle of auth-worker has succeeded and the parser's call
  for the cookies is answered by it, then every request that the parser makes to the board for a readable
  parse request, and it makes at least one, carries a cookie header with a token of the file that the
  cycle saved. The time left of that token at the cycle's last reading of the clock, just before the save, is
  the one the cycle reports and positive, in the arithmetic of an \<open>int64\<close>; with a clock and an expiry
  after 1970 that reading was before the expiry.\<close>

theorem session_reaches_board:
  assumes "named_cookies A" and "RefreshAuth_Execute A acfg s = (Inr r, t)"
    and "aw_lock A (as_locks t) = None" and "aw_read A (as_reads t) = None"
    and "pw_cookies P (n_cookies x) = cookies_answer (fst (serve_cookies A acfg t))"
    and "decode_request (pw_serde P) bytes = Inr request" and "parser_deliver P cfg bytes x = (reply, y)"
  shows "\<exists>token e header rs. as_clock s < as_clock t \<and> DecodeJWTExp (aw_lib A) token = Some e \<and>
    rf_ttl_after r = e - aw_now A (as_clock t - 1) \<and> 0 <s rf_ttl_after r \<and>
    (0 \<le> sint e \<and> 0 \<le> sint (aw_now A (as_clock t - 1)) \<longrightarrow> sint (aw_now A (as_clock t - 1)) < sint e) \<and>
    (\<exists>j url. as_file t = Some (saved_text (aw_lib A) j url) \<and>
      (\<exists>c \<in> set j. ak_name c = lit ''prfr_bo_tkn'' \<and> ak_value c = token)) \<and>
    sublist (lit ''prfr_bo_tkn='' @ token) header \<and> rs \<noteq> [] \<and> ps_requests y = ps_requests x @ rs \<and>
    (\<forall>q \<in> set rs. (lit ''cookie'', header) \<in> set (hq_headers q))"
proof -
  let ?now = "aw_now A (as_clock t - 1)"
  from serve_saved [OF assms(1-4)] obtain answer u e j url c d where a: "serve_cookies A acfg t = (Inr answer, u)"
      "as_clock s < as_clock t" "rf_ttl_after r = e - ?now" "0 <s rf_ttl_after r"
      "cr_header answer = py_join (lit ''; '') (map (\<lambda>c. ak_name c @ lit ''='' @ ak_value c) (cr_cookies answer))"
      "as_file t = Some (saved_text (aw_lib A) j url)" "c \<in> set (cr_cookies answer)" "d \<in> set j" "IsTokenCookie (ak_name c)"
      "ak_name d = ak_name c" "ak_value d = ak_value c" "DecodeJWTExp (aw_lib A) (ak_value c) = Some e"
    by (elim exE conjE bexE) (rule that)
  have name: "ak_name c = lit ''prfr_bo_tkn''" using a(9) by simp
  have "lit ''prfr_bo_tkn='' @ ak_value c = ak_name c @ lit ''='' @ ak_value c" by (simp add: name flip: lit_append)
  then have h: "sublist (lit ''prfr_bo_tkn='' @ ak_value c) (cr_header answer)"
    using pair_in_header [OF a(7)] a(5) by simp
  have saved: "\<exists>j url. as_file t = Some (saved_text (aw_lib A) j url) \<and>
      (\<exists>b \<in> set j. ak_name b = lit ''prfr_bo_tkn'' \<and> ak_value b = ak_value c)"
    using a(6,8,10,11) name by (intro exI [of _ j] exI [of _ url] conjI bexI [of _ d]) simp_all
  have "pw_cookies P (n_cookies x) = Inr \<lparr>ck_header = cr_header answer, ck_status = cr_status answer\<rparr>"
    using assms(5) a(1) by (simp add: cookies_answer_def)
  from deliver_requests [OF assms(6) this assms(7)] obtain rs where rs: "ps_requests y = ps_requests x @ rs" "rs \<noteq> []"
      "list_all (with_cookie \<lparr>ck_header = cr_header answer, ck_status = cr_status answer\<rparr>) rs" by blast
  then have "\<forall>q \<in> set rs. (lit ''cookie'', cr_header answer) \<in> set (hq_headers q)" by (simp add: list_all_iff)
  moreover have "0 \<le> sint e \<and> 0 \<le> sint ?now \<longrightarrow> sint ?now < sint e"
    using a(3,4) positive_difference [of e ?now] by simp
  ultimately show ?thesis using a(2-4,12) h rs(1,2) saved
    by - (rule exI [of _ "ak_value c"], rule exI [of _ e], rule exI [of _ "cr_header answer"], rule exI [of _ rs], simp)
qed

text \<open>The parser does not look at the status: with a dead session it asks the board all the same.\<close>

lemma dead_session_used:
  assumes "decode_request (pw_serde P) bytes = Inr request" and "pw_cookies P (n_cookies x) = Inr c"
    and "ck_status c = lit ''requires_login''" and "parser_deliver P cfg bytes x = (reply, y)"
  shows "length (ps_requests x) < length (ps_requests y)"
  using deliver_requests [OF assms(1,2,4)] by auto

section \<open>An example\<close>

lemma sample_decodes: "\<exists>request. decode_request strict_serde (Inr (to_parse_request sample_command)) = Inr request"
proof -
  have "fits_u32 (Some (bf_page_size (pc_filter sample_command)))" "fits_u32 (pc_max_pages sample_command)"
    by (simp_all add: fits_u32_def sample_command_def BoardFilter_def)
  then show ?thesis using scheduled_request [OF serde_ok_strict, of sample_command] by (simp add: decode_request_def)
qed

theorem session_reaches_board_witness:
  "\<exists>t y rs header. parser_deliver (sample_parser\<lparr>pw_cookies := \<lambda>_. cookies_answer (fst (serve_cookies (auth_sample_world touch_ok) auth_sample_config t))\<rparr>)
       default_parser_config (Inr (to_parse_request sample_command)) parser_start = y \<and>
     rs \<noteq> [] \<and> ps_requests (snd y) = rs \<and> (\<forall>q \<in> set rs. (lit ''cookie'', header) \<in> set (hq_headers q))"
proof -
  let ?A = "auth_sample_world touch_ok"
  obtain r t where r: "RefreshAuth_Execute ?A auth_sample_config auth_sample_state = (Inr r, t)" using auth_sample_renews by blast
  let ?P = "sample_parser\<lparr>pw_cookies := \<lambda>_. cookies_answer (fst (serve_cookies ?A auth_sample_config t))\<rparr>"
  obtain request where d: "decode_request (pw_serde ?P) (Inr (to_parse_request sample_command)) = Inr request"
    using sample_decodes by (auto simp: sample_parser_def)
  obtain reply y where y: "parser_deliver ?P default_parser_config (Inr (to_parse_request sample_command)) parser_start = (reply, y)"
    by (cases "parser_deliver ?P default_parser_config (Inr (to_parse_request sample_command)) parser_start")
  have ok: "aw_lock ?A (as_locks t) = None" "aw_read ?A (as_reads t) = None" by (simp_all add: auth_sample_world_def)
  have "ps_requests parser_start = []" by (simp add: parser_start_def)
  with session_reaches_board [OF auth_sample_named(2) r ok _ d y] obtain header rs where "rs \<noteq> []" "ps_requests y = rs"
      "\<forall>q \<in> set rs. (lit ''cookie'', header) \<in> set (hq_headers q)" by auto
  with y show ?thesis by (intro exI [of _ t]) auto
qed

end
