(* ===== verification/Spec2Isabelle.thy ===== *)
theory Spec2Isabelle
  imports ParserMain Board NotifyApp Apps CoreConcSerial CoreRelays CoreMigrate LlmPorts AuthSession
begin

text \<open>
  A verification development for profi-notifications, a pipeline that finds orders on Profi.ru, lets a
  language model judge them against the profile of a contractor, and notifies about the good ones on
  Telegram.

  \<^bold>\<open>The program.\<close> Six services talk over RabbitMQ. scheduler publishes a parse
  request per interval on parse.requests; parser-worker, with a session that auth-worker keeps alive and
  hands out over gRPC, answers with batches of orders on parse.results; order-core-service stores them
  and publishes each new one on assess.requests; llm assesses it and publishes a verdict with a ready
  text on assess.results when the order is worth it; order-core-service applies the verdict and
  publishes the text on the exchange notifications, where notifications sends it to Telegram. Modelled
  are the three services in Python (order-core-service/app, llm/app, scheduler/app), parser-worker/src
  in Rust, notifications/src in TypeScript and auth-worker in Go.

  \<^bold>\<open>How code is modelled.\<close> Text is a list of code points (\<open>ustr\<close>),
  Python's integers are \<open>int\<close>, floats are their 64 bits, uuids of the scheduler are
  \<open>128 word\<close>, JSON is the datatype \<open>json\<close>. An action is a function from a
  state to a result and a state; the result is \<open>Inl\<close> an exception (\<open>exn\<close>, the
  classes the code tells apart) or \<open>Inr\<close> a value, and the state survives an exception, as
  in Python. States are records: \<open>runtime\<close> (entries logged, messages handed to the broker),
  extended by \<open>pg\<close> (committed tables, the session's working copy, counters),
  \<open>llm_state\<close> (calls of the model) and \<open>scheduler_state\<close> (metrics). What is
  not under src/ is a parameter: \<open>pg_env\<close> says which statement, commit, rollback or close
  of the session fails (a failing commit may have been applied), which rows are locked, which uuids are
  drawn; \<open>bus_env\<close> which publication fails (the message may have got through);
  \<open>llm_world\<close> what the model answers or raises at each call; \<open>pydantic\<close> which
  values other than the plain ones pydantic coerces. The named hypothesis \<open>pydantic_ok\<close>
  says it accepts a value of the declared type as it is; \<open>serde_ok\<close> and
  \<open>zod_ok\<close> say the same of the readers in Rust and in TypeScript, \<open>zod_safe\<close>
  that the latter takes no integer beyond the safe ones, and \<open>broker_ok\<close> what RabbitMQ and
  its client make of a delivery's outcome. \<open>parser_world\<close> and \<open>tg_world\<close> say
  what the cookie service, the board, Telegram and the broker answer, \<open>auth_world\<close> what the
  clock, the lock, the disk and the site do at each call. The integers of the Rust and the Go code are
  words of their width; in the TypeScript the \<open>Inl\<close> is what is thrown, in the Go code the
  error returned.

  \<^bold>\<open>Theories.\<close> Prelude: results, actions, loops, a Hoare logic for actions and its
  rules. PyText, PyJoin: the string methods and \<open>html.escape\<close> the code calls. Json:
  documents and field readers. UrlQuote: \<open>urllib.parse.quote\<close>. Logging:
  observability/logging.py. Runtime: queues, publishers, log, publish. Settings: the three
  infrastructure/config/settings.py.

  order-core-service: CoreDomain (domain/, application/dto.py, messages and mapping of
  infrastructure/messaging), WireOrder (the order's schema), CoreDb (db/models.py, repositories.py,
  unit_of_work.py, outbox_dispatch.py as statements on tables), CoreDbFacts (the abstraction of the
  tables to maps, the effect of each statement), CoreUseCases (ports.py, ingest_orders.py,
  process_assessment.py, their abstract specification, and the locales of the ports), CoreSql (the unit
  of work interprets them), CoreProps and CoreTheorems (refinement, atomicity, invariant, life cycle),
  CoreRelay (relay_outbox.py and the locales of the dispatch and the publisher), CoreDispatch (their
  interpretation, outbox/relay.py, event_publisher.py), CoreMessaging (reliability.py, subscribers.py,
  broker.py, main.py), CoreLive (progress on a healthy database).

  Several messages at once: CoreProg (the two handlers as programs that pause at every await, shown
  equal to the handlers), CoreConcurrent (transactions with their uncommitted rows, and the step
  relation of their statements at READ COMMITTED, of commits, rollbacks and the relay's marks),
  CoreConcProps (uncommitted rows do not collide), CoreConcLink (what a batch or a verdict makes of the
  tables it finds at its commit), CoreConcTheorems (the invariant of every interleaving), CoreConcSerial
  (the runs with the lookups made so far, and how far they are serial), CoreRelays (a poll as such a
  program, and the passes of several relays beside the handlers, with the rows each has locked).

  Schema and life of the core: CoreSchema (db/models.py and alembic/versions/0001_init.py as data, run
  on a schema, and the rows that fit it), CoreMigrate (alembic/env.py, with the interpolation of
  \<open>configparser\<close>), CoreLife (start and stop of outbox/relay.py and the hooks of main.py).

  llm: LlmDomain (domain/), LlmText (the notification text), LlmPrompts (prompts.py), LlmWire
  (schemas.py, mapping.py and the contracts with order-core-service), LlmService (openai_assessor.py,
  assess_orders.py, subscriber.py, broker.py, main.py), LlmTheorems, LlmPorts (the use case over the
  ports of application/ports.py, with the locale of what they promise), LlmProfile (profile.py).

  parser-worker: ParserDomain (domain/, amqp/codec.rs, profi/dto.rs and mapping.rs), ParserService
  (profi/mod.rs and request.rs, auth/mod.rs, process_request.rs, amqp/publisher.rs and consumer.rs,
  config.rs), ParserTheorems (the specification of the pages, the effect of every run), ParserLife (its
  contracts with the scheduler and core) and ParserMain (main.rs).

  notifications: NotifyDomain (domain/, the decision, the logger, the metrics), NotifyService
  (send-notification.ts, telegram-sender.ts), NotifyMessaging (message-schema.ts, retry.ts, topology.ts,
  consumer.ts), NotifyTheorems (the locale of the sender's port, the handler proved over it, the
  interpretation by the Telegram adapter), NotifyBroker (the queues of the topology as a pool of
  messages and the steps that move them), NotifyLife (what becomes of a message), NotifyApp (config.ts,
  server.ts, main.ts).

  auth-worker: AuthDomain (internal/domain), AuthStore (adapter/cookiefile), AuthRefresh
  (adapter/httprenew, the use cases, the gRPC server), AuthFacts (jars and tokens, the file read back),
  AuthTheorems (what a cycle leaves, the steps of cycles and calls), AuthLife (the locale of the cookie
  store, interpreted by the file), AuthFile (platform/atomicjson, adapter/statusfile), AuthRedact
  (redact.go), AuthMain (platform/config, cmd/auth-worker), AuthSample (examples) and AuthSession
  (auth-worker and parser-worker together).

  scheduler: Scheduler. ServiceCopies: the copies of the broker settings and of the logger in llm and
  scheduler. Asgi and Apps: the three main.py and asgi.py, their routes, starts and stops. All together:
  Pipeline (core and llm joined by a broker that repeats and reorders messages, its reachable states and
  their invariant), Delivery (one order through core and llm), Telegram (the notification between core
  and the Bot API) and Board (from a tick of the scheduler, through all five services, to the chat).

  \<^bold>\<open>What is shown.\<close> The handlers of core refine an abstract specification on two
  maps, \<open>spec_ingest\<close> and \<open>spec_process\<close>: what they store when they return,
  that they are atomic when they raise, that redelivery and repeated verdicts change nothing, and the
  invariant that links orders, scores and outbox events. The relay sends at least once, marks nothing it
  has not sent, loses nothing and drains the outbox. The subscribers acknowledge a message only when it
  was dealt with. The text of a notification fits Telegram's limit, keeps its frame and gets no markup
  from the title, the summary or the budget of an order. A batch of llm keeps every order that failed
  transiently and, whatever fails, sends at most one verdict for each listing, in their order. The
  contracts of the two services agree, so that core never meets a verdict of an order it does not know,
  and every text on the notifications exchange is that of a stored order whose assessment, made of an
  answer the model gave in that run, clears the threshold with no unsupported skill and no rejected
  type; and with everything working a suitable order does reach it.

  The parser collects the pages of the board in a chain, keeps exactly the snippets, acknowledges a
  request only when its result was handed to the channel, and core reads that result back order by
  order; the scheduler's requests are what it reads. In notifications a published message is, whatever
  fails, waiting, a dead letter, or accepted by Telegram; when dead letters are confirmed it is settled
  within a number of steps given by the limit of attempts; every text of llm is valid there, and of the
  notifications core may publish those are read that have no topic or a positive safe one; and nothing
  is consumed before the topology is declared. A new suitable order on the board ends in exactly one
  request to the Bot API.

  In auth-worker the session file can be read at every moment, only a jar with a living token is ever
  written to it, a file is replaced whole or not at all, a jar read back is the one written, the time
  left is exact while it fits an \<open>int64\<close>, and no token reaches the log. The session that a
  cycle saved is the one that the parser asks the board with.

  Over all interleavings of overlapping handlers: the tables keep their constraints, each commit is one
  step of the specification on the tables committed by then, but for that of a verdict whose order was
  decided between its lookup and its commit, and orders and outbox stay linked while the verdicts for
  one order agree; that two that disagree break the link is a theorem too, and so is that it takes a
  threshold above some delivered score. Of any number of relays no two hold a row together, a row they
  mark was sent, and it is sent again only for a pass that was broken off. The upgrade creates what the
  models declare, and every row the handlers ever store fits the columns and keys it created. Stopping
  the poller terminates, when a cancelled poll passes the cancellation on. A few theorems state where
  the code falls short of its documents: a score out of range, a very long identifier, price or title, a
  verdict whose publication fails, verdicts that race, credentials that need percent-encoding in a
  migration, a cancellation lost to a failing rollback, requests lost while there is no session, a page
  limit of more than 32 bits, a dead letter exchange that is out of reach, a blank topic variable, a
  topic of zero, an identifier with markup in it, a body that is no JSON object, results published
  without confirmation, a renewal lost to a refused touch, a dead session used all the same, and an
  interval that wraps around.

  \<^bold>\<open>Fuel.\<close> Two loops of the program are endless. \<open>run_forever\<close> counts
  the turns of the polling loop, and \<open>relay_drains\<close> gives a number of turns that is enough;
  \<open>runLoop\<close> counts the cycles of auth-worker, and \<open>loop_stops\<close> says that those
  up to the signal are enough. \<open>redact_jwts\<close> terminates by the length of the text;
  \<open>life_step\<close> is a relation and needs none. \<open>interpolate\<close> of CoreMigrate
  carries the ten levels that configparser itself allows, and terminates by them and the length of the
  text. The parser's loop recurses on the pages still allowed, \<open>calm_step\<close> is a relation
  whose runs are shown bounded. Every other recursion is structural.

  \<^bold>\<open>Not modelled.\<close> In Pipeline and Delivery a handler or a poll runs to its end
  before the next begins; the interleavings of the core are in CoreConcurrent, where a poll of the relay
  appears as the commit of its marks, and in CoreRelays, where it is taken apart as well. Locks are
  granted or not there: a step that has to wait is no step, and a deadlock shows as the rollback that
  breaks it. The lock of the cookie file is granted or refused at each call of auth-worker, whose cycles
  and calls follow one another. What FastStream, uvicorn, SQLAlchemy, alembic, langchain and taskiq do
  inside, nor lapin, reqwest, tonic, rabbitmq-client, Bun, net/http and gRPC in Go; how the Python
  settings are read from the environment. The text of the error for a session used outside its block,
  which no handler can reach, is one for both classes. The bytes of a JSON text: a document is what its
  reader makes of it. The tracing and the heartbeat file of parser-worker, and a signal that stops it
  while it works on a delivery. Of auth-worker the log, but for the preview of a body, and the code
  generated from the proto file; SHA-256, the reading of a token's claims and the conversions of floats
  are parameters (\<open>auth_lib\<close>).
\<close>

end
